(* ===== verification/Odbc_Prelude.thy ===== *)
theory Odbc_Prelude
  imports Main "HOL-Library.Word" "HOL-Library.Char_ord"
begin

text \<open>
  Shared ground of the development: the collections the component proofs feed to the simplifier,
  the client's byte-addressed memory (ODBC hands the driver raw pointers), the C integer
  conversions written out as wrap-around, and generic lemmas on lists and on the two sum
  constructors that stand for error and success.
\<close>

named_theorems unit_simps \<open>reading words as natural numbers\<close>
named_theorems mem_simps \<open>loads and stores\<close>
named_theorems handler_simps \<open>unfolding of the driver's handlers\<close>

unbundle bit_operations_syntax

section \<open>Errors as values\<close>

fun bind_sum :: "'e + 'a \<Rightarrow> ('a \<Rightarrow> 'e + 'b) \<Rightarrow> 'e + 'b" where
  "bind_sum (Inl e) f = Inl e" |
  "bind_sum (Inr a) f = f a"

lemma bind_sum_Inr_iff [simp]: "bind_sum m f = Inr b \<longleftrightarrow> (\<exists>a. m = Inr a \<and> f a = Inr b)"
  by (cases m) auto

lemma bind_sum_assoc: "bind_sum (bind_sum m f) g = bind_sum m (\<lambda>x. bind_sum (f x) g)"
  by (cases m) auto

section \<open>C integer conversions\<close>

text \<open>Conversion of an integer to a signed or unsigned C type of the given width.\<close>

definition wrap_s :: "nat \<Rightarrow> int \<Rightarrow> int" where
  "wrap_s w i = (let m = i mod 2 ^ w in if m < 2 ^ (w - 1) then m else m - 2 ^ w)"

definition wrap_u :: "nat \<Rightarrow> int \<Rightarrow> int" where
  "wrap_u w i = i mod 2 ^ w"

definition in_s :: "nat \<Rightarrow> int \<Rightarrow> bool" where
  "in_s w i \<longleftrightarrow> - (2 ^ (w - 1)) \<le> i \<and> i < 2 ^ (w - 1)"

definition in_u :: "nat \<Rightarrow> int \<Rightarrow> bool" where
  "in_u w i \<longleftrightarrow> 0 \<le> i \<and> i < 2 ^ w"

lemma wrap_u_id [simp]: "in_u w i \<Longrightarrow> wrap_u w i = i"
  by (simp add: wrap_u_def in_u_def)

lemma in_u_wrap_u [simp]: "in_u w (wrap_u w i)"
  by (simp add: wrap_u_def in_u_def)

lemma pow_split: "0 < w \<Longrightarrow> (2::int) ^ w = 2 * 2 ^ (w - 1)"
  by (cases w) auto

lemma wrap_s_id [simp]: "0 < w \<Longrightarrow> in_s w i \<Longrightarrow> wrap_s w i = i"
proof -
  assume w: "0 < w" and i: "in_s w i"
  have p: "(2::int) ^ w = 2 * 2 ^ (w - 1)" using w by (rule pow_split)
  show ?thesis
  proof (cases "0 \<le> i")
    case True
    then show ?thesis using i p by (simp add: wrap_s_def in_s_def Let_def)
  next
    case False
    then have "(i + 2 ^ w) mod 2 ^ w = i + 2 ^ w"
      using i p by (intro mod_pos_pos_trivial) (auto simp: in_s_def)
    then have "i mod 2 ^ w = i + 2 ^ w" by simp
    then show ?thesis using False i p by (simp add: wrap_s_def in_s_def Let_def)
  qed
qed

lemma in_s_wrap_s: "0 < w \<Longrightarrow> in_s w (wrap_s w i)"
proof -
  assume w: "0 < w"
  have p: "(2::int) ^ w = 2 * 2 ^ (w - 1)" using w by (rule pow_split)
  have "0 \<le> i mod 2 ^ w" "i mod 2 ^ w < 2 ^ w" "(0::int) < 2 ^ (w - 1)" by simp_all
  then show ?thesis unfolding wrap_s_def in_s_def Let_def using p by (smt (verit))
qed

lemma in_s_0 [simp]: "in_s w 0"
  by (simp add: in_s_def)

lemma wrap_u_nonneg [simp]: "0 \<le> wrap_u w i"
  by (simp add: wrap_u_def)

lemma wrap_u_less: "wrap_u w i < 2 ^ w"
  by (simp add: wrap_u_def)

section \<open>The client's memory\<close>

text \<open>
  Addresses are integers, the null pointer is 0, a byte is a character. Multi-byte integers are
  little-endian, as on the platforms the driver is built for.
\<close>

type_synonym addr = int
type_synonym mem = "addr \<Rightarrow> char"

abbreviation (input) nullptr :: addr where "nullptr \<equiv> 0"

definition store_bytes :: "addr \<Rightarrow> char list \<Rightarrow> mem \<Rightarrow> mem" where
  "store_bytes a bs m = (\<lambda>x. if a \<le> x \<and> x < a + int (length bs) then bs ! nat (x - a) else m x)"

definition load_bytes :: "addr \<Rightarrow> nat \<Rightarrow> mem \<Rightarrow> char list" where
  "load_bytes a n m = map (\<lambda>i. m (a + int i)) [0..<n]"

fun le_encode :: "nat \<Rightarrow> int \<Rightarrow> char list" where
  "le_encode 0 v = []" |
  "le_encode (Suc n) v = char_of (nat (v mod 256)) # le_encode n (v div 256)"

fun le_decode :: "char list \<Rightarrow> int" where
  "le_decode [] = 0" |
  "le_decode (c # cs) = int (of_char c) + 256 * le_decode cs"

text \<open>Storing and loading an integer of \<^verbatim>\<open>n\<close> bytes; \<^verbatim>\<open>load_s\<close> reads it as signed.\<close>

definition store_int :: "nat \<Rightarrow> addr \<Rightarrow> int \<Rightarrow> mem \<Rightarrow> mem" where
  "store_int n a v m = store_bytes a (le_encode n v) m"

definition load_u :: "nat \<Rightarrow> addr \<Rightarrow> mem \<Rightarrow> int" where
  "load_u n a m = le_decode (load_bytes a n m)"

definition load_s :: "nat \<Rightarrow> addr \<Rightarrow> mem \<Rightarrow> int" where
  "load_s n a m = wrap_s (8 * n) (load_u n a m)"

text \<open>\<^verbatim>\<open>if (ptr) *ptr = v;\<close>\<close>

definition store_opt :: "nat \<Rightarrow> addr \<Rightarrow> int \<Rightarrow> mem \<Rightarrow> mem" where
  "store_opt n a v m = (if a \<noteq> nullptr then store_int n a v m else m)"

lemma length_le_encode [simp]: "length (le_encode n v) = n"
  by (induction n v rule: le_encode.induct) auto

lemma length_load_bytes [simp]: "length (load_bytes a n m) = n"
  by (simp add: load_bytes_def)

lemma of_char_of_nat: "(of_char (char_of (n::nat)) :: nat) = n mod 256"
  by simp

lemma le_decode_encode [mem_simps]: "le_decode (le_encode n v) = v mod 256 ^ n"
proof (induction n v rule: le_encode.induct)
  case (2 n v)
  have "v mod (256 * 256 ^ n) = 256 * (v div 256 mod 256 ^ n) + v mod 256"
    by (simp add: zmod_zmult2_eq)
  then show ?case using 2 by simp
qed simp

lemma load_store_bytes [mem_simps]: "load_bytes a (length bs) (store_bytes a bs m) = bs"
  by (auto simp: load_bytes_def store_bytes_def intro: nth_equalityI)

lemma load_store_same [mem_simps]: "n = length bs \<Longrightarrow> load_bytes a n (store_bytes a bs m) = bs"
  by (simp add: load_store_bytes)

lemma load_store_disjoint [mem_simps]:
  "b + int n \<le> a \<or> a + int (length bs) \<le> b \<Longrightarrow> load_bytes b n (store_bytes a bs m) = load_bytes b n m"
  by (auto simp: load_bytes_def store_bytes_def)

lemma store_bytes_outside [mem_simps]:
  "x < a \<or> a + int (length bs) \<le> x \<Longrightarrow> store_bytes a bs m x = m x"
  by (auto simp: store_bytes_def)

lemma store_bytes_Nil [simp]: "store_bytes a [] m = m"
  by (auto simp: store_bytes_def fun_eq_iff)

lemma load_store_u [mem_simps]: "load_u n a (store_int n a v m) = v mod 256 ^ n"
  by (simp add: load_u_def store_int_def mem_simps)

lemma pow256: "(256::int) ^ n = 2 ^ (8 * n)"
  by (simp add: power_mult)

lemma wrap_s_mod: "0 < w \<Longrightarrow> wrap_s w (v mod 2 ^ w) = wrap_s w v"
  by (simp add: wrap_s_def)

lemma load_store_s [mem_simps]: "0 < n \<Longrightarrow> in_s (8 * n) v \<Longrightarrow> load_s n a (store_int n a v m) = v"
  by (simp add: load_s_def load_store_u pow256 wrap_s_mod)

lemma load_store_int_disjoint [mem_simps]:
  "b + int k \<le> a \<or> a + int n \<le> b \<Longrightarrow> load_u k b (store_int n a v m) = load_u k b m"
  "b + int k \<le> a \<or> a + int n \<le> b \<Longrightarrow> load_s k b (store_int n a v m) = load_s k b m"
  by (simp_all add: load_u_def load_s_def store_int_def load_store_disjoint)

section \<open>The interface of a byte store\<close>

text \<open>
  What the handlers rely on when they answer through a pointer: what was stored is read back, and
  a store elsewhere does not change it.
\<close>

locale byte_store =
  fixes put :: "addr \<Rightarrow> char list \<Rightarrow> 'm \<Rightarrow> 'm"
    and get :: "addr \<Rightarrow> nat \<Rightarrow> 'm \<Rightarrow> char list"
  assumes get_put: "get a (length bs) (put a bs m) = bs"
    and get_put_other: "b + int n \<le> a \<or> a + int (length bs) \<le> b \<Longrightarrow> get b n (put a bs m) = get b n m"
begin

lemma get_put_int: "le_decode (get a n (put a (le_encode n v) m)) = v mod 256 ^ n"
  using get_put[of a "le_encode n v" m] by (simp add: le_decode_encode)

text \<open>A value and its length in two disjoint cells.\<close>

lemma get_put_both:
  assumes "b + int (length cs) \<le> a \<or> a + int (length bs) \<le> b"
  shows "get a (length bs) (put b cs (put a bs m)) = bs"
    and "get b (length cs) (put b cs (put a bs m)) = cs"
  using get_put get_put_other[of a "length bs" b cs] assms by auto

end

interpretation client: byte_store store_bytes load_bytes
  by unfold_locales (simp_all add: mem_simps)

end
