(* ===== verification/Utf8.thy ===== *)
theory Utf8
  imports Odbc_Prelude
begin

text \<open>
  The UTF-8/UTF-16 primitives the driver takes from utf8-cpp
  (\<^verbatim>\<open>third_party/utf8/core.h\<close>, \<^verbatim>\<open>checked.h\<close>, \<^verbatim>\<open>unchecked.h\<close>). Code units are words of
  their width; an iterator is the suffix of the input it points at, so that
  \<^verbatim>\<open>it == end\<close> is the empty list. An \<^verbatim>\<open>utf_error\<close> is the left summand of a result.
  The locale \<^verbatim>\<open>unit_codec\<close> states what a self-delimiting code of code points promises; UTF-8
  and UTF-16 as coded interpret it.
\<close>

type_synonym octet = "8 word"
type_synonym unit16 = "16 word"
type_synonym code_point = "32 word"

section \<open>core.h: classification\<close>

definition is_trail :: "octet \<Rightarrow> bool" where
  "is_trail oc \<longleftrightarrow> drop_bit 6 oc = 0x2"

definition is_lead_surrogate :: "code_point \<Rightarrow> bool" where
  "is_lead_surrogate cp \<longleftrightarrow> cp \<ge> 0xd800 \<and> cp \<le> 0xdbff"

definition is_trail_surrogate :: "code_point \<Rightarrow> bool" where
  "is_trail_surrogate cp \<longleftrightarrow> cp \<ge> 0xdc00 \<and> cp \<le> 0xdfff"

definition is_surrogate :: "code_point \<Rightarrow> bool" where
  "is_surrogate cp \<longleftrightarrow> cp \<ge> 0xd800 \<and> cp \<le> 0xdfff"

definition SURROGATE_OFFSET :: code_point where
  "SURROGATE_OFFSET = 0xfca02400"

definition LEAD_OFFSET :: code_point where
  "LEAD_OFFSET = 0xd7c0"

definition is_code_point_valid :: "code_point \<Rightarrow> bool" where
  "is_code_point_valid cp \<longleftrightarrow> cp \<le> 0x0010ffff \<and> \<not> is_surrogate cp"

definition sequence_length :: "octet \<Rightarrow> nat" where
  "sequence_length lead =
     (if lead < 0x80 then 1
      else if drop_bit 5 lead = 0x6 then 2
      else if drop_bit 4 lead = 0xe then 3
      else if drop_bit 3 lead = 0x1e then 4
      else 0)"

definition is_overlong_sequence :: "code_point \<Rightarrow> nat \<Rightarrow> bool" where
  "is_overlong_sequence cp len =
     (if cp < 0x80 then len \<noteq> 1
      else if cp < 0x800 then len \<noteq> 2
      else if cp < 0x10000 then len \<noteq> 3
      else False)"

section \<open>core.h: decoding one sequence\<close>

datatype utf_error =
  NOT_ENOUGH_ROOM | INVALID_LEAD | INCOMPLETE_SEQUENCE | OVERLONG_SEQUENCE | INVALID_CODE_POINT

definition increase_safely :: "octet list \<Rightarrow> utf_error + octet list" where
  "increase_safely it = (case tl it of
       [] \<Rightarrow> Inl NOT_ENOUGH_ROOM
     | b # _ \<Rightarrow> if \<not> is_trail b then Inl INCOMPLETE_SEQUENCE else Inr (tl it))"

definition get_sequence_1 :: "octet list \<Rightarrow> utf_error + (code_point \<times> octet list)" where
  "get_sequence_1 it = (case it of [] \<Rightarrow> Inl NOT_ENOUGH_ROOM | b # _ \<Rightarrow> Inr (ucast b, it))"

definition get_sequence_2 :: "octet list \<Rightarrow> utf_error + (code_point \<times> octet list)" where
  "get_sequence_2 it = (case it of [] \<Rightarrow> Inl NOT_ENOUGH_ROOM | b # _ \<Rightarrow>
     let cp = ucast b :: code_point in
     bind_sum (increase_safely it) (\<lambda>it.
     Inr ((push_bit 6 cp AND 0x7ff) + (ucast (hd it) AND 0x3f), it)))"

definition get_sequence_3 :: "octet list \<Rightarrow> utf_error + (code_point \<times> octet list)" where
  "get_sequence_3 it = (case it of [] \<Rightarrow> Inl NOT_ENOUGH_ROOM | b # _ \<Rightarrow>
     let cp = ucast b :: code_point in
     bind_sum (increase_safely it) (\<lambda>it.
     let cp = (push_bit 12 cp AND 0xffff) + (push_bit 6 (ucast (hd it)) AND 0xfff) in
     bind_sum (increase_safely it) (\<lambda>it.
     Inr (cp + (ucast (hd it) AND 0x3f), it))))"

definition get_sequence_4 :: "octet list \<Rightarrow> utf_error + (code_point \<times> octet list)" where
  "get_sequence_4 it = (case it of [] \<Rightarrow> Inl NOT_ENOUGH_ROOM | b # _ \<Rightarrow>
     let cp = ucast b :: code_point in
     bind_sum (increase_safely it) (\<lambda>it.
     let cp = (push_bit 18 cp AND 0x1fffff) + (push_bit 12 (ucast (hd it)) AND 0x3ffff) in
     bind_sum (increase_safely it) (\<lambda>it.
     let cp = cp + (push_bit 6 (ucast (hd it)) AND 0xfff) in
     bind_sum (increase_safely it) (\<lambda>it.
     Inr (cp + (ucast (hd it) AND 0x3f), it)))))"

text \<open>The switch on the length of the sequence (a length of 0 has been refused before).\<close>

definition get_sequence :: "nat \<Rightarrow> octet list \<Rightarrow> utf_error + (code_point \<times> octet list)" where
  "get_sequence len it =
     (if len = 1 then get_sequence_1 it
      else if len = 2 then get_sequence_2 it
      else if len = 3 then get_sequence_3 it
      else get_sequence_4 it)"

text \<open>On failure the caller's iterator keeps its value: the left summand carries no iterator.\<close>

definition validate_next :: "octet list \<Rightarrow> utf_error + (code_point \<times> octet list)" where
  "validate_next it = (if it = [] then Inl NOT_ENOUGH_ROOM else
     let len = sequence_length (hd it) in
     if len = 0 then Inl INVALID_LEAD else
     bind_sum (get_sequence len it) (\<lambda>(cp, it').
          if is_code_point_valid cp then
            if \<not> is_overlong_sequence cp len then Inr (cp, tl it')
            else Inl OVERLONG_SEQUENCE
          else Inl INVALID_CODE_POINT))"

section \<open>core.h: encoding one code point\<close>

definition utf8_append :: "code_point \<Rightarrow> octet list" where
  "utf8_append cp =
     (if cp < 0x80 then [ucast cp]
      else if cp < 0x800 then
        [ucast (drop_bit 6 cp OR 0xc0),
         ucast ((cp AND 0x3f) OR 0x80)]
      else if cp < 0x10000 then
        [ucast (drop_bit 12 cp OR 0xe0),
         ucast ((drop_bit 6 cp AND 0x3f) OR 0x80),
         ucast ((cp AND 0x3f) OR 0x80)]
      else
        [ucast (drop_bit 18 cp OR 0xf0),
         ucast ((drop_bit 12 cp AND 0x3f) OR 0x80),
         ucast ((drop_bit 6 cp AND 0x3f) OR 0x80),
         ucast ((cp AND 0x3f) OR 0x80)])"

section \<open>core.h: finding and replacing invalid sequences\<close>

lemma increase_safely_tl: "increase_safely it = Inr it' \<Longrightarrow> it' = tl it \<and> it' \<noteq> []"
  by (auto simp: increase_safely_def split: list.splits if_splits)

lemma get_sequence_shorter:
  "get_sequence_1 it = Inr (c, it') \<Longrightarrow> length it' \<le> length it \<and> it' \<noteq> []"
  "get_sequence_2 it = Inr (c, it') \<Longrightarrow> length it' \<le> length it \<and> it' \<noteq> []"
  "get_sequence_3 it = Inr (c, it') \<Longrightarrow> length it' \<le> length it \<and> it' \<noteq> []"
  "get_sequence_4 it = Inr (c, it') \<Longrightarrow> length it' \<le> length it \<and> it' \<noteq> []"
  unfolding get_sequence_1_def get_sequence_2_def get_sequence_3_def get_sequence_4_def Let_def
  by (auto split: list.splits dest!: increase_safely_tl)

lemma validate_next_shorter:
  "validate_next it = Inr (c, r) \<Longrightarrow> length r < length it"
proof -
  assume "validate_next it = Inr (c, r)"
  then obtain it' where "get_sequence (sequence_length (hd it)) it = Inr (c, it')" and r: "r = tl it'"
    by (auto simp: validate_next_def Let_def split: if_splits)
  then have g: "get_sequence_1 it = Inr (c, it') \<or> get_sequence_2 it = Inr (c, it') \<or>
      get_sequence_3 it = Inr (c, it') \<or> get_sequence_4 it = Inr (c, it')"
    by (auto simp: get_sequence_def split: if_splits)
  from g have "length it' \<le> length it \<and> it' \<noteq> []" using get_sequence_shorter by blast
  then show ?thesis using r by (cases it') auto
qed

function find_invalid :: "octet list \<Rightarrow> octet list" where
  "find_invalid result = (if result = [] then result else
     case validate_next result of Inl _ \<Rightarrow> result | Inr (_, result') \<Rightarrow> find_invalid result')"
  by auto
termination
  by (relation "measure length") (auto dest: validate_next_shorter)

declare find_invalid.simps [simp del]

text \<open>checked.h, \<^verbatim>\<open>replace_invalid\<close>: the bytes copied on success are those between the two iterators.\<close>

function utf8_replace_invalid :: "code_point \<Rightarrow> octet list \<Rightarrow> octet list" where
  "utf8_replace_invalid rep start = (if start = [] then [] else
     case validate_next start of
       Inr (_, start') \<Rightarrow>
         take (length start - length start') start @ utf8_replace_invalid rep start'
     | Inl NOT_ENOUGH_ROOM \<Rightarrow> utf8_append rep
     | Inl INVALID_LEAD \<Rightarrow> utf8_append rep @ utf8_replace_invalid rep (tl start)
     | Inl _ \<Rightarrow> utf8_append rep @ utf8_replace_invalid rep (dropWhile is_trail (tl start)))"
  by pat_completeness auto
termination
proof (relation "measure (\<lambda>(_, s). length s)")
  have t: "length (dropWhile is_trail (tl s)) < length s" if "s \<noteq> []" for s :: "octet list"
    using that length_dropWhile_le[of is_trail "tl s"] by (cases s) auto
  show "wf (measure (\<lambda>(_::code_point, s::octet list). length s))" by simp
qed (use length_dropWhile_le in \<open>auto dest: validate_next_shorter simp: less_Suc_eq_le neq_Nil_conv\<close>)

declare utf8_replace_invalid.simps [simp del]

section \<open>unchecked.h: transcoding without validation\<close>

definition unchecked_next :: "octet list \<Rightarrow> code_point \<times> octet list" where
  "unchecked_next it =
     (let cp = ucast (it ! 0) :: code_point; len = sequence_length (it ! 0) in
      if len = 2 then
        ((push_bit 6 cp AND 0x7ff) + (ucast (it ! 1) AND 0x3f), drop 2 it)
      else if len = 3 then
        ((push_bit 12 cp AND 0xffff) + (push_bit 6 (ucast (it ! 1)) AND 0xfff)
           + (ucast (it ! 2) AND 0x3f), drop 3 it)
      else if len = 4 then
        ((push_bit 18 cp AND 0x1fffff) + (push_bit 12 (ucast (it ! 1)) AND 0x3ffff)
           + (push_bit 6 (ucast (it ! 2)) AND 0xfff) + (ucast (it ! 3) AND 0x3f), drop 4 it)
      else (cp, drop 1 it))"

fun unchecked_utf16to8 :: "unit16 list \<Rightarrow> octet list" where
  "unchecked_utf16to8 [] = []" |
  "unchecked_utf16to8 (u # start) =
     (let cp = ucast u :: code_point in
      if is_lead_surrogate cp then
        (case start of
           [] \<Rightarrow> []
         | t # start' \<Rightarrow>
             utf8_append (push_bit 10 cp + ucast t + SURROGATE_OFFSET) @ unchecked_utf16to8 start')
      else utf8_append cp @ unchecked_utf16to8 start)"

definition surrogate_pair :: "code_point \<Rightarrow> unit16 list" where
  "surrogate_pair cp =
     (if cp > 0xffff then [ucast (drop_bit 10 cp + LEAD_OFFSET), ucast ((cp AND 0x3ff) + 0xdc00)]
      else [ucast cp])"

text \<open>
  The loop runs while \<^verbatim>\<open>start < end\<close>. A sequence cut short by the end of the buffer makes the C code
  read past it; the callers only pass input that validated, for which \<^verbatim>\<open>it ! k\<close> is in range.
\<close>

function unchecked_utf8to16 :: "octet list \<Rightarrow> unit16 list" where
  "unchecked_utf8to16 start = (if start = [] then [] else
     (let (cp, start') = unchecked_next start in surrogate_pair cp @ unchecked_utf8to16 start'))"
  by auto
termination
  by (relation "measure length")
    (auto simp: unchecked_next_def Let_def neq_Nil_conv split: if_splits)

declare unchecked_utf8to16.simps [simp del]

section \<open>Reading code units as natural numbers\<close>

lemma and_low_mask: fixes x :: "'a::len word" shows "x AND mask n = take_bit n x"
  by (simp add: take_bit_eq_mask)

lemma masks32:
  fixes x :: code_point
  shows "x AND 0x3f = take_bit 6 x" "x AND 0xfff = take_bit 12 x" "x AND 0x3ffff = take_bit 18 x"
    "x AND 0x7ff = take_bit 11 x" "x AND 0xffff = take_bit 16 x" "x AND 0x1fffff = take_bit 21 x"
    "x AND 0x3ff = take_bit 10 x"
  by (simp_all add: take_bit_eq_mask mask_eq_exp_minus_1)

lemma nat_or_disjoint: "a < 2 ^ n \<Longrightarrow> a OR (k * 2 ^ n) = a + k * (2::nat) ^ n"
proof -
  assume a: "a < 2 ^ n"
  have "a AND (k * 2 ^ n) = 0"
  proof (rule bit_eqI)
    fix m show "bit (a AND k * 2 ^ n) m = bit (0::nat) m"
    proof (cases "m < n")
      case True
      have "\<not> bit (push_bit n k) m" using True by (simp add: bit_push_bit_iff)
      then show ?thesis by (simp add: bit_and_iff push_bit_eq_mult)
    next
      case False
      have "take_bit n a = a" using a by (simp add: take_bit_nat_eq_self)
      then have "\<not> bit a m" using False by (metis bit_take_bit_iff)
      then show ?thesis by (simp add: bit_and_iff)
    qed
  qed
  then show ?thesis using disjunctive_add_eq_or[of a "k * 2 ^ n"] by simp
qed
lemma nat_or_lead:
  "a < 32 \<Longrightarrow> a OR 192 = a + (192::nat)" "a < 16 \<Longrightarrow> a OR 224 = a + (224::nat)"
  "a < 8 \<Longrightarrow> a OR 240 = a + (240::nat)" "a < 64 \<Longrightarrow> a OR 128 = a + (128::nat)"
  using nat_or_disjoint[of a 5 6] nat_or_disjoint[of a 4 14] nat_or_disjoint[of a 3 30] nat_or_disjoint[of a 6 2] by simp_all

lemmas unat_units = unsigned_take_bit_eq unsigned_drop_bit_eq unsigned_push_bit_eq unsigned_or_eq
   unsigned_ucast_eq unat_word_ariths take_bit_eq_mod[where 'a=nat] drop_bit_eq_div[where 'a=nat] push_bit_eq_mult[where 'a=nat]



lemma octet_lt: "unat (b::octet) < 256" using unsigned_less[of b, where ?'a=nat] by simp
lemma octet_mod [simp]: "unat (b::octet) mod 256 = unat b" "unat (b::octet) mod 65536 = unat b"
   "unat (b::octet) mod 4294967296 = unat b" using octet_lt[of b] by simp_all
lemma cp_lt: "unat (c::code_point) < 4294967296" using unsigned_less[of c, where ?'a=nat] by simp
lemma cp_mod [simp]: "unat (c::code_point) mod 4294967296 = unat c" using cp_lt[of c] by simp

lemma is_trail_nat: "is_trail b \<longleftrightarrow> unat b div 64 = 2"
  by (simp add: is_trail_def word_unat_eq_iff unat_units)

lemma is_trail_iff: "is_trail b \<longleftrightarrow> (\<exists>y<64. unat b = 128 + y)"
proof
  assume "is_trail b"
  then have "unat b = 128 + (unat b - 128) \<and> unat b - 128 < 64" unfolding is_trail_nat by linarith
  then show "\<exists>y<64. unat b = 128 + y" by blast
qed (auto simp: is_trail_nat)

lemma sequence_length_nat: "sequence_length b =
  (if unat b < 128 then 1 else if unat b div 32 = 6 then 2 else if unat b div 16 = 14 then 3 else if unat b div 8 = 30 then 4 else 0)"
  by (simp add: sequence_length_def word_unat_eq_iff unat_units word_less_nat_alt)

lemma sequence_length_iff:
  "sequence_length b = 2 \<longleftrightarrow> (\<exists>x<32. unat b = 192 + x)"
  "sequence_length b = 3 \<longleftrightarrow> (\<exists>x<16. unat b = 224 + x)"
  "sequence_length b = 4 \<longleftrightarrow> (\<exists>x<8. unat b = 240 + x)"
  "sequence_length b = Suc 0 \<longleftrightarrow> unat b < 128"
  "sequence_length b = 1 \<longleftrightarrow> unat b < 128"
proof -
  let ?n = "unat b"
  have r: "?n div 32 = 6 \<longleftrightarrow> 192 \<le> ?n \<and> ?n < 224" "?n div 16 = 14 \<longleftrightarrow> 224 \<le> ?n \<and> ?n < 240"
    "?n div 8 = 30 \<longleftrightarrow> 240 \<le> ?n \<and> ?n < 248" by linarith+
  have e: "(\<exists>x<k. ?n = m + x) \<longleftrightarrow> m \<le> ?n \<and> ?n < m + k" for m k
    by (auto intro: exI[of _ "?n - m"])
  show "sequence_length b = 2 \<longleftrightarrow> (\<exists>x<32. unat b = 192 + x)"
    "sequence_length b = 3 \<longleftrightarrow> (\<exists>x<16. unat b = 224 + x)"
    "sequence_length b = 4 \<longleftrightarrow> (\<exists>x<8. unat b = 240 + x)"
    "sequence_length b = Suc 0 \<longleftrightarrow> unat b < 128"
    "sequence_length b = 1 \<longleftrightarrow> unat b < 128"
    unfolding sequence_length_nat r e by auto
qed

lemma modI: "a = r + q * m \<Longrightarrow> r < m \<Longrightarrow> a mod m = (r::nat)"
  by simp

lemma seq2_val:
  assumes "unat (a::octet) = 192 + x" "x < 32" "unat (b::octet) = 128 + y" "y < 64"
  shows "unat ((push_bit 6 (ucast a) AND 0x7ff) + (ucast b AND 0x3f) :: code_point) = x * 64 + y"
proof -
  have "(192 + x) * 64 mod 2048 = x * 64" by (rule modI[where q = 6]) (use assms in simp_all)
  moreover have "(128 + y) mod 64 = y" by (rule modI[where q = 2]) (use assms in simp_all)
  ultimately show ?thesis using assms by (simp add: masks32 unat_units)
qed
lemma seq3_val:
  assumes "unat (a::octet) = 224 + x" "x < 16" "unat (b::octet) = 128 + y" "y < 64" "unat (c::octet) = 128 + z" "z < 64"
  shows "unat ((push_bit 12 (ucast a) AND 0xffff) + (push_bit 6 (ucast b) AND 0xfff) + (ucast c AND 0x3f) :: code_point) = x * 4096 + y * 64 + z"
proof -
  have "(224 + x) * 4096 mod 65536 = x * 4096" by (rule modI[where q = 14]) (use assms in simp_all)
  moreover have "(128 + y) * 64 mod 4096 = y * 64" by (rule modI[where q = 2]) (use assms in simp_all)
  moreover have "(128 + z) mod 64 = z" by (rule modI[where q = 2]) (use assms in simp_all)
  ultimately show ?thesis using assms by (simp add: masks32 unat_units)
qed
lemma seq4_val:
  assumes "unat (a::octet) = 240 + x" "x < 8" "unat (b::octet) = 128 + y" "y < 64" "unat (c::octet) = 128 + z" "z < 64"
    "unat (d::octet) = 128 + w" "w < 64"
  shows "unat ((push_bit 18 (ucast a) AND 0x1fffff) + (push_bit 12 (ucast b) AND 0x3ffff)
           + (push_bit 6 (ucast c) AND 0xfff) + (ucast d AND 0x3f) :: code_point) = x * 262144 + y * 4096 + z * 64 + w"
proof -
  have "(240 + x) * 262144 mod 2097152 = x * 262144" by (rule modI[where q = 30]) (use assms in simp_all)
  moreover have "(128 + y) * 4096 mod 262144 = y * 4096" by (rule modI[where q = 2]) (use assms in simp_all)
  moreover have "(128 + z) * 64 mod 4096 = z * 64" by (rule modI[where q = 2]) (use assms in simp_all)
  moreover have "(128 + w) mod 64 = w" by (rule modI[where q = 2]) (use assms in simp_all)
  ultimately show ?thesis using assms by (simp add: masks32 unat_units)
qed

lemma list_eq_unat: "xs = (ys :: 'a::len word list) \<longleftrightarrow> map unat xs = map unat ys"
  by (metis inj_map_eq_map inj_def word_unat_eq_iff)

lemma utf8_append_unat: 
  "map unat (utf8_append cp) = (let n = unat cp in
     if n < 128 then [n] else if n < 2048 then [192 + n div 64, 128 + n mod 64]
     else if n < 65536 then [224 + n div 4096, 128 + n div 64 mod 64, 128 + n mod 64]
     else [n div 262144 mod 256 OR 240, 128 + n div 4096 mod 64, 128 + n div 64 mod 64, 128 + n mod 64])"
proof -
  have m: "n div 4096 mod 256 mod 64 = n div 4096 mod 64" "n div 64 mod 256 mod 64 = n div 64 mod 64"
    "n mod 256 mod 64 = n mod 64" for n :: nat
   by (simp_all add: mod_mod_cancel)
  show ?thesis
  by (simp add: utf8_append_def Let_def masks32 unat_units word_less_nat_alt nat_or_lead m)
qed

lemma valid_unat: "is_code_point_valid cp \<longleftrightarrow> unat cp \<le> 0x10ffff \<and> \<not> (0xd800 \<le> unat cp \<and> unat cp \<le> 0xdfff)"
  by (simp add: is_code_point_valid_def is_surrogate_def word_le_nat_alt)
lemma overlong_unat: "is_overlong_sequence cp len =
     (if unat cp < 0x80 then len \<noteq> 1
      else if unat cp < 0x800 then len \<noteq> 2
      else if unat cp < 0x10000 then len \<noteq> 3
      else False)"
  by (simp add: is_overlong_sequence_def word_less_nat_alt)

lemma get_sequence_tails:
  "is_trail b \<Longrightarrow> get_sequence_2 (a # b # r) = Inr ((push_bit 6 (ucast a) AND 0x7ff) + (ucast b AND 0x3f), b # r)"
  "is_trail b \<Longrightarrow> is_trail c \<Longrightarrow> get_sequence_3 (a # b # c # r) = 
     Inr ((push_bit 12 (ucast a) AND 0xffff) + (push_bit 6 (ucast b) AND 0xfff) + (ucast c AND 0x3f), c # r)"
  "is_trail b \<Longrightarrow> is_trail c \<Longrightarrow> is_trail d \<Longrightarrow> get_sequence_4 (a # b # c # d # r) = 
     Inr ((push_bit 18 (ucast a) AND 0x1fffff) + (push_bit 12 (ucast b) AND 0x3ffff)
           + (push_bit 6 (ucast c) AND 0xfff) + (ucast d AND 0x3f), d # r)"
  by (simp_all add: get_sequence_2_def get_sequence_3_def get_sequence_4_def increase_safely_def)

lemma increase_safely_Inr: "increase_safely it = Inr it' \<longleftrightarrow> (\<exists>b r. tl it = b # r \<and> it' = b # r \<and> is_trail b)"
  by (auto simp: increase_safely_def split: list.splits if_splits)

lemma get_sequence_cases:
  "get_sequence_1 it = Inr (cp, it') \<Longrightarrow> \<exists>r. it = it' \<and> it = hd it # r \<and> cp = ucast (hd it)"
  "get_sequence_2 it = Inr (cp, it') \<Longrightarrow> \<exists>a b r. it = a # b # r \<and> it' = b # r \<and> is_trail b"
  "get_sequence_3 it = Inr (cp, it') \<Longrightarrow> \<exists>a b c r. it = a # b # c # r \<and> it' = c # r \<and> is_trail b \<and> is_trail c"
  "get_sequence_4 it = Inr (cp, it') \<Longrightarrow> \<exists>a b c d r. it = a # b # c # d # r \<and> it' = d # r \<and> is_trail b \<and> is_trail c \<and> is_trail d"
  by (auto simp: get_sequence_1_def get_sequence_2_def get_sequence_3_def get_sequence_4_def increase_safely_Inr Let_def split: list.splits if_splits)

lemma append_cases:
  fixes cp defines "n \<equiv> unat cp"
  assumes "is_code_point_valid cp"
  obtains
    (one) a where "n < 128" "utf8_append cp = [a]" "unat a = n"
  | (two) a b where "128 \<le> n" "n < 2048" "utf8_append cp = [a, b]" "unat a = 192 + n div 64" "unat b = 128 + n mod 64"
  | (three) a b c where "2048 \<le> n" "n < 65536" "utf8_append cp = [a, b, c]" "unat a = 224 + n div 4096" "unat b = 128 + n div 64 mod 64" "unat c = 128 + n mod 64"
  | (four) a b c d where "65536 \<le> n" "n \<le> 0x10ffff" "utf8_append cp = [a, b, c, d]" "unat a = 240 + n div 262144" "unat b = 128 + n div 4096 mod 64" "unat c = 128 + n div 64 mod 64" "unat d = 128 + n mod 64"
proof -
  have n: "n \<le> 0x10ffff" using assms by (simp add: valid_unat)
  then have d: "n div 262144 < 8" by linarith
  then have e: "n div 262144 mod 256 OR 240 = 240 + n div 262144" by (simp add: nat_or_lead)
  consider "n < 128" | "128 \<le> n" "n < 2048" | "2048 \<le> n" "n < 65536" | "65536 \<le> n" by linarith
  then show thesis
  proof cases
    case 1 with one utf8_append_unat[of cp] show ?thesis by (auto simp: n_def Let_def)
  next
    case 2 with two utf8_append_unat[of cp] show ?thesis by (auto simp: n_def Let_def map_eq_Cons_conv)
  next
    case 3 with three utf8_append_unat[of cp] show ?thesis by (auto simp: n_def Let_def map_eq_Cons_conv)
  next
    case 4 with four utf8_append_unat[of cp] e n show ?thesis by (auto simp: n_def Let_def map_eq_Cons_conv)
  qed
qed

lemma nat_digits:
  "(n::nat) div 64 * 64 + n mod 64 = n"
  "n div 4096 * 4096 + n div 64 mod 64 * 64 + n mod 64 = n"
  "n div 262144 * 262144 + n div 4096 mod 64 * 4096 + n div 64 mod 64 * 64 + n mod 64 = n"
proof -
  have e: "n div 4096 = n div 64 div 64" "n div 262144 = n div 64 div 64 div 64" by (simp_all flip: div_mult2_eq)
  note d = div_mult_mod_eq[of n 64] div_mult_mod_eq[of "n div 64" 64] div_mult_mod_eq[of "n div 64 div 64" 64]
  show "n div 64 * 64 + n mod 64 = n" by simp
  show "n div 4096 * 4096 + n div 64 mod 64 * 64 + n mod 64 = n"
    unfolding e using d by linarith
  show "n div 262144 * 262144 + n div 4096 mod 64 * 4096 + n div 64 mod 64 * 64 + n mod 64 = n"
    unfolding e using d by linarith
qed

lemma validate_next_append:
  assumes v: "is_code_point_valid cp"
  shows "validate_next (utf8_append cp @ r) = Inr (cp, r)"
  using v
proof (cases rule: append_cases)
  case (one a)
  have l: "sequence_length a = 1" using one by (simp add: sequence_length_iff)
  have c: "ucast a = cp" using one by (simp add: word_unat_eq_iff unat_units)
  show ?thesis using one v l c by (simp add: validate_next_def get_sequence_def get_sequence_1_def overlong_unat)
next
  case (two a b)
  let ?n = "unat cp"
  have l: "sequence_length a = 2" using two by (auto simp: sequence_length_iff intro!: exI[of _ "?n div 64"])
  have t: "is_trail b" using two by (auto simp: is_trail_iff)
  have "unat ((push_bit 6 (ucast a) AND 0x7ff) + (ucast b AND 0x3f) :: code_point) = ?n"
    using seq2_val[of a "?n div 64" b "?n mod 64"] two nat_digits(1)[of ?n] by auto
  then have c: "(push_bit 6 (ucast a) AND 0x7ff) + (ucast b AND 0x3f) = cp" by (simp add: word_unat_eq_iff)
  show ?thesis using two v l by (simp add: validate_next_def get_sequence_def get_sequence_tails(1)[OF t] overlong_unat c del: One_nat_def)
next
  case (three a b c)
  let ?n = "unat cp"
  have l: "sequence_length a = 3" using three by (auto simp: sequence_length_iff intro!: exI[of _ "?n div 4096"])
  have t: "is_trail b" "is_trail c" using three by (auto simp: is_trail_iff)
  have "unat ((push_bit 12 (ucast a) AND 0xffff) + (push_bit 6 (ucast b) AND 0xfff) + (ucast c AND 0x3f) :: code_point) = ?n"
    using seq3_val[of a "?n div 4096" b "?n div 64 mod 64" c "?n mod 64"] three nat_digits(2)[of ?n] by auto
  then have c: "(push_bit 12 (ucast a) AND 0xffff) + (push_bit 6 (ucast b) AND 0xfff) + (ucast c AND 0x3f) = cp" by (simp add: word_unat_eq_iff)
  show ?thesis using three v l by (simp add: validate_next_def get_sequence_def get_sequence_tails(2)[OF t] overlong_unat c del: One_nat_def)
next
  case (four a b c d)
  let ?n = "unat cp"
  have l: "sequence_length a = 4" using four by (auto simp: sequence_length_iff intro!: exI[of _ "?n div 262144"])
  have t: "is_trail b" "is_trail c" "is_trail d" using four by (auto simp: is_trail_iff)
  have "unat ((push_bit 18 (ucast a) AND 0x1fffff) + (push_bit 12 (ucast b) AND 0x3ffff) + (push_bit 6 (ucast c) AND 0xfff) + (ucast d AND 0x3f) :: code_point) = ?n"
    using seq4_val[of a "?n div 262144" b "?n div 4096 mod 64" c "?n div 64 mod 64" d "?n mod 64"] four nat_digits(3)[of ?n] by auto
  then have c: "(push_bit 18 (ucast a) AND 0x1fffff) + (push_bit 12 (ucast b) AND 0x3ffff) + (push_bit 6 (ucast c) AND 0xfff) + (ucast d AND 0x3f) = cp" by (simp add: word_unat_eq_iff)
  show ?thesis using four v l by (simp add: validate_next_def get_sequence_def get_sequence_tails(3)[OF t] overlong_unat c del: One_nat_def)
qed

lemma unat_appendI:
  "unat cp < 128 \<Longrightarrow> unat a = unat cp \<Longrightarrow> utf8_append cp = [a]"
  "128 \<le> unat cp \<Longrightarrow> x < 32 \<Longrightarrow> y < 64 \<Longrightarrow> unat cp = x * 64 + y \<Longrightarrow> unat a = 192 + x \<Longrightarrow> unat b = 128 + y \<Longrightarrow>
    utf8_append cp = [a, b]"
  "2048 \<le> unat cp \<Longrightarrow> x < 16 \<Longrightarrow> y < 64 \<Longrightarrow> z < 64 \<Longrightarrow> unat cp = x * 4096 + y * 64 + z \<Longrightarrow>
    unat a = 224 + x \<Longrightarrow> unat b = 128 + y \<Longrightarrow> unat c = 128 + z \<Longrightarrow> utf8_append cp = [a, b, c]"
  "65536 \<le> unat cp \<Longrightarrow> x < 8 \<Longrightarrow> y < 64 \<Longrightarrow> z < 64 \<Longrightarrow> w < 64 \<Longrightarrow>
    unat cp = x * 262144 + y * 4096 + z * 64 + w \<Longrightarrow>
    unat a = 240 + x \<Longrightarrow> unat b = 128 + y \<Longrightarrow> unat c = 128 + z \<Longrightarrow> unat d = 128 + w \<Longrightarrow> utf8_append cp = [a, b, c, d]"
proof -
  have D: "(q * m + r) div m = q" "(q * m + r) mod m = r" if "r < m" for q m r :: nat
    using that by simp_all
  show "unat cp < 128 \<Longrightarrow> unat a = unat cp \<Longrightarrow> utf8_append cp = [a]"
    by (simp add: list_eq_unat utf8_append_unat)
  show "utf8_append cp = [a, b]" if "128 \<le> unat cp" "x < 32" "y < 64" "unat cp = x * 64 + y" "unat a = 192 + x" "unat b = 128 + y"
    using that D[of y 64 x] by (simp add: list_eq_unat utf8_append_unat)
  show "utf8_append cp = [a, b, c]" if h: "2048 \<le> unat cp" "x < 16" "y < 64" "z < 64" "unat cp = x * 4096 + y * 64 + z"
    "unat a = 224 + x" "unat b = 128 + y" "unat c = 128 + z"
  proof -
    have "unat cp = x * 4096 + (y * 64 + z)" "unat cp = (x * 64 + y) * 64 + z" "(x * 64 + y) mod 64 = y" using h by simp_all
    then have "unat cp div 4096 = x" "unat cp div 64 = x * 64 + y" "unat cp mod 64 = z"
      using h D[of "y * 64 + z" 4096 x] D[of z 64 "x * 64 + y"] by (simp_all only:)
    moreover have "(x * 64 + y) mod 64 = y" using h by simp
    ultimately have "unat cp div 4096 = x" "unat cp div 64 mod 64 = y" "unat cp mod 64 = z" by simp_all
    then show ?thesis using h by (simp add: list_eq_unat utf8_append_unat)
  qed
  show "utf8_append cp = [a, b, c, d]" if h: "65536 \<le> unat cp" "x < 8" "y < 64" "z < 64" "w < 64"
    "unat cp = x * 262144 + y * 4096 + z * 64 + w"
    "unat a = 240 + x" "unat b = 128 + y" "unat c = 128 + z" "unat d = 128 + w"
  proof -
    have "unat cp = x * 262144 + (y * 4096 + z * 64 + w)" "unat cp = (x * 64 + y) * 4096 + (z * 64 + w)" 
      "unat cp = ((x * 64 + y) * 64 + z) * 64 + w" using h by simp_all
    then have "unat cp div 262144 = x" "unat cp div 4096 = x * 64 + y" "unat cp div 64 = (x * 64 + y) * 64 + z" "unat cp mod 64 = w"
      using h D[of "y * 4096 + z * 64 + w" 262144 x] D[of "z * 64 + w" 4096 "x * 64 + y"] D[of w 64 "(x * 64 + y) * 64 + z"] by (simp_all only:)
    moreover have "(x * 64 + y) mod 64 = y" "((x * 64 + y) * 64 + z) mod 64 = z" using h D(2)[of z 64 "x * 64 + y"] by (simp_all only: D)
    ultimately have "unat cp div 262144 = x" "unat cp div 4096 mod 64 = y" "unat cp div 64 mod 64 = z" "unat cp mod 64 = w" by simp_all
    then show ?thesis using h nat_or_lead(3)[of x] by (simp add: list_eq_unat utf8_append_unat add.commute)
  qed
qed

lemma validate_next_valid:
  "validate_next it = Inr (cp, r) \<Longrightarrow> is_code_point_valid cp"
  by (auto simp: validate_next_def Let_def split: if_splits)


lemma validate_next_Inr:
  "validate_next it = Inr (cp, r) \<longleftrightarrow> it \<noteq> [] \<and> sequence_length (hd it) \<noteq> 0 \<and> is_code_point_valid cp \<and>
     \<not> is_overlong_sequence cp (sequence_length (hd it)) \<and>
     (\<exists>it'. get_sequence (sequence_length (hd it)) it = Inr (cp, it') \<and> r = tl it')"
  by (auto simp: validate_next_def Let_def)

lemma get_sequence_inv:
  assumes "get_sequence (sequence_length (hd it)) it = Inr (cp, it')" "it \<noteq> []"
    and o: "\<not> is_overlong_sequence cp (sequence_length (hd it))" and "sequence_length (hd it) \<noteq> 0"
  shows "it = utf8_append cp @ tl it'"
proof -
  let ?l = "sequence_length (hd it)"
  have "?l \<le> 4" by (simp add: sequence_length_def)
  with assms(4) consider "?l = 1" | "?l = 2" | "?l = 3" | "?l = 4" by linarith
  then show ?thesis
  proof cases
    case 1
    then have "get_sequence_1 it = Inr (cp, it')" using assms(1) by (simp add: get_sequence_def)
    then obtain r where it: "it = hd it # r" "it' = it" "cp = ucast (hd it)" using get_sequence_cases(1) by blast
    then have "unat cp = unat (hd it)" "unat (hd it) < 128" using 1 by (auto simp: unat_units sequence_length_iff)
    then have "utf8_append cp = [hd it]" by (intro unat_appendI(1)) simp_all
    then show ?thesis using it by (metis append_Cons append_Nil list.sel(3))
  next
    case 2
    then have g: "get_sequence_2 it = Inr (cp, it')" using assms(1) by (simp add: get_sequence_def)
    then obtain a b r where it: "it = a # b # r" "it' = b # r" "is_trail b" using get_sequence_cases(2) by blast
    obtain x y where x: "unat a = 192 + x" "x < 32" and y: "unat b = 128 + y" "y < 64"
      using 2 it by (auto simp: sequence_length_iff is_trail_iff)
    have c: "cp = (push_bit 6 (ucast a) AND 0x7ff) + (ucast b AND 0x3f)" using g it by (simp add: get_sequence_tails)
    have "unat cp = x * 64 + y" unfolding c by (rule seq2_val[OF x y])
    moreover have "128 \<le> unat cp" using o 2 by (simp add: overlong_unat split: if_splits)
    ultimately have "utf8_append cp = [a, b]" using x y by (intro unat_appendI(2))
    then show ?thesis using it by simp
  next
    case 3
    then have g: "get_sequence_3 it = Inr (cp, it')" using assms(1) by (simp add: get_sequence_def)
    then obtain a b c r where it: "it = a # b # c # r" "it' = c # r" "is_trail b" "is_trail c" using get_sequence_cases(3) by blast
    obtain x y z where x: "unat a = 224 + x" "x < 16" and y: "unat b = 128 + y" "y < 64" and z: "unat c = 128 + z" "z < 64"
      using 3 it by (auto simp: sequence_length_iff is_trail_iff)
    have c: "cp = (push_bit 12 (ucast a) AND 0xffff) + (push_bit 6 (ucast b) AND 0xfff) + (ucast c AND 0x3f)"
      using g it by (simp add: get_sequence_tails)
    have "unat cp = x * 4096 + y * 64 + z" unfolding c by (rule seq3_val[OF x y z])
    moreover have "2048 \<le> unat cp" using o 3 by (simp add: overlong_unat split: if_splits)
    ultimately have "utf8_append cp = [a, b, c]" using x y z by (intro unat_appendI(3))
    then show ?thesis using it by simp
  next
    case 4
    then have g: "get_sequence_4 it = Inr (cp, it')" using assms(1) by (simp add: get_sequence_def)
    then obtain a b c d r where it: "it = a # b # c # d # r" "it' = d # r" "is_trail b" "is_trail c" "is_trail d"
      using get_sequence_cases(4) by blast
    obtain x y z w where x: "unat a = 240 + x" "x < 8" and y: "unat b = 128 + y" "y < 64" and z: "unat c = 128 + z" "z < 64"
      and w: "unat d = 128 + w" "w < 64"
      using 4 it by (auto simp: sequence_length_iff is_trail_iff)
    have c: "cp = (push_bit 18 (ucast a) AND 0x1fffff) + (push_bit 12 (ucast b) AND 0x3ffff)
           + (push_bit 6 (ucast c) AND 0xfff) + (ucast d AND 0x3f)"
      using g it by (simp add: get_sequence_tails)
    have "unat cp = x * 262144 + y * 4096 + z * 64 + w" unfolding c by (rule seq4_val[OF x y z w])
    moreover have "65536 \<le> unat cp" using o 4 by (simp add: overlong_unat split: if_splits)
    ultimately have "utf8_append cp = [a, b, c, d]" using x y z w by (intro unat_appendI(4))
    then show ?thesis using it by simp
  qed
qed

lemma validate_next_inv:
  "validate_next it = Inr (cp, r) \<Longrightarrow> it = utf8_append cp @ r"
  unfolding validate_next_Inr by (auto intro: get_sequence_inv)

section \<open>core.h: validating UTF-16\<close>

definition validate_next16 :: "unit16 list \<Rightarrow> utf_error + (code_point \<times> unit16 list)" where
  "validate_next16 it = (case it of
       [] \<Rightarrow> Inl NOT_ENOUGH_ROOM
     | first_word # it' \<Rightarrow>
         if \<not> is_surrogate (ucast first_word) then Inr (ucast first_word, it')
         else (case it' of
             [] \<Rightarrow> Inl NOT_ENOUGH_ROOM
           | second_word # it'' \<Rightarrow>
               if is_lead_surrogate (ucast first_word) then
                 if is_trail_surrogate (ucast second_word) then
                   Inr (push_bit 10 (ucast first_word) + ucast second_word + SURROGATE_OFFSET, it'')
                 else Inl INCOMPLETE_SEQUENCE
               else Inl INVALID_LEAD))"

lemma unit16_lt: "unat (u::unit16) < 65536" using unsigned_less[of u, where ?'a=nat] by simp
lemma unit16_mod [simp]: "unat (u::unit16) mod 65536 = unat u" "unat (u::unit16) mod 4294967296 = unat u"
  using unit16_lt[of u] by simp_all

lemma surrogate_unat:
  "is_lead_surrogate cp \<longleftrightarrow> 0xd800 \<le> unat cp \<and> unat cp \<le> 0xdbff"
  "is_trail_surrogate cp \<longleftrightarrow> 0xdc00 \<le> unat cp \<and> unat cp \<le> 0xdfff"
  "is_surrogate cp \<longleftrightarrow> 0xd800 \<le> unat cp \<and> unat cp \<le> 0xdfff"
  by (simp_all add: is_lead_surrogate_def is_trail_surrogate_def is_surrogate_def word_le_nat_alt)

lemma ucast16_unat [simp]: "unat (ucast (u::unit16) :: code_point) = unat u"
  by (simp add: unat_units)

lemma ucast16_eq_iff: "ucast (u::unit16) = (cp :: code_point) \<longleftrightarrow> unat u = unat cp"
  by (simp add: word_unat_eq_iff)

lemma joined_unat:
  assumes "unat (l::unit16) = 0xd800 + x" "x < 1024" "unat (t::unit16) = 0xdc00 + y" "y < 1024"
  shows "unat (push_bit 10 (ucast l) + ucast t + SURROGATE_OFFSET :: code_point) = 0x10000 + x * 1024 + y"
proof -
  have "(0xd800 + x) * 1024 mod 4294967296 = 0x3600000 + x * 1024" using assms by simp
  moreover have "(0x3600000 + x * 1024 + (0xdc00 + y) + 0xfca02400) mod 4294967296 = 0x10000 + x * 1024 + y"
    by (rule modI[where q = 1]) (use assms in simp_all)
  ultimately show ?thesis using assms by (simp add: SURROGATE_OFFSET_def unat_units mod_simps add.assoc)
qed

lemma joined_valid:
  assumes "is_lead_surrogate (ucast (l::unit16))" "is_trail_surrogate (ucast (t::unit16))"
  shows "is_code_point_valid (push_bit 10 (ucast l) + ucast t + SURROGATE_OFFSET) \<and>
    surrogate_pair (push_bit 10 (ucast l) + ucast t + SURROGATE_OFFSET) = [l, t]"
proof -
  let ?c = "push_bit 10 (ucast l) + ucast t + SURROGATE_OFFSET :: code_point"
  obtain x y where x: "unat l = 0xd800 + x" "x < 1024" and y: "unat t = 0xdc00 + y" "y < 1024"
    using assms by (auto simp: surrogate_unat le_iff_add)
  note c = joined_unat[OF x y]
  have b: "unat ?c = (64 + x) * 1024 + y" using c by simp
  have d: "unat ?c div 1024 = 64 + x" unfolding b using y by simp
  have e: "unat ?c mod 1024 = y" unfolding b by (rule modI[where q = "64 + x"]) (use y in simp_all)
  have "unat (ucast (drop_bit 10 ?c + LEAD_OFFSET) :: unit16) = unat l"
     "unat (ucast ((?c AND 0x3ff) + 0xdc00) :: unit16) = unat t"
    using d e x y by (simp_all add: unat_units masks32 LEAD_OFFSET_def)
  then have "ucast (drop_bit 10 ?c + LEAD_OFFSET) = l" "ucast ((?c AND 0x3ff) + 0xdc00) = t"
    by (simp_all only: word_unat_eq_iff)
  moreover have "?c > 0xffff" using c by (simp add: word_less_nat_alt)
  ultimately show ?thesis using c x y by (simp add: surrogate_pair_def valid_unat)
qed

lemma surrogate_pair_split:
  assumes v: "is_code_point_valid cp" and big: "cp > 0xffff"
  obtains l t where "surrogate_pair cp = [l, t]" "is_lead_surrogate (ucast l)" "is_trail_surrogate (ucast t)"
    "push_bit 10 (ucast l) + ucast t + SURROGATE_OFFSET = cp"
proof -
  let ?n = "unat cp"
  have n: "65536 \<le> ?n" "?n \<le> 0x10ffff" using assms by (simp_all add: valid_unat word_less_nat_alt)
  define x where "x = ?n div 1024 - 64"
  have q: "64 \<le> ?n div 1024" "?n div 1024 < 1088" using n by linarith+
  then have x: "?n div 1024 = 64 + x" "x < 1024" by (simp_all add: x_def)
  let ?l = "ucast (drop_bit 10 cp + LEAD_OFFSET) :: unit16" and ?t = "ucast ((cp AND 0x3ff) + 0xdc00) :: unit16"
  have l: "unat ?l = 0xd800 + x" using x by (simp add: unat_units LEAD_OFFSET_def)
  have t: "unat ?t = 0xdc00 + ?n mod 1024" by (simp add: unat_units masks32)
  have "unat (push_bit 10 (ucast ?l) + ucast ?t + SURROGATE_OFFSET :: code_point) = 0x10000 + x * 1024 + ?n mod 1024"
    by (rule joined_unat[OF l x(2) t]) simp
  also have "\<dots> = ?n" using x div_mult_mod_eq[of ?n 1024] by simp
  finally have "push_bit 10 (ucast ?l) + ucast ?t + SURROGATE_OFFSET = cp" by (simp only: word_unat_eq_iff)
  moreover have "surrogate_pair cp = [?l, ?t]" using big by (simp add: surrogate_pair_def)
  moreover have "is_lead_surrogate (ucast ?l)" "is_trail_surrogate (ucast ?t)"
    using l t x by (simp_all add: surrogate_unat)
  ultimately show thesis using that by blast
qed

lemma surrogate_pair_bmp:
  assumes "is_code_point_valid cp" "\<not> cp > 0xffff"
  shows "surrogate_pair cp = [ucast cp]" "ucast (ucast cp :: unit16) = cp" "\<not> is_surrogate (ucast (ucast cp :: unit16))"
proof -
  show "surrogate_pair cp = [ucast cp]" using assms by (simp add: surrogate_pair_def)
  have "unat (ucast cp :: unit16) = unat cp" using assms by (simp add: unat_units word_less_nat_alt not_less)
  then show c: "ucast (ucast cp :: unit16) = cp" by (simp only: ucast16_eq_iff)
  show "\<not> is_surrogate (ucast (ucast cp :: unit16))" unfolding c using assms(1) by (simp add: is_code_point_valid_def)
qed

lemma validate_next16_encode:
  assumes "is_code_point_valid cp"
  shows "validate_next16 (surrogate_pair cp @ r) = Inr (cp, r)"
proof (cases "cp > 0xffff")
  case True
  obtain l t where lt: "surrogate_pair cp = [l, t]" "is_lead_surrogate (ucast l)" "is_trail_surrogate (ucast t)"
    "push_bit 10 (ucast l) + ucast t + SURROGATE_OFFSET = cp"
    using surrogate_pair_split[OF assms True] by metis
  have "is_surrogate (ucast l)" using lt(2) by (simp add: surrogate_unat)
  then show ?thesis using lt by (simp add: validate_next16_def)
next
  case False
  then show ?thesis using surrogate_pair_bmp[OF assms False] by (simp add: validate_next16_def)
qed

lemma validate_next16_inv:
  assumes "validate_next16 it = Inr (cp, r)"
  shows "is_code_point_valid cp \<and> it = surrogate_pair cp @ r"
proof (cases it)
  case Nil
  then show ?thesis using assms by (simp add: validate_next16_def)
next
  case (Cons u it')
  show ?thesis
  proof (cases "is_surrogate (ucast u)")
    case True
    then obtain t where "it' = t # r" "is_lead_surrogate (ucast u)" "is_trail_surrogate (ucast t)"
      "cp = push_bit 10 (ucast u) + ucast t + SURROGATE_OFFSET"
      using assms Cons by (auto simp: validate_next16_def split: list.splits if_splits)
    then show ?thesis using joined_valid Cons by simp
  next
    case False
    then have c: "cp = ucast u" "it' = r" using assms Cons by (auto simp: validate_next16_def)
    have v: "is_code_point_valid cp" unfolding c(1) valid_unat using False unit16_lt[of u]
      by (simp add: surrogate_unat)
    have "ucast (ucast u :: code_point) = u" by (simp add: word_unat_eq_iff unat_units)
    moreover have "\<not> cp > 0xffff" using unit16_lt[of u] unfolding c(1) by (simp add: word_less_nat_alt)
    ultimately show ?thesis using v c Cons by (simp add: surrogate_pair_def)
  qed
qed


section \<open>The interface of a self-delimiting code\<close>

locale unit_codec =
  fixes enc :: "'c \<Rightarrow> 'u list"
    and dec :: "'u list \<Rightarrow> 'e + ('c \<times> 'u list)"
    and ok :: "'c \<Rightarrow> bool"
  assumes dec_nil: "\<exists>e. dec [] = Inl e"
    and dec_enc: "ok c \<Longrightarrow> dec (enc c @ r) = Inr (c, r)"
    and enc_dec: "dec xs = Inr (c, r) \<Longrightarrow> ok c \<and> xs = enc c @ r"
begin

lemma enc_not_nil: "ok c \<Longrightarrow> enc c \<noteq> []"
  using dec_enc[of c "[]"] dec_nil by auto

lemma dec_stream:
  "list_all ok (c # cs) \<Longrightarrow> dec (concat (map enc (c # cs))) = Inr (c, concat (map enc cs))"
  by (simp add: dec_enc)

lemma stream_unique:
  "list_all ok cs \<Longrightarrow> list_all ok ds \<Longrightarrow> concat (map enc cs) = concat (map enc ds) \<Longrightarrow> cs = ds"
proof (induction cs arbitrary: ds)
  case Nil
  then show ?case using enc_not_nil by (cases ds) auto
next
  case (Cons c cs)
  show ?case
  proof (cases ds)
    case Nil
    then show ?thesis using Cons.prems enc_not_nil[of c] by simp
  next
    case (Cons d ds')
    have "Inr (c, concat (map enc cs)) = (Inr (d, concat (map enc ds')) :: 'e + _)"
      using Cons.prems Cons dec_stream by metis
    then show ?thesis using Cons.IH[of ds'] Cons.prems Cons by simp
  qed
qed

lemma dec_shorter: "dec xs = Inr (c, r) \<Longrightarrow> length r < length xs"
  using enc_dec[of xs c r] enc_not_nil[of c] by (cases "enc c") auto

lemma split_valid:
  "\<exists>cs r e. list_all ok cs \<and> xs = concat (map enc cs) @ r \<and> dec r = Inl e"
proof (induction "length xs" arbitrary: xs rule: less_induct)
  case less
  show ?case
  proof (cases "dec xs")
    case (Inl e)
    then show ?thesis by (intro exI[of _ "[]"] exI[of _ xs]) simp
  next
    case (Inr p)
    then obtain c r where p: "dec xs = Inr (c, r)" by (cases p) simp
    obtain cs r' e where "list_all ok cs" "r = concat (map enc cs) @ r'" "dec r' = Inl e"
      using less[OF dec_shorter[OF p]] by blast
    then show ?thesis using enc_dec[OF p] by (intro exI[of _ "c # cs"]) simp
  qed
qed

end

locale stream_codec = unit_codec +
  fixes find :: "'b list \<Rightarrow> 'b list"
  assumes find_nil: "find [] = []"
    and find_step: "xs \<noteq> [] \<Longrightarrow> find xs = (case dec xs of Inl _ \<Rightarrow> xs | Inr (_, r) \<Rightarrow> find r)"
begin

lemma find_skip: "list_all ok cs \<Longrightarrow> find (concat (map enc cs) @ r) = find r"
proof (induction cs)
  case (Cons c cs)
  then have "ok c" "concat (map enc (c # cs)) @ r \<noteq> []" using enc_not_nil[of c] by simp_all
  from find_step[OF this(2)] show ?case using Cons dec_enc[OF \<open>ok c\<close>] by simp
qed simp

lemma find_split:
  "\<exists>cs. list_all ok cs \<and> xs = concat (map enc cs) @ find xs \<and>
     (find xs = [] \<or> (\<exists>e. dec (find xs) = Inl e))"
proof -
  obtain cs r e where s: "list_all ok cs" "xs = concat (map enc cs) @ r" "dec r = Inl e"
    using split_valid by blast
  have "find r = r" using s(3) find_nil find_step[of r] by (cases "r = []") auto
  then show ?thesis using s find_skip by auto
qed

lemma find_encoded: "list_all ok cs \<Longrightarrow> find (concat (map enc cs)) = []"
  using find_skip[of cs "[]"] by (simp add: find_nil)

lemma find_nil_iff: "find xs = [] \<longleftrightarrow> (\<exists>cs. list_all ok cs \<and> xs = concat (map enc cs))"
  using find_split[of xs] find_encoded by auto

end

interpretation u8: stream_codec utf8_append validate_next is_code_point_valid find_invalid
proof unfold_locales
  show "\<exists>e. validate_next [] = Inl e" by (simp add: validate_next_def)
  show "validate_next (utf8_append c @ r) = Inr (c, r)" if "is_code_point_valid c" for c r
    using that by (rule validate_next_append)
  show "is_code_point_valid c \<and> xs = utf8_append c @ r" if "validate_next xs = Inr (c, r)" for xs c r
    using that validate_next_valid validate_next_inv by blast
  show "find_invalid [] = []" by (simp add: find_invalid.simps)
  show "find_invalid xs = (case validate_next xs of Inl _ \<Rightarrow> xs | Inr (_, r) \<Rightarrow> find_invalid r)"
    if "xs \<noteq> []" for xs using that by (simp add: find_invalid.simps[of xs])
qed

interpretation u16: unit_codec surrogate_pair validate_next16 is_code_point_valid
proof unfold_locales
  show "\<exists>e. validate_next16 [] = Inl e" by (simp add: validate_next16_def)
qed (use validate_next16_encode validate_next16_inv in blast)+

section \<open>The unchecked transcoders on encoded streams\<close>

lemma unchecked_next_append:
  assumes "is_code_point_valid cp"
  shows "unchecked_next (utf8_append cp @ r) = (cp, r)"
proof -
  let ?it = "utf8_append cp @ r"
  have v: "validate_next ?it = Inr (cp, r)" by (rule validate_next_append[OF assms])
  then obtain it' where g: "get_sequence (sequence_length (hd ?it)) ?it = Inr (cp, it')" "r = tl it'"
    and l0: "sequence_length (hd ?it) \<noteq> 0" and ne: "?it \<noteq> []"
    unfolding validate_next_Inr by blast
  let ?l = "sequence_length (hd ?it)"
  have hd: "?it ! 0 = hd ?it" using ne by (simp add: hd_conv_nth)
  have "?l \<le> 4" by (simp add: sequence_length_def)
  with l0 consider "?l = 1" | "?l = 2" | "?l = 3" | "?l = 4" by linarith
  then show ?thesis
  proof cases
    case 1
    then have "get_sequence_1 ?it = Inr (cp, it')" using g by (simp add: get_sequence_def)
    then have "?it = it'" "cp = ucast (hd ?it)" using get_sequence_cases(1) by metis+
    then show ?thesis using 1 hd g by (simp add: unchecked_next_def drop_Suc)
  next
    case 2
    then have s: "get_sequence_2 ?it = Inr (cp, it')" using g by (simp add: get_sequence_def)
    obtain a b q where it: "?it = a # b # q" "it' = b # q" "is_trail b" using get_sequence_cases(2)[OF s] by blast
    then show ?thesis using 2 s g unfolding it by (simp add: unchecked_next_def get_sequence_tails)
  next
    case 3
    then have s: "get_sequence_3 ?it = Inr (cp, it')" using g by (simp add: get_sequence_def)
    obtain a b c q where it: "?it = a # b # c # q" "it' = c # q" "is_trail b" "is_trail c"
      using get_sequence_cases(3)[OF s] by blast
    then show ?thesis using 3 s g unfolding it
      by (simp add: unchecked_next_def get_sequence_tails numeral_2_eq_2 numeral_3_eq_3)
  next
    case 4
    then have s: "get_sequence_4 ?it = Inr (cp, it')" using g by (simp add: get_sequence_def)
    obtain a b c d q where it: "?it = a # b # c # d # q" "it' = d # q" "is_trail b" "is_trail c" "is_trail d"
      using get_sequence_cases(4)[OF s] by blast
    then show ?thesis using 4 s g unfolding it
      by (simp add: unchecked_next_def get_sequence_tails eval_nat_numeral)
  qed
qed

lemma unchecked_utf8to16_encoded:
  "list_all is_code_point_valid cs \<Longrightarrow>
   unchecked_utf8to16 (concat (map utf8_append cs)) = concat (map surrogate_pair cs)"
proof (induction cs)
  case Nil
  then show ?case by (simp add: unchecked_utf8to16.simps)
next
  case (Cons c cs)
  have "utf8_append c \<noteq> []" using u8.enc_not_nil[of c] Cons.prems by simp
  then show ?case using Cons
    by (simp add: unchecked_utf8to16.simps[of "utf8_append c @ _"] unchecked_next_append)
qed

lemma unchecked_utf16to8_encoded:
  "list_all is_code_point_valid cs \<Longrightarrow>
   unchecked_utf16to8 (concat (map surrogate_pair cs) @ r) = concat (map utf8_append cs) @ unchecked_utf16to8 r"
proof (induction cs)
  case (Cons c cs)
  then have v: "is_code_point_valid c" by simp
  show ?case
  proof (cases "c > 0xffff")
    case True
    obtain l t where "surrogate_pair c = [l, t]" "is_lead_surrogate (ucast l)"
      "push_bit 10 (ucast l) + ucast t + SURROGATE_OFFSET = c"
      using surrogate_pair_split[OF v True] by metis
    then show ?thesis using Cons by simp
  next
    case False
    note b = surrogate_pair_bmp[OF v False]
    have "\<not> is_lead_surrogate c" using b(2,3) by (auto simp: surrogate_unat)
    then show ?thesis using b Cons by simp
  qed
qed simp

end
