(* ===== verification/Widechar.thy ===== *)
theory Widechar
  imports Utf8
begin

text \<open>
  \<^verbatim>\<open>src/odbc_driver/widechar/widechar.cpp\<close> and \<^verbatim>\<open>widechar_utf16.hpp\<close>: the lenient conversion of
  client UTF-16 strings to the engine's UTF-8 and back, writing a UTF-16 string into a client
  buffer, and the \<^verbatim>\<open>utf16_conv\<close> holder of a converted argument. Buffers are lists of code units;
  a returned pointer into a buffer is the suffix it points at, or its index.
\<close>

section \<open>widechar\_utf16.hpp\<close>

fun utf16_find_invalid :: "unit16 list \<Rightarrow> unit16 list" where
  "utf16_find_invalid [] = []" |
  "utf16_find_invalid (u # start) =
     (let cp = ucast u :: code_point in
      if is_lead_surrogate cp then
        (case start of
           t # start' \<Rightarrow>
             if \<not> is_trail_surrogate (ucast t) then t # start' else utf16_find_invalid start'
         | [] \<Rightarrow> [u])
      else if is_trail_surrogate cp then start
      else utf16_find_invalid start)"

fun utf16_replace_invalid :: "code_point \<Rightarrow> unit16 list \<Rightarrow> unit16 list" where
  "utf16_replace_invalid rep [] = []" |
  "utf16_replace_invalid rep (char1 # start) =
     (let cp = ucast char1 :: code_point in
      if is_lead_surrogate cp then
        (case start of
           char2 # start' \<Rightarrow>
             if is_trail_surrogate (ucast char2) then
               char1 # char2 # utf16_replace_invalid rep start'
             else ucast rep # char2 # utf16_replace_invalid rep start'
         | [] \<Rightarrow> [ucast rep])
      else if is_trail_surrogate cp then ucast rep # utf16_replace_invalid rep start
      else char1 # utf16_replace_invalid rep start)"

section \<open>widechar.cpp: the lenient conversions\<close>

definition invalid_char_replacement :: code_point where
  "invalid_char_replacement = 0xfffd"

definition utf8_byte_len_coef :: int where
  "utf8_byte_len_coef = 3"

text \<open>The second component is \<^verbatim>\<open>*first_invalid_char\<close> as an index, None for the null pointer.\<close>

definition utf16_to_utf8_lenient :: "unit16 list \<Rightarrow> octet list \<times> nat option" where
  "utf16_to_utf8_lenient in_buf =
     (let first_invalid_found = utf16_find_invalid in_buf in
      if first_invalid_found = [] then (unchecked_utf16to8 in_buf, None)
      else (unchecked_utf16to8 (utf16_replace_invalid invalid_char_replacement in_buf),
            Some (length in_buf - length first_invalid_found)))"

definition utf8_to_utf16_lenient :: "octet list \<Rightarrow> unit16 list \<times> nat option" where
  "utf8_to_utf16_lenient in_buf =
     (let first_invalid_found = find_invalid in_buf in
      if first_invalid_found = [] then (unchecked_utf8to16 in_buf, None)
      else (unchecked_utf8to16 (utf8_replace_invalid invalid_char_replacement in_buf),
            Some (length in_buf - length first_invalid_found)))"

text \<open>The client's buffer is the list of units from the pointer on; None is the null pointer.\<close>

definition utf16_length :: "unit16 list option \<Rightarrow> nat" where
  "utf16_length buf = (case buf of None \<Rightarrow> 0 | Some ptr \<Rightarrow> length (takeWhile (\<lambda>u. u \<noteq> 0) ptr))"

definition utf8_alloc_out_vec :: "int \<Rightarrow> octet list" where
  "utf8_alloc_out_vec utf16_len =
     (let utf8_len_sizet = wrap_u 64 (wrap_u 64 utf16_len * utf8_byte_len_coef);
          utf8_len_max = 32767
      in replicate (nat (min utf8_len_sizet utf8_len_max)) 0)"

section \<open>widechar.cpp: writing a UTF-16 string to the client\<close>

text \<open>
  The units stored from \<^verbatim>\<open>utf16_str_out[0]\<close> on, and the value stored to \<^verbatim>\<open>*len_out_chars\<close> (None:
  not stored). The flags say which of the two pointers are non-null; \<^verbatim>\<open>w\<close> is the width of INT\_TYPE.
\<close>

definition utf16_write_str ::
  "nat \<Rightarrow> int \<Rightarrow> octet list \<Rightarrow> bool \<Rightarrow> int \<Rightarrow> bool \<Rightarrow> unit16 list \<times> int option" where
  "utf16_write_str w ret utf8_vec has_out buffer_len_chars has_len =
     (let store_len = (\<lambda>n. if has_len then Some n else None) in
      if \<not> (ret = 0 \<or> ret = 1) then ([], None)
      else if length utf8_vec = 0 \<or> buffer_len_chars \<le> 0 then ([], store_len 0)
      else
        let len_utf8 = length (takeWhile (\<lambda>b. b \<noteq> 0) utf8_vec) in
        if len_utf8 = 0 \<or> buffer_len_chars = 1 then
          (if has_out then [0] else [], store_len 0)
        else
          let utf16_vec = fst (utf8_to_utf16_lenient (take len_utf8 utf8_vec));
              len_chars = min (length utf16_vec) (nat (buffer_len_chars - 1))
          in (if has_out then take len_chars utf16_vec @ [0] else [],
              store_len (wrap_s w (int len_chars))))"

section \<open>widechar.cpp: the converted argument\<close>

record utf16_conv =
  conv_utf16_str :: "unit16 list option"
  conv_utf16_len :: nat
  conv_utf8_vec :: "octet list"
  conv_utf8_str :: "octet list option"

definition mk_utf16_conv :: "unit16 list option \<Rightarrow> int \<Rightarrow> utf16_conv" where
  "mk_utf16_conv utf16_str utf16_str_len =
     (let len = (if utf16_str_len = - 3 then utf16_length utf16_str
                 else nat (wrap_u 64 utf16_str_len))
      in case utf16_str of
           None \<Rightarrow> \<lparr>conv_utf16_str = None, conv_utf16_len = len,
                    conv_utf8_vec = [0], conv_utf8_str = None\<rparr>
         | Some buf \<Rightarrow>
             let vec = fst (utf16_to_utf8_lenient (take len buf)) @ [0] in
             \<lparr>conv_utf16_str = utf16_str, conv_utf16_len = len,
              conv_utf8_vec = vec, conv_utf8_str = Some vec\<rparr>)"

definition utf8_len :: "utf16_conv \<Rightarrow> nat" where
  "utf8_len conv = length (conv_utf8_vec conv) - 1"

definition utf8_len_internal :: "nat \<Rightarrow> utf16_conv \<Rightarrow> int" where
  "utf8_len_internal w conv =
     (let len = int (utf8_len conv); max = 2 ^ (w - 1) - 1
      in wrap_s w (if len > max then max else len))"

definition utf8_len_smallint :: "utf16_conv \<Rightarrow> int" where
  "utf8_len_smallint = utf8_len_internal 16"

definition utf8_len_int :: "utf16_conv \<Rightarrow> int" where
  "utf8_len_int = utf8_len_internal 32"

definition to_utf8_str :: "utf16_conv \<Rightarrow> octet list" where
  "to_utf8_str conv = (let len = length (conv_utf8_vec conv) - 1 in take len (conv_utf8_vec conv))"

section \<open>What the conversions promise\<close>

text \<open>Well-formed UTF-16, by the strict validator of the same library.\<close>

function utf16_well_formed :: "unit16 list \<Rightarrow> bool" where
  "utf16_well_formed u = (u = [] \<or>
     (case validate_next16 u of Inl _ \<Rightarrow> False | Inr (_, r) \<Rightarrow> utf16_well_formed r))"
  by auto
termination
  by (relation "measure length") (auto dest: u16.dec_shorter)

declare utf16_well_formed.simps [simp del]

abbreviation utf16_of :: "code_point list \<Rightarrow> unit16 list" where
  "utf16_of cs \<equiv> concat (map surrogate_pair cs)"

abbreviation utf8_of :: "code_point list \<Rightarrow> octet list" where
  "utf8_of cs \<equiv> concat (map utf8_append cs)"

lemma utf16_well_formed_iff:
  "utf16_well_formed u \<longleftrightarrow> (\<exists>cs. list_all is_code_point_valid cs \<and> u = utf16_of cs)"
proof
  assume "utf16_well_formed u"
  then show "\<exists>cs. list_all is_code_point_valid cs \<and> u = utf16_of cs"
  proof (induction u rule: utf16_well_formed.induct)
    case (1 u)
    show ?case
    proof (cases "u = []")
      case True
      then show ?thesis by (intro exI[of _ "[]"]) simp
    next
      case False
      then obtain c r where v: "validate_next16 u = Inr (c, r)" and wf: "utf16_well_formed r"
        using "1.prems" by (auto simp: utf16_well_formed.simps[of u] split: sum.splits)
      obtain cs where "list_all is_code_point_valid cs" "r = utf16_of cs"
        using "1.IH"[OF v refl wf] by blast
      then show ?thesis using u16.enc_dec[OF v] by (intro exI[of _ "c # cs"]) simp
    qed
  qed
next
  assume "\<exists>cs. list_all is_code_point_valid cs \<and> u = utf16_of cs"
  then obtain cs where "list_all is_code_point_valid cs" "u = utf16_of cs" by blast
  then show "utf16_well_formed u"
  proof (induction cs arbitrary: u)
    case Nil
    then show ?case by (simp add: utf16_well_formed.simps)
  next
    case (Cons c cs)
    then show ?case using u16.dec_stream[of c cs]
      by (simp add: utf16_well_formed.simps[of "surrogate_pair c @ _"])
  qed
qed


lemma surrogate_disjoint: "is_lead_surrogate c \<Longrightarrow> \<not> is_trail_surrogate c"
  by (simp add: surrogate_unat)

lemma surrogate_disjoint': "is_trail_surrogate c \<Longrightarrow> \<not> is_lead_surrogate c"
  by (simp add: surrogate_unat)

lemma surrogate_cases: "is_surrogate c \<longleftrightarrow> is_lead_surrogate c \<or> is_trail_surrogate c"
  by (auto simp: surrogate_unat)

text \<open>The units on which the strict validator stops.\<close>

lemma validate_next16_stuck:
  "validate_next16 r = Inl e \<longleftrightarrow>
     (r = [] \<and> e = NOT_ENOUGH_ROOM) \<or>
     (\<exists>u. r = [u] \<and> is_surrogate (ucast u) \<and> e = NOT_ENOUGH_ROOM) \<or>
     (\<exists>u t q. r = u # t # q \<and> is_lead_surrogate (ucast u) \<and> \<not> is_trail_surrogate (ucast t) \<and>
        e = INCOMPLETE_SEQUENCE) \<or>
     (\<exists>u t q. r = u # t # q \<and> is_trail_surrogate (ucast u) \<and> e = INVALID_LEAD)"
  by (auto simp: validate_next16_def surrogate_cases surrogate_disjoint split: list.splits)

text \<open>One encoded code point in front of the two loops of the driver.\<close>

lemma utf16_step_encoded:
  assumes "is_code_point_valid c"
  shows "utf16_find_invalid (surrogate_pair c @ r) = utf16_find_invalid r"
    and "utf16_replace_invalid rep (surrogate_pair c @ r) = surrogate_pair c @ utf16_replace_invalid rep r"
proof -
  have "utf16_find_invalid (surrogate_pair c @ r) = utf16_find_invalid r \<and>
    utf16_replace_invalid rep (surrogate_pair c @ r) = surrogate_pair c @ utf16_replace_invalid rep r"
  proof (cases "c > 0xffff")
    case True
    obtain l t where "surrogate_pair c = [l, t]" "is_lead_surrogate (ucast l)" "is_trail_surrogate (ucast t)"
      using surrogate_pair_split[OF assms True] by metis
    then show ?thesis by simp
  next
    case False
    then show ?thesis using surrogate_pair_bmp[OF assms False] by (simp add: surrogate_cases)
  qed
  then show "utf16_find_invalid (surrogate_pair c @ r) = utf16_find_invalid r"
    "utf16_replace_invalid rep (surrogate_pair c @ r) = surrogate_pair c @ utf16_replace_invalid rep r"
    by auto
qed

lemma utf16_skip_encoded:
  "list_all is_code_point_valid cs \<Longrightarrow> utf16_find_invalid (utf16_of cs @ r) = utf16_find_invalid r"
  "list_all is_code_point_valid cs \<Longrightarrow>
   utf16_replace_invalid rep (utf16_of cs @ r) = utf16_of cs @ utf16_replace_invalid rep r"
  by (induction cs) (simp_all add: utf16_step_encoded)

lemma utf16_find_invalid_iff:
  "utf16_find_invalid u = [] \<longleftrightarrow>
     utf16_well_formed u \<or> (\<exists>v t. u = v @ [t] \<and> utf16_well_formed v \<and> is_trail_surrogate (ucast t))"
proof -
  obtain cs r e where u: "list_all is_code_point_valid cs" "u = utf16_of cs @ r" "validate_next16 r = Inl e"
    using u16.split_valid by blast
  have f: "utf16_find_invalid u = utf16_find_invalid r" using utf16_skip_encoded(1) u by simp
  show ?thesis
  proof
    assume "utf16_find_invalid u = []"
    then have "r = [] \<or> (\<exists>t. r = [t] \<and> is_trail_surrogate (ucast t))"
      using u(3) unfolding f validate_next16_stuck
      by (auto simp: Let_def surrogate_cases surrogate_disjoint')
    then show "utf16_well_formed u \<or> (\<exists>v t. u = v @ [t] \<and> utf16_well_formed v \<and> is_trail_surrogate (ucast t))"
      using u utf16_well_formed_iff by auto
  next
    assume "utf16_well_formed u \<or> (\<exists>v t. u = v @ [t] \<and> utf16_well_formed v \<and> is_trail_surrogate (ucast t))"
    then obtain ds q where "list_all is_code_point_valid ds" "u = utf16_of ds @ q"
      "q = [] \<or> (\<exists>t. q = [t] \<and> is_trail_surrogate (ucast t))"
      unfolding utf16_well_formed_iff by (metis append_Nil2)
    then show "utf16_find_invalid u = []"
      using utf16_skip_encoded(1)[of ds q] by (auto simp: surrogate_disjoint')
  qed
qed

lemma invalid_char_replacement_valid [simp]: "is_code_point_valid invalid_char_replacement"
  by (simp add: valid_unat invalid_char_replacement_def)

lemma utf8_replace_invalid_encoded:
  assumes "is_code_point_valid rep"
  shows "\<exists>cs. list_all is_code_point_valid cs \<and> utf8_replace_invalid rep b = utf8_of cs"
proof (induction "length b" arbitrary: b rule: less_induct)
  case less
  have shrink: "\<exists>cs. list_all is_code_point_valid cs \<and>
      utf8_append rep @ utf8_replace_invalid rep b' = utf8_of cs" if b': "length b' < length b" for b'
  proof -
    obtain cs where "list_all is_code_point_valid cs" "utf8_replace_invalid rep b' = utf8_of cs"
      using less[OF b'] by blast
    then show ?thesis using assms by (intro exI[of _ "rep # cs"]) simp
  qed
  show ?case
  proof (cases "b = []")
    case True
    then show ?thesis by (intro exI[of _ "[]"]) (simp add: utf8_replace_invalid.simps)
  next
    case False
    then have l: "length (tl b) < length b" "length (dropWhile is_trail (tl b)) < length b"
      using length_dropWhile_le[of is_trail "tl b"] by (cases b; simp)+
    show ?thesis
    proof (cases "validate_next b")
      case (Inr p)
      then obtain c r where p: "validate_next b = Inr (c, r)" by (cases p) simp
      have "utf8_replace_invalid rep b = take (length b - length r) b @ utf8_replace_invalid rep r"
        using False p by (simp add: utf8_replace_invalid.simps[of rep b])
      moreover obtain cs where "list_all is_code_point_valid cs" "utf8_replace_invalid rep r = utf8_of cs"
        using less[OF u8.dec_shorter[OF p]] by blast
      moreover have c: "is_code_point_valid c" and b: "b = utf8_append c @ r" using p u8.enc_dec by auto
      moreover have "take (length b - length r) b = utf8_append c" unfolding b by simp
      ultimately show ?thesis by (intro exI[of _ "c # cs"]) simp
    next
      case (Inl e)
      have "utf8_replace_invalid rep b \<in> {utf8_append rep @ utf8_replace_invalid rep [],
          utf8_append rep @ utf8_replace_invalid rep (tl b),
          utf8_append rep @ utf8_replace_invalid rep (dropWhile is_trail (tl b))}"
        using False Inl by (cases e)
          (simp_all add: utf8_replace_invalid.simps[of rep b] utf8_replace_invalid.simps[of rep "[]"])
      then show ?thesis using shrink[of "[]"] shrink[OF l(1)] shrink[OF l(2)] False
        by (elim insertE emptyE) simp_all
    qed
  qed
qed

text \<open>No lead surrogate directly follows a lead surrogate.\<close>

fun no_lead_pair :: "unit16 list \<Rightarrow> bool" where
  "no_lead_pair (a # b # r) \<longleftrightarrow>
     \<not> (is_lead_surrogate (ucast a) \<and> is_lead_surrogate (ucast b)) \<and> no_lead_pair (b # r)" |
  "no_lead_pair _ \<longleftrightarrow> True"

lemma no_lead_pair_append: "no_lead_pair (v @ r) \<Longrightarrow> no_lead_pair r"
proof (induction v)
  case (Cons a v)
  then show ?case by (cases "v @ r") auto
qed simp

lemma utf16_unit_encoded:
  assumes "\<not> is_surrogate (ucast t)"
  obtains c where "is_code_point_valid c" "[t] = surrogate_pair c"
proof -
  have "validate_next16 [t] = Inr (ucast t, [])" using assms by (simp add: validate_next16_def)
  from u16.enc_dec[OF this] show thesis using that by auto
qed

lemma utf16_replace_invalid_encoded:
  assumes "is_code_point_valid rep" "\<not> rep > 0xffff"
  shows "no_lead_pair u \<Longrightarrow>
    \<exists>cs. list_all is_code_point_valid cs \<and> utf16_replace_invalid rep u = utf16_of cs"
proof (induction "length u" arbitrary: u rule: less_induct)
  case less
  have rep: "[ucast rep] = surrogate_pair rep" using surrogate_pair_bmp(1) assms by simp
  obtain cs r e where u: "list_all is_code_point_valid cs" "u = utf16_of cs @ r" "validate_next16 r = Inl e"
    using u16.split_valid by blast
  have nl: "no_lead_pair r" using less.prems u(2) no_lead_pair_append by blast
  have skip: "\<exists>ds. list_all is_code_point_valid ds \<and>
      surrogate_pair rep @ w @ utf16_replace_invalid rep q = utf16_of ds"
    if "length q < length r" "no_lead_pair q" "list_all is_code_point_valid ws" "w = utf16_of ws" for q w ws
  proof -
    have "length q < length u" using that(1) unfolding u(2) by simp
    from less.hyps[OF this that(2)]
    obtain ds where "list_all is_code_point_valid ds" "utf16_replace_invalid rep q = utf16_of ds" by blast
    then show ?thesis using that assms by (intro exI[of _ "rep # ws @ ds"]) simp
  qed
  have "\<exists>ds. list_all is_code_point_valid ds \<and> utf16_replace_invalid rep r = utf16_of ds"
    using u(3) unfolding validate_next16_stuck
  proof (elim disjE exE conjE)
    assume "r = []"
    then show ?thesis by (intro exI[of _ "[]"]) simp
  next
    fix x assume "r = [x]" "is_surrogate (ucast x)"
    then have "utf16_replace_invalid rep r = [ucast rep]"
      by (cases "is_lead_surrogate (ucast x)") (simp_all add: surrogate_cases)
    then show ?thesis using rep assms by (intro exI[of _ "[rep]"]) simp
  next
    fix x t q assume r: "r = x # t # q" "is_lead_surrogate (ucast x)" "\<not> is_trail_surrogate (ucast t)"
    then have "\<not> is_surrogate (ucast t)" using nl by (simp add: surrogate_cases)
    then obtain c where "is_code_point_valid c" "[t] = surrogate_pair c" by (rule utf16_unit_encoded)
    moreover have "no_lead_pair q" using nl r no_lead_pair_append[of "[x, t]" q] by simp
    ultimately have "\<exists>ds. list_all is_code_point_valid ds \<and>
        surrogate_pair rep @ [t] @ utf16_replace_invalid rep q = utf16_of ds"
      using skip[of q "[c]" "[t]"] r(1) by simp
    moreover have "utf16_replace_invalid rep r = surrogate_pair rep @ [t] @ utf16_replace_invalid rep q"
      unfolding rep[symmetric] using r by simp
    ultimately show ?thesis by simp
  next
    fix x t q assume r: "r = x # t # q" "is_trail_surrogate (ucast x)"
    then have "no_lead_pair (t # q)" using nl by simp
    then have "\<exists>ds. list_all is_code_point_valid ds \<and>
        surrogate_pair rep @ [] @ utf16_replace_invalid rep (t # q) = utf16_of ds"
      using skip[of "t # q" "[]" "[]"] r(1) by simp
    moreover have "utf16_replace_invalid rep r = surrogate_pair rep @ [] @ utf16_replace_invalid rep (t # q)"
      unfolding rep[symmetric] using r surrogate_disjoint' by simp
    ultimately show ?thesis by simp
  qed
  then obtain ds where "list_all is_code_point_valid ds" "utf16_replace_invalid rep r = utf16_of ds" by blast
  then show ?case using u utf16_skip_encoded(2)[OF u(1), of rep r] by (intro exI[of _ "cs @ ds"]) simp
qed


section \<open>The contracts of the conversions\<close>

text \<open>
  C13. Converting a well-formed UTF-16 string of the client to UTF-8 and back gives the same string,
  and neither direction reports an invalid character.
\<close>

theorem utf16_roundtrip:
  assumes "utf16_well_formed u"
  shows "utf8_to_utf16_lenient (fst (utf16_to_utf8_lenient u)) = (u, None) \<and>
    snd (utf16_to_utf8_lenient u) = None"
proof -
  obtain cs where cs: "list_all is_code_point_valid cs" "u = utf16_of cs"
    using assms utf16_well_formed_iff by blast
  have "utf16_to_utf8_lenient u = (utf8_of cs, None)"
    using utf16_skip_encoded(1)[OF cs(1), of "[]"] unchecked_utf16to8_encoded[OF cs(1), of "[]"] cs(2)
    by (simp add: utf16_to_utf8_lenient_def)
  moreover have "find_invalid (utf8_of cs) = []" using u8.find_encoded cs(1) .
  ultimately show ?thesis
    using unchecked_utf8to16_encoded[OF cs(1)] cs(2) by (simp add: utf8_to_utf16_lenient_def)
qed

theorem utf16_roundtrip_witness:
  "utf8_to_utf16_lenient (fst (utf16_to_utf8_lenient [0x41, 0xd83d, 0xde00])) = ([0x41, 0xd83d, 0xde00], None) \<and>
    snd (utf16_to_utf8_lenient [0x41, 0xd83d, 0xde00]) = None"
  by (rule utf16_roundtrip) code_simp

text \<open>
  C19. Converting valid UTF-8 of the engine to UTF-16 and back gives the same bytes.
\<close>

theorem utf8_roundtrip:
  assumes "find_invalid b = []"
  shows "utf16_to_utf8_lenient (fst (utf8_to_utf16_lenient b)) = (b, None)"
proof -
  obtain cs where cs: "list_all is_code_point_valid cs" "b = utf8_of cs"
    using assms u8.find_nil_iff by blast
  then show ?thesis
    using assms utf16_skip_encoded(1)[OF cs(1), of "[]"] unchecked_utf16to8_encoded[OF cs(1), of "[]"]
      unchecked_utf8to16_encoded[OF cs(1)]
    by (simp add: utf8_to_utf16_lenient_def utf16_to_utf8_lenient_def)
qed

theorem utf8_roundtrip_witness:
  "utf16_to_utf8_lenient (fst (utf8_to_utf16_lenient [0x41, 0xc3, 0xa9])) = ([0x41, 0xc3, 0xa9], None)"
  by (rule utf8_roundtrip) code_simp

text \<open>
  C20. Whatever bytes come in, the lenient conversion hands the client well-formed UTF-16: the
  replacement of invalid sequences leaves valid UTF-8.
\<close>

theorem utf8_to_utf16_lenient_well_formed: "utf16_well_formed (fst (utf8_to_utf16_lenient b))"
proof (cases "find_invalid b = []")
  case True
  then obtain cs where "list_all is_code_point_valid cs" "b = utf8_of cs" using u8.find_nil_iff by blast
  then show ?thesis using True utf16_well_formed_iff
    by (auto simp: utf8_to_utf16_lenient_def unchecked_utf8to16_encoded)
next
  case False
  obtain cs where "list_all is_code_point_valid cs" "utf8_replace_invalid invalid_char_replacement b = utf8_of cs"
    using utf8_replace_invalid_encoded[OF invalid_char_replacement_valid] by blast
  then show ?thesis using False utf16_well_formed_iff
    by (auto simp: utf8_to_utf16_lenient_def unchecked_utf8to16_encoded)
qed

text \<open>
  \<^verbatim>\<open>utf16_write_str\<close> never stores more units than the buffer has, terminates what it
  stores, stores the longest prefix of the conversion that fits, and reports exactly the number of
  units stored before the terminator (the length argument is wide enough for the buffer size).
\<close>

theorem utf16_write_str_bounds:
  assumes "utf16_write_str w ret vec True buffer_len True = (stored, len)"
    and "ret = 0 \<or> ret = 1" "vec \<noteq> []" "0 < buffer_len" "buffer_len \<le> 2 ^ (w - 1)" "0 < w"
  shows "int (length stored) \<le> buffer_len \<and> stored \<noteq> [] \<and> last stored = 0 \<and>
    len = Some (int (length stored) - 1) \<and>
    butlast stored =
      take (nat (buffer_len - 1)) (fst (utf8_to_utf16_lenient (takeWhile (\<lambda>b. b \<noteq> 0) vec)))"
proof -
  let ?t = "takeWhile (\<lambda>b. b \<noteq> 0) vec"
  have t: "take (length ?t) vec = ?t" by (metis append_eq_conv_conj takeWhile_dropWhile_id)
  have e: "fst (utf8_to_utf16_lenient []) = []"
    by (simp add: utf8_to_utf16_lenient_def find_invalid.simps unchecked_utf8to16.simps)
  show ?thesis
  proof (cases "?t = [] \<or> buffer_len = 1")
    case True
    then have "stored = [0]" "len = Some 0"
      using assms by (auto simp: utf16_write_str_def Let_def split: if_splits)
    then show ?thesis using True assms e by auto
  next
    case False
    let ?v = "fst (utf8_to_utf16_lenient ?t)"
    let ?n = "min (length ?v) (nat (buffer_len - 1))"
    have s: "stored = take ?n ?v @ [0]" "len = Some (wrap_s w (int ?n))"
      using assms(1-4) False t by (auto simp: utf16_write_str_def Let_def split: if_splits)
    have "int ?n < buffer_len" using assms(4) by auto
    then have "int ?n < 2 ^ (w - 1)" using assms(5) by linarith
    moreover have "- (2 ^ (w - 1)) \<le> int ?n" by (rule order_trans[of _ 0]) simp_all
    ultimately have "in_s w (int ?n)" by (simp add: in_s_def)
    then have l: "len = Some (int ?n)" using s(2) assms(6) by simp
    have "int ?n < buffer_len" using assms(4) by auto
    moreover have "take ?n ?v = take (nat (buffer_len - 1)) ?v" by (simp add: min_def)
    ultimately show ?thesis using s(1) l by auto
  qed
qed

theorem utf16_write_str_bounds_witness:
  "int (length [0x48, (0::unit16)]) \<le> 2 \<and> [0x48, (0::unit16)] \<noteq> [] \<and> last [0x48, (0::unit16)] = 0 \<and>
    Some 1 = Some (int (length [0x48, (0::unit16)]) - 1) \<and>
    butlast [0x48, (0::unit16)] =
      take (nat (2 - 1)) (fst (utf8_to_utf16_lenient (takeWhile (\<lambda>b. b \<noteq> 0) [0x48, 0x69, 0])))"
  by (rule utf16_write_str_bounds[where w = 16 and ret = 0]) code_simp+

text \<open>
  \<^verbatim>\<open>utf16_find_invalid\<close> reports no invalid character exactly on the well-formed strings and on
  those that are well-formed up to a last unit that is an unpaired trail surrogate: the loop returns
  the position after a lone trail surrogate, which at the end of the buffer is the end.
\<close>

theorem utf16_find_invalid_accepts:
  "utf16_find_invalid u = [] \<longleftrightarrow>
     (utf16_well_formed u \<or> (\<exists>v t. u = v @ [t] \<and> utf16_well_formed v \<and> is_trail_surrogate (ucast t)))"
  by (rule utf16_find_invalid_iff)

text \<open>
  A buffer that ends in an unpaired trail surrogate is therefore transcoded without replacement
  and the engine receives bytes that are not UTF-8.
\<close>

theorem lone_trail_gives_invalid_utf8:
  assumes "utf16_well_formed v" "is_trail_surrogate (ucast t)"
  shows "snd (utf16_to_utf8_lenient (v @ [t])) = None \<and>
    find_invalid (fst (utf16_to_utf8_lenient (v @ [t]))) \<noteq> []"
proof -
  obtain cs where cs: "list_all is_code_point_valid cs" "v = utf16_of cs"
    using assms(1) utf16_well_formed_iff by blast
  let ?c = "ucast t :: code_point"
  have nl: "\<not> is_lead_surrogate ?c" using assms(2) surrogate_disjoint' by blast
  have r: "utf16_to_utf8_lenient (v @ [t]) = (utf8_of cs @ utf8_append ?c, None)"
    using utf16_skip_encoded(1)[OF cs(1), of "[t]"] unchecked_utf16to8_encoded[OF cs(1), of "[t]"]
      cs(2) assms(2) nl by (simp add: utf16_to_utf8_lenient_def)
  have n: "0xdc00 \<le> unat ?c" "unat ?c \<le> 0xdfff" using assms(2) by (simp_all only: surrogate_unat)
  obtain a b c where a: "utf8_append ?c = [a, b, c]" "unat a = 224 + unat ?c div 4096"
      "unat b = 128 + unat ?c div 64 mod 64" "unat c = 128 + unat ?c mod 64"
    using n utf8_append_unat[of ?c] by (auto simp: Let_def map_eq_Cons_conv)
  have lead: "unat a = 224 + 13" using n a(2) by linarith
  have "sequence_length a = 3" unfolding sequence_length_iff using lead by (intro exI[of _ 13]) simp
  moreover have tr: "is_trail b" "is_trail c" using a(3,4) by (simp_all add: is_trail_iff)
  moreover have "unat ((push_bit 12 (ucast a) AND 0xffff) + (push_bit 6 (ucast b) AND 0xfff) + (ucast c AND 0x3f) :: code_point)
      = 13 * 4096 + unat ?c div 64 mod 64 * 64 + unat ?c mod 64"
    by (rule seq3_val) (use lead a in simp_all)
  moreover have "13 * 4096 + unat ?c div 64 mod 64 * 64 + unat ?c mod 64 = unat ?c"
    using nat_digits(2)[of "unat ?c"] lead a(2) by simp
  ultimately have "validate_next [a, b, c] = Inl INVALID_CODE_POINT"
    using n by (simp add: validate_next_def get_sequence_def get_sequence_tails valid_unat)
  then have "find_invalid [a, b, c] = [a, b, c]" by (simp add: find_invalid.simps)
  then show ?thesis using r a(1) u8.find_skip[OF cs(1), of "[a, b, c]"] by simp
qed

theorem lone_trail_gives_invalid_utf8_witness:
  "snd (utf16_to_utf8_lenient ([0x41] @ [0xdc00])) = None \<and>
    find_invalid (fst (utf16_to_utf8_lenient ([0x41] @ [0xdc00]))) \<noteq> []"
  by (rule lone_trail_gives_invalid_utf8) code_simp+

text \<open>
  Replacing invalid units gives well-formed UTF-16 whenever no two lead surrogates are adjacent;
  the second unit after a lead surrogate is copied unchecked, so two adjacent ones can stay.
\<close>

theorem utf16_replace_invalid_well_formed:
  assumes "no_lead_pair u"
  shows "utf16_well_formed (utf16_replace_invalid invalid_char_replacement u)"
  using utf16_replace_invalid_encoded[OF invalid_char_replacement_valid _ assms] utf16_well_formed_iff
  by (simp add: invalid_char_replacement_def)

theorem utf16_replace_invalid_well_formed_witness:
  "utf16_well_formed (utf16_replace_invalid invalid_char_replacement [0xd800, 0x41, 0xdc00])"
  by (rule utf16_replace_invalid_well_formed) code_simp

text \<open>
  The restriction is needed: on the units D800 D801 DC01 the replacement leaves D801 before the
  replacement character, which is not well-formed.
\<close>

theorem utf16_replace_invalid_incomplete:
  "utf16_replace_invalid invalid_char_replacement [0xd800, 0xd801, 0xdc01] = [0xfffd, 0xd801, 0xfffd] \<and>
   \<not> utf16_well_formed [0xfffd, 0xd801, 0xfffd]"
  by code_simp
end

