(* ===== verification/Odbc_Constants.thy ===== *)
theory Odbc_Constants
  imports Odbc_Prelude
begin

text \<open>
  The values of the ODBC interface (\<^verbatim>\<open>sql.h\<close>, \<^verbatim>\<open>sqlext.h\<close> of the platform) the driver's source
  names. They are documented numbers of a published interface; several of them coincide
  (\<^verbatim>\<open>SQL_C_CHAR\<close> and \<^verbatim>\<open>SQL_CHAR\<close>, for instance), which the driver relies on, so they are
  integers and not constructors. They abbreviate their value and vanish when a term is read.
\<close>

section \<open>Return codes\<close>

abbreviation (input) SQL_SUCCESS :: int where "SQL_SUCCESS \<equiv> 0"
abbreviation (input) SQL_SUCCESS_WITH_INFO :: int where "SQL_SUCCESS_WITH_INFO \<equiv> 1"
abbreviation (input) SQL_STILL_EXECUTING :: int where "SQL_STILL_EXECUTING \<equiv> 2"
abbreviation (input) SQL_NEED_DATA :: int where "SQL_NEED_DATA \<equiv> 99"
abbreviation (input) SQL_NO_DATA :: int where "SQL_NO_DATA \<equiv> 100"
abbreviation (input) SQL_ERROR :: int where "SQL_ERROR \<equiv> - 1"
abbreviation (input) SQL_INVALID_HANDLE :: int where "SQL_INVALID_HANDLE \<equiv> - 2"

section \<open>Length and indicator values\<close>

abbreviation (input) SQL_NULL_DATA :: int where "SQL_NULL_DATA \<equiv> - 1"
abbreviation (input) SQL_DATA_AT_EXEC :: int where "SQL_DATA_AT_EXEC \<equiv> - 2"
abbreviation (input) SQL_NTS :: int where "SQL_NTS \<equiv> - 3"
abbreviation (input) SQL_NO_TOTAL :: int where "SQL_NO_TOTAL \<equiv> - 4"

section \<open>Truth values\<close>

abbreviation (input) SQL_FALSE :: int where "SQL_FALSE \<equiv> 0"
abbreviation (input) SQL_TRUE :: int where "SQL_TRUE \<equiv> 1"

section \<open>Handle types\<close>

abbreviation (input) SQL_HANDLE_ENV :: int where "SQL_HANDLE_ENV \<equiv> 1"
abbreviation (input) SQL_HANDLE_DBC :: int where "SQL_HANDLE_DBC \<equiv> 2"
abbreviation (input) SQL_HANDLE_STMT :: int where "SQL_HANDLE_STMT \<equiv> 3"
abbreviation (input) SQL_HANDLE_DESC :: int where "SQL_HANDLE_DESC \<equiv> 4"

section \<open>SQL data types\<close>

abbreviation (input) SQL_UNKNOWN_TYPE :: int where "SQL_UNKNOWN_TYPE \<equiv> 0"
abbreviation (input) SQL_CHAR :: int where "SQL_CHAR \<equiv> 1"
abbreviation (input) SQL_NUMERIC :: int where "SQL_NUMERIC \<equiv> 2"
abbreviation (input) SQL_DECIMAL :: int where "SQL_DECIMAL \<equiv> 3"
abbreviation (input) SQL_INTEGER :: int where "SQL_INTEGER \<equiv> 4"
abbreviation (input) SQL_SMALLINT :: int where "SQL_SMALLINT \<equiv> 5"
abbreviation (input) SQL_FLOAT :: int where "SQL_FLOAT \<equiv> 6"
abbreviation (input) SQL_REAL :: int where "SQL_REAL \<equiv> 7"
abbreviation (input) SQL_DOUBLE :: int where "SQL_DOUBLE \<equiv> 8"
abbreviation (input) SQL_DATETIME :: int where "SQL_DATETIME \<equiv> 9"
abbreviation (input) SQL_INTERVAL :: int where "SQL_INTERVAL \<equiv> 10"
abbreviation (input) SQL_TIMESTAMP :: int where "SQL_TIMESTAMP \<equiv> 11"
abbreviation (input) SQL_VARCHAR :: int where "SQL_VARCHAR \<equiv> 12"
abbreviation (input) SQL_TYPE_DATE :: int where "SQL_TYPE_DATE \<equiv> 91"
abbreviation (input) SQL_TYPE_TIME :: int where "SQL_TYPE_TIME \<equiv> 92"
abbreviation (input) SQL_TYPE_TIMESTAMP :: int where "SQL_TYPE_TIMESTAMP \<equiv> 93"
abbreviation (input) SQL_LONGVARCHAR :: int where "SQL_LONGVARCHAR \<equiv> - 1"
abbreviation (input) SQL_BINARY :: int where "SQL_BINARY \<equiv> - 2"
abbreviation (input) SQL_VARBINARY :: int where "SQL_VARBINARY \<equiv> - 3"
abbreviation (input) SQL_LONGVARBINARY :: int where "SQL_LONGVARBINARY \<equiv> - 4"
abbreviation (input) SQL_BIGINT :: int where "SQL_BIGINT \<equiv> - 5"
abbreviation (input) SQL_TINYINT :: int where "SQL_TINYINT \<equiv> - 6"
abbreviation (input) SQL_BIT :: int where "SQL_BIT \<equiv> - 7"
abbreviation (input) SQL_WCHAR :: int where "SQL_WCHAR \<equiv> - 8"
abbreviation (input) SQL_WVARCHAR :: int where "SQL_WVARCHAR \<equiv> - 9"
abbreviation (input) SQL_WLONGVARCHAR :: int where "SQL_WLONGVARCHAR \<equiv> - 10"
abbreviation (input) SQL_ALL_TYPES :: int where "SQL_ALL_TYPES \<equiv> 0"

section \<open>Interval and datetime codes\<close>

abbreviation (input) SQL_CODE_YEAR :: int where "SQL_CODE_YEAR \<equiv> 1"
abbreviation (input) SQL_CODE_MONTH :: int where "SQL_CODE_MONTH \<equiv> 2"
abbreviation (input) SQL_CODE_DAY :: int where "SQL_CODE_DAY \<equiv> 3"
abbreviation (input) SQL_CODE_HOUR :: int where "SQL_CODE_HOUR \<equiv> 4"
abbreviation (input) SQL_CODE_MINUTE :: int where "SQL_CODE_MINUTE \<equiv> 5"
abbreviation (input) SQL_CODE_SECOND :: int where "SQL_CODE_SECOND \<equiv> 6"
abbreviation (input) SQL_CODE_YEAR_TO_MONTH :: int where "SQL_CODE_YEAR_TO_MONTH \<equiv> 7"
abbreviation (input) SQL_CODE_DAY_TO_HOUR :: int where "SQL_CODE_DAY_TO_HOUR \<equiv> 8"
abbreviation (input) SQL_CODE_DAY_TO_MINUTE :: int where "SQL_CODE_DAY_TO_MINUTE \<equiv> 9"
abbreviation (input) SQL_CODE_DAY_TO_SECOND :: int where "SQL_CODE_DAY_TO_SECOND \<equiv> 10"
abbreviation (input) SQL_CODE_HOUR_TO_MINUTE :: int where "SQL_CODE_HOUR_TO_MINUTE \<equiv> 11"
abbreviation (input) SQL_CODE_HOUR_TO_SECOND :: int where "SQL_CODE_HOUR_TO_SECOND \<equiv> 12"
abbreviation (input) SQL_CODE_MINUTE_TO_SECOND :: int where "SQL_CODE_MINUTE_TO_SECOND \<equiv> 13"
abbreviation (input) SQL_CODE_DATE :: int where "SQL_CODE_DATE \<equiv> 1"
abbreviation (input) SQL_CODE_TIME :: int where "SQL_CODE_TIME \<equiv> 2"
abbreviation (input) SQL_CODE_TIMESTAMP :: int where "SQL_CODE_TIMESTAMP \<equiv> 3"

section \<open>Interval types\<close>

abbreviation (input) SQL_INTERVAL_YEAR :: int where "SQL_INTERVAL_YEAR \<equiv> 101"
abbreviation (input) SQL_INTERVAL_MONTH :: int where "SQL_INTERVAL_MONTH \<equiv> 102"
abbreviation (input) SQL_INTERVAL_DAY :: int where "SQL_INTERVAL_DAY \<equiv> 103"
abbreviation (input) SQL_INTERVAL_HOUR :: int where "SQL_INTERVAL_HOUR \<equiv> 104"
abbreviation (input) SQL_INTERVAL_MINUTE :: int where "SQL_INTERVAL_MINUTE \<equiv> 105"
abbreviation (input) SQL_INTERVAL_SECOND :: int where "SQL_INTERVAL_SECOND \<equiv> 106"
abbreviation (input) SQL_INTERVAL_YEAR_TO_MONTH :: int where "SQL_INTERVAL_YEAR_TO_MONTH \<equiv> 107"
abbreviation (input) SQL_INTERVAL_DAY_TO_HOUR :: int where "SQL_INTERVAL_DAY_TO_HOUR \<equiv> 108"
abbreviation (input) SQL_INTERVAL_DAY_TO_MINUTE :: int where "SQL_INTERVAL_DAY_TO_MINUTE \<equiv> 109"
abbreviation (input) SQL_INTERVAL_DAY_TO_SECOND :: int where "SQL_INTERVAL_DAY_TO_SECOND \<equiv> 110"
abbreviation (input) SQL_INTERVAL_HOUR_TO_MINUTE :: int where "SQL_INTERVAL_HOUR_TO_MINUTE \<equiv> 111"
abbreviation (input) SQL_INTERVAL_HOUR_TO_SECOND :: int where "SQL_INTERVAL_HOUR_TO_SECOND \<equiv> 112"
abbreviation (input) SQL_INTERVAL_MINUTE_TO_SECOND :: int where "SQL_INTERVAL_MINUTE_TO_SECOND \<equiv> 113"

section \<open>Interval kinds (enum SQLINTERVAL)\<close>

abbreviation (input) SQL_IS_YEAR :: int where "SQL_IS_YEAR \<equiv> 1"
abbreviation (input) SQL_IS_MONTH :: int where "SQL_IS_MONTH \<equiv> 2"
abbreviation (input) SQL_IS_DAY :: int where "SQL_IS_DAY \<equiv> 3"
abbreviation (input) SQL_IS_HOUR :: int where "SQL_IS_HOUR \<equiv> 4"
abbreviation (input) SQL_IS_MINUTE :: int where "SQL_IS_MINUTE \<equiv> 5"
abbreviation (input) SQL_IS_SECOND :: int where "SQL_IS_SECOND \<equiv> 6"
abbreviation (input) SQL_IS_YEAR_TO_MONTH :: int where "SQL_IS_YEAR_TO_MONTH \<equiv> 7"
abbreviation (input) SQL_IS_DAY_TO_HOUR :: int where "SQL_IS_DAY_TO_HOUR \<equiv> 8"
abbreviation (input) SQL_IS_DAY_TO_MINUTE :: int where "SQL_IS_DAY_TO_MINUTE \<equiv> 9"
abbreviation (input) SQL_IS_DAY_TO_SECOND :: int where "SQL_IS_DAY_TO_SECOND \<equiv> 10"
abbreviation (input) SQL_IS_HOUR_TO_MINUTE :: int where "SQL_IS_HOUR_TO_MINUTE \<equiv> 11"
abbreviation (input) SQL_IS_HOUR_TO_SECOND :: int where "SQL_IS_HOUR_TO_SECOND \<equiv> 12"
abbreviation (input) SQL_IS_MINUTE_TO_SECOND :: int where "SQL_IS_MINUTE_TO_SECOND \<equiv> 13"

section \<open>C data types\<close>

abbreviation (input) SQL_C_CHAR :: int where "SQL_C_CHAR \<equiv> 1"
abbreviation (input) SQL_C_LONG :: int where "SQL_C_LONG \<equiv> 4"
abbreviation (input) SQL_C_SHORT :: int where "SQL_C_SHORT \<equiv> 5"
abbreviation (input) SQL_C_FLOAT :: int where "SQL_C_FLOAT \<equiv> 7"
abbreviation (input) SQL_C_DOUBLE :: int where "SQL_C_DOUBLE \<equiv> 8"
abbreviation (input) SQL_C_NUMERIC :: int where "SQL_C_NUMERIC \<equiv> 2"
abbreviation (input) SQL_C_DEFAULT :: int where "SQL_C_DEFAULT \<equiv> 99"
abbreviation (input) SQL_C_TYPE_DATE :: int where "SQL_C_TYPE_DATE \<equiv> 91"
abbreviation (input) SQL_C_TYPE_TIME :: int where "SQL_C_TYPE_TIME \<equiv> 92"
abbreviation (input) SQL_C_TYPE_TIMESTAMP :: int where "SQL_C_TYPE_TIMESTAMP \<equiv> 93"
abbreviation (input) SQL_C_BINARY :: int where "SQL_C_BINARY \<equiv> - 2"
abbreviation (input) SQL_C_BIT :: int where "SQL_C_BIT \<equiv> - 7"
abbreviation (input) SQL_C_TINYINT :: int where "SQL_C_TINYINT \<equiv> - 6"
abbreviation (input) SQL_C_WCHAR :: int where "SQL_C_WCHAR \<equiv> - 8"
abbreviation (input) SQL_C_SLONG :: int where "SQL_C_SLONG \<equiv> - 16"
abbreviation (input) SQL_C_SSHORT :: int where "SQL_C_SSHORT \<equiv> - 15"
abbreviation (input) SQL_C_STINYINT :: int where "SQL_C_STINYINT \<equiv> - 26"
abbreviation (input) SQL_C_ULONG :: int where "SQL_C_ULONG \<equiv> - 18"
abbreviation (input) SQL_C_USHORT :: int where "SQL_C_USHORT \<equiv> - 17"
abbreviation (input) SQL_C_UTINYINT :: int where "SQL_C_UTINYINT \<equiv> - 28"
abbreviation (input) SQL_C_SBIGINT :: int where "SQL_C_SBIGINT \<equiv> - 25"
abbreviation (input) SQL_C_UBIGINT :: int where "SQL_C_UBIGINT \<equiv> - 27"
abbreviation (input) SQL_C_INTERVAL_YEAR :: int where "SQL_C_INTERVAL_YEAR \<equiv> 101"
abbreviation (input) SQL_C_INTERVAL_MONTH :: int where "SQL_C_INTERVAL_MONTH \<equiv> 102"
abbreviation (input) SQL_C_INTERVAL_DAY :: int where "SQL_C_INTERVAL_DAY \<equiv> 103"
abbreviation (input) SQL_C_INTERVAL_HOUR :: int where "SQL_C_INTERVAL_HOUR \<equiv> 104"
abbreviation (input) SQL_C_INTERVAL_MINUTE :: int where "SQL_C_INTERVAL_MINUTE \<equiv> 105"
abbreviation (input) SQL_C_INTERVAL_SECOND :: int where "SQL_C_INTERVAL_SECOND \<equiv> 106"
abbreviation (input) SQL_C_INTERVAL_YEAR_TO_MONTH :: int where "SQL_C_INTERVAL_YEAR_TO_MONTH \<equiv> 107"
abbreviation (input) SQL_C_INTERVAL_DAY_TO_HOUR :: int where "SQL_C_INTERVAL_DAY_TO_HOUR \<equiv> 108"
abbreviation (input) SQL_C_INTERVAL_DAY_TO_MINUTE :: int where "SQL_C_INTERVAL_DAY_TO_MINUTE \<equiv> 109"
abbreviation (input) SQL_C_INTERVAL_DAY_TO_SECOND :: int where "SQL_C_INTERVAL_DAY_TO_SECOND \<equiv> 110"
abbreviation (input) SQL_C_INTERVAL_HOUR_TO_MINUTE :: int where "SQL_C_INTERVAL_HOUR_TO_MINUTE \<equiv> 111"
abbreviation (input) SQL_C_INTERVAL_HOUR_TO_SECOND :: int where "SQL_C_INTERVAL_HOUR_TO_SECOND \<equiv> 112"
abbreviation (input) SQL_C_INTERVAL_MINUTE_TO_SECOND :: int where "SQL_C_INTERVAL_MINUTE_TO_SECOND \<equiv> 113"

section \<open>Diagnostic fields\<close>

abbreviation (input) SQL_DIAG_RETURNCODE :: int where "SQL_DIAG_RETURNCODE \<equiv> 1"
abbreviation (input) SQL_DIAG_NUMBER :: int where "SQL_DIAG_NUMBER \<equiv> 2"
abbreviation (input) SQL_DIAG_ROW_COUNT :: int where "SQL_DIAG_ROW_COUNT \<equiv> 3"
abbreviation (input) SQL_DIAG_SQLSTATE :: int where "SQL_DIAG_SQLSTATE \<equiv> 4"
abbreviation (input) SQL_DIAG_NATIVE :: int where "SQL_DIAG_NATIVE \<equiv> 5"
abbreviation (input) SQL_DIAG_MESSAGE_TEXT :: int where "SQL_DIAG_MESSAGE_TEXT \<equiv> 6"
abbreviation (input) SQL_DIAG_DYNAMIC_FUNCTION :: int where "SQL_DIAG_DYNAMIC_FUNCTION \<equiv> 7"
abbreviation (input) SQL_DIAG_CLASS_ORIGIN :: int where "SQL_DIAG_CLASS_ORIGIN \<equiv> 8"
abbreviation (input) SQL_DIAG_SUBCLASS_ORIGIN :: int where "SQL_DIAG_SUBCLASS_ORIGIN \<equiv> 9"
abbreviation (input) SQL_DIAG_CONNECTION_NAME :: int where "SQL_DIAG_CONNECTION_NAME \<equiv> 10"
abbreviation (input) SQL_DIAG_SERVER_NAME :: int where "SQL_DIAG_SERVER_NAME \<equiv> 11"
abbreviation (input) SQL_DIAG_DYNAMIC_FUNCTION_CODE :: int where "SQL_DIAG_DYNAMIC_FUNCTION_CODE \<equiv> 12"
abbreviation (input) SQL_DIAG_CURSOR_ROW_COUNT :: int where "SQL_DIAG_CURSOR_ROW_COUNT \<equiv> - 1249"
abbreviation (input) SQL_DIAG_ROW_NUMBER :: int where "SQL_DIAG_ROW_NUMBER \<equiv> - 1248"
abbreviation (input) SQL_DIAG_COLUMN_NUMBER :: int where "SQL_DIAG_COLUMN_NUMBER \<equiv> - 1247"
abbreviation (input) SQL_NO_COLUMN_NUMBER :: int where "SQL_NO_COLUMN_NUMBER \<equiv> - 1"
abbreviation (input) SQL_NO_ROW_NUMBER :: int where "SQL_NO_ROW_NUMBER \<equiv> - 1"

section \<open>Dynamic function codes\<close>

abbreviation (input) SQL_DIAG_ALTER_DOMAIN :: int where "SQL_DIAG_ALTER_DOMAIN \<equiv> 3"
abbreviation (input) SQL_DIAG_ALTER_TABLE :: int where "SQL_DIAG_ALTER_TABLE \<equiv> 4"
abbreviation (input) SQL_DIAG_CALL :: int where "SQL_DIAG_CALL \<equiv> 7"
abbreviation (input) SQL_DIAG_CREATE_ASSERTION :: int where "SQL_DIAG_CREATE_ASSERTION \<equiv> 6"
abbreviation (input) SQL_DIAG_CREATE_CHARACTER_SET :: int where "SQL_DIAG_CREATE_CHARACTER_SET \<equiv> 8"
abbreviation (input) SQL_DIAG_CREATE_COLLATION :: int where "SQL_DIAG_CREATE_COLLATION \<equiv> 10"
abbreviation (input) SQL_DIAG_CREATE_DOMAIN :: int where "SQL_DIAG_CREATE_DOMAIN \<equiv> 23"
abbreviation (input) SQL_DIAG_CREATE_INDEX :: int where "SQL_DIAG_CREATE_INDEX \<equiv> - 1"
abbreviation (input) SQL_DIAG_CREATE_SCHEMA :: int where "SQL_DIAG_CREATE_SCHEMA \<equiv> 64"
abbreviation (input) SQL_DIAG_CREATE_TABLE :: int where "SQL_DIAG_CREATE_TABLE \<equiv> 77"
abbreviation (input) SQL_DIAG_CREATE_TRANSLATION :: int where "SQL_DIAG_CREATE_TRANSLATION \<equiv> 79"
abbreviation (input) SQL_DIAG_CREATE_VIEW :: int where "SQL_DIAG_CREATE_VIEW \<equiv> 84"
abbreviation (input) SQL_DIAG_DELETE_WHERE :: int where "SQL_DIAG_DELETE_WHERE \<equiv> 19"
abbreviation (input) SQL_DIAG_DROP_ASSERTION :: int where "SQL_DIAG_DROP_ASSERTION \<equiv> 24"
abbreviation (input) SQL_DIAG_DROP_CHARACTER_SET :: int where "SQL_DIAG_DROP_CHARACTER_SET \<equiv> 25"
abbreviation (input) SQL_DIAG_DROP_COLLATION :: int where "SQL_DIAG_DROP_COLLATION \<equiv> 26"
abbreviation (input) SQL_DIAG_DROP_DOMAIN :: int where "SQL_DIAG_DROP_DOMAIN \<equiv> 27"
abbreviation (input) SQL_DIAG_DROP_INDEX :: int where "SQL_DIAG_DROP_INDEX \<equiv> - 2"
abbreviation (input) SQL_DIAG_DROP_SCHEMA :: int where "SQL_DIAG_DROP_SCHEMA \<equiv> 31"
abbreviation (input) SQL_DIAG_DROP_TABLE :: int where "SQL_DIAG_DROP_TABLE \<equiv> 32"
abbreviation (input) SQL_DIAG_DROP_TRANSLATION :: int where "SQL_DIAG_DROP_TRANSLATION \<equiv> 33"
abbreviation (input) SQL_DIAG_DROP_VIEW :: int where "SQL_DIAG_DROP_VIEW \<equiv> 36"
abbreviation (input) SQL_DIAG_DYNAMIC_DELETE_CURSOR :: int where "SQL_DIAG_DYNAMIC_DELETE_CURSOR \<equiv> 38"
abbreviation (input) SQL_DIAG_DYNAMIC_UPDATE_CURSOR :: int where "SQL_DIAG_DYNAMIC_UPDATE_CURSOR \<equiv> 81"
abbreviation (input) SQL_DIAG_GRANT :: int where "SQL_DIAG_GRANT \<equiv> 48"
abbreviation (input) SQL_DIAG_INSERT :: int where "SQL_DIAG_INSERT \<equiv> 50"
abbreviation (input) SQL_DIAG_REVOKE :: int where "SQL_DIAG_REVOKE \<equiv> 59"
abbreviation (input) SQL_DIAG_SELECT_CURSOR :: int where "SQL_DIAG_SELECT_CURSOR \<equiv> 85"
abbreviation (input) SQL_DIAG_UNKNOWN_STATEMENT :: int where "SQL_DIAG_UNKNOWN_STATEMENT \<equiv> 0"
abbreviation (input) SQL_DIAG_UPDATE_WHERE :: int where "SQL_DIAG_UPDATE_WHERE \<equiv> 82"

section \<open>Descriptor fields\<close>

abbreviation (input) SQL_DESC_ARRAY_SIZE :: int where "SQL_DESC_ARRAY_SIZE \<equiv> 20"
abbreviation (input) SQL_DESC_ARRAY_STATUS_PTR :: int where "SQL_DESC_ARRAY_STATUS_PTR \<equiv> 21"
abbreviation (input) SQL_DESC_AUTO_UNIQUE_VALUE :: int where "SQL_DESC_AUTO_UNIQUE_VALUE \<equiv> 11"
abbreviation (input) SQL_DESC_BASE_COLUMN_NAME :: int where "SQL_DESC_BASE_COLUMN_NAME \<equiv> 22"
abbreviation (input) SQL_DESC_BASE_TABLE_NAME :: int where "SQL_DESC_BASE_TABLE_NAME \<equiv> 23"
abbreviation (input) SQL_DESC_BIND_OFFSET_PTR :: int where "SQL_DESC_BIND_OFFSET_PTR \<equiv> 24"
abbreviation (input) SQL_DESC_BIND_TYPE :: int where "SQL_DESC_BIND_TYPE \<equiv> 25"
abbreviation (input) SQL_DESC_CASE_SENSITIVE :: int where "SQL_DESC_CASE_SENSITIVE \<equiv> 12"
abbreviation (input) SQL_DESC_CATALOG_NAME :: int where "SQL_DESC_CATALOG_NAME \<equiv> 17"
abbreviation (input) SQL_DESC_CONCISE_TYPE :: int where "SQL_DESC_CONCISE_TYPE \<equiv> 2"
abbreviation (input) SQL_DESC_DATETIME_INTERVAL_PRECISION :: int where "SQL_DESC_DATETIME_INTERVAL_PRECISION \<equiv> 26"
abbreviation (input) SQL_DESC_DISPLAY_SIZE :: int where "SQL_DESC_DISPLAY_SIZE \<equiv> 6"
abbreviation (input) SQL_DESC_FIXED_PREC_SCALE :: int where "SQL_DESC_FIXED_PREC_SCALE \<equiv> 9"
abbreviation (input) SQL_DESC_LABEL :: int where "SQL_DESC_LABEL \<equiv> 18"
abbreviation (input) SQL_DESC_LITERAL_PREFIX :: int where "SQL_DESC_LITERAL_PREFIX \<equiv> 27"
abbreviation (input) SQL_DESC_LITERAL_SUFFIX :: int where "SQL_DESC_LITERAL_SUFFIX \<equiv> 28"
abbreviation (input) SQL_DESC_LOCAL_TYPE_NAME :: int where "SQL_DESC_LOCAL_TYPE_NAME \<equiv> 29"
abbreviation (input) SQL_DESC_NUM_PREC_RADIX :: int where "SQL_DESC_NUM_PREC_RADIX \<equiv> 32"
abbreviation (input) SQL_DESC_PARAMETER_TYPE :: int where "SQL_DESC_PARAMETER_TYPE \<equiv> 33"
abbreviation (input) SQL_DESC_ROWS_PROCESSED_PTR :: int where "SQL_DESC_ROWS_PROCESSED_PTR \<equiv> 34"
abbreviation (input) SQL_DESC_ROWVER :: int where "SQL_DESC_ROWVER \<equiv> 35"
abbreviation (input) SQL_DESC_SCHEMA_NAME :: int where "SQL_DESC_SCHEMA_NAME \<equiv> 16"
abbreviation (input) SQL_DESC_SEARCHABLE :: int where "SQL_DESC_SEARCHABLE \<equiv> 13"
abbreviation (input) SQL_DESC_TYPE_NAME :: int where "SQL_DESC_TYPE_NAME \<equiv> 14"
abbreviation (input) SQL_DESC_TABLE_NAME :: int where "SQL_DESC_TABLE_NAME \<equiv> 15"
abbreviation (input) SQL_DESC_UNSIGNED :: int where "SQL_DESC_UNSIGNED \<equiv> 8"
abbreviation (input) SQL_DESC_UPDATABLE :: int where "SQL_DESC_UPDATABLE \<equiv> 10"
abbreviation (input) SQL_DESC_COUNT :: int where "SQL_DESC_COUNT \<equiv> 1001"
abbreviation (input) SQL_DESC_TYPE :: int where "SQL_DESC_TYPE \<equiv> 1002"
abbreviation (input) SQL_DESC_LENGTH :: int where "SQL_DESC_LENGTH \<equiv> 1003"
abbreviation (input) SQL_DESC_OCTET_LENGTH_PTR :: int where "SQL_DESC_OCTET_LENGTH_PTR \<equiv> 1004"
abbreviation (input) SQL_DESC_PRECISION :: int where "SQL_DESC_PRECISION \<equiv> 1005"
abbreviation (input) SQL_DESC_SCALE :: int where "SQL_DESC_SCALE \<equiv> 1006"
abbreviation (input) SQL_DESC_DATETIME_INTERVAL_CODE :: int where "SQL_DESC_DATETIME_INTERVAL_CODE \<equiv> 1007"
abbreviation (input) SQL_DESC_NULLABLE :: int where "SQL_DESC_NULLABLE \<equiv> 1008"
abbreviation (input) SQL_DESC_INDICATOR_PTR :: int where "SQL_DESC_INDICATOR_PTR \<equiv> 1009"
abbreviation (input) SQL_DESC_DATA_PTR :: int where "SQL_DESC_DATA_PTR \<equiv> 1010"
abbreviation (input) SQL_DESC_NAME :: int where "SQL_DESC_NAME \<equiv> 1011"
abbreviation (input) SQL_DESC_UNNAMED :: int where "SQL_DESC_UNNAMED \<equiv> 1012"
abbreviation (input) SQL_DESC_OCTET_LENGTH :: int where "SQL_DESC_OCTET_LENGTH \<equiv> 1013"
abbreviation (input) SQL_DESC_ALLOC_TYPE :: int where "SQL_DESC_ALLOC_TYPE \<equiv> 1099"
abbreviation (input) SQL_DESC_ALLOC_AUTO :: int where "SQL_DESC_ALLOC_AUTO \<equiv> 1"
abbreviation (input) SQL_DESC_ALLOC_USER :: int where "SQL_DESC_ALLOC_USER \<equiv> 2"
abbreviation (input) SQL_NAMED :: int where "SQL_NAMED \<equiv> 0"
abbreviation (input) SQL_UNNAMED :: int where "SQL_UNNAMED \<equiv> 1"
abbreviation (input) SQL_BIND_TYPE_DEFAULT :: int where "SQL_BIND_TYPE_DEFAULT \<equiv> 0"
abbreviation (input) SQL_BIND_BY_COLUMN :: int where "SQL_BIND_BY_COLUMN \<equiv> 0"
abbreviation (input) SQL_ATTR_READONLY :: int where "SQL_ATTR_READONLY \<equiv> 0"

section \<open>Column attributes of ODBC 2\<close>

abbreviation (input) SQL_COLUMN_COUNT :: int where "SQL_COLUMN_COUNT \<equiv> 0"
abbreviation (input) SQL_COLUMN_NAME :: int where "SQL_COLUMN_NAME \<equiv> 1"
abbreviation (input) SQL_COLUMN_LENGTH :: int where "SQL_COLUMN_LENGTH \<equiv> 3"
abbreviation (input) SQL_COLUMN_PRECISION :: int where "SQL_COLUMN_PRECISION \<equiv> 4"
abbreviation (input) SQL_COLUMN_SCALE :: int where "SQL_COLUMN_SCALE \<equiv> 5"
abbreviation (input) SQL_COLUMN_NULLABLE :: int where "SQL_COLUMN_NULLABLE \<equiv> 7"

section \<open>Nullability and searchability\<close>

abbreviation (input) SQL_NO_NULLS :: int where "SQL_NO_NULLS \<equiv> 0"
abbreviation (input) SQL_NULLABLE :: int where "SQL_NULLABLE \<equiv> 1"
abbreviation (input) SQL_NULLABLE_UNKNOWN :: int where "SQL_NULLABLE_UNKNOWN \<equiv> 2"
abbreviation (input) SQL_PRED_NONE :: int where "SQL_PRED_NONE \<equiv> 0"
abbreviation (input) SQL_PRED_CHAR :: int where "SQL_PRED_CHAR \<equiv> 1"
abbreviation (input) SQL_PRED_BASIC :: int where "SQL_PRED_BASIC \<equiv> 2"
abbreviation (input) SQL_SEARCHABLE :: int where "SQL_SEARCHABLE \<equiv> 3"

section \<open>Fetch orientations\<close>

abbreviation (input) SQL_FETCH_NEXT :: int where "SQL_FETCH_NEXT \<equiv> 1"
abbreviation (input) SQL_FETCH_FIRST :: int where "SQL_FETCH_FIRST \<equiv> 2"
abbreviation (input) SQL_FETCH_LAST :: int where "SQL_FETCH_LAST \<equiv> 3"
abbreviation (input) SQL_FETCH_PRIOR :: int where "SQL_FETCH_PRIOR \<equiv> 4"
abbreviation (input) SQL_FETCH_ABSOLUTE :: int where "SQL_FETCH_ABSOLUTE \<equiv> 5"
abbreviation (input) SQL_FETCH_RELATIVE :: int where "SQL_FETCH_RELATIVE \<equiv> 6"

section \<open>Row and parameter status\<close>

abbreviation (input) SQL_ROW_SUCCESS :: int where "SQL_ROW_SUCCESS \<equiv> 0"
abbreviation (input) SQL_ROW_NOROW :: int where "SQL_ROW_NOROW \<equiv> 3"
abbreviation (input) SQL_ROW_ERROR :: int where "SQL_ROW_ERROR \<equiv> 5"
abbreviation (input) SQL_PARAM_SUCCESS :: int where "SQL_PARAM_SUCCESS \<equiv> 0"
abbreviation (input) SQL_PARAM_ERROR :: int where "SQL_PARAM_ERROR \<equiv> 5"
abbreviation (input) SQL_PARAM_INPUT :: int where "SQL_PARAM_INPUT \<equiv> 1"
abbreviation (input) SQL_RD_OFF :: int where "SQL_RD_OFF \<equiv> 0"
abbreviation (input) SQL_RD_ON :: int where "SQL_RD_ON \<equiv> 1"

section \<open>Transactions\<close>

abbreviation (input) SQL_COMMIT :: int where "SQL_COMMIT \<equiv> 0"
abbreviation (input) SQL_ROLLBACK :: int where "SQL_ROLLBACK \<equiv> 1"

section \<open>SQLFreeStmt options\<close>

abbreviation (input) SQL_CLOSE :: int where "SQL_CLOSE \<equiv> 0"
abbreviation (input) SQL_DROP :: int where "SQL_DROP \<equiv> 1"
abbreviation (input) SQL_UNBIND :: int where "SQL_UNBIND \<equiv> 2"
abbreviation (input) SQL_RESET_PARAMS :: int where "SQL_RESET_PARAMS \<equiv> 3"

section \<open>Connection attributes\<close>

abbreviation (input) SQL_ATTR_ACCESS_MODE :: int where "SQL_ATTR_ACCESS_MODE \<equiv> 101"
abbreviation (input) SQL_ATTR_AUTOCOMMIT :: int where "SQL_ATTR_AUTOCOMMIT \<equiv> 102"
abbreviation (input) SQL_ATTR_LOGIN_TIMEOUT :: int where "SQL_ATTR_LOGIN_TIMEOUT \<equiv> 103"
abbreviation (input) SQL_ATTR_TRACE :: int where "SQL_ATTR_TRACE \<equiv> 104"
abbreviation (input) SQL_ATTR_TRACEFILE :: int where "SQL_ATTR_TRACEFILE \<equiv> 105"
abbreviation (input) SQL_ATTR_TRANSLATE_LIB :: int where "SQL_ATTR_TRANSLATE_LIB \<equiv> 106"
abbreviation (input) SQL_ATTR_TRANSLATE_OPTION :: int where "SQL_ATTR_TRANSLATE_OPTION \<equiv> 107"
abbreviation (input) SQL_ATTR_TXN_ISOLATION :: int where "SQL_ATTR_TXN_ISOLATION \<equiv> 108"
abbreviation (input) SQL_ATTR_CURRENT_CATALOG :: int where "SQL_ATTR_CURRENT_CATALOG \<equiv> 109"
abbreviation (input) SQL_ATTR_ODBC_CURSORS :: int where "SQL_ATTR_ODBC_CURSORS \<equiv> 110"
abbreviation (input) SQL_ATTR_QUIET_MODE :: int where "SQL_ATTR_QUIET_MODE \<equiv> 111"
abbreviation (input) SQL_ATTR_PACKET_SIZE :: int where "SQL_ATTR_PACKET_SIZE \<equiv> 112"
abbreviation (input) SQL_ATTR_CONNECTION_TIMEOUT :: int where "SQL_ATTR_CONNECTION_TIMEOUT \<equiv> 113"
abbreviation (input) SQL_ATTR_METADATA_ID :: int where "SQL_ATTR_METADATA_ID \<equiv> 10014"
abbreviation (input) SQL_ATTR_ASYNC_ENABLE :: int where "SQL_ATTR_ASYNC_ENABLE \<equiv> 4"
abbreviation (input) SQL_ATTR_AUTO_IPD :: int where "SQL_ATTR_AUTO_IPD \<equiv> 10001"
abbreviation (input) SQL_ATTR_CONNECTION_DEAD :: int where "SQL_ATTR_CONNECTION_DEAD \<equiv> 1209"
abbreviation (input) SQL_ATTR_ENLIST_IN_DTC :: int where "SQL_ATTR_ENLIST_IN_DTC \<equiv> 1207"
abbreviation (input) SQL_ATTR_ASYNC_DBC_FUNCTIONS_ENABLE :: int where "SQL_ATTR_ASYNC_DBC_FUNCTIONS_ENABLE \<equiv> 117"
abbreviation (input) SQL_ATTR_DBC_INFO_TOKEN :: int where "SQL_ATTR_DBC_INFO_TOKEN \<equiv> 118"
abbreviation (input) SQL_ATTR_ASYNC_DBC_EVENT :: int where "SQL_ATTR_ASYNC_DBC_EVENT \<equiv> 119"
abbreviation (input) SQL_ATTR_ASYNC_DBC_PCALLBACK :: int where "SQL_ATTR_ASYNC_DBC_PCALLBACK \<equiv> 120"
abbreviation (input) SQL_ATTR_ASYNC_DBC_PCONTEXT :: int where "SQL_ATTR_ASYNC_DBC_PCONTEXT \<equiv> 121"
abbreviation (input) SQL_AUTOCOMMIT_OFF :: int where "SQL_AUTOCOMMIT_OFF \<equiv> 0"
abbreviation (input) SQL_AUTOCOMMIT_ON :: int where "SQL_AUTOCOMMIT_ON \<equiv> 1"
abbreviation (input) SQL_MODE_READ_WRITE :: int where "SQL_MODE_READ_WRITE \<equiv> 0"
abbreviation (input) SQL_MODE_READ_ONLY :: int where "SQL_MODE_READ_ONLY \<equiv> 1"
abbreviation (input) SQL_TXN_SERIALIZABLE :: int where "SQL_TXN_SERIALIZABLE \<equiv> 8"

section \<open>Environment attributes\<close>

abbreviation (input) SQL_ATTR_ODBC_VERSION :: int where "SQL_ATTR_ODBC_VERSION \<equiv> 200"
abbreviation (input) SQL_ATTR_CONNECTION_POOLING :: int where "SQL_ATTR_CONNECTION_POOLING \<equiv> 201"
abbreviation (input) SQL_ATTR_CP_MATCH :: int where "SQL_ATTR_CP_MATCH \<equiv> 202"
abbreviation (input) SQL_ATTR_OUTPUT_NTS :: int where "SQL_ATTR_OUTPUT_NTS \<equiv> 10001"
abbreviation (input) SQL_OV_ODBC2 :: int where "SQL_OV_ODBC2 \<equiv> 2"
abbreviation (input) SQL_OV_ODBC3 :: int where "SQL_OV_ODBC3 \<equiv> 3"
abbreviation (input) SQL_CP_OFF :: int where "SQL_CP_OFF \<equiv> 0"
abbreviation (input) SQL_CP_ONE_PER_DRIVER :: int where "SQL_CP_ONE_PER_DRIVER \<equiv> 1"
abbreviation (input) SQL_CP_ONE_PER_HENV :: int where "SQL_CP_ONE_PER_HENV \<equiv> 2"

section \<open>Statement attributes\<close>

abbreviation (input) SQL_ATTR_APP_ROW_DESC :: int where "SQL_ATTR_APP_ROW_DESC \<equiv> 10010"
abbreviation (input) SQL_ATTR_APP_PARAM_DESC :: int where "SQL_ATTR_APP_PARAM_DESC \<equiv> 10011"
abbreviation (input) SQL_ATTR_IMP_ROW_DESC :: int where "SQL_ATTR_IMP_ROW_DESC \<equiv> 10012"
abbreviation (input) SQL_ATTR_IMP_PARAM_DESC :: int where "SQL_ATTR_IMP_PARAM_DESC \<equiv> 10013"
abbreviation (input) SQL_ATTR_CURSOR_SCROLLABLE :: int where "SQL_ATTR_CURSOR_SCROLLABLE \<equiv> - 1"
abbreviation (input) SQL_ATTR_CURSOR_SENSITIVITY :: int where "SQL_ATTR_CURSOR_SENSITIVITY \<equiv> - 2"
abbreviation (input) SQL_ATTR_QUERY_TIMEOUT :: int where "SQL_ATTR_QUERY_TIMEOUT \<equiv> 0"
abbreviation (input) SQL_ATTR_MAX_ROWS :: int where "SQL_ATTR_MAX_ROWS \<equiv> 1"
abbreviation (input) SQL_ATTR_NOSCAN :: int where "SQL_ATTR_NOSCAN \<equiv> 2"
abbreviation (input) SQL_ATTR_MAX_LENGTH :: int where "SQL_ATTR_MAX_LENGTH \<equiv> 3"
abbreviation (input) SQL_ATTR_ROW_BIND_TYPE :: int where "SQL_ATTR_ROW_BIND_TYPE \<equiv> 5"
abbreviation (input) SQL_ATTR_CURSOR_TYPE :: int where "SQL_ATTR_CURSOR_TYPE \<equiv> 6"
abbreviation (input) SQL_ATTR_CONCURRENCY :: int where "SQL_ATTR_CONCURRENCY \<equiv> 7"
abbreviation (input) SQL_ATTR_KEYSET_SIZE :: int where "SQL_ATTR_KEYSET_SIZE \<equiv> 8"
abbreviation (input) SQL_ATTR_SIMULATE_CURSOR :: int where "SQL_ATTR_SIMULATE_CURSOR \<equiv> 10"
abbreviation (input) SQL_ATTR_RETRIEVE_DATA :: int where "SQL_ATTR_RETRIEVE_DATA \<equiv> 11"
abbreviation (input) SQL_ATTR_USE_BOOKMARKS :: int where "SQL_ATTR_USE_BOOKMARKS \<equiv> 12"
abbreviation (input) SQL_ATTR_ROW_NUMBER :: int where "SQL_ATTR_ROW_NUMBER \<equiv> 14"
abbreviation (input) SQL_ATTR_ENABLE_AUTO_IPD :: int where "SQL_ATTR_ENABLE_AUTO_IPD \<equiv> 15"
abbreviation (input) SQL_ATTR_FETCH_BOOKMARK_PTR :: int where "SQL_ATTR_FETCH_BOOKMARK_PTR \<equiv> 16"
abbreviation (input) SQL_ATTR_PARAM_BIND_OFFSET_PTR :: int where "SQL_ATTR_PARAM_BIND_OFFSET_PTR \<equiv> 17"
abbreviation (input) SQL_ATTR_PARAM_BIND_TYPE :: int where "SQL_ATTR_PARAM_BIND_TYPE \<equiv> 18"
abbreviation (input) SQL_ATTR_PARAM_OPERATION_PTR :: int where "SQL_ATTR_PARAM_OPERATION_PTR \<equiv> 19"
abbreviation (input) SQL_ATTR_PARAM_STATUS_PTR :: int where "SQL_ATTR_PARAM_STATUS_PTR \<equiv> 20"
abbreviation (input) SQL_ATTR_PARAMS_PROCESSED_PTR :: int where "SQL_ATTR_PARAMS_PROCESSED_PTR \<equiv> 21"
abbreviation (input) SQL_ATTR_PARAMSET_SIZE :: int where "SQL_ATTR_PARAMSET_SIZE \<equiv> 22"
abbreviation (input) SQL_ATTR_ROW_BIND_OFFSET_PTR :: int where "SQL_ATTR_ROW_BIND_OFFSET_PTR \<equiv> 23"
abbreviation (input) SQL_ATTR_ROW_OPERATION_PTR :: int where "SQL_ATTR_ROW_OPERATION_PTR \<equiv> 24"
abbreviation (input) SQL_ATTR_ROW_STATUS_PTR :: int where "SQL_ATTR_ROW_STATUS_PTR \<equiv> 25"
abbreviation (input) SQL_ATTR_ROWS_FETCHED_PTR :: int where "SQL_ATTR_ROWS_FETCHED_PTR \<equiv> 26"
abbreviation (input) SQL_ATTR_ROW_ARRAY_SIZE :: int where "SQL_ATTR_ROW_ARRAY_SIZE \<equiv> 27"
abbreviation (input) SQL_ATTR_ASYNC_STMT_EVENT :: int where "SQL_ATTR_ASYNC_STMT_EVENT \<equiv> 29"
abbreviation (input) SQL_CURSOR_FORWARD_ONLY :: int where "SQL_CURSOR_FORWARD_ONLY \<equiv> 0"
abbreviation (input) SQL_CURSOR_DYNAMIC :: int where "SQL_CURSOR_DYNAMIC \<equiv> 2"
abbreviation (input) SQL_CURSOR_STATIC :: int where "SQL_CURSOR_STATIC \<equiv> 3"
abbreviation (input) SQL_NONSCROLLABLE :: int where "SQL_NONSCROLLABLE \<equiv> 0"
abbreviation (input) SQL_SCROLLABLE :: int where "SQL_SCROLLABLE \<equiv> 1"
abbreviation (input) SQL_INSENSITIVE :: int where "SQL_INSENSITIVE \<equiv> 1"
abbreviation (input) SQL_CONCUR_READ_ONLY :: int where "SQL_CONCUR_READ_ONLY \<equiv> 1"
abbreviation (input) SQL_CONCUR_LOCK :: int where "SQL_CONCUR_LOCK \<equiv> 2"
abbreviation (input) SQL_IS_POINTER :: int where "SQL_IS_POINTER \<equiv> - 4"

section \<open>Function identifiers\<close>

abbreviation (input) SQL_API_SQLALLOCHANDLE :: int where "SQL_API_SQLALLOCHANDLE \<equiv> 1001"
abbreviation (input) SQL_API_SQLBINDCOL :: int where "SQL_API_SQLBINDCOL \<equiv> 4"
abbreviation (input) SQL_API_SQLCANCEL :: int where "SQL_API_SQLCANCEL \<equiv> 5"
abbreviation (input) SQL_API_SQLCLOSECURSOR :: int where "SQL_API_SQLCLOSECURSOR \<equiv> 1003"
abbreviation (input) SQL_API_SQLCOLATTRIBUTES :: int where "SQL_API_SQLCOLATTRIBUTES \<equiv> 6"
abbreviation (input) SQL_API_SQLCOLUMNS :: int where "SQL_API_SQLCOLUMNS \<equiv> 40"
abbreviation (input) SQL_API_SQLCONNECT :: int where "SQL_API_SQLCONNECT \<equiv> 7"
abbreviation (input) SQL_API_SQLCOPYDESC :: int where "SQL_API_SQLCOPYDESC \<equiv> 1004"
abbreviation (input) SQL_API_SQLDATASOURCES :: int where "SQL_API_SQLDATASOURCES \<equiv> 57"
abbreviation (input) SQL_API_SQLDESCRIBECOL :: int where "SQL_API_SQLDESCRIBECOL \<equiv> 8"
abbreviation (input) SQL_API_SQLDISCONNECT :: int where "SQL_API_SQLDISCONNECT \<equiv> 9"
abbreviation (input) SQL_API_SQLENDTRAN :: int where "SQL_API_SQLENDTRAN \<equiv> 1005"
abbreviation (input) SQL_API_SQLEXECDIRECT :: int where "SQL_API_SQLEXECDIRECT \<equiv> 11"
abbreviation (input) SQL_API_SQLEXECUTE :: int where "SQL_API_SQLEXECUTE \<equiv> 12"
abbreviation (input) SQL_API_SQLFETCH :: int where "SQL_API_SQLFETCH \<equiv> 13"
abbreviation (input) SQL_API_SQLFETCHSCROLL :: int where "SQL_API_SQLFETCHSCROLL \<equiv> 1021"
abbreviation (input) SQL_API_SQLFREEHANDLE :: int where "SQL_API_SQLFREEHANDLE \<equiv> 1006"
abbreviation (input) SQL_API_SQLFREESTMT :: int where "SQL_API_SQLFREESTMT \<equiv> 16"
abbreviation (input) SQL_API_SQLGETCONNECTATTR :: int where "SQL_API_SQLGETCONNECTATTR \<equiv> 1007"
abbreviation (input) SQL_API_SQLGETCURSORNAME :: int where "SQL_API_SQLGETCURSORNAME \<equiv> 17"
abbreviation (input) SQL_API_SQLGETDATA :: int where "SQL_API_SQLGETDATA \<equiv> 43"
abbreviation (input) SQL_API_SQLGETDESCFIELD :: int where "SQL_API_SQLGETDESCFIELD \<equiv> 1008"
abbreviation (input) SQL_API_SQLGETDESCREC :: int where "SQL_API_SQLGETDESCREC \<equiv> 1009"
abbreviation (input) SQL_API_SQLGETDIAGFIELD :: int where "SQL_API_SQLGETDIAGFIELD \<equiv> 1010"
abbreviation (input) SQL_API_SQLGETDIAGREC :: int where "SQL_API_SQLGETDIAGREC \<equiv> 1011"
abbreviation (input) SQL_API_SQLGETENVATTR :: int where "SQL_API_SQLGETENVATTR \<equiv> 1012"
abbreviation (input) SQL_API_SQLGETFUNCTIONS :: int where "SQL_API_SQLGETFUNCTIONS \<equiv> 44"
abbreviation (input) SQL_API_SQLGETINFO :: int where "SQL_API_SQLGETINFO \<equiv> 45"
abbreviation (input) SQL_API_SQLGETSTMTATTR :: int where "SQL_API_SQLGETSTMTATTR \<equiv> 1014"
abbreviation (input) SQL_API_SQLGETTYPEINFO :: int where "SQL_API_SQLGETTYPEINFO \<equiv> 47"
abbreviation (input) SQL_API_SQLNUMRESULTCOLS :: int where "SQL_API_SQLNUMRESULTCOLS \<equiv> 18"
abbreviation (input) SQL_API_SQLPARAMDATA :: int where "SQL_API_SQLPARAMDATA \<equiv> 48"
abbreviation (input) SQL_API_SQLPREPARE :: int where "SQL_API_SQLPREPARE \<equiv> 19"
abbreviation (input) SQL_API_SQLPUTDATA :: int where "SQL_API_SQLPUTDATA \<equiv> 49"
abbreviation (input) SQL_API_SQLROWCOUNT :: int where "SQL_API_SQLROWCOUNT \<equiv> 20"
abbreviation (input) SQL_API_SQLSETCONNECTATTR :: int where "SQL_API_SQLSETCONNECTATTR \<equiv> 1016"
abbreviation (input) SQL_API_SQLSETCURSORNAME :: int where "SQL_API_SQLSETCURSORNAME \<equiv> 21"
abbreviation (input) SQL_API_SQLSETDESCFIELD :: int where "SQL_API_SQLSETDESCFIELD \<equiv> 1017"
abbreviation (input) SQL_API_SQLSETDESCREC :: int where "SQL_API_SQLSETDESCREC \<equiv> 1018"
abbreviation (input) SQL_API_SQLSETENVATTR :: int where "SQL_API_SQLSETENVATTR \<equiv> 1019"
abbreviation (input) SQL_API_SQLSETSTMTATTR :: int where "SQL_API_SQLSETSTMTATTR \<equiv> 1020"
abbreviation (input) SQL_API_SQLSPECIALCOLUMNS :: int where "SQL_API_SQLSPECIALCOLUMNS \<equiv> 52"
abbreviation (input) SQL_API_SQLSTATISTICS :: int where "SQL_API_SQLSTATISTICS \<equiv> 53"
abbreviation (input) SQL_API_SQLTABLES :: int where "SQL_API_SQLTABLES \<equiv> 54"
abbreviation (input) SQL_API_SQLBULKOPERATIONS :: int where "SQL_API_SQLBULKOPERATIONS \<equiv> 24"
abbreviation (input) SQL_API_SQLBINDPARAMETER :: int where "SQL_API_SQLBINDPARAMETER \<equiv> 72"
abbreviation (input) SQL_API_SQLBROWSECONNECT :: int where "SQL_API_SQLBROWSECONNECT \<equiv> 55"
abbreviation (input) SQL_API_SQLCOLUMNPRIVILEGES :: int where "SQL_API_SQLCOLUMNPRIVILEGES \<equiv> 56"
abbreviation (input) SQL_API_SQLDESCRIBEPARAM :: int where "SQL_API_SQLDESCRIBEPARAM \<equiv> 58"
abbreviation (input) SQL_API_SQLDRIVERCONNECT :: int where "SQL_API_SQLDRIVERCONNECT \<equiv> 41"
abbreviation (input) SQL_API_SQLDRIVERS :: int where "SQL_API_SQLDRIVERS \<equiv> 71"
abbreviation (input) SQL_API_SQLFOREIGNKEYS :: int where "SQL_API_SQLFOREIGNKEYS \<equiv> 60"
abbreviation (input) SQL_API_SQLMORERESULTS :: int where "SQL_API_SQLMORERESULTS \<equiv> 61"
abbreviation (input) SQL_API_SQLNATIVESQL :: int where "SQL_API_SQLNATIVESQL \<equiv> 62"
abbreviation (input) SQL_API_SQLNUMPARAMS :: int where "SQL_API_SQLNUMPARAMS \<equiv> 63"
abbreviation (input) SQL_API_SQLPRIMARYKEYS :: int where "SQL_API_SQLPRIMARYKEYS \<equiv> 65"
abbreviation (input) SQL_API_SQLPROCEDURECOLUMNS :: int where "SQL_API_SQLPROCEDURECOLUMNS \<equiv> 66"
abbreviation (input) SQL_API_SQLPROCEDURES :: int where "SQL_API_SQLPROCEDURES \<equiv> 67"
abbreviation (input) SQL_API_SQLSETPOS :: int where "SQL_API_SQLSETPOS \<equiv> 68"
abbreviation (input) SQL_API_SQLTABLEPRIVILEGES :: int where "SQL_API_SQLTABLEPRIVILEGES \<equiv> 70"
abbreviation (input) SQL_API_ALL_FUNCTIONS :: int where "SQL_API_ALL_FUNCTIONS \<equiv> 0"
abbreviation (input) SQL_API_ODBC3_ALL_FUNCTIONS :: int where "SQL_API_ODBC3_ALL_FUNCTIONS \<equiv> 999"
abbreviation (input) SQL_API_ODBC3_ALL_FUNCTIONS_SIZE :: int where "SQL_API_ODBC3_ALL_FUNCTIONS_SIZE \<equiv> 250"

section \<open>Logical types of the engine (enum class LogicalTypeId)\<close>

abbreviation (input) LogicalTypeId_INVALID :: int where "LogicalTypeId_INVALID \<equiv> 0"
abbreviation (input) LogicalTypeId_SQLNULL :: int where "LogicalTypeId_SQLNULL \<equiv> 1"
abbreviation (input) LogicalTypeId_UNKNOWN :: int where "LogicalTypeId_UNKNOWN \<equiv> 2"
abbreviation (input) LogicalTypeId_ANY :: int where "LogicalTypeId_ANY \<equiv> 3"
abbreviation (input) LogicalTypeId_USER :: int where "LogicalTypeId_USER \<equiv> 4"
abbreviation (input) LogicalTypeId_TEMPLATE :: int where "LogicalTypeId_TEMPLATE \<equiv> 5"
abbreviation (input) LogicalTypeId_BOOLEAN :: int where "LogicalTypeId_BOOLEAN \<equiv> 10"
abbreviation (input) LogicalTypeId_TINYINT :: int where "LogicalTypeId_TINYINT \<equiv> 11"
abbreviation (input) LogicalTypeId_SMALLINT :: int where "LogicalTypeId_SMALLINT \<equiv> 12"
abbreviation (input) LogicalTypeId_INTEGER :: int where "LogicalTypeId_INTEGER \<equiv> 13"
abbreviation (input) LogicalTypeId_BIGINT :: int where "LogicalTypeId_BIGINT \<equiv> 14"
abbreviation (input) LogicalTypeId_DATE :: int where "LogicalTypeId_DATE \<equiv> 15"
abbreviation (input) LogicalTypeId_TIME :: int where "LogicalTypeId_TIME \<equiv> 16"
abbreviation (input) LogicalTypeId_TIMESTAMP_SEC :: int where "LogicalTypeId_TIMESTAMP_SEC \<equiv> 17"
abbreviation (input) LogicalTypeId_TIMESTAMP_MS :: int where "LogicalTypeId_TIMESTAMP_MS \<equiv> 18"
abbreviation (input) LogicalTypeId_TIMESTAMP :: int where "LogicalTypeId_TIMESTAMP \<equiv> 19"
abbreviation (input) LogicalTypeId_TIMESTAMP_NS :: int where "LogicalTypeId_TIMESTAMP_NS \<equiv> 20"
abbreviation (input) LogicalTypeId_DECIMAL :: int where "LogicalTypeId_DECIMAL \<equiv> 21"
abbreviation (input) LogicalTypeId_FLOAT :: int where "LogicalTypeId_FLOAT \<equiv> 22"
abbreviation (input) LogicalTypeId_DOUBLE :: int where "LogicalTypeId_DOUBLE \<equiv> 23"
abbreviation (input) LogicalTypeId_CHAR :: int where "LogicalTypeId_CHAR \<equiv> 24"
abbreviation (input) LogicalTypeId_VARCHAR :: int where "LogicalTypeId_VARCHAR \<equiv> 25"
abbreviation (input) LogicalTypeId_BLOB :: int where "LogicalTypeId_BLOB \<equiv> 26"
abbreviation (input) LogicalTypeId_INTERVAL :: int where "LogicalTypeId_INTERVAL \<equiv> 27"
abbreviation (input) LogicalTypeId_UTINYINT :: int where "LogicalTypeId_UTINYINT \<equiv> 28"
abbreviation (input) LogicalTypeId_USMALLINT :: int where "LogicalTypeId_USMALLINT \<equiv> 29"
abbreviation (input) LogicalTypeId_UINTEGER :: int where "LogicalTypeId_UINTEGER \<equiv> 30"
abbreviation (input) LogicalTypeId_UBIGINT :: int where "LogicalTypeId_UBIGINT \<equiv> 31"
abbreviation (input) LogicalTypeId_TIMESTAMP_TZ :: int where "LogicalTypeId_TIMESTAMP_TZ \<equiv> 32"
abbreviation (input) LogicalTypeId_TIME_TZ :: int where "LogicalTypeId_TIME_TZ \<equiv> 34"
abbreviation (input) LogicalTypeId_TIME_NS :: int where "LogicalTypeId_TIME_NS \<equiv> 35"
abbreviation (input) LogicalTypeId_BIT :: int where "LogicalTypeId_BIT \<equiv> 36"
abbreviation (input) LogicalTypeId_BIGNUM :: int where "LogicalTypeId_BIGNUM \<equiv> 39"
abbreviation (input) LogicalTypeId_UHUGEINT :: int where "LogicalTypeId_UHUGEINT \<equiv> 49"
abbreviation (input) LogicalTypeId_HUGEINT :: int where "LogicalTypeId_HUGEINT \<equiv> 50"
abbreviation (input) LogicalTypeId_POINTER :: int where "LogicalTypeId_POINTER \<equiv> 51"
abbreviation (input) LogicalTypeId_VALIDITY :: int where "LogicalTypeId_VALIDITY \<equiv> 53"
abbreviation (input) LogicalTypeId_UUID :: int where "LogicalTypeId_UUID \<equiv> 54"
abbreviation (input) LogicalTypeId_GEOMETRY :: int where "LogicalTypeId_GEOMETRY \<equiv> 60"
abbreviation (input) LogicalTypeId_STRUCT :: int where "LogicalTypeId_STRUCT \<equiv> 100"
abbreviation (input) LogicalTypeId_LIST :: int where "LogicalTypeId_LIST \<equiv> 101"
abbreviation (input) LogicalTypeId_MAP :: int where "LogicalTypeId_MAP \<equiv> 102"
abbreviation (input) LogicalTypeId_TABLE :: int where "LogicalTypeId_TABLE \<equiv> 103"
abbreviation (input) LogicalTypeId_ENUM :: int where "LogicalTypeId_ENUM \<equiv> 104"
abbreviation (input) LogicalTypeId_UNION :: int where "LogicalTypeId_UNION \<equiv> 107"
abbreviation (input) LogicalTypeId_ARRAY :: int where "LogicalTypeId_ARRAY \<equiv> 108"

end
