(* ===== verification/Odbc_Utils.thy ===== *)
theory Odbc_Utils
  imports Odbc_Constants Widechar
begin

text \<open>
  \<^verbatim>\<open>src/odbc_driver/common/odbc_utils.cpp\<close> and \<^verbatim>\<open>src/include/odbc_utils.hpp\<close>: storing integers and
  strings through client pointers, reading client strings, trimming, and the catalog filters.
\<close>

section \<open>Writing to the client\<close>

text \<open>
  \<^verbatim>\<open>WriteString<INT_TYPE, SQLCHAR>\<close>: \<^verbatim>\<open>snprintf(out_buf, buf_len, "%s", s.c_str())\<close> stores at most
  \<^verbatim>\<open>buf_len - 1\<close> characters and a terminator, nothing when \<^verbatim>\<open>buf_len\<close> is 0, and returns the length of
  the whole string; \<^verbatim>\<open>n\<close> is \<^verbatim>\<open>sizeof(INT_TYPE)\<close>.
\<close>

definition c_prefix :: "string \<Rightarrow> string" where
  "c_prefix s = takeWhile (\<lambda>c. c \<noteq> CHR 0x00) s"

definition snprintf_s :: "addr \<Rightarrow> int \<Rightarrow> string \<Rightarrow> mem \<Rightarrow> mem" where
  "snprintf_s buf n s m =
     (if n = 0 then m else store_bytes buf (take (nat (n - 1)) (c_prefix s) @ [CHR 0x00]) m)"

definition WriteString :: "nat \<Rightarrow> string \<Rightarrow> addr \<Rightarrow> int \<Rightarrow> addr \<Rightarrow> mem \<Rightarrow> mem" where
  "WriteString n s out_buf buf_len out_len m =
     (let written_chars = (if out_buf \<noteq> nullptr then wrap_s (8 * n) (int (length (c_prefix s))) else 0);
          m = (if out_buf \<noteq> nullptr then snprintf_s out_buf (wrap_u 64 buf_len) s m else m)
      in store_opt n out_len written_chars m)"

text \<open>
  \<^verbatim>\<open>WriteStringInternal\<close>, the wide overloads. The early return stands inside the test of
  \<^verbatim>\<open>out_len\<close>; without that pointer the subtraction below wraps around.
\<close>

definition octets_of :: "string \<Rightarrow> octet list" where
  "octets_of s = map of_char s"

definition unit_bytes :: "unit16 list \<Rightarrow> char list" where
  "unit_bytes us = concat (map (\<lambda>u. le_encode 2 (uint u)) us)"

definition WriteStringInternal :: "nat \<Rightarrow> octet list \<Rightarrow> addr \<Rightarrow> int \<Rightarrow> addr \<Rightarrow> mem \<Rightarrow> mem" where
  "WriteStringInternal n utf8_data out_buf buf_len out_len m =
     (let utf16_vec = fst (utf8_to_utf16_lenient utf8_data);
          buf_len_even = (if buf_len mod 2 \<noteq> 0 then wrap_u 64 (wrap_u 64 buf_len - 1) else wrap_u 64 buf_len);
          m = (if buf_len_even \<le> 2 \<and> out_buf \<noteq> nullptr \<and> buf_len_even = 2
               then store_int 2 out_buf 0 m else m)
      in if buf_len_even \<le> 2 \<and> out_len \<noteq> nullptr then store_int n out_len 0 m
         else
           let len_bytes = min (int (length utf16_vec) * 2) (wrap_u 64 (buf_len_even - 2));
               len_chars = len_bytes div 2;
               m = (if out_buf \<noteq> nullptr
                    then store_int 2 (out_buf + 2 * len_chars) 0
                           (store_bytes out_buf (take (nat len_bytes) (unit_bytes utf16_vec)) m)
                    else m)
           in store_opt n out_len (wrap_s (8 * n) len_bytes) m)"

definition WriteStringW :: "nat \<Rightarrow> string \<Rightarrow> addr \<Rightarrow> int \<Rightarrow> addr \<Rightarrow> mem \<Rightarrow> mem" where
  "WriteStringW n utf8_str out_buf buf_len_bytes out_len_bytes m =
     WriteStringInternal n (octets_of utf8_str) out_buf buf_len_bytes out_len_bytes m"

text \<open>\<^verbatim>\<open>StoreWithLength<VAL_INT_TYPE, LEN_INT_TYPE>\<close>, by the two sizes.\<close>

definition StoreWithLength :: "nat \<Rightarrow> nat \<Rightarrow> int \<Rightarrow> addr \<Rightarrow> addr \<Rightarrow> mem \<Rightarrow> mem" where
  "StoreWithLength nv nl v ptr length_ptr m =
     store_opt nl length_ptr (int nv) (store_opt nv ptr v m)"

definition SetStringValueLength :: "string \<Rightarrow> addr \<Rightarrow> mem \<Rightarrow> int \<times> mem" where
  "SetStringValueLength val_str str_len_or_ind_ptr m =
     (if str_len_or_ind_ptr \<noteq> nullptr
      then (SQL_SUCCESS, store_int 8 str_len_or_ind_ptr (int (length val_str)) m)
      else (SQL_ERROR, m))"

section \<open>Reading from the client\<close>

text \<open>The characters before the first NUL; None when the memory holds none.\<close>

partial_function (option) c_str :: "addr \<Rightarrow> mem \<Rightarrow> string option" where
  "c_str a m = (if m a = CHR 0x00 then Some []
     else Option.bind (c_str (a + 1) m) (\<lambda>s. Some (m a # s)))"

definition ConvertSQLCHARToString :: "addr \<Rightarrow> int \<Rightarrow> mem \<Rightarrow> string option" where
  "ConvertSQLCHARToString str str_len m =
     (if str = nullptr then Some []
      else if str_len = SQL_NTS then c_str str m
      else Some (load_bytes str (if str_len > 0 then nat str_len else 0) m))"

definition SQLPointerToSQLUInteger :: "addr \<Rightarrow> int" where
  "SQLPointerToSQLUInteger value = wrap_u 32 (wrap_u 64 value)"

section \<open>Strings\<close>

definition IsCharType :: "int \<Rightarrow> bool" where
  "IsCharType type = (type \<in> {SQL_CHAR, SQL_WCHAR, SQL_VARCHAR, SQL_WVARCHAR, SQL_LONGVARCHAR,
     SQL_WLONGVARCHAR, SQL_BINARY})"

definition IsSpace :: "char \<Rightarrow> bool" where
  "IsSpace c \<longleftrightarrow> c = CHR '' '' \<or> c = CHR 0x09 \<or> c = CHR 0x0A \<or> c = CHR 0x0D \<or> c = CHR 0x0C \<or> c = CHR 0x0B"

text \<open>What is behind the word \<^verbatim>\<open>p\<close> at the start of a string.\<close>

definition skip :: "string \<Rightarrow> string \<Rightarrow> string option" where
  "skip p s = (if take (length p) s = p then Some (drop (length p) s) else None)"

lemma skip_shorter: "skip p s = Some r \<Longrightarrow> length r \<le> length s"
  by (auto simp: skip_def split: if_split_asm)

lemma take_skip [simp]: "skip p (p @ s) = Some s"
  by (simp add: skip_def)

text \<open>The two iterators as offsets from \<^verbatim>\<open>begin()\<close>.\<close>

definition TrimString :: "string \<Rightarrow> string" where
  "TrimString str =
     (let front = length (takeWhile IsSpace str);
          back = length str - length (takeWhile IsSpace (rev str))
      in if back \<le> front then [] else drop front (take back str))"

text \<open>
  \<^verbatim>\<open>GetStringAsIdentifier\<close>. The first expression matches a string that starts and ends with the same
  quote and has no line terminator in between; the quoted branch takes a substring from position 1
  of the still empty result, which throws. The second one removes a final run of blanks and
  shortens every other run of at least two blanks to one.
\<close>

datatype std_exception = Out_Of_Range | Invalid_Argument

definition is_quoted :: "string \<Rightarrow> bool" where
  "is_quoted str \<longleftrightarrow> length str \<ge> 2 \<and> hd str = last str \<and> hd str \<in> {CHR 0x22, CHR 0x27} \<and>
     (\<forall>c \<in> set (butlast (tl str)). c \<noteq> CHR 0x0A \<and> c \<noteq> CHR 0x0D)"

function squeeze_blanks :: "string \<Rightarrow> string" where
  "squeeze_blanks [] = []" |
  "squeeze_blanks (c # cs) =
     (if c = CHR '' '' then
        let rest = dropWhile (\<lambda>d. d = CHR '' '') cs in
        if rest = [] then [] else CHR '' '' # squeeze_blanks rest
      else c # squeeze_blanks cs)"
  by pat_completeness auto
termination
  by (relation "measure length") (auto simp: le_imp_less_Suc length_dropWhile_le)

definition StringUtil_Upper :: "string \<Rightarrow> string" where
  "StringUtil_Upper s = map (\<lambda>c. if CHR ''a'' \<le> c \<and> c \<le> CHR ''z''
     then char_of ((of_char c :: nat) - 32) else c) s"

definition str_substr :: "string \<Rightarrow> nat \<Rightarrow> nat \<Rightarrow> std_exception + string" where
  "str_substr s pos n = (if pos > length s then Inl Out_Of_Range else Inr (take n (drop pos s)))"

definition GetStringAsIdentifier :: "string \<Rightarrow> std_exception + string" where
  "GetStringAsIdentifier str =
     (if is_quoted str then
        bind_sum (str_substr [] 1 (nat (wrap_u 64 (0 - 2))))
          (\<lambda>_. Inr (squeeze_blanks (dropWhile (\<lambda>d. d = CHR '' '') str)))
      else Inr (StringUtil_Upper (squeeze_blanks str)))"

definition ParseStringFilter :: "string \<Rightarrow> string \<Rightarrow> int \<Rightarrow> string \<Rightarrow> std_exception + string" where
  "ParseStringFilter filter_name filter_value sql_attr_metadata_id coalesce_str =
     bind_sum
       (if filter_value = [] then
          if coalesce_str = [] then
            Inr (''COALESCE('' @ filter_name @ '','' @ [CHR 0x27, CHR 0x27] @ '') LIKE  '' @ [CHR 0x27] @ ''%'' @ [CHR 0x27])
          else
            Inr (''COALESCE('' @ filter_name @ '','' @ [CHR 0x27] @ coalesce_str @ [CHR 0x27] @ '') LIKE '' @
                 [CHR 0x27] @ coalesce_str @ [CHR 0x27])
        else if sql_attr_metadata_id = SQL_TRUE then
          bind_sum (GetStringAsIdentifier filter_value) (\<lambda>i. Inr (filter_name @ ''='' @ i))
        else Inr (filter_name @ '' LIKE '' @ [CHR 0x27] @ filter_value @ [CHR 0x27]))
       (\<lambda>f. Inr (f @ '' ESCAPE '' @ [CHR 0x27, CHR 0x5C, CHR 0x27]))"

section \<open>Bounds of the writers\<close>

lemma c_prefix_no_nul [simp]: "CHR 0x00 \<notin> set (c_prefix s)"
  by (auto simp: c_prefix_def dest: set_takeWhileD)

lemma c_prefix_id [simp]: "CHR 0x00 \<notin> set s \<Longrightarrow> c_prefix s = s"
  by (auto simp: c_prefix_def takeWhile_eq_all_conv)

lemma store_opt_outside:
  "a = nullptr \<or> x < a \<or> a + int n \<le> x \<Longrightarrow> store_opt n a v m x = m x"
  by (auto simp: store_opt_def store_int_def store_bytes_outside)

lemma snprintf_s_outside:
  "0 \<le> n \<Longrightarrow> x < buf \<or> buf + n \<le> x \<Longrightarrow> snprintf_s buf n s m x = m x"
  by (auto simp: snprintf_s_def intro!: store_bytes_outside)

lemma length_unit_bytes [simp]: "length (unit_bytes us) = 2 * length us"
  by (induction us) (auto simp: unit_bytes_def eval_nat_numeral)

lemma take_unit_bytes: "take (2 * n) (unit_bytes us) = unit_bytes (take n us)"
proof (induction us arbitrary: n)
  case (Cons u us)
  show ?case
  proof (cases n)
    case (Suc k)
    have e: "unit_bytes (u # vs) = le_encode 2 (uint u) @ unit_bytes vs" for vs by (simp add: unit_bytes_def)
    have "take (2 * n) (unit_bytes (u # us)) = le_encode 2 (uint u) @ take (2 * k) (unit_bytes us)"
      unfolding e Suc by simp
    then show ?thesis using Cons Suc e by simp
  qed (simp add: unit_bytes_def)
qed (simp add: unit_bytes_def)

lemma c_str_stored:
  "load_bytes a (Suc (length s)) m = s @ [CHR 0x00] \<Longrightarrow> CHR 0x00 \<notin> set s \<Longrightarrow> c_str a m = Some s"
proof (induction s arbitrary: a)
  case Nil
  then show ?case by (simp add: load_bytes_def c_str.simps)
next
  case (Cons c s)
  have u: "load_bytes a (Suc (Suc (length s))) m = m a # load_bytes (a + 1) (Suc (length s)) m"
    by (simp add: load_bytes_def upt_conv_Cons map_Suc_upt[symmetric] del: upt_Suc)
      (simp add: algebra_simps)
  then have "m a = c" "load_bytes (a + 1) (Suc (length s)) m = s @ [CHR 0x00]" using Cons.prems(1) by auto
  then show ?case using Cons c_str.simps[of a m] by auto
qed


lemma WriteString_stores:
  fixes m :: mem
  assumes "out_buf \<noteq> nullptr" "0 < buf_len" "buf_len < 2 ^ 63" "0 < n"
    and apart: "out_len = nullptr \<or> out_len + int n \<le> out_buf \<or> out_buf + buf_len \<le> out_len"
    and len: "in_s (8 * n) (int (length (c_prefix s)))"
  defines "m' \<equiv> WriteString n s out_buf buf_len out_len m"
  shows "(\<forall>x. (x < out_buf \<or> out_buf + buf_len \<le> x) \<and>
            (out_len = nullptr \<or> x < out_len \<or> out_len + int n \<le> x) \<longrightarrow> m' x = m x) \<and>
    c_str out_buf m' = Some (take (nat (buf_len - 1)) (c_prefix s)) \<and>
    (out_len \<noteq> nullptr \<longrightarrow> load_s n out_len m' = int (length (c_prefix s)))"
proof -
  let ?t = "take (nat (buf_len - 1)) (c_prefix s)"
  let ?m1 = "store_bytes out_buf (?t @ [CHR 0x00]) m"
  have w: "wrap_u 64 buf_len = buf_len" using assms(2,3) by (simp add: in_u_def)
  have l: "int (length (?t @ [CHR 0x00])) \<le> buf_len" using assms(2) by auto
  have m': "m' = store_opt n out_len (int (length (c_prefix s))) ?m1"
    using assms w by (simp add: m'_def WriteString_def snprintf_s_def Let_def)
  have "m' x = m x" if "x < out_buf \<or> out_buf + buf_len \<le> x"
    "out_len = nullptr \<or> x < out_len \<or> out_len + int n \<le> x" for x
    unfolding m' using that l by (subst store_opt_outside) (auto intro: store_bytes_outside)
  moreover have "load_bytes out_buf (Suc (length ?t)) m' = ?t @ [CHR 0x00]"
  proof -
    have "load_bytes out_buf (Suc (length ?t)) m' = load_bytes out_buf (Suc (length ?t)) ?m1"
      unfolding m' store_opt_def store_int_def using apart l
      by (auto intro!: load_store_disjoint)
    then show ?thesis by (simp add: load_store_same)
  qed
  then have "c_str out_buf m' = Some ?t"
    by (rule c_str_stored) (meson c_prefix_no_nul in_set_takeD)
  moreover have "out_len \<noteq> nullptr \<longrightarrow> load_s n out_len m' = int (length (c_prefix s))"
    unfolding m' store_opt_def using len assms(4) by (simp add: load_store_s)
  ultimately show ?thesis by blast
qed

text \<open>
  C23. Writing a narrow string touches only the client's buffer and the length cell, and the buffer
  then holds a terminated string: the longest prefix that fits. The length cell gets the length of
  the whole string, so that the client sees the truncation.
\<close>

theorem WriteString_bounds:
  fixes m :: mem
  assumes "out_buf \<noteq> nullptr" "0 < buf_len" "buf_len < 2 ^ 63" "0 < n"
    and apart: "out_len = nullptr \<or> out_len + int n \<le> out_buf \<or> out_buf + buf_len \<le> out_len"
    and len: "in_s (8 * n) (int (length (c_prefix s)))"
  defines "m' \<equiv> WriteString n s out_buf buf_len out_len m"
  shows "(\<forall>x. (x < out_buf \<or> out_buf + buf_len \<le> x) \<and>
            (out_len = nullptr \<or> x < out_len \<or> out_len + int n \<le> x) \<longrightarrow> m' x = m x) \<and>
    c_str out_buf m' = Some (take (nat (buf_len - 1)) (c_prefix s)) \<and>
    (out_len \<noteq> nullptr \<longrightarrow> load_s n out_len m' = int (length (c_prefix s)))"
  unfolding m'_def by (rule WriteString_stores[OF assms(1-6)])

theorem WriteString_bounds_witness:
  "WriteString 2 ''duck'' 100 3 8 (\<lambda>_. CHR ''?'') 103 = CHR ''?'' \<and>
    c_str 100 (WriteString 2 ''duck'' 100 3 8 (\<lambda>_. CHR ''?'')) = Some ''du'' \<and>
    load_s 2 8 (WriteString 2 ''duck'' 100 3 8 (\<lambda>_. CHR ''?'')) = 4"
  using WriteString_bounds[of 100 3 2 8 "''duck''" "\<lambda>_. CHR ''?''"] by (simp add: in_s_def c_prefix_def)

lemma len_chars_div:
  fixes l b :: int
  assumes "0 \<le> l" "0 \<le> b" "b mod 2 = 0"
  shows "2 * (min (l * 2) b div 2) = min (l * 2) b"
  using assms by (auto simp: min_def)

text \<open>
  Writing a wide string touches only the client's buffer (its even part) and the length cell,
  when the buffer has room for a terminator or the length pointer is given.
\<close>

theorem WriteStringW_bounds:
  assumes "0 \<le> buf_len" "buf_len < 2 ^ 63" "2 \<le> buf_len \<or> out_len \<noteq> nullptr"
    and x: "x < out_buf \<or> out_buf + buf_len \<le> x" "out_len = nullptr \<or> x < out_len \<or> out_len + int n \<le> x"
  shows "WriteStringW n s out_buf buf_len out_len m x = m x"
proof -
  define b where "b = (if buf_len mod 2 \<noteq> 0 then buf_len - 1 else buf_len)"
  have w: "wrap_u 64 buf_len = buf_len" using assms(1,2) by (simp add: in_u_def)
  have b: "b mod 2 = 0" "0 \<le> b" "b \<le> buf_len" "b < 2 ^ 63" using assms(1,2) unfolding b_def by (auto; presburger)+
  have wb: "(if buf_len mod 2 \<noteq> 0 then wrap_u 64 (wrap_u 64 buf_len - 1) else wrap_u 64 buf_len) = b"
  proof (cases "buf_len mod 2 = 0")
    case False
    then have "0 < buf_len" using assms(1) by (cases "buf_len = 0") auto
    then show ?thesis using False assms(2) w by (simp add: b_def in_u_def)
  qed (use w in \<open>simp add: b_def\<close>)
  let ?v = "fst (utf8_to_utf16_lenient (octets_of s))"
  show ?thesis
  proof (cases "b \<le> 2 \<and> out_len \<noteq> nullptr")
    case True
    have "store_int 2 out_buf 0 m x = m x" if "b = 2"
      using that x(1) b(3) by (auto simp: store_int_def intro!: store_bytes_outside)
    moreover have "store_int n out_len 0 m' x = m' x" for m'
      using True x(2) by (auto simp: store_int_def intro!: store_bytes_outside)
    ultimately show ?thesis using True wb by (simp add: WriteStringW_def WriteStringInternal_def Let_def)
  next
    case False
    have b2: "2 \<le> b" using False assms(3) b_def b(1) by (auto split: if_splits; presburger)
    then have w2: "wrap_u 64 (b - 2) = b - 2" using b(4) by (simp add: in_u_def)
    let ?lb = "min (int (length ?v) * 2) (b - 2)"
    have lb: "2 * (?lb div 2) = ?lb" "0 \<le> ?lb" "?lb \<le> b - 2"
      using len_chars_div[of "int (length ?v)" "b - 2"] b b2 by (auto simp: mod_diff_left_eq)
    have s1: "store_int 2 out_buf 0 m' x = m' x" for m'
      using x(1) b(3) b2 by (auto simp: store_int_def intro!: store_bytes_outside)
    have s2: "store_bytes out_buf (take (nat ?lb) (unit_bytes ?v)) m' x = m' x" for m'
      using x(1) b(3) b2 lb by (intro store_bytes_outside) auto
    have s3: "store_int 2 (out_buf + 2 * (?lb div 2)) 0 m' x = m' x" for m'
      unfolding lb(1) using x(1) b(3) lb(2,3) by (auto simp: store_int_def intro!: store_bytes_outside)
    have s4: "store_opt n out_len k m' x = m' x" for k m' using x(2) by (rule store_opt_outside)
    have nb: "\<not> (b \<le> 2 \<and> out_len \<noteq> nullptr)" by (rule False)
    show ?thesis unfolding WriteStringW_def WriteStringInternal_def Let_def wb w2 if_not_P[OF nb]
      by (simp add: s1 s2 s3 s4)
  qed
qed

theorem WriteStringW_bounds_witness:
  "WriteStringW 2 ''duck'' 100 5 8 (\<lambda>_. CHR ''?'') 105 = CHR ''?''"
  by (rule WriteStringW_bounds) simp_all


text \<open>
  Without the length pointer a buffer too small for a terminator does not stop the wide writer:
  with \<^verbatim>\<open>buf_len\<close> 0 and a non-empty string it stores past the buffer.
\<close>

theorem WriteStringW_overflow:
  "WriteStringW 2 ''A'' 100 0 nullptr (\<lambda>_. CHR ''?'') 100 = CHR ''A'' \<and>
   WriteStringW 2 ''A'' 100 1 nullptr (\<lambda>_. CHR ''?'') 103 = CHR 0x00"
  by code_simp

lemma take_drop_split:
  assumes "i \<le> j"
  shows "xs = take i xs @ drop i (take j xs) @ drop j xs"
proof -
  have "take j xs = take i xs @ drop i (take j xs)"
    using append_take_drop_id[of i "take j xs"] assms by (simp add: min.absorb1)
  then show ?thesis by (metis append.assoc append_take_drop_id)
qed

lemma TrimString_split:
  "\<exists>pre post. str = pre @ TrimString str @ post \<and> list_all IsSpace pre \<and> list_all IsSpace post \<and>
     (TrimString str = [] \<or> \<not> IsSpace (hd (TrimString str)) \<and> \<not> IsSpace (last (TrimString str)))"
proof -
  let ?f = "length (takeWhile IsSpace str)" and ?k = "length (takeWhile IsSpace (rev str))"
  have front: "takeWhile IsSpace str = take ?f str"
    by (metis append_eq_conv_conj takeWhile_dropWhile_id)
  have rear: "rev (takeWhile IsSpace (rev str)) = drop (length str - ?k) str"
  proof -
    have "str = rev (dropWhile IsSpace (rev str)) @ rev (takeWhile IsSpace (rev str))"
      by (simp flip: rev_append)
    moreover have "length (rev (dropWhile IsSpace (rev str))) = length str - ?k"
    proof -
      have "?k + length (dropWhile IsSpace (rev str)) = length (rev str)"
        by (metis length_append takeWhile_dropWhile_id)
      then show ?thesis by simp
    qed
    ultimately show ?thesis by (metis append_eq_conv_conj)
  qed
  show ?thesis
  proof (cases "length str - ?k \<le> ?f")
    case True
    have "list_all IsSpace (takeWhile IsSpace (rev str))" "list_all IsSpace (takeWhile IsSpace str)"
      by (auto simp: list_all_iff dest: set_takeWhileD)
    have all: "IsSpace c" if "c \<in> set str" for c
    proof -
      have "c \<in> set (take ?f str) \<or> c \<in> set (drop ?f str)" using that
        by (metis Un_iff append_take_drop_id set_append)
      moreover have "set (drop ?f str) \<subseteq> set (drop (length str - ?k) str)" using True by (rule set_drop_subset_set_drop)
      ultimately have "c \<in> set (takeWhile IsSpace str) \<or> c \<in> set (takeWhile IsSpace (rev str))"
        using front rear by (metis set_rev subsetD)
      then show ?thesis by (auto dest: set_takeWhileD)
    qed
    then show ?thesis using True by (intro exI[of _ str] exI[of _ "[]"]) (simp add: TrimString_def list_all_iff)
  next
    case False
    have e: "TrimString str = drop ?f (take (length str - ?k) str)" using False by (simp add: TrimString_def Let_def)
    have s: "str = take ?f str @ TrimString str @ drop (length str - ?k) str"
      unfolding e by (rule take_drop_split) (use False in simp)
    have ne: "TrimString str \<noteq> []" unfolding e using False by simp
    have h: "\<not> IsSpace (hd (TrimString str))"
    proof -
      have "hd (TrimString str) = str ! ?f" unfolding e using False ne[unfolded e] by (simp add: hd_drop_conv_nth)
      then show ?thesis using False nth_length_takeWhile[of IsSpace str] by simp
    qed
    have "?k < length (rev str)" using False by simp
    then have "\<not> IsSpace (rev str ! ?k)" by (rule nth_length_takeWhile)
    moreover have "last (TrimString str) = rev str ! ?k" unfolding e using False
      by (simp add: last_drop last_conv_nth rev_nth Suc_diff_Suc)
    ultimately have l: "\<not> IsSpace (last (TrimString str))" by simp
    have "list_all IsSpace (take ?f str)" unfolding front[symmetric] list_all_iff by (meson set_takeWhileD)
    moreover have "list_all IsSpace (drop (length str - ?k) str)"
      unfolding rear[symmetric] list_all_iff set_rev by (meson set_takeWhileD)
    ultimately show ?thesis using s h l by blast
  qed
qed

text \<open>
  Trimming removes exactly the leading and the trailing white space.
\<close>

theorem TrimString_spec:
  "\<exists>pre post. str = pre @ TrimString str @ post \<and> list_all IsSpace pre \<and> list_all IsSpace post \<and>
     (TrimString str = [] \<or> \<not> IsSpace (hd (TrimString str)) \<and> \<not> IsSpace (last (TrimString str)))"
  by (rule TrimString_split)

text \<open>
  A quoted name in identifier mode never yields a filter: the quoted branch throws.
\<close>

theorem quoted_identifier_throws:
  assumes "is_quoted v"
  shows "GetStringAsIdentifier v = Inl Out_Of_Range \<and>
    ParseStringFilter name v SQL_TRUE coalesce_str = Inl Out_Of_Range"
proof -
  have "GetStringAsIdentifier v = Inl Out_Of_Range"
  proof -
    have "str_substr [] 1 k = Inl Out_Of_Range" for k by (simp add: str_substr_def)
    then show ?thesis unfolding GetStringAsIdentifier_def if_P[OF assms] by (simp only: bind_sum.simps)
  qed
  moreover have "(v = []) = False" using assms by (cases v) (simp_all add: is_quoted_def)
  ultimately show ?thesis
    unfolding ParseStringFilter_def by (simp only: if_False if_True bind_sum.simps simp_thms)
qed

theorem quoted_identifier_throws_witness:
  "GetStringAsIdentifier [CHR 0x22, CHR ''t'', CHR 0x22] = Inl Out_Of_Range \<and>
    ParseStringFilter ''TABLE_NAME'' [CHR 0x22, CHR ''t'', CHR 0x22] SQL_TRUE [] = Inl Out_Of_Range"
  by (rule quoted_identifier_throws) (simp add: is_quoted_def)

end
