(* ===== verification/Odbc_Diagnostic.thy ===== *)
theory Odbc_Diagnostic
  imports Odbc_Utils
begin

text \<open>
  \<^verbatim>\<open>src/include/odbc_diagnostic.hpp\<close> and \<^verbatim>\<open>src/odbc_driver/common/odbc_diagnostic.cpp\<close>: the
  SQLSTATE table, the diagnostic records with their read offsets, and the diagnostic area of a
  handle with the index that maps record numbers to records. An access the code does out of range
  (asserted only in debug builds) is None.
\<close>

section \<open>SQLStateType\<close>

text \<open>\<^verbatim>\<open>enum class SQLStateType : uint8_t\<close>: the enumerators are consecutive from 0.\<close>

type_synonym SQLStateType = nat

abbreviation (input) ST_01000 :: SQLStateType where "ST_01000 \<equiv> 0"
abbreviation (input) ST_01001 :: SQLStateType where "ST_01001 \<equiv> 1"
abbreviation (input) ST_01002 :: SQLStateType where "ST_01002 \<equiv> 2"
abbreviation (input) ST_01003 :: SQLStateType where "ST_01003 \<equiv> 3"
abbreviation (input) ST_01004 :: SQLStateType where "ST_01004 \<equiv> 4"
abbreviation (input) ST_01006 :: SQLStateType where "ST_01006 \<equiv> 5"
abbreviation (input) ST_01007 :: SQLStateType where "ST_01007 \<equiv> 6"
abbreviation (input) ST_01S00 :: SQLStateType where "ST_01S00 \<equiv> 7"
abbreviation (input) ST_01S01 :: SQLStateType where "ST_01S01 \<equiv> 8"
abbreviation (input) ST_01S02 :: SQLStateType where "ST_01S02 \<equiv> 9"
abbreviation (input) ST_01S06 :: SQLStateType where "ST_01S06 \<equiv> 10"
abbreviation (input) ST_01S07 :: SQLStateType where "ST_01S07 \<equiv> 11"
abbreviation (input) ST_01S08 :: SQLStateType where "ST_01S08 \<equiv> 12"
abbreviation (input) ST_01S09 :: SQLStateType where "ST_01S09 \<equiv> 13"
abbreviation (input) ST_07002 :: SQLStateType where "ST_07002 \<equiv> 14"
abbreviation (input) ST_07005 :: SQLStateType where "ST_07005 \<equiv> 15"
abbreviation (input) ST_07006 :: SQLStateType where "ST_07006 \<equiv> 16"
abbreviation (input) ST_07007 :: SQLStateType where "ST_07007 \<equiv> 17"
abbreviation (input) ST_07009 :: SQLStateType where "ST_07009 \<equiv> 18"
abbreviation (input) ST_07S01 :: SQLStateType where "ST_07S01 \<equiv> 19"
abbreviation (input) ST_08001 :: SQLStateType where "ST_08001 \<equiv> 20"
abbreviation (input) ST_08002 :: SQLStateType where "ST_08002 \<equiv> 21"
abbreviation (input) ST_08003 :: SQLStateType where "ST_08003 \<equiv> 22"
abbreviation (input) ST_08004 :: SQLStateType where "ST_08004 \<equiv> 23"
abbreviation (input) ST_08007 :: SQLStateType where "ST_08007 \<equiv> 24"
abbreviation (input) ST_08S01 :: SQLStateType where "ST_08S01 \<equiv> 25"
abbreviation (input) ST_0A000 :: SQLStateType where "ST_0A000 \<equiv> 26"
abbreviation (input) ST_21S01 :: SQLStateType where "ST_21S01 \<equiv> 27"
abbreviation (input) ST_21S02 :: SQLStateType where "ST_21S02 \<equiv> 28"
abbreviation (input) ST_22001 :: SQLStateType where "ST_22001 \<equiv> 29"
abbreviation (input) ST_22002 :: SQLStateType where "ST_22002 \<equiv> 30"
abbreviation (input) ST_22003 :: SQLStateType where "ST_22003 \<equiv> 31"
abbreviation (input) ST_22007 :: SQLStateType where "ST_22007 \<equiv> 32"
abbreviation (input) ST_22008 :: SQLStateType where "ST_22008 \<equiv> 33"
abbreviation (input) ST_22012 :: SQLStateType where "ST_22012 \<equiv> 34"
abbreviation (input) ST_22015 :: SQLStateType where "ST_22015 \<equiv> 35"
abbreviation (input) ST_22018 :: SQLStateType where "ST_22018 \<equiv> 36"
abbreviation (input) ST_22019 :: SQLStateType where "ST_22019 \<equiv> 37"
abbreviation (input) ST_22025 :: SQLStateType where "ST_22025 \<equiv> 38"
abbreviation (input) ST_22026 :: SQLStateType where "ST_22026 \<equiv> 39"
abbreviation (input) ST_23000 :: SQLStateType where "ST_23000 \<equiv> 40"
abbreviation (input) ST_24000 :: SQLStateType where "ST_24000 \<equiv> 41"
abbreviation (input) ST_25000 :: SQLStateType where "ST_25000 \<equiv> 42"
abbreviation (input) ST_25S01 :: SQLStateType where "ST_25S01 \<equiv> 43"
abbreviation (input) ST_25S02 :: SQLStateType where "ST_25S02 \<equiv> 44"
abbreviation (input) ST_25S03 :: SQLStateType where "ST_25S03 \<equiv> 45"
abbreviation (input) ST_28000 :: SQLStateType where "ST_28000 \<equiv> 46"
abbreviation (input) ST_34000 :: SQLStateType where "ST_34000 \<equiv> 47"
abbreviation (input) ST_3C000 :: SQLStateType where "ST_3C000 \<equiv> 48"
abbreviation (input) ST_3D000 :: SQLStateType where "ST_3D000 \<equiv> 49"
abbreviation (input) ST_3F000 :: SQLStateType where "ST_3F000 \<equiv> 50"
abbreviation (input) ST_40001 :: SQLStateType where "ST_40001 \<equiv> 51"
abbreviation (input) ST_40002 :: SQLStateType where "ST_40002 \<equiv> 52"
abbreviation (input) ST_40003 :: SQLStateType where "ST_40003 \<equiv> 53"
abbreviation (input) ST_42000 :: SQLStateType where "ST_42000 \<equiv> 54"
abbreviation (input) ST_42S01 :: SQLStateType where "ST_42S01 \<equiv> 55"
abbreviation (input) ST_42S02 :: SQLStateType where "ST_42S02 \<equiv> 56"
abbreviation (input) ST_42S11 :: SQLStateType where "ST_42S11 \<equiv> 57"
abbreviation (input) ST_42S12 :: SQLStateType where "ST_42S12 \<equiv> 58"
abbreviation (input) ST_42S21 :: SQLStateType where "ST_42S21 \<equiv> 59"
abbreviation (input) ST_42S22 :: SQLStateType where "ST_42S22 \<equiv> 60"
abbreviation (input) ST_44000 :: SQLStateType where "ST_44000 \<equiv> 61"
abbreviation (input) ST_HY000 :: SQLStateType where "ST_HY000 \<equiv> 62"
abbreviation (input) ST_HY001 :: SQLStateType where "ST_HY001 \<equiv> 63"
abbreviation (input) ST_HY003 :: SQLStateType where "ST_HY003 \<equiv> 64"
abbreviation (input) ST_HY004 :: SQLStateType where "ST_HY004 \<equiv> 65"
abbreviation (input) ST_HY007 :: SQLStateType where "ST_HY007 \<equiv> 66"
abbreviation (input) ST_HY008 :: SQLStateType where "ST_HY008 \<equiv> 67"
abbreviation (input) ST_HY009 :: SQLStateType where "ST_HY009 \<equiv> 68"
abbreviation (input) ST_HY010 :: SQLStateType where "ST_HY010 \<equiv> 69"
abbreviation (input) ST_HY011 :: SQLStateType where "ST_HY011 \<equiv> 70"
abbreviation (input) ST_HY012 :: SQLStateType where "ST_HY012 \<equiv> 71"
abbreviation (input) ST_HY013 :: SQLStateType where "ST_HY013 \<equiv> 72"
abbreviation (input) ST_HY014 :: SQLStateType where "ST_HY014 \<equiv> 73"
abbreviation (input) ST_HY015 :: SQLStateType where "ST_HY015 \<equiv> 74"
abbreviation (input) ST_HY016 :: SQLStateType where "ST_HY016 \<equiv> 75"
abbreviation (input) ST_HY017 :: SQLStateType where "ST_HY017 \<equiv> 76"
abbreviation (input) ST_HY018 :: SQLStateType where "ST_HY018 \<equiv> 77"
abbreviation (input) ST_HY019 :: SQLStateType where "ST_HY019 \<equiv> 78"
abbreviation (input) ST_HY020 :: SQLStateType where "ST_HY020 \<equiv> 79"
abbreviation (input) ST_HY021 :: SQLStateType where "ST_HY021 \<equiv> 80"
abbreviation (input) ST_HY024 :: SQLStateType where "ST_HY024 \<equiv> 81"
abbreviation (input) ST_HY090 :: SQLStateType where "ST_HY090 \<equiv> 82"
abbreviation (input) ST_HY091 :: SQLStateType where "ST_HY091 \<equiv> 83"
abbreviation (input) ST_HY092 :: SQLStateType where "ST_HY092 \<equiv> 84"
abbreviation (input) ST_HY095 :: SQLStateType where "ST_HY095 \<equiv> 85"
abbreviation (input) ST_HY096 :: SQLStateType where "ST_HY096 \<equiv> 86"
abbreviation (input) ST_HY097 :: SQLStateType where "ST_HY097 \<equiv> 87"
abbreviation (input) ST_HY098 :: SQLStateType where "ST_HY098 \<equiv> 88"
abbreviation (input) ST_HY099 :: SQLStateType where "ST_HY099 \<equiv> 89"
abbreviation (input) ST_HY100 :: SQLStateType where "ST_HY100 \<equiv> 90"
abbreviation (input) ST_HY101 :: SQLStateType where "ST_HY101 \<equiv> 91"
abbreviation (input) ST_HY103 :: SQLStateType where "ST_HY103 \<equiv> 92"
abbreviation (input) ST_HY104 :: SQLStateType where "ST_HY104 \<equiv> 93"
abbreviation (input) ST_HY105 :: SQLStateType where "ST_HY105 \<equiv> 94"
abbreviation (input) ST_HY106 :: SQLStateType where "ST_HY106 \<equiv> 95"
abbreviation (input) ST_HY107 :: SQLStateType where "ST_HY107 \<equiv> 96"
abbreviation (input) ST_HY109 :: SQLStateType where "ST_HY109 \<equiv> 97"
abbreviation (input) ST_HY110 :: SQLStateType where "ST_HY110 \<equiv> 98"
abbreviation (input) ST_HY111 :: SQLStateType where "ST_HY111 \<equiv> 99"
abbreviation (input) ST_HY114 :: SQLStateType where "ST_HY114 \<equiv> 100"
abbreviation (input) ST_HY115 :: SQLStateType where "ST_HY115 \<equiv> 101"
abbreviation (input) ST_HY117 :: SQLStateType where "ST_HY117 \<equiv> 102"
abbreviation (input) ST_HY121 :: SQLStateType where "ST_HY121 \<equiv> 103"
abbreviation (input) ST_HYC00 :: SQLStateType where "ST_HYC00 \<equiv> 104"
abbreviation (input) ST_HYT00 :: SQLStateType where "ST_HYT00 \<equiv> 105"
abbreviation (input) ST_HYT01 :: SQLStateType where "ST_HYT01 \<equiv> 106"
abbreviation (input) ST_IM001 :: SQLStateType where "ST_IM001 \<equiv> 107"
abbreviation (input) ST_IM002 :: SQLStateType where "ST_IM002 \<equiv> 108"
abbreviation (input) ST_IM003 :: SQLStateType where "ST_IM003 \<equiv> 109"
abbreviation (input) ST_IM004 :: SQLStateType where "ST_IM004 \<equiv> 110"
abbreviation (input) ST_IM005 :: SQLStateType where "ST_IM005 \<equiv> 111"
abbreviation (input) ST_IM006 :: SQLStateType where "ST_IM006 \<equiv> 112"
abbreviation (input) ST_IM007 :: SQLStateType where "ST_IM007 \<equiv> 113"
abbreviation (input) ST_IM008 :: SQLStateType where "ST_IM008 \<equiv> 114"
abbreviation (input) ST_IM009 :: SQLStateType where "ST_IM009 \<equiv> 115"
abbreviation (input) ST_IM010 :: SQLStateType where "ST_IM010 \<equiv> 116"
abbreviation (input) ST_IM011 :: SQLStateType where "ST_IM011 \<equiv> 117"
abbreviation (input) ST_IM012 :: SQLStateType where "ST_IM012 \<equiv> 118"
abbreviation (input) ST_IM014 :: SQLStateType where "ST_IM014 \<equiv> 119"
abbreviation (input) ST_IM015 :: SQLStateType where "ST_IM015 \<equiv> 120"
abbreviation (input) ST_IM017 :: SQLStateType where "ST_IM017 \<equiv> 121"
abbreviation (input) ST_IM018 :: SQLStateType where "ST_IM018 \<equiv> 122"
abbreviation (input) ST_S1118 :: SQLStateType where "ST_S1118 \<equiv> 123"

text \<open>\<^verbatim>\<open>MAP_ODBC_SQL_STATES\<close>: the code and the text of each state.\<close>

definition MAP_ODBC_SQL_STATES :: "(SQLStateType \<times> string \<times> string) list" where
  "MAP_ODBC_SQL_STATES = [
    (ST_01000, ''01000'', ''General warning''),
    (ST_01001, ''01001'', ''Cursor operation conflict''),
    (ST_01002, ''01002'', ''Disconnect error''),
    (ST_01003, ''01003'', ''NULL value eliminated in set function''),
    (ST_01004, ''01004'', ''String data, right truncated''),
    (ST_01006, ''01006'', ''Privilege not revoked''),
    (ST_01007, ''01007'', ''Privilege not granted''),
    (ST_01S00, ''01S00'', ''Invalid connection string attribute''),
    (ST_01S01, ''01S01'', ''Error in row''),
    (ST_01S02, ''01S02'', ''Option value changed''),
    (ST_01S06, ''01S06'', ''Attempt to fetch before the result set returned the first rowset''),
    (ST_01S07, ''01S07'', ''Fractional truncation''),
    (ST_01S08, ''01S08'', ''Error saving file DSN''),
    (ST_01S09, ''01S09'', ''Invalid keyword''),
    (ST_07002, ''07002'', ''COUNT field incorrect''),
    (ST_07005, ''07005'', ''Prepared statement not a cursor-specification''),
    (ST_07006, ''07006'', ''Restricted data type attribute violation''),
    (ST_07007, ''07007'', ''Restricted parameter value violation''),
    (ST_07009, ''07009'', ''Invalid descriptor index''),
    (ST_07S01, ''07S01'', ''Invalid use of default parameter''),
    (ST_08001, ''08001'', ''Client unable to establish connection''),
    (ST_08002, ''08002'', ''Connection name in use''),
    (ST_08003, ''08003'', ''Connection not open''),
    (ST_08004, ''08004'', ''Server rejected the connection''),
    (ST_08007, ''08007'', ''Connection failure during transaction''),
    (ST_08S01, ''08S01'', ''Communication link failure''),
    (ST_0A000, ''0A000'', ''Feature not supported''),
    (ST_21S01, ''21S01'', ''Insert value list does not match column list''),
    (ST_21S02, ''21S02'', ''Degree of derived table does not match column list''),
    (ST_22001, ''22001'', ''String data, right truncated''),
    (ST_22002, ''22002'', ''Indicator variable required but not supplied''),
    (ST_22003, ''22003'', ''Numeric value out of range''),
    (ST_22007, ''22007'', ''Invalid datetime format''),
    (ST_22008, ''22008'', ''Datetime field overflow''),
    (ST_22012, ''22012'', ''Division by zero''),
    (ST_22015, ''22015'', ''Interval field overflow''),
    (ST_22018, ''22018'', ''Invalid character value for cast specification''),
    (ST_22019, ''22019'', ''Invalid escape character''),
    (ST_22025, ''22025'', ''Invalid escape sequence''),
    (ST_22026, ''22026'', ''String data, length mismatch''),
    (ST_23000, ''23000'', ''Integrity constraint violation''),
    (ST_24000, ''24000'', ''Invalid cursor state''),
    (ST_25000, ''25000'', ''Invalid transaction state''),
    (ST_25S01, ''25S01'', ''Transaction state unknown''),
    (ST_25S02, ''25S02'', ''Transaction is still active''),
    (ST_25S03, ''25S03'', ''Transaction is rolled back''),
    (ST_28000, ''28000'', ''Invalid authorization specification''),
    (ST_34000, ''34000'', ''Invalid cursor name''),
    (ST_3C000, ''3C000'', ''Duplicate cursor name''),
    (ST_3D000, ''3D000'', ''Invalid catalog name''),
    (ST_3F000, ''3F000'', ''Invalid schema name''),
    (ST_40001, ''40001'', ''Serialization failure''),
    (ST_40002, ''40002'', ''Integrity constraint violation''),
    (ST_40003, ''40003'', ''Statement completion unknown''),
    (ST_42000, ''42000'', ''Syntax error or access violation''),
    (ST_42S01, ''42S01'', ''Base table or view already exists''),
    (ST_42S02, ''42S02'', ''Base table or view not found''),
    (ST_42S11, ''42S11'', ''Index already exists''),
    (ST_42S12, ''42S12'', ''Index not found''),
    (ST_42S21, ''42S21'', ''Column already exists''),
    (ST_42S22, ''42S22'', ''Column not found''),
    (ST_44000, ''44000'', ''WITH CHECK OPTION violation''),
    (ST_HY000, ''HY000'', ''General error''),
    (ST_HY001, ''HY001'', ''Memory allocation error''),
    (ST_HY003, ''HY003'', ''Invalid application buffer type''),
    (ST_HY004, ''HY004'', ''Invalid SQL data type''),
    (ST_HY007, ''HY007'', ''Associated statement is not prepared''),
    (ST_HY008, ''HY008'', ''Operation canceled''),
    (ST_HY009, ''HY009'', ''Invalid argument value''),
    (ST_HY010, ''HY010'', ''Function sequence error''),
    (ST_HY011, ''HY011'', ''Attribute cannot be set now''),
    (ST_HY012, ''HY012'', ''Invalid transaction operation code''),
    (ST_HY013, ''HY013'', ''Memory management error''),
    (ST_HY014, ''HY014'', ''Limit on the number of handles exceeded''),
    (ST_HY015, ''HY015'', ''No cursor name available''),
    (ST_HY016, ''HY016'', ''Cannot modify an implementation row descriptor''),
    (ST_HY017, ''HY017'', ''Invalid use of an automatically allocated descriptor handle''),
    (ST_HY018, ''HY018'', ''Server declined cancel request''),
    (ST_HY019, ''HY019'', ''Non-character and non-binary data sent in pieces''),
    (ST_HY020, ''HY020'', ''Attempt to concatenate a null value''),
    (ST_HY021, ''HY021'', ''Inconsistent descriptor information''),
    (ST_HY024, ''HY024'', ''Invalid attribute value''),
    (ST_HY090, ''HY090'', ''Invalid string or buffer length''),
    (ST_HY091, ''HY091'', ''Invalid descriptor field identifier''),
    (ST_HY092, ''HY092'', ''Invalid attribute/option identifier''),
    (ST_HY095, ''HY095'', ''Function type out of range''),
    (ST_HY096, ''HY096'', ''Information type out of range''),
    (ST_HY097, ''HY097'', ''Column type out of range''),
    (ST_HY098, ''HY098'', ''Scope type out of range''),
    (ST_HY099, ''HY099'', ''Nullable type out of range''),
    (ST_HY100, ''HY100'', ''Uniqueness option type out of range''),
    (ST_HY101, ''HY101'', ''Accuracy option type out of range''),
    (ST_HY103, ''HY103'', ''Invalid retrieval code''),
    (ST_HY104, ''HY104'', ''Invalid precision or scale value''),
    (ST_HY105, ''HY105'', ''Invalid parameter type''),
    (ST_HY106, ''HY106'', ''Fetch type out of range''),
    (ST_HY107, ''HY107'', ''Row value out of range''),
    (ST_HY109, ''HY109'', ''Invalid cursor position''),
    (ST_HY110, ''HY110'', ''Invalid driver completion''),
    (ST_HY111, ''HY111'', ''Invalid bookmark value''),
    (ST_HY114, ''HY114'', ''Driver does not support connection-level asynchronous function execution''),
    (ST_HY115, ''HY115'', ''SQLEndTran is not allowed for an environment that contains a connection with asynchronous function execution enabled''),
    (ST_HY117, ''HY117'', ''Connection is suspended due to unknown transaction state. Only disconnect and read-only functions are allowed.''),
    (ST_HY121, ''HY121'', ''Cursor Library and Driver-Aware Pooling cannot be enabled at the same time''),
    (ST_HYC00, ''HYC00'', ''Optional feature not implemented''),
    (ST_HYT00, ''HYT00'', ''Timeout expired''),
    (ST_HYT01, ''HYT01'', ''Connection timeout expired''),
    (ST_IM001, ''IM001'', ''Driver does not support this function''),
    (ST_IM002, ''IM002'', ''Data source not found and no default driver specified''),
    (ST_IM003, ''IM003'', ''Specified driver could not be connected to''),
    (ST_IM004, ''IM004'', ''Driver'' @ [CHR 0x27] @ ''s SQLAllocHandle on SQL_HANDLE_ENV failed''),
    (ST_IM005, ''IM005'', ''Driver'' @ [CHR 0x27] @ ''s SQLAllocHandle on SQL_HANDLE_DBC failed''),
    (ST_IM006, ''IM006'', ''Driver'' @ [CHR 0x27] @ ''s SQLSetConnectAttr failed''),
    (ST_IM007, ''IM007'', ''No data source or driver specified; dialog prohibited''),
    (ST_IM008, ''IM008'', ''Dialog failed''),
    (ST_IM009, ''IM009'', ''Unable to connect to translation DLL''),
    (ST_IM010, ''IM010'', ''Data source name too long''),
    (ST_IM011, ''IM011'', ''Driver name too long''),
    (ST_IM012, ''IM012'', ''DRIVER keyword syntax error''),
    (ST_IM014, ''IM014'', ''The specified DSN contains an architecture mismatch between the Driver and Application''),
    (ST_IM015, ''IM015'', ''Driver'' @ [CHR 0x27] @ ''s SQLConnect on SQL_HANDLE_DBC_INFO_HANDLE failed''),
    (ST_IM017, ''IM017'', ''Polling is disabled in asynchronous notification mode''),
    (ST_IM018, ''IM018'', ''SQLCompleteAsync has not been called to complete the previous asynchronous operation on this handle.''),
    (ST_S1118, ''S1118'', ''Driver does not support asynchronous notification'')]"

definition MAP_DYNAMIC_FUNCTION :: "(int \<times> string) list" where
  "MAP_DYNAMIC_FUNCTION = [
    (SQL_DIAG_ALTER_DOMAIN, ''ALTER DOMAIN''),
    (SQL_DIAG_ALTER_TABLE, ''ALTER TABLE''),
    (SQL_DIAG_CREATE_ASSERTION, ''CREATE ASSERTION''),
    (SQL_DIAG_CREATE_CHARACTER_SET, ''CREATE CHARACTER SET''),
    (SQL_DIAG_CREATE_COLLATION, ''CREATE COLLATION''),
    (SQL_DIAG_CREATE_DOMAIN, ''CREATE DOMAIN''),
    (SQL_DIAG_CREATE_INDEX, ''CREATE INDEX''),
    (SQL_DIAG_CREATE_TABLE, ''CREATE TABLE''),
    (SQL_DIAG_CREATE_VIEW, ''CREATE VIEW''),
    (SQL_DIAG_SELECT_CURSOR, ''SELECT CURSOR''),
    (SQL_DIAG_DYNAMIC_DELETE_CURSOR, ''DYNAMIC DELETE CURSOR''),
    (SQL_DIAG_DELETE_WHERE, ''DELETE WHERE''),
    (SQL_DIAG_DROP_ASSERTION, ''DROP ASSERTION''),
    (SQL_DIAG_DROP_CHARACTER_SET, ''DROP CHARACTER SET''),
    (SQL_DIAG_DROP_COLLATION, ''DROP COLLATION''),
    (SQL_DIAG_DROP_DOMAIN, ''DROP DOMAIN''),
    (SQL_DIAG_DROP_INDEX, ''DROP INDEX''),
    (SQL_DIAG_DROP_SCHEMA, ''DROP SCHEMA''),
    (SQL_DIAG_DROP_TABLE, ''DROP TABLE''),
    (SQL_DIAG_DROP_TRANSLATION, ''DROP TRANSLATION''),
    (SQL_DIAG_DROP_VIEW, ''DROP VIEW''),
    (SQL_DIAG_GRANT, ''GRANT''),
    (SQL_DIAG_INSERT, ''INSERT''),
    (SQL_DIAG_CALL, ''CALL''),
    (SQL_DIAG_REVOKE, ''REVOKE''),
    (SQL_DIAG_CREATE_SCHEMA, ''CREATE SCHEMA''),
    (SQL_DIAG_CREATE_TRANSLATION, ''CREATE TRANSLATION''),
    (SQL_DIAG_DYNAMIC_UPDATE_CURSOR, ''DYNAMIC UPDATE CURSOR''),
    (SQL_DIAG_UPDATE_WHERE, ''UPDATE WHERE''),
    (SQL_DIAG_UNKNOWN_STATEMENT, [])]"

definition SET_ODBC3_SUBCLASS_ORIGIN :: "string list" where
  "SET_ODBC3_SUBCLASS_ORIGIN = [
    ''01S00'', ''01S01'', ''01S02'', ''01S06'', ''01S07'', ''07S01'', ''08S01'', ''21S01'', ''21S02'',
    ''25S01'', ''25S02'', ''25S03'', ''42S01'', ''42S02'', ''42S11'', ''42S12'', ''42S21'', ''42S22'',
    ''HY095'', ''HY097'', ''HY098'', ''HY099'', ''HY100'', ''HY101'', ''HY105'', ''HY107'', ''HY109'',
    ''HY110'', ''HY111'', ''HYT00'', ''HYT01'', ''IM001'', ''IM002'', ''IM003'', ''IM004'', ''IM005'',
    ''IM006'', ''IM007'', ''IM008'', ''IM010'', ''IM011'', ''IM012'']"

section \<open>DiagRecord\<close>

record DiagRecord =
  sql_diag_column_number :: int
  sql_diag_native :: int
  sql_diag_row_number :: int
  sql_diag_server_name :: string
  sql_diag_sqlstate :: string
  sql_diag_message_text :: string
  stack_msg_offset :: "nat list"

definition mk_DiagRecord :: "string \<Rightarrow> SQLStateType \<Rightarrow> string \<Rightarrow> int \<Rightarrow> int \<Rightarrow> int \<Rightarrow> DiagRecord" where
  "mk_DiagRecord msg sqlstate_type server_name col_number sql_native row_number =
     \<lparr>sql_diag_column_number = col_number,
      sql_diag_native = sql_native,
      sql_diag_row_number = row_number,
      sql_diag_server_name = server_name,
      sql_diag_sqlstate =
        (case map_of MAP_ODBC_SQL_STATES sqlstate_type of None \<Rightarrow> [] | Some (code, _) \<Rightarrow> code),
      sql_diag_message_text = msg,
      stack_msg_offset = [0]\<rparr>"

text \<open>Pops until the top of the stack is 0 (the head of the list is the top).\<close>

definition ClearStackMsgOffset :: "DiagRecord \<Rightarrow> DiagRecord" where
  "ClearStackMsgOffset r = r\<lparr>stack_msg_offset := dropWhile (\<lambda>n. n \<noteq> 0) (stack_msg_offset r)\<rparr>"

definition GetOriginalMessage :: "DiagRecord \<Rightarrow> string" where
  "GetOriginalMessage r = sql_diag_message_text r"

definition SetMessage :: "string \<Rightarrow> DiagRecord \<Rightarrow> DiagRecord" where
  "SetMessage new_msg r = ClearStackMsgOffset (r\<lparr>sql_diag_message_text := new_msg\<rparr>)"

text \<open>
  The rest of the message from the last offset, and the record with the next offset pushed (or the
  stack cleared when the message ends). None: an empty stack, or an offset past the text, where
  \<^verbatim>\<open>substr\<close> throws. The buffer length is converted to an unsigned 64 bit integer.
\<close>

definition GetMessage :: "int \<Rightarrow> DiagRecord \<Rightarrow> (string \<times> DiagRecord) option" where
  "GetMessage buff_length r =
     (case stack_msg_offset r of
        [] \<Rightarrow> None
      | last_offset # _ \<Rightarrow>
          let new_offset = nat (wrap_u 64 (int last_offset + buff_length));
              r' = (if new_offset \<ge> length (sql_diag_message_text r) then ClearStackMsgOffset r
                    else r\<lparr>stack_msg_offset := new_offset # stack_msg_offset r\<rparr>)
          in if last_offset > length (sql_diag_message_text r) then None
             else Some (drop last_offset (sql_diag_message_text r), r'))"

section \<open>OdbcDiagnostic\<close>

record DiagHeader =
  sql_diag_cursor_row_count :: int
  sql_diag_dynamic_function_code :: int
  sql_diag_number :: int
  sql_diag_return_code :: int
  sql_diag_row_count :: int

record OdbcDiagnostic =
  header :: DiagHeader
  diag_records :: "DiagRecord list"
  vec_record_idx :: "int list"

text \<open>\<^verbatim>\<open>DiagHeader()\<close> value-initialises the fields without an initialiser of their own.\<close>

definition mk_DiagHeader :: DiagHeader where
  "mk_DiagHeader = \<lparr>sql_diag_cursor_row_count = 0, sql_diag_dynamic_function_code = SQL_DIAG_UNKNOWN_STATEMENT,
     sql_diag_number = 0, sql_diag_return_code = 0, sql_diag_row_count = 0\<rparr>"

definition mk_OdbcDiagnostic :: OdbcDiagnostic where
  "mk_OdbcDiagnostic = \<lparr>header = mk_DiagHeader, diag_records = [], vec_record_idx = []\<rparr>"

definition IsDiagRecordField :: "int \<Rightarrow> bool" where
  "IsDiagRecordField rec_field = (rec_field \<in> {SQL_DIAG_CLASS_ORIGIN, SQL_DIAG_COLUMN_NUMBER,
     SQL_DIAG_CONNECTION_NAME, SQL_DIAG_MESSAGE_TEXT, SQL_DIAG_NATIVE, SQL_DIAG_ROW_NUMBER,
     SQL_DIAG_SERVER_NAME, SQL_DIAG_SQLSTATE, SQL_DIAG_SUBCLASS_ORIGIN})"

definition FormatDiagnosticMessage :: "DiagRecord \<Rightarrow> string \<Rightarrow> string \<Rightarrow> DiagRecord" where
  "FormatDiagnosticMessage diag_record data_source component =
     (let error_msg = GetOriginalMessage diag_record;
          msg = ''ODBC_DuckDB'';
          msg = (if data_source \<noteq> [] then msg @ ''->'' @ data_source else msg);
          msg = (if component \<noteq> [] then msg @ ''->'' @ component else msg);
          msg = msg @ [CHR 0x0A] @ error_msg
      in SetMessage msg diag_record)"

definition AddDiagRecord :: "DiagRecord \<Rightarrow> OdbcDiagnostic \<Rightarrow> OdbcDiagnostic" where
  "AddDiagRecord diag_record d =
     (let rec_idx = wrap_s 16 (int (length (diag_records d)))
      in d\<lparr>diag_records := diag_records d @ [diag_record], vec_record_idx := vec_record_idx d @ [rec_idx]\<rparr>)"

definition AddNewRecIdx :: "nat \<Rightarrow> OdbcDiagnostic \<Rightarrow> OdbcDiagnostic option" where
  "AddNewRecIdx rec_idx d =
     (if rec_idx < length (vec_record_idx d) then
        let origin_idx = vec_record_idx d ! rec_idx
        in Some (d\<lparr>vec_record_idx :=
             take (rec_idx + 1) (vec_record_idx d) @ [origin_idx] @ drop (rec_idx + 1) (vec_record_idx d)\<rparr>)
      else None)"

definition GetTotalRecords :: "OdbcDiagnostic \<Rightarrow> nat" where
  "GetTotalRecords d = length (vec_record_idx d)"

definition Clean :: "OdbcDiagnostic \<Rightarrow> OdbcDiagnostic" where
  "Clean d = d\<lparr>header := mk_DiagHeader, diag_records := [], vec_record_idx := []\<rparr>"

definition GetDiagDynamicFunction :: "OdbcDiagnostic \<Rightarrow> string" where
  "GetDiagDynamicFunction d =
     (case map_of MAP_DYNAMIC_FUNCTION (sql_diag_dynamic_function_code (header d)) of
        None \<Rightarrow> [] | Some s \<Rightarrow> s)"

definition VerifyRecordIndex :: "int \<Rightarrow> OdbcDiagnostic \<Rightarrow> bool" where
  "VerifyRecordIndex rec_idx d \<longleftrightarrow> rec_idx < int (length (diag_records d)) \<and> rec_idx \<ge> 0"

text \<open>
  The reference it returns is the position of the record in \<^verbatim>\<open>diag_records\<close>. Asking for the first
  record rebuilds the index and rewinds every record.
\<close>

definition GetDiagRecord :: "nat \<Rightarrow> OdbcDiagnostic \<Rightarrow> (nat \<times> OdbcDiagnostic) option" where
  "GetDiagRecord rec_idx d =
     (if rec_idx < length (vec_record_idx d) then
        let origin_idx = vec_record_idx d ! rec_idx;
            d' = (if rec_idx = 0 then
                    d\<lparr>vec_record_idx := map (\<lambda>i. wrap_s 16 (int i)) [0..<length (diag_records d)],
                      diag_records := map ClearStackMsgOffset (diag_records d)\<rparr>
                  else d)
        in if 0 \<le> origin_idx \<and> origin_idx < int (length (diag_records d))
           then Some (nat origin_idx, d') else None
      else None)"

fun contains_IM :: "string \<Rightarrow> bool" where
  "contains_IM (a # b # r) \<longleftrightarrow> (a = CHR ''I'' \<and> b = CHR ''M'') \<or> contains_IM (b # r)" |
  "contains_IM _ \<longleftrightarrow> False"

definition GetDiagClassOrigin :: "nat \<Rightarrow> OdbcDiagnostic \<Rightarrow> string option" where
  "GetDiagClassOrigin rec_idx d =
     (if rec_idx < length (diag_records d) then
        Some (if contains_IM (sql_diag_sqlstate (diag_records d ! rec_idx)) then ''ODBC 3.0'' else ''ISO 9075'')
      else None)"

definition GetDiagSubclassOrigin :: "nat \<Rightarrow> OdbcDiagnostic \<Rightarrow> string option" where
  "GetDiagSubclassOrigin rec_idx d =
     (if rec_idx < length (diag_records d) then
        Some (if sql_diag_sqlstate (diag_records d ! rec_idx) \<in> set SET_ODBC3_SUBCLASS_ORIGIN
              then ''ODBC 3.0'' else ''ISO 9075'')
      else None)"

text \<open>\<^verbatim>\<open>SetDiagnosticRecord\<close> (handle\_functions.cpp) on the diagnostic area of the handle.\<close>

definition SetDiagnosticRecord ::
  "OdbcDiagnostic \<Rightarrow> int \<Rightarrow> string \<Rightarrow> string \<Rightarrow> SQLStateType \<Rightarrow> string \<Rightarrow> int \<times> OdbcDiagnostic" where
  "SetDiagnosticRecord d ret component msg sqlstate_type server_name =
     (let diag_rec = mk_DiagRecord msg sqlstate_type server_name SQL_NO_COLUMN_NUMBER 0 SQL_NO_ROW_NUMBER;
          diag_rec = FormatDiagnosticMessage diag_rec server_name component
      in (ret, AddDiagRecord diag_rec d))"

section \<open>The invariant of the diagnostic area\<close>

definition wf_DiagRecord :: "DiagRecord \<Rightarrow> bool" where
  "wf_DiagRecord r \<longleftrightarrow> stack_msg_offset r \<noteq> [] \<and> last (stack_msg_offset r) = 0 \<and>
     (\<forall>n \<in> set (stack_msg_offset r). n \<le> length (sql_diag_message_text r))"

definition wf_OdbcDiagnostic :: "OdbcDiagnostic \<Rightarrow> bool" where
  "wf_OdbcDiagnostic d \<longleftrightarrow> list_all wf_DiagRecord (diag_records d) \<and>
     (\<forall>i \<in> set (vec_record_idx d). 0 \<le> i \<and> i < int (length (diag_records d))) \<and>
     length (diag_records d) \<le> length (vec_record_idx d) \<and> length (diag_records d) \<le> 32768"

lemma last_dropWhile_zero:
  "xs \<noteq> [] \<Longrightarrow> last xs = (0::nat) \<Longrightarrow> dropWhile (\<lambda>n. n \<noteq> 0) xs \<noteq> [] \<and> last (dropWhile (\<lambda>n. n \<noteq> 0) xs) = 0"
  by (induction xs) auto

lemma ClearStackMsgOffset_wf [intro]: "wf_DiagRecord r \<Longrightarrow> wf_DiagRecord (ClearStackMsgOffset r)"
  using last_dropWhile_zero[of "stack_msg_offset r"]
  by (auto simp: wf_DiagRecord_def ClearStackMsgOffset_def dest: set_dropWhileD)

lemma ClearStackMsgOffset_text [simp]:
  "sql_diag_message_text (ClearStackMsgOffset r) = sql_diag_message_text r"
  "sql_diag_sqlstate (ClearStackMsgOffset r) = sql_diag_sqlstate r"
  by (simp_all add: ClearStackMsgOffset_def)

lemma ClearStackMsgOffset_hd: "wf_DiagRecord r \<Longrightarrow> hd (stack_msg_offset (ClearStackMsgOffset r)) = 0"
  using last_dropWhile_zero[of "stack_msg_offset r"] hd_dropWhile[of "\<lambda>n. n \<noteq> 0" "stack_msg_offset r"]
  by (auto simp: wf_DiagRecord_def ClearStackMsgOffset_def)

lemma mk_DiagRecord_wf [intro]: "wf_DiagRecord (mk_DiagRecord msg st server c n r)"
  by (simp add: wf_DiagRecord_def mk_DiagRecord_def)

lemma FormatDiagnosticMessage_wf: "stack_msg_offset r = [0] \<Longrightarrow> wf_DiagRecord (FormatDiagnosticMessage r s c)"
  by (simp add: wf_DiagRecord_def FormatDiagnosticMessage_def SetMessage_def ClearStackMsgOffset_def Let_def)

lemma GetMessage_wf: "wf_DiagRecord r \<Longrightarrow> GetMessage b r = Some (s, r') \<Longrightarrow> wf_DiagRecord r'"
  using ClearStackMsgOffset_wf[of r]
  by (auto simp: GetMessage_def Let_def wf_DiagRecord_def split: list.splits if_splits)

lemma GetMessage_defined: "wf_DiagRecord r \<Longrightarrow> \<exists>s r'. GetMessage b r = Some (s, r')"
  by (cases "stack_msg_offset r") (auto simp: GetMessage_def Let_def wf_DiagRecord_def)

lemma wrap_s_small: "i < 32768 \<Longrightarrow> wrap_s 16 (int i) = int i"
  by (simp add: in_s_def)

lemma AddDiagRecord_wf [intro]:
  "wf_OdbcDiagnostic d \<Longrightarrow> wf_DiagRecord r \<Longrightarrow> length (diag_records d) < 32768 \<Longrightarrow>
   wf_OdbcDiagnostic (AddDiagRecord r d)"
  by (fastforce simp: wf_OdbcDiagnostic_def AddDiagRecord_def Let_def wrap_s_small)

lemma Clean_wf [intro]: "wf_OdbcDiagnostic (Clean d)"
  by (simp add: wf_OdbcDiagnostic_def Clean_def)

lemma mk_OdbcDiagnostic_wf [intro]: "wf_OdbcDiagnostic mk_OdbcDiagnostic"
  by (simp add: wf_OdbcDiagnostic_def mk_OdbcDiagnostic_def)

lemma AddNewRecIdx_wf: "wf_OdbcDiagnostic d \<Longrightarrow> AddNewRecIdx i d = Some d' \<Longrightarrow> wf_OdbcDiagnostic d'"
proof -
  assume wf: "wf_OdbcDiagnostic d" and a: "AddNewRecIdx i d = Some d'"
  let ?v = "vec_record_idx d"
  have "set (take (i + 1) ?v @ [?v ! i] @ drop (i + 1) ?v) \<subseteq> set ?v"
    using a by (auto simp: AddNewRecIdx_def split: if_splits dest: in_set_takeD in_set_dropD)
  then show ?thesis using wf a by (force simp: wf_OdbcDiagnostic_def AddNewRecIdx_def Let_def split: if_splits)
qed

lemma GetDiagRecord_wf:
  assumes "wf_OdbcDiagnostic d" "GetDiagRecord i d = Some (k, d')"
  shows "wf_OdbcDiagnostic d' \<and> k < length (diag_records d')"
  using assms ClearStackMsgOffset_wf
  by (auto simp: wf_OdbcDiagnostic_def GetDiagRecord_def Let_def list_all_iff wrap_s_small nat_less_iff split: if_splits)

lemma GetDiagRecord_defined:
  assumes "wf_OdbcDiagnostic d" "i < GetTotalRecords d"
  shows "\<exists>k d'. GetDiagRecord i d = Some (k, d')"
  using assms by (auto simp: wf_OdbcDiagnostic_def GetDiagRecord_def GetTotalRecords_def Let_def)

lemma SetDiagnosticRecord_wf [intro]:
  "wf_OdbcDiagnostic d \<Longrightarrow> length (diag_records d) < 32768 \<Longrightarrow> wf_OdbcDiagnostic (snd (SetDiagnosticRecord d ret cmp msg st srv))"
  by (auto simp: SetDiagnosticRecord_def Let_def mk_DiagRecord_def intro!: FormatDiagnosticMessage_wf)

lemma SetDiagnosticRecord_ret [simp]: "fst (SetDiagnosticRecord d ret cmp msg st srv) = ret"
  by (simp add: SetDiagnosticRecord_def Let_def)


text \<open>
  The SQLSTATE table has one entry per enumerator, in the order of the enumeration; the codes
  have five characters and are pairwise different, so that a code identifies its state.
\<close>

theorem sqlstate_table:
  "map fst MAP_ODBC_SQL_STATES = [ST_01000..<Suc ST_S1118] \<and>
   list_all (\<lambda>(_, code, msg). length code = 5 \<and> msg \<noteq> []) MAP_ODBC_SQL_STATES \<and>
   distinct (map (fst \<circ> snd) MAP_ODBC_SQL_STATES) \<and>
   map_of MAP_ODBC_SQL_STATES ST_HY092 = Some (''HY092'', ''Invalid attribute/option identifier'')"
  by code_simp

end
