(* ===== verification/Odbc_Interval.thy ===== *)
theory Odbc_Interval
  imports Odbc_Diagnostic
begin

text \<open>
  \<^verbatim>\<open>src/odbc_driver/common/odbc_interval.cpp\<close>: splitting the engine's interval (months, days,
  microseconds) into the fields of SQL\_INTERVAL\_STRUCT. The fields are 32 bit unsigned; year and
  day, month and hour share their place in the union. Overflow of the signed 32 bit computation of
  the days wraps around.
\<close>

section \<open>interval\_t and SQL\_INTERVAL\_STRUCT\<close>

record interval_t =
  iv_months :: int
  iv_days :: int
  iv_micros :: int

record SQL_INTERVAL_STRUCT =
  interval_type :: int
  interval_sign :: int
  iv_year_day :: int
  iv_month_hour :: int
  iv_minute :: int
  iv_second :: int
  iv_fraction :: int

abbreviation (input) MONTHS_PER_YEAR :: int where "MONTHS_PER_YEAR \<equiv> 12"
abbreviation (input) DAYS_PER_MONTH :: int where "DAYS_PER_MONTH \<equiv> 30"
abbreviation (input) HOURS_PER_DAY :: int where "HOURS_PER_DAY \<equiv> 24"
abbreviation (input) MINS_PER_HOUR :: int where "MINS_PER_HOUR \<equiv> 60"
abbreviation (input) SECS_PER_MINUTE :: int where "SECS_PER_MINUTE \<equiv> 60"
abbreviation (input) MICROS_PER_SEC :: int where "MICROS_PER_SEC \<equiv> 1000000"
abbreviation (input) MICROS_PER_MINUTE :: int where "MICROS_PER_MINUTE \<equiv> 60000000"
abbreviation (input) MICROS_PER_HOUR :: int where "MICROS_PER_HOUR \<equiv> 3600000000"

abbreviation u32 :: "int \<Rightarrow> int" where "u32 \<equiv> wrap_u 32"

text \<open>\<^verbatim>\<open>std::abs\<close> at the width of its argument.\<close>

definition abs_w :: "nat \<Rightarrow> int \<Rightarrow> int" where
  "abs_w w i = wrap_s w (abs i)"

section \<open>The setters\<close>

definition SetSignal :: "interval_t \<Rightarrow> SQL_INTERVAL_STRUCT \<Rightarrow> SQL_INTERVAL_STRUCT" where
  "SetSignal interval s =
     (if iv_months interval \<noteq> 0 then
        s\<lparr>interval_sign := (if iv_months interval < 0 then SQL_TRUE else SQL_FALSE)\<rparr>
      else if iv_days interval \<noteq> 0 then
        s\<lparr>interval_sign := (if iv_days interval < 0 then SQL_TRUE else SQL_FALSE)\<rparr>
      else s\<lparr>interval_sign := (if iv_micros interval < 0 then SQL_TRUE else SQL_FALSE)\<rparr>)"

definition SetYear :: "interval_t \<Rightarrow> SQL_INTERVAL_STRUCT \<Rightarrow> SQL_INTERVAL_STRUCT" where
  "SetYear interval s = s\<lparr>interval_type := SQL_IS_YEAR,
     iv_year_day := u32 (abs_w 32 (iv_months interval) div MONTHS_PER_YEAR)\<rparr>"

definition SetMonth :: "interval_t \<Rightarrow> SQL_INTERVAL_STRUCT \<Rightarrow> SQL_INTERVAL_STRUCT" where
  "SetMonth interval s = s\<lparr>interval_type := SQL_IS_MONTH,
     iv_month_hour := u32 (abs_w 32 (iv_months interval))\<rparr>"

definition SetDay :: "interval_t \<Rightarrow> SQL_INTERVAL_STRUCT \<Rightarrow> SQL_INTERVAL_STRUCT" where
  "SetDay interval s = s\<lparr>interval_type := SQL_IS_DAY,
     iv_year_day := u32 (abs_w 32 (wrap_s 32 (iv_days interval +
       wrap_s 32 (iv_months interval * DAYS_PER_MONTH))))\<rparr>"

definition SetHour :: "interval_t \<Rightarrow> SQL_INTERVAL_STRUCT \<Rightarrow> SQL_INTERVAL_STRUCT" where
  "SetHour interval s =
     (let s = SetDay interval s;
          s = s\<lparr>interval_type := SQL_IS_HOUR\<rparr>;
          s = s\<lparr>iv_month_hour := u32 (iv_year_day s * HOURS_PER_DAY)\<rparr>;
          s = s\<lparr>iv_month_hour := u32 (iv_month_hour s + u32 (abs_w 64 (iv_micros interval) div MICROS_PER_HOUR))\<rparr>
      in s\<lparr>iv_fraction := u32 (abs_w 64 (iv_micros interval) mod MICROS_PER_HOUR)\<rparr>)"

definition SetMinute :: "interval_t \<Rightarrow> SQL_INTERVAL_STRUCT \<Rightarrow> SQL_INTERVAL_STRUCT" where
  "SetMinute interval s =
     (let s = SetHour interval s;
          s = s\<lparr>interval_type := SQL_IS_MINUTE\<rparr>;
          s = s\<lparr>iv_minute := u32 (iv_month_hour s * MINS_PER_HOUR)\<rparr>;
          s = s\<lparr>iv_minute := u32 (iv_minute s + iv_fraction s div MICROS_PER_MINUTE)\<rparr>
      in s\<lparr>iv_fraction := u32 (iv_fraction s mod MICROS_PER_MINUTE)\<rparr>)"

definition SetSecond :: "interval_t \<Rightarrow> SQL_INTERVAL_STRUCT \<Rightarrow> SQL_INTERVAL_STRUCT" where
  "SetSecond interval s =
     (let s = SetMinute interval s;
          s = s\<lparr>interval_type := SQL_IS_SECOND\<rparr>;
          s = s\<lparr>iv_second := u32 (iv_minute s * SECS_PER_MINUTE)\<rparr>;
          s = s\<lparr>iv_fraction := u32 (iv_fraction s + u32 (abs_w 64 (iv_micros interval) div MICROS_PER_SEC))\<rparr>
      in s\<lparr>iv_fraction := u32 (abs_w 64 (iv_micros interval) mod MICROS_PER_SEC)\<rparr>)"

definition SetDayToHour :: "interval_t \<Rightarrow> SQL_INTERVAL_STRUCT \<Rightarrow> SQL_INTERVAL_STRUCT" where
  "SetDayToHour interval s =
     (let s = SetDay interval s;
          s = s\<lparr>interval_type := SQL_IS_DAY_TO_HOUR\<rparr>;
          s = s\<lparr>iv_month_hour := u32 (abs_w 64 (iv_micros interval) div MICROS_PER_HOUR)\<rparr>
      in s\<lparr>iv_fraction := u32 (abs_w 64 (iv_micros interval) mod MICROS_PER_HOUR)\<rparr>)"

definition SetDayToMinute :: "interval_t \<Rightarrow> SQL_INTERVAL_STRUCT \<Rightarrow> SQL_INTERVAL_STRUCT" where
  "SetDayToMinute interval s =
     (let s = SetDayToHour interval s;
          s = s\<lparr>interval_type := SQL_IS_DAY_TO_MINUTE\<rparr>;
          s = s\<lparr>iv_minute := u32 (iv_fraction s div MICROS_PER_MINUTE)\<rparr>
      in s\<lparr>iv_fraction := u32 (iv_fraction s mod MICROS_PER_MINUTE)\<rparr>)"

definition SetDayToSecond :: "interval_t \<Rightarrow> SQL_INTERVAL_STRUCT \<Rightarrow> SQL_INTERVAL_STRUCT" where
  "SetDayToSecond interval s =
     (let s = SetDayToMinute interval s;
          s = s\<lparr>interval_type := SQL_IS_DAY_TO_SECOND\<rparr>;
          s = s\<lparr>iv_second := u32 (iv_fraction s div MICROS_PER_SEC)\<rparr>
      in s\<lparr>iv_fraction := u32 (iv_fraction s mod MICROS_PER_SEC)\<rparr>)"

definition SetHourToMinute :: "interval_t \<Rightarrow> SQL_INTERVAL_STRUCT \<Rightarrow> SQL_INTERVAL_STRUCT" where
  "SetHourToMinute interval s =
     (let s = SetHour interval s;
          s = s\<lparr>interval_type := SQL_IS_HOUR_TO_MINUTE\<rparr>;
          s = s\<lparr>iv_minute := u32 (iv_fraction s div MICROS_PER_MINUTE)\<rparr>
      in s\<lparr>iv_fraction := u32 (iv_fraction s mod MICROS_PER_MINUTE)\<rparr>)"

definition SetHourToSecond :: "interval_t \<Rightarrow> SQL_INTERVAL_STRUCT \<Rightarrow> SQL_INTERVAL_STRUCT" where
  "SetHourToSecond interval s =
     (let s = SetHourToMinute interval s;
          s = s\<lparr>interval_type := SQL_IS_HOUR_TO_SECOND\<rparr>;
          s = s\<lparr>iv_second := u32 (iv_fraction s div MICROS_PER_SEC)\<rparr>
      in s\<lparr>iv_fraction := u32 (iv_fraction s mod MICROS_PER_SEC)\<rparr>)"

definition SetMinuteToSecond :: "interval_t \<Rightarrow> SQL_INTERVAL_STRUCT \<Rightarrow> SQL_INTERVAL_STRUCT" where
  "SetMinuteToSecond interval s =
     (let s = SetMinute interval s;
          s = s\<lparr>interval_type := SQL_IS_MINUTE_TO_SECOND\<rparr>;
          s = s\<lparr>iv_second := u32 (iv_fraction s div MICROS_PER_SEC)\<rparr>
      in s\<lparr>iv_fraction := u32 (iv_fraction s mod MICROS_PER_SEC)\<rparr>)"

section \<open>Type codes\<close>

definition IsIntervalType :: "int \<Rightarrow> bool" where
  "IsIntervalType value_type = (value_type \<in> {SQL_C_INTERVAL_YEAR, SQL_C_INTERVAL_MONTH, SQL_C_INTERVAL_DAY, SQL_C_INTERVAL_HOUR, SQL_C_INTERVAL_MINUTE, SQL_C_INTERVAL_SECOND, SQL_C_INTERVAL_YEAR_TO_MONTH, SQL_C_INTERVAL_DAY_TO_HOUR, SQL_C_INTERVAL_DAY_TO_MINUTE, SQL_C_INTERVAL_DAY_TO_SECOND, SQL_C_INTERVAL_HOUR_TO_MINUTE, SQL_C_INTERVAL_HOUR_TO_SECOND, SQL_C_INTERVAL_MINUTE_TO_SECOND})"

definition GetSQLIntervalType :: "int \<Rightarrow> int" where
  "GetSQLIntervalType value_type = (
      if value_type = SQL_C_INTERVAL_YEAR then SQL_INTERVAL_YEAR
      else if value_type = SQL_C_INTERVAL_MONTH then SQL_INTERVAL_MONTH
      else if value_type = SQL_C_INTERVAL_DAY then SQL_INTERVAL_DAY
      else if value_type = SQL_C_INTERVAL_HOUR then SQL_INTERVAL_HOUR
      else if value_type = SQL_C_INTERVAL_MINUTE then SQL_INTERVAL_MINUTE
      else if value_type = SQL_C_INTERVAL_SECOND then SQL_INTERVAL_SECOND
      else if value_type = SQL_C_INTERVAL_YEAR_TO_MONTH then SQL_INTERVAL_YEAR_TO_MONTH
      else if value_type = SQL_C_INTERVAL_DAY_TO_HOUR then SQL_INTERVAL_DAY_TO_HOUR
      else if value_type = SQL_C_INTERVAL_DAY_TO_MINUTE then SQL_INTERVAL_DAY_TO_MINUTE
      else if value_type = SQL_C_INTERVAL_DAY_TO_SECOND then SQL_INTERVAL_DAY_TO_SECOND
      else if value_type = SQL_C_INTERVAL_HOUR_TO_MINUTE then SQL_INTERVAL_HOUR_TO_MINUTE
      else if value_type = SQL_C_INTERVAL_HOUR_TO_SECOND then SQL_INTERVAL_HOUR_TO_SECOND
      else if value_type = SQL_C_INTERVAL_MINUTE_TO_SECOND then SQL_INTERVAL_MINUTE_TO_SECOND
      else SQL_ERROR)"

definition GetIntervalCode :: "int \<Rightarrow> int" where
  "GetIntervalCode value_type = (
      if value_type = SQL_C_INTERVAL_YEAR then SQL_CODE_YEAR
      else if value_type = SQL_C_INTERVAL_MONTH then SQL_CODE_MONTH
      else if value_type = SQL_C_INTERVAL_DAY then SQL_CODE_DAY
      else if value_type = SQL_C_INTERVAL_HOUR then SQL_CODE_HOUR
      else if value_type = SQL_C_INTERVAL_MINUTE then SQL_CODE_MINUTE
      else if value_type = SQL_C_INTERVAL_SECOND then SQL_CODE_SECOND
      else if value_type = SQL_C_INTERVAL_YEAR_TO_MONTH then SQL_CODE_YEAR_TO_MONTH
      else if value_type = SQL_C_INTERVAL_DAY_TO_HOUR then SQL_CODE_DAY_TO_HOUR
      else if value_type = SQL_C_INTERVAL_DAY_TO_MINUTE then SQL_CODE_DAY_TO_MINUTE
      else if value_type = SQL_C_INTERVAL_DAY_TO_SECOND then SQL_CODE_DAY_TO_SECOND
      else if value_type = SQL_C_INTERVAL_HOUR_TO_MINUTE then SQL_CODE_HOUR_TO_MINUTE
      else if value_type = SQL_C_INTERVAL_HOUR_TO_SECOND then SQL_CODE_HOUR_TO_SECOND
      else if value_type = SQL_C_INTERVAL_MINUTE_TO_SECOND then SQL_CODE_MINUTE_TO_SECOND
      else SQL_ERROR)"

section \<open>Reconstruction\<close>

definition wf_interval :: "interval_t \<Rightarrow> bool" where
  "wf_interval i \<longleftrightarrow> abs (iv_days i) < 2 ^ 31 \<and> abs (iv_months i) < 2 ^ 31 \<and> abs (iv_micros i) < 2 ^ 63 \<and>
     abs (iv_months i * 30) < 2 ^ 31 \<and> abs (iv_days i + iv_months i * 30) < 2 ^ 31"

abbreviation total_days :: "interval_t \<Rightarrow> int" where
  "total_days i \<equiv> abs (iv_days i + iv_months i * 30)"

lemma in_s_abs: "abs i < 2 ^ (w - 1) \<Longrightarrow> in_s w i"
  by (auto simp: in_s_def abs_less_iff)

lemma abs_w_id: "0 < w \<Longrightarrow> abs i < 2 ^ (w - 1) \<Longrightarrow> abs_w w i = abs i"
  by (simp add: abs_w_def in_s_abs)

lemma u32_id: "0 \<le> i \<Longrightarrow> i < 4294967296 \<Longrightarrow> u32 i = i"
  by (simp add: in_u_def)

lemma wf_interval_days:
  assumes "wf_interval i"
  shows "u32 (abs_w 32 (wrap_s 32 (iv_days i + wrap_s 32 (iv_months i * 30)))) = total_days i"
proof -
  have m: "wrap_s 32 (iv_months i * 30) = iv_months i * 30"
    using assms by (intro wrap_s_id in_s_abs) (simp_all add: wf_interval_def)
  have d: "wrap_s 32 (iv_days i + iv_months i * 30) = iv_days i + iv_months i * 30"
    using assms by (intro wrap_s_id in_s_abs) (simp_all add: wf_interval_def)
  have a: "abs_w 32 (iv_days i + iv_months i * 30) = total_days i"
    using assms by (intro abs_w_id) (simp_all add: wf_interval_def)
  show ?thesis unfolding m d a using assms by (intro u32_id) (simp_all add: wf_interval_def)
qed

lemma wf_interval_micros: "wf_interval i \<Longrightarrow> abs_w 64 (iv_micros i) = abs (iv_micros i)"
  by (intro abs_w_id) (simp_all add: wf_interval_def)

lemma wf_interval_hours: "wf_interval i \<Longrightarrow> u32 (abs (iv_micros i) div 3600000000) = abs (iv_micros i) div 3600000000"
  by (intro u32_id) (auto simp: wf_interval_def div_less_iff_less_mult less_imp_le_nat
      pos_imp_zdiv_nonneg_iff intro: order.strict_trans)

lemma u32_mod_small: "0 < k \<Longrightarrow> k \<le> 4294967296 \<Longrightarrow> u32 (x mod k) = x mod k"
proof -
  assume k: "0 < k" "k \<le> 4294967296"
  then have "0 \<le> x mod k" "x mod k < k" by simp_all
  then show ?thesis using k(2) by (intro u32_id) linarith+
qed

lemma u32_div_mod_small:
  assumes "0 < d" "0 < k" "k \<le> 4294967296"
  shows "u32 (x mod k div d) = x mod k div d"
proof -
  have "0 \<le> x mod k" "x mod k < k" using assms by simp_all
  moreover have "x mod k div d \<le> x mod k" using zdiv_mono2[of "x mod k" 1 d] assms(1) \<open>0 \<le> x mod k\<close> by simp
  moreover have "0 \<le> x mod k div d" using assms(1) \<open>0 \<le> x mod k\<close> by (simp add: pos_imp_zdiv_nonneg_iff)
  ultimately show ?thesis using assms(3) by (intro u32_id) linarith+
qed

text \<open>The hours, minutes, seconds and the fraction in a number of microseconds.\<close>

definition part_h :: "int \<Rightarrow> int" where "part_h u = u div 3600000000"
definition part_m :: "int \<Rightarrow> int" where "part_m u = u mod 3600000000 div 60000000"
definition part_s :: "int \<Rightarrow> int" where "part_s u = u mod 3600000000 mod 60000000 div 1000000"
definition part_f :: "int \<Rightarrow> int" where "part_f u = u mod 3600000000 mod 60000000 mod 1000000"

lemma parts_sum: "part_h u * 3600000000 + part_m u * 60000000 + part_s u * 1000000 + part_f u = u"
  unfolding part_h_def part_m_def part_s_def part_f_def
  using div_mult_mod_eq[of u 3600000000] div_mult_mod_eq[of "u mod 3600000000" 60000000]
    div_mult_mod_eq[of "u mod 3600000000 mod 60000000" 1000000] by linarith

lemma parts_bounds:
  "0 \<le> u \<Longrightarrow> 0 \<le> part_h u" "0 \<le> part_m u" "part_m u < 60" "0 \<le> part_s u" "part_s u < 60"
  "0 \<le> part_f u" "part_f u < 1000000"
proof -
  have a: "0 \<le> u mod 3600000000" "u mod 3600000000 < 3600000000" by simp_all
  have b: "0 \<le> u mod 3600000000 mod 60000000" "u mod 3600000000 mod 60000000 < 60000000" by simp_all
  show "0 \<le> u \<Longrightarrow> 0 \<le> part_h u" unfolding part_h_def by (simp add: pos_imp_zdiv_nonneg_iff)
  show "0 \<le> part_m u" unfolding part_m_def using a(1) by (simp add: pos_imp_zdiv_nonneg_iff)
  show "part_m u < 60" unfolding part_m_def using a(2) by (simp add: div_less_iff_less_mult)
  show "0 \<le> part_s u" unfolding part_s_def using b(1) by (simp add: pos_imp_zdiv_nonneg_iff)
  show "part_s u < 60" unfolding part_s_def using b(2) by (simp add: div_less_iff_less_mult)
  show "0 \<le> part_f u" "part_f u < 1000000" unfolding part_f_def by simp_all
qed

lemma parts_u32:
  "u32 (u mod 3600000000) = u mod 3600000000"
  "u32 (u mod 3600000000 div 60000000) = part_m u"
  "u32 (u mod 3600000000 mod 60000000) = u mod 3600000000 mod 60000000"
  "u32 (u mod 3600000000 mod 60000000 div 1000000) = part_s u"
  "u32 (u mod 3600000000 mod 60000000 mod 1000000) = part_f u"
  unfolding part_m_def part_s_def part_f_def
  by (rule u32_mod_small u32_div_mod_small; simp)+

lemma wrap_u_add: "wrap_u w (wrap_u w x + y) = wrap_u w (x + y)" "wrap_u w (x + wrap_u w y) = wrap_u w (x + y)"
  by (simp_all add: wrap_u_def mod_simps)

text \<open>What the setters leave in each field, before any arithmetic.\<close>

lemma SetDayToMinute_sel:
  fixes i :: interval_t
  defines "d \<equiv> u32 (abs_w 32 (wrap_s 32 (iv_days i + wrap_s 32 (iv_months i * 30))))"
    and "f \<equiv> u32 (abs_w 64 (iv_micros i) mod 3600000000)"
  shows "iv_year_day (SetDayToMinute i s) = d"
    "iv_month_hour (SetDayToMinute i s) = u32 (abs_w 64 (iv_micros i) div 3600000000)"
    "iv_minute (SetDayToMinute i s) = u32 (f div 60000000)"
    "iv_fraction (SetDayToMinute i s) = u32 (f mod 60000000)"
  by (simp_all add: SetDayToMinute_def SetDayToHour_def SetDay_def Let_def d_def f_def)

lemma SetDayToSecond_sel:
  "iv_year_day (SetDayToSecond i s) = iv_year_day (SetDayToMinute i s)"
  "iv_month_hour (SetDayToSecond i s) = iv_month_hour (SetDayToMinute i s)"
  "iv_minute (SetDayToSecond i s) = iv_minute (SetDayToMinute i s)"
  "iv_second (SetDayToSecond i s) = u32 (iv_fraction (SetDayToMinute i s) div 1000000)"
  "iv_fraction (SetDayToSecond i s) = u32 (iv_fraction (SetDayToMinute i s) mod 1000000)"
  by (simp_all add: SetDayToSecond_def Let_def)

lemma SetHour_sel:
  fixes i :: interval_t
  defines "d \<equiv> u32 (abs_w 32 (wrap_s 32 (iv_days i + wrap_s 32 (iv_months i * 30))))"
  shows "iv_month_hour (SetHour i s) = u32 (u32 (d * 24) + u32 (abs_w 64 (iv_micros i) div 3600000000))"
    "iv_fraction (SetHour i s) = u32 (abs_w 64 (iv_micros i) mod 3600000000)"
  by (simp_all add: SetHour_def SetDay_def Let_def d_def)

lemma SetHourToSecond_sel:
  "iv_month_hour (SetHourToSecond i s) = iv_month_hour (SetHour i s)"
  "iv_minute (SetHourToSecond i s) = u32 (iv_fraction (SetHour i s) div 60000000)"
  "iv_second (SetHourToSecond i s) = u32 (u32 (iv_fraction (SetHour i s) mod 60000000) div 1000000)"
  "iv_fraction (SetHourToSecond i s) = u32 (u32 (iv_fraction (SetHour i s) mod 60000000) mod 1000000)"
  by (simp_all add: SetHourToSecond_def SetHourToMinute_def Let_def)

lemma SetSecond_sel:
  "iv_second (SetSecond i s) =
     u32 (u32 (u32 (iv_month_hour (SetHour i s) * 60) + iv_fraction (SetHour i s) div 60000000) * 60)"
  "iv_fraction (SetSecond i s) = u32 (abs_w 64 (iv_micros i) mod 1000000)"
  by (simp_all add: SetSecond_def SetMinute_def Let_def)

lemma SetDayToMinute_fields:
  assumes "wf_interval i"
  shows "iv_year_day (SetDayToMinute i s) = total_days i"
    "iv_month_hour (SetDayToMinute i s) = part_h (abs (iv_micros i))"
    "iv_minute (SetDayToMinute i s) = part_m (abs (iv_micros i))"
    "iv_fraction (SetDayToMinute i s) = abs (iv_micros i) mod 3600000000 mod 60000000"
  unfolding SetDayToMinute_sel wf_interval_micros[OF assms]
  by (simp_all only: wf_interval_days[OF assms] wf_interval_hours[OF assms] parts_u32 part_h_def)

lemma SetHour_fields:
  assumes "wf_interval i"
  shows "iv_month_hour (SetHour i s) = u32 (total_days i * 24 + part_h (abs (iv_micros i)))"
    "iv_fraction (SetHour i s) = abs (iv_micros i) mod 3600000000"
  unfolding SetHour_sel wf_interval_micros[OF assms]
  by (simp_all only: wf_interval_days[OF assms] parts_u32 part_h_def wrap_u_add)

definition zero_struct :: SQL_INTERVAL_STRUCT where
  "zero_struct = \<lparr>interval_type = 0, interval_sign = 0, iv_year_day = 0, iv_month_hour = 0, iv_minute = 0, iv_second = 0, iv_fraction = 0\<rparr>"

text \<open>What \<^verbatim>\<open>GetDataStmtResult\<close> stores for SQL\_C\_INTERVAL\_DAY\_TO\_SECOND: the fields and then the sign.\<close>

definition day_to_second :: "interval_t \<Rightarrow> SQL_INTERVAL_STRUCT \<Rightarrow> SQL_INTERVAL_STRUCT" where
  "day_to_second i s = SetSignal i (SetDayToSecond i s)"

text \<open>The number of days and of microseconds a client reads off the struct.\<close>

definition client_sign :: "SQL_INTERVAL_STRUCT \<Rightarrow> int" where
  "client_sign s = (if interval_sign s = SQL_TRUE then -1 else 1)"

definition client_days :: "SQL_INTERVAL_STRUCT \<Rightarrow> int" where
  "client_days s = client_sign s * iv_year_day s"

definition client_micros :: "SQL_INTERVAL_STRUCT \<Rightarrow> int" where
  "client_micros s = client_sign s *
     (iv_month_hour s * 3600000000 + iv_minute s * 60000000 + iv_second s * 1000000 + iv_fraction s)"

text \<open>No part of the interval has the sign opposite to another one.\<close>

definition one_sign :: "interval_t \<Rightarrow> bool" where
  "one_sign i \<longleftrightarrow> 0 \<le> iv_months i \<and> 0 \<le> iv_days i \<and> 0 \<le> iv_micros i \<or>
     iv_months i \<le> 0 \<and> iv_days i \<le> 0 \<and> iv_micros i \<le> 0"

lemma SetSignal_frame [simp]:
  "iv_year_day (SetSignal i s) = iv_year_day s" "iv_month_hour (SetSignal i s) = iv_month_hour s"
  "iv_minute (SetSignal i s) = iv_minute s" "iv_second (SetSignal i s) = iv_second s"
  "iv_fraction (SetSignal i s) = iv_fraction s" "interval_type (SetSignal i s) = interval_type s"
  by (simp_all add: SetSignal_def)

lemma day_to_second_fields:
  assumes "wf_interval i"
  shows "iv_year_day (day_to_second i s) = total_days i"
    "iv_month_hour (day_to_second i s) * 3600000000 + iv_minute (day_to_second i s) * 60000000 +
       iv_second (day_to_second i s) * 1000000 + iv_fraction (day_to_second i s) = abs (iv_micros i)"
    "0 \<le> iv_minute (day_to_second i s)" "iv_minute (day_to_second i s) < 60" "0 \<le> iv_second (day_to_second i s)"
    "iv_second (day_to_second i s) < 60" "0 \<le> iv_fraction (day_to_second i s)" "iv_fraction (day_to_second i s) < 1000000"
  unfolding day_to_second_def SetSignal_frame SetDayToSecond_sel
  by (simp_all only: SetDayToMinute_fields[OF assms] parts_u32 parts_sum parts_bounds simp_thms)

lemma one_sign_client:
  assumes "one_sign i"
  shows "client_sign (day_to_second i s) * abs (iv_days i + 30 * iv_months i) = iv_days i + 30 * iv_months i"
    "client_sign (day_to_second i s) * abs (iv_micros i) = iv_micros i"
  using assms by (auto simp: one_sign_def client_sign_def day_to_second_def SetSignal_def)

text \<open>
  C24. An interval whose parts have one sign is delivered whole as SQL\_C\_INTERVAL\_DAY\_TO\_SECOND: the
  sign and the fields of the struct give back the days, a month counting 30 of them, and the
  microseconds, and the minutes, seconds and the fraction are in their ranges.
\<close>

theorem day_to_second_reconstructs:
  assumes "wf_interval i" "one_sign i"
  shows "client_days (day_to_second i s) = iv_days i + 30 * iv_months i \<and>
    client_micros (day_to_second i s) = iv_micros i \<and>
    interval_type (day_to_second i s) = SQL_IS_DAY_TO_SECOND \<and>
    0 \<le> iv_minute (day_to_second i s) \<and> iv_minute (day_to_second i s) < 60 \<and>
    0 \<le> iv_second (day_to_second i s) \<and> iv_second (day_to_second i s) < 60 \<and>
    0 \<le> iv_fraction (day_to_second i s) \<and> iv_fraction (day_to_second i s) < 1000000"
proof -
  note f = day_to_second_fields[OF assms(1), of s] and c = one_sign_client[OF assms(2), of s]
  have "interval_type (day_to_second i s) = SQL_IS_DAY_TO_SECOND" by (simp add: day_to_second_def SetDayToSecond_def Let_def)
  moreover have "client_days (day_to_second i s) = iv_days i + 30 * iv_months i"
    using c(1) by (simp add: client_days_def f(1) mult.commute)
  moreover have "client_micros (day_to_second i s) = iv_micros i" using c(2) by (simp only: client_micros_def f(2))
  ultimately show ?thesis using f(3-8) by blast
qed

theorem day_to_second_reconstructs_witness:
  "client_days (day_to_second \<lparr>iv_months = -1, iv_days = -2, iv_micros = - 3723000004\<rparr> zero_struct) = -32 \<and>
   client_micros (day_to_second \<lparr>iv_months = -1, iv_days = -2, iv_micros = - 3723000004\<rparr> zero_struct) = - 3723000004"
  using day_to_second_reconstructs[of "\<lparr>iv_months = -1, iv_days = -2, iv_micros = - 3723000004\<rparr>" zero_struct]
  by (simp add: wf_interval_def one_sign_def)

text \<open>With mixed signs the sign of the days stands for all: one day less an hour is delivered as one day and an hour.\<close>

lemma mixed_signs_lost:
  "day_to_second \<lparr>iv_months = 0, iv_days = 1, iv_micros = - 3600000000\<rparr> s =
   day_to_second \<lparr>iv_months = 0, iv_days = 1, iv_micros = 3600000000\<rparr> s"
  by (simp add: day_to_second_def SetSignal_def SetDayToSecond_def SetDayToMinute_def SetDayToHour_def SetDay_def Let_def
      abs_w_def)

text \<open>
  SQL\_C\_INTERVAL\_HOUR\_TO\_SECOND counts the days into the hours and loses nothing, as long as
  the hours fit their field.
\<close>

theorem hour_to_second_reconstructs:
  fixes s :: SQL_INTERVAL_STRUCT
  assumes "wf_interval i" "total_days i * 24 + abs (iv_micros i) div 3600000000 < 4294967296"
  defines "s' \<equiv> SetHourToSecond i s"
  shows "iv_month_hour s' * 3600000000 + iv_minute s' * 60000000 + iv_second s' * 1000000 + iv_fraction s'
      = total_days i * 86400000000 + abs (iv_micros i) \<and>
    0 \<le> iv_minute s' \<and> iv_minute s' < 60 \<and> 0 \<le> iv_second s' \<and> iv_second s' < 60 \<and>
    0 \<le> iv_fraction s' \<and> iv_fraction s' < 1000000"
proof -
  let ?u = "abs (iv_micros i)"
  have h: "u32 (total_days i * 24 + part_h ?u) = total_days i * 24 + part_h ?u"
    using assms(2) parts_bounds(1)[of ?u] unfolding part_h_def by (intro u32_id) simp_all
  have eq: "(total_days i * 24 + part_h ?u) * 3600000000 + part_m ?u * 60000000 + part_s ?u * 1000000 + part_f ?u
      = total_days i * 86400000000 + ?u"
    using parts_sum[of ?u] by (simp add: algebra_simps)
  show ?thesis
    unfolding s'_def SetHourToSecond_sel
    by (simp only: SetHour_fields[OF assms(1)] parts_u32 parts_bounds h eq simp_thms)
qed

theorem hour_to_second_reconstructs_witness:
  "iv_month_hour (SetHourToSecond \<lparr>iv_months = 1, iv_days = 2, iv_micros = - 3723000004\<rparr> zero_struct) * 3600000000 +
   iv_minute (SetHourToSecond \<lparr>iv_months = 1, iv_days = 2, iv_micros = - 3723000004\<rparr> zero_struct) * 60000000 +
   iv_second (SetHourToSecond \<lparr>iv_months = 1, iv_days = 2, iv_micros = - 3723000004\<rparr> zero_struct) * 1000000 +
   iv_fraction (SetHourToSecond \<lparr>iv_months = 1, iv_days = 2, iv_micros = - 3723000004\<rparr> zero_struct) = 2768523000004"
  using hour_to_second_reconstructs[of "\<lparr>iv_months = 1, iv_days = 2, iv_micros = - 3723000004\<rparr>" zero_struct] by (simp add: wf_interval_def)

lemma u32_chain:
  fixes h m :: int
  assumes "h * 3600 + 3600 \<le> 4294967296" "0 \<le> h" "0 \<le> m" "m < 60"
  shows "u32 h = h" "u32 (h * 60) = h * 60" "u32 (h * 60 + m) = h * 60 + m"
    "u32 ((h * 60 + m) * 60) = (h * 60 + m) * 60"
proof -
  have "h < 4294967296" "h * 60 < 4294967296" "h * 60 + m < 4294967296" "(h * 60 + m) * 60 < 4294967296"
    "0 \<le> h * 60" "0 \<le> h * 60 + m" "0 \<le> (h * 60 + m) * 60" using assms by simp_all
  then show "u32 h = h" "u32 (h * 60) = h * 60" "u32 (h * 60 + m) = h * 60 + m"
    "u32 ((h * 60 + m) * 60) = (h * 60 + m) * 60" using assms(2) u32_id by blast+
qed

text \<open>
  SQL\_C\_INTERVAL\_SECOND does not count the seconds beyond whole minutes: the field is 60 times
  the number of minutes, and the fraction is below one second.
\<close>

theorem second_interval_drops_seconds:
  assumes "wf_interval i" "(total_days i * 24 + abs (iv_micros i) div 3600000000) * 3600 + 3600 \<le> 4294967296"
  shows "iv_second (SetSecond i s) = (total_days i * 1440 + abs (iv_micros i) div 60000000) * 60 \<and>
    iv_fraction (SetSecond i s) = abs (iv_micros i) mod 1000000"
proof -
  let ?u = "abs (iv_micros i)" let ?h = "total_days i * 24 + part_h ?u"
  have b: "?h * 3600 + 3600 \<le> 4294967296" "0 \<le> ?h" "0 \<le> part_m ?u" "part_m ?u < 60"
    using assms(2) parts_bounds[of ?u] unfolding part_h_def by simp_all
  note h = u32_chain[OF b]
  have tot: "?h * 60 + part_m ?u = total_days i * 1440 + ?u div 60000000"
  proof -
    have "?u = (?u div 3600000000 * 60) * 60000000 + ?u mod 3600000000"
      using div_mult_mod_eq[of ?u 3600000000] by linarith
    then have "?u div 60000000 = ((?u div 3600000000 * 60) * 60000000 + ?u mod 3600000000) div 60000000"
      by (rule arg_cong)
    also have "\<dots> = ?u div 3600000000 * 60 + ?u mod 3600000000 div 60000000"
      by (rule div_mult_self3) simp
    finally have "?u div 60000000 = ?u div 3600000000 * 60 + ?u mod 3600000000 div 60000000" .
    then show ?thesis unfolding part_h_def part_m_def by simp
  qed
  have f: "u32 (?u mod 1000000) = ?u mod 1000000" by (rule u32_mod_small) simp_all
  have a: "abs_w 64 (iv_micros i) = ?u" using wf_interval_micros[OF assms(1)] .
  have m: "wrap_u 32 (?u mod 3600000000 div 60000000) = part_m ?u" "?u mod 3600000000 div 60000000 = part_m ?u"
    by (simp_all only: parts_u32 part_m_def)
  show ?thesis unfolding tot[symmetric]
    unfolding SetSecond_sel
    by (simp only: SetHour_fields[OF assms(1)] h m f a simp_thms)
qed

theorem second_interval_drops_seconds_witness:
  "iv_second (SetSecond \<lparr>iv_months = 0, iv_days = 0, iv_micros = 90000000\<rparr> zero_struct) = 60 \<and> iv_fraction (SetSecond \<lparr>iv_months = 0, iv_days = 0, iv_micros = 90000000\<rparr> zero_struct) = 0"
  using second_interval_drops_seconds[of "\<lparr>iv_months = 0, iv_days = 0, iv_micros = 90000000\<rparr>" zero_struct] by (simp add: wf_interval_def)

text \<open>
  The sign is that of the most significant non-zero part of the interval.
\<close>

theorem SetSignal_spec:
  "interval_sign (SetSignal i s) =
     (if (if iv_months i \<noteq> 0 then iv_months i else if iv_days i \<noteq> 0 then iv_days i else iv_micros i) < 0
      then SQL_TRUE else SQL_FALSE)"
  by (simp add: SetSignal_def)

text \<open>
  The interval C types, the SQL interval types and the interval codes correspond: exactly the
  interval types have a code, and the type is the code plus 100.
\<close>

theorem interval_codes:
  "GetSQLIntervalType t = (if IsIntervalType t then t else SQL_ERROR) \<and>
   GetIntervalCode t = (if IsIntervalType t then t - 100 else SQL_ERROR) \<and>
   (IsIntervalType t = (101 \<le> t \<and> t \<le> 113))"
proof -
  have "t \<in> {101, 102, 103, 104, 105, 106, 107, 108, 109, 110, 111, 112, 113} \<longleftrightarrow> 101 \<le> t \<and> t \<le> 113"
    by (auto; presburger)
  then show ?thesis unfolding IsIntervalType_def GetSQLIntervalType_def GetIntervalCode_def by auto
qed

end
