(* ===== verification/Diagnostic_Api.thy ===== *)
theory Diagnostic_Api
  imports Odbc_Diagnostic
begin

text \<open>
  \<^verbatim>\<open>src/odbc_api/diagnostic_api.cpp\<close>: SQLGetDiagField and SQLGetDiagRec, narrow and wide, over the
  diagnostic area of a handle and the client's memory. None stands for an access the code does
  through a null pointer or out of range.
\<close>

section \<open>Handles\<close>

datatype OdbcHandleType = ENV | DBC | STMT | DESC

fun OdbcHandleTypeToString :: "OdbcHandleType \<Rightarrow> string" where
  "OdbcHandleTypeToString ENV = ''ENV''" |
  "OdbcHandleTypeToString DBC = ''DBC''" |
  "OdbcHandleTypeToString STMT = ''STMT''" |
  "OdbcHandleTypeToString DESC = ''DESC''"

record OdbcHandle =
  hdl_type :: OdbcHandleType
  odbc_diagnostic :: "OdbcDiagnostic option"

text \<open>\<^verbatim>\<open>ConvertHandle\<close>: None is the null handle.\<close>

definition ConvertHandle :: "OdbcHandle option \<Rightarrow> int + (OdbcHandleType \<times> OdbcDiagnostic)" where
  "ConvertHandle handle =
     (case handle of
        None \<Rightarrow> Inl SQL_INVALID_HANDLE
      | Some hdl \<Rightarrow>
          (case odbc_diagnostic hdl of
             None \<Rightarrow> Inl SQL_INVALID_HANDLE
           | Some d \<Rightarrow> Inr (hdl_type hdl, d)))"

section \<open>SQLGetDiagField\<close>

definition store_through :: "nat \<Rightarrow> addr \<Rightarrow> int \<Rightarrow> mem \<Rightarrow> mem option" where
  "store_through n ptr v m = (if ptr = nullptr then None else Some (store_int n ptr v m))"

definition write_string :: "bool \<Rightarrow> nat \<Rightarrow> string \<Rightarrow> addr \<Rightarrow> int \<Rightarrow> addr \<Rightarrow> mem \<Rightarrow> mem" where
  "write_string wide n s out_buf buf_len out_len m =
     (if wide then WriteStringW n s out_buf buf_len out_len m else WriteString n s out_buf buf_len out_len m)"

definition GetDiagFieldInternal ::
  "bool \<Rightarrow> int \<Rightarrow> OdbcHandle option \<Rightarrow> int \<Rightarrow> int \<Rightarrow> addr \<Rightarrow> int \<Rightarrow> addr \<Rightarrow> mem
   \<Rightarrow> (int \<times> OdbcHandle option \<times> mem) option" where
  "GetDiagFieldInternal wide handle_type handle rec_number diag_identifier diag_info_ptr buffer_length
     string_length_ptr m =
   (if handle_type \<in> {SQL_HANDLE_ENV, SQL_HANDLE_DBC, SQL_HANDLE_STMT, SQL_HANDLE_DESC} then
      case ConvertHandle handle of
        Inl ret \<Rightarrow> Some (ret, handle, m)
      | Inr (type, d) \<Rightarrow>
        let fail = Some (SQL_ERROR, handle, m);
            stored = (\<lambda>n v. map_option (\<lambda>m. (SQL_SUCCESS, handle, m)) (store_through n diag_info_ptr v m))
        in
        if diag_identifier = SQL_DIAG_CURSOR_ROW_COUNT then
          if type \<noteq> STMT then fail else stored 8 (sql_diag_cursor_row_count (header d))
        else if diag_identifier = SQL_DIAG_DYNAMIC_FUNCTION then
          if type \<noteq> STMT then fail
          else Some (SQL_SUCCESS, handle,
            write_string wide 2 (GetDiagDynamicFunction d) diag_info_ptr buffer_length string_length_ptr m)
        else if diag_identifier = SQL_DIAG_DYNAMIC_FUNCTION_CODE then
          if type \<noteq> STMT then fail else stored 4 (sql_diag_dynamic_function_code (header d))
        else if diag_identifier = SQL_DIAG_NUMBER then stored 4 (sql_diag_number (header d))
        else if diag_identifier = SQL_DIAG_RETURNCODE then stored 2 (sql_diag_return_code (header d))
        else if diag_identifier = SQL_DIAG_ROW_COUNT then
          if type \<noteq> STMT then fail else stored 8 (sql_diag_return_code (header d))
        else if \<not> IsDiagRecordField diag_identifier then fail
        else if rec_number \<le> 0 then fail
        else
          let rec_idx = rec_number - 1 in
          if \<not> VerifyRecordIndex rec_idx d then fail
          else
            case GetDiagRecord (nat rec_idx) d of
              None \<Rightarrow> None
            | Some (k, d') \<Rightarrow>
              let diag_record = diag_records d' ! k;
                  handle = map_option (\<lambda>h. h\<lparr>odbc_diagnostic := Some d'\<rparr>) handle;
                  fail = Some (SQL_ERROR, handle, m);
                  stored = (\<lambda>n v. map_option (\<lambda>m. (SQL_SUCCESS, handle, m))
                                   (store_through n diag_info_ptr v m));
                  written = (\<lambda>s. Some (SQL_SUCCESS, handle,
                                   write_string wide 2 s diag_info_ptr buffer_length string_length_ptr m))
              in
              if diag_identifier = SQL_DIAG_CLASS_ORIGIN then
                Option.bind (GetDiagClassOrigin (nat rec_idx) d') written
              else if diag_identifier = SQL_DIAG_COLUMN_NUMBER then
                if type \<noteq> STMT then fail else stored 4 (sql_diag_column_number diag_record)
              else if diag_identifier = SQL_DIAG_CONNECTION_NAME then written []
              else if diag_identifier = SQL_DIAG_MESSAGE_TEXT then
                Option.bind (GetMessage buffer_length diag_record) (\<lambda>(msg, _). written msg)
              else if diag_identifier = SQL_DIAG_NATIVE then stored 4 (sql_diag_native diag_record)
              else if diag_identifier = SQL_DIAG_ROW_NUMBER then
                if type \<noteq> STMT then fail else stored 8 (sql_diag_row_number diag_record)
              else if diag_identifier = SQL_DIAG_SERVER_NAME then written (sql_diag_server_name diag_record)
              else if diag_identifier = SQL_DIAG_SQLSTATE then written (sql_diag_sqlstate diag_record)
              else if diag_identifier = SQL_DIAG_SUBCLASS_ORIGIN then
                Option.bind (GetDiagSubclassOrigin (nat rec_idx) d') written
              else fail
    else Some (SQL_ERROR, handle, m))"

section \<open>SQLGetDiagRec\<close>

text \<open>The early return of the wide overload stands inside the test of the length pointer.\<close>

definition WriteStringWithLenInChars ::
  "bool \<Rightarrow> string \<Rightarrow> addr \<Rightarrow> int \<Rightarrow> addr \<Rightarrow> mem \<Rightarrow> mem" where
  "WriteStringWithLenInChars wide msg_str message_text buffer_length_chars text_length_chars_ptr m =
     (if \<not> wide then WriteString 2 msg_str message_text buffer_length_chars text_length_chars_ptr m
      else
        let utf16_vec = fst (utf8_to_utf16_lenient (octets_of msg_str));
            m = (if buffer_length_chars \<le> 1 \<and> message_text \<noteq> nullptr \<and> buffer_length_chars = 1
                 then store_int 2 message_text 0 m else m)
        in if buffer_length_chars \<le> 1 \<and> text_length_chars_ptr \<noteq> nullptr then
             store_int 2 text_length_chars_ptr 0 m
           else
             let len_chars = min (length utf16_vec) (nat (wrap_u 64 (buffer_length_chars - 1)));
                 m = (if message_text \<noteq> nullptr then
                        store_int 2 (message_text + 2 * int len_chars) 0
                          (store_bytes message_text (unit_bytes (take len_chars utf16_vec)) m)
                      else m)
             in store_opt 2 text_length_chars_ptr (wrap_s 16 (int len_chars)) m)"

definition handle_type_of :: "int \<Rightarrow> OdbcHandleType option" where
  "handle_type_of handle_type =
     (if handle_type = SQL_HANDLE_ENV then Some ENV
      else if handle_type = SQL_HANDLE_DBC then Some DBC
      else if handle_type = SQL_HANDLE_STMT then Some STMT
      else if handle_type = SQL_HANDLE_DESC then Some DESC
      else None)"

definition GetDiagRecInternal ::
  "bool \<Rightarrow> int \<Rightarrow> OdbcHandle option \<Rightarrow> int \<Rightarrow> addr \<Rightarrow> addr \<Rightarrow> addr \<Rightarrow> int \<Rightarrow> addr \<Rightarrow> mem
   \<Rightarrow> (int \<times> OdbcHandle option \<times> mem) option" where
  "GetDiagRecInternal wide handle_type handle rec_number sql_state native_error_ptr message_text
     buffer_length text_length_ptr m =
   (case ConvertHandle handle of
      Inl ret \<Rightarrow> Some (ret, handle, m)
    | Inr (type, d) \<Rightarrow>
      case handle_type_of handle_type of
        None \<Rightarrow> Some (SQL_INVALID_HANDLE, handle, m)
      | Some target_type \<Rightarrow>
        if type \<noteq> target_type then
          Some (SQL_SUCCESS, handle, WriteStringWithLenInChars wide
            (''Handle type '' @ OdbcHandleTypeToString type @ '' mismatch with '' @
             OdbcHandleTypeToString target_type) message_text buffer_length text_length_ptr m)
        else if rec_number \<le> 0 then
          Some (SQL_SUCCESS, handle, WriteStringWithLenInChars wide ''Record number is less than 1''
            message_text buffer_length text_length_ptr m)
        else if buffer_length < 0 then
          Some (SQL_SUCCESS, handle, WriteStringWithLenInChars wide ''Buffer length is negative''
            message_text buffer_length text_length_ptr m)
        else if rec_number > int (GetTotalRecords d) then Some (SQL_NO_DATA, handle, m)
        else
          let rec_idx = nat (rec_number - 1) in
          case GetDiagRecord rec_idx d of
            None \<Rightarrow> None
          | Some (k, d') \<Rightarrow>
            let diag_record = diag_records d' ! k;
                m = (if sql_state \<noteq> nullptr then
                       WriteStringWithLenInChars wide (sql_diag_sqlstate diag_record) sql_state 6 nullptr m
                     else m);
                m = store_opt 4 native_error_ptr (sql_diag_native diag_record) m
            in case GetMessage buffer_length diag_record of
                 None \<Rightarrow> None
               | Some (msg, diag_record') \<Rightarrow>
                 let d'' = d'\<lparr>diag_records := (diag_records d')[k := diag_record']\<rparr>;
                     with_diag = (\<lambda>d. map_option (\<lambda>h. h\<lparr>odbc_diagnostic := Some d\<rparr>) handle)
                 in
                 if message_text = nullptr then
                   Some (SQL_SUCCESS_WITH_INFO, with_diag d'',
                     store_opt 2 text_length_ptr (min (int (length msg)) 32767) m)
                 else
                   let m = WriteStringWithLenInChars wide msg message_text buffer_length text_length_ptr m;
                       msg_len = (if msg = [] then 0
                         else if wide then
                           wrap_s 16 (int (length (fst (utf8_to_utf16_lenient (octets_of msg)))))
                         else wrap_s 16 (int (length msg)));
                       remaining_chars = wrap_s 16 (msg_len - buffer_length)
                   in if text_length_ptr \<noteq> nullptr \<and> remaining_chars > 0 then
                        (case AddNewRecIdx rec_idx d'' of
                           None \<Rightarrow> None
                         | Some d3 \<Rightarrow> Some (SQL_SUCCESS_WITH_INFO, with_diag d3, m))
                      else Some (SQL_SUCCESS, with_diag d'', m))"

definition SQLGetDiagRec where "SQLGetDiagRec = GetDiagRecInternal False"
definition SQLGetDiagRecW where "SQLGetDiagRecW = GetDiagRecInternal True"
definition SQLGetDiagField where "SQLGetDiagField = GetDiagFieldInternal False"
definition SQLGetDiagFieldW where "SQLGetDiagFieldW = GetDiagFieldInternal True"


section \<open>Reading records back\<close>

lemma SetDiagnosticRecord_area:
  "SetDiagnosticRecord d ret cmp msg st srv =
     (ret, AddDiagRecord
        \<lparr>sql_diag_column_number = SQL_NO_COLUMN_NUMBER, sql_diag_native = 0,
         sql_diag_row_number = SQL_NO_ROW_NUMBER, sql_diag_server_name = srv,
         sql_diag_sqlstate = (case map_of MAP_ODBC_SQL_STATES st of None \<Rightarrow> [] | Some (code, _) \<Rightarrow> code),
         sql_diag_message_text = ''ODBC_DuckDB'' @ (if srv \<noteq> [] then ''->'' @ srv else []) @
           (if cmp \<noteq> [] then ''->'' @ cmp else []) @ [CHR 0x0A] @ msg,
         stack_msg_offset = [0]\<rparr> d)"
  by (simp add: SetDiagnosticRecord_def FormatDiagnosticMessage_def SetMessage_def ClearStackMsgOffset_def
      mk_DiagRecord_def GetOriginalMessage_def Let_def)

text \<open>
  The diagnostic area of one record after \<^verbatim>\<open>n\<close> of its pieces of \<^verbatim>\<open>B\<close> characters have been read:
  the offsets read so far, and one index entry per piece.
\<close>

definition after_pieces :: "nat \<Rightarrow> nat \<Rightarrow> DiagHeader \<Rightarrow> DiagRecord \<Rightarrow> OdbcDiagnostic" where
  "after_pieces B n h r =
     \<lparr>header = h, diag_records = [r\<lparr>stack_msg_offset := map (\<lambda>i. i * B) (rev [0..<Suc n])\<rparr>],
      vec_record_idx = replicate (Suc n) 0\<rparr>"

lemma AddNewRecIdx_replicate:
  "AddNewRecIdx n \<lparr>header = h, diag_records = rs, vec_record_idx = replicate (Suc n) 0\<rparr> =
     Some \<lparr>header = h, diag_records = rs, vec_record_idx = replicate (Suc (Suc n)) 0\<rparr>"
proof -
  have "replicate (Suc n) 0 @ [0::int] = replicate (Suc (Suc n)) 0" by (simp add: replicate_append_same)
  then show ?thesis by (simp add: AddNewRecIdx_def Let_def del: replicate_Suc)
qed

lemma GetDiagRecord_after_pieces:
  "GetDiagRecord n (after_pieces B n h r) = Some (0, after_pieces B n h r)"
proof (cases "n = 0")
  case True
  then show ?thesis by (simp add: GetDiagRecord_def after_pieces_def Let_def ClearStackMsgOffset_def wrap_s_small[of 0, simplified])
next
  case False
  then show ?thesis by (simp add: GetDiagRecord_def after_pieces_def Let_def del: replicate.simps upt_Suc)
qed

lemma wrap_u_nat: "k < 2 ^ 64 \<Longrightarrow> wrap_u 64 (int k) = int k"
  by (simp add: in_u_def)

lemma wrap_remaining:
  "k \<le> 32767 \<Longrightarrow> b \<le> 32767 \<Longrightarrow> wrap_s 16 (wrap_s 16 (int k) - int b) = int k - int b"
  by (simp add: in_s_def)

lemma GetMessage_piece:
  assumes "n * B + B < length (sql_diag_message_text r)" "length (sql_diag_message_text r) < 2 ^ 63"
  shows "GetMessage (int B) (r\<lparr>stack_msg_offset := map (\<lambda>i. i * B) (rev [0..<Suc n])\<rparr>) =
    Some (drop (n * B) (sql_diag_message_text r),
          r\<lparr>stack_msg_offset := map (\<lambda>i. i * B) (rev [0..<Suc (Suc n)])\<rparr>)"
proof -
  have "wrap_u 64 (int (n * B) + int B) = int (n * B + B)"
    unfolding of_nat_add[symmetric] by (rule wrap_u_nat) (use assms in simp)
  then have "nat (wrap_u 64 (int (n * B) + int B)) = n * B + B" by (simp only: nat_int)
  then have "nat (wrap_u 64 (int (n * B) + int B)) = Suc n * B" by simp
  then show ?thesis using assms by (simp add: GetMessage_def Let_def del: mult_Suc) simp
qed

text \<open>
  Reading a long message piece by piece (record numbers 1, 2, ... with a buffer of \<^verbatim>\<open>B\<close>): read
  number \<^verbatim>\<open>n\<close> announces more data and stores \<^verbatim>\<open>B - 1\<close> characters and the terminator, but the offset
  advances by \<^verbatim>\<open>B\<close>: the character between two pieces reaches the client in none of them.
\<close>

theorem diag_message_pieces:
  assumes B: "1 < B" "B \<le> 32767" "length (sql_diag_message_text r) \<le> 32767"
    and more: "n * B + B < length (sql_diag_message_text r)"
    and nonul: "CHR 0x00 \<notin> set (sql_diag_message_text r)"
    and ptr: "message_text \<noteq> nullptr" "text_length_ptr \<noteq> nullptr"
      "text_length_ptr + 2 \<le> message_text \<or> message_text + int B \<le> text_length_ptr"
  shows "\<exists>m'. SQLGetDiagRec SQL_HANDLE_STMT
      (Some \<lparr>hdl_type = STMT, odbc_diagnostic = Some (after_pieces B n h r)\<rparr>) (int n + 1)
      nullptr nullptr message_text (int B) text_length_ptr m =
        Some (SQL_SUCCESS_WITH_INFO,
          Some \<lparr>hdl_type = STMT, odbc_diagnostic = Some (after_pieces B (Suc n) h r)\<rparr>, m') \<and>
      c_str message_text m' = Some (take (B - 1) (drop (n * B) (sql_diag_message_text r)))"
proof -
  let ?msg = "drop (n * B) (sql_diag_message_text r)"
  let ?m' = "WriteString 2 ?msg message_text (int B) text_length_ptr m"
  have nl: "CHR 0x00 \<notin> set ?msg" using nonul by (meson in_set_dropD)
  have w: "c_str message_text ?m' = Some (take (nat (int B - 1)) (c_prefix ?msg))"
    using WriteString_stores[of message_text "int B" 2 text_length_ptr ?msg m] B ptr nl
    by (auto simp: in_s_def)
  have rem: "wrap_s 16 (wrap_s 16 (int (length ?msg)) - int B) = int (length ?msg) - int B"
    by (rule wrap_remaining) (use B in simp_all)
  have l: "int (length ?msg) = int (length (sql_diag_message_text r)) - int n * int B"
    using more by (simp add: of_nat_diff)
  have pos: "0 < wrap_s 16 (wrap_s 16 (int (length ?msg)) - int B)" 
  proof -
    have "B < length ?msg" using more by simp
    then show ?thesis unfolding rem by linarith
  qed
  have tot: "GetTotalRecords (after_pieces B n h r) = n + 1"
    by (simp add: GetTotalRecords_def after_pieces_def)
  have rec: "diag_records (after_pieces B n h r) ! 0 = r\<lparr>stack_msg_offset := map (\<lambda>i. i * B) (rev [0..<Suc n])\<rparr>"
    by (simp add: after_pieces_def)
  have upd: "(after_pieces B n h r)\<lparr>diag_records := (diag_records (after_pieces B n h r))[0 :=
      r\<lparr>stack_msg_offset := map (\<lambda>i. i * B) (rev [0..<Suc (Suc n)])\<rparr>]\<rparr> =
      \<lparr>header = h, diag_records = [r\<lparr>stack_msg_offset := map (\<lambda>i. i * B) (rev [0..<Suc (Suc n)])\<rparr>],
       vec_record_idx = replicate (Suc n) 0\<rparr>"
    by (simp add: after_pieces_def)
  have nxt: "AddNewRecIdx n \<lparr>header = h, diag_records = [r\<lparr>stack_msg_offset := map (\<lambda>i. i * B) (rev [0..<Suc (Suc n)])\<rparr>],
       vec_record_idx = replicate (Suc n) 0\<rparr> = Some (after_pieces B (Suc n) h r)"
    unfolding AddNewRecIdx_replicate by (simp add: after_pieces_def)
  have ne: "?msg \<noteq> []" using more by simp
  have "length (sql_diag_message_text r) < 2 ^ 63" using B(3) by simp
  note gm = GetMessage_piece[OF more this]
  have "SQLGetDiagRec SQL_HANDLE_STMT
      (Some \<lparr>hdl_type = STMT, odbc_diagnostic = Some (after_pieces B n h r)\<rparr>) (int n + 1)
      nullptr nullptr message_text (int B) text_length_ptr m =
        Some (SQL_SUCCESS_WITH_INFO,
          Some \<lparr>hdl_type = STMT, odbc_diagnostic = Some (after_pieces B (Suc n) h r)\<rparr>, ?m')"
    using B more ptr ne
    by (simp add: SQLGetDiagRec_def GetDiagRecInternal_def ConvertHandle_def handle_type_of_def tot
        GetDiagRecord_after_pieces rec gm upd nxt pos[unfolded l] Let_def
        WriteStringWithLenInChars_def store_opt_def del: upt_Suc map_map replicate_Suc)
  moreover have "nat (int B - 1) = B - 1" using B(1) by simp
  ultimately show ?thesis using w nl by auto
qed

theorem diag_message_pieces_witness:
  "\<exists>m'. SQLGetDiagRec SQL_HANDLE_STMT
      (Some \<lparr>hdl_type = STMT, odbc_diagnostic = Some (after_pieces 3 1 mk_DiagHeader
        (mk_DiagRecord ''abcdefgh'' ST_HY000 [] SQL_NO_COLUMN_NUMBER 0 SQL_NO_ROW_NUMBER))\<rparr>) (int 1 + 1)
      nullptr nullptr 100 (int 3) 8 (\<lambda>_. CHR ''?'') =
        Some (SQL_SUCCESS_WITH_INFO,
          Some \<lparr>hdl_type = STMT, odbc_diagnostic = Some (after_pieces 3 (Suc 1) mk_DiagHeader
        (mk_DiagRecord ''abcdefgh'' ST_HY000 [] SQL_NO_COLUMN_NUMBER 0 SQL_NO_ROW_NUMBER))\<rparr>, m') \<and>
      c_str 100 m' = Some (take (3 - 1) (drop (1 * 3) (sql_diag_message_text
        (mk_DiagRecord ''abcdefgh'' ST_HY000 [] SQL_NO_COLUMN_NUMBER 0 SQL_NO_ROW_NUMBER))))"
  by (rule diag_message_pieces) (simp_all add: mk_DiagRecord_def)

lemma with_diag_wf:
  assumes "wf_OdbcDiagnostic d" "k < length (diag_records d)" "wf_DiagRecord r"
  shows "wf_OdbcDiagnostic (d\<lparr>diag_records := (diag_records d)[k := r]\<rparr>)"
  using assms by (auto simp: wf_OdbcDiagnostic_def list_all_iff dest: in_set_takeD dest!: set_update_subset_insert[THEN subsetD])

lemma AddNewRecIdx_defined: "i < length (vec_record_idx d) \<Longrightarrow> \<exists>d'. AddNewRecIdx i d = Some d'"
  by (simp add: AddNewRecIdx_def Let_def)

lemma GetDiagRecord_total:
  assumes "wf_OdbcDiagnostic d" "GetDiagRecord i d = Some (k, d')"
  shows "i < length (vec_record_idx d') \<or> i \<noteq> 0 \<and> i < length (vec_record_idx d')"
  using assms GetDiagRecord_wf[OF assms]
  by (auto simp: GetDiagRecord_def Let_def wf_OdbcDiagnostic_def split: if_splits)

definition wf_handle :: "OdbcHandle option \<Rightarrow> bool" where
  "wf_handle h \<longleftrightarrow> (case h of None \<Rightarrow> True | Some h \<Rightarrow>
     (case odbc_diagnostic h of None \<Rightarrow> True | Some d \<Rightarrow> wf_OdbcDiagnostic d))"

text \<open>
  C14. SQLGetDiagRec, narrow or wide, never reads its vectors out of range on a well-formed
  diagnostic area, whatever its arguments, and leaves a well-formed area behind.
\<close>

theorem GetDiagRec_safe:
  assumes "wf_handle handle"
  shows "\<exists>ret handle' m'. GetDiagRecInternal wide handle_type handle rec_number sql_state native_error_ptr
      message_text buffer_length text_length_ptr m = Some (ret, handle', m') \<and> wf_handle handle'"
proof (cases "ConvertHandle handle")
  case (Inl r)
  then show ?thesis using assms by (simp add: GetDiagRecInternal_def)
next
  case (Inr p)
  then obtain type d hdl where c: "ConvertHandle handle = Inr (type, d)" "handle = Some hdl"
    "odbc_diagnostic hdl = Some d"
    by (auto simp: ConvertHandle_def split: option.splits)
  have wf: "wf_OdbcDiagnostic d" using assms c by (simp add: wf_handle_def)
  show ?thesis
  proof (cases "handle_type_of handle_type = Some type \<and> 0 < rec_number \<and> 0 \<le> buffer_length \<and>
      rec_number \<le> int (GetTotalRecords d)")
    case False
    then show ?thesis using c assms
      by (cases "handle_type_of handle_type") (auto simp: GetDiagRecInternal_def)
  next
    case True
    then have "nat (rec_number - 1) < GetTotalRecords d" by linarith
    then obtain k d' where g: "GetDiagRecord (nat (rec_number - 1)) d = Some (k, d')"
      using GetDiagRecord_defined[OF wf] by blast
    have wf': "wf_OdbcDiagnostic d'" "k < length (diag_records d')" using GetDiagRecord_wf[OF wf g] by auto
    then have wr: "wf_DiagRecord (diag_records d' ! k)" by (simp add: wf_OdbcDiagnostic_def list_all_length)
    then obtain msg r' where gm: "GetMessage buffer_length (diag_records d' ! k) = Some (msg, r')"
      using GetMessage_defined by blast
    let ?d = "d'\<lparr>diag_records := (diag_records d')[k := r']\<rparr>"
    have wd: "wf_OdbcDiagnostic ?d" using with_diag_wf[OF wf' GetMessage_wf[OF wr gm]] .
    have "nat (rec_number - 1) < length (vec_record_idx ?d)" using GetDiagRecord_total[OF wf g] by auto
    then obtain d3 where a: "AddNewRecIdx (nat (rec_number - 1)) ?d = Some d3"
      using AddNewRecIdx_defined by blast
    have w3: "wf_OdbcDiagnostic d3" by (rule AddNewRecIdx_wf[OF wd a])
    show ?thesis using True c g gm a wd w3
      by (simp add: GetDiagRecInternal_def Let_def wf_handle_def)
  qed
qed

lemma mk_OdbcDiagnostic_simps [simp]:
  "diag_records mk_OdbcDiagnostic = []" "vec_record_idx mk_OdbcDiagnostic = []"
  "header mk_OdbcDiagnostic = mk_DiagHeader"
  by (simp_all add: mk_OdbcDiagnostic_def)

theorem GetDiagRec_safe_witness:
  "\<exists>ret handle' m'. GetDiagRecInternal True SQL_HANDLE_DBC
      (Some \<lparr>hdl_type = DBC, odbc_diagnostic = Some (snd (SetDiagnosticRecord mk_OdbcDiagnostic SQL_ERROR ''dbc''
        ''boom'' ST_HY000 []))\<rparr>) 1 0 0 100 8 0 (\<lambda>_. CHR 0x00) = Some (ret, handle', m') \<and> wf_handle handle'"
  by (rule GetDiagRec_safe)
    (simp add: wf_handle_def SetDiagnosticRecord_wf[OF mk_OdbcDiagnostic_wf])

text \<open>
  C21. After an operation has reported an error, SQLGetDiagRec on record 1 with a buffer large
  enough hands the client the formatted message, terminated, and succeeds.
\<close>

theorem error_reported_and_read:
  fixes msg cmp :: string
  defines "full \<equiv> ''ODBC_DuckDB->'' @ cmp @ [CHR 0x0A] @ msg"
  assumes fits: "int (length full) < buffer_length" "buffer_length \<le> 32767"
    and nonul: "CHR 0x00 \<notin> set full" "cmp \<noteq> []"
    and ptr: "message_text \<noteq> nullptr" "text_length_ptr \<noteq> nullptr"
      "text_length_ptr + 2 \<le> message_text \<or> message_text + buffer_length \<le> text_length_ptr"
  shows "\<exists>handle' m'. SQLGetDiagRec SQL_HANDLE_DBC
      (Some \<lparr>hdl_type = DBC,
             odbc_diagnostic = Some (snd (SetDiagnosticRecord (Clean d) SQL_ERROR cmp msg st []))\<rparr>)
      1 nullptr nullptr message_text buffer_length text_length_ptr m = Some (SQL_SUCCESS, handle', m') \<and>
    c_str message_text m' = Some full \<and> load_s 2 text_length_ptr m' = int (length full)"
proof -
  let ?m' = "WriteString 2 full message_text buffer_length text_length_ptr m"
  have ps: "c_prefix full = full" using nonul(1) by simp
  have w: "c_str message_text ?m' = Some (take (nat (buffer_length - 1)) full) \<and>
      load_s 2 text_length_ptr ?m' = int (length full)"
    using WriteString_stores[of message_text buffer_length 2 text_length_ptr full m] fits ptr
    unfolding ps by (auto simp: in_s_def)
  have tk: "take (nat (buffer_length - 1)) full = full" using fits by simp
  define r where "r = \<lparr>sql_diag_column_number = SQL_NO_COLUMN_NUMBER, sql_diag_native = 0,
         sql_diag_row_number = SQL_NO_ROW_NUMBER, sql_diag_server_name = [],
         sql_diag_sqlstate = (case map_of MAP_ODBC_SQL_STATES st of None \<Rightarrow> [] | Some (code, _) \<Rightarrow> code),
         sql_diag_message_text = full, stack_msg_offset = [0]\<rparr>"
  have area: "snd (SetDiagnosticRecord (Clean d) SQL_ERROR cmp msg st []) = after_pieces 0 0 mk_DiagHeader r"
    using nonul(2) by (simp add: SetDiagnosticRecord_area AddDiagRecord_def Clean_def after_pieces_def r_def full_def
        wrap_s_small[of 0, simplified] Let_def)
  have rec: "diag_records (after_pieces 0 0 mk_DiagHeader r) ! 0 = r" by (simp add: after_pieces_def r_def)
  have gm: "GetMessage buffer_length r = Some (full, r)"
    using fits by (simp add: GetMessage_def r_def Let_def in_u_def ClearStackMsgOffset_def)
  have rem: "\<not> 0 < wrap_s 16 (wrap_s 16 (int (length full)) - buffer_length)"
    using fits by (simp add: in_s_def)
  have tot: "GetTotalRecords (after_pieces 0 0 mk_DiagHeader r) = 1" by (simp add: GetTotalRecords_def after_pieces_def)
  have ne: "full \<noteq> []" by (simp add: full_def)
  have nn: "\<not> buffer_length < 0" using fits by linarith
  have "\<exists>handle'. SQLGetDiagRec SQL_HANDLE_DBC
      (Some \<lparr>hdl_type = DBC, odbc_diagnostic = Some (after_pieces 0 0 mk_DiagHeader r)\<rparr>)
      1 nullptr nullptr message_text buffer_length text_length_ptr m = Some (SQL_SUCCESS, handle', ?m')"
    using ptr ne rem nn GetDiagRecord_after_pieces[of 0 0 mk_DiagHeader r]
    by (simp add: SQLGetDiagRec_def GetDiagRecInternal_def ConvertHandle_def handle_type_of_def tot rec gm
        Let_def WriteStringWithLenInChars_def store_opt_def)
  then show ?thesis unfolding area using w tk by metis
qed

theorem error_reported_and_read_witness:
  "\<exists>handle' m'. SQLGetDiagRec SQL_HANDLE_DBC
      (Some \<lparr>hdl_type = DBC,
             odbc_diagnostic = Some (snd (SetDiagnosticRecord (Clean mk_OdbcDiagnostic) SQL_ERROR ''dbc'' ''no'' ST_08003 []))\<rparr>)
      1 nullptr nullptr 100 60 8 (\<lambda>_. CHR ''?'') = Some (SQL_SUCCESS, handle', m') \<and>
    c_str 100 m' = Some (''ODBC_DuckDB->'' @ ''dbc'' @ [CHR 0x0A] @ ''no'') \<and>
    load_s 2 8 m' = int (length (''ODBC_DuckDB->'' @ ''dbc'' @ [CHR 0x0A] @ ''no''))"
  by (rule error_reported_and_read) simp_all

text \<open>
  Asking a statement for SQL\_DIAG\_ROW\_COUNT stores the return code of the header, not its row
  count.
\<close>

theorem diag_row_count_is_return_code:
  assumes "odbc_diagnostic hdl = Some d" "hdl_type hdl = STMT" "ptr \<noteq> nullptr"
  shows "GetDiagFieldInternal wide SQL_HANDLE_STMT (Some hdl) rec_number SQL_DIAG_ROW_COUNT ptr n len_ptr m =
    Some (SQL_SUCCESS, Some hdl, store_int 8 ptr (sql_diag_return_code (header d)) m)"
  using assms by (simp add: GetDiagFieldInternal_def ConvertHandle_def store_through_def Let_def)

theorem diag_row_count_is_return_code_witness:
  "GetDiagFieldInternal False SQL_HANDLE_STMT (Some \<lparr>hdl_type = STMT, odbc_diagnostic = Some
      (mk_OdbcDiagnostic\<lparr>header := mk_DiagHeader\<lparr>sql_diag_row_count := 7\<rparr>\<rparr>)\<rparr>) 0 SQL_DIAG_ROW_COUNT 16 0 0 (\<lambda>_. CHR 0x00) =
    Some (SQL_SUCCESS, Some \<lparr>hdl_type = STMT, odbc_diagnostic = Some
      (mk_OdbcDiagnostic\<lparr>header := mk_DiagHeader\<lparr>sql_diag_row_count := 7\<rparr>\<rparr>)\<rparr>,
      store_int 8 16 (sql_diag_return_code (header
        (mk_OdbcDiagnostic\<lparr>header := mk_DiagHeader\<lparr>sql_diag_row_count := 7\<rparr>\<rparr>))) (\<lambda>_. CHR 0x00))"
  by (rule diag_row_count_is_return_code) simp_all

end
