(* ===== verification/Api_Info.thy ===== *)
theory Api_Info
  imports Odbc_Interval
begin

text \<open>
  \<^verbatim>\<open>src/include/api_info.hpp\<close> and \<^verbatim>\<open>src/odbc_driver/api_info.cpp\<close>: the supported functions and
  SQLGetFunctions, the table of SQL types, the mapping of the engine's types to SQL types, and
  the sizes of types and columns.
\<close>

section \<open>Supported functions\<close>

definition BASE_SUPPORTED_FUNCTIONS :: "int list" where
  "BASE_SUPPORTED_FUNCTIONS = [
     SQL_API_SQLALLOCHANDLE, SQL_API_SQLFREEHANDLE, SQL_API_SQLGETCONNECTATTR, SQL_API_SQLSETENVATTR,
     SQL_API_SQLSETCONNECTATTR, SQL_API_SQLSETSTMTATTR, SQL_API_SQLDRIVERCONNECT, SQL_API_SQLCONNECT,
     SQL_API_SQLGETINFO, SQL_API_SQLENDTRAN, SQL_API_SQLDISCONNECT, SQL_API_SQLTABLES,
     SQL_API_SQLCOLUMNS, SQL_API_SQLPREPARE, SQL_API_SQLEXECDIRECT, SQL_API_SQLFREESTMT,
     SQL_API_SQLDESCRIBEPARAM, SQL_API_SQLDESCRIBECOL, SQL_API_SQLCOLATTRIBUTES, SQL_API_SQLFETCHSCROLL,
     SQL_API_SQLROWCOUNT, SQL_API_SQLGETDIAGFIELD, SQL_API_SQLGETDIAGREC, SQL_API_SQLGETFUNCTIONS,
     SQL_API_SQLBINDPARAMETER, SQL_API_SQLGETDATA, SQL_API_SQLFETCH, SQL_API_SQLEXECUTE,
     SQL_API_SQLNUMRESULTCOLS, SQL_API_SQLGETTYPEINFO, SQL_API_SQLBINDCOL, SQL_API_SQLCANCEL,
     SQL_API_SQLNUMPARAMS, SQL_API_SQLPARAMDATA, SQL_API_SQLPUTDATA, SQL_API_SQLMORERESULTS,
     SQL_API_SQLGETSTMTATTR]"

definition ODBC3_EXTRA_SUPPORTED_FUNCTIONS :: "int list" where
  "ODBC3_EXTRA_SUPPORTED_FUNCTIONS = [
     SQL_API_SQLCLOSECURSOR, SQL_API_SQLCOPYDESC, SQL_API_SQLDATASOURCES, SQL_API_SQLDRIVERS,
     SQL_API_SQLGETCURSORNAME, SQL_API_SQLGETDESCFIELD, SQL_API_SQLGETENVATTR, SQL_API_SQLNATIVESQL,
     SQL_API_SQLSETCURSORNAME, SQL_API_SQLSETDESCFIELD, SQL_API_SQLSPECIALCOLUMNS, SQL_API_SQLSTATISTICS,
     SQL_API_SQLBROWSECONNECT, SQL_API_SQLBULKOPERATIONS, SQL_API_SQLCOLUMNPRIVILEGES, SQL_API_SQLFOREIGNKEYS,
     SQL_API_SQLGETDESCREC, SQL_API_SQLPRIMARYKEYS, SQL_API_SQLPROCEDURECOLUMNS, SQL_API_SQLPROCEDURES,
     SQL_API_SQLSETDESCREC, SQL_API_SQLSETPOS, SQL_API_SQLTABLEPRIVILEGES]"

text \<open>\<^verbatim>\<open>flags[function_id >> 4] |= (1 << (function_id & 0xF))\<close> on an array of 16 bit words.\<close>

definition SetFunctionSupported :: "addr \<Rightarrow> int \<Rightarrow> mem \<Rightarrow> mem" where
  "SetFunctionSupported flags function_id m =
     (let cell = flags + 2 * (drop_bit 4 function_id)
      in store_int 2 cell (load_u 2 cell m OR push_bit (nat (function_id AND 0xF)) 1) m)"

definition NUM_FUNC_SUPPORTED :: nat where "NUM_FUNC_SUPPORTED = 4000"

definition memset :: "addr \<Rightarrow> nat \<Rightarrow> mem \<Rightarrow> mem" where
  "memset p n m = store_bytes p (replicate n (CHR 0x00)) m"

definition GetFunctions :: "int \<Rightarrow> addr \<Rightarrow> mem \<Rightarrow> int \<times> mem" where
  "GetFunctions function_id supported_ptr m =
     (if function_id = SQL_API_ALL_FUNCTIONS then
        (SQL_SUCCESS,
         fold (\<lambda>func_idx. store_int 2 (supported_ptr + 2 * func_idx) SQL_TRUE) BASE_SUPPORTED_FUNCTIONS
           (memset supported_ptr (2 * NUM_FUNC_SUPPORTED) m))
      else
        let m = store_int 2 supported_ptr SQL_FALSE m
        in (SQL_SUCCESS,
            if function_id \<in> set BASE_SUPPORTED_FUNCTIONS then store_int 2 supported_ptr SQL_TRUE m else m))"

definition GetFunctions30 :: "int \<Rightarrow> addr \<Rightarrow> mem \<Rightarrow> int \<times> mem" where
  "GetFunctions30 function_id supported_ptr m =
     (let m = memset supported_ptr (2 * 250) m;
          m = fold (SetFunctionSupported supported_ptr) BASE_SUPPORTED_FUNCTIONS m;
          m = fold (SetFunctionSupported supported_ptr) ODBC3_EXTRA_SUPPORTED_FUNCTIONS m
      in (SQL_SUCCESS, m))"

section \<open>The table of SQL types\<close>

record OdbcTypeInfo =
  ti_type_name :: string
  ti_data_type :: int
  ti_column_size :: int
  ti_literal_prefix :: string
  ti_literal_suffix :: string
  ti_create_params :: string
  ti_nullable :: int
  ti_case_sensitive :: int
  ti_searchable :: int
  ti_unsigned_attribute :: int
  ti_fixed_prec_scale :: int
  ti_auto_unique_value :: int
  ti_local_type_name :: string
  ti_minimum_scale :: int
  ti_maximum_scale :: int
  ti_sql_data_type :: int
  ti_sql_datetime_sub :: int
  ti_num_prec_radix :: int
  ti_interval_precision :: int

abbreviation (input) MAX_COLUMN_SIZE :: int where "MAX_COLUMN_SIZE \<equiv> 2147483647"
abbreviation (input) MAX_VARCHAR_COLUMN_SIZE :: int where "MAX_VARCHAR_COLUMN_SIZE \<equiv> 8000"
abbreviation (input) MAX_VARBINARY_COLUMN_SIZE :: int where "MAX_VARBINARY_COLUMN_SIZE \<equiv> 8000"

definition ODBC_SUPPORTED_SQL_TYPES :: "OdbcTypeInfo list" where
  "ODBC_SUPPORTED_SQL_TYPES = [
    \<lparr>ti_type_name = ([CHR 0x27] @ ''CHAR'' @ [CHR 0x27]), ti_data_type = SQL_CHAR, ti_column_size = MAX_COLUMN_SIZE, ti_literal_prefix = ([CHR 0x27] @ [CHR 0x27] @ [CHR 0x27] @ [CHR 0x27]), ti_literal_suffix = ([CHR 0x27] @ [CHR 0x27] @ [CHR 0x27] @ [CHR 0x27]), ti_create_params = ([CHR 0x27] @ ''length'' @ [CHR 0x27]), ti_nullable = SQL_NULLABLE, ti_case_sensitive = SQL_TRUE, ti_searchable = SQL_SEARCHABLE, ti_unsigned_attribute = (- 1), ti_fixed_prec_scale = SQL_FALSE, ti_auto_unique_value = SQL_FALSE, ti_local_type_name = ''NULL'', ti_minimum_scale = (- 1), ti_maximum_scale = (- 1), ti_sql_data_type = SQL_CHAR, ti_sql_datetime_sub = (- 1), ti_num_prec_radix = (- 1), ti_interval_precision = (- 1)\<rparr>,
    \<lparr>ti_type_name = ([CHR 0x27] @ ''BOOLEAN'' @ [CHR 0x27]), ti_data_type = SQL_BIT, ti_column_size = 1, ti_literal_prefix = ''NULL'', ti_literal_suffix = ''NULL'', ti_create_params = ''NULL'', ti_nullable = SQL_NULLABLE, ti_case_sensitive = SQL_FALSE, ti_searchable = SQL_PRED_BASIC, ti_unsigned_attribute = SQL_TRUE, ti_fixed_prec_scale = SQL_TRUE, ti_auto_unique_value = SQL_FALSE, ti_local_type_name = ([CHR 0x27] @ ''boolean'' @ [CHR 0x27]), ti_minimum_scale = (- 1), ti_maximum_scale = (- 1), ti_sql_data_type = SQL_BIT, ti_sql_datetime_sub = (- 1), ti_num_prec_radix = (- 1), ti_interval_precision = (- 1)\<rparr>,
    \<lparr>ti_type_name = ([CHR 0x27] @ ''TINYINT'' @ [CHR 0x27]), ti_data_type = SQL_TINYINT, ti_column_size = 3, ti_literal_prefix = ''NULL'', ti_literal_suffix = ''NULL'', ti_create_params = ''NULL'', ti_nullable = SQL_NULLABLE, ti_case_sensitive = SQL_FALSE, ti_searchable = SQL_PRED_BASIC, ti_unsigned_attribute = SQL_FALSE, ti_fixed_prec_scale = SQL_FALSE, ti_auto_unique_value = SQL_FALSE, ti_local_type_name = ''NULL'', ti_minimum_scale = 0, ti_maximum_scale = 0, ti_sql_data_type = SQL_TINYINT, ti_sql_datetime_sub = (- 1), ti_num_prec_radix = 2, ti_interval_precision = (- 1)\<rparr>,
    \<lparr>ti_type_name = ([CHR 0x27] @ ''SMALLINT'' @ [CHR 0x27]), ti_data_type = SQL_SMALLINT, ti_column_size = 5, ti_literal_prefix = ''NULL'', ti_literal_suffix = ''NULL'', ti_create_params = ''NULL'', ti_nullable = SQL_NULLABLE, ti_case_sensitive = SQL_FALSE, ti_searchable = SQL_PRED_BASIC, ti_unsigned_attribute = SQL_FALSE, ti_fixed_prec_scale = SQL_FALSE, ti_auto_unique_value = SQL_FALSE, ti_local_type_name = ''NULL'', ti_minimum_scale = 0, ti_maximum_scale = 0, ti_sql_data_type = SQL_SMALLINT, ti_sql_datetime_sub = (- 1), ti_num_prec_radix = 2, ti_interval_precision = (- 1)\<rparr>,
    \<lparr>ti_type_name = ([CHR 0x27] @ ''INTEGER'' @ [CHR 0x27]), ti_data_type = SQL_INTEGER, ti_column_size = 10, ti_literal_prefix = ''NULL'', ti_literal_suffix = ''NULL'', ti_create_params = ''NULL'', ti_nullable = SQL_NULLABLE, ti_case_sensitive = SQL_FALSE, ti_searchable = SQL_PRED_BASIC, ti_unsigned_attribute = SQL_FALSE, ti_fixed_prec_scale = SQL_FALSE, ti_auto_unique_value = SQL_FALSE, ti_local_type_name = ''NULL'', ti_minimum_scale = 0, ti_maximum_scale = 0, ti_sql_data_type = SQL_INTEGER, ti_sql_datetime_sub = (- 1), ti_num_prec_radix = 2, ti_interval_precision = (- 1)\<rparr>,
    \<lparr>ti_type_name = ([CHR 0x27] @ ''BIGINT'' @ [CHR 0x27]), ti_data_type = SQL_BIGINT, ti_column_size = 19, ti_literal_prefix = ''NULL'', ti_literal_suffix = ''NULL'', ti_create_params = ''NULL'', ti_nullable = SQL_NULLABLE, ti_case_sensitive = SQL_FALSE, ti_searchable = SQL_PRED_BASIC, ti_unsigned_attribute = SQL_FALSE, ti_fixed_prec_scale = SQL_FALSE, ti_auto_unique_value = SQL_FALSE, ti_local_type_name = ''NULL'', ti_minimum_scale = 0, ti_maximum_scale = 0, ti_sql_data_type = SQL_BIGINT, ti_sql_datetime_sub = (- 1), ti_num_prec_radix = 2, ti_interval_precision = (- 1)\<rparr>,
    \<lparr>ti_type_name = ([CHR 0x27] @ ''DATE'' @ [CHR 0x27]), ti_data_type = SQL_TYPE_DATE, ti_column_size = 10, ti_literal_prefix = ([CHR 0x27] @ [CHR 0x27] @ [CHR 0x27] @ [CHR 0x27]), ti_literal_suffix = ([CHR 0x27] @ [CHR 0x27] @ [CHR 0x27] @ [CHR 0x27]), ti_create_params = ''NULL'', ti_nullable = SQL_NULLABLE, ti_case_sensitive = SQL_FALSE, ti_searchable = SQL_PRED_BASIC, ti_unsigned_attribute = (- 1), ti_fixed_prec_scale = SQL_FALSE, ti_auto_unique_value = SQL_FALSE, ti_local_type_name = ''NULL'', ti_minimum_scale = (- 1), ti_maximum_scale = (- 1), ti_sql_data_type = SQL_TYPE_DATE, ti_sql_datetime_sub = SQL_CODE_DATE, ti_num_prec_radix = (- 1), ti_interval_precision = (- 1)\<rparr>,
    \<lparr>ti_type_name = ([CHR 0x27] @ ''TIME'' @ [CHR 0x27]), ti_data_type = SQL_TYPE_TIME, ti_column_size = 8, ti_literal_prefix = ([CHR 0x27] @ [CHR 0x27] @ [CHR 0x27] @ [CHR 0x27]), ti_literal_suffix = ([CHR 0x27] @ [CHR 0x27] @ [CHR 0x27] @ [CHR 0x27]), ti_create_params = ''NULL'', ti_nullable = SQL_NULLABLE, ti_case_sensitive = SQL_FALSE, ti_searchable = SQL_PRED_BASIC, ti_unsigned_attribute = (- 1), ti_fixed_prec_scale = SQL_FALSE, ti_auto_unique_value = SQL_FALSE, ti_local_type_name = ''NULL'', ti_minimum_scale = 0, ti_maximum_scale = 0, ti_sql_data_type = SQL_TYPE_TIME, ti_sql_datetime_sub = SQL_CODE_TIME, ti_num_prec_radix = (- 1), ti_interval_precision = (- 1)\<rparr>,
    \<lparr>ti_type_name = ([CHR 0x27] @ ''TIMESTAMP'' @ [CHR 0x27]), ti_data_type = SQL_TYPE_TIMESTAMP, ti_column_size = 26, ti_literal_prefix = ([CHR 0x27] @ [CHR 0x27] @ [CHR 0x27] @ [CHR 0x27]), ti_literal_suffix = ([CHR 0x27] @ [CHR 0x27] @ [CHR 0x27] @ [CHR 0x27]), ti_create_params = ''NULL'', ti_nullable = SQL_NULLABLE, ti_case_sensitive = SQL_FALSE, ti_searchable = SQL_PRED_BASIC, ti_unsigned_attribute = (- 1), ti_fixed_prec_scale = SQL_FALSE, ti_auto_unique_value = SQL_FALSE, ti_local_type_name = ''NULL'', ti_minimum_scale = 0, ti_maximum_scale = 0, ti_sql_data_type = SQL_TYPE_TIMESTAMP, ti_sql_datetime_sub = SQL_CODE_TIMESTAMP, ti_num_prec_radix = (- 1), ti_interval_precision = (- 1)\<rparr>,
    \<lparr>ti_type_name = ([CHR 0x27] @ ''DECIMAL'' @ [CHR 0x27]), ti_data_type = SQL_DECIMAL, ti_column_size = 38, ti_literal_prefix = ([CHR 0x27] @ [CHR 0x27] @ [CHR 0x27] @ [CHR 0x27]), ti_literal_suffix = ([CHR 0x27] @ [CHR 0x27] @ [CHR 0x27] @ [CHR 0x27]), ti_create_params = ([CHR 0x27] @ ''precision,scale'' @ [CHR 0x27]), ti_nullable = SQL_NULLABLE, ti_case_sensitive = SQL_FALSE, ti_searchable = SQL_PRED_BASIC, ti_unsigned_attribute = (- 1), ti_fixed_prec_scale = SQL_FALSE, ti_auto_unique_value = SQL_FALSE, ti_local_type_name = ''NULL'', ti_minimum_scale = 0, ti_maximum_scale = 38, ti_sql_data_type = SQL_DECIMAL, ti_sql_datetime_sub = (- 1), ti_num_prec_radix = 10, ti_interval_precision = (- 1)\<rparr>,
    \<lparr>ti_type_name = ([CHR 0x27] @ ''NUMERIC'' @ [CHR 0x27]), ti_data_type = SQL_NUMERIC, ti_column_size = 38, ti_literal_prefix = ([CHR 0x27] @ [CHR 0x27] @ [CHR 0x27] @ [CHR 0x27]), ti_literal_suffix = ([CHR 0x27] @ [CHR 0x27] @ [CHR 0x27] @ [CHR 0x27]), ti_create_params = ([CHR 0x27] @ ''precision,scale'' @ [CHR 0x27]), ti_nullable = SQL_NULLABLE, ti_case_sensitive = SQL_FALSE, ti_searchable = SQL_PRED_BASIC, ti_unsigned_attribute = (- 1), ti_fixed_prec_scale = SQL_FALSE, ti_auto_unique_value = SQL_FALSE, ti_local_type_name = ''NULL'', ti_minimum_scale = 0, ti_maximum_scale = 38, ti_sql_data_type = SQL_NUMERIC, ti_sql_datetime_sub = (- 1), ti_num_prec_radix = 10, ti_interval_precision = (- 1)\<rparr>,
    \<lparr>ti_type_name = ([CHR 0x27] @ ''FLOAT'' @ [CHR 0x27]), ti_data_type = SQL_FLOAT, ti_column_size = 24, ti_literal_prefix = ''NULL'', ti_literal_suffix = ''NULL'', ti_create_params = ''NULL'', ti_nullable = SQL_NULLABLE, ti_case_sensitive = SQL_FALSE, ti_searchable = SQL_PRED_BASIC, ti_unsigned_attribute = SQL_FALSE, ti_fixed_prec_scale = SQL_FALSE, ti_auto_unique_value = SQL_FALSE, ti_local_type_name = ''NULL'', ti_minimum_scale = 0, ti_maximum_scale = 0, ti_sql_data_type = SQL_FLOAT, ti_sql_datetime_sub = (- 1), ti_num_prec_radix = 2, ti_interval_precision = (- 1)\<rparr>,
    \<lparr>ti_type_name = ([CHR 0x27] @ ''DOUBLE'' @ [CHR 0x27]), ti_data_type = SQL_DOUBLE, ti_column_size = 53, ti_literal_prefix = ''NULL'', ti_literal_suffix = ''NULL'', ti_create_params = ''NULL'', ti_nullable = SQL_NULLABLE, ti_case_sensitive = SQL_FALSE, ti_searchable = SQL_PRED_BASIC, ti_unsigned_attribute = SQL_FALSE, ti_fixed_prec_scale = SQL_FALSE, ti_auto_unique_value = SQL_FALSE, ti_local_type_name = ''NULL'', ti_minimum_scale = 0, ti_maximum_scale = 0, ti_sql_data_type = SQL_DOUBLE, ti_sql_datetime_sub = (- 1), ti_num_prec_radix = 2, ti_interval_precision = (- 1)\<rparr>,
    \<lparr>ti_type_name = ([CHR 0x27] @ ''VARCHAR'' @ [CHR 0x27]), ti_data_type = SQL_VARCHAR, ti_column_size = MAX_COLUMN_SIZE, ti_literal_prefix = ([CHR 0x27] @ [CHR 0x27] @ [CHR 0x27] @ [CHR 0x27]), ti_literal_suffix = ([CHR 0x27] @ [CHR 0x27] @ [CHR 0x27] @ [CHR 0x27]), ti_create_params = ([CHR 0x27] @ ''length'' @ [CHR 0x27]), ti_nullable = SQL_NULLABLE, ti_case_sensitive = SQL_TRUE, ti_searchable = SQL_SEARCHABLE, ti_unsigned_attribute = (- 1), ti_fixed_prec_scale = SQL_FALSE, ti_auto_unique_value = (- 1), ti_local_type_name = ''NULL'', ti_minimum_scale = (- 1), ti_maximum_scale = (- 1), ti_sql_data_type = SQL_VARCHAR, ti_sql_datetime_sub = (- 1), ti_num_prec_radix = (- 1), ti_interval_precision = (- 1)\<rparr>,
    \<lparr>ti_type_name = ([CHR 0x27] @ ''VARCHAR'' @ [CHR 0x27]), ti_data_type = SQL_WVARCHAR, ti_column_size = MAX_COLUMN_SIZE, ti_literal_prefix = ([CHR 0x27] @ [CHR 0x27] @ [CHR 0x27] @ [CHR 0x27]), ti_literal_suffix = ([CHR 0x27] @ [CHR 0x27] @ [CHR 0x27] @ [CHR 0x27]), ti_create_params = ([CHR 0x27] @ ''length'' @ [CHR 0x27]), ti_nullable = SQL_NULLABLE, ti_case_sensitive = SQL_TRUE, ti_searchable = SQL_SEARCHABLE, ti_unsigned_attribute = (- 1), ti_fixed_prec_scale = SQL_FALSE, ti_auto_unique_value = (- 1), ti_local_type_name = ''NULL'', ti_minimum_scale = (- 1), ti_maximum_scale = (- 1), ti_sql_data_type = SQL_WVARCHAR, ti_sql_datetime_sub = (- 1), ti_num_prec_radix = (- 1), ti_interval_precision = (- 1)\<rparr>,
    \<lparr>ti_type_name = ([CHR 0x27] @ ''BLOB'' @ [CHR 0x27]), ti_data_type = SQL_VARBINARY, ti_column_size = MAX_COLUMN_SIZE, ti_literal_prefix = ([CHR 0x27] @ ''x'' @ [CHR 0x27] @ [CHR 0x27] @ [CHR 0x27]), ti_literal_suffix = ([CHR 0x27] @ [CHR 0x27] @ [CHR 0x27] @ [CHR 0x27]), ti_create_params = ([CHR 0x27] @ ''length'' @ [CHR 0x27]), ti_nullable = SQL_NULLABLE, ti_case_sensitive = SQL_TRUE, ti_searchable = SQL_PRED_BASIC, ti_unsigned_attribute = (- 1), ti_fixed_prec_scale = SQL_FALSE, ti_auto_unique_value = SQL_FALSE, ti_local_type_name = ''NULL'', ti_minimum_scale = (- 1), ti_maximum_scale = (- 1), ti_sql_data_type = SQL_VARBINARY, ti_sql_datetime_sub = (- 1), ti_num_prec_radix = (- 1), ti_interval_precision = (- 1)\<rparr>,
    \<lparr>ti_type_name = ([CHR 0x27] @ ''UUID'' @ [CHR 0x27]), ti_data_type = SQL_UNKNOWN_TYPE, ti_column_size = MAX_COLUMN_SIZE, ti_literal_prefix = ([CHR 0x27] @ [CHR 0x27] @ [CHR 0x27] @ [CHR 0x27]), ti_literal_suffix = ([CHR 0x27] @ [CHR 0x27] @ [CHR 0x27] @ [CHR 0x27]), ti_create_params = ([CHR 0x27] @ ''length'' @ [CHR 0x27]), ti_nullable = SQL_NULLABLE, ti_case_sensitive = SQL_TRUE, ti_searchable = SQL_PRED_BASIC, ti_unsigned_attribute = (- 1), ti_fixed_prec_scale = SQL_FALSE, ti_auto_unique_value = SQL_FALSE, ti_local_type_name = ''NULL'', ti_minimum_scale = (- 1), ti_maximum_scale = (- 1), ti_sql_data_type = SQL_VARCHAR, ti_sql_datetime_sub = (- 1), ti_num_prec_radix = (- 1), ti_interval_precision = (- 1)\<rparr>,
    \<lparr>ti_type_name = ([CHR 0x27] @ ''INTERVAL YEAR'' @ [CHR 0x27]), ti_data_type = SQL_INTERVAL_YEAR, ti_column_size = 9, ti_literal_prefix = ([CHR 0x27] @ [CHR 0x27] @ [CHR 0x27] @ [CHR 0x27]), ti_literal_suffix = ([CHR 0x27] @ [CHR 0x27] @ [CHR 0x27] @ [CHR 0x27]), ti_create_params = ''NULL'', ti_nullable = SQL_NULLABLE, ti_case_sensitive = SQL_FALSE, ti_searchable = SQL_PRED_BASIC, ti_unsigned_attribute = (- 1), ti_fixed_prec_scale = SQL_FALSE, ti_auto_unique_value = (- 1), ti_local_type_name = ''NULL'', ti_minimum_scale = 0, ti_maximum_scale = 0, ti_sql_data_type = SQL_VARCHAR, ti_sql_datetime_sub = SQL_CODE_YEAR, ti_num_prec_radix = (- 1), ti_interval_precision = (- 1)\<rparr>,
    \<lparr>ti_type_name = ([CHR 0x27] @ ''INTERVAL MONTH'' @ [CHR 0x27]), ti_data_type = SQL_INTERVAL_MONTH, ti_column_size = 10, ti_literal_prefix = ([CHR 0x27] @ [CHR 0x27] @ [CHR 0x27] @ [CHR 0x27]), ti_literal_suffix = ([CHR 0x27] @ [CHR 0x27] @ [CHR 0x27] @ [CHR 0x27]), ti_create_params = ''NULL'', ti_nullable = SQL_NULLABLE, ti_case_sensitive = SQL_FALSE, ti_searchable = SQL_PRED_BASIC, ti_unsigned_attribute = (- 1), ti_fixed_prec_scale = SQL_FALSE, ti_auto_unique_value = (- 1), ti_local_type_name = ''NULL'', ti_minimum_scale = 0, ti_maximum_scale = 0, ti_sql_data_type = SQL_VARCHAR, ti_sql_datetime_sub = SQL_CODE_MONTH, ti_num_prec_radix = (- 1), ti_interval_precision = (- 1)\<rparr>,
    \<lparr>ti_type_name = ([CHR 0x27] @ ''INTERVAL DAY'' @ [CHR 0x27]), ti_data_type = SQL_INTERVAL_DAY, ti_column_size = 5, ti_literal_prefix = ([CHR 0x27] @ [CHR 0x27] @ [CHR 0x27] @ [CHR 0x27]), ti_literal_suffix = ([CHR 0x27] @ [CHR 0x27] @ [CHR 0x27] @ [CHR 0x27]), ti_create_params = ''NULL'', ti_nullable = SQL_NULLABLE, ti_case_sensitive = SQL_FALSE, ti_searchable = SQL_PRED_BASIC, ti_unsigned_attribute = (- 1), ti_fixed_prec_scale = SQL_FALSE, ti_auto_unique_value = (- 1), ti_local_type_name = ''NULL'', ti_minimum_scale = 0, ti_maximum_scale = 0, ti_sql_data_type = SQL_VARCHAR, ti_sql_datetime_sub = SQL_CODE_DAY, ti_num_prec_radix = (- 1), ti_interval_precision = (- 1)\<rparr>,
    \<lparr>ti_type_name = ([CHR 0x27] @ ''INTERVAL HOUR'' @ [CHR 0x27]), ti_data_type = SQL_INTERVAL_HOUR, ti_column_size = 6, ti_literal_prefix = ([CHR 0x27] @ [CHR 0x27] @ [CHR 0x27] @ [CHR 0x27]), ti_literal_suffix = ([CHR 0x27] @ [CHR 0x27] @ [CHR 0x27] @ [CHR 0x27]), ti_create_params = ''NULL'', ti_nullable = SQL_NULLABLE, ti_case_sensitive = SQL_FALSE, ti_searchable = SQL_PRED_BASIC, ti_unsigned_attribute = (- 1), ti_fixed_prec_scale = SQL_FALSE, ti_auto_unique_value = (- 1), ti_local_type_name = ''NULL'', ti_minimum_scale = 0, ti_maximum_scale = 0, ti_sql_data_type = SQL_VARCHAR, ti_sql_datetime_sub = SQL_CODE_HOUR, ti_num_prec_radix = (- 1), ti_interval_precision = (- 1)\<rparr>,
    \<lparr>ti_type_name = ([CHR 0x27] @ ''INTERVAL MINUTE'' @ [CHR 0x27]), ti_data_type = SQL_INTERVAL_MINUTE, ti_column_size = 8, ti_literal_prefix = ([CHR 0x27] @ [CHR 0x27] @ [CHR 0x27] @ [CHR 0x27]), ti_literal_suffix = ([CHR 0x27] @ [CHR 0x27] @ [CHR 0x27] @ [CHR 0x27]), ti_create_params = ''NULL'', ti_nullable = SQL_NULLABLE, ti_case_sensitive = SQL_FALSE, ti_searchable = SQL_PRED_BASIC, ti_unsigned_attribute = (- 1), ti_fixed_prec_scale = SQL_FALSE, ti_auto_unique_value = (- 1), ti_local_type_name = ''NULL'', ti_minimum_scale = 0, ti_maximum_scale = 0, ti_sql_data_type = SQL_VARCHAR, ti_sql_datetime_sub = SQL_CODE_MINUTE, ti_num_prec_radix = (- 1), ti_interval_precision = (- 1)\<rparr>,
    \<lparr>ti_type_name = ([CHR 0x27] @ ''INTERVAL SECOND'' @ [CHR 0x27]), ti_data_type = SQL_INTERVAL_SECOND, ti_column_size = 10, ti_literal_prefix = ([CHR 0x27] @ [CHR 0x27] @ [CHR 0x27] @ [CHR 0x27]), ti_literal_suffix = ([CHR 0x27] @ [CHR 0x27] @ [CHR 0x27] @ [CHR 0x27]), ti_create_params = ''NULL'', ti_nullable = SQL_NULLABLE, ti_case_sensitive = SQL_FALSE, ti_searchable = SQL_PRED_BASIC, ti_unsigned_attribute = (- 1), ti_fixed_prec_scale = SQL_FALSE, ti_auto_unique_value = (- 1), ti_local_type_name = ''NULL'', ti_minimum_scale = 0, ti_maximum_scale = 0, ti_sql_data_type = SQL_VARCHAR, ti_sql_datetime_sub = SQL_CODE_SECOND, ti_num_prec_radix = (- 1), ti_interval_precision = (- 1)\<rparr>,
    \<lparr>ti_type_name = ([CHR 0x27] @ ''INTERVAL YEAR TO MONTH'' @ [CHR 0x27]), ti_data_type = SQL_INTERVAL_YEAR_TO_MONTH, ti_column_size = 12, ti_literal_prefix = ([CHR 0x27] @ [CHR 0x27] @ [CHR 0x27] @ [CHR 0x27]), ti_literal_suffix = ([CHR 0x27] @ [CHR 0x27] @ [CHR 0x27] @ [CHR 0x27]), ti_create_params = ''NULL'', ti_nullable = SQL_NULLABLE, ti_case_sensitive = SQL_FALSE, ti_searchable = SQL_PRED_BASIC, ti_unsigned_attribute = (- 1), ti_fixed_prec_scale = SQL_FALSE, ti_auto_unique_value = (- 1), ti_local_type_name = ''NULL'', ti_minimum_scale = 0, ti_maximum_scale = 0, ti_sql_data_type = SQL_VARCHAR, ti_sql_datetime_sub = SQL_CODE_YEAR_TO_MONTH, ti_num_prec_radix = (- 1), ti_interval_precision = (- 1)\<rparr>,
    \<lparr>ti_type_name = ([CHR 0x27] @ ''INTERVAL DAY TO HOUR'' @ [CHR 0x27]), ti_data_type = SQL_INTERVAL_DAY_TO_HOUR, ti_column_size = 8, ti_literal_prefix = ([CHR 0x27] @ [CHR 0x27] @ [CHR 0x27] @ [CHR 0x27]), ti_literal_suffix = ([CHR 0x27] @ [CHR 0x27] @ [CHR 0x27] @ [CHR 0x27]), ti_create_params = ''NULL'', ti_nullable = SQL_NULLABLE, ti_case_sensitive = SQL_FALSE, ti_searchable = SQL_PRED_BASIC, ti_unsigned_attribute = (- 1), ti_fixed_prec_scale = SQL_FALSE, ti_auto_unique_value = (- 1), ti_local_type_name = ''NULL'', ti_minimum_scale = 0, ti_maximum_scale = 0, ti_sql_data_type = SQL_VARCHAR, ti_sql_datetime_sub = SQL_CODE_DAY_TO_HOUR, ti_num_prec_radix = (- 1), ti_interval_precision = (- 1)\<rparr>,
    \<lparr>ti_type_name = ([CHR 0x27] @ ''INTERVAL DAY TO MINUTE'' @ [CHR 0x27]), ti_data_type = SQL_INTERVAL_DAY_TO_MINUTE, ti_column_size = 11, ti_literal_prefix = ([CHR 0x27] @ [CHR 0x27] @ [CHR 0x27] @ [CHR 0x27]), ti_literal_suffix = ([CHR 0x27] @ [CHR 0x27] @ [CHR 0x27] @ [CHR 0x27]), ti_create_params = ''NULL'', ti_nullable = SQL_NULLABLE, ti_case_sensitive = SQL_FALSE, ti_searchable = SQL_PRED_BASIC, ti_unsigned_attribute = (- 1), ti_fixed_prec_scale = SQL_FALSE, ti_auto_unique_value = (- 1), ti_local_type_name = ''NULL'', ti_minimum_scale = 0, ti_maximum_scale = 0, ti_sql_data_type = SQL_VARCHAR, ti_sql_datetime_sub = SQL_CODE_DAY_TO_MINUTE, ti_num_prec_radix = (- 1), ti_interval_precision = (- 1)\<rparr>,
    \<lparr>ti_type_name = ([CHR 0x27] @ ''INTERVAL DAY TO SECOND'' @ [CHR 0x27]), ti_data_type = SQL_INTERVAL_DAY_TO_SECOND, ti_column_size = 14, ti_literal_prefix = ([CHR 0x27] @ [CHR 0x27] @ [CHR 0x27] @ [CHR 0x27]), ti_literal_suffix = ([CHR 0x27] @ [CHR 0x27] @ [CHR 0x27] @ [CHR 0x27]), ti_create_params = ''NULL'', ti_nullable = SQL_NULLABLE, ti_case_sensitive = SQL_FALSE, ti_searchable = SQL_PRED_BASIC, ti_unsigned_attribute = (- 1), ti_fixed_prec_scale = SQL_FALSE, ti_auto_unique_value = (- 1), ti_local_type_name = ''NULL'', ti_minimum_scale = 0, ti_maximum_scale = 0, ti_sql_data_type = SQL_VARCHAR, ti_sql_datetime_sub = SQL_CODE_DAY_TO_SECOND, ti_num_prec_radix = (- 1), ti_interval_precision = (- 1)\<rparr>,
    \<lparr>ti_type_name = ([CHR 0x27] @ ''INTERVAL HOUR TO MINUTE'' @ [CHR 0x27]), ti_data_type = SQL_INTERVAL_HOUR_TO_MINUTE, ti_column_size = 9, ti_literal_prefix = ([CHR 0x27] @ [CHR 0x27] @ [CHR 0x27] @ [CHR 0x27]), ti_literal_suffix = ([CHR 0x27] @ [CHR 0x27] @ [CHR 0x27] @ [CHR 0x27]), ti_create_params = ''NULL'', ti_nullable = SQL_NULLABLE, ti_case_sensitive = SQL_FALSE, ti_searchable = SQL_PRED_BASIC, ti_unsigned_attribute = (- 1), ti_fixed_prec_scale = SQL_FALSE, ti_auto_unique_value = (- 1), ti_local_type_name = ''NULL'', ti_minimum_scale = 0, ti_maximum_scale = 0, ti_sql_data_type = SQL_VARCHAR, ti_sql_datetime_sub = SQL_CODE_HOUR_TO_MINUTE, ti_num_prec_radix = (- 1), ti_interval_precision = (- 1)\<rparr>,
    \<lparr>ti_type_name = ([CHR 0x27] @ ''INTERVAL HOUR TO SECOND'' @ [CHR 0x27]), ti_data_type = SQL_INTERVAL_HOUR_TO_SECOND, ti_column_size = 12, ti_literal_prefix = ([CHR 0x27] @ [CHR 0x27] @ [CHR 0x27] @ [CHR 0x27]), ti_literal_suffix = ([CHR 0x27] @ [CHR 0x27] @ [CHR 0x27] @ [CHR 0x27]), ti_create_params = ''NULL'', ti_nullable = SQL_NULLABLE, ti_case_sensitive = SQL_FALSE, ti_searchable = SQL_PRED_BASIC, ti_unsigned_attribute = (- 1), ti_fixed_prec_scale = SQL_FALSE, ti_auto_unique_value = (- 1), ti_local_type_name = ''NULL'', ti_minimum_scale = 0, ti_maximum_scale = 0, ti_sql_data_type = SQL_VARCHAR, ti_sql_datetime_sub = SQL_CODE_HOUR_TO_SECOND, ti_num_prec_radix = (- 1), ti_interval_precision = (- 1)\<rparr>,
    \<lparr>ti_type_name = ([CHR 0x27] @ ''INTERVAL MINUTE TO SECOND'' @ [CHR 0x27]), ti_data_type = SQL_INTERVAL_MINUTE_TO_SECOND, ti_column_size = 12, ti_literal_prefix = ([CHR 0x27] @ [CHR 0x27] @ [CHR 0x27] @ [CHR 0x27]), ti_literal_suffix = ([CHR 0x27] @ [CHR 0x27] @ [CHR 0x27] @ [CHR 0x27]), ti_create_params = ''NULL'', ti_nullable = SQL_NULLABLE, ti_case_sensitive = SQL_FALSE, ti_searchable = SQL_PRED_BASIC, ti_unsigned_attribute = (- 1), ti_fixed_prec_scale = SQL_FALSE, ti_auto_unique_value = (- 1), ti_local_type_name = ''NULL'', ti_minimum_scale = 0, ti_maximum_scale = 0, ti_sql_data_type = SQL_VARCHAR, ti_sql_datetime_sub = SQL_CODE_MINUTE_TO_SECOND, ti_num_prec_radix = (- 1), ti_interval_precision = (- 1)\<rparr>]"

text \<open>The entries of the first run of the data type; the outer loop breaks after it.\<close>

fun find_run :: "int \<Rightarrow> OdbcTypeInfo list \<Rightarrow> OdbcTypeInfo list" where
  "find_run dt [] = []" |
  "find_run dt (t # ts) =
     (if ti_data_type t = dt then takeWhile (\<lambda>t. ti_data_type t = dt) (t # ts) else find_run dt ts)"

definition FindDataType :: "int \<Rightarrow> OdbcTypeInfo list \<Rightarrow> OdbcTypeInfo list" where
  "FindDataType dt vec_types = vec_types @ find_run dt ODBC_SUPPORTED_SQL_TYPES"

text \<open>\<^verbatim>\<open>std::to_string\<close> of an integer.\<close>

fun nat_to_string :: "nat \<Rightarrow> string" where
  "nat_to_string n =
     (if n < 10 then [char_of (48 + n)] else nat_to_string (n div 10) @ [char_of (48 + n mod 10)])"

declare nat_to_string.simps [simp del]

definition to_string :: "int \<Rightarrow> string" where
  "to_string i = (if i < 0 then ''-'' @ nat_to_string (nat (- i)) else nat_to_string (nat i))"

definition info_type_row :: "OdbcTypeInfo \<Rightarrow> string" where
  "info_type_row t =
     ''('' @
     ''CAST('' @ ti_type_name t @ '' AS VARCHAR),'' @
     ''CAST('' @ to_string (ti_data_type t) @ '' AS SMALLINT),'' @
     ''CAST('' @ to_string (ti_column_size t) @ '' AS INTEGER),'' @
     ''CAST('' @ ti_literal_prefix t @ '' AS VARCHAR),'' @
     ''CAST('' @ ti_literal_suffix t @ '' AS VARCHAR),'' @
     ''CAST('' @ ti_create_params t @ '' AS VARCHAR),'' @
     ''CAST('' @ to_string (ti_nullable t) @ '' AS SMALLINT),'' @
     ''CAST('' @ to_string (ti_case_sensitive t) @ '' AS SMALLINT),'' @
     ''CAST('' @ to_string (ti_searchable t) @ '' AS SMALLINT),'' @
     ''CAST('' @ to_string (ti_unsigned_attribute t) @ '' AS SMALLINT),'' @
     ''CAST('' @ to_string (ti_fixed_prec_scale t) @ '' AS SMALLINT),'' @
     ''CAST('' @ to_string (ti_auto_unique_value t) @ '' AS SMALLINT),'' @
     ''CAST('' @ ti_local_type_name t @ '' AS VARCHAR),'' @
     ''CAST('' @ to_string (ti_minimum_scale t) @ '' AS SMALLINT),'' @
     ''CAST('' @ to_string (ti_maximum_scale t) @ '' AS SMALLINT),'' @
     ''CAST('' @ to_string (ti_sql_data_type t) @ '' AS SMALLINT),'' @
     ''CAST('' @ to_string (ti_sql_datetime_sub t) @ '' AS SMALLINT),'' @
     ''CAST('' @ to_string (ti_num_prec_radix t) @ '' AS integer),'' @
     ''CAST('' @ to_string (ti_interval_precision t) @ '' AS SMALLINT)'' @
     '')''"

fun WriteInfoTypesToQueryString :: "OdbcTypeInfo list \<Rightarrow> string \<Rightarrow> string" where
  "WriteInfoTypesToQueryString [] query = query" |
  "WriteInfoTypesToQueryString [t] query = query @ info_type_row t" |
  "WriteInfoTypesToQueryString (t # ts) query =
     WriteInfoTypesToQueryString ts (query @ info_type_row t @ '','')"

definition GetVectorTypesAddr :: "OdbcTypeInfo list" where
  "GetVectorTypesAddr = ODBC_SUPPORTED_SQL_TYPES"

section \<open>Types and sizes\<close>

definition FindRelatedSQLType :: "int \<Rightarrow> int" where
  "FindRelatedSQLType type_id = (
      if type_id = LogicalTypeId_BOOLEAN then SQL_CHAR
      else if type_id = LogicalTypeId_TINYINT then SQL_TINYINT
      else if type_id = LogicalTypeId_UTINYINT then SQL_TINYINT
      else if type_id = LogicalTypeId_SMALLINT then SQL_SMALLINT
      else if type_id = LogicalTypeId_USMALLINT then SQL_SMALLINT
      else if type_id = LogicalTypeId_INTEGER then SQL_INTEGER
      else if type_id = LogicalTypeId_UINTEGER then SQL_INTEGER
      else if type_id = LogicalTypeId_BIGINT then SQL_BIGINT
      else if type_id = LogicalTypeId_UBIGINT then SQL_BIGINT
      else if type_id = LogicalTypeId_HUGEINT then SQL_NUMERIC
      else if type_id = LogicalTypeId_UHUGEINT then SQL_NUMERIC
      else if type_id = LogicalTypeId_FLOAT then SQL_FLOAT
      else if type_id = LogicalTypeId_DOUBLE then SQL_DOUBLE
      else if type_id = LogicalTypeId_DATE then SQL_TYPE_DATE
      else if type_id = LogicalTypeId_TIMESTAMP then SQL_TYPE_TIMESTAMP
      else if type_id = LogicalTypeId_TIMESTAMP_MS then SQL_TYPE_TIMESTAMP
      else if type_id = LogicalTypeId_TIMESTAMP_SEC then SQL_TYPE_TIMESTAMP
      else if type_id = LogicalTypeId_TIMESTAMP_NS then SQL_TYPE_TIMESTAMP
      else if type_id = LogicalTypeId_TIMESTAMP_TZ then SQL_TYPE_TIMESTAMP
      else if type_id = LogicalTypeId_TIME then SQL_TYPE_TIME
      else if type_id = LogicalTypeId_VARCHAR then SQL_VARCHAR
      else if type_id = LogicalTypeId_BLOB then SQL_VARBINARY
      else if type_id = LogicalTypeId_INTERVAL then SQL_INTERVAL
      else if type_id = LogicalTypeId_DECIMAL then SQL_DECIMAL
      else if type_id = LogicalTypeId_LIST then SQL_VARCHAR
      else if type_id = LogicalTypeId_BIT then SQL_BIT
      else SQL_UNKNOWN_TYPE)"

definition PointerSizeOf :: "int \<Rightarrow> int" where
  "PointerSizeOf sql_type = (
      if sql_type = SQL_C_SSHORT then 2
      else if sql_type = SQL_C_USHORT then 2
      else if sql_type \<in> {SQL_C_LONG, SQL_C_SLONG} then 4
      else if sql_type = SQL_C_ULONG then 4
      else if sql_type = SQL_C_FLOAT then 4
      else if sql_type = SQL_C_DOUBLE then 8
      else if sql_type = SQL_C_STINYINT then 1
      else if sql_type = SQL_C_UTINYINT then 1
      else if sql_type = SQL_C_SBIGINT then 8
      else if sql_type = SQL_C_UBIGINT then 8
      else if sql_type \<in> {SQL_C_NUMERIC, SQL_C_TYPE_DATE, SQL_C_TYPE_TIME, SQL_C_TYPE_TIMESTAMP, SQL_C_INTERVAL_YEAR, SQL_C_INTERVAL_MONTH, SQL_C_INTERVAL_DAY, SQL_C_INTERVAL_HOUR, SQL_C_INTERVAL_MINUTE, SQL_C_INTERVAL_SECOND, SQL_C_INTERVAL_YEAR_TO_MONTH, SQL_C_INTERVAL_DAY_TO_HOUR, SQL_C_INTERVAL_DAY_TO_MINUTE, SQL_C_INTERVAL_DAY_TO_SECOND, SQL_C_INTERVAL_HOUR_TO_MINUTE, SQL_C_INTERVAL_HOUR_TO_SECOND, SQL_C_INTERVAL_MINUTE_TO_SECOND} then 8
      else if sql_type = SQL_C_BIT then 1
      else - 1)"

definition IsNumericDescriptorField :: "int \<Rightarrow> bool" where
  "IsNumericDescriptorField field_identifier = (field_identifier \<in> {
     SQL_DESC_ALLOC_TYPE, SQL_DESC_ARRAY_SIZE, SQL_DESC_BIND_TYPE, SQL_DESC_COUNT,
     SQL_DESC_AUTO_UNIQUE_VALUE, SQL_DESC_CASE_SENSITIVE, SQL_DESC_CONCISE_TYPE, SQL_DESC_DATETIME_INTERVAL_CODE,
     SQL_DESC_DATETIME_INTERVAL_PRECISION, SQL_DESC_DISPLAY_SIZE, SQL_DESC_FIXED_PREC_SCALE, SQL_DESC_LENGTH,
     SQL_DESC_NULLABLE, SQL_DESC_NUM_PREC_RADIX, SQL_DESC_OCTET_LENGTH, SQL_DESC_PARAMETER_TYPE,
     SQL_DESC_PRECISION, SQL_DESC_ROWVER, SQL_DESC_SCALE, SQL_DESC_SEARCHABLE,
     SQL_DESC_TYPE, SQL_DESC_UNNAMED, SQL_DESC_UNSIGNED, SQL_DESC_UPDATABLE})"

definition GetTemporalPrecision :: "int \<Rightarrow> int" where
  "GetTemporalPrecision type_id =
     (if type_id \<in> {LogicalTypeId_TIME, LogicalTypeId_TIMESTAMP, LogicalTypeId_TIMESTAMP_TZ} then 6
      else if type_id = LogicalTypeId_TIMESTAMP_MS then 3
      else if type_id = LogicalTypeId_TIMESTAMP_SEC then 0
      else if type_id = LogicalTypeId_TIMESTAMP_NS then 9
      else 0)"

text \<open>What the driver reads of a LogicalType: its id and, of a DECIMAL, the width and the scale.\<close>

record LogicalType =
  lt_id :: int
  lt_width :: int
  lt_scale :: int

definition IsUnsigned :: "LogicalType \<Rightarrow> bool" where
  "IsUnsigned t = (lt_id t \<in> {LogicalTypeId_UTINYINT, LogicalTypeId_USMALLINT, LogicalTypeId_UINTEGER,
     LogicalTypeId_UBIGINT, LogicalTypeId_UHUGEINT})"

definition temporal_size :: "int \<Rightarrow> int \<Rightarrow> int \<Rightarrow> int" where
  "temporal_size base none type_id =
     (let precision = GetTemporalPrecision type_id in if precision > 0 then base + precision else none)"

definition GetColumnSize :: "LogicalType \<Rightarrow> int" where
  "GetColumnSize logical_type =
     (let sql_type = FindRelatedSQLType (lt_id logical_type) in
      if sql_type \<in> {SQL_DECIMAL, SQL_NUMERIC} then
        if lt_id logical_type \<in> {LogicalTypeId_HUGEINT, LogicalTypeId_UHUGEINT} then 38
        else lt_width logical_type
      else if sql_type = SQL_BIT then 1
      else if sql_type = SQL_TINYINT then 3
      else if sql_type = SQL_SMALLINT then 5
      else if sql_type = SQL_INTEGER then 10
      else if sql_type = SQL_BIGINT then (if IsUnsigned logical_type then 20 else 19)
      else if sql_type = SQL_REAL then 7
      else if sql_type \<in> {SQL_FLOAT, SQL_DOUBLE} then 15
      else if sql_type = SQL_TYPE_DATE then 10
      else if sql_type = SQL_TYPE_TIME then temporal_size 9 8 (lt_id logical_type)
      else if sql_type = SQL_TYPE_TIMESTAMP then temporal_size 20 19 (lt_id logical_type)
      else if sql_type = SQL_VARCHAR then MAX_VARCHAR_COLUMN_SIZE
      else if sql_type = SQL_VARBINARY then MAX_VARBINARY_COLUMN_SIZE
      else 0)"

definition GetDisplaySize :: "LogicalType \<Rightarrow> int" where
  "GetDisplaySize logical_type =
     (let sql_type = FindRelatedSQLType (lt_id logical_type) in
      if sql_type \<in> {SQL_DECIMAL, SQL_NUMERIC} then
        if lt_id logical_type \<in> {LogicalTypeId_HUGEINT, LogicalTypeId_UHUGEINT} then 40
        else lt_width logical_type + 2
      else if sql_type = SQL_BIT then 1
      else if sql_type = SQL_TINYINT then (if IsUnsigned logical_type then 3 else 4)
      else if sql_type = SQL_SMALLINT then (if IsUnsigned logical_type then 5 else 6)
      else if sql_type = SQL_INTEGER then (if IsUnsigned logical_type then 10 else 11)
      else if sql_type = SQL_BIGINT then 20
      else if sql_type = SQL_REAL then 14
      else if sql_type \<in> {SQL_FLOAT, SQL_DOUBLE} then 24
      else if sql_type = SQL_TYPE_DATE then 10
      else if sql_type = SQL_TYPE_TIME then temporal_size 9 8 (lt_id logical_type)
      else if sql_type = SQL_TYPE_TIMESTAMP then temporal_size 20 19 (lt_id logical_type)
      else if sql_type = SQL_VARCHAR then MAX_VARCHAR_COLUMN_SIZE
      else if sql_type = SQL_VARBINARY then MAX_VARBINARY_COLUMN_SIZE
      else 0)"

section \<open>The bitmap of supported functions\<close>

lemma le_decode_bounds: "0 \<le> le_decode bs" "le_decode bs < 256 ^ length bs"
proof -
  have b: "int (of_char c) \<le> 255" for c :: char
  proof -
    have "(of_char c :: nat) < 256" by (rule nat_of_char_less_256)
    then show ?thesis by linarith
  qed
  show "0 \<le> le_decode bs" by (induction bs) auto
  show "le_decode bs < 256 ^ length bs"
  proof (induction bs)
    case (Cons c cs)
    then show ?case using b[of c] by simp
  qed simp
qed

lemma load_u_bounds [simp]: "0 \<le> load_u n a m" "load_u n a m < 256 ^ n"
  using le_decode_bounds[of "load_bytes a n m"] by (simp_all add: load_u_def)

text \<open>The bit the driver manager's SQL\_FUNC\_EXISTS macro tests.\<close>

definition func_exists :: "addr \<Rightarrow> int \<Rightarrow> mem \<Rightarrow> bool" where
  "func_exists p f m \<longleftrightarrow> bit (load_u 2 (p + 2 * (f div 16)) m) (nat (f mod 16))"

lemma and_15: "(f::int) AND 0xF = f mod 16"
  using take_bit_eq_mask[of 4 f] by (simp add: take_bit_eq_mod mask_eq_exp_minus_1)

lemma SetFunctionSupported_alt:
  "SetFunctionSupported p g m =
     store_int 2 (p + 2 * (g div 16)) (load_u 2 (p + 2 * (g div 16)) m OR push_bit (nat (g mod 16)) 1) m"
  by (simp add: SetFunctionSupported_def Let_def and_15 drop_bit_eq_div)

lemma or_bit_word:
  fixes v :: int
  assumes "0 \<le> v" "v < 65536" "k < 16"
  shows "(v OR push_bit k 1) mod 65536 = v OR push_bit k 1"
proof -
  have "take_bit 16 v = v" using assms by (simp add: take_bit_int_eq_self)
  moreover have "take_bit 16 (push_bit k (1::int)) = push_bit k 1"
    using assms(3) by (auto simp: bit_eq_iff bit_simps)
  ultimately have "take_bit 16 (v OR push_bit k 1) = v OR push_bit k 1" by (simp add: take_bit_or)
  then show ?thesis by (simp add: take_bit_eq_mod)
qed

lemma func_exists_set:
  assumes "0 \<le> f" "0 \<le> g"
  shows "func_exists p f (SetFunctionSupported p g m) \<longleftrightarrow> f = g \<or> func_exists p f m"
proof (cases "f div 16 = g div 16")
  case True
  let ?a = "p + 2 * (g div 16)"
  have "load_u 2 ?a (SetFunctionSupported p g m) = load_u 2 ?a m OR push_bit (nat (g mod 16)) 1"
    using or_bit_word[of "load_u 2 ?a m" "nat (g mod 16)"] load_u_bounds[of 2 ?a m]
    by (simp add: SetFunctionSupported_alt load_store_u nat_less_iff)
  moreover have "nat (f mod 16) = nat (g mod 16) \<longleftrightarrow> f = g"
    using True assms by (metis div_mult_mod_eq nat_eq_iff2 pos_mod_sign zero_less_numeral nat_0_le)
  ultimately show ?thesis using True
    by (auto simp: func_exists_def bit_or_iff bit_exp_iff)
next
  case False
  then have "load_u 2 (p + 2 * (f div 16)) (SetFunctionSupported p g m) = load_u 2 (p + 2 * (f div 16)) m"
    unfolding SetFunctionSupported_alt by (intro load_store_int_disjoint) linarith
  then show ?thesis using False by (auto simp: func_exists_def)
qed

lemma func_exists_fold:
  "0 \<le> f \<Longrightarrow> list_all (\<lambda>g. 0 \<le> g) gs \<Longrightarrow>
   func_exists p f (fold (SetFunctionSupported p) gs m) \<longleftrightarrow> f \<in> set gs \<or> func_exists p f m"
  by (induction gs arbitrary: m) (auto simp: func_exists_set)

lemma func_exists_cleared:
  assumes "0 \<le> f" "f < 4000"
  shows "\<not> func_exists p f (memset p 500 m)"
proof -
  have z: "memset p 500 m x = CHR 0x00" if "p \<le> x" "x < p + 500" for x
    using that by (simp add: memset_def store_bytes_def)
  let ?a = "p + 2 * (f div 16)"
  have b: "0 \<le> f div 16" "f div 16 < 250" using assms by (simp_all add: pos_imp_zdiv_nonneg_iff div_less_iff_less_mult)
  have "load_bytes ?a 2 (memset p 500 m) = [CHR 0x00, CHR 0x00]"
    using z[of ?a] z[of "?a + 1"] b by (simp add: load_bytes_def eval_nat_numeral)
  then have "load_u 2 ?a (memset p 500 m) = 0" by (simp add: load_u_def)
  then show ?thesis by (simp add: func_exists_def)
qed

text \<open>
  After SQLGetFunctions(SQL\_API\_ODBC3\_ALL\_FUNCTIONS) the bit of a function is set exactly when
  the function is in one of the two tables.
\<close>

theorem functions_bitmap:
  assumes "0 \<le> f" "f < 4000"
  shows "func_exists p f (snd (GetFunctions30 fid p m)) \<longleftrightarrow>
    f \<in> set BASE_SUPPORTED_FUNCTIONS \<or> f \<in> set ODBC3_EXTRA_SUPPORTED_FUNCTIONS"
proof -
  have "list_all (\<lambda>g. 0 \<le> g) BASE_SUPPORTED_FUNCTIONS" "list_all (\<lambda>g. 0 \<le> g) ODBC3_EXTRA_SUPPORTED_FUNCTIONS"
    by (simp_all add: BASE_SUPPORTED_FUNCTIONS_def ODBC3_EXTRA_SUPPORTED_FUNCTIONS_def)
  then show ?thesis using assms func_exists_cleared[of f p m]
    by (auto simp: GetFunctions30_def Let_def func_exists_fold)
qed

theorem functions_bitmap_witness:
  "func_exists 64 SQL_API_SQLGETDATA (snd (GetFunctions30 999 64 (\<lambda>_. CHR 0xFF))) \<and>
   \<not> func_exists 64 59 (snd (GetFunctions30 999 64 (\<lambda>_. CHR 0xFF)))"
  using functions_bitmap[of SQL_API_SQLGETDATA 64 999 "\<lambda>_. CHR 0xFF"] functions_bitmap[of 59 64 999 "\<lambda>_. CHR 0xFF"]
  by (simp add: BASE_SUPPORTED_FUNCTIONS_def ODBC3_EXTRA_SUPPORTED_FUNCTIONS_def)

section \<open>The table\<close>

text \<open>Equal data types stand next to each other.\<close>

fun contiguous :: "'a list \<Rightarrow> bool" where
  "contiguous [] \<longleftrightarrow> True" |
  "contiguous (x # xs) \<longleftrightarrow> contiguous xs \<and> x \<notin> set (dropWhile (\<lambda>y. y = x) xs)"

lemma takeWhile_filter:
  "contiguous (map f (t # ts)) \<Longrightarrow> takeWhile (\<lambda>u. f u = f t) (t # ts) = filter (\<lambda>u. f u = f t) (t # ts)"
proof -
  assume c: "contiguous (map f (t # ts))"
  have "takeWhile (\<lambda>u. f u = d) us = filter (\<lambda>u. f u = d) us"
    if "d \<notin> set (dropWhile (\<lambda>y. y = d) (map f us))" for d us
    using that by (induction us) (auto simp: eq_commute[of "[]"] filter_empty_conv split: if_splits)
  from this[of "f t" ts] c show ?thesis by simp
qed

lemma find_run_filter:
  "contiguous (map ti_data_type ts) \<Longrightarrow> find_run dt ts = filter (\<lambda>t. ti_data_type t = dt) ts"
proof (induction ts)
  case (Cons t ts)
  show ?case
  proof (cases "ti_data_type t = dt")
    case True
    then show ?thesis using takeWhile_filter[OF Cons.prems] by simp
  qed (use Cons in simp)
qed simp

lemma find_run_types: "find_run dt ODBC_SUPPORTED_SQL_TYPES = filter (\<lambda>t. ti_data_type t = dt) ODBC_SUPPORTED_SQL_TYPES"
  by (rule find_run_filter) (simp add: ODBC_SUPPORTED_SQL_TYPES_def)

text \<open>
  \<^verbatim>\<open>FindDataType\<close> appends exactly the entries of the table with the data type asked for, in the
  order of the table.
\<close>

theorem FindDataType_filter:
  "FindDataType dt v = v @ filter (\<lambda>t. ti_data_type t = dt) ODBC_SUPPORTED_SQL_TYPES"
  by (simp add: FindDataType_def find_run_types)

text \<open>
  Every engine type maps to a SQL type of the table, except the types reported as unknown and
  the interval (for which the row descriptor takes SQL\_INTERVAL\_DAY\_TO\_SECOND, which is there).
\<close>

theorem related_types_in_table:
  "FindRelatedSQLType t = SQL_UNKNOWN_TYPE \<or> FindRelatedSQLType t = SQL_INTERVAL \<or>
   FindRelatedSQLType t \<in> set (map ti_data_type ODBC_SUPPORTED_SQL_TYPES)"
  by (simp add: FindRelatedSQLType_def ODBC_SUPPORTED_SQL_TYPES_def)

text \<open>A column is never announced wider than its display size.\<close>

lemma if_le_if: "(c \<Longrightarrow> (a::int) \<le> a') \<Longrightarrow> (\<not> c \<Longrightarrow> b \<le> b') \<Longrightarrow> (if c then a else b) \<le> (if c then a' else b')"
  by simp

lemma column_fits_display: "GetColumnSize t \<le> GetDisplaySize t"
  unfolding GetColumnSize_def GetDisplaySize_def Let_def by (intro if_le_if) simp_all

end

