(* ===== verification/Odbc_Handles.thy ===== *)
theory Odbc_Handles
  imports Diagnostic_Api Api_Info
begin

text \<open>
  The state behind the handles of the driver: \<^verbatim>\<open>include/descriptor.hpp\<close>, \<^verbatim>\<open>include/duckdb_odbc.hpp\<close>,
  \<^verbatim>\<open>include/odbc_fetch.hpp\<close>, \<^verbatim>\<open>include/row_descriptor.hpp\<close> and \<^verbatim>\<open>include/parameter_descriptor.hpp\<close>.

  The engine's values are the type variable 'v: the driver only moves them around and asks the
  engine to convert them. A prepared statement and a query result are what the driver reads of
  them. A result is the list of what its Fetch will do: deliver a chunk, set the error of the
  result, or throw; when the list is used up it delivers no chunk. A member the code does not
  initialise is not given a value: the constructors take the object that happens to be in the
  memory and overwrite the members the code sets.
\<close>

section \<open>Parameter values\<close>

text \<open>
  The values the driver builds of the client's parameters, one constructor for every engine
  constructor it calls; floating point numbers are their bytes.
\<close>

datatype ParamValue =
    PNull | PVarchar string | PBlob string
  | PTinyint int | PUtinyint int | PSmallint int | PUsmallint int
  | PInteger int | PUinteger int | PBigint int | PUbigint int
  | PFloat "char list" | PDouble "char list"
  | PDecimal int int int
  | PTimestamp int int int int int int int | PDate int int int | PTime int int int int

section \<open>Descriptors\<close>

record DescRecord =
  sql_desc_auto_unique_value :: int
  sql_desc_base_column_name :: string
  sql_desc_base_table_name :: string
  sql_desc_case_sensitive :: int
  sql_desc_catalog_name :: string
  sql_desc_concise_type :: int
  sql_desc_data_ptr :: addr
  sql_desc_datetime_interval_code :: int
  sql_desc_datetime_interval_precision :: int
  sql_desc_display_size :: int
  sql_desc_fixed_prec_scale :: int
  sql_desc_indicator_ptr :: addr
  sql_desc_label :: string
  sql_desc_length :: int
  sql_desc_literal_prefix :: string
  sql_desc_literal_suffix :: string
  sql_desc_local_type_name :: string
  sql_desc_name :: string
  sql_desc_nullable :: int
  sql_desc_num_prec_radix :: int
  sql_desc_octet_length :: int
  sql_desc_octet_length_ptr :: addr
  sql_desc_parameter_type :: int
  sql_desc_precision :: int
  sql_desc_rowver :: int
  sql_desc_scale :: int
  sql_desc_schema_name :: string
  sql_desc_searchable :: int
  sql_desc_table_name :: string
  sql_desc_type :: int
  sql_desc_type_name :: string
  sql_desc_unnamed :: int
  sql_desc_unsigned :: int
  sql_desc_updatable :: int

record DescHeader =
  sql_desc_alloc_type :: int
  sql_desc_array_size :: int
  sql_desc_array_status_ptr :: addr
  sql_desc_bind_offset_ptr :: addr
  sql_desc_bind_type :: int
  sql_desc_count :: int
  sql_desc_rows_processed_ptr :: addr

text \<open>\<^verbatim>\<open>DescRecord()\<close> on the memory \<^verbatim>\<open>junk\<close>: strings are empty, the members with an initialiser have it.\<close>

definition mk_DescRecord :: "DescRecord \<Rightarrow> DescRecord" where
  "mk_DescRecord junk = junk\<lparr>
     sql_desc_auto_unique_value := SQL_FALSE, sql_desc_base_column_name := [], sql_desc_base_table_name := [],
     sql_desc_case_sensitive := SQL_FALSE, sql_desc_catalog_name := [], sql_desc_label := [],
     sql_desc_literal_prefix := [], sql_desc_literal_suffix := [], sql_desc_local_type_name := [],
     sql_desc_name := [], sql_desc_nullable := SQL_NULLABLE_UNKNOWN, sql_desc_octet_length := 0,
     sql_desc_schema_name := [], sql_desc_table_name := [], sql_desc_type_name := [],
     sql_desc_updatable := SQL_ATTR_READONLY\<rparr>"

definition DescHeader_Reset :: "DescHeader \<Rightarrow> DescHeader" where
  "DescHeader_Reset h = h\<lparr>sql_desc_array_size := 1, sql_desc_array_status_ptr := nullptr,
     sql_desc_count := 0, sql_desc_rows_processed_ptr := nullptr\<rparr>"

text \<open>\<^verbatim>\<open>DescHeader()\<close>: the member initialisers, then \<^verbatim>\<open>Reset\<close>.\<close>

definition mk_DescHeader :: "DescHeader \<Rightarrow> DescHeader" where
  "mk_DescHeader junk = DescHeader_Reset (junk\<lparr>sql_desc_array_size := 1,
     sql_desc_bind_offset_ptr := nullptr, sql_desc_bind_type := SQL_BIND_TYPE_DEFAULT\<rparr>)"

text \<open>
  \<^verbatim>\<open>OdbcHandleDesc\<close>: \<^verbatim>\<open>desc_dbc\<close> and \<^verbatim>\<open>desc_stmt\<close> are the addresses of its connection and statement.
\<close>

record OdbcHandleDesc =
  desc_diag :: OdbcDiagnostic
  desc_header :: DescHeader
  desc_records :: "DescRecord list"
  desc_dbc :: addr
  desc_stmt :: addr

definition mk_OdbcHandleDesc :: "DescHeader \<Rightarrow> addr \<Rightarrow> addr \<Rightarrow> bool \<Rightarrow> OdbcHandleDesc" where
  "mk_OdbcHandleDesc junk dbc_ptr stmt_ptr explicit_desc =
     \<lparr>desc_diag = mk_OdbcDiagnostic,
      desc_header = (mk_DescHeader junk)\<lparr>sql_desc_alloc_type :=
        (if explicit_desc then SQL_DESC_ALLOC_USER else SQL_DESC_ALLOC_AUTO)\<rparr>,
      desc_records = [], desc_dbc = dbc_ptr, desc_stmt = stmt_ptr\<rparr>"

text \<open>
  The row and the parameter descriptors of a statement own their implicit descriptors. The pointer
  to the current application descriptor is None when it is the implicit one and otherwise the
  address of an explicit one.
\<close>

record RowDescriptor =
  ard :: OdbcHandleDesc
  ird :: OdbcHandleDesc
  cur_ard :: "addr option"

record ParameterDescriptor =
  apd :: OdbcHandleDesc
  ipd :: OdbcHandleDesc
  cur_apd :: "addr option"
  pool_allocated_ptr :: "addr list"
  paramset_idx :: int
  cur_paramset_idx :: int
  cur_param_idx :: int
  param_values :: "ParamValue list"

definition mk_RowDescriptor :: "DescHeader \<Rightarrow> DescHeader \<Rightarrow> addr \<Rightarrow> RowDescriptor" where
  "mk_RowDescriptor j1 j2 dbc =
     \<lparr>ard = mk_OdbcHandleDesc j1 dbc nullptr False, ird = mk_OdbcHandleDesc j2 dbc nullptr False,
      cur_ard = None\<rparr>"

definition mk_ParameterDescriptor :: "DescHeader \<Rightarrow> DescHeader \<Rightarrow> addr \<Rightarrow> ParameterDescriptor" where
  "mk_ParameterDescriptor j1 j2 dbc =
     \<lparr>apd = mk_OdbcHandleDesc j1 dbc nullptr False, ipd = mk_OdbcHandleDesc j2 dbc nullptr False,
      cur_apd = None, pool_allocated_ptr = [], paramset_idx = 0, cur_paramset_idx = 0, cur_param_idx = 0,
      param_values = []\<rparr>"

section \<open>What the driver reads of the engine\<close>

text \<open>A chunk is the list of its rows, a row the list of its values.\<close>

type_synonym 'v chunk = "'v list list"

datatype 'v fetch_event = Fetched "'v chunk" | Failed string | Threw string

record 'v QueryResult =
  res_events :: "'v fetch_event list"
  res_error :: "string option"
  res_types :: "LogicalType list"
  res_names :: "string list"
  res_is_query :: bool

text \<open>\<^verbatim>\<open>QueryResult::Fetch\<close>: Inl is the exception, \<^verbatim>\<open>Inr None\<close> the null chunk.\<close>

definition result_fetch :: "'v QueryResult \<Rightarrow> (string + 'v chunk option) \<times> 'v QueryResult" where
  "result_fetch r =
     (case res_events r of
        [] \<Rightarrow> (Inr None, r)
      | Fetched c # es \<Rightarrow> (Inr (Some c), r\<lparr>res_events := es\<rparr>)
      | Failed msg # es \<Rightarrow> (Inr None, r\<lparr>res_events := es, res_error := Some msg\<rparr>)
      | Threw msg # es \<Rightarrow> (Inl msg, r\<lparr>res_events := es\<rparr>))"

datatype StatementType =
    INSERT_STATEMENT | UPDATE_STATEMENT | DELETE_STATEMENT | SELECT_STATEMENT | CALL_STATEMENT
  | EXECUTE_STATEMENT | EXPLAIN_STATEMENT | EXTENSION_STATEMENT | OTHER_STATEMENT

record PreparedStatement =
  ps_query :: string
  ps_error :: "string option"
  bound_all_parameters :: bool
  ps_types :: "LogicalType list"
  ps_names :: "string list"
  named_param_count :: nat
  ps_statement_type :: StatementType
  ps_param_type :: "nat \<Rightarrow> int"

definition ColumnCount :: "PreparedStatement \<Rightarrow> nat" where
  "ColumnCount s = length (ps_types s)"

section \<open>The fetcher\<close>

text \<open>
  A chunk of \<^verbatim>\<open>chunks\<close> is an object with an identity; \<^verbatim>\<open>current_chunk\<close> points to one (None is the null
  pointer) and dangles when no chunk of the list has its identity. \<^verbatim>\<open>next_chunk\<close> is the identity the
  next allocated chunk gets.
\<close>

record 'v OdbcFetch =
  cursor_type :: int
  cursor_scrollable :: int
  row_count :: int
  last_col_idx :: int
  last_row_idx :: int
  last_length :: int
  chunks :: "(nat \<times> 'v chunk) list"
  current_chunk_idx :: int
  current_chunk :: "nat option"
  chunk_row :: int
  prior_chunk_row :: int
  resultset_end :: bool
  next_chunk :: nat

definition ResetLastFetchedVariableVal :: "'v OdbcFetch \<Rightarrow> 'v OdbcFetch" where
  "ResetLastFetchedVariableVal f = f\<lparr>last_col_idx := - 1, last_row_idx := - 1, last_length := 0\<rparr>"

text \<open>The constructor leaves \<^verbatim>\<open>current_chunk_idx\<close>, \<^verbatim>\<open>current_chunk\<close> and the two row positions as they are.\<close>

definition mk_OdbcFetch :: "'v OdbcFetch \<Rightarrow> 'v OdbcFetch" where
  "mk_OdbcFetch junk = ResetLastFetchedVariableVal (junk\<lparr>cursor_type := SQL_CURSOR_FORWARD_ONLY,
     cursor_scrollable := SQL_NONSCROLLABLE, row_count := 0, chunks := [], resultset_end := False\<rparr>)"

section \<open>Statements\<close>

record OdbcBoundCol =
  bc_type :: int
  bc_ptr :: addr
  bc_len :: int
  bc_strlen_or_ind :: addr

definition mk_OdbcBoundCol :: OdbcBoundCol where
  "mk_OdbcBoundCol = \<lparr>bc_type = SQL_UNKNOWN_TYPE, bc_ptr = nullptr, bc_len = 0, bc_strlen_or_ind = nullptr\<rparr>"

definition IsBound :: "OdbcBoundCol \<Rightarrow> bool" where
  "IsBound c \<longleftrightarrow> bc_ptr c \<noteq> nullptr"

definition IsVarcharBound :: "OdbcBoundCol \<Rightarrow> bool" where
  "IsVarcharBound c \<longleftrightarrow> IsCharType (bc_type c) \<and> bc_strlen_or_ind c \<noteq> nullptr"

record 'v OdbcHandleStmt =
  st_diag :: OdbcDiagnostic
  st_dbc :: addr
  st_stmt :: "PreparedStatement option"
  st_res :: "'v QueryResult option"
  bound_cols :: "OdbcBoundCol list"
  st_open :: bool
  retrieve_data :: int
  rows_fetched_ptr :: addr
  client_max_len :: int
  odbc_fetcher :: "'v OdbcFetch"
  param_desc :: "ParameterDescriptor"
  row_desc :: RowDescriptor

definition IsPrepared :: "'v OdbcHandleStmt \<Rightarrow> bool" where
  "IsPrepared h \<longleftrightarrow> st_stmt h \<noteq> None"

text \<open>\<^verbatim>\<open>OdbcHandleStmt(dbc_p)\<close>; \<^verbatim>\<open>open\<close> is not initialised.\<close>

definition mk_OdbcHandleStmt ::
  "'v OdbcHandleStmt \<Rightarrow> DescHeader \<times> DescHeader \<times> DescHeader \<times> DescHeader \<Rightarrow> addr \<Rightarrow> 'v OdbcHandleStmt" where
  "mk_OdbcHandleStmt junk js dbc_p =
     (case js of (j1, j2, j3, j4) \<Rightarrow>
        junk\<lparr>st_diag := mk_OdbcDiagnostic, st_dbc := dbc_p, st_stmt := None, st_res := None, bound_cols := [],
          retrieve_data := SQL_RD_ON, rows_fetched_ptr := nullptr, client_max_len := 0,
          odbc_fetcher := mk_OdbcFetch (odbc_fetcher junk),
          param_desc := mk_ParameterDescriptor j1 j2 dbc_p, row_desc := mk_RowDescriptor j3 j4 dbc_p\<rparr>)"

text \<open>\<^verbatim>\<open>SetDiagnosticRecord\<close> on a statement; \<^verbatim>\<open>dsn\<close> is \<^verbatim>\<open>hstmt->dbc->GetDataSourceName()\<close>.\<close>

definition stmt_diag ::
  "'v OdbcHandleStmt \<Rightarrow> int \<Rightarrow> string \<Rightarrow> string \<Rightarrow> SQLStateType \<Rightarrow> string \<Rightarrow> int \<times> 'v OdbcHandleStmt" where
  "stmt_diag h ret component msg state dsn =
     (let (r, d) = SetDiagnosticRecord (st_diag h) ret component msg state dsn in (r, h\<lparr>st_diag := d\<rparr>))"

lemma fst_stmt_diag [simp]: "fst (stmt_diag h ret c msg st dsn) = ret"
  by (simp add: stmt_diag_def SetDiagnosticRecord_def Let_def)

lemma stmt_diag_frame [simp]:
  "odbc_fetcher (snd (stmt_diag h ret c msg st dsn)) = odbc_fetcher h"
  "st_res (snd (stmt_diag h ret c msg st dsn)) = st_res h"
  "st_open (snd (stmt_diag h ret c msg st dsn)) = st_open h"
  "row_desc (snd (stmt_diag h ret c msg st dsn)) = row_desc h"
  "bound_cols (snd (stmt_diag h ret c msg st dsn)) = bound_cols h"
  "st_stmt (snd (stmt_diag h ret c msg st dsn)) = st_stmt h"
  "param_desc (snd (stmt_diag h ret c msg st dsn)) = param_desc h"
  "rows_fetched_ptr (snd (stmt_diag h ret c msg st dsn)) = rows_fetched_ptr h"
  by (simp_all add: stmt_diag_def SetDiagnosticRecord_def Let_def)

text \<open>\<^verbatim>\<open>SQL_SUCCEEDED\<close> and the rowset size every use of the fetcher reads: that of the implicit ARD.\<close>

definition SQL_SUCCEEDED :: "int \<Rightarrow> bool" where
  "SQL_SUCCEEDED ret \<longleftrightarrow> ret = SQL_SUCCESS \<or> ret = SQL_SUCCESS_WITH_INFO"

lemma SQL_SUCCEEDED_simps [simp]:
  "SQL_SUCCEEDED 0" "SQL_SUCCEEDED 1" "\<not> SQL_SUCCEEDED 100" "\<not> SQL_SUCCEEDED (- 1)"
  by (simp_all add: SQL_SUCCEEDED_def)

definition ard_array_size :: "'v OdbcHandleStmt \<Rightarrow> int" where
  "ard_array_size h = sql_desc_array_size (desc_header (ard (row_desc h)))"

lemma ard_array_size_frame [simp]:
  "ard_array_size (h\<lparr>odbc_fetcher := f\<rparr>) = ard_array_size h"
  "ard_array_size (h\<lparr>st_res := r\<rparr>) = ard_array_size h"
  "ard_array_size (h\<lparr>st_open := b\<rparr>) = ard_array_size h"
  "ard_array_size (snd (stmt_diag h ret c msg st dsn)) = ard_array_size h"
  by (simp_all add: ard_array_size_def)

section \<open>Samples\<close>

text \<open>A descriptor and a record, with which the theorems are applied.\<close>

definition sample_desc :: OdbcHandleDesc where
  "sample_desc = mk_OdbcHandleDesc \<lparr>sql_desc_alloc_type = 0, sql_desc_array_size = 0,
     sql_desc_array_status_ptr = nullptr, sql_desc_bind_offset_ptr = nullptr, sql_desc_bind_type = 0,
     sql_desc_count = 0, sql_desc_rows_processed_ptr = nullptr\<rparr> 16 nullptr False"

definition sample_record :: DescRecord where
  "sample_record = \<lparr>sql_desc_auto_unique_value = 0, sql_desc_base_column_name = [],
     sql_desc_base_table_name = [], sql_desc_case_sensitive = 0, sql_desc_catalog_name = [],
     sql_desc_concise_type = 0, sql_desc_data_ptr = 0, sql_desc_datetime_interval_code = 0,
     sql_desc_datetime_interval_precision = 0, sql_desc_display_size = 0,
     sql_desc_fixed_prec_scale = 0, sql_desc_indicator_ptr = 0, sql_desc_label = [],
     sql_desc_length = 0, sql_desc_literal_prefix = [], sql_desc_literal_suffix = [],
     sql_desc_local_type_name = [], sql_desc_name = [], sql_desc_nullable = 0,
     sql_desc_num_prec_radix = 0, sql_desc_octet_length = 0, sql_desc_octet_length_ptr = 0,
     sql_desc_parameter_type = 0, sql_desc_precision = 0, sql_desc_rowver = 0,
     sql_desc_scale = 0, sql_desc_schema_name = [], sql_desc_searchable = 0,
     sql_desc_table_name = [], sql_desc_type = 0, sql_desc_type_name = [],
     sql_desc_unnamed = 0, sql_desc_unsigned = 0, sql_desc_updatable = 0\<rparr>"

lemma sample_desc_simps [simp]:
  "desc_stmt sample_desc = nullptr" "desc_records sample_desc = []"
  "sql_desc_array_size (desc_header sample_desc) = 1" "sql_desc_count (desc_header sample_desc) = 0"
  by (simp_all add: sample_desc_def mk_OdbcHandleDesc_def mk_DescHeader_def DescHeader_Reset_def)

end
