(* ===== verification/Odbc_Cursor.thy ===== *)
theory Odbc_Cursor
  imports Odbc_Handles "HOL-Library.Monad_Syntax"
begin

text \<open>
  The positioning half of \<^verbatim>\<open>src/odbc_driver/common/odbc_fetch.cpp\<close>: moving over the chunks of a
  result. None stands for what the code does not survive: the dereference of a null or dangling
  pointer and an index out of range. The two loops that need not end (\<^verbatim>\<open>Materialize\<close> and the
  recursion of \<^verbatim>\<open>SetAbsoluteCurrentChunk\<close>) are partial functions.
\<close>

abbreviation (input) RETURN_FETCH_BEFORE_START :: int where "RETURN_FETCH_BEFORE_START \<equiv> 999"
abbreviation (input) SINGLE_VALUE_FETCH :: int where "SINGLE_VALUE_FETCH \<equiv> 1"

section \<open>The fetcher's accessors\<close>

definition deref_chunk :: "'v OdbcFetch \<Rightarrow> 'v chunk option" where
  "deref_chunk f = (case current_chunk f of None \<Rightarrow> None | Some p \<Rightarrow> map_of (chunks f) p)"

definition ClearChunks :: "'v OdbcFetch \<Rightarrow> 'v OdbcFetch" where
  "ClearChunks f = f\<lparr>chunks := [], current_chunk := None, chunk_row := - 1, prior_chunk_row := - 1,
     row_count := 0, resultset_end := False\<rparr>"

definition SetLastFetchedVariableVal :: "int \<Rightarrow> 'v OdbcFetch \<Rightarrow> 'v OdbcFetch" where
  "SetLastFetchedVariableVal col_idx f =
     (let f = (if last_col_idx f \<noteq> col_idx \<or> last_row_idx f \<noteq> chunk_row f then f\<lparr>last_length := 0\<rparr> else f)
      in f\<lparr>last_col_idx := col_idx, last_row_idx := chunk_row f\<rparr>)"

definition SetLastFetchedLength :: "int \<Rightarrow> 'v OdbcFetch \<Rightarrow> 'v OdbcFetch" where
  "SetLastFetchedLength new_len f = f\<lparr>last_length := new_len\<rparr>"

definition GetLastFetchedLength :: "'v OdbcFetch \<Rightarrow> int" where
  "GetLastFetchedLength f = last_length f"

definition IsInExecutionState :: "'v OdbcFetch \<Rightarrow> bool" where
  "IsInExecutionState f \<longleftrightarrow> chunks f \<noteq> [] \<and> current_chunk f \<noteq> None"

definition GetRowCount :: "'v OdbcFetch \<Rightarrow> int option" where
  "GetRowCount f =
     (if current_chunk f = None then Some (row_count f)
      else do { c \<leftarrow> deref_chunk f; Some (max (row_count f) (int (length c))) })"

definition RequireFetch :: "'v OdbcFetch \<Rightarrow> bool" where
  "RequireFetch f \<longleftrightarrow> chunks f = [] \<or> chunk_row f \<ge> int (length (snd (last (chunks f)))) - 1"

text \<open>The sum and the comparison are unsigned.\<close>

definition IncreaseRowCount :: "int \<Rightarrow> 'v OdbcFetch \<Rightarrow> 'v OdbcFetch option" where
  "IncreaseRowCount n f = do {
     c \<leftarrow> deref_chunk f;
     if wrap_u 64 (chunk_row f + n) < int (length c)
     then Some (f\<lparr>row_count := wrap_s 64 (row_count f + n)\<rparr>)
     else Some (f\<lparr>row_count := wrap_s 64 (row_count f + (int (length c) - chunk_row f))\<rparr>) }"

section \<open>Moving between chunks\<close>

definition SetCurrentChunk :: "'v OdbcFetch \<Rightarrow> (int \<times> 'v OdbcFetch) option" where
  "SetCurrentChunk f =
     (if chunks f = [] then Some (SQL_NO_DATA, f)
      else if cursor_type f \<noteq> SQL_CURSOR_FORWARD_ONLY \<and> current_chunk_idx f < int (length (chunks f)) - 1 then
        let i = current_chunk_idx f + 1 in
        if 0 \<le> i then Some (SQL_SUCCESS, f\<lparr>current_chunk_idx := i,
            current_chunk := Some (fst (chunks f ! nat i)), chunk_row := - 1, prior_chunk_row := - 1\<rparr>)
        else None
      else Some (SQL_SUCCESS, f\<lparr>current_chunk := Some (fst (last (chunks f))),
            current_chunk_idx := int (length (chunks f)) - 1, chunk_row := - 1, prior_chunk_row := - 1\<rparr>))"

definition SetPriorCurrentChunk :: "int \<Rightarrow> 'v OdbcFetch \<Rightarrow> (int \<times> 'v OdbcFetch) option" where
  "SetPriorCurrentChunk n f =
     (let f = f\<lparr>prior_chunk_row := wrap_s 64 (prior_chunk_row f - n)\<rparr> in
      if current_chunk_idx f = 0 \<and> prior_chunk_row f < - 1 then Some (SQL_NO_DATA, f\<lparr>chunk_row := - 1\<rparr>)
      else if prior_chunk_row f < - 1 then
        let i = current_chunk_idx f - 1 in
        if 0 \<le> i \<and> i < int (length (chunks f)) then
          let p = chunks f ! nat i;
              row = wrap_s 64 (int (length (snd p)) - n - 1);
              row = (if row < 0 then - 1 else row)
          in Some (SQL_SUCCESS, f\<lparr>current_chunk_idx := i, current_chunk := Some (fst p),
               prior_chunk_row := row, chunk_row := row\<rparr>)
        else None
      else Some (SQL_SUCCESS, f\<lparr>chunk_row := prior_chunk_row f\<rparr>))"

definition BeforeStart :: "'v OdbcFetch \<Rightarrow> int \<times> 'v OdbcFetch" where
  "BeforeStart f =
     (RETURN_FETCH_BEFORE_START,
      (if chunks f \<noteq> [] then f\<lparr>current_chunk := Some (fst (hd (chunks f)))\<rparr> else f)
        \<lparr>current_chunk_idx := 0, chunk_row := - 1, prior_chunk_row := - 1\<rparr>)"

text \<open>
  \<^verbatim>\<open>FetchNext\<close>: the result is asked for a chunk unless its end was reached; an error and an exception
  close the statement.
\<close>

definition FetchNext :: "string \<Rightarrow> 'v OdbcHandleStmt \<Rightarrow> (int \<times> 'v OdbcHandleStmt) option" where
  "FetchNext dsn h =
     (let set_current = (\<lambda>h. do { (ret, f) \<leftarrow> SetCurrentChunk (odbc_fetcher h); Some (ret, h\<lparr>odbc_fetcher := f\<rparr>) });
          fail = (\<lambda>msg h. Some (stmt_diag (h\<lparr>st_open := False\<rparr>) SQL_ERROR ''FetchNext'' msg ST_HY000 dsn))
      in
      if resultset_end (odbc_fetcher h) then set_current h
      else
        let h = h\<lparr>odbc_fetcher := ResetLastFetchedVariableVal (odbc_fetcher h)\<rparr> in
        case st_res h of
          None \<Rightarrow> None
        | Some res \<Rightarrow>
          (case result_fetch res of
             (Inl msg, res) \<Rightarrow> fail msg (h\<lparr>st_res := Some (res\<lparr>res_error := Some msg\<rparr>)\<rparr>)
           | (Inr chunk, res) \<Rightarrow>
             let h = h\<lparr>st_res := Some res\<rparr>; f = odbc_fetcher h in
             case res_error res of
               Some msg \<Rightarrow> fail msg h
             | None \<Rightarrow>
               (case chunk of
                  None \<Rightarrow> Some (SQL_NO_DATA, h\<lparr>odbc_fetcher := f\<lparr>resultset_end := True\<rparr>\<rparr>)
                | Some c \<Rightarrow>
                  if c = [] then Some (SQL_NO_DATA, h\<lparr>odbc_fetcher := f\<lparr>resultset_end := True\<rparr>\<rparr>)
                  else
                    let kept = (if cursor_type f = SQL_CURSOR_FORWARD_ONLY then [] else chunks f)
                    in set_current (h\<lparr>odbc_fetcher := f\<lparr>chunks := kept @ [(next_chunk f, c)],
                         next_chunk := next_chunk f + 1\<rparr>\<rparr>))))"

definition SetFirstCurrentChunk :: "string \<Rightarrow> 'v OdbcHandleStmt \<Rightarrow> (int \<times> 'v OdbcHandleStmt) option" where
  "SetFirstCurrentChunk dsn h =
     (let h = h\<lparr>odbc_fetcher := snd (BeforeStart (odbc_fetcher h))\<rparr> in
      if current_chunk (odbc_fetcher h) = None then FetchNext dsn h else Some (SQL_SUCCESS, h))"

partial_function (option) SetAbsoluteCurrentChunk ::
  "string \<Rightarrow> int \<Rightarrow> 'v OdbcHandleStmt \<Rightarrow> (int \<times> 'v OdbcHandleStmt) option" where
  "SetAbsoluteCurrentChunk dsn fetch_offset h = do {
     h \<leftarrow> (if current_chunk (odbc_fetcher h) = None \<or> chunks (odbc_fetcher h) = []
           then map_option snd (FetchNext dsn h) else Some h);
     c \<leftarrow> deref_chunk (odbc_fetcher h);
     (let f = odbc_fetcher h; n = int (length c);
          at = (\<lambda>row. Some (SQL_SUCCESS, h\<lparr>odbc_fetcher := f\<lparr>chunk_row := row, prior_chunk_row := row\<rparr>\<rparr>));
          bof = (case BeforeStart f of (ret, f) \<Rightarrow> Some (ret, h\<lparr>odbc_fetcher := f\<rparr>))
      in
      if fetch_offset > n \<and> resultset_end f then Some (SQL_NO_DATA, h)
      else if fetch_offset < 0 \<and> \<bar>fetch_offset\<bar> \<le> n then
        at (max (- 1) (chunk_row f + fetch_offset + 1))
      else if fetch_offset < 0 \<and> \<bar>fetch_offset\<bar> > chunk_row f \<and> \<bar>fetch_offset\<bar> > ard_array_size h then bof
      else if fetch_offset < 0 \<and> \<bar>fetch_offset\<bar> > chunk_row f \<and> \<bar>fetch_offset\<bar> \<le> ard_array_size h then at 0
      else if fetch_offset = 0 then bof
      else if fetch_offset \<ge> 0 \<and> fetch_offset < n then at (fetch_offset - 1)
      else if fetch_offset \<ge> n then do {
        r \<leftarrow> FetchNext dsn h;
        (let h = snd r in
         if fst r \<noteq> SQL_SUCCESS then
           Some (fst r, h\<lparr>odbc_fetcher := (odbc_fetcher h)\<lparr>current_chunk_idx := 0\<rparr>\<rparr>)
         else do {
           c \<leftarrow> deref_chunk (odbc_fetcher h);
           SetAbsoluteCurrentChunk dsn (fetch_offset - int (length c)) h }) }
      else Some (SQL_ERROR, h)) }"

definition FetchNextChunk ::
  "string \<Rightarrow> int \<Rightarrow> int \<Rightarrow> 'v OdbcHandleStmt \<Rightarrow> (int \<times> 'v OdbcHandleStmt) option" where
  "FetchNextChunk dsn fetch_orientation fetch_offset h =
     (let f = odbc_fetcher h in
      if cursor_type f = SQL_CURSOR_FORWARD_ONLY \<and> fetch_orientation \<noteq> SQL_FETCH_NEXT then
        Some (stmt_diag h SQL_ERROR ''FetchNextChunk''
          ''Incorrect fetch orientation for cursor type: SQL_CURSOR_FORWARD_ONLY.'' ST_24000 dsn)
      else if fetch_orientation = SQL_FETCH_NEXT then
        let f = f\<lparr>prior_chunk_row := chunk_row f\<rparr>; h = h\<lparr>odbc_fetcher := f\<rparr> in
        if RequireFetch f then
          if resultset_end f \<and> current_chunk_idx f = wrap_u 64 (int (length (chunks f)) - 1)
          then Some (SQL_NO_DATA, h) else FetchNext dsn h
        else Some (SQL_SUCCESS, h)
      else if fetch_orientation = SQL_FETCH_PRIOR then
        do { (ret, f) \<leftarrow> SetPriorCurrentChunk (ard_array_size h) f; Some (ret, h\<lparr>odbc_fetcher := f\<rparr>) }
      else if fetch_orientation = SQL_FETCH_ABSOLUTE then SetAbsoluteCurrentChunk dsn fetch_offset h
      else if fetch_orientation = SQL_FETCH_FIRST then SetFirstCurrentChunk dsn h
      else Some (SQL_SUCCESS, h))"

text \<open>The cursor type is dynamic while the first chunk is fetched.\<close>

definition FetchFirst :: "string \<Rightarrow> 'v OdbcHandleStmt \<Rightarrow> (int \<times> 'v OdbcHandleStmt) option" where
  "FetchFirst dsn h =
     (let before = cursor_type (odbc_fetcher h);
          h = h\<lparr>odbc_fetcher := (odbc_fetcher h)\<lparr>cursor_type := SQL_CURSOR_DYNAMIC\<rparr>\<rparr>
      in do { (ret, h) \<leftarrow> FetchNextChunk dsn SQL_FETCH_FIRST 0 h;
              Some (ret, h\<lparr>odbc_fetcher := (odbc_fetcher h)\<lparr>cursor_type := before\<rparr>\<rparr>) })"

text \<open>
  The loop of \<^verbatim>\<open>Materialize\<close>: the outer None is a loop that does not end, the inner one a step that is
  not survived.
\<close>

partial_function (option) materialize_loop ::
  "string \<Rightarrow> 'v OdbcHandleStmt \<Rightarrow> (int \<times> 'v OdbcHandleStmt) option option" where
  "materialize_loop dsn h =
     (case FetchNext dsn h of
        None \<Rightarrow> Some None
      | Some (ret, h) \<Rightarrow> if SQL_SUCCEEDED ret then materialize_loop dsn h else Some (Some (ret, h)))"

definition restore_position :: "'v OdbcFetch \<Rightarrow> 'v OdbcFetch \<Rightarrow> 'v OdbcFetch" where
  "restore_position before f =
     (if current_chunk before \<noteq> None then
        f\<lparr>current_chunk := current_chunk before, current_chunk_idx := current_chunk_idx before,
          chunk_row := chunk_row before, prior_chunk_row := prior_chunk_row before\<rparr>
      else (if chunks f \<noteq> [] then f\<lparr>current_chunk := Some (fst (hd (chunks f)))\<rparr> else f)
        \<lparr>current_chunk_idx := 0, chunk_row := - 1, prior_chunk_row := - 1\<rparr>)"

definition Materialize :: "string \<Rightarrow> 'v OdbcHandleStmt \<Rightarrow> (int \<times> 'v OdbcHandleStmt) option option" where
  "Materialize dsn h =
     map_option (map_option (\<lambda>(ret, h').
       (if ret = SQL_NO_DATA \<or> ret = SQL_SUCCESS then SQL_SUCCESS else ret,
        h'\<lparr>odbc_fetcher := restore_position (odbc_fetcher h) (odbc_fetcher h')\<rparr>)))
     (materialize_loop dsn h)"

definition GetValue :: "nat \<Rightarrow> 'v OdbcFetch \<Rightarrow> (int \<times> 'v option) option" where
  "GetValue col_idx f =
     (if current_chunk f = None then Some (SQL_ERROR, None)
      else do {
        c \<leftarrow> deref_chunk f;
        if 0 \<le> chunk_row f \<and> chunk_row f < int (length c) \<and> col_idx < length (c ! nat (chunk_row f))
        then Some (SQL_SUCCESS, Some (c ! nat (chunk_row f) ! col_idx)) else None })"

section \<open>Lemmas on the positioning\<close>

lemma result_fetch_simps [simp]:
  "res_events r = [] \<Longrightarrow> result_fetch r = (Inr None, r)"
  "res_events r = Fetched c # es \<Longrightarrow> result_fetch r = (Inr (Some c), r\<lparr>res_events := es\<rparr>)"
  by (simp_all add: result_fetch_def)

lemma ResetLast_simps [simp]:
  "chunks (ResetLastFetchedVariableVal f) = chunks f"
  "cursor_type (ResetLastFetchedVariableVal f) = cursor_type f"
  "current_chunk_idx (ResetLastFetchedVariableVal f) = current_chunk_idx f"
  "current_chunk (ResetLastFetchedVariableVal f) = current_chunk f"
  "chunk_row (ResetLastFetchedVariableVal f) = chunk_row f"
  "prior_chunk_row (ResetLastFetchedVariableVal f) = prior_chunk_row f"
  "resultset_end (ResetLastFetchedVariableVal f) = resultset_end f"
  "next_chunk (ResetLastFetchedVariableVal f) = next_chunk f"
  "row_count (ResetLastFetchedVariableVal f) = row_count f"
  by (simp_all add: ResetLastFetchedVariableVal_def)

lemma deref_chunk_cong [simp]:
  "deref_chunk (ResetLastFetchedVariableVal f) = deref_chunk f"
  "deref_chunk (f\<lparr>resultset_end := b\<rparr>) = deref_chunk f"
  "deref_chunk (f\<lparr>chunk_row := i\<rparr>) = deref_chunk f"
  "deref_chunk (f\<lparr>prior_chunk_row := i\<rparr>) = deref_chunk f"
  "deref_chunk (f\<lparr>row_count := i\<rparr>) = deref_chunk f"
  "deref_chunk (f\<lparr>current_chunk_idx := i\<rparr>) = deref_chunk f"
  by (simp_all add: deref_chunk_def split: option.split)

text \<open>The result has chunks to deliver and no error.\<close>

definition pending :: "'v OdbcHandleStmt \<Rightarrow> 'v chunk list \<Rightarrow> bool" where
  "pending h cs \<longleftrightarrow> (\<exists>r. st_res h = Some r \<and> res_error r = None \<and> res_events r = map Fetched cs) \<and> [] \<notin> set cs"

lemma pending_frame [simp]:
  "pending (h\<lparr>odbc_fetcher := f\<rparr>) cs = pending h cs"
  by (simp add: pending_def)

text \<open>The fetcher with a chunk appended and made the current one.\<close>

definition append_chunk :: "'v chunk \<Rightarrow> 'v OdbcFetch \<Rightarrow> 'v OdbcFetch" where
  "append_chunk c f =
     (let kept = (if cursor_type f = SQL_CURSOR_FORWARD_ONLY then [] else chunks f)
      in (ResetLastFetchedVariableVal f)\<lparr>chunks := kept @ [(next_chunk f, c)], next_chunk := next_chunk f + 1\<rparr>)"

lemma FetchNext_chunk:
  assumes "\<not> resultset_end (odbc_fetcher h)" "pending h (c # cs)"
  obtains h' where
    "FetchNext dsn h = map_option (\<lambda>(ret, f). (ret, h'\<lparr>odbc_fetcher := f\<rparr>))
       (SetCurrentChunk (append_chunk c (odbc_fetcher h)))"
    "pending h' cs" "\<And>f. ard_array_size (h'\<lparr>odbc_fetcher := f\<rparr>) = ard_array_size h"
    "bound_cols h' = bound_cols h" "rows_fetched_ptr h' = rows_fetched_ptr h" "row_desc h' = row_desc h"
    "st_stmt h' = st_stmt h" "retrieve_data h' = retrieve_data h" "st_open h' = st_open h"
proof -
  obtain r where r: "st_res h = Some r" "res_error r = None" "res_events r = Fetched c # map Fetched cs"
    and c: "c \<noteq> []" and cs: "[] \<notin> set cs"
    using assms(2) by (auto simp: pending_def)
  let ?h' = "h\<lparr>st_res := Some (r\<lparr>res_events := map Fetched cs\<rparr>)\<rparr>"
  have "FetchNext dsn h = map_option (\<lambda>(ret, f). (ret, ?h'\<lparr>odbc_fetcher := f\<rparr>))
       (SetCurrentChunk (append_chunk c (odbc_fetcher h)))"
    using assms(1) r c
    by (simp add: FetchNext_def Let_def append_chunk_def map_conv_bind_option split: option.split prod.split)
       (simp add: split_def comp_def)
  moreover have "pending ?h' cs" using r cs by (simp add: pending_def)
  ultimately show thesis using that by (simp add: ard_array_size_def)
qed

lemma FetchNext_end:
  assumes "\<not> resultset_end (odbc_fetcher h)" "pending h []"
  shows "FetchNext dsn h = Some (SQL_NO_DATA, h\<lparr>odbc_fetcher :=
           (ResetLastFetchedVariableVal (odbc_fetcher h))\<lparr>resultset_end := True\<rparr>\<rparr>)"
  using assms by (auto simp: FetchNext_def pending_def Let_def)

lemma FetchNext_at_end:
  assumes "resultset_end (odbc_fetcher h)"
  shows "FetchNext dsn h = map_option (\<lambda>(ret, f). (ret, h\<lparr>odbc_fetcher := f\<rparr>)) (SetCurrentChunk (odbc_fetcher h))"
  using assms by (simp add: FetchNext_def Let_def map_conv_bind_option split_def comp_def)

lemma SetCurrentChunk_last:
  assumes "chunks f \<noteq> []" "cursor_type f = SQL_CURSOR_FORWARD_ONLY \<or> current_chunk_idx f \<ge> int (length (chunks f)) - 1"
  shows "SetCurrentChunk f = Some (SQL_SUCCESS, f\<lparr>current_chunk := Some (fst (last (chunks f))),
            current_chunk_idx := int (length (chunks f)) - 1, chunk_row := - 1, prior_chunk_row := - 1\<rparr>)"
  using assms by (auto simp: SetCurrentChunk_def)

lemma SetCurrentChunk_next:
  assumes "cursor_type f \<noteq> SQL_CURSOR_FORWARD_ONLY" "0 \<le> current_chunk_idx f"
    "current_chunk_idx f < int (length (chunks f)) - 1"
  shows "SetCurrentChunk f = Some (SQL_SUCCESS, f\<lparr>current_chunk_idx := current_chunk_idx f + 1,
            current_chunk := Some (fst (chunks f ! nat (current_chunk_idx f + 1))), chunk_row := - 1,
            prior_chunk_row := - 1\<rparr>)"
proof -
  have "chunks f \<noteq> []" using assms by auto
  then show ?thesis using assms by (simp add: SetCurrentChunk_def Let_def)
qed

section \<open>Materialize\<close>

lemma SetCurrentChunk_succeeds:
  assumes "chunks f \<noteq> []" "0 \<le> current_chunk_idx f"
  obtains f' where "SetCurrentChunk f = Some (SQL_SUCCESS, f')" "chunks f' = chunks f"
    "resultset_end f' = resultset_end f" "0 \<le> current_chunk_idx f'" "cursor_type f' = cursor_type f"
    "next_chunk f' = next_chunk f"
proof (cases "cursor_type f = SQL_CURSOR_FORWARD_ONLY \<or> current_chunk_idx f \<ge> int (length (chunks f)) - 1")
  case True
  have "0 \<le> int (length (chunks f)) - 1" using assms(1) by (cases "chunks f") auto
  with that SetCurrentChunk_last[OF assms(1) True] show thesis by simp
next
  case False
  with that SetCurrentChunk_next[of f] assms show thesis by simp
qed

lemma materialize_loop_at_end:
  assumes "resultset_end (odbc_fetcher h)" "chunks (odbc_fetcher h) \<noteq> []" "0 \<le> current_chunk_idx (odbc_fetcher h)"
  shows "materialize_loop dsn h = None"
proof -
  let ?P = "\<lambda>(dsn :: string) (h :: 'a OdbcHandleStmt) (y :: (int \<times> 'a OdbcHandleStmt) option).
     \<not> (resultset_end (odbc_fetcher h) \<and> chunks (odbc_fetcher h) \<noteq> [] \<and> 0 \<le> current_chunk_idx (odbc_fetcher h))"
  have step: "?P dsn h y"
    if ih: "\<And>dsn h y. loop dsn h = Some y \<Longrightarrow> ?P dsn h y"
      and run: "(case FetchNext dsn h of None \<Rightarrow> Some None
         | Some (ret, h) \<Rightarrow> if SQL_SUCCEEDED ret then loop dsn h else Some (Some (ret, h))) = Some y"
    for loop dsn h y
  proof (rule notI, elim conjE)
    assume e: "resultset_end (odbc_fetcher h)" and ne: "chunks (odbc_fetcher h) \<noteq> []"
      and i: "0 \<le> current_chunk_idx (odbc_fetcher h)"
    obtain f where "SetCurrentChunk (odbc_fetcher h) = Some (SQL_SUCCESS, f)" "chunks f = chunks (odbc_fetcher h)"
      "resultset_end f = resultset_end (odbc_fetcher h)" "0 \<le> current_chunk_idx f"
      using SetCurrentChunk_succeeds[OF ne i] by blast
    with FetchNext_at_end[OF e, of dsn] run ih[of dsn "h\<lparr>odbc_fetcher := f\<rparr>" y] ne e show False by simp
  qed
  show ?thesis using assms materialize_loop.raw_induct[of ?P dsn h] step
    by (cases "materialize_loop dsn h") blast+
qed

lemma append_chunk_simps [simp]:
  "cursor_type (append_chunk c f) = cursor_type f"
  "chunks (append_chunk c f) =
     (if cursor_type f = SQL_CURSOR_FORWARD_ONLY then [] else chunks f) @ [(next_chunk f, c)]"
  "next_chunk (append_chunk c f) = next_chunk f + 1"
  "resultset_end (append_chunk c f) = resultset_end f"
  "current_chunk_idx (append_chunk c f) = current_chunk_idx f"
  "row_count (append_chunk c f) = row_count f"
  by (simp_all add: append_chunk_def Let_def)

text \<open>Appending and moving on always succeeds.\<close>

lemma FetchNext_succeeds:
  assumes "\<not> resultset_end (odbc_fetcher h)" "pending h (c # cs)" "0 \<le> current_chunk_idx (odbc_fetcher h)"
  obtains h' where "FetchNext dsn h = Some (SQL_SUCCESS, h')" "pending h' cs"
    "chunks (odbc_fetcher h') = chunks (append_chunk c (odbc_fetcher h))"
    "cursor_type (odbc_fetcher h') = cursor_type (odbc_fetcher h)" "\<not> resultset_end (odbc_fetcher h')"
    "next_chunk (odbc_fetcher h') = next_chunk (odbc_fetcher h) + 1" "0 \<le> current_chunk_idx (odbc_fetcher h')"
proof -
  obtain h0 where h0: "FetchNext dsn h = map_option (\<lambda>(ret, f). (ret, h0\<lparr>odbc_fetcher := f\<rparr>))
       (SetCurrentChunk (append_chunk c (odbc_fetcher h)))" "pending h0 cs"
    using FetchNext_chunk[OF assms(1,2), of dsn] by metis
  obtain f where "SetCurrentChunk (append_chunk c (odbc_fetcher h)) = Some (SQL_SUCCESS, f)"
    "chunks f = chunks (append_chunk c (odbc_fetcher h))" "resultset_end f = resultset_end (odbc_fetcher h)"
    "0 \<le> current_chunk_idx f" "cursor_type f = cursor_type (odbc_fetcher h)"
    "next_chunk f = next_chunk (odbc_fetcher h) + 1"
    using SetCurrentChunk_succeeds[of "append_chunk c (odbc_fetcher h)"] assms(3) by auto
  with h0 assms(1) that[of "h0\<lparr>odbc_fetcher := f\<rparr>"] show thesis by simp
qed

lemma materialize_loop_step:
  "FetchNext dsn h = Some (SQL_SUCCESS, h') \<Longrightarrow> materialize_loop dsn h = materialize_loop dsn h'"
  "FetchNext dsn h = Some (SQL_NO_DATA, h') \<Longrightarrow> materialize_loop dsn h = Some (Some (SQL_NO_DATA, h'))"
  by (subst materialize_loop.simps, simp)+

lemma materialize_loop_ends:
  assumes "\<not> resultset_end (odbc_fetcher h)" "pending h cs" "0 \<le> current_chunk_idx (odbc_fetcher h)"
  shows "\<exists>h'. materialize_loop dsn h = Some (Some (SQL_NO_DATA, h')) \<and> resultset_end (odbc_fetcher h') \<and>
    cursor_type (odbc_fetcher h') = cursor_type (odbc_fetcher h) \<and>
    chunks (odbc_fetcher h') =
      (if cursor_type (odbc_fetcher h) = SQL_CURSOR_FORWARD_ONLY \<and> cs \<noteq> [] then
         [(next_chunk (odbc_fetcher h) + length cs - 1, last cs)]
       else chunks (odbc_fetcher h) @ enumerate (next_chunk (odbc_fetcher h)) cs)"
  using assms
proof (induction cs arbitrary: h)
  case Nil
  then show ?case using materialize_loop_step(2)[OF FetchNext_end[OF Nil(1,2)]] by simp
next
  case (Cons c cs)
  obtain h1 where h1: "FetchNext dsn h = Some (SQL_SUCCESS, h1)" "pending h1 cs"
    "chunks (odbc_fetcher h1) = chunks (append_chunk c (odbc_fetcher h))"
    "cursor_type (odbc_fetcher h1) = cursor_type (odbc_fetcher h)" "\<not> resultset_end (odbc_fetcher h1)"
    "next_chunk (odbc_fetcher h1) = next_chunk (odbc_fetcher h) + 1" "0 \<le> current_chunk_idx (odbc_fetcher h1)"
    using FetchNext_succeeds[OF Cons.prems] by metis
  from Cons.IH[OF h1(5,2,7)] materialize_loop_step(1)[OF h1(1)] h1(3,4,6) show ?case by auto
qed



text \<open>
  On a forward-only cursor every fetched chunk replaces the one before: the position that is put
  back afterwards points to a chunk that no longer exists, and the next access goes through a
  dangling pointer.
\<close>

theorem materialize_dangles:
  assumes "cursor_type (odbc_fetcher h) = SQL_CURSOR_FORWARD_ONLY" "\<not> resultset_end (odbc_fetcher h)"
    "0 \<le> current_chunk_idx (odbc_fetcher h)" "pending h (c # cs)"
    "current_chunk (odbc_fetcher h) = Some p" "p < next_chunk (odbc_fetcher h)"
  shows "\<exists>h'. Materialize dsn h = Some (Some (SQL_SUCCESS, h')) \<and>
    current_chunk (odbc_fetcher h') = Some p \<and> deref_chunk (odbc_fetcher h') = None"
proof -
  obtain h1 where h1: "materialize_loop dsn h = Some (Some (SQL_NO_DATA, h1))"
    "chunks (odbc_fetcher h1) = [(next_chunk (odbc_fetcher h) + length cs, last (c # cs))]"
    using materialize_loop_ends[OF assms(2,4,3), of dsn] assms(1) by auto
  then show ?thesis using assms(5,6)
    by (simp add: Materialize_def restore_position_def deref_chunk_def)
qed

text \<open>
  Once the end of the result was reached the loop of Materialize never ends, since fetching keeps
  succeeding on the chunks that are held: a commit after the last row was fetched does not return.
\<close>

theorem materialize_diverges:
  assumes "resultset_end (odbc_fetcher h)" "chunks (odbc_fetcher h) \<noteq> []" "0 \<le> current_chunk_idx (odbc_fetcher h)"
  shows "Materialize dsn h = None"
  by (simp add: Materialize_def materialize_loop_at_end[OF assms])


section \<open>A sample statement\<close>

text \<open>A statement on a sample result, with which the theorems are applied.\<close>

definition sample_fetch :: "int \<Rightarrow> (nat \<times> 'v chunk) list \<Rightarrow> int \<Rightarrow> bool \<Rightarrow> 'v OdbcFetch" where
  "sample_fetch type cs row at_end =
     \<lparr>cursor_type = type, cursor_scrollable = SQL_NONSCROLLABLE, row_count = 0, last_col_idx = - 1,
      last_row_idx = - 1, last_length = 0, chunks = cs, current_chunk_idx = 0,
      current_chunk = (if cs = [] then None else Some (fst (hd cs))), chunk_row = row, prior_chunk_row = - 1,
      resultset_end = at_end, next_chunk = length cs\<rparr>"

definition sample_stmt :: "'v OdbcFetch \<Rightarrow> 'v chunk list \<Rightarrow> 'v OdbcHandleStmt" where
  "sample_stmt f cs =
     \<lparr>st_diag = mk_OdbcDiagnostic, st_dbc = 16,
      st_stmt = Some \<lparr>ps_query = ''SELECT s'', ps_error = None, bound_all_parameters = True,
        ps_types = [\<lparr>lt_id = LogicalTypeId_VARCHAR, lt_width = 0, lt_scale = 0\<rparr>], ps_names = [''s''],
        named_param_count = 0, ps_statement_type = OTHER_STATEMENT, ps_param_type = \<lambda>_. 0\<rparr>,
      st_res = Some \<lparr>res_events = map Fetched cs, res_error = None, res_types = [], res_names = [], res_is_query = True\<rparr>,
      bound_cols = [], st_open = True, retrieve_data = SQL_RD_ON, rows_fetched_ptr = nullptr,
      client_max_len = 0, odbc_fetcher = f,
      param_desc = \<lparr>apd = sample_desc, ipd = sample_desc, cur_apd = None, pool_allocated_ptr = [],
        paramset_idx = 0, cur_paramset_idx = 0, cur_param_idx = 0, param_values = []\<rparr>,
      row_desc = \<lparr>ard = sample_desc, ird = sample_desc, cur_ard = None\<rparr>\<rparr>"

lemma sample_simps [simp]:
  "odbc_fetcher (sample_stmt f cs) = f" "bound_cols (sample_stmt f cs) = []"
  "ard_array_size (sample_stmt f cs) = 1" "rows_fetched_ptr (sample_stmt f cs) = nullptr"
  "pending (sample_stmt f cs) cs \<longleftrightarrow> [] \<notin> set cs" "st_res (sample_stmt f cs) \<noteq> None"
  by (simp_all add: sample_stmt_def ard_array_size_def sample_desc_def mk_OdbcHandleDesc_def mk_DescHeader_def
      DescHeader_Reset_def pending_def)


theorem materialize_dangles_witness:
  "\<exists>h'. Materialize [] (sample_stmt (sample_fetch SQL_CURSOR_FORWARD_ONLY [(0, [[''a'']])] 0 False) [[[''b'']]]) =
     Some (Some (SQL_SUCCESS, h')) \<and> current_chunk (odbc_fetcher h') = Some 0 \<and>
     deref_chunk (odbc_fetcher h') = None"
  using materialize_dangles[of "sample_stmt (sample_fetch SQL_CURSOR_FORWARD_ONLY [(0, [[''a'']])] 0 False) [[[''b'']]]"
      "[[''b'']]" "[]" 0 "[]"]
  by (simp add: sample_fetch_def)

theorem materialize_diverges_witness:
  "Materialize [] (sample_stmt (sample_fetch SQL_CURSOR_FORWARD_ONLY [(0, [[''a'']])] 0 True) []) = None"
  by (rule materialize_diverges) (simp_all add: sample_fetch_def)

end
