(* ===== verification/Statement_Data.thy ===== *)
theory Statement_Data
  imports Odbc_Cursor Odbc_Interval
begin

text \<open>
  \<^verbatim>\<open>GetDataStmtResult\<close> of \<^verbatim>\<open>src/odbc_driver/statement/statement_functions.cpp\<close> with its helpers: the
  conversion of a value of the result into the client's buffer, in pieces for variable length data.
  The conversions the engine does are the functions of the record \<^verbatim>\<open>engine\<close>; an exception or a failed
  conversion is Inl (its message) or None. \<^verbatim>\<open>eng_junk\<close> is what an uninitialised local variable holds.
\<close>

record 'v engine =
  eng_type :: "'v \<Rightarrow> LogicalType"
  eng_is_null :: "'v \<Rightarrow> bool"
  eng_string :: "'v \<Rightarrow> string"
  eng_to_string :: "'v \<Rightarrow> string"
  eng_int64 :: "'v \<Rightarrow> int"
  eng_cast :: "'v \<Rightarrow> int \<Rightarrow> string + int"
  eng_timestamp :: "int \<Rightarrow> 'v"
  eng_utc_offset :: "int \<Rightarrow> string + int"
  eng_to_blob :: "string \<Rightarrow> string + string"
  eng_str_int64 :: "string \<Rightarrow> int option"
  eng_str_hugeint :: "string \<Rightarrow> int option"
  eng_is_finite :: "int \<Rightarrow> bool"
  eng_from_epoch :: "int \<Rightarrow> int \<Rightarrow> string + int"
  eng_ts_date :: "int \<Rightarrow> string + int"
  eng_ts_time :: "int \<Rightarrow> string + int"
  eng_str_date :: "string \<Rightarrow> int option"
  eng_str_time :: "string \<Rightarrow> int option"
  eng_str_ts :: "string \<Rightarrow> int option"
  eng_date_ts :: "int \<Rightarrow> int option"
  eng_cast_text :: "'v \<Rightarrow> string"
  eng_date_parts :: "int \<Rightarrow> int \<times> int \<times> int"
  eng_time_parts :: "int \<Rightarrow> int \<times> int \<times> int \<times> int"
  eng_get_date :: "int \<Rightarrow> int"
  eng_get_time :: "int \<Rightarrow> int option"
  eng_interval :: "'v \<Rightarrow> interval_t"
  eng_str_interval :: "string \<Rightarrow> interval_t option option"
  eng_id_name :: "int \<Rightarrow> string"
  eng_type_name :: "LogicalType \<Rightarrow> string"
  eng_junk :: int

type_synonym 'v result = "(int \<times> 'v OdbcHandleStmt \<times> mem) option"

section \<open>Helpers\<close>

definition fail_diag ::
  "string \<Rightarrow> 'v OdbcHandleStmt \<Rightarrow> mem \<Rightarrow> int \<Rightarrow> string \<Rightarrow> string \<Rightarrow> SQLStateType \<Rightarrow> 'v result" where
  "fail_diag dsn h m ret component msg state =
     (case stmt_diag h ret component msg state dsn of (r, h) \<Rightarrow> Some (r, h, m))"

definition ValidateType ::
  "'v engine \<Rightarrow> string \<Rightarrow> int \<Rightarrow> int \<Rightarrow> 'v OdbcHandleStmt \<Rightarrow> int \<times> 'v OdbcHandleStmt" where
  "ValidateType eng dsn input expected h =
     (if input \<noteq> expected then
        stmt_diag h SQL_ERROR ''ValidateType''
          (''Type mismatch error: received '' @ eng_id_name eng input @ '', but expected '' @
           eng_id_name eng expected) ST_07006 dsn
      else (SQL_SUCCESS, h))"

definition ThrowInvalidCast ::
  "'v engine \<Rightarrow> string \<Rightarrow> string \<Rightarrow> LogicalType \<Rightarrow> LogicalType \<Rightarrow> 'v OdbcHandleStmt \<Rightarrow> mem \<Rightarrow> 'v result" where
  "ThrowInvalidCast eng dsn component from_type to_type h m =
     fail_diag dsn h m SQL_ERROR component
       (''Not implemented Error: Unimplemented type for cast ('' @ eng_type_name eng from_type @ '' -> '' @
        eng_type_name eng to_type @ '')'') ST_22007"

text \<open>\<^verbatim>\<open>GetInternalValue<SRC, DEST>\<close>: \<^verbatim>\<open>n\<close> is the size of the two types.\<close>

definition GetInternalValue ::
  "'v engine \<Rightarrow> string \<Rightarrow> nat \<Rightarrow> 'v \<Rightarrow> int \<Rightarrow> addr \<Rightarrow> addr \<Rightarrow> 'v OdbcHandleStmt \<Rightarrow> mem \<Rightarrow> 'v result" where
  "GetInternalValue eng dsn n val type target_value_ptr str_len_or_ind_ptr h m =
     (case eng_cast eng val type of
        Inl msg \<Rightarrow> fail_diag dsn h m SQL_ERROR ''GetInternalValue'' msg ST_07006
      | Inr v \<Rightarrow> Some (SQL_SUCCESS, h, store_opt 8 str_len_or_ind_ptr (int n) (store_int n target_value_ptr v m)))"

text \<open>
  \<^verbatim>\<open>CastTimestampValue\<close> returns a bool: in the handler it returns SQL\_ERROR, which converts to true,
  and the target keeps what it held.
\<close>

definition CastTimestampValue ::
  "'v engine \<Rightarrow> string \<Rightarrow> (int \<Rightarrow> string + int) \<Rightarrow> 'v \<Rightarrow> int \<Rightarrow> (int \<Rightarrow> string + int) \<Rightarrow> 'v OdbcHandleStmt
   \<Rightarrow> bool \<times> int \<times> 'v OdbcHandleStmt" where
  "CastTimestampValue eng dsn cast_op val target cast_timestamp_fun h =
     (let input = eng_int64 eng val;
          timestamp = (if eng_is_finite eng input then cast_timestamp_fun input else Inr input)
      in case bind_sum timestamp cast_op of
           Inr t \<Rightarrow> (True, t, h)
         | Inl msg \<Rightarrow>
             (case stmt_diag h SQL_ERROR ''CastTimestampValue'' msg ST_22007 dsn of
                (r, h) \<Rightarrow> (r \<noteq> 0, target, h)))"

section \<open>Variable length data\<close>

definition more_data_message :: string where
  "more_data_message =
     ''Not all the data for the specified column could be retrieved, the length of the data remaining in the '' @
     ''specific column prior to the current call to SQLGetData is returned in *StrLen_or_IndPtr.''"

text \<open>
  \<^verbatim>\<open>GetVariableValue<CHAR_TYPE>\<close>: \<^verbatim>\<open>n\<close> is the size of the character type, \<^verbatim>\<open>val_buf\<close> the bytes. The
  comparison with the buffer length is unsigned, and so is the size left for the data. None is a read
  past the value.
\<close>

definition GetVariableValue ::
  "string \<Rightarrow> nat \<Rightarrow> nat \<Rightarrow> addr \<Rightarrow> int \<Rightarrow> addr \<Rightarrow> string \<Rightarrow> bool \<Rightarrow> 'v OdbcHandleStmt \<Rightarrow> mem \<Rightarrow> 'v result" where
  "GetVariableValue dsn n col_idx target_value_ptr buffer_length str_len_or_ind_ptr val_buf null_terminate h m =
     (let h = h\<lparr>odbc_fetcher := SetLastFetchedVariableVal (int col_idx) (odbc_fetcher h)\<rparr>;
          last_len = GetLastFetchedLength (odbc_fetcher h);
          val_buf_len_bytes = int (length val_buf)
      in
      if val_buf_len_bytes > 0 \<and> last_len \<ge> val_buf_len_bytes then Some (SQL_NO_DATA, h, m)
      else if null_terminate \<and> wrap_u 64 buffer_length < int n then
        fail_diag dsn h m SQL_ERROR ''SQLGetData'' ''TargetValuePtr size is insufficient'' ST_HY090
      else
        let buffer_effective_size =
              (if null_terminate then wrap_u 64 (wrap_u 64 buffer_length - int n) else wrap_u 64 buffer_length);
            remaining_len = wrap_u 64 (val_buf_len_bytes - last_len)
        in
        if target_value_ptr = nullptr then
          if str_len_or_ind_ptr \<noteq> nullptr then
            Some (SQL_SUCCESS, h, store_int 8 str_len_or_ind_ptr remaining_len m)
          else fail_diag dsn h m SQL_ERROR ''SQLGetData'' ''Could not set StrLen_or_IndPtr'' ST_HY090
        else
          let (ret, out_len, h) =
                (if remaining_len > buffer_effective_size then
                   case stmt_diag h SQL_SUCCESS_WITH_INFO ''SQLGetData'' more_data_message ST_01004 dsn of
                     (r, h) \<Rightarrow> (r, buffer_effective_size, h)
                 else (SQL_SUCCESS, remaining_len, h))
          in
          if last_len + out_len > val_buf_len_bytes then None
          else
          let m = store_bytes target_value_ptr (take (nat out_len) (drop (nat last_len) val_buf)) m;
              m = (if null_terminate
                   then store_bytes (target_value_ptr + out_len) (replicate n (CHR 0x00)) m else m);
              m = store_opt 8 str_len_or_ind_ptr remaining_len m;
              h = h\<lparr>odbc_fetcher := SetLastFetchedLength (last_len + out_len) (odbc_fetcher h)\<rparr>
          in Some (ret, h, m))"

definition resolve_default_type :: "int \<Rightarrow> int \<Rightarrow> int" where
  "resolve_default_type typeId max_len =
     (if typeId = LogicalTypeId_BOOLEAN then SQL_C_BIT
      else if typeId = LogicalTypeId_TINYINT then SQL_C_TINYINT
      else if typeId = LogicalTypeId_UTINYINT then SQL_C_UTINYINT
      else if typeId = LogicalTypeId_SMALLINT then (if max_len < 2 then SQL_C_TINYINT else SQL_C_SHORT)
      else if typeId = LogicalTypeId_USMALLINT then (if max_len < 2 then SQL_C_UTINYINT else SQL_C_USHORT)
      else if typeId = LogicalTypeId_INTEGER then
        (if max_len < 2 then SQL_C_TINYINT else if max_len < 4 then SQL_C_SHORT else SQL_C_LONG)
      else if typeId = LogicalTypeId_UINTEGER then
        (if max_len < 2 then SQL_C_UTINYINT else if max_len < 4 then SQL_C_USHORT else SQL_C_ULONG)
      else if typeId = LogicalTypeId_BIGINT then
        (if max_len < 2 then SQL_C_TINYINT else if max_len < 4 then SQL_C_SHORT
         else if max_len < 8 then SQL_C_LONG else SQL_C_SBIGINT)
      else if typeId = LogicalTypeId_UBIGINT then
        (if max_len < 2 then SQL_C_UTINYINT else if max_len < 4 then SQL_C_USHORT
         else if max_len < 8 then SQL_C_ULONG else SQL_C_UBIGINT)
      else if typeId = LogicalTypeId_FLOAT then SQL_C_FLOAT
      else if typeId = LogicalTypeId_DOUBLE then (if max_len < 8 then SQL_C_FLOAT else SQL_C_DOUBLE)
      else SQL_C_CHAR)"

section \<open>Decimals\<close>

text \<open>
  The digits the code extracts from the text of a decimal: the sign flag, the scale and the digits,
  with the fraction dropped when it is all zeros.
\<close>

definition numeric_digits :: "string \<Rightarrow> int \<times> int \<times> string" where
  "numeric_digits s =
     (let neg = (s \<noteq> [] \<and> hd s = CHR ''-'');
          sign = (if neg then 0 else 1);
          s = (if neg then filter (\<lambda>c. c \<noteq> CHR ''-'') s else s)
      in if CHR ''.'' \<in> set s then
           let pos_dot = length (takeWhile (\<lambda>c. c \<noteq> CHR ''.'') s);
               s = filter (\<lambda>c. c \<noteq> CHR ''.'') s;
               scale = wrap_s 8 (int (length s) - int pos_dot);
               fraction = drop pos_dot s
           in (sign, scale,
               if fraction \<noteq> [] \<and> list_all (\<lambda>c. c = CHR ''0'') fraction then take pos_dot s else s)
         else (sign, 0, s))"

text \<open>SQL\_NUMERIC\_STRUCT: precision, scale and sign in one byte each, then 16 bytes of value.\<close>

definition GetNumeric ::
  "'v engine \<Rightarrow> string \<Rightarrow> 'v \<Rightarrow> addr \<Rightarrow> addr \<Rightarrow> 'v OdbcHandleStmt \<Rightarrow> mem \<Rightarrow> 'v result" where
  "GetNumeric eng dsn val target_value_ptr str_len_or_ind_ptr h m =
     (case ValidateType eng dsn (lt_id (eng_type eng val)) LogicalTypeId_DECIMAL h of (r, h) \<Rightarrow>
      if r \<noteq> SQL_SUCCESS then Some (SQL_ERROR, h, m)
      else
        let dataptr = target_value_ptr + 3;
            (sign, scale, str_val) = numeric_digits (eng_to_string eng val);
            precision = wrap_u 8 (int (length str_val));
            m = store_int 16 dataptr 0 m;
            m = store_int 1 (target_value_ptr + 2) sign m;
            m = store_int 1 (target_value_ptr + 1) scale m;
            m = store_int 1 target_value_ptr precision m;
            done_m = (\<lambda>m. Some (SQL_SUCCESS, h, store_opt 8 str_len_or_ind_ptr 19 m))
        in
        if precision \<le> 18 then
          (case eng_str_int64 eng str_val of
             None \<Rightarrow> Some (SQL_ERROR, h, m)
           | Some v \<Rightarrow> done_m (store_int 8 dataptr v m))
        else
          (case eng_str_hugeint eng str_val of
             None \<Rightarrow> Some (SQL_ERROR, h, m)
           | Some v \<Rightarrow> done_m (store_int 16 dataptr v m)))"

section \<open>Dates, times and intervals\<close>

definition store_date :: "'v engine \<Rightarrow> int \<Rightarrow> addr \<Rightarrow> mem \<Rightarrow> mem" where
  "store_date eng date p m =
     (case eng_date_parts eng date of (year, month, day) \<Rightarrow>
        store_int 2 (p + 4) day (store_int 2 (p + 2) month (store_int 2 p year m)))"

definition store_time :: "'v engine \<Rightarrow> int \<Rightarrow> addr \<Rightarrow> mem \<Rightarrow> mem" where
  "store_time eng time p m =
     (case eng_time_parts eng time of (hour, minute, second, micros) \<Rightarrow>
        store_int 2 (p + 4) second (store_int 2 (p + 2) minute (store_int 2 p hour m)))"

text \<open>\<^verbatim>\<open>Timestamp::GetTime\<close> throws for an infinite timestamp, and nothing catches the exception.\<close>

definition store_timestamp :: "'v engine \<Rightarrow> int \<Rightarrow> addr \<Rightarrow> mem \<Rightarrow> mem option" where
  "store_timestamp eng timestamp p m = do {
     time \<leftarrow> eng_get_time eng timestamp;
     (case eng_time_parts eng time of (hour, minute, second, micros) \<Rightarrow>
        Some (store_int 4 (p + 12) micros
          (store_time eng time (p + 6) (store_date eng (eng_get_date eng timestamp) p m))))
   }"

definition timestamp_units :: "int set" where
  "timestamp_units = {LogicalTypeId_TIMESTAMP_SEC, LogicalTypeId_TIMESTAMP_MS, LogicalTypeId_TIMESTAMP,
     LogicalTypeId_TIMESTAMP_NS}"

text \<open>SQL\_C\_TYPE\_DATE and SQL\_C\_TYPE\_TIME differ in the engine type and in the casts.\<close>

definition GetDateOrTime ::
  "'v engine \<Rightarrow> string \<Rightarrow> int \<Rightarrow> (int \<Rightarrow> string + int) \<Rightarrow> (string \<Rightarrow> int option) \<Rightarrow> (int \<Rightarrow> addr \<Rightarrow> mem \<Rightarrow> mem)
   \<Rightarrow> 'v \<Rightarrow> addr \<Rightarrow> addr \<Rightarrow> 'v OdbcHandleStmt \<Rightarrow> mem \<Rightarrow> 'v result" where
  "GetDateOrTime eng dsn own_type ts_cast str_cast store_parts val target_value_ptr str_len_or_ind_ptr h m =
     (let type_id = lt_id (eng_type eng val);
          finish = (\<lambda>t h. Some (SQL_SUCCESS, h,
                     store_opt 8 str_len_or_ind_ptr 6 (store_parts t target_value_ptr m)))
      in
      if type_id = own_type then finish (eng_int64 eng val) h
      else if type_id \<in> timestamp_units then
        (case CastTimestampValue eng dsn ts_cast val (eng_junk eng) (eng_from_epoch eng type_id) h of
           (ok, t, h) \<Rightarrow> if ok then finish t h else Some (SQL_ERROR, h, m))
      else if type_id = LogicalTypeId_VARCHAR then
        (case str_cast (eng_string eng val) of
           None \<Rightarrow> fail_diag dsn h m SQL_ERROR ''GetDataStmtResult'' (eng_cast_text eng val) ST_07006
         | Some t \<Rightarrow> finish t h)
      else ThrowInvalidCast eng dsn ''GetDataStmtResult'' (eng_type eng val)
             \<lparr>lt_id = own_type, lt_width = 0, lt_scale = 0\<rparr> h m)"

definition GetTimestamp ::
  "'v engine \<Rightarrow> string \<Rightarrow> 'v \<Rightarrow> addr \<Rightarrow> addr \<Rightarrow> 'v OdbcHandleStmt \<Rightarrow> mem \<Rightarrow> 'v result" where
  "GetTimestamp eng dsn val target_value_ptr str_len_or_ind_ptr h m =
     (let type_id = lt_id (eng_type eng val);
          input = eng_int64 eng val;
          finish = (\<lambda>t. do {
                     m \<leftarrow> store_timestamp eng t target_value_ptr m;
                     Some (SQL_SUCCESS, h, store_opt 8 str_len_or_ind_ptr 16 m)
                   });
          cast_failed = fail_diag dsn h m SQL_ERROR ''GetDataStmtResult'' (eng_cast_text eng val) ST_07006
      in
      if type_id \<in> timestamp_units then
        if type_id \<noteq> LogicalTypeId_TIMESTAMP \<and> \<not> eng_is_finite eng input then finish input
        else (case eng_from_epoch eng type_id input of Inl _ \<Rightarrow> None | Inr t \<Rightarrow> finish t)
      else if type_id = LogicalTypeId_DATE then
        (case eng_date_ts eng input of None \<Rightarrow> cast_failed | Some t \<Rightarrow> finish t)
      else if type_id = LogicalTypeId_TIME then finish input
      else if type_id = LogicalTypeId_VARCHAR then
        (case eng_str_ts eng (eng_string eng val) of None \<Rightarrow> cast_failed | Some t \<Rightarrow> finish t)
      else ThrowInvalidCast eng dsn ''GetDataStmtResult'' (eng_type eng val)
             \<lparr>lt_id = LogicalTypeId_TIMESTAMP, lt_width = 0, lt_scale = 0\<rparr> h m)"

text \<open>SQL\_INTERVAL\_STRUCT in memory: the type, the sign (padded to four bytes), the union.\<close>

definition load_interval :: "addr \<Rightarrow> mem \<Rightarrow> SQL_INTERVAL_STRUCT" where
  "load_interval p m =
     \<lparr>interval_type = load_u 4 p m, interval_sign = load_s 2 (p + 4) m, iv_year_day = load_u 4 (p + 8) m,
      iv_month_hour = load_u 4 (p + 12) m, iv_minute = load_u 4 (p + 16) m, iv_second = load_u 4 (p + 20) m,
      iv_fraction = load_u 4 (p + 24) m\<rparr>"

definition store_interval :: "addr \<Rightarrow> SQL_INTERVAL_STRUCT \<Rightarrow> mem \<Rightarrow> mem" where
  "store_interval p s m =
     store_int 4 (p + 24) (iv_fraction s) (store_int 4 (p + 20) (iv_second s)
       (store_int 4 (p + 16) (iv_minute s) (store_int 4 (p + 12) (iv_month_hour s)
         (store_int 4 (p + 8) (iv_year_day s) (store_int 2 (p + 4) (interval_sign s)
           (store_int 4 p (interval_type s) m))))))"

definition GetInterval ::
  "'v engine \<Rightarrow> string \<Rightarrow> 'v \<Rightarrow> 'v OdbcHandleStmt \<Rightarrow> (interval_t option \<times> 'v OdbcHandleStmt) option" where
  "GetInterval eng dsn val h =
     (let type_id = lt_id (eng_type eng val) in
      if type_id = LogicalTypeId_INTERVAL then Some (Some (eng_interval eng val), h)
      else if type_id = LogicalTypeId_VARCHAR then
        (case eng_str_interval eng (eng_string eng val) of
           None \<Rightarrow> None
         | Some (Some i) \<Rightarrow> Some (Some i, h)
         | Some None \<Rightarrow> Some (None, snd (stmt_diag h SQL_ERROR ''OdbcInterval::GetInterval'' (eng_cast_text eng val)
                                  ST_22007 dsn)))
      else Some (None, h))"

definition SetYearToMonth :: "interval_t \<Rightarrow> SQL_INTERVAL_STRUCT \<Rightarrow> SQL_INTERVAL_STRUCT" where
  "SetYearToMonth interval s =
     (let s = SetYear interval s in
      s\<lparr>iv_month_hour := u32 (abs_w 32 (iv_months interval) mod MONTHS_PER_YEAR),
        interval_type := SQL_IS_YEAR_TO_MONTH\<rparr>)"

definition interval_setters :: "(int \<times> (interval_t \<Rightarrow> SQL_INTERVAL_STRUCT \<Rightarrow> SQL_INTERVAL_STRUCT)) list" where
  "interval_setters =
     [(SQL_C_INTERVAL_YEAR, SetYear), (SQL_C_INTERVAL_MONTH, SetMonth), (SQL_C_INTERVAL_DAY, SetDay),
      (SQL_C_INTERVAL_HOUR, SetHour), (SQL_C_INTERVAL_MINUTE, SetMinute), (SQL_C_INTERVAL_SECOND, SetSecond),
      (SQL_C_INTERVAL_YEAR_TO_MONTH, SetYearToMonth), (SQL_C_INTERVAL_DAY_TO_HOUR, SetDayToHour),
      (SQL_C_INTERVAL_DAY_TO_MINUTE, SetDayToMinute), (SQL_C_INTERVAL_DAY_TO_SECOND, SetDayToSecond),
      (SQL_C_INTERVAL_HOUR_TO_MINUTE, SetHourToMinute), (SQL_C_INTERVAL_HOUR_TO_SECOND, SetHourToSecond),
      (SQL_C_INTERVAL_MINUTE_TO_SECOND, SetMinuteToSecond)]"

definition GetIntervalData ::
  "'v engine \<Rightarrow> string \<Rightarrow> (interval_t \<Rightarrow> SQL_INTERVAL_STRUCT \<Rightarrow> SQL_INTERVAL_STRUCT) \<Rightarrow> 'v \<Rightarrow> addr \<Rightarrow> addr
   \<Rightarrow> 'v OdbcHandleStmt \<Rightarrow> mem \<Rightarrow> 'v result" where
  "GetIntervalData eng dsn setter val target_value_ptr str_len_or_ind_ptr h m =
     (case GetInterval eng dsn val h of
        None \<Rightarrow> None
      | Some (None, h) \<Rightarrow> ThrowInvalidCast eng dsn ''GetDataStmtResult'' (eng_type eng val)
                       \<lparr>lt_id = LogicalTypeId_INTERVAL, lt_width = 0, lt_scale = 0\<rparr> h m
      | Some (Some interval, h) \<Rightarrow>
          let s = SetSignal interval (setter interval (load_interval target_value_ptr m))
          in Some (SQL_SUCCESS, h, store_opt 8 str_len_or_ind_ptr 28 (store_interval target_value_ptr s m)))"

section \<open>GetDataStmtResult\<close>

text \<open>The C types GetInternalValue serves: the engine type of the cast and the size.\<close>

definition fixed_c_types :: "(int \<times> int \<times> nat) list" where
  "fixed_c_types =
     [(SQL_C_SHORT, LogicalTypeId_SMALLINT, 2), (SQL_C_SSHORT, LogicalTypeId_SMALLINT, 2),
      (SQL_C_USHORT, LogicalTypeId_USMALLINT, 2),
      (SQL_C_LONG, LogicalTypeId_INTEGER, 4), (SQL_C_SLONG, LogicalTypeId_INTEGER, 4),
      (SQL_C_ULONG, LogicalTypeId_UINTEGER, 4),
      (SQL_C_FLOAT, LogicalTypeId_FLOAT, 4), (SQL_C_DOUBLE, LogicalTypeId_DOUBLE, 8),
      (SQL_C_BIT, LogicalTypeId_CHAR, 1),
      (SQL_C_TINYINT, LogicalTypeId_TINYINT, 1), (SQL_C_STINYINT, LogicalTypeId_TINYINT, 1),
      (SQL_C_UTINYINT, LogicalTypeId_UTINYINT, 1),
      (SQL_C_SBIGINT, LogicalTypeId_BIGINT, 8), (SQL_C_UBIGINT, LogicalTypeId_UBIGINT, 8)]"

text \<open>A TIMESTAMP WITH TIME ZONE is shifted by the offset of the operating system.\<close>

definition local_timestamp :: "'v engine \<Rightarrow> string \<Rightarrow> 'v \<Rightarrow> 'v OdbcHandleStmt \<Rightarrow> 'v \<times> 'v OdbcHandleStmt" where
  "local_timestamp eng dsn val h =
     (if lt_id (eng_type eng val) = LogicalTypeId_TIMESTAMP_TZ then
        let utc_micros = eng_int64 eng val in
        case eng_utc_offset eng utc_micros of
          Inl msg \<Rightarrow> (eng_timestamp eng utc_micros,
                      snd (stmt_diag h SQL_ERROR ''timezone'' msg ST_HY000 dsn))
        | Inr off \<Rightarrow> (eng_timestamp eng (wrap_s 64 (utc_micros + off)), h)
      else (val, h))"

definition GetDataStmtResult ::
  "'v engine \<Rightarrow> string \<Rightarrow> nat \<Rightarrow> int \<Rightarrow> addr \<Rightarrow> int \<Rightarrow> addr \<Rightarrow> 'v OdbcHandleStmt \<Rightarrow> mem \<Rightarrow> 'v result" where
  "GetDataStmtResult eng dsn col_or_param_num target_type target_value_ptr buffer_length str_len_or_ind_ptr h m =
     (if target_value_ptr = nullptr \<and> \<not> IsCharType target_type then Some (SQL_ERROR, h, m)
      else do {
        val \<leftarrow> GetValue (col_or_param_num - 1) (odbc_fetcher h);
        (case (case snd val of Some v \<Rightarrow> if eng_is_null eng v then None else Some v | None \<Rightarrow> None) of
           None \<Rightarrow> if str_len_or_ind_ptr = nullptr then Some (SQL_ERROR, h, m)
                   else Some (SQL_SUCCESS, h, store_int 8 str_len_or_ind_ptr SQL_NULL_DATA m)
         | Some v \<Rightarrow>
           (case local_timestamp eng dsn v h of (val, h) \<Rightarrow>
             let type_id = lt_id (eng_type eng val);
                 target_type_resolved =
                   (if target_type = SQL_C_DEFAULT then resolve_default_type type_id buffer_length else target_type);
                 col = col_or_param_num - 1
             in
             case map_of fixed_c_types target_type_resolved of
               Some (type, n) \<Rightarrow> GetInternalValue eng dsn n val type target_value_ptr str_len_or_ind_ptr h m
             | None \<Rightarrow>
               if target_type_resolved = SQL_C_WCHAR then
                 let utf16_vec = fst (utf8_to_utf16_lenient (octets_of (eng_string eng val)))
                 in GetVariableValue dsn 2 col target_value_ptr buffer_length str_len_or_ind_ptr
                      (unit_bytes utf16_vec) True h m
               else if target_type_resolved = SQL_C_BINARY then
                 (case eng_to_blob eng (c_prefix (eng_string eng val)) of
                    Inl _ \<Rightarrow> None
                  | Inr blob \<Rightarrow> GetVariableValue dsn 1 col target_value_ptr buffer_length str_len_or_ind_ptr
                      blob False h m)
               else if target_type_resolved = SQL_C_CHAR then
                 GetVariableValue dsn 1 col target_value_ptr buffer_length str_len_or_ind_ptr
                   (eng_string eng val) True h m
               else if target_type_resolved = SQL_C_NUMERIC then
                 GetNumeric eng dsn val target_value_ptr str_len_or_ind_ptr h m
               else if target_type_resolved = SQL_C_TYPE_DATE then
                 GetDateOrTime eng dsn LogicalTypeId_DATE (eng_ts_date eng) (eng_str_date eng) (store_date eng)
                   val target_value_ptr str_len_or_ind_ptr h m
               else if target_type_resolved = SQL_C_TYPE_TIME then
                 GetDateOrTime eng dsn LogicalTypeId_TIME (eng_ts_time eng) (eng_str_time eng) (store_time eng)
                   val target_value_ptr str_len_or_ind_ptr h m
               else if target_type_resolved = SQL_C_TYPE_TIMESTAMP then
                 GetTimestamp eng dsn val target_value_ptr str_len_or_ind_ptr h m
               else
                 (case map_of interval_setters target_type_resolved of
                    Some setter \<Rightarrow> GetIntervalData eng dsn setter val target_value_ptr str_len_or_ind_ptr h m
                  | None \<Rightarrow> fail_diag dsn h m SQL_ERROR ''GetDataStmtResult'' ''Data type not supported'' ST_HY004))) })"

section \<open>A sample engine\<close>

text \<open>
  Values are strings with the text NULL as the null value, decimals when they begin with a digit or a
  sign; the numbers it parses are decimal, its dates days and its times seconds of an invented
  calendar of 30-day months.
\<close>

definition parse_nat :: "string \<Rightarrow> int" where
  "parse_nat s = fold (\<lambda>c n. 10 * n + (int (of_char c) - 48)) s 0"

definition parse_int :: "string \<Rightarrow> int option" where
  "parse_int s = (if s \<noteq> [] \<and> list_all (\<lambda>c. c \<in> set ''0123456789'') s then Some (parse_nat s) else None)"

definition sample_engine :: "string engine" where
  "sample_engine =
     \<lparr>eng_type = (\<lambda>v. \<lparr>lt_id = (if v \<noteq> [] \<and> hd v \<in> set ''-0123456789'' then LogicalTypeId_DECIMAL
                               else LogicalTypeId_VARCHAR), lt_width = 18, lt_scale = 2\<rparr>),
      eng_is_null = (\<lambda>v. v = ''NULL''), eng_string = (\<lambda>v. v), eng_to_string = (\<lambda>v. v),
      eng_int64 = parse_nat,
      eng_cast = (\<lambda>v _. case parse_int v of None \<Rightarrow> Inl ''Could not convert'' | Some i \<Rightarrow> Inr i),
      eng_timestamp = to_string, eng_utc_offset = (\<lambda>_. Inr 0), eng_to_blob = Inr,
      eng_str_int64 = parse_int, eng_str_hugeint = parse_int, eng_is_finite = (\<lambda>_. True),
      eng_from_epoch = (\<lambda>_ t. if t < 1000 then Inr t else Inl ''Could not convert''),
      eng_ts_date = (\<lambda>t. Inr (t div 86400)), eng_ts_time = (\<lambda>t. Inr (t mod 86400)),
      eng_str_date = parse_int, eng_str_time = parse_int, eng_str_ts = parse_int,
      eng_date_ts = (\<lambda>d. Some (d * 86400)), eng_cast_text = (\<lambda>v. ''Could not convert''),
      eng_date_parts = (\<lambda>d. (1970 + d div 360, 1 + d mod 360 div 30, 1 + d mod 30)),
      eng_time_parts = (\<lambda>t. (t div 3600, t mod 3600 div 60, t mod 60, 0)),
      eng_get_date = (\<lambda>t. t div 86400), eng_get_time = (\<lambda>t. Some (t mod 86400)),
      eng_interval = (\<lambda>v. \<lparr>iv_months = 0, iv_days = 0, iv_micros = parse_nat v\<rparr>),
      eng_str_interval = (\<lambda>s. Some (map_option (\<lambda>i. \<lparr>iv_months = 0, iv_days = 0, iv_micros = i\<rparr>) (parse_int s))),
      eng_id_name = to_string, eng_type_name = (\<lambda>t. to_string (lt_id t)), eng_junk = 7\<rparr>"

section \<open>Reading a value in pieces\<close>

text \<open>How many bytes of the column the client has been given.\<close>

definition progress :: "nat \<Rightarrow> 'v OdbcHandleStmt \<Rightarrow> int" where
  "progress col h = GetLastFetchedLength (SetLastFetchedVariableVal (int col) (odbc_fetcher h))"

lemma SetLastFetchedVariableVal_twice [simp]:
  "SetLastFetchedVariableVal c (SetLastFetchedLength l (SetLastFetchedVariableVal c f)) =
     SetLastFetchedLength l (SetLastFetchedVariableVal c f)"
  by (simp add: SetLastFetchedVariableVal_def SetLastFetchedLength_def Let_def)

lemma GetSetLastFetchedLength [simp]: "GetLastFetchedLength (SetLastFetchedLength l f) = l"
  by (simp add: GetLastFetchedLength_def SetLastFetchedLength_def)

lemma wrap_u_64_id [simp]: "0 \<le> i \<Longrightarrow> i < 2 ^ 64 \<Longrightarrow> wrap_u 64 i = i"
  by (rule wrap_u_id) (simp add: in_u_def)

text \<open>One call with a buffer of ordinary size and data left: the piece it stores.\<close>

definition piece_len :: "nat \<Rightarrow> int \<Rightarrow> nat \<Rightarrow> nat" where
  "piece_len n buffer_length remaining = min remaining (nat (buffer_length - int n))"

definition put_piece :: "nat \<Rightarrow> addr \<Rightarrow> string \<Rightarrow> bool \<Rightarrow> mem \<Rightarrow> mem" where
  "put_piece n target s terminate m =
     (if terminate then store_bytes (target + int (length s)) (replicate n (CHR 0x00)) (store_bytes target s m)
      else store_bytes target s m)"

definition term_len :: "nat \<Rightarrow> bool \<Rightarrow> nat" where
  "term_len n nt = (if nt then n else 0)"

lemma GetVariableValue_piece:
  fixes h :: "'v OdbcHandleStmt"
  assumes t: "target \<noteq> nullptr" and b: "int (term_len n nt) \<le> buffer_length" "buffer_length < 2 ^ 63"
    and l: "0 \<le> progress col h" "progress col h < int (length val) \<or> progress col h = 0 \<and> val = []"
    and len: "int (length val) < 2 ^ 63"
  defines "piece \<equiv> take (piece_len (term_len n nt) buffer_length (length val - nat (progress col h))) (drop (nat (progress col h)) val)"
  shows "\<exists>h'. GetVariableValue dsn n col target buffer_length ind val nt h m =
      Some (if int (length val) - progress col h > buffer_length - int (term_len n nt) then SQL_SUCCESS_WITH_INFO else SQL_SUCCESS, h',
        store_opt 8 ind (int (length val) - progress col h) (put_piece n target piece nt m)) \<and>
    progress col h' = progress col h + int (length piece) \<and> bound_cols h' = bound_cols h"
proof -
  let ?h = "h\<lparr>odbc_fetcher := SetLastFetchedVariableVal (int col) (odbc_fetcher h)\<rparr>"
  let ?l = "progress col h"
  define E where "E = buffer_length - int (term_len n nt)"
  let ?e = E
  let ?r = "int (length val) - ?l"
  have E: "0 \<le> E" using b by (simp add: E_def)
  have e: "(if nt then wrap_u 64 (wrap_u 64 buffer_length - int n) else wrap_u 64 buffer_length) = ?e"
    using b by (auto simp: term_len_def E_def)
  have rem: "wrap_u 64 (int (length val) - ?l) = ?r" using l len by auto
  have nb: "\<not> (nt \<and> wrap_u 64 buffer_length < int n)" using b by (auto simp: term_len_def split: if_splits)
  have nd: "\<not> (int (length val) > 0 \<and> ?l \<ge> int (length val))" using l by auto
  have gl: "GetLastFetchedLength (odbc_fetcher ?h) = ?l" by (simp add: progress_def)
  have frame: "odbc_fetcher (snd (stmt_diag ?h SQL_SUCCESS_WITH_INFO ''SQLGetData'' more_data_message ST_01004 dsn)) = odbc_fetcher ?h"
    "bound_cols (snd (stmt_diag ?h SQL_SUCCESS_WITH_INFO ''SQLGetData'' more_data_message ST_01004 dsn)) = bound_cols h"
    by simp_all
  obtain hd where hd: "stmt_diag ?h SQL_SUCCESS_WITH_INFO ''SQLGetData'' more_data_message ST_01004 dsn = (SQL_SUCCESS_WITH_INFO, hd)"
    "odbc_fetcher hd = odbc_fetcher ?h" "bound_cols hd = bound_cols h"
    using frame fst_stmt_diag by (metis prod.collapse)
  let ?o = "min ?r ?e"
  have o: "0 \<le> ?o" "?l + ?o \<le> int (length val)" using E l by auto
  have pc: "take (nat ?o) (drop (nat ?l) val) = piece" "int (length piece) = ?o"
  proof -
    have "piece_len (term_len n nt) buffer_length (length val - nat ?l) = nat ?o"
      using l E by (auto simp: piece_len_def nat_diff_distrib min_def E_def[symmetric])
    then show "take (nat ?o) (drop (nat ?l) val) = piece" by (simp add: piece_def)
    then show "int (length piece) = ?o" using o l by (auto simp: min_def)
  qed
  show ?thesis
  proof (cases "?r > ?e")
    case True
    then have "GetVariableValue dsn n col target buffer_length ind val nt h m =
      Some (SQL_SUCCESS_WITH_INFO, hd\<lparr>odbc_fetcher := SetLastFetchedLength (?l + ?o) (odbc_fetcher hd)\<rparr>,
        store_opt 8 ind ?r (put_piece n target piece nt m))"
      using t e rem nb nd gl hd(1) o pc
      unfolding GetVariableValue_def Let_def by (simp add: put_piece_def min_def)
    then show ?thesis using True hd pc(2) by (simp add: progress_def E_def)
  next
    case False
    then have "GetVariableValue dsn n col target buffer_length ind val nt h m =
      Some (SQL_SUCCESS, ?h\<lparr>odbc_fetcher := SetLastFetchedLength (?l + ?o) (odbc_fetcher ?h)\<rparr>,
        store_opt 8 ind ?r (put_piece n target piece nt m))"
      using t e rem nb nd gl o pc
      unfolding GetVariableValue_def Let_def by (simp add: put_piece_def min_def)
    then show ?thesis using False pc(2) by (simp add: progress_def E_def)
  qed
qed


text \<open>
  A client that calls SQLGetData for the column until it does not return SQL\_SUCCESS\_WITH\_INFO, with
  a buffer of \<^verbatim>\<open>b\<close> bytes, and takes what a call stored, without the terminator.
\<close>

fun read_pieces ::
  "string \<Rightarrow> nat \<Rightarrow> nat \<Rightarrow> addr \<Rightarrow> int \<Rightarrow> addr \<Rightarrow> string \<Rightarrow> bool \<Rightarrow> nat \<Rightarrow> 'v OdbcHandleStmt \<Rightarrow> mem
   \<Rightarrow> (string \<times> 'v OdbcHandleStmt \<times> mem) option" where
  "read_pieces dsn n col t b ind val nt 0 h m = None" |
  "read_pieces dsn n col t b ind val nt (Suc k) h m =
     (case GetVariableValue dsn n col t b ind val nt h m of
        None \<Rightarrow> None
      | Some (ret, h, m) \<Rightarrow>
          if ret = SQL_SUCCESS_WITH_INFO then
            map_option (\<lambda>(s, r). (load_bytes t (nat b - term_len n nt) m @ s, r))
              (read_pieces dsn n col t b ind val nt k h m)
          else if ret = SQL_SUCCESS then Some (load_bytes t (nat (load_s 8 ind m)) m, h, m)
          else None)"

lemma load_put_piece:
  assumes "ind + 8 \<le> t \<or> t + int (length s) \<le> ind" "ind \<noteq> nullptr"
  shows "load_bytes t (length s) (store_opt 8 ind v (put_piece n t s nt m)) = s"
proof -
  have "t + int (length s) \<le> ind \<or> ind + int (length (le_encode 8 v)) \<le> t" using assms(1) by auto
  then show ?thesis using assms(2)
    by (simp add: store_opt_def store_int_def put_piece_def load_store_disjoint load_store_bytes)
qed

lemma read_pieces_rest:
  assumes t: "t \<noteq> nullptr" "ind \<noteq> nullptr" "ind + 8 \<le> t \<or> t + b \<le> ind"
    and b: "int (term_len n nt) < b" "b < 2 ^ 63" and len: "int (length val) < 2 ^ 63"
    and l: "0 \<le> progress col h" "progress col h < int (length val) \<or> progress col h = 0 \<and> val = []"
    and k: "length val - nat (progress col h) < k"
  shows "\<exists>h' m'. read_pieces dsn n col t b ind val nt k h m = Some (drop (nat (progress col h)) val, h', m') \<and>
    progress col h' = int (length val) \<and> bound_cols h' = bound_cols h"
  using l k
proof (induction k arbitrary: h m)
  case (Suc k)
  let ?l = "progress col h" and ?e = "b - int (term_len n nt)"
  let ?piece = "take (piece_len (term_len n nt) b (length val - nat ?l)) (drop (nat ?l) val)"
  let ?m = "store_opt 8 ind (int (length val) - ?l) (put_piece n t ?piece nt m)"
  obtain h1 where h1: "GetVariableValue dsn n col t b ind val nt h m =
      Some (if int (length val) - ?l > ?e then SQL_SUCCESS_WITH_INFO else SQL_SUCCESS, h1, ?m)"
    "progress col h1 = ?l + int (length ?piece)" "bound_cols h1 = bound_cols h"
    using GetVariableValue_piece[OF t(1) _ b(2) Suc.prems(1,2) len, of n nt dsn ind m] b(1) by auto
  have lp: "length ?piece = min (length val - nat ?l) (nat ?e)" by (simp add: piece_len_def)
  have "ind + 8 \<le> t \<or> t + int (length ?piece) \<le> ind" using t(3) lp b(1) by linarith
  then have ld: "load_bytes t (length ?piece) ?m = ?piece" by (rule load_put_piece) (rule t(2))
  show ?case
  proof (cases "int (length val) - ?l > ?e")
    case True
    then have "nat ?e \<le> length val - nat ?l" using Suc.prems(1) by linarith
    then have np: "length ?piece = nat ?e" using lp by simp
    have nb: "nat b - term_len n nt = nat ?e" using b(1) by linarith
    have pos: "0 < nat ?e" using b(1) by simp
    have l1: "progress col h1 = ?l + ?e" using h1(2) b(1) unfolding np by simp
    have "\<exists>h' m'. read_pieces dsn n col t b ind val nt k h1 ?m = Some (drop (nat (progress col h1)) val, h', m') \<and>
        progress col h' = int (length val) \<and> bound_cols h' = bound_cols h1"
      by (rule Suc.IH) (use Suc.prems l1 True pos in linarith)+
    moreover have "?piece @ drop (nat (progress col h1)) val = drop (nat ?l) val"
    proof -
      have "nat (progress col h1) = nat ?e + nat ?l" using l1 Suc.prems(1) b(1) by linarith
      moreover have "?piece = take (nat ?e) (drop (nat ?l) val)"
        using np by (metis append_eq_conv_conj append_take_drop_id)
      ultimately show ?thesis by (metis append_take_drop_id drop_drop)
    qed
    ultimately show ?thesis using h1(1,3) True ld np nb by auto
  next
    case False
    then have "?piece = drop (nat ?l) val" "length ?piece = length val - nat ?l"
      using Suc.prems(1) b(1) by (auto simp: piece_len_def min_def)
    moreover have "load_s 8 ind ?m = int (length val) - ?l"
      using t(2) Suc.prems(1,2) len by (auto simp: store_opt_def in_s_def intro!: load_store_s)
    moreover have "progress col h1 = int (length val)"
      using h1(2) calculation(2) Suc.prems(1,2) by linarith
    moreover have "nat (int (length val) - ?l) = length ?piece" using calculation(2) Suc.prems(1) by linarith
    ultimately show ?thesis using h1(1,3) False ld by simp
  qed
qed simp

text \<open>
  C4. Reading a column in pieces: with any buffer that holds at least one byte beside the terminator,
  the pieces put together are the value. A further call reports SQL\_NO\_DATA when the value is not empty;
  an empty value is delivered again by every call, with SQL\_SUCCESS and the length 0.
\<close>

theorem pieces_reassemble:
  assumes "t \<noteq> nullptr" "ind \<noteq> nullptr" "ind + 8 \<le> t \<or> t + b \<le> ind"
    "int (term_len n nt) < b" "b < 2 ^ 63" "int (length val) < 2 ^ 63" "progress col h = 0"
    "length val < k"
  shows "\<exists>h' m'. read_pieces dsn n col t b ind val nt k h m = Some (val, h', m') \<and>
    (if val \<noteq> [] then \<exists>h''. GetVariableValue dsn n col t b ind val nt h' m' = Some (SQL_NO_DATA, h'', m')
     else \<exists>h'' m''. GetVariableValue dsn n col t b ind val nt h' m' = Some (SQL_SUCCESS, h'', m'') \<and>
       load_s 8 ind m'' = 0 \<and> progress col h'' = 0)"
proof -
  obtain h' m' where r: "read_pieces dsn n col t b ind val nt k h m = Some (val, h', m')"
    "progress col h' = int (length val)"
    using read_pieces_rest[of t ind b n nt val col h k dsn m] assms by auto
  show ?thesis
  proof (cases "val = []")
    case False
    then have "\<exists>h''. GetVariableValue dsn n col t b ind val nt h' m' = Some (SQL_NO_DATA, h'', m')"
      using r(2) by (simp add: GetVariableValue_def Let_def progress_def)
    then show ?thesis using r(1) False by auto
  next
    case True
    obtain h1 where h1: "GetVariableValue dsn n col t b ind [] nt h' m' =
        Some (SQL_SUCCESS, h1, store_opt 8 ind 0 (put_piece n t [] nt m'))" "progress col h1 = 0"
      using GetVariableValue_piece[OF assms(1) _ assms(5), of n nt col h' "[]" dsn ind m'] r(2) True assms(4)
      by (auto simp: piece_len_def)
    then have "load_s 8 ind (store_opt 8 ind 0 (put_piece n t [] nt m')) = 0"
      using assms(2) by (simp add: store_opt_def load_store_s in_s_def)
    then show ?thesis using r(1) h1 True by auto
  qed
qed

theorem pieces_reassemble_witness:
  "\<exists>h' m'. read_pieces [] 1 0 100 4 50 ''abcdefgh'' True 9
      (sample_stmt (sample_fetch SQL_CURSOR_FORWARD_ONLY [(0, [[''abcdefgh'']])] 0 True) []) (\<lambda>_. CHR 0x00) =
      Some (''abcdefgh'', h', m') \<and>
    (\<exists>h''. GetVariableValue [] 1 0 100 4 50 ''abcdefgh'' True h' m' = Some (SQL_NO_DATA, h'', m'))"
  using pieces_reassemble[of 100 50 4 1 True "''abcdefgh''" 0
      "sample_stmt (sample_fetch SQL_CURSOR_FORWARD_ONLY [(0, [[''abcdefgh'']])] 0 True) []" 9 "[]" "\<lambda>_. CHR 0x00"]
  by (simp add: term_len_def progress_def SetLastFetchedVariableVal_def GetLastFetchedLength_def sample_fetch_def Let_def)

text \<open>
  C17. A call writes only into the client's buffer and the length cell, for every buffer length
  that is not negative.
\<close>

theorem GetVariableValue_bounds:
  assumes "GetVariableValue dsn n col t b ind val nt h m = Some (ret, h', m')" "0 \<le> b" "b < 2 ^ 63"
    "int (length val) < 2 ^ 63" "0 \<le> progress col h" "progress col h < 2 ^ 63"
    "x < t \<or> t + b \<le> x" "ind = nullptr \<or> x < ind \<or> ind + 8 \<le> x"
  shows "m' x = m x"
proof -
  let ?l = "progress col h"
  consider "nt" "b < int n" | "int (term_len n nt) \<le> b"
    using assms(2) by (cases "nt \<and> b < int n") (auto simp: term_len_def split: if_splits)
  then show ?thesis
  proof cases
    case 1
    then show ?thesis using assms(1-3)
      by (auto simp: GetVariableValue_def Let_def fail_diag_def split: if_splits prod.splits)
  next
    case b: 2
    show ?thesis
    proof (cases "t = nullptr \<or> int (length val) > 0 \<and> ?l \<ge> int (length val)")
      case True
      then show ?thesis using assms(1,8)
        by (auto simp: GetVariableValue_def Let_def fail_diag_def progress_def store_int_def mem_simps
            split: if_splits prod.splits)
    next
      case False
      show ?thesis
      proof (cases "?l < int (length val) \<or> ?l = 0 \<and> val = []")
        case True
        let ?piece = "take (piece_len (term_len n nt) b (length val - nat ?l)) (drop (nat ?l) val)"
        have "m' = store_opt 8 ind (int (length val) - ?l) (put_piece n t ?piece nt m)"
          using GetVariableValue_piece[of t n nt b col h val dsn ind m] False b assms(1,3-5) True by auto
        moreover have "int (length ?piece) + int (term_len n nt) \<le> b" using b by (auto simp: piece_len_def)
        ultimately show ?thesis using assms(7,8)
          by (auto simp: store_opt_def put_piece_def store_int_def mem_simps term_len_def split: if_splits)
      next
        case False
        then have "val = []" "0 < ?l" using assms(5) \<open>\<not> (t = nullptr \<or> _)\<close> by auto
        moreover have "wrap_u 64 (- ?l) = 2 ^ 64 - ?l"
          using calculation(2) assms(6) by (simp add: wrap_u_def zmod_zminus1_eq_if)
        ultimately show ?thesis using assms(1,2,3) \<open>\<not> (t = nullptr \<or> _)\<close> b
          by (auto simp: GetVariableValue_def Let_def fail_diag_def progress_def term_len_def
              split: if_splits prod.splits)
      qed
    qed
  qed
qed

theorem GetVariableValue_bounds_witness:
  "\<exists>h' m'. GetVariableValue [] 1 0 100 4 50 ''abcdefgh'' True
      (sample_stmt (sample_fetch SQL_CURSOR_FORWARD_ONLY [(0, [[''abcdefgh'']])] 0 True) []) (\<lambda>_. CHR 0x00) =
      Some (SQL_SUCCESS_WITH_INFO, h', m') \<and> m' 104 = CHR 0x00"
proof -
  let ?h = "sample_stmt (sample_fetch SQL_CURSOR_FORWARD_ONLY [(0, [[''abcdefgh'']])] 0 True) []"
  have p: "progress 0 ?h = 0"
    by (simp add: progress_def SetLastFetchedVariableVal_def GetLastFetchedLength_def sample_fetch_def Let_def)
  obtain h' m' where r: "GetVariableValue [] 1 0 100 4 50 ''abcdefgh'' True ?h (\<lambda>_. CHR 0x00) =
      Some (SQL_SUCCESS_WITH_INFO, h', m')"
    using GetVariableValue_piece[of 100 1 True 4 0 ?h "''abcdefgh''" "[]" 50 "\<lambda>_. CHR 0x00"] p
    by (auto simp: term_len_def)
  have "m' 104 = CHR 0x00"
    using GetVariableValue_bounds[OF r, of 104] p by simp
  with r show ?thesis by blast
qed

text \<open>
  The check of the buffer length is unsigned: a negative length passes it and the whole value is
  stored, however small the client's buffer is.
\<close>

lemma negative_buffer_length:
  assumes "t \<noteq> nullptr" "- (2 ^ 63) \<le> b" "b < 0" "int (length val) < 2 ^ 62" "progress col h = 0" "val \<noteq> []"
  shows "\<exists>h'. GetVariableValue dsn 1 col t b ind val True h m =
    Some (SQL_SUCCESS, h', store_opt 8 ind (int (length val)) (put_piece 1 t val True m))"
proof -
  have "b mod 2 ^ 64 = (b + 2 ^ 64) mod 2 ^ 64" by simp
  also have "\<dots> = b + 2 ^ 64" using assms(2,3) by (intro mod_pos_pos_trivial) auto
  finally have "wrap_u 64 b = b + 2 ^ 64" by (simp add: wrap_u_def)
  moreover have "wrap_u 64 (b + 2 ^ 64 - 1) = b + 2 ^ 64 - 1" "wrap_u 64 (int (length val)) = int (length val)"
    using assms(2-4) by auto
  ultimately show ?thesis using assms
    by (auto simp: GetVariableValue_def Let_def progress_def put_piece_def)
qed

theorem negative_buffer_length_witness:
  "\<exists>h'. GetVariableValue [] 1 0 100 (- 1) 0 ''abcdefgh'' True
      (sample_stmt (sample_fetch SQL_CURSOR_FORWARD_ONLY [(0, [[''abcdefgh'']])] 0 True) []) (\<lambda>_. CHR 0x00) =
    Some (SQL_SUCCESS, h', store_opt 8 0 8 (put_piece 1 100 ''abcdefgh'' True (\<lambda>_. CHR 0x00)))"
  using negative_buffer_length[of 100 "- 1" "''abcdefgh''" 0
      "sample_stmt (sample_fetch SQL_CURSOR_FORWARD_ONLY [(0, [[''abcdefgh'']])] 0 True) []" "[]" 0 "\<lambda>_. CHR 0x00"]
  by (simp add: progress_def SetLastFetchedVariableVal_def GetLastFetchedLength_def sample_fetch_def Let_def)

section \<open>Decimals and dates\<close>

definition digits :: "string \<Rightarrow> bool" where
  "digits s \<longleftrightarrow> list_all (\<lambda>c. c \<in> set ''0123456789'') s"

lemma digits_filter:
  "digits s \<Longrightarrow> filter (\<lambda>c. c \<noteq> CHR ''.'') s = s" "digits s \<Longrightarrow> filter (\<lambda>c. c \<noteq> CHR ''-'') s = s"
  "digits s \<Longrightarrow> CHR ''.'' \<notin> set s" "digits s \<Longrightarrow> s \<noteq> [] \<Longrightarrow> hd s \<noteq> CHR ''-''"
  by (induction s) (auto simp: digits_def)

lemma takeWhile_digits:
  "digits s \<Longrightarrow> takeWhile (\<lambda>c. c \<noteq> CHR ''.'') (s @ CHR ''.'' # r) = s"
  by (induction s) (auto simp: digits_def)

definition decimal_text :: "bool \<Rightarrow> string \<Rightarrow> string \<Rightarrow> string" where
  "decimal_text neg ds fs = (if neg then ''-'' else []) @ ds @ CHR ''.'' # fs"

lemma numeric_digits_text:
  assumes "digits ds" "ds \<noteq> []" "digits fs" "length fs < 128"
  shows "numeric_digits (decimal_text neg ds fs) =
    ((if neg then 0 else 1), int (length fs),
     if fs \<noteq> [] \<and> list_all (\<lambda>c. c = CHR ''0'') fs then ds else ds @ fs)"
proof -
  have w: "wrap_s 8 (int (length fs)) = int (length fs)" using assms(4) by (intro wrap_s_id) (auto simp: in_s_def)
  have h: "hd (ds @ CHR ''.'' # fs) \<noteq> CHR ''-''" using digits_filter(4)[OF assms(1,2)] assms(2) by simp
  show ?thesis using assms w h
    by (cases neg) (simp_all add: numeric_digits_def decimal_text_def Let_def digits_filter takeWhile_digits)
qed

lemma load_sub:
  "a \<le> b \<Longrightarrow> b + int k \<le> a + int (length bs) \<Longrightarrow> load_bytes b k (store_bytes a bs m) = take k (drop (nat (b - a)) bs)"
  by (rule nth_equalityI) (auto simp: load_bytes_def store_bytes_def nat_add_distrib nat_diff_distrib add.commute
      intro: arg_cong[of _ _ "(!) bs"])

lemma le_decode_zeros: "le_decode (replicate n (CHR 0x00)) = 0"
  by (induction n) auto

lemma le_encode_0: "le_encode n 0 = replicate n (CHR 0x00)"
  by (induction n) (simp_all add: char_of_def)

text \<open>What the client reads: precision, scale, sign, the low and the high half of the value.\<close>

definition load_numeric :: "addr \<Rightarrow> mem \<Rightarrow> int \<times> int \<times> int \<times> int \<times> int" where
  "load_numeric p m = (load_u 1 p m, load_s 1 (p + 1) m, load_u 1 (p + 2) m, load_u 8 (p + 3) m, load_u 8 (p + 11) m)"

lemma GetNumeric_stores:
  assumes "lt_id (eng_type eng val) = LogicalTypeId_DECIMAL"
    "numeric_digits (eng_to_string eng val) = (sign, scale, ds)" "length ds \<le> 18"
    "eng_str_int64 eng ds = Some v" "0 \<le> v" "v < 2 ^ 63" "0 \<le> sign" "sign \<le> 1" "0 \<le> scale" "scale < 128"
    "ind = nullptr \<or> ind + 8 \<le> p \<or> p + 19 \<le> ind"
  shows "\<exists>m'. GetNumeric eng dsn val p ind h m = Some (SQL_SUCCESS, h, m') \<and>
    load_numeric p m' = (int (length ds), scale, sign, v, 0)"
proof -
  let ?pr = "int (length ds)"
  let ?m1 = "store_int 1 p ?pr (store_int 1 (p + 1) scale (store_int 1 (p + 2) sign (store_int 16 (p + 3) 0 m)))"
  let ?m2 = "store_int 8 (p + 3) v ?m1"
  let ?m3 = "store_opt 8 ind 19 ?m2"
  have pr: "wrap_u 8 ?pr = ?pr" using assms(3) by (simp add: in_u_def)
  have run: "GetNumeric eng dsn val p ind h m = Some (SQL_SUCCESS, h, ?m3)"
    using assms(1-4) pr by (simp add: GetNumeric_def ValidateType_def Let_def)
  have keep: "load_u k a ?m3 = load_u k a ?m2" "load_s k a ?m3 = load_s k a ?m2"
    if "p \<le> a" "a + int k \<le> p + 19" for k a
    using assms(11) that by (auto simp: store_opt_def intro!: load_store_int_disjoint)
  have hi: "load_u 8 (p + 11) ?m2 = 0"
  proof -
    have "load_u 8 (p + 11) ?m2 = load_u 8 (p + 11) (store_int 16 (p + 3) 0 m)"
      by (simp add: mem_simps)
    also have "\<dots> = 0"
      unfolding load_u_def store_int_def
      by (subst load_sub) (simp_all add: le_encode_0 le_decode_zeros)
    finally show ?thesis .
  qed
  have "load_u 1 p ?m3 = load_u 1 p ?m2" "load_s 1 (p + 1) ?m3 = load_s 1 (p + 1) ?m2"
    "load_u 1 (p + 2) ?m3 = load_u 1 (p + 2) ?m2" "load_u 8 (p + 3) ?m3 = load_u 8 (p + 3) ?m2"
    "load_u 8 (p + 11) ?m3 = load_u 8 (p + 11) ?m2"
    by (rule keep, simp, simp)+
  moreover have "load_u 1 p ?m2 = ?pr" "load_s 1 (p + 1) ?m2 = scale" "load_u 1 (p + 2) ?m2 = sign"
    "load_u 8 (p + 3) ?m2 = v"
    using assms(3,5-10) by (simp_all add: mem_simps in_s_def)
  ultimately have "load_numeric p ?m3 = (?pr, scale, sign, v, 0)"
    using hi by (simp only: load_numeric_def)
  then show ?thesis using run by blast
qed

text \<open>
  C22. A decimal with a fraction that is not all zeros is delivered as SQL\_C\_NUMERIC with its sign, its
  number of fraction digits as the scale and its digits without the point as the value.
\<close>

theorem numeric_delivered:
  assumes "lt_id (eng_type eng val) = LogicalTypeId_DECIMAL" "eng_to_string eng val = decimal_text neg ds fs"
    "digits ds" "ds \<noteq> []" "digits fs" "\<not> list_all (\<lambda>c. c = CHR ''0'') fs" "length ds + length fs \<le> 18"
    "eng_str_int64 eng (ds @ fs) = Some v" "0 \<le> v" "v < 2 ^ 63" "ind = nullptr \<or> ind + 8 \<le> p \<or> p + 19 \<le> ind"
  shows "\<exists>m'. GetNumeric eng dsn val p ind h m = Some (SQL_SUCCESS, h, m') \<and>
    load_numeric p m' = (int (length ds + length fs), int (length fs), if neg then 0 else 1, v, 0)"
  using GetNumeric_stores[of eng val "if neg then 0 else 1" "int (length fs)" "ds @ fs" v ind p dsn h m]
    numeric_digits_text[OF assms(3-5), of neg] assms by simp

theorem numeric_delivered_witness:
  "\<exists>m'. GetNumeric sample_engine [] ''-12.50'' 100 0
      (sample_stmt (sample_fetch SQL_CURSOR_FORWARD_ONLY [(0, [[''-12.50'']])] 0 True) []) (\<lambda>_. CHR 0xFF) =
    Some (SQL_SUCCESS, sample_stmt (sample_fetch SQL_CURSOR_FORWARD_ONLY [(0, [[''-12.50'']])] 0 True) [], m') \<and>
    load_numeric 100 m' = (4, 2, 0, 1250, 0)"
  using numeric_delivered[of sample_engine "''-12.50''" True "''12''" "''50''" 1250 0 100 "[]"
      "sample_stmt (sample_fetch SQL_CURSOR_FORWARD_ONLY [(0, [[''-12.50'']])] 0 True) []" "\<lambda>_. CHR 0xFF"]
  by (simp add: sample_engine_def decimal_text_def digits_def parse_int_def parse_nat_def)

text \<open>
  When the fraction is all zeros its digits are dropped from the value but the scale keeps their
  number: the decimal 12.00 reaches the client as 12 with scale 2, that is 0.12.
\<close>

theorem numeric_zero_fraction:
  assumes "lt_id (eng_type eng val) = LogicalTypeId_DECIMAL"
    "eng_to_string eng val = decimal_text neg ds (replicate k (CHR ''0''))" "0 < k" "k \<le> 38"
    "digits ds" "ds \<noteq> []" "length ds \<le> 18" "eng_str_int64 eng ds = Some v" "0 \<le> v" "v < 2 ^ 63"
    "ind = nullptr \<or> ind + 8 \<le> p \<or> p + 19 \<le> ind"
  shows "\<exists>m'. GetNumeric eng dsn val p ind h m = Some (SQL_SUCCESS, h, m') \<and>
    load_numeric p m' = (int (length ds), int k, if neg then 0 else 1, v, 0)"
proof -
  have "digits (replicate k (CHR ''0''))" "list_all (\<lambda>c. c = CHR ''0'') (replicate k (CHR ''0''))"
    by (simp_all add: digits_def list_all_iff)
  then show ?thesis
    using GetNumeric_stores[of eng val "if neg then 0 else 1" "int k" ds v ind p dsn h m]
      numeric_digits_text[OF assms(5,6), of "replicate k (CHR ''0'')" neg] assms by simp
qed

theorem numeric_zero_fraction_witness:
  "\<exists>m'. GetNumeric sample_engine [] ''12.00'' 100 0
      (sample_stmt (sample_fetch SQL_CURSOR_FORWARD_ONLY [(0, [[''12.00'']])] 0 True) []) (\<lambda>_. CHR 0xFF) =
    Some (SQL_SUCCESS, sample_stmt (sample_fetch SQL_CURSOR_FORWARD_ONLY [(0, [[''12.00'']])] 0 True) [], m') \<and>
    load_numeric 100 m' = (2, 2, 1, 12, 0)"
  using numeric_zero_fraction[of sample_engine "''12.00''" False "''12''" 2 12 0 100 "[]"
      "sample_stmt (sample_fetch SQL_CURSOR_FORWARD_ONLY [(0, [[''12.00'']])] 0 True) []" "\<lambda>_. CHR 0xFF"]
  by (simp add: sample_engine_def decimal_text_def digits_def parse_int_def parse_nat_def eval_nat_numeral)

text \<open>An engine whose timestamps from 1000 on cannot be converted.\<close>

definition cast_failing_engine :: "string engine" where
  "cast_failing_engine =
     sample_engine\<lparr>eng_type := \<lambda>_. \<lparr>lt_id = LogicalTypeId_TIMESTAMP_SEC, lt_width = 0, lt_scale = 0\<rparr>\<rparr>"

text \<open>
  The handler of CastTimestampValue returns SQL\_ERROR as a bool, which is true: a timestamp that
  cannot be converted to a date is reported as success, and the client gets the parts of an
  uninitialised variable.
\<close>

lemma failed_cast_succeeds:
  assumes "lt_id (eng_type eng val) \<in> timestamp_units" "eng_is_finite eng (eng_int64 eng val)"
    "eng_from_epoch eng (lt_id (eng_type eng val)) (eng_int64 eng val) = Inl msg"
  shows "\<exists>h'. GetDateOrTime eng dsn LogicalTypeId_DATE (eng_ts_date eng) (eng_str_date eng) (store_date eng)
      val p ind h m = Some (SQL_SUCCESS, h', store_opt 8 ind 6 (store_date eng (eng_junk eng) p m))"
proof -
  have "lt_id (eng_type eng val) \<noteq> LogicalTypeId_DATE" using assms(1) by (auto simp: timestamp_units_def)
  moreover obtain h' where "stmt_diag h SQL_ERROR ''CastTimestampValue'' msg ST_22007 dsn = (SQL_ERROR, h')"
    using fst_stmt_diag by (metis prod.collapse)
  ultimately show ?thesis using assms
    by (simp add: GetDateOrTime_def CastTimestampValue_def Let_def)
qed

theorem failed_cast_succeeds_witness:
  "\<exists>h'. GetDateOrTime cast_failing_engine [] LogicalTypeId_DATE (eng_ts_date cast_failing_engine)
      (eng_str_date cast_failing_engine) (store_date cast_failing_engine) ''5000'' 100 0
      (sample_stmt (sample_fetch SQL_CURSOR_FORWARD_ONLY [(0, [[''5000'']])] 0 True) []) (\<lambda>_. CHR 0x00) =
    Some (SQL_SUCCESS, h', store_opt 8 0 6 (store_date cast_failing_engine (eng_junk cast_failing_engine) 100 (\<lambda>_. CHR 0x00)))"
  by (rule failed_cast_succeeds[where msg = "''Could not convert''"])
     (simp_all add: cast_failing_engine_def sample_engine_def timestamp_units_def parse_nat_def)

end
