(* ===== verification/Odbc_Fetch.thy ===== *)
theory Odbc_Fetch
  imports Statement_Data
begin

text \<open>
  The delivering half of \<^verbatim>\<open>src/odbc_driver/common/odbc_fetch.cpp\<close>: filling the bound columns of the
  rows of a rowset, column-wise or row-wise, and \<^verbatim>\<open>Fetch\<close> itself.
\<close>

section \<open>Filling the rows\<close>

definition SetRowStatus :: "int \<Rightarrow> int \<Rightarrow> 'v OdbcHandleStmt \<Rightarrow> mem \<Rightarrow> mem" where
  "SetRowStatus row_idx status h m =
     (let p = sql_desc_array_status_ptr (desc_header (ird (row_desc h)))
      in if p \<noteq> nullptr then store_int 2 (p + 2 * row_idx) status m else m)"

text \<open>
  Where the value and the length of a row go. The row index is the one within the chunk.
\<close>

definition column_target :: "int \<Rightarrow> int \<Rightarrow> OdbcBoundCol \<Rightarrow> addr \<times> addr" where
  "column_target n row_idx c =
     (if n \<noteq> SINGLE_VALUE_FETCH then
        let pointer_size = PointerSizeOf (bc_type c);
            pointer_size = (if pointer_size < 0 then bc_len c else pointer_size)
        in (bc_ptr c + row_idx * pointer_size, bc_strlen_or_ind c + 8 * row_idx)
      else (bc_ptr c, bc_strlen_or_ind c))"

definition row_target :: "int \<Rightarrow> int \<Rightarrow> OdbcBoundCol \<Rightarrow> addr \<times> addr" where
  "row_target row_size row_idx c =
     (let row_offset = row_size * row_idx in (bc_ptr c + row_offset, bc_strlen_or_ind c + row_offset))"

text \<open>One row: the columns in order; \<^verbatim>\<open>ret\<close> is what the last conversion returned.\<close>

fun fetch_columns ::
  "'v engine \<Rightarrow> string \<Rightarrow> (OdbcBoundCol \<Rightarrow> bool) \<Rightarrow> (OdbcBoundCol \<Rightarrow> addr \<times> addr) \<Rightarrow> int \<Rightarrow> nat list
   \<Rightarrow> int \<Rightarrow> 'v OdbcHandleStmt \<Rightarrow> mem \<Rightarrow> 'v result" where
  "fetch_columns eng dsn bound target row_idx [] ret h m = Some (ret, h, m)" |
  "fetch_columns eng dsn bound target row_idx (col_idx # cols) ret h m =
     (if col_idx < length (bound_cols h) then
        let bound_col = bound_cols h ! col_idx in
        if \<not> bound bound_col then fetch_columns eng dsn bound target row_idx cols ret h m
        else do {
          r \<leftarrow> GetDataStmtResult eng dsn (col_idx + 1) (bc_type bound_col) (fst (target bound_col))
                 (bc_len bound_col) (snd (target bound_col)) h m;
          (case r of (ret, h, m) \<Rightarrow>
             fetch_columns eng dsn bound target row_idx cols ret h
               (if SQL_SUCCEEDED ret then m else SetRowStatus row_idx SQL_ROW_ERROR h m)) }
      else None)"

fun fetch_rows ::
  "'v engine \<Rightarrow> string \<Rightarrow> (OdbcBoundCol \<Rightarrow> bool) \<Rightarrow> (int \<Rightarrow> OdbcBoundCol \<Rightarrow> addr \<times> addr) \<Rightarrow> int list
   \<Rightarrow> int \<Rightarrow> 'v OdbcHandleStmt \<Rightarrow> mem \<Rightarrow> 'v result" where
  "fetch_rows eng dsn bound target [] ret h m = Some (ret, h, m)" |
  "fetch_rows eng dsn bound target (row_idx # rows) ret h m = do {
     s \<leftarrow> st_stmt h;
     (let f = odbc_fetcher h;
          h = h\<lparr>odbc_fetcher := f\<lparr>chunk_row := chunk_row f + 1\<rparr>\<rparr>;
          m = SetRowStatus row_idx SQL_SUCCESS h m
      in do {
        r \<leftarrow> fetch_columns eng dsn bound (target row_idx) row_idx [0..<ColumnCount s] ret h m;
        (case r of (ret, h, m) \<Rightarrow> fetch_rows eng dsn bound target rows ret h m) }) }"

definition store_rows_fetched :: "int \<Rightarrow> 'v OdbcHandleStmt \<Rightarrow> mem \<Rightarrow> mem" where
  "store_rows_fetched v h m = store_opt 8 (rows_fetched_ptr h) v m"

definition ColumnWise :: "'v engine \<Rightarrow> string \<Rightarrow> 'v OdbcHandleStmt \<Rightarrow> mem \<Rightarrow> 'v result" where
  "ColumnWise eng dsn h m = do {
     c \<leftarrow> deref_chunk (odbc_fetcher h);
     (let n = ard_array_size h;
          first_row_to_fetch = chunk_row (odbc_fetcher h) + 1;
          last_row_to_fetch = min (wrap_u 64 (first_row_to_fetch + n)) (int (length c))
      in do {
        r \<leftarrow> fetch_rows eng dsn (\<lambda>b. IsBound b \<or> IsVarcharBound b) (column_target n)
               [first_row_to_fetch..last_row_to_fetch - 1] SQL_SUCCESS h m;
        (case r of (ret, h, m) \<Rightarrow>
           Some (ret, h, store_rows_fetched (wrap_u 64 (last_row_to_fetch - first_row_to_fetch)) h m)) }) }"

definition RowWise :: "'v engine \<Rightarrow> string \<Rightarrow> 'v OdbcHandleStmt \<Rightarrow> mem \<Rightarrow> 'v result" where
  "RowWise eng dsn h m = do {
     c \<leftarrow> deref_chunk (odbc_fetcher h);
     (let n = ard_array_size h;
          row_size = sql_desc_bind_type (desc_header (ard (row_desc h)));
          first_row_to_fetch = chunk_row (odbc_fetcher h) + 1;
          last_row_to_fetch = min (wrap_u 64 (first_row_to_fetch + n)) (int (length c));
          rows = [first_row_to_fetch..last_row_to_fetch - 1]
      in do {
        r \<leftarrow> fetch_rows eng dsn IsBound (row_target row_size) rows SQL_SUCCESS h m;
        (case r of (ret, h, m) \<Rightarrow> Some (ret, h, store_rows_fetched (int (length rows)) h m)) }) }"

section \<open>Fetch\<close>

definition count_rows :: "'v OdbcHandleStmt \<Rightarrow> 'v OdbcHandleStmt option" where
  "count_rows h = map_option (\<lambda>f. h\<lparr>odbc_fetcher := f\<rparr>) (IncreaseRowCount (ard_array_size h) (odbc_fetcher h))"

definition Fetch :: "'v engine \<Rightarrow> string \<Rightarrow> int \<Rightarrow> int \<Rightarrow> 'v OdbcHandleStmt \<Rightarrow> mem \<Rightarrow> 'v result" where
  "Fetch eng dsn fetch_orientation fetch_offset h m = do {
     (ret, h) \<leftarrow> FetchNextChunk dsn fetch_orientation fetch_offset h;
     (if ret \<noteq> SQL_SUCCESS then
        Some (if ret = RETURN_FETCH_BEFORE_START then SQL_SUCCESS else ret, h, m)
      else if bound_cols h = [] then
        (let f = odbc_fetcher h;
             h = h\<lparr>odbc_fetcher := f\<lparr>chunk_row := wrap_s 64 (chunk_row f + ard_array_size h)\<rparr>\<rparr>;
             m = store_rows_fetched 1 h m
         in do { h \<leftarrow> count_rows h; Some (SQL_SUCCESS, h, m) })
      else do {
        (ret, h, m) \<leftarrow>
          (if sql_desc_bind_type (desc_header (ard (row_desc h))) = SQL_BIND_BY_COLUMN
           then ColumnWise eng dsn h m else RowWise eng dsn h m);
        (if \<not> SQL_SUCCEEDED ret then Some (ret, h, m)
         else do { h \<leftarrow> count_rows h; Some (ret, h, m) }) }) }"

definition DummyFetch :: "'v OdbcHandleStmt \<Rightarrow> mem \<Rightarrow> int \<times> mem" where
  "DummyFetch h m =
     (if retrieve_data h = SQL_RD_OFF then
        let f = odbc_fetcher h;
            n = ard_array_size h;
            row_set_size = (if chunk_row f + n > row_count f then row_count f - chunk_row f else n);
            p = sql_desc_array_status_ptr (desc_header (ird (row_desc h)))
        in
        if row_set_size \<le> 0 then (SQL_NO_DATA, m)
        else if p \<noteq> nullptr then
          (SQL_SUCCESS,
           fold (\<lambda>i. store_int 2 (p + 2 * i) SQL_ROW_NOROW) [row_set_size..n - 1]
             (fold (\<lambda>i. store_int 2 (p + 2 * i) SQL_ROW_SUCCESS) [0..row_set_size - 1] m))
        else (SQL_SUCCESS, m)
      else (SQL_NEED_DATA, m))"

end
