(* ===== verification/Cursor_Refinement.thy ===== *)
theory Cursor_Refinement
  imports Odbc_Fetch
begin

text \<open>
  What the cursor promises, and that the fetcher of \<^verbatim>\<open>odbc_fetch.cpp\<close> keeps it: a forward-only cursor is
  a source of rows, a scrollable cursor over a result of one chunk follows the position automaton of
  ODBC. The last section holds what it does not keep.
\<close>

section \<open>Row sources\<close>

text \<open>
  The contract between a cursor and a client that only asks for the next row: a source stands for the
  list of the rows it has not delivered.
\<close>

fun calls :: "('s \<Rightarrow> ('r option \<times> 's) option) \<Rightarrow> nat \<Rightarrow> 's \<Rightarrow> ('r option list \<times> 's) option" where
  "calls next 0 s = Some ([], s)" |
  "calls next (Suc n) s =
     (case next s of
        None \<Rightarrow> None
      | Some (r, s) \<Rightarrow> map_option (\<lambda>(rs, s). (r # rs, s)) (calls next n s))"

text \<open>The answers of \<^verbatim>\<open>n\<close> calls on a source of \<^verbatim>\<open>rows\<close>: its rows, and then the end as often as it is asked.\<close>

definition answers :: "nat \<Rightarrow> 'r list \<Rightarrow> 'r option list" where
  "answers n rows = map Some (take n rows) @ replicate (n - length rows) None"

lemma answers_simps [simp]:
  "answers 0 rows = []" "answers (Suc n) [] = None # answers n []" "answers (Suc n) (r # rs) = Some r # answers n rs"
  by (simp_all add: answers_def)

locale row_source =
  fixes next_row :: "'s \<Rightarrow> ('r option \<times> 's) option"
    and inv :: "'s \<Rightarrow> bool"
    and rows :: "'s \<Rightarrow> 'r list"
  assumes next_some: "inv s \<Longrightarrow> rows s = r # rs \<Longrightarrow> \<exists>s'. next_row s = Some (Some r, s') \<and> inv s' \<and> rows s' = rs"
    and next_none: "inv s \<Longrightarrow> rows s = [] \<Longrightarrow> \<exists>s'. next_row s = Some (None, s') \<and> inv s' \<and> rows s' = []"
begin

text \<open>However often it is called.\<close>

lemma calls_answers:
  "inv s \<Longrightarrow> \<exists>s'. calls next_row n s = Some (answers n (rows s), s') \<and> inv s' \<and> rows s' = drop n (rows s)"
proof (induction n arbitrary: s)
  case (Suc n)
  show ?case
  proof (cases "rows s")
    case Nil
    then obtain s1 where s1: "next_row s = Some (None, s1)" "inv s1" "rows s1 = []"
      using next_none[OF Suc.prems] by blast
    then show ?thesis using Suc.IH[OF s1(2)] Nil by auto
  next
    case (Cons r rs)
    then obtain s1 where s1: "next_row s = Some (Some r, s1)" "inv s1" "rows s1 = rs"
      using next_some[OF Suc.prems] by blast
    then show ?thesis using Suc.IH[OF s1(2)] Cons by auto
  qed
qed simp

end

section \<open>The forward-only cursor\<close>

text \<open>The row the cursor stands on.\<close>

definition current_row :: "'v OdbcFetch \<Rightarrow> 'v list option" where
  "current_row f = (case deref_chunk f of None \<Rightarrow> None
     | Some c \<Rightarrow> if 0 \<le> chunk_row f \<and> chunk_row f < int (length c) then Some (c ! nat (chunk_row f)) else None)"

lemma GetValue_current_row:
  "current_row f = Some r \<Longrightarrow> k < length r \<Longrightarrow> GetValue k f = Some (SQL_SUCCESS, Some (r ! k))"
  by (auto simp: current_row_def GetValue_def deref_chunk_def split: option.splits if_splits)

text \<open>SQLFetch on a cursor without bound columns, and the row it leaves the cursor on.\<close>

definition fetch_next_row ::
  "'v engine \<Rightarrow> string \<Rightarrow> 'v OdbcHandleStmt \<times> mem \<Rightarrow> ('v list option \<times> 'v OdbcHandleStmt \<times> mem) option" where
  "fetch_next_row eng dsn s =
     (case Fetch eng dsn SQL_FETCH_NEXT 0 (fst s) (snd s) of
        None \<Rightarrow> None
      | Some (ret, h, m) \<Rightarrow>
          if ret = SQL_SUCCESS then map_option (\<lambda>r. (Some r, h, m)) (current_row (odbc_fetcher h))
          else if ret = SQL_NO_DATA then Some (None, h, m) else None)"

definition small_chunk :: "'v chunk \<Rightarrow> bool" where
  "small_chunk c \<longleftrightarrow> c \<noteq> [] \<and> int (length c) < 2 ^ 62"

definition undelivered :: "'v OdbcHandleStmt \<Rightarrow> 'v list list" where
  "undelivered h =
     (case deref_chunk (odbc_fetcher h) of None \<Rightarrow> [] | Some c \<Rightarrow> drop (nat (chunk_row (odbc_fetcher h) + 1)) c) @
     (case st_res h of None \<Rightarrow> [] | Some r \<Rightarrow> concat (map (\<lambda>e. case e of Fetched c \<Rightarrow> c | _ \<Rightarrow> []) (res_events r)))"

text \<open>No column is bound, before or after the columns of the statement are known.\<close>

definition unbound :: "'v OdbcHandleStmt \<Rightarrow> bool" where
  "unbound h \<longleftrightarrow> (bound_cols h = [] \<or> (\<exists>s. st_stmt h = Some s \<and> ColumnCount s \<le> length (bound_cols h))) \<and>
     (\<forall>b \<in> set (bound_cols h). \<not> IsBound b \<and> \<not> IsVarcharBound b)"

lemma unbound_frame [simp]:
  "unbound (h\<lparr>odbc_fetcher := f\<rparr>) = unbound h"
  "unbound (h\<lparr>st_res := r\<rparr>) = unbound h"
  by (simp_all add: unbound_def)

lemma unbound_cong: "bound_cols h' = bound_cols h \<Longrightarrow> st_stmt h' = st_stmt h \<Longrightarrow> unbound h' = unbound h"
  by (simp add: unbound_def)

lemma unbound_sample [simp]: "unbound (sample_stmt f cs)"
  by (simp add: unbound_def)

definition forward_inv :: "'v OdbcHandleStmt \<Rightarrow> bool" where
  "forward_inv h \<longleftrightarrow>
     (let f = odbc_fetcher h in
      unbound h \<and> ard_array_size h = 1 \<and> cursor_type f = SQL_CURSOR_FORWARD_ONLY \<and>
      (\<exists>cs. pending h cs \<and> list_all small_chunk cs \<and> (resultset_end f \<longrightarrow> cs = [])) \<and>
      (chunks f = [] \<and> current_chunk f = None \<and> current_chunk_idx f = 0 \<or>
       (\<exists>p c. chunks f = [(p, c)] \<and> current_chunk f = Some p \<and> current_chunk_idx f = 0 \<and> small_chunk c \<and>
          - 1 \<le> chunk_row f \<and> chunk_row f < int (length c))))"

lemma undelivered_pending:
  assumes "pending h cs"
  shows "undelivered h =
     (case deref_chunk (odbc_fetcher h) of None \<Rightarrow> [] | Some c \<Rightarrow> drop (nat (chunk_row (odbc_fetcher h) + 1)) c) @ concat cs"
proof -
  obtain r where "st_res h = Some r" "res_events r = map Fetched cs" using assms by (auto simp: pending_def)
  moreover have "concat (map (\<lambda>e. case e of Fetched c \<Rightarrow> c | _ \<Rightarrow> []) (map Fetched cs)) = concat cs"
    by (induction cs) auto
  ultimately show ?thesis by (simp add: undelivered_def)
qed

lemma fetch_columns_unbound:
  assumes "\<forall>b \<in> set (bound_cols h). \<not> bound b" "\<forall>i \<in> set cols. i < length (bound_cols h)"
  shows "fetch_columns eng dsn bound target row_idx cols ret h m = Some (ret, h, m)"
  using assms by (induction cols) auto

lemma fetch_rows_unbound:
  assumes "st_stmt h = Some s" "ColumnCount s \<le> length (bound_cols h)" "\<forall>b \<in> set (bound_cols h). \<not> bound b"
  shows "\<exists>m'. fetch_rows eng dsn bound target [i] ret h m = Some (ret,
    h\<lparr>odbc_fetcher := (odbc_fetcher h)\<lparr>chunk_row := chunk_row (odbc_fetcher h) + 1\<rparr>\<rparr>, m')"
  using assms by (simp add: fetch_columns_unbound Let_def)

lemma Fetch_unbound:
  assumes "FetchNextChunk dsn ori off h = Some (SQL_SUCCESS, h')" "unbound h'" "ard_array_size h' = 1"
    "deref_chunk (odbc_fetcher h') = Some c" "chunk_row (odbc_fetcher h') + 1 < int (length c)" "int (length c) < 2 ^ 62"
    "- 1 \<le> chunk_row (odbc_fetcher h')"
  shows "\<exists>k m'. Fetch eng dsn ori off h m = Some (SQL_SUCCESS,
     h'\<lparr>odbc_fetcher := (odbc_fetcher h')\<lparr>chunk_row := chunk_row (odbc_fetcher h') + 1, row_count := k\<rparr>\<rparr>, m')"
proof -
  let ?f = "odbc_fetcher h'"
  let ?i = "chunk_row ?f + 1"
  let ?h = "h'\<lparr>odbc_fetcher := ?f\<lparr>chunk_row := ?i\<rparr>\<rparr>"
  have w: "wrap_s 64 ?i = ?i" "wrap_u 64 (?i + 1) = ?i + 1"
    using assms(5-7) by (intro wrap_s_id wrap_u_id, simp_all add: in_s_def in_u_def)
  obtain k where k: "count_rows ?h = Some (?h\<lparr>odbc_fetcher := (odbc_fetcher ?h)\<lparr>row_count := k\<rparr>\<rparr>)"
    using assms(3,4) by (simp add: count_rows_def IncreaseRowCount_def split: if_split_asm) metis
  have rows: "[?i..min (?i + 1) (int (length c)) - 1] = [?i]" using assms(5) by (simp add: min_def upto.simps)
  have "\<exists>m'. Fetch eng dsn ori off h m = Some (SQL_SUCCESS, ?h\<lparr>odbc_fetcher := (odbc_fetcher ?h)\<lparr>row_count := k\<rparr>\<rparr>, m')"
  proof (cases "bound_cols h' = []")
    case True
    then show ?thesis using assms(1,3) k w(1) by (simp add: Fetch_def Let_def)
  next
    case False
    then obtain s where s: "st_stmt h' = Some s" "ColumnCount s \<le> length (bound_cols h')"
      "\<forall>b \<in> set (bound_cols h'). \<not> (IsBound b \<or> IsVarcharBound b)" "\<forall>b \<in> set (bound_cols h'). \<not> IsBound b"
      using assms(2) by (auto simp: unbound_def)
    obtain m1 where "ColumnWise eng dsn h' m = Some (SQL_SUCCESS, ?h, m1)"
      using fetch_rows_unbound[OF s(1,2,3), of eng dsn "column_target 1" ?i 0 m] assms(3,4) rows w(2)
      by (auto simp: ColumnWise_def Let_def simp del: fetch_rows.simps)
    moreover obtain m2 where "RowWise eng dsn h' m = Some (SQL_SUCCESS, ?h, m2)"
      using fetch_rows_unbound[OF s(1,2,4), of eng dsn "row_target (sql_desc_bind_type (desc_header (ard (row_desc h'))))" ?i 0 m]
        assms(3,4) rows w(2)
      by (auto simp: RowWise_def Let_def simp del: fetch_rows.simps)
    ultimately show ?thesis using False assms(1) k by (simp add: Fetch_def Let_def)
  qed
  then show ?thesis by auto
qed

text \<open>The fetcher holds one chunk and stands before one of its rows.\<close>

definition single :: "'v OdbcFetch \<Rightarrow> nat \<Rightarrow> 'v chunk \<Rightarrow> bool" where
  "single f p c \<longleftrightarrow> chunks f = [(p, c)] \<and> current_chunk f = Some p \<and> current_chunk_idx f = 0 \<and> small_chunk c"

lemma single_deref [simp]: "single f p c \<Longrightarrow> deref_chunk f = Some c"
  by (simp add: single_def deref_chunk_def)

lemma single_frame [simp]:
  "single (f\<lparr>chunk_row := i\<rparr>) p c = single f p c" "single (f\<lparr>prior_chunk_row := i\<rparr>) p c = single f p c"
  "single (f\<lparr>row_count := i\<rparr>) p c = single f p c" "single (f\<lparr>resultset_end := b\<rparr>) p c = single f p c"
  "single (ResetLastFetchedVariableVal f) p c = single f p c"
  by (simp_all add: single_def)

lemma single_require_fetch: "single f p c \<Longrightarrow> RequireFetch f \<longleftrightarrow> int (length c) - 1 \<le> chunk_row f"
  by (simp add: single_def RequireFetch_def)

lemma forward_invI:
  assumes "unbound h" "ard_array_size h = 1" "cursor_type (odbc_fetcher h) = SQL_CURSOR_FORWARD_ONLY"
    "pending h cs" "list_all small_chunk cs" "resultset_end (odbc_fetcher h) \<longrightarrow> cs = []"
    "single (odbc_fetcher h) p c" "- 1 \<le> chunk_row (odbc_fetcher h)" "chunk_row (odbc_fetcher h) < int (length c)"
  shows "forward_inv h"
  using assms unfolding forward_inv_def single_def by auto

lemma forward_deliver:
  assumes "FetchNextChunk dsn SQL_FETCH_NEXT 0 h = Some (SQL_SUCCESS, h1)" "unbound h1"
    "ard_array_size h1 = 1" "cursor_type (odbc_fetcher h1) = SQL_CURSOR_FORWARD_ONLY"
    "pending h1 cs" "list_all small_chunk cs" "resultset_end (odbc_fetcher h1) \<longrightarrow> cs = []"
    "single (odbc_fetcher h1) p c" "- 1 \<le> chunk_row (odbc_fetcher h1)"
    "chunk_row (odbc_fetcher h1) + 1 < int (length c)"
  shows "\<exists>s'. fetch_next_row eng dsn (h, m) = Some (Some (c ! nat (chunk_row (odbc_fetcher h1) + 1)), s') \<and>
    forward_inv (fst s') \<and>
    undelivered (fst s') = drop (nat (2 + chunk_row (odbc_fetcher h1))) c @ concat cs"
proof -
  let ?i = "chunk_row (odbc_fetcher h1)"
  have c: "int (length c) < 2 ^ 62" using assms(8) by (simp add: single_def small_chunk_def)
  obtain k m' where F: "Fetch eng dsn SQL_FETCH_NEXT 0 h m = Some (SQL_SUCCESS,
     h1\<lparr>odbc_fetcher := (odbc_fetcher h1)\<lparr>chunk_row := ?i + 1, row_count := k\<rparr>\<rparr>, m')"
    using Fetch_unbound[OF assms(1,2,3) single_deref[OF assms(8)], of eng m] assms(9,10) c by blast
  let ?h = "h1\<lparr>odbc_fetcher := (odbc_fetcher h1)\<lparr>chunk_row := ?i + 1, row_count := k\<rparr>\<rparr>"
  have d: "deref_chunk ((odbc_fetcher h1)\<lparr>chunk_row := ?i + 1, row_count := k\<rparr>) = Some c" using assms(8) by simp
  have "forward_inv ?h" using assms by (intro forward_invI[where cs = cs and c = c]) auto
  moreover have "undelivered ?h = drop (nat (2 + ?i)) c @ concat cs"
    using undelivered_pending[of ?h cs] assms(5) d by simp
  moreover have "current_row (odbc_fetcher ?h) = Some (c ! nat (?i + 1))"
    using d assms(9,10) by (simp add: current_row_def)
  ultimately show ?thesis using F by (simp add: fetch_next_row_def)
qed

lemma forward_refetch:
  assumes inv: "forward_inv h" and p: "pending h (c # cs)" and sc: "list_all small_chunk (c # cs)"
    and rf: "RequireFetch (odbc_fetcher h)"
  obtains h1 where "FetchNextChunk dsn SQL_FETCH_NEXT 0 h = Some (SQL_SUCCESS, h1)" "unbound h1"
    "ard_array_size h1 = 1" "cursor_type (odbc_fetcher h1) = SQL_CURSOR_FORWARD_ONLY" "pending h1 cs"
    "\<not> resultset_end (odbc_fetcher h1)" "single (odbc_fetcher h1) (next_chunk (odbc_fetcher h)) c"
    "chunk_row (odbc_fetcher h1) = - 1"
proof -
  let ?f = "(odbc_fetcher h)\<lparr>prior_chunk_row := chunk_row (odbc_fetcher h)\<rparr>"
  let ?h = "h\<lparr>odbc_fetcher := ?f\<rparr>"
  have e: "\<not> resultset_end (odbc_fetcher h)"
    using inv p by (auto simp: forward_inv_def Let_def pending_def)
  have ct: "cursor_type ?f = SQL_CURSOR_FORWARD_ONLY" using inv by (simp add: forward_inv_def Let_def)
  obtain h' where h': "FetchNext dsn ?h = map_option (\<lambda>(ret, f). (ret, h'\<lparr>odbc_fetcher := f\<rparr>))
       (SetCurrentChunk (append_chunk c ?f))" "pending h' cs"
    "\<And>f. ard_array_size (h'\<lparr>odbc_fetcher := f\<rparr>) = ard_array_size ?h" "bound_cols h' = bound_cols h" "st_stmt h' = st_stmt h"
    using FetchNext_chunk[of ?h c cs dsn] e p by auto
  have u: "unbound h'" using unbound_cong[OF h'(4,5)] inv by (simp add: forward_inv_def Let_def)
  have rf': "RequireFetch ?f" using rf by (simp add: RequireFetch_def)
  have "FetchNextChunk dsn SQL_FETCH_NEXT 0 h = FetchNext dsn ?h"
    using ct e rf' by (simp add: FetchNextChunk_def Let_def)
  then show thesis using that[of "h'\<lparr>odbc_fetcher := (append_chunk c ?f)\<lparr>current_chunk := Some (next_chunk (odbc_fetcher h)),
        current_chunk_idx := 0, chunk_row := - 1, prior_chunk_row := - 1\<rparr>\<rparr>"]
      SetCurrentChunk_last[of "append_chunk c ?f"] h' u ct inv e sc
    by (simp add: single_def forward_inv_def Let_def)
qed

lemma forward_step:
  assumes inv: "forward_inv h" and r: "undelivered h = r # rs"
  shows "\<exists>s'. fetch_next_row eng dsn (h, m) = Some (Some r, s') \<and> forward_inv (fst s') \<and> undelivered (fst s') = rs"
proof -
  let ?f = "odbc_fetcher h"
  obtain cs where cs: "pending h cs" "list_all small_chunk cs" "resultset_end ?f \<longrightarrow> cs = []"
    and b: "unbound h" "ard_array_size h = 1" "cursor_type ?f = SQL_CURSOR_FORWARD_ONLY"
    using inv by (auto simp: forward_inv_def Let_def)
  show ?thesis
  proof (cases "RequireFetch ?f")
    case False
    then obtain p c where s: "single ?f p c" "- 1 \<le> chunk_row ?f" "chunk_row ?f + 1 < int (length c)"
      using inv by (auto simp: forward_inv_def Let_def single_def RequireFetch_def)
    let ?h = "h\<lparr>odbc_fetcher := ?f\<lparr>prior_chunk_row := chunk_row ?f\<rparr>\<rparr>"
    have F: "FetchNextChunk dsn SQL_FETCH_NEXT 0 h = Some (SQL_SUCCESS, ?h)"
      using False b by (simp add: FetchNextChunk_def Let_def RequireFetch_def)
    have "undelivered h = drop (nat (chunk_row ?f + 1)) c @ concat cs"
      using undelivered_pending[OF cs(1)] s(1) by simp
    moreover have "drop (nat (chunk_row ?f + 1)) c = c ! nat (chunk_row ?f + 1) # drop (nat (2 + chunk_row ?f)) c"
    proof -
      have "nat (chunk_row ?f + 1) < length c" "Suc (nat (chunk_row ?f + 1)) = nat (2 + chunk_row ?f)"
        using s(2,3) by linarith+
      then show ?thesis by (metis Cons_nth_drop_Suc)
    qed
    ultimately have "r = c ! nat (chunk_row ?f + 1)" "rs = drop (nat (2 + chunk_row ?f)) c @ concat cs"
      using r by simp_all
    then show ?thesis using forward_deliver[OF F] b cs s by simp
  next
    case True
    have nil: "(case deref_chunk ?f of None \<Rightarrow> [] | Some c \<Rightarrow> drop (nat (chunk_row ?f + 1)) c) = []"
      using inv True by (auto simp: forward_inv_def Let_def RequireFetch_def deref_chunk_def)
    then have "concat cs = r # rs" using undelivered_pending[OF cs(1)] r by simp
    then obtain c cs' where c: "cs = c # cs'" "c @ concat cs' = r # rs" by (cases cs) auto
    have "c \<noteq> []" using c cs(2) by (simp add: small_chunk_def)
    then have rr: "r = c ! 0" "rs = drop 1 c @ concat cs'" using c(2) by (auto simp: neq_Nil_conv)
    obtain h1 where h1: "FetchNextChunk dsn SQL_FETCH_NEXT 0 h = Some (SQL_SUCCESS, h1)" "unbound h1"
      "ard_array_size h1 = 1" "cursor_type (odbc_fetcher h1) = SQL_CURSOR_FORWARD_ONLY" "pending h1 cs'"
      "\<not> resultset_end (odbc_fetcher h1)" "single (odbc_fetcher h1) (next_chunk ?f) c"
      "chunk_row (odbc_fetcher h1) = - 1"
      using forward_refetch[OF inv _ _ True] cs c(1) by metis
    show ?thesis using forward_deliver[OF h1(1-5) _ _ h1(7)] h1(6,8) rr cs(2) c(1) \<open>c \<noteq> []\<close> by simp
  qed
qed

lemma forward_end:
  assumes inv: "forward_inv h" and r: "undelivered h = []"
  shows "\<exists>s'. fetch_next_row eng dsn (h, m) = Some (None, s') \<and> forward_inv (fst s') \<and> undelivered (fst s') = []"
proof -
  let ?f = "odbc_fetcher h"
  let ?f1 = "?f\<lparr>prior_chunk_row := chunk_row ?f\<rparr>"
  obtain cs where cs: "pending h cs" "list_all small_chunk cs"
    and b: "unbound h" "ard_array_size h = 1" "cursor_type ?f = SQL_CURSOR_FORWARD_ONLY"
    using inv by (auto simp: forward_inv_def Let_def)
  have "cs = []" using r undelivered_pending[OF cs(1)] cs(2) by (cases cs) (auto simp: small_chunk_def)
  with cs have p: "pending h []" by simp
  have rf: "RequireFetch ?f1"
    using inv r undelivered_pending[OF p]
    by (auto simp: forward_inv_def Let_def RequireFetch_def deref_chunk_def)
  define h1 where "h1 = (if resultset_end ?f then h\<lparr>odbc_fetcher := ?f1\<rparr>
     else h\<lparr>odbc_fetcher := (ResetLastFetchedVariableVal ?f1)\<lparr>resultset_end := True\<rparr>\<rparr>)"
  have "FetchNextChunk dsn SQL_FETCH_NEXT 0 h = Some (SQL_NO_DATA, h1)"
  proof (cases "resultset_end ?f")
    case False
    then show ?thesis using b rf p FetchNext_end[of "h\<lparr>odbc_fetcher := ?f1\<rparr>" dsn]
      by (simp add: FetchNextChunk_def Let_def h1_def)
  next
    case True
    then show ?thesis using b rf inv FetchNext_at_end[of "h\<lparr>odbc_fetcher := ?f1\<rparr>" dsn]
      by (auto simp: FetchNextChunk_def Let_def h1_def forward_inv_def SetCurrentChunk_def wrap_u_def)
  qed
  then have "Fetch eng dsn SQL_FETCH_NEXT 0 h m = Some (SQL_NO_DATA, h1, m)" by (simp add: Fetch_def)
  moreover have "forward_inv h1"
    using inv p unfolding forward_inv_def h1_def by (auto simp: Let_def)
  moreover have "undelivered h1 = []"
  proof -
    have h1: "pending h1 []" "deref_chunk (odbc_fetcher h1) = deref_chunk ?f"
      "chunk_row (odbc_fetcher h1) = chunk_row ?f" using p by (simp_all add: h1_def)
    show ?thesis using r unfolding undelivered_pending[OF p] undelivered_pending[OF h1(1)] h1(2,3) .
  qed
  ultimately show ?thesis by (simp add: fetch_next_row_def)
qed

interpretation forward: row_source "fetch_next_row eng dsn" "\<lambda>s. forward_inv (fst s)" "\<lambda>s. undelivered (fst s)"
  for eng :: "'v engine" and dsn :: string
proof unfold_locales
  fix s :: "'v OdbcHandleStmt \<times> mem" and r rs
  assume "forward_inv (fst s)" "undelivered (fst s) = r # rs"
  then show "\<exists>s'. fetch_next_row eng dsn s = Some (Some r, s') \<and> forward_inv (fst s') \<and> undelivered (fst s') = rs"
    using forward_step[of "fst s" r rs eng dsn "snd s"] by simp
next
  fix s :: "'v OdbcHandleStmt \<times> mem"
  assume "forward_inv (fst s)" "undelivered (fst s) = []"
  then show "\<exists>s'. fetch_next_row eng dsn s = Some (None, s') \<and> forward_inv (fst s') \<and> undelivered (fst s') = []"
    using forward_end[of "fst s" eng dsn "snd s"] by simp
qed

text \<open>
  C2. A forward-only cursor that fetches one row at a time, without bound columns and from a result that
  delivers its chunks without an error, answers any number of calls: with every row that is left, once
  and in order across the chunks, and with SQL\_NO\_DATA each time after the last row.
\<close>

theorem forward_fetch_all:
  assumes "forward_inv h"
  shows "\<exists>s'. calls (fetch_next_row eng dsn) n (h, m) = Some (answers n (undelivered h), s')"
  using forward.calls_answers[of "(h, m)" eng dsn n] assms by auto

lemma sample_forward:
  assumes "small_chunk c" "list_all small_chunk cs"
  shows "forward_inv (sample_stmt (sample_fetch SQL_CURSOR_FORWARD_ONLY [(0, c)] (- 1) False) cs)"
    "undelivered (sample_stmt (sample_fetch SQL_CURSOR_FORWARD_ONLY [(0, c)] (- 1) False) cs) = c @ concat cs"
proof -
  have p: "[] \<notin> set cs" using assms(2) by (auto simp: list_all_iff small_chunk_def)
  show "forward_inv (sample_stmt (sample_fetch SQL_CURSOR_FORWARD_ONLY [(0, c)] (- 1) False) cs)"
    using assms p by (intro forward_invI[where cs = cs and p = 0 and c = c])
      (simp_all add: single_def sample_fetch_def small_chunk_def)
  show "undelivered (sample_stmt (sample_fetch SQL_CURSOR_FORWARD_ONLY [(0, c)] (- 1) False) cs) = c @ concat cs"
    using undelivered_pending[of "sample_stmt (sample_fetch SQL_CURSOR_FORWARD_ONLY [(0, c)] (- 1) False) cs" cs] p
    by (simp add: sample_fetch_def deref_chunk_def)
qed

theorem forward_fetch_all_witness:
  "\<exists>s'. calls (fetch_next_row sample_engine []) 5
     (sample_stmt (sample_fetch SQL_CURSOR_FORWARD_ONLY [(0, [[''a''], [''b'']])] (- 1) False) [[[''c'']]], \<lambda>_. CHR 0x00) =
     Some ([Some [''a''], Some [''b''], Some [''c''], None, None], s')"
  using forward_fetch_all[of "sample_stmt (sample_fetch SQL_CURSOR_FORWARD_ONLY [(0, [[''a''], [''b'']])] (- 1) False) [[[''c'']]]"
     sample_engine "[]" 5 "\<lambda>_. CHR 0x00"] sample_forward[of "[[''a''], [''b'']]" "[[[''c'']]]"]
  by (simp add: small_chunk_def numeral_eq_Suc)

section \<open>The scrollable cursor\<close>

text \<open>The position automaton: before the first row, on a row, after the last one.\<close>

datatype position = Before_Start | On_Row nat | After_End

datatype scroll_op = Fetch_Next | Fetch_Prior | Fetch_First

inductive scrolls :: "nat \<Rightarrow> scroll_op \<Rightarrow> position \<Rightarrow> position \<Rightarrow> bool" for n :: nat where
  next_start: "scrolls n Fetch_Next Before_Start (On_Row 0)"
| next_row: "i + 1 < n \<Longrightarrow> scrolls n Fetch_Next (On_Row i) (On_Row (i + 1))"
| next_end: "i + 1 = n \<Longrightarrow> scrolls n Fetch_Next (On_Row i) After_End"
| next_after: "scrolls n Fetch_Next After_End After_End"
| prior_start: "scrolls n Fetch_Prior Before_Start Before_Start"
| prior_first: "scrolls n Fetch_Prior (On_Row 0) Before_Start"
| prior_row: "scrolls n Fetch_Prior (On_Row (Suc i)) (On_Row i)"
| prior_after: "scrolls n Fetch_Prior After_End (On_Row (n - 1))"
| first: "scrolls n Fetch_First p (On_Row 0)"

inductive_cases scrolls_nextE: "scrolls n Fetch_Next p p'"
inductive_cases scrolls_priorE: "scrolls n Fetch_Prior p p'"
inductive_cases scrolls_firstE: "scrolls n Fetch_First p p'"

inductive_simps scrolls_first_iff [simp]: "scrolls n Fetch_First p p'"
inductive_simps scrolls_after_iff [simp]: "scrolls n Fetch_Next After_End p'"

code_pred (modes: i \<Rightarrow> i \<Rightarrow> i \<Rightarrow> o \<Rightarrow> bool) scrolls .

fun orientation :: "scroll_op \<Rightarrow> int" where
  "orientation Fetch_Next = SQL_FETCH_NEXT" |
  "orientation Fetch_Prior = SQL_FETCH_PRIOR" |
  "orientation Fetch_First = SQL_FETCH_FIRST"

text \<open>
  How the fetcher represents a position. \<^verbatim>\<open>prior_chunk_row\<close> is one less than the row, except after the
  end; before the start it goes down with every further attempt to move back (\<^verbatim>\<open>k\<close> bounds them).
\<close>

fun represents :: "int \<Rightarrow> nat \<Rightarrow> 'v OdbcFetch \<Rightarrow> position \<Rightarrow> bool" where
  "represents k n f Before_Start \<longleftrightarrow> chunk_row f = - 1 \<and> prior_chunk_row f \<le> - 1 \<and> - 1 - k \<le> prior_chunk_row f" |
  "represents k n f (On_Row i) \<longleftrightarrow> chunk_row f = int i \<and> prior_chunk_row f = int i - 1 \<and> i < n" |
  "represents k n f After_End \<longleftrightarrow> chunk_row f = int n - 1 \<and> prior_chunk_row f = int n - 1"

definition scroll_inv :: "int \<Rightarrow> 'v chunk \<Rightarrow> 'v OdbcHandleStmt \<Rightarrow> position \<Rightarrow> bool" where
  "scroll_inv k c h p \<longleftrightarrow>
     unbound h \<and> ard_array_size h = 1 \<and> cursor_type (odbc_fetcher h) \<noteq> SQL_CURSOR_FORWARD_ONLY \<and>
     pending h [] \<and> (\<exists>q. single (odbc_fetcher h) q c) \<and> represents k (length c) (odbc_fetcher h) p"

definition reported :: "position \<Rightarrow> int" where
  "reported p = (case p of On_Row _ \<Rightarrow> SQL_SUCCESS | _ \<Rightarrow> SQL_NO_DATA)"

lemma wrap_64_id [simp]: "- (2 ^ 63) \<le> i \<Longrightarrow> i < 2 ^ 63 \<Longrightarrow> wrap_s 64 i = i"
  by (rule wrap_s_id) (simp_all add: in_s_def)

lemma chunk_bound: "single f q c \<Longrightarrow> 1 \<le> int (length c) \<and> int (length c) < 2 ^ 62"
  by (cases c) (auto simp: single_def small_chunk_def)

text \<open>Positioning to the row before the wanted one makes Fetch deliver it.\<close>

lemma scroll_deliver:
  assumes F: "FetchNextChunk dsn ori off h = Some (SQL_SUCCESS, h1)"
    and b: "unbound h1" "ard_array_size h1 = 1" "cursor_type (odbc_fetcher h1) \<noteq> SQL_CURSOR_FORWARD_ONLY"
      "pending h1 []" "single (odbc_fetcher h1) q c"
    and r: "chunk_row (odbc_fetcher h1) = int i - 1" "prior_chunk_row (odbc_fetcher h1) = int i - 1" "i < length c"
  shows "\<exists>h' m'. Fetch eng dsn ori off h m = Some (SQL_SUCCESS, h', m') \<and> scroll_inv k c h' (On_Row i) \<and>
    current_row (odbc_fetcher h') = Some (c ! i)"
proof -
  have d: "deref_chunk (odbc_fetcher h1) = Some c" using b(5) by simp
  have i: "int i < 2 ^ 62" using r(3) chunk_bound[OF b(5)] by linarith
  obtain j m' where "Fetch eng dsn ori off h m = Some (SQL_SUCCESS,
     h1\<lparr>odbc_fetcher := (odbc_fetcher h1)\<lparr>chunk_row := int i, row_count := j\<rparr>\<rparr>, m')"
    using Fetch_unbound[OF F b(1,2) d, of eng m] r(1,3) chunk_bound[OF b(5)] by auto
  moreover have "current_row ((odbc_fetcher h1)\<lparr>chunk_row := int i, row_count := j\<rparr>) = Some (c ! i)"
    using d r(3) by (simp add: current_row_def)
  ultimately show ?thesis using b r(2,3) by (auto simp: scroll_inv_def)
qed

lemma scroll_no_data:
  assumes "FetchNextChunk dsn ori off h = Some (SQL_NO_DATA, h1)"
  shows "Fetch eng dsn ori off h m = Some (SQL_NO_DATA, h1, m)"
  using assms by (simp add: Fetch_def)

lemma scroll_next:
  assumes inv: "scroll_inv k c h p" and s: "scrolls (length c) Fetch_Next p p'"
  shows "\<exists>h' m'. Fetch eng dsn SQL_FETCH_NEXT off h m = Some (reported p', h', m') \<and> scroll_inv (k + 1) c h' p' \<and>
    (\<forall>i. p' = On_Row i \<longrightarrow> current_row (odbc_fetcher h') = Some (c ! i))"
proof -
  let ?f = "odbc_fetcher h"
  let ?f1 = "?f\<lparr>prior_chunk_row := chunk_row ?f\<rparr>"
  obtain q where b: "unbound h" "ard_array_size h = 1" "cursor_type ?f \<noteq> SQL_CURSOR_FORWARD_ONLY"
    "pending h []" and q: "single ?f q c" and rep: "represents k (length c) ?f p"
    using inv by (auto simp: scroll_inv_def)
  have rf: "RequireFetch ?f1 \<longleftrightarrow> int (length c) - 1 \<le> chunk_row ?f" using single_require_fetch[of ?f1 q c] q by simp
  have more: ?thesis if "p' = On_Row i" "chunk_row ?f = int i - 1" "i < length c" for i
  proof -
    have "FetchNextChunk dsn SQL_FETCH_NEXT off h = Some (SQL_SUCCESS, h\<lparr>odbc_fetcher := ?f1\<rparr>)"
      using b rf that by (simp add: FetchNextChunk_def Let_def)
    from scroll_deliver[OF this _ _ _ _ _ _ _ that(3), of q eng m "k + 1"] b q that show ?thesis
      by (auto simp: reported_def)
  qed
  have stop: ?thesis if "p' = After_End" "chunk_row ?f = int (length c) - 1"
  proof -
    define h1 where "h1 = (if resultset_end ?f then h\<lparr>odbc_fetcher := ?f1\<rparr>
      else h\<lparr>odbc_fetcher := (ResetLastFetchedVariableVal ?f1)\<lparr>resultset_end := True\<rparr>\<rparr>)"
    have "FetchNextChunk dsn SQL_FETCH_NEXT off h = Some (SQL_NO_DATA, h1)"
      using b rf q that(2) FetchNext_end[of "h\<lparr>odbc_fetcher := ?f1\<rparr>" dsn]
      by (auto simp: FetchNextChunk_def Let_def h1_def single_def wrap_u_def)
    moreover have "scroll_inv (k + 1) c h1 After_End"
      using b q that(2) by (auto simp: scroll_inv_def h1_def)
    ultimately show ?thesis using scroll_no_data[of dsn SQL_FETCH_NEXT off h h1 eng m] that(1)
      by (simp add: reported_def)
  qed
  have pos: "0 < length c" using chunk_bound[OF q] by linarith
  have "(\<exists>i. p' = On_Row i \<and> chunk_row ?f = int i - 1 \<and> i < length c) \<or>
      p' = After_End \<and> chunk_row ?f = int (length c) - 1"
    using s rep pos by (cases rule: scrolls_nextE) auto
  then show ?thesis using more stop by blast
qed

lemma scroll_prior:
  assumes inv: "scroll_inv k c h p" and s: "scrolls (length c) Fetch_Prior p p'" and k: "0 \<le> k" "k < 2 ^ 62"
  shows "\<exists>h' m'. Fetch eng dsn SQL_FETCH_PRIOR off h m = Some (reported p', h', m') \<and> scroll_inv (k + 1) c h' p' \<and>
    (\<forall>i. p' = On_Row i \<longrightarrow> current_row (odbc_fetcher h') = Some (c ! i))"
proof -
  let ?f = "odbc_fetcher h"
  obtain q where b: "unbound h" "ard_array_size h = 1" "cursor_type ?f \<noteq> SQL_CURSOR_FORWARD_ONLY"
    "pending h []" and q: "single ?f q c" and rep: "represents k (length c) ?f p"
    using inv by (auto simp: scroll_inv_def)
  have idx: "current_chunk_idx ?f = 0" using q by (simp add: single_def)
  have bnd: "1 \<le> int (length c)" "int (length c) < 2 ^ 62" using chunk_bound[OF q] by auto
  have more: ?thesis if "p' = On_Row i" "prior_chunk_row ?f = int i" "i < length c" for i
  proof -
    let ?f1 = "?f\<lparr>prior_chunk_row := int i - 1, chunk_row := int i - 1\<rparr>"
    have "FetchNextChunk dsn SQL_FETCH_PRIOR off h = Some (SQL_SUCCESS, h\<lparr>odbc_fetcher := ?f1\<rparr>)"
      using b that bnd idx by (simp add: FetchNextChunk_def SetPriorCurrentChunk_def Let_def)
    from scroll_deliver[OF this _ _ _ _ _ _ _ that(3), of q eng m "k + 1"] b q that show ?thesis
      by (auto simp: reported_def)
  qed
  have stop: ?thesis if "p' = Before_Start" "prior_chunk_row ?f \<le> - 1" "- 1 - k \<le> prior_chunk_row ?f"
  proof -
    let ?h = "h\<lparr>odbc_fetcher := ?f\<lparr>prior_chunk_row := prior_chunk_row ?f - 1, chunk_row := - 1\<rparr>\<rparr>"
    have "FetchNextChunk dsn SQL_FETCH_PRIOR off h = Some (SQL_NO_DATA, ?h)"
      using b idx that k by (simp add: FetchNextChunk_def SetPriorCurrentChunk_def Let_def)
    moreover have "scroll_inv (k + 1) c ?h Before_Start" using b q that by (auto simp: scroll_inv_def)
    ultimately show ?thesis using scroll_no_data[of dsn SQL_FETCH_PRIOR off h ?h eng m] that(1)
      by (simp add: reported_def)
  qed
  have "(\<exists>i. p' = On_Row i \<and> prior_chunk_row ?f = int i \<and> i < length c) \<or>
      p' = Before_Start \<and> prior_chunk_row ?f \<le> - 1 \<and> - 1 - k \<le> prior_chunk_row ?f"
    using s rep bnd k by (cases rule: scrolls_priorE) auto
  then show ?thesis using more stop by blast
qed


lemma scroll_first:
  assumes inv: "scroll_inv k c h p"
  shows "\<exists>h' m'. Fetch eng dsn SQL_FETCH_FIRST off h m = Some (SQL_SUCCESS, h', m') \<and>
    scroll_inv (k + 1) c h' (On_Row 0) \<and> current_row (odbc_fetcher h') = Some (c ! 0)"
proof -
  let ?f = "odbc_fetcher h"
  obtain q where b: "unbound h" "ard_array_size h = 1" "cursor_type ?f \<noteq> SQL_CURSOR_FORWARD_ONLY"
    "pending h []" and q: "single ?f q c"
    using inv by (auto simp: scroll_inv_def)
  let ?f1 = "?f\<lparr>current_chunk := Some q, current_chunk_idx := 0, chunk_row := - 1, prior_chunk_row := - 1\<rparr>"
  have "FetchNextChunk dsn SQL_FETCH_FIRST off h = Some (SQL_SUCCESS, h\<lparr>odbc_fetcher := ?f1\<rparr>)"
    using b q by (simp add: FetchNextChunk_def SetFirstCurrentChunk_def BeforeStart_def Let_def single_def)
  moreover have "single ?f1 q c" "0 < length c" using q chunk_bound[OF q] by (auto simp: single_def)
  ultimately show ?thesis
    using scroll_deliver[of dsn SQL_FETCH_FIRST off h "h\<lparr>odbc_fetcher := ?f1\<rparr>" q c 0 eng m "k + 1"] b by simp
qed

lemma scroll_step:
  assumes "scroll_inv k c h p" "scrolls (length c) op p p'" "0 \<le> k" "k < 2 ^ 62"
  shows "\<exists>h' m'. Fetch eng dsn (orientation op) off h m = Some (reported p', h', m') \<and> scroll_inv (k + 1) c h' p' \<and>
    (\<forall>i. p' = On_Row i \<longrightarrow> current_row (odbc_fetcher h') = Some (c ! i))"
proof (cases op)
  case Fetch_Next
  then show ?thesis using scroll_next[OF assms(1)] assms(2) by simp
next
  case Fetch_Prior
  then show ?thesis using scroll_prior[OF assms(1) _ assms(3,4)] assms(2) by simp
next
  case Fetch_First
  then show ?thesis using scroll_first[OF assms(1)] assms(2) by (simp add: reported_def)
qed

text \<open>The client's run: the return codes and the rows it sees.\<close>

fun run_scroll ::
  "'v engine \<Rightarrow> string \<Rightarrow> scroll_op list \<Rightarrow> 'v OdbcHandleStmt \<Rightarrow> mem \<Rightarrow> (int \<times> 'v list option) list option" where
  "run_scroll eng dsn [] h m = Some []" |
  "run_scroll eng dsn (op # ops) h m =
     (case Fetch eng dsn (orientation op) 0 h m of
        None \<Rightarrow> None
      | Some (ret, h, m) \<Rightarrow>
          map_option (\<lambda>xs. (ret, if ret = SQL_SUCCESS then current_row (odbc_fetcher h) else None) # xs)
            (run_scroll eng dsn ops h m))"

text \<open>The automaton as a function of the operation, and what a client of it sees.\<close>

fun scroll_to :: "nat \<Rightarrow> scroll_op \<Rightarrow> position \<Rightarrow> position" where
  "scroll_to n Fetch_Next Before_Start = On_Row 0" |
  "scroll_to n Fetch_Next (On_Row i) = (if i + 1 < n then On_Row (i + 1) else After_End)" |
  "scroll_to n Fetch_Next After_End = After_End" |
  "scroll_to n Fetch_Prior Before_Start = Before_Start" |
  "scroll_to n Fetch_Prior (On_Row i) = (if i = 0 then Before_Start else On_Row (i - 1))" |
  "scroll_to n Fetch_Prior After_End = On_Row (n - 1)" |
  "scroll_to n Fetch_First p = On_Row 0"

fun spec_scroll :: "'v chunk \<Rightarrow> scroll_op list \<Rightarrow> position \<Rightarrow> (int \<times> 'v list option) list" where
  "spec_scroll c [] p = []" |
  "spec_scroll c (op # ops) p =
     (let p = scroll_to (length c) op p
      in (reported p, case p of On_Row i \<Rightarrow> Some (c ! i) | _ \<Rightarrow> None) # spec_scroll c ops p)"

lemma scroll_to_scrolls:
  assumes "case p of On_Row i \<Rightarrow> i < n | _ \<Rightarrow> True"
  shows "scrolls n op p (scroll_to n op p)"
  using assms by (cases op; cases p) (auto intro: scrolls.intros scrolls.next_row[simplified] scrolls.prior_after[simplified] simp: gr0_conv_Suc split: nat.splits)

lemma scroll_inv_row: "scroll_inv k c h p \<Longrightarrow> case p of On_Row i \<Rightarrow> i < length c | _ \<Rightarrow> True"
  by (cases p) (auto simp: scroll_inv_def)

text \<open>
  C11. A scrollable cursor without bound columns over a result of one chunk that was fetched to the
  last chunk refines the position automaton: every sequence of NEXT, PRIOR and FIRST returns
  the codes and the rows the automaton prescribes.
\<close>

theorem scroll_refines:
  assumes "scroll_inv k c h p" "0 \<le> k" "k + int (length ops) < 2 ^ 62"
  shows "run_scroll eng dsn ops h m = Some (spec_scroll c ops p)"
  using assms
proof (induction ops arbitrary: k h m p)
  case (Cons op ops)
  let ?p = "scroll_to (length c) op p"
  obtain h' m' where h': "Fetch eng dsn (orientation op) 0 h m = Some (reported ?p, h', m')"
    "scroll_inv (k + 1) c h' ?p" "\<forall>i. ?p = On_Row i \<longrightarrow> current_row (odbc_fetcher h') = Some (c ! i)"
    using scroll_step[OF Cons.prems(1) scroll_to_scrolls[OF scroll_inv_row[OF Cons.prems(1)]] Cons.prems(2),
        where eng = eng and dsn = dsn and off = 0 and m = m and op = op] Cons.prems(3) by auto
  have "run_scroll eng dsn ops h' m' = Some (spec_scroll c ops ?p)"
    using Cons.IH[OF h'(2)] Cons.prems(2,3) by simp
  then show ?case using h'(1,3) by (simp add: Let_def reported_def split: position.split)
qed simp

theorem scroll_refines_witness:
  "run_scroll sample_engine [] [Fetch_Next, Fetch_Next, Fetch_Next, Fetch_Prior, Fetch_Prior, Fetch_Prior, Fetch_First]
     (sample_stmt (sample_fetch SQL_CURSOR_STATIC [(0, [[''a''], [''b'']])] (- 1) False) []) (\<lambda>_. CHR 0x00) =
   Some [(0, Some [''a'']), (0, Some [''b'']), (100, None), (0, Some [''b'']), (0, Some [''a'']), (100, None),
     (0, Some [''a''])]"
  using scroll_refines[of 0 "[[''a''], [''b'']]"
      "sample_stmt (sample_fetch SQL_CURSOR_STATIC [(0, [[''a''], [''b'']])] (- 1) False) []" Before_Start
      "[Fetch_Next, Fetch_Next, Fetch_Next, Fetch_Prior, Fetch_Prior, Fetch_Prior, Fetch_First]"
      sample_engine "[]" "\<lambda>_. CHR 0x00"]
  by (simp add: scroll_inv_def sample_fetch_def single_def small_chunk_def reported_def Let_def)


section \<open>Where the cursor does not keep its promise\<close>

text \<open>
  Whether a fetch needs the next chunk is decided by the size of the last chunk, not of the current
  one. Back on a chunk before the last, a scrollable cursor jumps to the next chunk as soon as its row
  number reaches the size of the last chunk: the rest of the current chunk is skipped.
\<close>

theorem scroll_skips_rows:
  assumes "unbound h" "ard_array_size h = 1" "cursor_type (odbc_fetcher h) \<noteq> SQL_CURSOR_FORWARD_ONLY"
    "resultset_end (odbc_fetcher h)" "chunks (odbc_fetcher h) = [(p, c), (q, d)]" "p \<noteq> q"
    "current_chunk_idx (odbc_fetcher h) = 0" "small_chunk d"
    "int (length d) - 1 \<le> chunk_row (odbc_fetcher h)" "chunk_row (odbc_fetcher h) + 1 < int (length c)"
  shows "\<exists>s'. fetch_next_row eng dsn (h, m) = Some (Some (d ! 0), s')"
proof -
  let ?f = "(odbc_fetcher h)\<lparr>prior_chunk_row := chunk_row (odbc_fetcher h)\<rparr>"
  let ?f1 = "?f\<lparr>current_chunk_idx := 1, current_chunk := Some q, chunk_row := - 1, prior_chunk_row := - 1\<rparr>"
  have "SetCurrentChunk ?f = Some (SQL_SUCCESS, ?f1)"
    using SetCurrentChunk_next[of ?f] assms(3,5,7) by simp
  then have "FetchNext dsn (h\<lparr>odbc_fetcher := ?f\<rparr>) = Some (SQL_SUCCESS, h\<lparr>odbc_fetcher := ?f1\<rparr>)"
    using FetchNext_at_end[of "h\<lparr>odbc_fetcher := ?f\<rparr>" dsn] assms(4) by simp
  then have F: "FetchNextChunk dsn SQL_FETCH_NEXT 0 h = Some (SQL_SUCCESS, h\<lparr>odbc_fetcher := ?f1\<rparr>)"
    using assms by (simp add: FetchNextChunk_def Let_def RequireFetch_def wrap_u_def)
  have d: "deref_chunk ?f1 = Some d" using assms(5,6) by (simp add: deref_chunk_def)
  obtain k m' where "Fetch eng dsn SQL_FETCH_NEXT 0 h m = Some (SQL_SUCCESS,
     h\<lparr>odbc_fetcher := ?f1\<lparr>chunk_row := 0, row_count := k\<rparr>\<rparr>, m')"
    using Fetch_unbound[OF F, of d eng m] d assms(1,2,8) by (auto simp: small_chunk_def)
  moreover have "current_row (?f1\<lparr>chunk_row := 0, row_count := k\<rparr>) = Some (d ! 0)"
    using assms(5,6,8) by (simp add: current_row_def deref_chunk_def small_chunk_def)
  ultimately show ?thesis by (simp add: fetch_next_row_def)
qed

theorem scroll_skips_rows_witness:
  "\<exists>s'. fetch_next_row sample_engine []
     (sample_stmt (sample_fetch SQL_CURSOR_STATIC [(0, [[''a''], [''b''], [''c'']]), (1, [[''z'']])] 0 True) [],
      \<lambda>_. CHR 0x00) = Some (Some [''z''], s')"
  using scroll_skips_rows[of "sample_stmt
      (sample_fetch SQL_CURSOR_STATIC [(0, [[''a''], [''b''], [''c'']]), (1, [[''z'']])] 0 True) []"
      0 "[[''a''], [''b''], [''c'']]" 1 "[[''z'']]" sample_engine "[]" "\<lambda>_. CHR 0x00"]
  by (simp add: sample_fetch_def small_chunk_def)

text \<open>
  SQLFetchScroll passes the absolute row number minus one: for the first row the internal offset
  is 0, which only positions the cursor before the start. The call returns SQL\_SUCCESS, stores
  nothing and leaves the cursor on no row.
\<close>

lemma absolute_first_row:
  assumes "cursor_type (odbc_fetcher h) \<noteq> SQL_CURSOR_FORWARD_ONLY" "deref_chunk (odbc_fetcher h) = Some c"
    "chunks (odbc_fetcher h) \<noteq> []"
  shows "\<exists>h'. Fetch eng dsn SQL_FETCH_ABSOLUTE 0 h m = Some (SQL_SUCCESS, h', m) \<and>
    current_row (odbc_fetcher h') = None \<and> chunk_row (odbc_fetcher h') = - 1"
proof -
  obtain p where "current_chunk (odbc_fetcher h) = Some p"
    using assms(2) by (auto simp: deref_chunk_def split: option.splits)
  then have "SetAbsoluteCurrentChunk dsn 0 h =
      Some (RETURN_FETCH_BEFORE_START, h\<lparr>odbc_fetcher := snd (BeforeStart (odbc_fetcher h))\<rparr>)"
    using assms by (subst SetAbsoluteCurrentChunk.simps) (simp add: Let_def BeforeStart_def)
  then show ?thesis using assms
    by (simp add: Fetch_def FetchNextChunk_def Let_def BeforeStart_def current_row_def split: option.split)
qed

theorem absolute_first_row_witness:
  "\<exists>h'. Fetch sample_engine [] SQL_FETCH_ABSOLUTE 0
      (sample_stmt (sample_fetch SQL_CURSOR_STATIC [(0, [[''a''], [''b'']])] (- 1) False) []) (\<lambda>_. CHR 0x00) =
    Some (SQL_SUCCESS, h', \<lambda>_. CHR 0x00) \<and> current_row (odbc_fetcher h') = None \<and>
    chunk_row (odbc_fetcher h') = - 1"
  by (rule absolute_first_row[where c = "[[''a''], [''b'']]"])
     (simp_all add: sample_fetch_def deref_chunk_def)

text \<open>
  The absolute row numbers 2 to n of a result of one chunk of n rows do deliver their row
  (the internal offset is the row number minus one, the position in the chunk counts from 0).
\<close>

lemma absolute_row:
  assumes "unbound h" "ard_array_size h = 1" "cursor_type (odbc_fetcher h) \<noteq> SQL_CURSOR_FORWARD_ONLY"
    "single (odbc_fetcher h) q c" "1 \<le> off" "off < int (length c)"
  shows "\<exists>h' m'. Fetch eng dsn SQL_FETCH_ABSOLUTE off h m = Some (SQL_SUCCESS, h', m') \<and>
    current_row (odbc_fetcher h') = Some (c ! nat off)"
proof -
  let ?f1 = "(odbc_fetcher h)\<lparr>chunk_row := off - 1, prior_chunk_row := off - 1\<rparr>"
  have "current_chunk (odbc_fetcher h) = Some q" "chunks (odbc_fetcher h) \<noteq> []"
    using assms(4) by (simp_all add: single_def)
  then have "SetAbsoluteCurrentChunk dsn off h = Some (SQL_SUCCESS, h\<lparr>odbc_fetcher := ?f1\<rparr>)"
    using assms(4-6) by (subst SetAbsoluteCurrentChunk.simps) (simp add: Let_def)
  then have F: "FetchNextChunk dsn SQL_FETCH_ABSOLUTE off h = Some (SQL_SUCCESS, h\<lparr>odbc_fetcher := ?f1\<rparr>)"
    using assms(3) by (simp add: FetchNextChunk_def Let_def)
  have c: "int (length c) < 2 ^ 62" using chunk_bound[OF assms(4)] by simp
  obtain k m' where "Fetch eng dsn SQL_FETCH_ABSOLUTE off h m = Some (SQL_SUCCESS,
     h\<lparr>odbc_fetcher := ?f1\<lparr>chunk_row := off, row_count := k\<rparr>\<rparr>, m')"
    using Fetch_unbound[OF F, of c eng m] assms(1,2,4-6) c by auto
  then show ?thesis using assms(4-6) by (simp add: current_row_def)
qed

theorem absolute_row_witness:
  "\<exists>h' m'. Fetch sample_engine [] SQL_FETCH_ABSOLUTE 1
      (sample_stmt (sample_fetch SQL_CURSOR_STATIC [(0, [[''a''], [''b'']])] (- 1) False) []) (\<lambda>_. CHR 0x00) =
    Some (SQL_SUCCESS, h', m') \<and> current_row (odbc_fetcher h') = Some [''b'']"
  using absolute_row[of "sample_stmt (sample_fetch SQL_CURSOR_STATIC [(0, [[''a''], [''b'']])] (- 1) False) []"
      0 "[[''a''], [''b'']]" 1 sample_engine "[]" "\<lambda>_. CHR 0x00"]
  by (simp add: sample_fetch_def single_def small_chunk_def)

end
