(* ===== verification/Bound_Columns.thy ===== *)
theory Bound_Columns
  imports Cursor_Refinement
begin

text \<open>
  Fetching into bound columns: what \<^verbatim>\<open>ColumnWise\<close> and \<^verbatim>\<open>RowWise\<close> of \<^verbatim>\<open>odbc_fetch.cpp\<close> store where. The
  conversions keep the bound columns (\<^verbatim>\<open>bound_frame\<close>); the theorems show where the rows of a rowset
  land, and when a fetch fails.
\<close>

section \<open>Bound columns\<close>

lemma fail_diag_bound_cols [simp]:
  "fail_diag dsn h m ret c msg st = Some (r, h', m') \<Longrightarrow> bound_cols h' = bound_cols h"
  by (auto simp: fail_diag_def stmt_diag_def SetDiagnosticRecord_def Let_def)

lemma stmt_diag_bound_cols: "stmt_diag h ret c msg st dsn = (r, h') \<Longrightarrow> bound_cols h' = bound_cols h"
  by (auto simp: stmt_diag_def SetDiagnosticRecord_def Let_def)

named_theorems bound_frame \<open>operations that keep the bound columns\<close>

lemma GetVariableValue_bound [bound_frame]:
  "GetVariableValue dsn n c t b ind val nt h m = Some (r, h', m') \<Longrightarrow> bound_cols h' = bound_cols h"
  by (auto simp: GetVariableValue_def Let_def split: if_splits prod.splits
      dest!: fail_diag_bound_cols stmt_diag_bound_cols)

lemma GetInternalValue_bound [bound_frame]:
  "GetInternalValue eng dsn n val type t ind h m = Some (r, h', m') \<Longrightarrow> bound_cols h' = bound_cols h"
  by (auto simp: GetInternalValue_def split: sum.splits dest!: fail_diag_bound_cols)

lemma ThrowInvalidCast_bound [bound_frame]:
  "ThrowInvalidCast eng dsn c ty ty' h m = Some (r, h', m') \<Longrightarrow> bound_cols h' = bound_cols h"
  by (auto simp: ThrowInvalidCast_def dest!: fail_diag_bound_cols)

lemma GetNumeric_bound [bound_frame]:
  "GetNumeric eng dsn val t ind h m = Some (r, h', m') \<Longrightarrow> bound_cols h' = bound_cols h"
  by (auto simp: GetNumeric_def ValidateType_def Let_def split: if_splits prod.splits option.splits
      dest!: stmt_diag_bound_cols)

lemma CastTimestampValue_bound:
  "CastTimestampValue eng dsn op val tg f h = (ok, t, h') \<Longrightarrow> bound_cols h' = bound_cols h"
  by (auto simp: CastTimestampValue_def Let_def split: sum.splits prod.splits dest!: stmt_diag_bound_cols)

lemma GetDateOrTime_bound [bound_frame]:
  "GetDateOrTime eng dsn own tc sc st val t ind h m = Some (r, h', m') \<Longrightarrow> bound_cols h' = bound_cols h"
  by (auto simp: GetDateOrTime_def Let_def split: if_splits prod.splits option.splits
      dest!: fail_diag_bound_cols CastTimestampValue_bound ThrowInvalidCast_bound)

lemma GetTimestamp_bound [bound_frame]:
  "GetTimestamp eng dsn val t ind h m = Some (r, h', m') \<Longrightarrow> bound_cols h' = bound_cols h"
  by (auto simp: GetTimestamp_def Let_def bind_eq_Some_conv split: if_splits sum.splits option.splits
      dest!: fail_diag_bound_cols ThrowInvalidCast_bound)

lemma GetIntervalData_bound [bound_frame]:
  "GetIntervalData eng dsn s val t ind h m = Some (r, h', m') \<Longrightarrow> bound_cols h' = bound_cols h"
  by (auto simp: GetIntervalData_def GetInterval_def Let_def split: if_splits prod.splits option.splits
      dest!: ThrowInvalidCast_bound)

lemma local_timestamp_bound: "local_timestamp eng dsn v h = (v', h') \<Longrightarrow> bound_cols h' = bound_cols h"
  by (auto simp: local_timestamp_def Let_def split: if_splits sum.splits)

lemma GetDataStmtResult_bound [bound_frame]:
  assumes "GetDataStmtResult eng dsn c ty t b ind h m = Some (r, h', m')"
  shows "bound_cols h' = bound_cols h"
proof -
  have F: "\<And>c ret msg st h. fail_diag dsn h m ret c msg st = Some (r, h', m') \<Longrightarrow> bound_cols h' = bound_cols h"
    by (rule fail_diag_bound_cols)
  show ?thesis using assms
    by (auto simp: GetDataStmtResult_def Let_def bind_eq_Some_conv split: if_splits option.splits prod.splits sum.splits
        dest!: bound_frame F local_timestamp_bound)
qed

lemma fetch_columns_missing:
  "length (bound_cols h) \<in> set cols \<Longrightarrow> fetch_columns eng dsn bound target i cols ret h m = None"
proof (induction cols arbitrary: ret h m)
  case (Cons col cols)
  show ?case
  proof (cases "col < length (bound_cols h)")
    case True
    then have in_cols: "length (bound_cols h) \<in> set cols" using Cons.prems by auto
    let ?b = "bound_cols h ! col"
    let ?g = "GetDataStmtResult eng dsn (col + 1) (bc_type ?b) (fst (target ?b)) (bc_len ?b) (snd (target ?b)) h m"
    show ?thesis
    proof (cases ?g)
      case None
      then show ?thesis using True Cons.IH[OF in_cols] by (simp add: Let_def)
    next
      case (Some r)
      obtain ret' h' m' where r: "r = (ret', h', m')" by (cases r) auto
      have "fetch_columns eng dsn bound target i cols ret'' h' m'' = None" for ret'' m''
        using Cons.IH[of h'] GetDataStmtResult_bound[OF Some[unfolded r]] in_cols by simp
      then show ?thesis using True Cons.IH[OF in_cols] Some r by (simp add: Let_def)
    qed
  qed simp
qed simp

text \<open>
  Once SQLFreeStmt(SQL\_UNBIND) has cleared the bound columns, binding fewer columns than the
  result has is not survived by the next fetch: the loop over the columns of the result reads past
  the bound ones.
\<close>

theorem partly_bound_fetch:
  assumes "FetchNextChunk dsn ori off h = Some (SQL_SUCCESS, h1)" "bound_cols h1 \<noteq> []"
    "st_stmt h1 = Some s" "length (bound_cols h1) < ColumnCount s"
    "deref_chunk (odbc_fetcher h1) = Some c" "- 1 \<le> chunk_row (odbc_fetcher h1)"
    "chunk_row (odbc_fetcher h1) + 1 < int (length c)" "int (length c) < 2 ^ 62"
    "1 \<le> ard_array_size h1" "ard_array_size h1 < 2 ^ 62"
  shows "Fetch eng dsn ori off h m = None"
proof -
  let ?i = "chunk_row (odbc_fetcher h1)" and ?n = "ard_array_size h1"
  have "wrap_u 64 (?i + 1 + ?n) = ?i + 1 + ?n" using assms(6-10) by simp
  then obtain j js where r: "[?i + 1..min (wrap_u 64 (?i + 1 + ?n)) (int (length c)) - 1] = j # js"
    using assms(7,9) by (subst (asm) upto_rec1) auto
  have "fetch_rows eng dsn b t (j # js) SQL_SUCCESS h1 m = None" for b t
  proof -
    let ?h = "h1\<lparr>odbc_fetcher := (odbc_fetcher h1)\<lparr>chunk_row := ?i + 1\<rparr>\<rparr>"
    have "length (bound_cols ?h) \<in> set [0..<ColumnCount s]" using assms(4) by simp
    from fetch_columns_missing[OF this] show ?thesis using assms(3) by (simp add: Let_def)
  qed
  then show ?thesis using assms(1,2,5) r
    by (simp add: Fetch_def ColumnWise_def RowWise_def Let_def)
qed


theorem partly_bound_fetch_witness:
  "Fetch sample_engine [] SQL_FETCH_NEXT 0
     ((sample_stmt (sample_fetch SQL_CURSOR_FORWARD_ONLY [(0, [[''1'', ''2'']])] (- 1) False) [])
        \<lparr>st_stmt := Some \<lparr>ps_query = ''SELECT s'', ps_error = None, bound_all_parameters = True,
           ps_types = replicate 2 \<lparr>lt_id = LogicalTypeId_VARCHAR, lt_width = 0, lt_scale = 0\<rparr>, ps_names = [''a'', ''b''],
           named_param_count = 0, ps_statement_type = OTHER_STATEMENT, ps_param_type = \<lambda>_. 0\<rparr>,
         bound_cols := [\<lparr>bc_type = SQL_C_SLONG, bc_ptr = 100, bc_len = 4, bc_strlen_or_ind = 200\<rparr>]\<rparr>)
     (\<lambda>_. CHR 0x00) = None"
  by (rule partly_bound_fetch,
      (simp add: FetchNextChunk_def RequireFetch_def sample_fetch_def Let_def ColumnCount_def deref_chunk_def
        ard_array_size_def sample_stmt_def sample_desc_def mk_OdbcHandleDesc_def mk_DescHeader_def DescHeader_Reset_def)+)

section \<open>Where the rows of a rowset land\<close>

text \<open>A sample statement with one bound column and the given rowset size.\<close>

definition sample_bound :: "int \<Rightarrow> OdbcBoundCol \<Rightarrow> string OdbcFetch \<Rightarrow> string OdbcHandleStmt" where
  "sample_bound n b f = (sample_stmt f [])\<lparr>bound_cols := [b],
     row_desc := \<lparr>ard = sample_desc\<lparr>desc_header := (desc_header sample_desc)\<lparr>sql_desc_array_size := n\<rparr>\<rparr>,
       ird = sample_desc, cur_ard = None\<rparr>\<rparr>"

lemmas sample_bound_simps = sample_bound_def sample_stmt_def sample_desc_def mk_OdbcHandleDesc_def
  mk_DescHeader_def DescHeader_Reset_def ard_array_size_def ColumnCount_def

definition plain_value :: "'v engine \<Rightarrow> 'v \<Rightarrow> bool" where
  "plain_value eng v \<longleftrightarrow> \<not> eng_is_null eng v \<and> lt_id (eng_type eng v) \<noteq> LogicalTypeId_TIMESTAMP_TZ"

lemma GetDataStmtResult_slong:
  assumes "current_row (odbc_fetcher h) = Some r" "r \<noteq> []" "plain_value eng (hd r)"
    "eng_cast eng (hd r) LogicalTypeId_INTEGER = Inr v" "t \<noteq> nullptr"
  shows "GetDataStmtResult eng dsn (Suc 0) SQL_C_SLONG t len ind h m =
    Some (SQL_SUCCESS, h, store_opt 8 ind 4 (store_int 4 t v m))"
proof -
  have "GetValue 0 (odbc_fetcher h) = Some (SQL_SUCCESS, Some (hd r))"
    using GetValue_current_row[OF assms(1), of 0] assms(2) by (cases r) auto
  then show ?thesis using assms(3-5)
    by (simp add: GetDataStmtResult_def local_timestamp_def plain_value_def GetInternalValue_def fixed_c_types_def)
qed

text \<open>One column bound, one row left in the chunk.\<close>

lemma ColumnWise_last_row:
  assumes d: "deref_chunk (odbc_fetcher h) = Some c" and i: "chunk_row (odbc_fetcher h) = int i - 1" "length c = i + 1"
    and bnd: "int i < 2 ^ 62" "1 \<le> ard_array_size h" "ard_array_size h < 2 ^ 62"
    and b: "bound_cols h = [b]" "bc_type b = SQL_C_SLONG" "st_stmt h = Some s" "ColumnCount s = 1"
    and ptr: "fst (column_target (ard_array_size h) (int i) b) \<noteq> nullptr" "bc_ptr b \<noteq> nullptr"
    and row: "c ! i \<noteq> []" "plain_value eng (hd (c ! i))" "eng_cast eng (hd (c ! i)) LogicalTypeId_INTEGER = Inr v"
    and quiet: "sql_desc_array_status_ptr (desc_header (ird (row_desc h))) = nullptr" "rows_fetched_ptr h = nullptr"
  shows "\<exists>h'. ColumnWise eng dsn h m = Some (SQL_SUCCESS, h',
    store_opt 8 (snd (column_target (ard_array_size h) (int i) b)) 4
      (store_int 4 (fst (column_target (ard_array_size h) (int i) b)) v m))"
proof -
  let ?n = "ard_array_size h"
  let ?h = "h\<lparr>odbc_fetcher := (odbc_fetcher h)\<lparr>chunk_row := int i\<rparr>\<rparr>"
  have w: "wrap_u 64 (int i + ?n) = int i + ?n" using bnd by simp
  have r: "[int i..min (int i + ?n) (int (length c)) - 1] = [int i]" using i(2) bnd(2) by (simp add: upto_rec1)
  have "current_row (odbc_fetcher ?h) = Some (c ! i)" using d i(2) by (simp add: current_row_def)
  from GetDataStmtResult_slong[OF this row ptr(1)] show ?thesis
    using d i(1) w r b ptr(2) quiet
    by (simp add: ColumnWise_def Let_def SetRowStatus_def store_rows_fetched_def store_opt_def IsBound_def ard_array_size_def)
qed

text \<open>
  C25. The bound arrays are indexed with the position of the row in the chunk, not in the rowset. With
  a rowset of n rows and arrays of n elements the second rowset is stored behind their ends:
  its first row goes to element n of the value array and of the length array.
\<close>

theorem second_rowset_overflows:
  assumes "deref_chunk (odbc_fetcher h) = Some c" "chunk_row (odbc_fetcher h) = int n - 1" "length c = n + 1"
    "ard_array_size h = int n" "2 \<le> n" "int n < 2 ^ 62" "bound_cols h = [b]" "bc_type b = SQL_C_SLONG"
    "0 < bc_ptr b" "0 < bc_strlen_or_ind b" "st_stmt h = Some s" "ColumnCount s = 1"
    "c ! n \<noteq> []" "plain_value eng (hd (c ! n))" "eng_cast eng (hd (c ! n)) LogicalTypeId_INTEGER = Inr v"
    "sql_desc_array_status_ptr (desc_header (ird (row_desc h))) = nullptr" "rows_fetched_ptr h = nullptr"
  shows "\<exists>h'. ColumnWise eng dsn h m = Some (SQL_SUCCESS, h',
    store_int 8 (bc_strlen_or_ind b + 8 * int n) 4 (store_int 4 (bc_ptr b + 4 * int n) v m))"
proof -
  have t: "column_target (int n) (int n) b = (bc_ptr b + int n * 4, bc_strlen_or_ind b + 8 * int n)"
    using assms(5,8) by (simp add: column_target_def PointerSizeOf_def)
  have p: "fst (column_target (ard_array_size h) (int n) b) \<noteq> nullptr" "bc_ptr b \<noteq> nullptr"
    using assms(4,9) t by auto
  have "1 \<le> ard_array_size h" "ard_array_size h < 2 ^ 62" using assms(4-6) by auto
  from ColumnWise_last_row[OF assms(1,2,3,6) this assms(7,8,11,12) p assms(13-17), of dsn m]
  show ?thesis using assms(4,10) t by (simp add: store_opt_def mult.commute)
qed

theorem second_rowset_overflows_witness:
  "\<exists>h'. ColumnWise sample_engine []
      (sample_bound 2 \<lparr>bc_type = SQL_C_SLONG, bc_ptr = 100, bc_len = 4, bc_strlen_or_ind = 200\<rparr>
        (sample_fetch SQL_CURSOR_FORWARD_ONLY [(0, [[''10''], [''20''], [''30'']])] 1 False)) (\<lambda>_. CHR 0x00) =
    Some (SQL_SUCCESS, h', store_int 8 216 4 (store_int 4 108 30 (\<lambda>_. CHR 0x00)))"
  using second_rowset_overflows[of "sample_bound 2 \<lparr>bc_type = SQL_C_SLONG, bc_ptr = 100, bc_len = 4, bc_strlen_or_ind = 200\<rparr>
        (sample_fetch SQL_CURSOR_FORWARD_ONLY [(0, [[''10''], [''20''], [''30'']])] 1 False)"
      "[[''10''], [''20''], [''30'']]" 2 "\<lparr>bc_type = SQL_C_SLONG, bc_ptr = 100, bc_len = 4, bc_strlen_or_ind = 200\<rparr>"
      _ sample_engine 30 "[]" "\<lambda>_. CHR 0x00"]
  by (simp add: sample_bound_simps sample_fetch_def deref_chunk_def plain_value_def sample_engine_def parse_int_def parse_nat_def)

text \<open>
  A column bound without a length cell: from the second row of the chunk on the row offset is
  added to the null pointer, and the length is stored at address 8, 16 and so on.
\<close>

lemma null_indicator_stored:
  assumes "deref_chunk (odbc_fetcher h) = Some c" "chunk_row (odbc_fetcher h) = 0" "length c = 2"
    "2 \<le> ard_array_size h" "ard_array_size h < 2 ^ 62" "bound_cols h = [b]" "bc_type b = SQL_C_SLONG"
    "0 < bc_ptr b" "bc_strlen_or_ind b = nullptr" "st_stmt h = Some s" "ColumnCount s = 1"
    "c ! 1 \<noteq> []" "plain_value eng (hd (c ! 1))" "eng_cast eng (hd (c ! 1)) LogicalTypeId_INTEGER = Inr v"
    "sql_desc_array_status_ptr (desc_header (ird (row_desc h))) = nullptr" "rows_fetched_ptr h = nullptr"
  shows "\<exists>h'. ColumnWise eng dsn h m = Some (SQL_SUCCESS, h', store_int 8 8 4 (store_int 4 (bc_ptr b + 4) v m))"
proof -
  have t: "column_target (ard_array_size h) (int 1) b = (bc_ptr b + 4, 8)"
    using assms(4,7,9) by (simp add: column_target_def PointerSizeOf_def)
  have p: "fst (column_target (ard_array_size h) (int 1) b) \<noteq> nullptr" "bc_ptr b \<noteq> nullptr"
    using assms(8) t by auto
  have c: "chunk_row (odbc_fetcher h) = int 1 - 1" "length c = 1 + 1" "int 1 < 2 ^ 62" "1 \<le> ard_array_size h"
    using assms(2-4) by auto
  from ColumnWise_last_row[OF assms(1) c assms(5,6,7,10,11) p assms(12-16), of dsn m]
  show ?thesis unfolding t by (simp add: store_opt_def)
qed

lemma load_timestamp_year:
  assumes "eng_date_parts eng (eng_get_date eng ts) = (year, month, day)" "store_timestamp eng ts q m = Some m'"
  shows "load_u 2 q m' = year mod 65536"
  using assms
  by (auto simp: store_timestamp_def store_time_def store_date_def load_store_int_disjoint(1) load_store_u
      split: prod.splits Option.bind_splits)

text \<open>
  Column-wise arrays of timestamps, dates and the like advance by 8 bytes per row, whatever the
  size of the structure: the minute of a timestamp is overwritten with the year of the next row.
\<close>

lemma timestamp_rows_overlap:
  assumes "bc_type b = SQL_C_TYPE_TIMESTAMP" "n \<noteq> 1" "eng_date_parts eng (eng_get_date eng ts1) = (year, month, day)"
    "store_timestamp eng ts0 (fst (column_target n i b)) m = Some m0"
    "store_timestamp eng ts1 (fst (column_target n (i + 1) b)) m0 = Some m1"
  shows "load_u 2 (fst (column_target n i b) + 8) m1 = year mod 65536"
proof -
  have "fst (column_target n j b) = bc_ptr b + j * 8" for j
    using assms(1,2) by (simp add: column_target_def PointerSizeOf_def)
  then have "fst (column_target n (i + 1) b) = fst (column_target n i b) + 8" by (simp only: distrib_right)
  then show ?thesis using load_timestamp_year[OF assms(3,5)] by (simp only:)
qed

text \<open>
  A bound character column remembers that its value was delivered: fetching the same row again
  with SQL\_FETCH\_FIRST finds nothing left to deliver and returns SQL\_NO\_DATA.
\<close>

theorem refetch_no_data:
  assumes "cursor_type (odbc_fetcher h) \<noteq> SQL_CURSOR_FORWARD_ONLY" "single (odbc_fetcher h) q [r]"
    "ard_array_size h = 1" "sql_desc_bind_type (desc_header (ard (row_desc h))) = SQL_BIND_BY_COLUMN"
    "bound_cols h = [b]" "bc_type b = SQL_C_CHAR" "bc_ptr b \<noteq> nullptr" "st_stmt h = Some s" "ColumnCount s = 1"
    "r \<noteq> []" "plain_value eng (hd r)" "eng_string eng (hd r) \<noteq> []"
    "last_col_idx (odbc_fetcher h) = 0" "last_row_idx (odbc_fetcher h) = 0"
    "last_length (odbc_fetcher h) = int (length (eng_string eng (hd r)))"
  shows "\<exists>h' m'. Fetch eng dsn SQL_FETCH_FIRST off h m = Some (SQL_NO_DATA, h', m')"
proof -
  define f where "f = (odbc_fetcher h)\<lparr>current_chunk := Some q, current_chunk_idx := 0, chunk_row := - 1, prior_chunk_row := - 1\<rparr>"
  define h1 where "h1 = h\<lparr>odbc_fetcher := f\<lparr>chunk_row := 0\<rparr>\<rparr>"
  define m1 where "m1 = SetRowStatus 0 0 h1 m"
  have F: "FetchNextChunk dsn SQL_FETCH_FIRST off h = Some (SQL_SUCCESS, h\<lparr>odbc_fetcher := f\<rparr>)"
    using assms(1,2) by (simp add: FetchNextChunk_def SetFirstCurrentChunk_def BeforeStart_def Let_def single_def f_def)
  have d: "deref_chunk f = Some [r]" using assms(2) by (simp add: single_def deref_chunk_def f_def)
  have f: "chunk_row f = - 1" "last_col_idx f = 0" "last_row_idx f = 0"
    "last_length f = int (length (eng_string eng (hd r)))" using assms(13-15) by (simp_all add: f_def)
  have "current_row (odbc_fetcher h1) = Some r" using d by (simp add: current_row_def h1_def)
  then have gv: "GetValue 0 (odbc_fetcher h1) = Some (SQL_SUCCESS, Some (hd r))"
    using GetValue_current_row[of "odbc_fetcher h1" r 0] assms(10) by (cases r) auto
  have "\<exists>h'. GetVariableValue dsn 1 0 (bc_ptr b) (bc_len b) (bc_strlen_or_ind b) (eng_string eng (hd r)) True h1 m1 =
      Some (SQL_NO_DATA, h', m1)"
    using f assms(12)
    by (simp add: GetVariableValue_def SetLastFetchedVariableVal_def GetLastFetchedLength_def Let_def h1_def)
  then obtain h2 where "GetDataStmtResult eng dsn (Suc 0) SQL_C_CHAR (bc_ptr b) (bc_len b) (bc_strlen_or_ind b) h1 m1 =
      Some (SQL_NO_DATA, h2, m1)"
    using gv assms(7,11) by (auto simp: GetDataStmtResult_def local_timestamp_def plain_value_def fixed_c_types_def)
  then have cols: "fetch_columns eng dsn (\<lambda>b. IsBound b \<or> IsVarcharBound b) (column_target 1 0) 0 [0] SQL_SUCCESS h1 m1 =
      Some (SQL_NO_DATA, h2, SetRowStatus 0 SQL_ROW_ERROR h2 m1)"
    using assms(5-7) by (simp add: h1_def column_target_def IsBound_def)
  have "[0..<ColumnCount s] = [0]" using assms(9) by simp
  then have rows: "fetch_rows eng dsn (\<lambda>b. IsBound b \<or> IsVarcharBound b) (column_target 1) [0] SQL_SUCCESS
      (h\<lparr>odbc_fetcher := f\<rparr>) m = Some (SQL_NO_DATA, h2, SetRowStatus 0 SQL_ROW_ERROR h2 m1)"
    using cols assms(8) f(1) by (simp add: Let_def h1_def m1_def)
  have n: "ard_array_size (h\<lparr>odbc_fetcher := f\<rparr>) = 1" "wrap_u 64 1 = 1" using assms(3) by simp_all
  have "[0..min (wrap_u 64 1) 1 - 1] = [0]" by simp
  then obtain m2 where "ColumnWise eng dsn (h\<lparr>odbc_fetcher := f\<rparr>) m = Some (SQL_NO_DATA, h2, m2)"
    using d f(1) rows n by (simp add: ColumnWise_def Let_def)
  then show ?thesis using F assms(4,5) by (simp add: Fetch_def)
qed


theorem refetch_no_data_witness:
  "\<exists>h' m'. Fetch sample_engine [] SQL_FETCH_FIRST 0
      (sample_bound 1 \<lparr>bc_type = SQL_C_CHAR, bc_ptr = 100, bc_len = 10, bc_strlen_or_ind = 200\<rparr>
        ((sample_fetch SQL_CURSOR_STATIC [(0, [[''abc'']])] 0 True)
          \<lparr>last_col_idx := 0, last_row_idx := 0, last_length := 3\<rparr>)) (\<lambda>_. CHR 0x00) =
    Some (SQL_NO_DATA, h', m')"
  using refetch_no_data[of "sample_bound 1 \<lparr>bc_type = SQL_C_CHAR, bc_ptr = 100, bc_len = 10, bc_strlen_or_ind = 200\<rparr>
        ((sample_fetch SQL_CURSOR_STATIC [(0, [[''abc'']])] 0 True)
          \<lparr>last_col_idx := 0, last_row_idx := 0, last_length := 3\<rparr>)"
      0 "[''abc'']" "\<lparr>bc_type = SQL_C_CHAR, bc_ptr = 100, bc_len = 10, bc_strlen_or_ind = 200\<rparr>"
      _ sample_engine "[]" 0 "\<lambda>_. CHR 0x00"]
  by (simp add: sample_bound_simps sample_fetch_def single_def small_chunk_def plain_value_def sample_engine_def)

end
