(* ===== verification/Odbc_Descriptor.thy ===== *)
theory Odbc_Descriptor
  imports Odbc_Handles Odbc_Interval "HOL-Library.Monad_Syntax"
begin

text \<open>
  \<^verbatim>\<open>src/odbc_driver/descriptor.cpp\<close> and \<^verbatim>\<open>row_descriptor.cpp\<close>, with \<^verbatim>\<open>FillIRD\<close> of
  \<^verbatim>\<open>common/duckdb_odbc.cpp\<close>: the records of a descriptor, their consistency with the table of types
  and the fields a client sets. The element a vector creates when it grows is constructed on the
  memory it finds; the argument \<^verbatim>\<open>junk\<close> gives that memory for every index.
\<close>

section \<open>DescRecord\<close>

definition DescRecord_copy :: "DescRecord \<Rightarrow> DescRecord" where
  "DescRecord_copy other = other\<lparr>sql_desc_auto_unique_value := SQL_FALSE\<rparr>"

definition SetSqlDataType :: "int \<Rightarrow> DescRecord \<Rightarrow> int \<times> DescRecord" where
  "SetSqlDataType type r =
     (let r = r\<lparr>sql_desc_type := type, sql_desc_concise_type := type\<rparr> in
      if IsIntervalType type then
        let r = r\<lparr>sql_desc_type := SQL_INTERVAL, sql_desc_concise_type := type\<rparr>;
            interval_code = GetIntervalCode type
        in if interval_code = SQL_ERROR then (SQL_ERROR, r)
           else (SQL_SUCCESS, r\<lparr>sql_desc_datetime_interval_code := interval_code\<rparr>)
      else (SQL_SUCCESS, r))"

text \<open>
  The first entry of the table with the type gives the other fields; the 32 bit column size is
  stored in the 16 bit precision.
\<close>

definition SetSqlDescType :: "int \<Rightarrow> DescRecord \<Rightarrow> int \<times> DescRecord" where
  "SetSqlDescType type r =
     (case FindDataType type [] of
        [] \<Rightarrow> (SQL_ERROR, r)
      | type_info # _ \<Rightarrow>
        let r = snd (SetSqlDataType (ti_sql_data_type type_info) r) in
        (SQL_SUCCESS, r\<lparr>
           sql_desc_datetime_interval_code := ti_sql_datetime_sub type_info,
           sql_desc_precision := wrap_s 16 (ti_column_size type_info),
           sql_desc_datetime_interval_precision := ti_interval_precision type_info,
           sql_desc_length := wrap_u 64 (ti_column_size type_info),
           sql_desc_literal_prefix := ti_literal_prefix type_info,
           sql_desc_literal_suffix := ti_literal_suffix type_info,
           sql_desc_local_type_name :=
             (if ti_local_type_name type_info = ''NULL'' then [] else ti_local_type_name type_info),
           sql_desc_nullable := ti_nullable type_info,
           sql_desc_case_sensitive := ti_case_sensitive type_info,
           sql_desc_scale := ti_minimum_scale type_info,
           sql_desc_searchable := ti_searchable type_info,
           sql_desc_fixed_prec_scale := ti_fixed_prec_scale type_info,
           sql_desc_num_prec_radix :=
             (if ti_num_prec_radix type_info = - 1 then 0 else ti_num_prec_radix type_info),
           sql_desc_unsigned := ti_unsigned_attribute type_info\<rparr>))"

definition SetDescUnsignedField :: "LogicalType \<Rightarrow> DescRecord \<Rightarrow> DescRecord" where
  "SetDescUnsignedField type r =
     (if sql_desc_unsigned r = - 1 \<or>
         (lt_id type \<ge> LogicalTypeId_UTINYINT \<and> lt_id type \<le> LogicalTypeId_UBIGINT)
      then r\<lparr>sql_desc_unsigned := SQL_TRUE\<rparr> else r)"

section \<open>DescHeader and OdbcHandleDesc\<close>

text \<open>The copy constructor leaves the allocation type as it is.\<close>

definition DescHeader_copy :: "DescHeader \<Rightarrow> DescHeader \<Rightarrow> DescHeader" where
  "DescHeader_copy junk other = junk\<lparr>sql_desc_array_size := sql_desc_array_size other,
     sql_desc_array_status_ptr := sql_desc_array_status_ptr other,
     sql_desc_bind_offset_ptr := sql_desc_bind_offset_ptr other,
     sql_desc_bind_type := sql_desc_bind_type other, sql_desc_count := sql_desc_count other,
     sql_desc_rows_processed_ptr := sql_desc_rows_processed_ptr other\<rparr>"

definition resize_records :: "(nat \<Rightarrow> DescRecord) \<Rightarrow> nat \<Rightarrow> DescRecord list \<Rightarrow> DescRecord list" where
  "resize_records junk n recs = take n recs @ map (\<lambda>i. mk_DescRecord (junk i)) [length recs..<n]"

lemma length_resize_records [simp]: "length (resize_records junk n recs) = n"
  by (simp add: resize_records_def min_def)

lemma nth_resize_records: "i < n \<Longrightarrow> i < length recs \<Longrightarrow> resize_records junk n recs ! i = recs ! i"
  by (simp add: resize_records_def nth_append)

lemma resize_records_same [simp]: "resize_records junk (length recs) recs = recs"
  by (simp add: resize_records_def)

text \<open>
  The header is assigned (the implicit assignment operator copies every member), the records are
  appended to those the descriptor has.
\<close>

definition CopyOnlyOdbcFields :: "OdbcHandleDesc \<Rightarrow> OdbcHandleDesc \<Rightarrow> OdbcHandleDesc" where
  "CopyOnlyOdbcFields other d = d\<lparr>desc_header := desc_header other,
     desc_records := desc_records d @ map DescRecord_copy (desc_records other)\<rparr>"

definition CopyFieldByField :: "OdbcHandleDesc \<Rightarrow> OdbcHandleDesc \<Rightarrow> OdbcHandleDesc" where
  "CopyFieldByField other d = d"

text \<open>\<^verbatim>\<open>GetDescRecord\<close> grows the records up to the index; the reference it returns is that index.\<close>

definition GetDescRecord :: "(nat \<Rightarrow> DescRecord) \<Rightarrow> nat \<Rightarrow> OdbcHandleDesc \<Rightarrow> OdbcHandleDesc" where
  "GetDescRecord junk param_idx d =
     (if param_idx \<ge> length (desc_records d) then
        let recs = resize_records junk (param_idx + 1) (desc_records d)
        in d\<lparr>desc_records := recs,
             desc_header := (desc_header d)\<lparr>sql_desc_count := wrap_s 16 (int (length recs))\<rparr>\<rparr>
      else d)"

definition OdbcHandleDesc_Reset :: "OdbcHandleDesc \<Rightarrow> OdbcHandleDesc" where
  "OdbcHandleDesc_Reset d = d\<lparr>desc_records := []\<rparr>"

definition OdbcHandleDesc_Clear :: "OdbcHandleDesc \<Rightarrow> OdbcHandleDesc" where
  "OdbcHandleDesc_Clear d = OdbcHandleDesc_Reset d"

definition IsID :: "OdbcHandleDesc \<Rightarrow> bool" where "IsID d \<longleftrightarrow> desc_stmt d \<noteq> nullptr"

definition IsAD :: "OdbcHandleDesc \<Rightarrow> bool" where "IsAD d \<longleftrightarrow> desc_stmt d = nullptr"

text \<open>
  \<^verbatim>\<open>this_ird\<close> and \<^verbatim>\<open>this_ipd\<close> are the outcomes of \<^verbatim>\<open>stmt->row_desc->GetIRD() == this\<close> and
  \<^verbatim>\<open>stmt->param_desc->GetIPD() == this\<close>.
\<close>

definition IsIRD :: "bool \<Rightarrow> OdbcHandleDesc \<Rightarrow> bool" where "IsIRD this_ird d \<longleftrightarrow> IsID d \<and> this_ird"

definition IsIPD :: "bool \<Rightarrow> OdbcHandleDesc \<Rightarrow> bool" where "IsIPD this_ipd d \<longleftrightarrow> IsID d \<and> this_ipd"

text \<open>The size is converted to an unsigned one: a negative size makes \<^verbatim>\<open>resize\<close> throw.\<close>

definition AddMoreRecords :: "(nat \<Rightarrow> DescRecord) \<Rightarrow> int \<Rightarrow> OdbcHandleDesc \<Rightarrow> OdbcHandleDesc option" where
  "AddMoreRecords junk new_size d =
     (if new_size < 0 then None
      else Some (d\<lparr>desc_records := resize_records junk (nat new_size) (desc_records d),
                   desc_header := (desc_header d)\<lparr>sql_desc_count := new_size\<rparr>\<rparr>))"

text \<open>\<^verbatim>\<open>SetDiagnosticRecord\<close> on a descriptor; \<^verbatim>\<open>dsn\<close> is \<^verbatim>\<open>dbc->GetDataSourceName()\<close>.\<close>

definition desc_error ::
  "string \<Rightarrow> string \<Rightarrow> string \<Rightarrow> SQLStateType \<Rightarrow> OdbcHandleDesc \<Rightarrow> int \<times> OdbcHandleDesc" where
  "desc_error dsn component msg state d =
     (let (r, g) = SetDiagnosticRecord (desc_diag d) SQL_ERROR component msg state dsn in (r, d\<lparr>desc_diag := g\<rparr>))"

definition ReturnInvalidFieldIdentifier :: "string \<Rightarrow> bool \<Rightarrow> OdbcHandleDesc \<Rightarrow> int \<times> OdbcHandleDesc" where
  "ReturnInvalidFieldIdentifier dsn is_readonly d =
     desc_error dsn ''SQLSetDescField''
       (if is_readonly then ''Invalid descriptor field identifier (read-only field)''
        else ''Invalid descriptor field identifier'') ST_HY092 d"

lemma fst_desc_error [simp]: "fst (desc_error dsn c msg st d) = SQL_ERROR"
  by (simp add: desc_error_def SetDiagnosticRecord_def Let_def)

lemma desc_error_frame [simp]:
  "desc_header (snd (desc_error dsn c msg st d)) = desc_header d"
  "desc_records (snd (desc_error dsn c msg st d)) = desc_records d"
  "desc_stmt (snd (desc_error dsn c msg st d)) = desc_stmt d"
  "desc_dbc (snd (desc_error dsn c msg st d)) = desc_dbc d"
  by (simp_all add: desc_error_def SetDiagnosticRecord_def Let_def)

lemma fst_ReturnInvalid [simp]: "fst (ReturnInvalidFieldIdentifier dsn b d) = SQL_ERROR"
  by (simp add: ReturnInvalidFieldIdentifier_def)

lemma ReturnInvalid_frame [simp]:
  "desc_header (snd (ReturnInvalidFieldIdentifier dsn b d)) = desc_header d"
  "desc_records (snd (ReturnInvalidFieldIdentifier dsn b d)) = desc_records d"
  "desc_stmt (snd (ReturnInvalidFieldIdentifier dsn b d)) = desc_stmt d"
  "desc_dbc (snd (ReturnInvalidFieldIdentifier dsn b d)) = desc_dbc d"
  by (simp_all add: ReturnInvalidFieldIdentifier_def)

section \<open>SetDescField\<close>

text \<open>Reading a value through the client's pointer; a null pointer is not survived.\<close>

definition deref_s :: "nat \<Rightarrow> addr \<Rightarrow> mem \<Rightarrow> int option" where
  "deref_s n p m = (if p = nullptr then None else Some (load_s n p m))"

definition deref_u :: "nat \<Rightarrow> addr \<Rightarrow> mem \<Rightarrow> int option" where
  "deref_u n p m = (if p = nullptr then None else Some (load_u n p m))"

definition set_header :: "(DescHeader \<Rightarrow> DescHeader) \<Rightarrow> OdbcHandleDesc \<Rightarrow> (int \<times> OdbcHandleDesc) option" where
  "set_header upd d = Some (SQL_SUCCESS, d\<lparr>desc_header := upd (desc_header d)\<rparr>)"

definition set_record ::
  "nat \<Rightarrow> (DescRecord \<Rightarrow> DescRecord) \<Rightarrow> OdbcHandleDesc \<Rightarrow> (int \<times> OdbcHandleDesc) option" where
  "set_record i upd d =
     Some (SQL_SUCCESS, d\<lparr>desc_records := (desc_records d)[i := upd (desc_records d ! i)]\<rparr>)"

definition header_fields :: "int set" where
  "header_fields = {SQL_DESC_ALLOC_TYPE, SQL_DESC_ARRAY_SIZE, SQL_DESC_ARRAY_STATUS_PTR,
     SQL_DESC_BIND_OFFSET_PTR, SQL_DESC_BIND_TYPE, SQL_DESC_COUNT, SQL_DESC_ROWS_PROCESSED_PTR}"

definition readonly_fields :: "int set" where
  "readonly_fields = {SQL_DESC_AUTO_UNIQUE_VALUE, SQL_DESC_BASE_COLUMN_NAME, SQL_DESC_BASE_TABLE_NAME,
     SQL_DESC_CASE_SENSITIVE, SQL_DESC_CATALOG_NAME, SQL_DESC_DISPLAY_SIZE, SQL_DESC_FIXED_PREC_SCALE,
     SQL_DESC_LABEL, SQL_DESC_LITERAL_PREFIX, SQL_DESC_LITERAL_SUFFIX, SQL_DESC_LOCAL_TYPE_NAME,
     SQL_DESC_NULLABLE, SQL_DESC_ROWVER, SQL_DESC_SCHEMA_NAME, SQL_DESC_SEARCHABLE, SQL_DESC_TABLE_NAME,
     SQL_DESC_TYPE_NAME, SQL_DESC_UNSIGNED, SQL_DESC_UPDATABLE}"

text \<open>The first switch; the comparisons of an unsigned value with 0 are those of the code.\<close>

definition SetDescHeaderField ::
  "bool \<Rightarrow> string \<Rightarrow> int \<Rightarrow> addr \<Rightarrow> mem \<Rightarrow> OdbcHandleDesc \<Rightarrow> (int \<times> OdbcHandleDesc) option" where
  "SetDescHeaderField this_ird dsn field_identifier value_ptr m d =
     (if field_identifier = SQL_DESC_ALLOC_TYPE then Some (ReturnInvalidFieldIdentifier dsn True d)
      else if field_identifier = SQL_DESC_ARRAY_SIZE then
        if IsID d then Some (ReturnInvalidFieldIdentifier dsn False d)
        else do {
          size \<leftarrow> deref_u 8 value_ptr m;
          if size \<le> 0 then
            Some (desc_error dsn ''SQLSetDescField'' ''Invalid attribute/option identifier.'' ST_HY092 d)
          else set_header (\<lambda>h. h\<lparr>sql_desc_array_size := size\<rparr>) d }
      else if field_identifier = SQL_DESC_ARRAY_STATUS_PTR then
        set_header (\<lambda>h. h\<lparr>sql_desc_array_status_ptr := value_ptr\<rparr>) d
      else if field_identifier = SQL_DESC_BIND_OFFSET_PTR then
        if IsID d then Some (ReturnInvalidFieldIdentifier dsn False d)
        else set_header (\<lambda>h. h\<lparr>sql_desc_bind_offset_ptr := value_ptr\<rparr>) d
      else if field_identifier = SQL_DESC_BIND_TYPE then
        if IsID d then Some (ReturnInvalidFieldIdentifier dsn False d)
        else do { v \<leftarrow> deref_s 4 value_ptr m; set_header (\<lambda>h. h\<lparr>sql_desc_bind_type := v\<rparr>) d }
      else if field_identifier = SQL_DESC_COUNT then
        if IsIRD this_ird d then Some (ReturnInvalidFieldIdentifier dsn False d)
        else do { v \<leftarrow> deref_s 2 value_ptr m; set_header (\<lambda>h. h\<lparr>sql_desc_count := v\<rparr>) d }
      else
        if IsAD d then Some (ReturnInvalidFieldIdentifier dsn False d)
        else do {
          v \<leftarrow> deref_u 8 value_ptr m;
          if v < 0 then Some (desc_error dsn ''SQLSetDescField'' ''Invalid descriptor index.'' ST_07009 d)
          else set_header (\<lambda>h. h\<lparr>sql_desc_rows_processed_ptr := value_ptr\<rparr>) d })"

definition set_checked_type :: "string \<Rightarrow> nat \<Rightarrow> int \<Rightarrow> OdbcHandleDesc \<Rightarrow> (int \<times> OdbcHandleDesc) option" where
  "set_checked_type dsn i type d =
     (case SetSqlDescType type (desc_records d ! i) of (ret, r) \<Rightarrow>
        if ret \<noteq> SQL_SUCCESS then
          Some (desc_error dsn ''SQLSetDescField'' ''Inconsistent descriptor information.'' ST_HY021
            (d\<lparr>desc_records := (desc_records d)[i := r]\<rparr>))
        else set_record i (\<lambda>_. r) d)"

text \<open>
  The second switch on the record of index \<^verbatim>\<open>i\<close>. SQL\_DESC\_DATETIME\_INTERVAL\_CODE checks the type the
  record has and does not look at the value.
\<close>

definition SetDescRecordField ::
  "bool \<Rightarrow> bool \<Rightarrow> string \<Rightarrow> nat \<Rightarrow> int \<Rightarrow> addr \<Rightarrow> int \<Rightarrow> mem \<Rightarrow> OdbcHandleDesc
   \<Rightarrow> (int \<times> OdbcHandleDesc) option" where
  "SetDescRecordField this_ird this_ipd dsn i field_identifier value_ptr buffer_length m d =
     (let readonly = Some (ReturnInvalidFieldIdentifier dsn True d);
          not_ird = (\<lambda>r. if IsIRD this_ird d then readonly else r);
          not_id = (\<lambda>r. if IsID d then readonly else r);
          only_ipd = (\<lambda>r. if \<not> IsIPD this_ipd d then readonly else r);
          checked = (\<lambda>type. set_checked_type dsn i type d);
          from_s = (\<lambda>n upd. do { v \<leftarrow> deref_s n value_ptr m; set_record i (upd v) d })
      in
      if field_identifier \<in> readonly_fields then readonly
      else if field_identifier = SQL_DESC_CONCISE_TYPE then
        not_ird (from_s 2 (\<lambda>v r. r\<lparr>sql_desc_concise_type := v\<rparr>))
      else if field_identifier = SQL_DESC_DATA_PTR then
        not_id (set_record i (\<lambda>r. r\<lparr>sql_desc_data_ptr := value_ptr\<rparr>) d)
      else if field_identifier = SQL_DESC_DATETIME_INTERVAL_CODE then
        not_ird (checked (sql_desc_type (desc_records d ! i)))
      else if field_identifier = SQL_DESC_DATETIME_INTERVAL_PRECISION then
        not_ird (from_s 4 (\<lambda>v r. r\<lparr>sql_desc_datetime_interval_precision := v\<rparr>))
      else if field_identifier = SQL_DESC_INDICATOR_PTR then
        not_id (set_record i (\<lambda>r. r\<lparr>sql_desc_indicator_ptr := value_ptr\<rparr>) d)
      else if field_identifier = SQL_DESC_LENGTH then
        not_ird (do { v \<leftarrow> deref_u 8 value_ptr m; set_record i (\<lambda>r. r\<lparr>sql_desc_length := v\<rparr>) d })
      else if field_identifier = SQL_DESC_NAME then
        only_ipd (do { s \<leftarrow> ConvertSQLCHARToString value_ptr buffer_length m;
                       set_record i (\<lambda>r. r\<lparr>sql_desc_name := s\<rparr>) d })
      else if field_identifier = SQL_DESC_NUM_PREC_RADIX then
        not_ird (from_s 4 (\<lambda>v r. r\<lparr>sql_desc_num_prec_radix := v\<rparr>))
      else if field_identifier = SQL_DESC_OCTET_LENGTH then
        not_ird (from_s 8 (\<lambda>v r. r\<lparr>sql_desc_octet_length := v\<rparr>))
      else if field_identifier = SQL_DESC_OCTET_LENGTH_PTR then
        not_id (set_record i (\<lambda>r. r\<lparr>sql_desc_octet_length_ptr := value_ptr\<rparr>) d)
      else if field_identifier = SQL_DESC_PARAMETER_TYPE then
        only_ipd (from_s 2 (\<lambda>v r. r\<lparr>sql_desc_parameter_type := v\<rparr>))
      else if field_identifier = SQL_DESC_PRECISION then
        not_ird (from_s 2 (\<lambda>v r. r\<lparr>sql_desc_precision := v\<rparr>))
      else if field_identifier = SQL_DESC_SCALE then
        not_ird (from_s 2 (\<lambda>v r. r\<lparr>sql_desc_scale := v\<rparr>))
      else if field_identifier = SQL_DESC_TYPE then
        not_ird (do { v \<leftarrow> deref_s 2 value_ptr m; checked v })
      else if field_identifier = SQL_DESC_UNNAMED then
        only_ipd (from_s 2 (\<lambda>v r. r\<lparr>sql_desc_unnamed := v\<rparr>))
      else Some (ReturnInvalidFieldIdentifier dsn False d))"

definition SetDescField ::
  "(nat \<Rightarrow> DescRecord) \<Rightarrow> bool \<Rightarrow> bool \<Rightarrow> string \<Rightarrow> int \<Rightarrow> int \<Rightarrow> addr \<Rightarrow> int \<Rightarrow> mem \<Rightarrow> OdbcHandleDesc
   \<Rightarrow> (int \<times> OdbcHandleDesc) option" where
  "SetDescField junk this_ird this_ipd dsn rec_number field_identifier value_ptr buffer_length m d =
     (if field_identifier \<in> header_fields then SetDescHeaderField this_ird dsn field_identifier value_ptr m d
      else if rec_number \<le> 0 then
        Some (desc_error dsn ''SQLSetDescField'' ''Invalid descriptor index.'' ST_07009 d)
      else
        let rec_idx = nat (rec_number - 1) in
        SetDescRecordField this_ird this_ipd dsn rec_idx field_identifier value_ptr buffer_length m
          (GetDescRecord junk rec_idx d))"

section \<open>Row descriptors\<close>

text \<open>
  The current application descriptor is the implicit one or an explicit one of the store \<^verbatim>\<open>ds\<close> of
  explicit descriptors; None is a dangling pointer.
\<close>

type_synonym desc_store = "addr \<Rightarrow> OdbcHandleDesc option"

definition current_desc :: "desc_store \<Rightarrow> addr option \<Rightarrow> OdbcHandleDesc \<Rightarrow> OdbcHandleDesc option" where
  "current_desc ds cur implicit = (case cur of None \<Rightarrow> Some implicit | Some a \<Rightarrow> ds a)"

definition RowDescriptor_GetARD :: "desc_store \<Rightarrow> RowDescriptor \<Rightarrow> OdbcHandleDesc option" where
  "RowDescriptor_GetARD ds r = current_desc ds (cur_ard r) (ard r)"

text \<open>The descriptor made current is marked as allocated by the user.\<close>

definition mark_user :: "OdbcHandleDesc \<Rightarrow> OdbcHandleDesc" where
  "mark_user d = d\<lparr>desc_header := (desc_header d)\<lparr>sql_desc_alloc_type := SQL_DESC_ALLOC_USER\<rparr>\<rparr>"

definition SetCurrentARD :: "addr \<Rightarrow> desc_store \<Rightarrow> RowDescriptor \<Rightarrow> (desc_store \<times> RowDescriptor) option" where
  "SetCurrentARD new_ard ds r =
     (case ds new_ard of
        None \<Rightarrow> None
      | Some d \<Rightarrow> Some (ds(new_ard \<mapsto> mark_user d), r\<lparr>cur_ard := Some new_ard\<rparr>))"

definition ResetCurrentARD :: "RowDescriptor \<Rightarrow> RowDescriptor" where
  "ResetCurrentARD r = r\<lparr>cur_ard := None\<rparr>"

section \<open>FillIRD\<close>

text \<open>
  \<^verbatim>\<open>physical_name\<close> is the engine's name of the physical type of a logical type (\<^verbatim>\<open>VARCHAR\<close> names the
  string type), \<^verbatim>\<open>catalog\<close> the name of its system catalog.
\<close>

definition fill_record ::
  "(LogicalType \<Rightarrow> string) \<Rightarrow> string \<Rightarrow> DescRecord \<Rightarrow> LogicalType \<Rightarrow> string \<Rightarrow> DescRecord" where
  "fill_record physical_name catalog junk col_type name =
     (let r = mk_DescRecord junk;
          r = r\<lparr>sql_desc_base_column_name := name, sql_desc_name := name, sql_desc_label := name\<rparr>;
          r = r\<lparr>sql_desc_length := int (length name),
                sql_desc_unnamed := (if name = [] then SQL_UNNAMED else SQL_NAMED)\<rparr>;
          sql_type = FindRelatedSQLType (lt_id col_type);
          r = snd (SetSqlDescType (if sql_type = SQL_INTERVAL then SQL_INTERVAL_DAY_TO_SECOND else sql_type) r);
          r = r\<lparr>sql_desc_type_name :=
                 (if sql_type = SQL_UNKNOWN_TYPE then ''VARCHAR'' else physical_name col_type)\<rparr>;
          r = (if sql_type = SQL_DECIMAL \<or> sql_type = SQL_NUMERIC then
                 if lt_id col_type = LogicalTypeId_DECIMAL then
                   r\<lparr>sql_desc_precision := lt_width col_type, sql_desc_scale := lt_scale col_type\<rparr>
                 else r
               else if sql_type = SQL_TYPE_TIME \<or> sql_type = SQL_TYPE_TIMESTAMP then
                 let precision = GetTemporalPrecision (lt_id col_type)
                 in r\<lparr>sql_desc_precision := precision, sql_desc_scale := precision\<rparr>
               else r);
          r = r\<lparr>sql_desc_display_size := GetDisplaySize col_type\<rparr>;
          r = SetDescUnsignedField col_type r
      in DescRecord_copy (r\<lparr>sql_desc_catalog_name := catalog, sql_desc_schema_name := []\<rparr>))"

text \<open>The count of the header is reset to 0 and not set again.\<close>

definition FillIRD ::
  "(LogicalType \<Rightarrow> string) \<Rightarrow> string \<Rightarrow> (nat \<Rightarrow> DescRecord) \<Rightarrow> 'v OdbcHandleStmt \<Rightarrow> 'v OdbcHandleStmt option" where
  "FillIRD physical_name catalog junk h =
     (case st_stmt h of
        None \<Rightarrow> None
      | Some stmt \<Rightarrow>
        let num_cols = ColumnCount stmt;
            d = OdbcHandleDesc_Reset (ird (row_desc h));
            d = d\<lparr>desc_header := (desc_header d)\<lparr>sql_desc_count := 0\<rparr>\<rparr>
        in if num_cols \<le> length (ps_names stmt) then
             Some (h\<lparr>row_desc := (row_desc h)\<lparr>ird := d\<lparr>desc_records := map
               (\<lambda>i. fill_record physical_name catalog (junk i) (ps_types stmt ! i) (ps_names stmt ! i))
               [0..<num_cols]\<rparr>\<rparr>\<rparr>)
           else None)"

section \<open>Lemmas on the fields\<close>

lemma GetDescRecord_length [simp]:
  "length (desc_records (GetDescRecord junk i d)) = max (length (desc_records d)) (Suc i)"
  by (simp add: GetDescRecord_def Let_def)

lemma GetDescRecord_nth:
  "j < length (desc_records d) \<Longrightarrow> desc_records (GetDescRecord junk i d) ! j = desc_records d ! j"
  by (simp add: GetDescRecord_def Let_def nth_resize_records)

lemma GetDescRecord_present [simp]: "i < length (desc_records d) \<Longrightarrow> GetDescRecord junk i d = d"
  by (simp add: GetDescRecord_def)

lemma GetDescRecord_frame [simp]:
  "desc_stmt (GetDescRecord junk i d) = desc_stmt d"
  "desc_dbc (GetDescRecord junk i d) = desc_dbc d"
  "desc_diag (GetDescRecord junk i d) = desc_diag d"
  by (simp_all add: GetDescRecord_def Let_def)

lemma list_update_ex: "\<exists>r. rs = rs[i := r]" "\<exists>r. rs[i := a] = rs[i := r]"
  by (rule exI[of _ "rs ! i"], simp) blast

lemma set_checked_type_frame:
  assumes "set_checked_type dsn i type d = Some (ret, d')"
  shows "desc_header d' = desc_header d \<and> (\<exists>r. desc_records d' = (desc_records d)[i := r]) \<and>
    desc_stmt d' = desc_stmt d"
proof -
  have e: "snd (desc_error dsn c msg st (d\<lparr>desc_records := rs\<rparr>)) = d' \<Longrightarrow>
      desc_header d' = desc_header d \<and> desc_records d' = rs \<and> desc_stmt d' = desc_stmt d" for c msg st rs
    using desc_error_frame[of dsn c msg st "d\<lparr>desc_records := rs\<rparr>"] by auto
  show ?thesis using assms
    by (auto simp: set_checked_type_def set_record_def dest!: arg_cong[where f = snd] e
        intro!: list_update_ex split: prod.splits if_split_asm)
qed

text \<open>A field of a record leaves the header and the other records alone.\<close>

lemma SetDescRecordField_frame:
  assumes "SetDescRecordField this_ird this_ipd dsn i field p b m d = Some (ret, d')"
  shows "desc_header d' = desc_header d" "length (desc_records d') = length (desc_records d)"
    "\<And>j. j \<noteq> i \<Longrightarrow> desc_records d' ! j = desc_records d ! j"
    "desc_stmt d' = desc_stmt d"
proof -
  have r: "snd (ReturnInvalidFieldIdentifier dsn ro d) = d' \<Longrightarrow>
      desc_header d' = desc_header d \<and> desc_records d' = desc_records d \<and> desc_stmt d' = desc_stmt d" for ro
    using ReturnInvalid_frame by metis
  have all: "desc_header d' = desc_header d \<and> (\<exists>r. desc_records d' = (desc_records d)[i := r]) \<and> desc_stmt d' = desc_stmt d"
    using assms unfolding SetDescRecordField_def Let_def set_record_def
    by (auto simp: bind_eq_Some_conv dest!: arg_cong[where f = snd] r set_checked_type_frame intro!: list_update_ex split: if_split_asm)
  then show "desc_header d' = desc_header d" "length (desc_records d') = length (desc_records d)"
    "\<And>j. j \<noteq> i \<Longrightarrow> desc_records d' ! j = desc_records d ! j" "desc_stmt d' = desc_stmt d" by auto
qed

lemma SetDescHeaderField_frame:
  assumes "SetDescHeaderField this_ird dsn field p m d = Some (ret, d')"
  shows "desc_records d' = desc_records d \<and> desc_stmt d' = desc_stmt d \<and>
    (field \<noteq> SQL_DESC_COUNT \<longrightarrow> sql_desc_count (desc_header d') = sql_desc_count (desc_header d))"
proof -
  have r: "snd (ReturnInvalidFieldIdentifier dsn ro d) = d' \<Longrightarrow>
      desc_header d' = desc_header d \<and> desc_records d' = desc_records d \<and> desc_stmt d' = desc_stmt d" for ro
    using ReturnInvalid_frame by metis
  have e: "snd (desc_error dsn c msg st d) = d' \<Longrightarrow>
      desc_header d' = desc_header d \<and> desc_records d' = desc_records d \<and> desc_stmt d' = desc_stmt d" for c msg st
    using desc_error_frame by metis
  show ?thesis using assms unfolding SetDescHeaderField_def set_header_def
    by (auto simp: bind_eq_Some_conv dest!: arg_cong[where f = snd] r e split: if_split_asm)
qed
text \<open>The count of the header is the number of records.\<close>

definition count_ok :: "OdbcHandleDesc \<Rightarrow> bool" where
  "count_ok d \<longleftrightarrow> sql_desc_count (desc_header d) = int (length (desc_records d)) \<and> length (desc_records d) < 32768"

lemma GetDescRecord_count: "count_ok d \<Longrightarrow> i < 32767 \<Longrightarrow> count_ok (GetDescRecord junk i d)"
  by (auto simp: count_ok_def GetDescRecord_def Let_def in_s_def)

text \<open>
  C16. Setting a field of a descriptor keeps the count of the header equal to the number of records (with
  the exception of SQL\_DESC\_COUNT itself, which changes the count alone), never removes a record
  and changes no record but the one it names.
\<close>

theorem SetDescField_count:
  assumes "SetDescField junk this_ird this_ipd dsn rec_number field p b m d = Some (ret, d')"
    and "count_ok d" "field \<noteq> SQL_DESC_COUNT" "rec_number \<le> 32767"
  shows "count_ok d' \<and> length (desc_records d) \<le> length (desc_records d') \<and>
    (\<forall>j. j < length (desc_records d) \<and> int j \<noteq> rec_number - 1 \<longrightarrow> desc_records d' ! j = desc_records d ! j)"
proof (cases "field \<in> header_fields \<or> rec_number \<le> 0")
  case True
  have e: "snd (desc_error dsn c msg st d) = d' \<Longrightarrow>
      desc_header d' = desc_header d \<and> desc_records d' = desc_records d" for c msg st
    using desc_error_frame by metis
  show ?thesis using True assms SetDescHeaderField_frame[of this_ird dsn field p m d ret d']
    by (auto simp: SetDescField_def count_ok_def dest!: arg_cong[where f = snd] e split: if_split_asm)
next
  case False
  define i where "i = nat (rec_number - 1)"
  have i: "int i = rec_number - 1" "i < 32767" using False assms(4) by (auto simp: i_def)
  have s: "SetDescRecordField this_ird this_ipd dsn i field p b m (GetDescRecord junk i d) = Some (ret, d')"
    using assms(1) False by (simp add: SetDescField_def Let_def i_def)
  show ?thesis
    using SetDescRecordField_frame[OF s] GetDescRecord_count[OF assms(2) i(2), of junk] i
    by (auto simp: count_ok_def GetDescRecord_nth)
qed

theorem SetDescField_count_witness:
  "\<exists>d'. SetDescField (\<lambda>_. sample_record) False False [] 2 SQL_DESC_DATA_PTR 4096 0 (\<lambda>_. CHR 0x07) sample_desc =
     Some (SQL_SUCCESS, d') \<and> count_ok d'"
proof -
  obtain d' where d': "SetDescField (\<lambda>_. sample_record) False False [] 2 SQL_DESC_DATA_PTR 4096 0 (\<lambda>_. CHR 0x07)
      sample_desc = Some (SQL_SUCCESS, d')"
    by (simp add: SetDescField_def SetDescRecordField_def header_fields_def readonly_fields_def IsID_def set_record_def Let_def)
  show ?thesis using SetDescField_count[OF d'] d' by (simp add: count_ok_def)
qed

end
