(* ===== verification/Parameter_Descriptor.thy ===== *)
theory Parameter_Descriptor
  imports Odbc_Descriptor
begin

text \<open>
  \<^verbatim>\<open>src/odbc_driver/parameter_descriptor.cpp\<close>: reading the values of one set of parameters from the
  arrays of the client, and the data the client sends at execution. The current APD is the implicit
  one or an explicit descriptor of the store \<^verbatim>\<open>ds\<close>. \<^verbatim>\<open>valid\<close> says for which values the constructor of
  the engine does not throw. None stands for an exception, an index out of range or a null pointer.
\<close>

section \<open>State\<close>

definition GetAPD :: "desc_store \<Rightarrow> ParameterDescriptor \<Rightarrow> OdbcHandleDesc option" where
  "GetAPD ds p = current_desc ds (cur_apd p) (apd p)"

definition put_apd :: "OdbcHandleDesc \<Rightarrow> desc_store \<Rightarrow> ParameterDescriptor \<Rightarrow> desc_store \<times> ParameterDescriptor" where
  "put_apd d ds p = (case cur_apd p of None \<Rightarrow> (ds, p\<lparr>apd := d\<rparr>) | Some a \<Rightarrow> (ds(a \<mapsto> d), p))"

definition with_count :: "int \<Rightarrow> OdbcHandleDesc \<Rightarrow> OdbcHandleDesc" where
  "with_count n d = d\<lparr>desc_header := (desc_header d)\<lparr>sql_desc_count := n\<rparr>\<rparr>"

definition ParameterDescriptor_Reset ::
  "desc_store \<Rightarrow> ParameterDescriptor \<Rightarrow> (desc_store \<times> ParameterDescriptor) option" where
  "ParameterDescriptor_Reset ds p =
     (let p = p\<lparr>pool_allocated_ptr := [], ipd := with_count 0 (ipd p)\<rparr> in
      case GetAPD ds p of
        None \<Rightarrow> None
      | Some d \<Rightarrow> (case put_apd (with_count 0 d) ds p of (ds, p) \<Rightarrow>
          Some (ds, p\<lparr>paramset_idx := 0, cur_paramset_idx := 0, cur_param_idx := 0\<rparr>)))"

definition ParameterDescriptor_Clear ::
  "desc_store \<Rightarrow> ParameterDescriptor \<Rightarrow> (desc_store \<times> ParameterDescriptor) option" where
  "ParameterDescriptor_Clear ds p =
     (let p = p\<lparr>ipd := OdbcHandleDesc_Reset (ipd p)\<rparr> in
      case GetAPD ds p of
        None \<Rightarrow> None
      | Some d \<Rightarrow> (case put_apd (OdbcHandleDesc_Reset d) ds p of (ds, p) \<Rightarrow> ParameterDescriptor_Reset ds p))"

definition ResetParams ::
  "(nat \<Rightarrow> DescRecord) \<Rightarrow> int \<Rightarrow> desc_store \<Rightarrow> ParameterDescriptor \<Rightarrow> (desc_store \<times> ParameterDescriptor) option" where
  "ResetParams junk count ds p = do {
     let p = p\<lparr>pool_allocated_ptr := []\<rparr>;
     i \<leftarrow> AddMoreRecords junk count (ipd p);
     let p = p\<lparr>ipd := i\<rparr>;
     d \<leftarrow> GetAPD ds p;
     d \<leftarrow> AddMoreRecords junk count d;
     Some (put_apd d ds p) }"

definition SetCurrentAPD :: "addr \<Rightarrow> desc_store \<Rightarrow> ParameterDescriptor \<Rightarrow> (desc_store \<times> ParameterDescriptor) option" where
  "SetCurrentAPD new_apd ds p =
     (case ds new_apd of
        None \<Rightarrow> None
      | Some d \<Rightarrow> Some (ds(new_apd \<mapsto> mark_user d), p\<lparr>cur_apd := Some new_apd\<rparr>))"

definition ResetCurrentAPD :: "ParameterDescriptor \<Rightarrow> ParameterDescriptor" where
  "ResetCurrentAPD p = p\<lparr>cur_apd := None\<rparr>"

definition HasParamSetToProcess :: "desc_store \<Rightarrow> ParameterDescriptor \<Rightarrow> bool option" where
  "HasParamSetToProcess ds p =
     map_option (\<lambda>d. paramset_idx p < sql_desc_array_size (desc_header d) \<and> desc_records (ipd p) \<noteq> []) (GetAPD ds p)"

definition SetParamProcessedPtr :: "addr \<Rightarrow> ParameterDescriptor \<Rightarrow> mem \<Rightarrow> ParameterDescriptor \<times> mem" where
  "SetParamProcessedPtr value_ptr p m =
     (p\<lparr>ipd := (ipd p)\<lparr>desc_header := (desc_header (ipd p))\<lparr>sql_desc_rows_processed_ptr := value_ptr\<rparr>\<rparr>\<rparr>,
      store_opt 8 value_ptr 0 m)"

definition SetArrayStatusPtr :: "addr \<Rightarrow> ParameterDescriptor \<Rightarrow> ParameterDescriptor" where
  "SetArrayStatusPtr value_ptr p =
     p\<lparr>ipd := (ipd p)\<lparr>desc_header := (desc_header (ipd p))\<lparr>sql_desc_array_status_ptr := value_ptr\<rparr>\<rparr>\<rparr>"

definition SetBindOffesetPtr :: "addr \<Rightarrow> ParameterDescriptor \<Rightarrow> ParameterDescriptor" where
  "SetBindOffesetPtr value_ptr p =
     p\<lparr>apd := (apd p)\<lparr>desc_header := (desc_header (apd p))\<lparr>sql_desc_bind_offset_ptr := value_ptr\<rparr>\<rparr>\<rparr>"

section \<open>Pointers with the bind offset\<close>

text \<open>
  The offset is added to the data pointer in bytes and to the indicator pointer in elements of
  eight bytes.
\<close>

definition bind_offset :: "mem \<Rightarrow> OdbcHandleDesc \<Rightarrow> int" where
  "bind_offset m d =
     (if sql_desc_bind_offset_ptr (desc_header d) \<noteq> nullptr
      then load_s 8 (sql_desc_bind_offset_ptr (desc_header d)) m else 0)"

definition GetSQLDescDataPtr :: "mem \<Rightarrow> OdbcHandleDesc \<Rightarrow> DescRecord \<Rightarrow> addr" where
  "GetSQLDescDataPtr m d apd_record = sql_desc_data_ptr apd_record + bind_offset m d"

definition GetSQLDescIndicatorPtr :: "mem \<Rightarrow> OdbcHandleDesc \<Rightarrow> DescRecord \<Rightarrow> int \<Rightarrow> addr" where
  "GetSQLDescIndicatorPtr m d apd_record set_idx =
     sql_desc_indicator_ptr apd_record + 8 * set_idx + 8 * bind_offset m d"

text \<open>
  Here the offset moves the pointer to the member itself: with an offset other than 0 the store goes
  past the member.
\<close>

definition SetSQLDescDataPtr :: "mem \<Rightarrow> addr \<Rightarrow> nat \<Rightarrow> OdbcHandleDesc \<Rightarrow> OdbcHandleDesc option" where
  "SetSQLDescDataPtr m data_ptr i d =
     (if bind_offset m d \<noteq> 0 then None
      else Some (d\<lparr>desc_records := (desc_records d)[i := (desc_records d ! i)\<lparr>sql_desc_data_ptr := data_ptr\<rparr>]\<rparr>))"

section \<open>One value\<close>

definition ValidateNumeric :: "int \<Rightarrow> int \<Rightarrow> int" where
  "ValidateNumeric precision scale =
     (if precision < 1 \<or> precision > 38 \<or> scale < 0 \<or> scale > 38 \<or> scale > precision
      then SQL_ERROR else SQL_SUCCESS)"

text \<open>The units from an address up to the first 0; the loop may not end.\<close>

partial_function (option) wide_str :: "addr \<Rightarrow> mem \<Rightarrow> unit16 list option" where
  "wide_str a m = (if load_u 2 a m = 0 then Some []
     else Option.bind (wide_str (a + 2) m) (\<lambda>s. Some (word_of_int (load_u 2 a m) # s)))"

definition load_units :: "addr \<Rightarrow> int \<Rightarrow> mem \<Rightarrow> unit16 list" where
  "load_units a n m = map (\<lambda>i. word_of_int (load_u 2 (a + 2 * int i) m)) [0..<nat n]"

definition chars_of :: "octet list \<Rightarrow> string" where
  "chars_of b = map (\<lambda>w. char_of (unat w)) b"

definition char_types :: "int set" where
  "char_types = {SQL_CHAR, SQL_VARCHAR, SQL_LONGVARCHAR}"

definition wide_types :: "int set" where
  "wide_types = {SQL_WCHAR, SQL_WVARCHAR, SQL_WLONGVARCHAR}"

definition binary_types :: "int set" where
  "binary_types = {SQL_BINARY, SQL_VARBINARY, SQL_LONGVARBINARY}"

definition fixed_value :: "int \<Rightarrow> int \<Rightarrow> addr \<Rightarrow> mem \<Rightarrow> ParamValue option" where
  "fixed_value sql_type c_type p m =
     (if sql_type = SQL_TINYINT then
        Some (if c_type = SQL_C_UTINYINT then PUtinyint (load_u 1 p m) else PTinyint (load_s 1 p m))
      else if sql_type = SQL_SMALLINT then
        Some (if c_type = SQL_C_USHORT then PUsmallint (load_u 2 p m) else PSmallint (load_s 2 p m))
      else if sql_type = SQL_INTEGER then
        Some (if c_type = SQL_C_ULONG then PUinteger (load_u 4 p m) else PInteger (load_s 4 p m))
      else if sql_type = SQL_BIGINT then
        Some (if c_type = SQL_C_UBIGINT then PUbigint (load_u 8 p m) else PBigint (load_s 8 p m))
      else if sql_type = SQL_FLOAT then Some (PFloat (load_bytes p 4 m))
      else if sql_type = SQL_DOUBLE then Some (PDouble (load_bytes p 8 m))
      else if sql_type = SQL_TYPE_TIMESTAMP then
        Some (PTimestamp (load_s 2 p m) (load_u 2 (p + 2) m) (load_u 2 (p + 4) m) (load_u 2 (p + 6) m)
          (load_u 2 (p + 8) m) (load_u 2 (p + 10) m) 0)
      else if sql_type = SQL_TYPE_DATE then
        Some (PDate (load_s 2 p m) (load_u 2 (p + 2) m) (load_u 2 (p + 4) m))
      else if sql_type = SQL_TYPE_TIME then
        Some (PTime (load_u 2 p m) (load_u 2 (p + 2) m) (load_u 2 (p + 4) m) 0)
      else None)"

text \<open>
  SQL\_NUMERIC\_STRUCT: the sign at offset 2, the little-endian magnitude from offset 3 on. Negating the
  smallest integer is not survived.
\<close>

definition numeric_value :: "int \<Rightarrow> int \<Rightarrow> addr \<Rightarrow> mem \<Rightarrow> ParamValue option" where
  "numeric_value precision scale p m =
     (let n = (if precision \<le> 18 then 8 else 16);
          v = load_s n (p + 3) m
      in if load_u 1 (p + 2) m = 0 then
           if v = - (2 ^ (8 * n - 1)) then None else Some (PDecimal (- v) precision scale)
         else Some (PDecimal v precision scale))"

text \<open>
  The switch of \<^verbatim>\<open>SetValue\<close>: Inl is the error it returns. \<^verbatim>\<open>buff_size\<close> looks at the implicit APD,
  the C type at the current one; the fixed-size types are read at the start of the array.
\<close>

definition parameter_value ::
  "DescRecord \<Rightarrow> DescRecord \<Rightarrow> DescRecord \<Rightarrow> addr \<Rightarrow> addr \<Rightarrow> int \<Rightarrow> mem \<Rightarrow> ((int + ParamValue) \<times> mem) option" where
  "parameter_value ipd_record apd_record cur_record sql_data_ptr ind_ptr val_idx m =
     (let type = sql_desc_type ipd_record;
          buff_size = max (wrap_s 64 (sql_desc_length ipd_record)) (sql_desc_octet_length apd_record);
          offset = wrap_s 64 (val_idx * buff_size)
      in
      if type \<in> char_types then do {
        let str_data = sql_data_ptr + offset;
        m \<leftarrow> (if load_s 8 ind_ptr m = SQL_NTS
             then map_option (\<lambda>s. store_int 8 ind_ptr (int (length s)) m) (c_str str_data m) else Some m);
        s \<leftarrow> ConvertSQLCHARToString str_data (load_s 8 ind_ptr m) m;
        Some (Inr (PVarchar s), m) }
      else if type \<in> wide_types then do {
        let utf16_data = sql_data_ptr + 2 * offset;
        m \<leftarrow> (if load_s 8 ind_ptr m = SQL_NTS
             then map_option (\<lambda>s. store_int 8 ind_ptr (2 * int (length s)) m) (wide_str utf16_data m) else Some m);
        let utf16_len = wrap_u 64 (load_s 8 ind_ptr m) div 2;
        Some (Inr (PVarchar (chars_of (fst (utf16_to_utf8_lenient (load_units utf16_data utf16_len m))))), m) }
      else if type \<in> binary_types then
        let blob_len = load_s 8 ind_ptr m in
        if blob_len < 0 then None
        else Some (Inr (PBlob (load_bytes (sql_data_ptr + offset) (nat blob_len) m)), m)
      else if type = SQL_NUMERIC then
        let precision = sql_desc_precision ipd_record; scale = sql_desc_scale ipd_record in
        if ValidateNumeric precision scale = SQL_ERROR then Some (Inl SQL_ERROR, m)
        else map_option (\<lambda>v. (Inr v, m)) (numeric_value precision scale sql_data_ptr m)
      else
        (case fixed_value type (sql_desc_type cur_record) sql_data_ptr m of
           None \<Rightarrow> Some (Inl SQL_PARAM_ERROR, m)
         | Some v \<Rightarrow> Some (Inr v, m)))"

section \<open>One set of parameters\<close>

definition set_param_value :: "ParamValue \<Rightarrow> nat \<Rightarrow> ParamValue list \<Rightarrow> ParamValue list" where
  "set_param_value value val_idx vals =
     (if val_idx \<ge> length vals then vals @ [value] else vals[val_idx := value])"

text \<open>A value is null when one of its two pointers is, or when the indicator says so.\<close>

definition SetValue ::
  "(ParamValue \<Rightarrow> bool) \<Rightarrow> nat \<Rightarrow> OdbcHandleDesc \<Rightarrow> ParameterDescriptor \<Rightarrow> mem
   \<Rightarrow> (int \<times> ParameterDescriptor \<times> mem) option" where
  "SetValue valid rec_idx cur p m =
     (if rec_idx < length (desc_records cur) \<and> rec_idx < length (desc_records (ipd p)) then
        let val_idx = paramset_idx p;
            cur_record = desc_records cur ! rec_idx;
            ipd_record = desc_records (ipd p) ! rec_idx;
            sql_data_ptr = GetSQLDescDataPtr m cur cur_record;
            sql_ind_ptr = GetSQLDescIndicatorPtr m cur cur_record 0;
            set = (\<lambda>v. p\<lparr>param_values := set_param_value v rec_idx (param_values p)\<rparr>)
        in
        if sql_data_ptr = nullptr \<and> sql_ind_ptr = nullptr then Some (SQL_ERROR, p, m)
        else
          let ind_ptr = GetSQLDescIndicatorPtr m cur cur_record val_idx in
          if sql_data_ptr = nullptr \<or> sql_ind_ptr = nullptr \<or> load_s 8 ind_ptr m = SQL_NULL_DATA then
            Some (SQL_SUCCESS, set PNull, m)
          else if load_s 8 ind_ptr m = SQL_DATA_AT_EXEC \<or>
              load_u 8 ind_ptr m = wrap_u 64 (- sql_desc_length ipd_record - 100) then
            Some (SQL_NEED_DATA, p, m)
          else if rec_idx < length (desc_records (apd p)) then
            (case parameter_value ipd_record (desc_records (apd p) ! rec_idx) cur_record sql_data_ptr ind_ptr val_idx m of
               None \<Rightarrow> None
             | Some (Inl ret, m) \<Rightarrow> Some (ret, p, m)
             | Some (Inr v, m) \<Rightarrow> if valid v then Some (SQL_PARAM_SUCCESS, set v, m) else None)
          else None
      else None)"

definition SetParamIndex :: "OdbcHandleDesc \<Rightarrow> ParameterDescriptor \<Rightarrow> mem \<Rightarrow> int \<times> ParameterDescriptor \<times> mem" where
  "SetParamIndex cur p m =
     (let p = p\<lparr>paramset_idx := wrap_u 64 (paramset_idx p + 1)\<rparr>;
          m = store_opt 8 (sql_desc_rows_processed_ptr (desc_header (ipd p))) (paramset_idx p) m
      in if paramset_idx p = sql_desc_array_size (desc_header cur) then (SQL_SUCCESS, p, m)
         else (SQL_STILL_EXECUTING, p, m))"

text \<open>
  The loop of \<^verbatim>\<open>GetParamValues\<close> over the records from \<^verbatim>\<open>rec_idx\<close> on. When the client has a status
  array, a value that could not be set is reported there and the loop goes on with the value the
  vector has at that place.
\<close>

fun get_values ::
  "(ParamValue \<Rightarrow> bool) \<Rightarrow> string \<Rightarrow> nat \<Rightarrow> nat \<Rightarrow> OdbcHandleDesc \<Rightarrow> ParamValue list \<Rightarrow> 'v OdbcHandleStmt \<Rightarrow> mem
   \<Rightarrow> (int \<times> ParamValue list \<times> 'v OdbcHandleStmt \<times> mem) option" where
  "get_values valid dsn rec_idx 0 cur vals h m =
     (case SetParamIndex cur (param_desc h) m of (ret, p, m) \<Rightarrow> Some (ret, vals, h\<lparr>param_desc := p\<rparr>, m))" |
  "get_values valid dsn rec_idx (Suc n) cur vals h m =
     (case SetValue valid rec_idx cur (param_desc h) m of
        None \<Rightarrow> None
      | Some (ret, p, m) \<Rightarrow>
        let h = h\<lparr>param_desc := p\<rparr>;
            status = sql_desc_array_status_ptr (desc_header (ipd p));
            m = (if status \<noteq> nullptr then store_int 2 (status + 2 * paramset_idx p) ret m else m)
        in
        if ret = SQL_NEED_DATA then Some (SQL_NEED_DATA, vals, h, m)
        else
          let h = (if ret \<noteq> SQL_PARAM_SUCCESS
                   then snd (stmt_diag h SQL_SUCCESS_WITH_INFO ''GetParamValues'' ''Failed to set parameter value'' ST_01000 dsn)
                   else h)
          in
          if ret \<noteq> SQL_PARAM_SUCCESS \<and> status = nullptr then Some (SQL_ERROR, vals, h, m)
          else if rec_idx < length (param_values p) then
            get_values valid dsn (Suc rec_idx) n cur (vals @ [param_values p ! rec_idx]) h m
          else None)"

definition GetParamValues ::
  "(ParamValue \<Rightarrow> bool) \<Rightarrow> string \<Rightarrow> desc_store \<Rightarrow> 'v OdbcHandleStmt \<Rightarrow> mem
   \<Rightarrow> (int \<times> ParamValue list \<times> 'v OdbcHandleStmt \<times> mem) option" where
  "GetParamValues valid dsn ds h m =
     (let p = param_desc h; n = length (desc_records (ipd p)) in
      if n = 0 then Some (SQL_SUCCESS, [], h, m)
      else case GetAPD ds p of
             None \<Rightarrow> None
           | Some cur \<Rightarrow> get_values valid dsn 0 n cur [] h m)"

section \<open>Data at execution\<close>

definition GetNextParam ::
  "desc_store \<Rightarrow> addr \<Rightarrow> ParameterDescriptor \<Rightarrow> mem \<Rightarrow> (int \<times> mem) option" where
  "GetNextParam ds param p m = do {
     cur \<leftarrow> GetAPD ds p;
     if wrap_s 16 (cur_param_idx p) \<ge> sql_desc_count (desc_header cur) then Some (SQL_NO_DATA, m)
     else if 0 \<le> cur_param_idx p \<and> cur_param_idx p < int (length (desc_records cur)) \<and> param \<noteq> nullptr then
       let r = desc_records cur ! nat (cur_param_idx p);
           m = store_int 8 param (GetSQLDescDataPtr m cur r) m;
           processed = sql_desc_rows_processed_ptr (desc_header (ipd p));
           m = (if processed \<noteq> nullptr then store_int 8 processed (load_u 8 processed m + 1) m else m);
           ind = GetSQLDescIndicatorPtr m cur r (cur_paramset_idx p)
       in if ind = nullptr then None
          else Some (if load_s 8 ind m = SQL_DATA_AT_EXEC then SQL_NEED_DATA else SQL_SUCCESS, m)
     else None }"

text \<open>\<^verbatim>\<open>alloc\<close> is the address of the array the call allocates, which has \<^verbatim>\<open>sql_desc_length\<close> bytes.\<close>

definition FillParamCharDataBuffer ::
  "addr \<Rightarrow> nat \<Rightarrow> addr \<Rightarrow> int \<Rightarrow> OdbcHandleDesc \<Rightarrow> ParameterDescriptor \<Rightarrow> mem
   \<Rightarrow> (int \<times> OdbcHandleDesc \<times> ParameterDescriptor \<times> mem) option" where
  "FillParamCharDataBuffer alloc i data_ptr str_len_or_ind_ptr cur p m =
     (let len = sql_desc_length (desc_records (ipd p) ! i);
          ind = GetSQLDescIndicatorPtr m cur (desc_records cur ! i) 0
      in if ind = nullptr then None else do {
        (offset, cur, p, m) \<leftarrow>
          (if load_s 8 ind m = SQL_DATA_AT_EXEC then
             map_option (\<lambda>cur. (0, cur, p\<lparr>pool_allocated_ptr := pool_allocated_ptr p @ [alloc]\<rparr>, store_int 8 ind 0 m))
               (SetSQLDescDataPtr m alloc i cur)
           else Some (load_u 8 ind m, cur, p, m));
        let room = wrap_u 64 (len - offset);
        let sz = wrap_u 64 str_len_or_ind_ptr;
        let (sz, p) = (if sz \<ge> room then (room, p\<lparr>cur_param_idx := wrap_u 64 (cur_param_idx p + 1)\<rparr>) else (sz, p));
        let m = store_bytes (GetSQLDescDataPtr m cur (desc_records cur ! i) + offset) (load_bytes data_ptr (nat sz) m) m;
        let m = store_int 8 ind (load_u 8 ind m + sz) m;
        let status = sql_desc_array_status_ptr (desc_header (ipd p));
        Some (SQL_PARAM_SUCCESS, cur, p,
              if status \<noteq> nullptr then store_int 2 (status + 2 * cur_param_idx p) SQL_PARAM_SUCCESS m else m) })"

text \<open>With an array of parameters one call fills the value of one set.\<close>

definition FillCurParamCharSet ::
  "addr \<Rightarrow> nat \<Rightarrow> addr \<Rightarrow> int \<Rightarrow> OdbcHandleDesc \<Rightarrow> ParameterDescriptor \<Rightarrow> mem
   \<Rightarrow> (int \<times> OdbcHandleDesc \<times> ParameterDescriptor \<times> mem) option" where
  "FillCurParamCharSet alloc i data_ptr str_len_or_ind_ptr cur p m =
     (let len_ptr = GetSQLDescIndicatorPtr m cur (desc_records cur ! i) (cur_paramset_idx p);
          col_size = sql_desc_length (desc_records (ipd p) ! i)
      in if len_ptr = nullptr then None else do {
        (cur, p) \<leftarrow>
          (if load_s 8 len_ptr m = SQL_DATA_AT_EXEC \<and> pool_allocated_ptr p = [] then
             map_option (\<lambda>cur. (cur, p\<lparr>pool_allocated_ptr := pool_allocated_ptr p @ [alloc]\<rparr>)) (SetSQLDescDataPtr m alloc i cur)
           else Some (cur, p));
        let value_ptr = GetSQLDescDataPtr m cur (desc_records cur ! i) + cur_paramset_idx p * col_size;
        let sz = wrap_u 64 str_len_or_ind_ptr;
        let sz = (if sz \<ge> col_size then col_size else sz);
        let m = store_bytes value_ptr (load_bytes data_ptr (nat sz) m) m;
        let m = store_int 8 len_ptr sz m;
        let status = sql_desc_array_status_ptr (desc_header (ipd p));
        let m = (if status \<noteq> nullptr then store_int 2 (status + 2 * cur_paramset_idx p) SQL_PARAM_SUCCESS m else m);
        let p = p\<lparr>cur_paramset_idx := wrap_u 64 (cur_paramset_idx p + 1)\<rparr>;
        Some (SQL_PARAM_SUCCESS, cur,
              if cur_paramset_idx p \<ge> sql_desc_array_size (desc_header cur)
              then p\<lparr>cur_paramset_idx := 0, cur_param_idx := wrap_u 64 (cur_param_idx p + 1)\<rparr> else p, m) })"

definition PutData ::
  "addr \<Rightarrow> addr \<Rightarrow> int \<Rightarrow> desc_store \<Rightarrow> ParameterDescriptor \<Rightarrow> mem
   \<Rightarrow> (int \<times> desc_store \<times> ParameterDescriptor \<times> mem) option" where
  "PutData alloc data_ptr str_len_or_ind_ptr ds p m = do {
     cur \<leftarrow> GetAPD ds p;
     if wrap_s 16 (cur_param_idx p) \<ge> sql_desc_count (desc_header cur) then Some (SQL_ERROR, ds, p, m)
     else
       let i = nat (cur_param_idx p); c_type = sql_desc_type (desc_records cur ! i) in
       if \<not> (i < length (desc_records cur)) then None
       else if c_type = SQL_C_CHAR \<or> c_type = SQL_C_BINARY then
         if i < length (desc_records (ipd p)) then do {
           (ret, cur, p, m) \<leftarrow>
             (if sql_desc_array_size (desc_header cur) = 1
              then FillParamCharDataBuffer alloc i data_ptr str_len_or_ind_ptr cur p m
              else FillCurParamCharSet alloc i data_ptr str_len_or_ind_ptr cur p m);
           (case put_apd cur ds p of (ds, p) \<Rightarrow> Some (ret, ds, p, m)) }
         else None
       else
         let p = p\<lparr>cur_param_idx := wrap_u 64 (cur_param_idx p + 1)\<rparr> in
         if str_len_or_ind_ptr = SQL_NULL_DATA then
           let ind = GetSQLDescIndicatorPtr m cur (desc_records cur ! i) 0 in
           if ind = nullptr then None else Some (SQL_SUCCESS, ds, p, store_int 8 ind SQL_NULL_DATA m)
         else do {
           cur \<leftarrow> SetSQLDescDataPtr m data_ptr i cur;
           (case put_apd cur ds p of (ds, p) \<Rightarrow> Some (SQL_SUCCESS, ds, p, m)) } }"

end
