(* ===== verification/Parameter_Sets.thy ===== *)
theory Parameter_Sets
  imports Parameter_Descriptor
begin

text \<open>
  What the parameter descriptor delivers: the values of a set of bound parameters against the layout
  ODBC gives arrays of parameters, and the value that pieces sent at execution make.
\<close>

section \<open>The layout of bound parameters\<close>

text \<open>
  The application descriptor has no bind offset and the client asks for no status, so that no
  memory is written.
\<close>

definition plain_params :: "OdbcHandleDesc \<Rightarrow> ParameterDescriptor \<Rightarrow> bool" where
  "plain_params cur p \<longleftrightarrow> sql_desc_bind_offset_ptr (desc_header cur) = nullptr \<and>
     sql_desc_array_status_ptr (desc_header (ipd p)) = nullptr \<and>
     sql_desc_rows_processed_ptr (desc_header (ipd p)) = nullptr"

text \<open>
  Element \<^verbatim>\<open>k\<close> of a column-wise array and its length. The stride of the driver is the larger one of the
  column size and the octet length; for wide texts it counts code units.
\<close>

definition text_stride :: "ParameterDescriptor \<Rightarrow> nat \<Rightarrow> int" where
  "text_stride p i = max (sql_desc_length (desc_records (ipd p) ! i)) (sql_desc_octet_length (desc_records (apd p) ! i))"

definition text_len :: "mem \<Rightarrow> OdbcHandleDesc \<Rightarrow> nat \<Rightarrow> int \<Rightarrow> int" where
  "text_len m cur i k = load_s 8 (sql_desc_indicator_ptr (desc_records cur ! i) + 8 * k) m"

text \<open>The value of parameter \<^verbatim>\<open>i\<close> in set \<^verbatim>\<open>k\<close>: a value of fixed size is the first one of its array in every set.\<close>

definition bound_value :: "mem \<Rightarrow> OdbcHandleDesc \<Rightarrow> ParameterDescriptor \<Rightarrow> nat \<Rightarrow> int \<Rightarrow> ParamValue" where
  "bound_value m cur p i k =
     (let r = desc_records cur ! i; type = sql_desc_type (desc_records (ipd p) ! i);
          len = text_len m cur i k; offset = k * text_stride p i
      in
      if len = SQL_NULL_DATA then PNull
      else if type \<in> char_types then PVarchar (load_bytes (sql_desc_data_ptr r + offset) (nat len) m)
      else if type \<in> wide_types then
        PVarchar (chars_of (fst (utf16_to_utf8_lenient (load_units (sql_desc_data_ptr r + 2 * offset) (len div 2) m))))
      else if type \<in> binary_types then PBlob (load_bytes (sql_desc_data_ptr r + offset) (nat len) m)
      else (case fixed_value type (sql_desc_type r) (sql_desc_data_ptr r) m of None \<Rightarrow> PNull | Some v \<Rightarrow> v))"

text \<open>
  The parameter is NULL or has a length that is not one of the special values, so that its value is read;
  SQL\_NUMERIC is left aside.
\<close>

definition bound_param :: "(ParamValue \<Rightarrow> bool) \<Rightarrow> mem \<Rightarrow> OdbcHandleDesc \<Rightarrow> ParameterDescriptor \<Rightarrow> nat \<Rightarrow> int \<Rightarrow> bool" where
  "bound_param valid m cur p i k \<longleftrightarrow>
     0 < sql_desc_data_ptr (desc_records cur ! i) \<and> 0 < sql_desc_indicator_ptr (desc_records cur ! i) \<and>
     0 \<le> sql_desc_length (desc_records (ipd p) ! i) \<and> sql_desc_length (desc_records (ipd p) ! i) < 2 ^ 63 - 100 \<and>
     0 \<le> k \<and> in_s 64 (k * text_stride p i) \<and> valid (bound_value m cur p i k) \<and>
     (text_len m cur i k = SQL_NULL_DATA \<or> 0 \<le> text_len m cur i k \<and>
       (sql_desc_type (desc_records (ipd p) ! i) \<in> char_types \<union> wide_types \<union> binary_types \<or>
        sql_desc_type (desc_records (ipd p) ! i) \<noteq> SQL_NUMERIC \<and>
        fixed_value (sql_desc_type (desc_records (ipd p) ! i)) (sql_desc_type (desc_records cur ! i))
          (sql_desc_data_ptr (desc_records cur ! i)) m \<noteq> None))"

definition with_value :: "ParamValue \<Rightarrow> nat \<Rightarrow> ParameterDescriptor \<Rightarrow> ParameterDescriptor" where
  "with_value v i p = p\<lparr>param_values := set_param_value v i (param_values p)\<rparr>"

lemma plain_pointers:
  assumes "plain_params cur p"
  shows "bind_offset m cur = 0" "GetSQLDescDataPtr m cur r = sql_desc_data_ptr r"
    "GetSQLDescIndicatorPtr m cur r k = sql_desc_indicator_ptr r + 8 * k"
  using assms by (simp_all add: plain_params_def bind_offset_def GetSQLDescDataPtr_def GetSQLDescIndicatorPtr_def)

text \<open>An indicator that is a length is not one of the special values.\<close>

lemma load_u_of_s: "0 < n \<Longrightarrow> load_u n a m = load_s n a m mod 2 ^ (8 * n)"
proof -
  have "load_u n a m mod 2 ^ (8 * n) = load_u n a m"
    using load_u_bounds[of n a m] by (simp add: mod_pos_pos_trivial pow256)
  moreover have "(x - 2 ^ (8 * n)) mod 2 ^ (8 * n) = x mod 2 ^ (8 * n)" for x :: int by simp
  ultimately show ?thesis by (simp only: load_s_def wrap_s_def Let_def split: if_split) auto
qed

lemma indicator_is_length:
  assumes "0 \<le> load_s 8 a m" "0 \<le> len" "len < 2 ^ 63 - 100"
  shows "load_u 8 a m \<noteq> wrap_u 64 (- len - 100)"
proof -
  have "load_s 8 a m < 2 ^ 63"
    using in_s_wrap_s[of 64 "load_u 8 a m"] by (simp add: load_s_def in_s_def)
  then have u: "load_u 8 a m < 2 ^ 63" using assms(1) load_u_of_s[of 8 a m] by simp
  have "wrap_u 64 (- len - 100) = 2 ^ 64 - len - 100"
    unfolding wrap_u_def by (rule mod_pos_pos_trivial[of "2 ^ 64 - len - 100" "2 ^ 64", THEN trans[rotated]])
      (use assms(2,3) mod_add_self2[of "- len - 100" "2 ^ 64"] in \<open>simp_all add: algebra_simps\<close>)
  then show ?thesis using u assms(3) by auto
qed

lemma parameter_value_bound:
  assumes "bound_param valid m cur p i k" "text_len m cur i k \<noteq> SQL_NULL_DATA"
  shows "parameter_value (desc_records (ipd p) ! i) (desc_records (apd p) ! i) (desc_records cur ! i)
      (sql_desc_data_ptr (desc_records cur ! i)) (sql_desc_indicator_ptr (desc_records cur ! i) + 8 * k) k m =
    Some (Inr (bound_value m cur p i k), m)"
proof -
  note t = assms(1)[unfolded bound_param_def]
  let ?type = "sql_desc_type (desc_records (ipd p) ! i)" and ?data = "sql_desc_data_ptr (desc_records cur ! i)"
  let ?len = "load_s 8 (sql_desc_indicator_ptr (desc_records cur ! i) + 8 * k) m"
  have size: "in_s 64 (sql_desc_length (desc_records (ipd p) ! i))" using t by (auto simp: in_s_def)
  have l: "0 \<le> ?len" using t assms(2) by (simp add: text_len_def)
  have u: "wrap_u 64 ?len = ?len"
    using l in_s_wrap_s[of 64 "load_u 8 (sql_desc_indicator_ptr (desc_records cur ! i) + 8 * k) m"]
    by (simp add: wrap_u_def load_s_def in_s_def)
  have "0 \<le> text_stride p i" using t by (auto simp: text_stride_def)
  then have data: "0 < ?data + k * text_stride p i" using t by (meson add_pos_nonneg mult_nonneg_nonneg)
  have c: "ConvertSQLCHARToString (?data + k * text_stride p i) ?len m = Some (load_bytes (?data + k * text_stride p i) (nat ?len) m)"
    using l data by (simp add: ConvertSQLCHARToString_def)
  have stride: "wrap_s 64 (k * max (wrap_s 64 (sql_desc_length (desc_records (ipd p) ! i)))
      (sql_desc_octet_length (desc_records (apd p) ! i))) = k * text_stride p i"
    using t size by (simp add: text_stride_def)
  consider "?type \<in> char_types" | "?type \<in> wide_types" "?type \<notin> char_types"
    | "?type \<in> binary_types" "?type \<notin> wide_types" "?type \<notin> char_types"
    | v where "?type \<notin> char_types" "?type \<notin> wide_types" "?type \<notin> binary_types" "?type \<noteq> SQL_NUMERIC"
        "fixed_value ?type (sql_desc_type (desc_records cur ! i)) ?data m = Some v"
    using t assms(2) by blast
  then show ?thesis
    using l c u assms(2) by cases (simp_all add: parameter_value_def stride bound_value_def text_len_def Let_def)
qed

lemma SetValue_text:
  assumes "plain_params cur p" "bound_param valid m cur p i k" "paramset_idx p = k"
    "i < length (desc_records cur)" "i < length (desc_records (ipd p))" "i < length (desc_records (apd p))"
  shows "SetValue valid i cur p m = Some (SQL_SUCCESS, with_value (bound_value m cur p i k) i p, m)"
proof -
  note t = assms(2)[unfolded bound_param_def]
  show ?thesis
  proof (cases "text_len m cur i k = SQL_NULL_DATA")
    case True
    then show ?thesis
      using t assms by (simp add: SetValue_def plain_pointers Let_def text_len_def bound_value_def with_value_def)
  next
    case False
    then have l: "0 \<le> load_s 8 (sql_desc_indicator_ptr (desc_records cur ! i) + 8 * k) m"
      using t by (simp add: text_len_def)
    have ne: "load_u 8 (sql_desc_indicator_ptr (desc_records cur ! i) + 8 * k) m \<noteq>
        wrap_u 64 (- sql_desc_length (desc_records (ipd p) ! i) - 100)"
      using indicator_is_length[OF l] t by blast
    show ?thesis
      using t assms parameter_value_bound[OF assms(2) False] l ne False
      by (simp add: SetValue_def plain_pointers Let_def text_len_def with_value_def)
  qed
qed


section \<open>A set of values\<close>

text \<open>
  The loop over the records, for any conversion that gives record \<^verbatim>\<open>i\<close> the value \<^verbatim>\<open>v i\<close> and touches
  nothing else.
\<close>

lemma set_param_value_nth:
  "i \<le> length vs \<Longrightarrow> length (set_param_value v i vs) = max (length vs) (Suc i)"
  "i \<le> length vs \<Longrightarrow> set_param_value v i vs ! i = v"
  by (auto simp: set_param_value_def nth_append)

definition next_set :: "ParamValue list \<Rightarrow> ParameterDescriptor \<Rightarrow> ParameterDescriptor" where
  "next_set vs p = p\<lparr>paramset_idx := paramset_idx p + 1, param_values := vs\<rparr>"

lemma SetParamIndex_plain:
  assumes "plain_params cur p" "0 \<le> paramset_idx p" "paramset_idx p < 2 ^ 64 - 1"
  shows "SetParamIndex cur p m =
    (if paramset_idx p + 1 = sql_desc_array_size (desc_header cur) then SQL_SUCCESS else SQL_STILL_EXECUTING,
     next_set (param_values p) p, m)"
proof -
  have "wrap_u 64 (paramset_idx p + 1) = paramset_idx p + 1" by (rule wrap_u_id) (use assms in \<open>simp add: in_u_def\<close>)
  then show ?thesis using assms(1) by (simp add: SetParamIndex_def plain_params_def store_opt_def next_set_def Let_def)
qed

lemma get_values_plain:
  assumes "\<And>vs i. r \<le> i \<Longrightarrow> i < r + n \<Longrightarrow> SetValue valid i cur ((param_desc h)\<lparr>param_values := vs\<rparr>) m =
      Some (SQL_SUCCESS, with_value (v i) i ((param_desc h)\<lparr>param_values := vs\<rparr>), m)"
    and "plain_params cur (param_desc h)" "r \<le> length (param_values (param_desc h))"
    and "0 \<le> paramset_idx (param_desc h)" "paramset_idx (param_desc h) < 2 ^ 64 - 1"
  shows "\<exists>vs. get_values valid dsn r n cur vals h m = Some
    (if paramset_idx (param_desc h) + 1 = sql_desc_array_size (desc_header cur) then SQL_SUCCESS else SQL_STILL_EXECUTING,
     vals @ map v [r..<r + n], h\<lparr>param_desc := next_set vs (param_desc h)\<rparr>, m)"
  using assms
proof (induction n arbitrary: r vals h)
  case 0
  show ?case
    using SetParamIndex_plain[OF "0.prems"(2,4,5), of m] by (intro exI[of _ "param_values (param_desc h)"]) simp
next
  case (Suc n)
  let ?p = "with_value (v r) r (param_desc h)"
  let ?h = "h\<lparr>param_desc := ?p\<rparr>"
  have s: "SetValue valid r cur (param_desc h) m = Some (SQL_SUCCESS, ?p, m)"
    using Suc.prems(1)[of r "param_values (param_desc h)"] by simp
  have st: "sql_desc_array_status_ptr (desc_header (ipd ?p)) = 0"
    using Suc.prems(2) by (simp add: plain_params_def with_value_def)
  have vr: "r < length (param_values ?p)" "param_values ?p ! r = v r"
    using Suc.prems(3) set_param_value_nth[of r "param_values (param_desc h)" "v r"] by (simp_all add: with_value_def)
  have step: "get_values valid dsn r (Suc n) cur vals h m = get_values valid dsn (Suc r) n cur (vals @ [v r]) ?h m"
    using s st vr by simp
  have "\<exists>vs. get_values valid dsn (Suc r) n cur (vals @ [v r]) ?h m = Some
    (if paramset_idx (param_desc ?h) + 1 = sql_desc_array_size (desc_header cur) then SQL_SUCCESS else SQL_STILL_EXECUTING,
     (vals @ [v r]) @ map v [Suc r..<Suc r + n], ?h\<lparr>param_desc := next_set vs (param_desc ?h)\<rparr>, m)"
  proof (rule Suc.IH)
    fix vs i assume "Suc r \<le> i" "i < Suc r + n"
    then show "SetValue valid i cur ((param_desc ?h)\<lparr>param_values := vs\<rparr>) m =
        Some (SQL_SUCCESS, with_value (v i) i ((param_desc ?h)\<lparr>param_values := vs\<rparr>), m)"
      using Suc.prems(1)[of i vs] by (simp add: with_value_def)
  next
    show "Suc r \<le> length (param_values (param_desc ?h))" using vr(1) by simp
  qed (use Suc.prems in \<open>simp_all add: with_value_def plain_params_def\<close>)
  then obtain vs where "get_values valid dsn (Suc r) n cur (vals @ [v r]) ?h m = Some
    (if paramset_idx (param_desc ?h) + 1 = sql_desc_array_size (desc_header cur) then SQL_SUCCESS else SQL_STILL_EXECUTING,
     (vals @ [v r]) @ map v [Suc r..<Suc r + n], ?h\<lparr>param_desc := next_set vs (param_desc ?h)\<rparr>, m)" by blast
  moreover have "(vals @ [v r]) @ map v [Suc r..<Suc r + n] = vals @ map v [r..<r + Suc n]"
    by (simp add: upt_rec[of r])
  moreover have "?h\<lparr>param_desc := next_set vs (param_desc ?h)\<rparr> = h\<lparr>param_desc := next_set vs (param_desc h)\<rparr>"
    "paramset_idx (param_desc ?h) = paramset_idx (param_desc h)"
    by (simp_all add: with_value_def next_set_def)
  ultimately show ?case unfolding step by metis
qed

text \<open>All the records are bound in this way.\<close>

definition bound_params :: "(ParamValue \<Rightarrow> bool) \<Rightarrow> mem \<Rightarrow> OdbcHandleDesc \<Rightarrow> ParameterDescriptor \<Rightarrow> int \<Rightarrow> bool" where
  "bound_params valid m cur p k \<longleftrightarrow> plain_params cur p \<and> desc_records (ipd p) \<noteq> [] \<and>
     length (desc_records (ipd p)) \<le> length (desc_records cur) \<and>
     length (desc_records (ipd p)) \<le> length (desc_records (apd p)) \<and>
     (\<forall>i < length (desc_records (ipd p)). bound_param valid m cur p i k)"

definition bound_set :: "mem \<Rightarrow> OdbcHandleDesc \<Rightarrow> ParameterDescriptor \<Rightarrow> int \<Rightarrow> ParamValue list" where
  "bound_set m cur p k = map (\<lambda>i. bound_value m cur p i k) [0..<length (desc_records (ipd p))]"

text \<open>
  Nothing but the set index and the values changes: the next set is read from the same records.
\<close>

lemma next_set_same [simp]:
  "bound_value m cur (next_set vs p) i k = bound_value m cur p i k"
  "bound_set m cur (next_set vs p) k = bound_set m cur p k"
  "bound_param valid m cur (next_set vs p) i k = bound_param valid m cur p i k"
  "bound_params valid m cur (next_set vs p) k = bound_params valid m cur p k"
  "plain_params cur (next_set vs p) = plain_params cur p"
  "GetAPD ds (next_set vs p) = GetAPD ds p" "ipd (next_set vs p) = ipd p"
  "paramset_idx (next_set vs p) = paramset_idx p + 1"
  by (simp_all add: next_set_def bound_value_def text_stride_def bound_set_def bound_param_def bound_params_def
      plain_params_def GetAPD_def)

lemma values_same [simp]:
  "bound_value m cur (p\<lparr>param_values := vs\<rparr>) i k = bound_value m cur p i k"
  "bound_param valid m cur (p\<lparr>param_values := vs\<rparr>) i k = bound_param valid m cur p i k"
  "plain_params cur (p\<lparr>param_values := vs\<rparr>) = plain_params cur p"
  by (simp_all add: bound_value_def text_stride_def bound_param_def plain_params_def)

lemma GetParamValues_text:
  assumes "GetAPD ds (param_desc h) = Some cur" "paramset_idx (param_desc h) = k"
    "bound_params valid m cur (param_desc h) k" "k < 2 ^ 64 - 1"
  shows "\<exists>vs. GetParamValues valid dsn ds h m = Some
    (if k + 1 = sql_desc_array_size (desc_header cur) then SQL_SUCCESS else SQL_STILL_EXECUTING,
     bound_set m cur (param_desc h) k, h\<lparr>param_desc := next_set vs (param_desc h)\<rparr>, m)"
proof -
  let ?p = "param_desc h" and ?n = "length (desc_records (ipd (param_desc h)))"
  note t = assms(3)[unfolded bound_params_def]
  have "SetValue valid i cur (?p\<lparr>param_values := vs\<rparr>) m =
      Some (SQL_SUCCESS, with_value (bound_value m cur ?p i k) i (?p\<lparr>param_values := vs\<rparr>), m)" if "i < 0 + ?n" for vs i
    using SetValue_text[of cur "?p\<lparr>param_values := vs\<rparr>" valid m i k] t that assms(2) by simp
  moreover have "0 \<le> k" using t by (auto simp: bound_param_def)
  ultimately obtain vs where "get_values valid dsn 0 ?n cur [] h m = Some
    (if paramset_idx ?p + 1 = sql_desc_array_size (desc_header cur) then SQL_SUCCESS else SQL_STILL_EXECUTING,
     [] @ map (\<lambda>i. bound_value m cur ?p i k) [0..<0 + ?n], h\<lparr>param_desc := next_set vs ?p\<rparr>, m)"
    using get_values_plain[of 0 ?n valid cur h m "\<lambda>i. bound_value m cur ?p i k" dsn "[]"] t assms(2,4) by auto
  then show ?thesis using assms(1,2) t
    by (intro exI[of _ vs]) (simp add: GetParamValues_def bound_set_def Let_def)
qed

section \<open>Pieces sent at execution\<close>

text \<open>
  A client that sends a text in pieces: the address and the length of each call of SQLPutData.
  \<^verbatim>\<open>alloc\<close> is where the driver's buffer gets allocated.
\<close>

fun put_pieces ::
  "addr \<Rightarrow> desc_store \<Rightarrow> (addr \<times> string) list \<Rightarrow> ParameterDescriptor \<Rightarrow> mem \<Rightarrow> (ParameterDescriptor \<times> mem) option" where
  "put_pieces alloc ds [] p m = Some (p, m)" |
  "put_pieces alloc ds ((a, s) # ps) p m =
     (case PutData alloc a (int (length s)) ds p m of
        None \<Rightarrow> None
      | Some (ret, ds, p, m) \<Rightarrow> if ret = SQL_PARAM_SUCCESS then put_pieces alloc ds ps p m else None)"

text \<open>The parameter at hand is a text of at most \<^verbatim>\<open>L\<close> bytes in the implicit application descriptor.\<close>

definition text_at_exec :: "nat \<Rightarrow> nat \<Rightarrow> addr \<Rightarrow> ParameterDescriptor \<Rightarrow> bool" where
  "text_at_exec i L ind p \<longleftrightarrow>
     plain_params (apd p) p \<and> cur_apd p = None \<and> sql_desc_array_size (desc_header (apd p)) = 1 \<and>
     i < length (desc_records (apd p)) \<and> i < length (desc_records (ipd p)) \<and>
     int i < sql_desc_count (desc_header (apd p)) \<and> i < 32768 \<and> cur_param_idx p = int i \<and>
     sql_desc_type (desc_records (apd p) ! i) \<in> {SQL_C_CHAR, SQL_C_BINARY} \<and>
     sql_desc_indicator_ptr (desc_records (apd p) ! i) = ind \<and> 0 < ind \<and>
     sql_desc_length (desc_records (ipd p) ! i) = int L"

definition apart :: "addr \<Rightarrow> int \<Rightarrow> addr \<Rightarrow> int \<Rightarrow> bool" where
  "apart a n b k \<longleftrightarrow> a + n \<le> b \<or> b + k \<le> a"

text \<open>The pieces lie in the client's memory away from the buffer and from the indicator.\<close>

definition client_pieces :: "addr \<Rightarrow> nat \<Rightarrow> addr \<Rightarrow> (addr \<times> string) list \<Rightarrow> mem \<Rightarrow> bool" where
  "client_pieces alloc L ind ps m \<longleftrightarrow> (\<forall>(a, s) \<in> set ps. s \<noteq> [] \<and> load_bytes a (length s) m = s \<and>
     apart a (int (length s)) alloc (int L) \<and> apart a (int (length s)) ind 8)"

text \<open>What has arrived so far.\<close>

definition received :: "addr \<Rightarrow> nat \<Rightarrow> addr \<Rightarrow> string \<Rightarrow> ParameterDescriptor \<Rightarrow> mem \<Rightarrow> bool" where
  "received alloc i ind s p m \<longleftrightarrow> sql_desc_data_ptr (desc_records (apd p) ! i) = alloc \<and>
     load_s 8 ind m = int (length s) \<and> load_u 8 ind m = int (length s) \<and> load_bytes alloc (length s) m = s"

lemma load_bytes_append: "load_bytes a (j + k) m = load_bytes a j m @ load_bytes (a + int j) k m"
  by (auto simp: load_bytes_def nth_append intro!: nth_equalityI)

lemma le_indicator: "n < 2 ^ 63 \<Longrightarrow> load_s 8 ind (store_int 8 ind (int n) m) = int n \<and>
    load_u 8 ind (store_int 8 ind (int n) m) = int n"
  by (simp add: load_store_s load_store_u in_s_def)

text \<open>One more piece at the end of what has arrived.\<close>

lemma FillParam_more:
  assumes "text_at_exec i L ind p" "received alloc i ind s p m" "length s + length t \<le> L" "L < 2 ^ 63"
    "client_pieces alloc L ind [(a, t)] m" "apart ind 8 alloc (int L)" "length s < L"
  shows "\<exists>m'. PutData alloc a (int (length t)) ds p m = Some (SQL_PARAM_SUCCESS, ds,
      p\<lparr>cur_param_idx := int i + (if length s + length t = L then 1 else 0)\<rparr>, m') \<and>
    received alloc i ind (s @ t) p m' \<and>
    (\<forall>x. apart x 1 alloc (int L) \<and> apart x 1 ind 8 \<longrightarrow> m' x = m x)"
proof -
  note e = assms(1)[unfolded text_at_exec_def] and r = assms(2)[unfolded received_def]
  let ?d = "int (length s)" and ?n = "int (length t)"
  let ?m1 = "store_bytes (alloc + ?d) t m"
  let ?m2 = "store_int 8 ind (?d + ?n) ?m1"
  have tl: "load_bytes a (length t) m = t" using assms(5) by (auto simp: client_pieces_def)
  have pl: "bind_offset m' (apd p) = 0" "GetSQLDescDataPtr m' (apd p) x = sql_desc_data_ptr x"
    "GetSQLDescIndicatorPtr m' (apd p) x k = sql_desc_indicator_ptr x + 8 * k" for m' x k
    using plain_pointers[of "apd p" p] e by blast+
  have room: "wrap_u 64 (int L - ?d) = int L - ?d" "wrap_u 64 ?n = ?n"
    by (rule wrap_u_id, use assms(3,4) in \<open>simp add: in_u_def\<close>)+
  have idx: "wrap_s 16 (int i) = int i" "wrap_u 64 (int i + 1) = int i + 1"
    using e by (simp_all add: in_s_def in_u_def)
  have i1: "load_u 8 ind ?m1 = ?d"
    using r assms(3,6) by (subst load_u_def, subst load_store_disjoint) (auto simp: apart_def load_u_def)
  have "PutData alloc a ?n ds p m = Some (SQL_PARAM_SUCCESS, ds,
      p\<lparr>cur_param_idx := int i + (if length s + length t = L then 1 else 0)\<rparr>, ?m2)"
  proof (cases "length s + length t = L")
    case True
    then have "int L - ?d = ?n" by linarith
    then show ?thesis using True e r assms(7) room idx i1 tl
      by (auto simp: PutData_def GetAPD_def current_desc_def FillParamCharDataBuffer_def pl put_apd_def Let_def
          plain_params_def)
  next
    case False
    then have "\<not> ?n \<ge> int L - ?d" using assms(3) by linarith
    then show ?thesis using False e r room idx i1 tl
      by (auto simp: PutData_def GetAPD_def current_desc_def FillParamCharDataBuffer_def pl put_apd_def Let_def
          plain_params_def)
  qed
  moreover have "received alloc i ind (s @ t) p ?m2"
  proof -
    have "load_bytes alloc (length s) ?m2 = s"
      unfolding store_int_def using r assms(3,6)
      by (subst load_store_disjoint, force simp: apart_def, subst load_store_disjoint) (auto simp: apart_def)
    moreover have "load_bytes (alloc + ?d) (length t) ?m2 = t"
      unfolding store_int_def using assms(3,6)
      by (subst load_store_disjoint, force simp: apart_def, simp add: load_store_bytes)
    ultimately have "load_bytes alloc (length (s @ t)) ?m2 = s @ t" by (simp add: load_bytes_append)
    then show ?thesis
      using le_indicator[of "length (s @ t)" ind ?m1] r assms(3,4) by (simp add: received_def)
  qed
  moreover have "\<forall>x. apart x 1 alloc (int L) \<and> apart x 1 ind 8 \<longrightarrow> ?m2 x = m x"
    using assms(3) by (auto simp: apart_def store_int_def store_bytes_def)
  ultimately show ?thesis by blast
qed


text \<open>The first piece allocates the buffer and goes on as the others.\<close>

definition begin_text :: "addr \<Rightarrow> nat \<Rightarrow> ParameterDescriptor \<Rightarrow> ParameterDescriptor" where
  "begin_text alloc i p =
     p\<lparr>apd := (apd p)\<lparr>desc_records := (desc_records (apd p))[i := (desc_records (apd p) ! i)\<lparr>sql_desc_data_ptr := alloc\<rparr>]\<rparr>,
       pool_allocated_ptr := pool_allocated_ptr p @ [alloc]\<rparr>"

lemma begin_text_at_exec: "text_at_exec i L ind p \<Longrightarrow> text_at_exec i L ind (begin_text alloc i p)"
  by (auto simp: text_at_exec_def begin_text_def plain_params_def)

lemma FillParam_first:
  assumes "text_at_exec i L ind p" "load_s 8 ind m = SQL_DATA_AT_EXEC" "apart a (int n) ind 8"
  shows "PutData alloc a (int n) ds p m = PutData alloc a (int n) ds (begin_text alloc i p) (store_int 8 ind 0 m)"
proof -
  note e = assms(1)[unfolded text_at_exec_def]
  have off: "bind_offset m' (apd p) = 0" for m' using plain_pointers(1) e by blast
  have idx: "wrap_s 16 (int i) = int i" using e by (simp add: in_s_def)
  have z: "load_s 8 ind (store_int 8 ind 0 m) = 0" "load_u 8 ind (store_int 8 ind 0 m) = 0"
    using le_indicator[of 0 ind m] by simp_all
  show ?thesis using e assms(2) z off idx
    by (simp add: PutData_def GetAPD_def current_desc_def FillParamCharDataBuffer_def GetSQLDescDataPtr_def
        GetSQLDescIndicatorPtr_def SetSQLDescDataPtr_def begin_text_def put_apd_def bind_offset_def plain_params_def Let_def)
qed

lemma client_pieces_frame:
  assumes "client_pieces alloc L ind ps m" "\<And>x. apart x 1 alloc (int L) \<and> apart x 1 ind 8 \<Longrightarrow> m' x = m x" "0 < L"
  shows "client_pieces alloc L ind ps m'"
proof -
  have "load_bytes a (length s) m' = load_bytes a (length s) m"
    if "apart a (int (length s)) alloc (int L)" "apart a (int (length s)) ind 8" for a and s :: string
    unfolding load_bytes_def using that assms(2) by (intro map_cong refl) (auto simp: apart_def)
  then show ?thesis using assms(1) by (auto simp: client_pieces_def)
qed

lemma put_pieces_more:
  assumes "text_at_exec i L ind p" "received alloc i ind s p m" "length s + length (concat (map snd ps)) \<le> L"
    "L < 2 ^ 63" "client_pieces alloc L ind ps m" "apart ind 8 alloc (int L)" "length s < L"
  shows "\<exists>m'. put_pieces alloc ds ps p m = Some
      (p\<lparr>cur_param_idx := int i + (if length s + length (concat (map snd ps)) = L then 1 else 0)\<rparr>, m') \<and>
    received alloc i ind (s @ concat (map snd ps)) p m'"
  using assms
proof (induction ps arbitrary: s m)
  case Nil
  then show ?case by (auto simp: text_at_exec_def intro!: arg_cong[where f = Some])
next
  case (Cons b ps)
  obtain a t where b: "b = (a, t)" by (cases b)
  have t: "t \<noteq> []" "client_pieces alloc L ind [(a, t)] m" "client_pieces alloc L ind ps m"
    using Cons.prems(5) b by (auto simp: client_pieces_def)
  obtain m1 where m1: "PutData alloc a (int (length t)) ds p m = Some (SQL_PARAM_SUCCESS, ds,
      p\<lparr>cur_param_idx := int i + (if length s + length t = L then 1 else 0)\<rparr>, m1)"
    "received alloc i ind (s @ t) p m1" "\<And>x. apart x 1 alloc (int L) \<and> apart x 1 ind 8 \<Longrightarrow> m1 x = m x"
    using FillParam_more[OF Cons.prems(1,2) _ Cons.prems(4) t(2) Cons.prems(6,7), of ds] Cons.prems(3) b by auto
  show ?case
  proof (cases "length s + length t = L")
    case True
    then have "length (concat (map snd ps)) = 0" using Cons.prems(3) b by (simp del: length_concat length_0_conv)
    then have c: "concat (map snd ps) = []" by (simp only: length_0_conv)
    then have "ps = []" using t(3) by (cases ps) (auto simp: client_pieces_def)
    then show ?thesis using m1 b True by simp
  next
    case False
    have same: "p\<lparr>cur_param_idx := int i\<rparr> = p" using Cons.prems(1) by (simp add: text_at_exec_def)
    have "\<exists>m'. put_pieces alloc ds ps p m1 = Some
        (p\<lparr>cur_param_idx := int i + (if length (s @ t) + length (concat (map snd ps)) = L then 1 else 0)\<rparr>, m') \<and>
      received alloc i ind ((s @ t) @ concat (map snd ps)) p m'"
      by (rule Cons.IH) (use Cons.prems m1 b False client_pieces_frame[OF t(3) m1(3)] in auto)
    then show ?thesis using m1(1) b False same by (simp add: add.assoc)
  qed
qed

text \<open>
  C7. A text sent in pieces with SQLPutData arrives whole: whatever the pieces are, the value of the
  parameter is their concatenation. The driver goes on to the next parameter only when the pieces fill
  the column size: after a shorter text SQLParamData keeps asking for the same parameter.
\<close>

theorem put_data_roundtrip:
  assumes "text_at_exec i L ind p" "load_s 8 ind m = SQL_DATA_AT_EXEC" "ps \<noteq> []"
    "length (concat (map snd ps)) \<le> L" "L < 2 ^ 63 - 100" "client_pieces alloc L ind ps m" "apart ind 8 alloc (int L)"
    "0 < alloc" "paramset_idx p = 0" "sql_desc_type (desc_records (ipd p) ! i) \<in> char_types"
    "valid (PVarchar (concat (map snd ps)))"
  shows "\<exists>p' m'. put_pieces alloc ds ps p m = Some (p', m') \<and>
    SetValue valid i (apd p') p' m' = Some (SQL_SUCCESS, with_value (PVarchar (concat (map snd ps))) i p', m') \<and>
    cur_param_idx p' = int i + (if length (concat (map snd ps)) = L then 1 else 0)"
proof -
  let ?t = "concat (map snd ps)" and ?p = "begin_text alloc i p" and ?m = "store_int 8 ind 0 m"
  obtain a s ps' where ps: "ps = (a, s) # ps'" using assms(3) by (metis neq_Nil_conv surj_pair)
  have s: "s \<noteq> []" "apart a (int (length s)) ind 8" using assms(6) ps by (auto simp: client_pieces_def)
  then have L: "0 < L" using assms(4) ps by (cases s) auto
  have first: "put_pieces alloc ds ps p m = put_pieces alloc ds ps ?p ?m"
    using FillParam_first[OF assms(1,2) s(2)] ps by simp
  have "client_pieces alloc L ind ps ?m"
    by (rule client_pieces_frame[OF assms(6) _ L]) (auto simp: apart_def store_int_def store_bytes_def)
  moreover have "received alloc i ind [] ?p ?m"
    using le_indicator[of 0 ind m] assms(1) by (simp add: received_def begin_text_def text_at_exec_def load_bytes_def)
  ultimately obtain m' where m': "put_pieces alloc ds ps ?p ?m = Some
      (?p\<lparr>cur_param_idx := int i + (if length ?t = L then 1 else 0)\<rparr>, m')" "received alloc i ind ?t ?p m'"
    using put_pieces_more[OF begin_text_at_exec[OF assms(1), of alloc], where alloc = alloc and s = "[]" and m = ?m and ps = ps and ds = ds] assms(4-7) L by auto
  let ?q = "?p\<lparr>cur_param_idx := int i + (if length ?t = L then 1 else 0)\<rparr>"
  note e = begin_text_at_exec[OF assms(1), of alloc, unfolded text_at_exec_def] and r = m'(2)[unfolded received_def]
  have pd: "ipd ?p = ipd p" by (simp add: begin_text_def)
  have b: "bound_value m' (apd ?q) ?q i 0 = PVarchar ?t" "text_len m' (apd ?q) i 0 = int (length ?t)"
    using e r pd assms(10) by (simp_all add: bound_value_def text_len_def Let_def)
  have tp: "bound_param valid m' (apd ?q) ?q i 0"
    using e r b pd assms(5,8,10,11) by (simp add: bound_param_def)
  have "SetValue valid i (apd ?q) ?q m' = Some (SQL_SUCCESS, with_value (bound_value m' (apd ?q) ?q i 0) i ?q, m')"
  proof (rule SetValue_text[OF _ tp])
    show "plain_params (apd ?q) ?q" using e by (simp add: plain_params_def)
    show "paramset_idx ?q = 0" using assms(9) by (simp add: begin_text_def)
  qed (use e in simp_all)
  then have "SetValue valid i (apd ?q) ?q m' = Some (SQL_SUCCESS, with_value (PVarchar ?t) i ?q, m')"
    by (simp only: b(1))
  then show ?thesis using first m'(1) by simp
qed

text \<open>One VARCHAR parameter of eight characters.\<close>

definition sample_params :: ParameterDescriptor where
  "sample_params = \<lparr>
     apd = sample_desc\<lparr>desc_header := (desc_header sample_desc)\<lparr>sql_desc_count := 1\<rparr>,
       desc_records := [sample_record\<lparr>sql_desc_type := SQL_C_CHAR, sql_desc_data_ptr := 4096,
         sql_desc_octet_length := 8, sql_desc_indicator_ptr := 8192\<rparr>]\<rparr>,
     ipd = sample_desc\<lparr>desc_header := (desc_header sample_desc)\<lparr>sql_desc_count := 1\<rparr>,
       desc_records := [sample_record\<lparr>sql_desc_type := SQL_VARCHAR, sql_desc_length := 8\<rparr>]\<rparr>,
     cur_apd = None, pool_allocated_ptr = [], paramset_idx = 0, cur_paramset_idx = 0, cur_param_idx = 0,
     param_values = []\<rparr>"

lemma sample_desc_pointers [simp]:
  "sql_desc_bind_offset_ptr (desc_header sample_desc) = 0" "sql_desc_array_status_ptr (desc_header sample_desc) = 0"
  "sql_desc_rows_processed_ptr (desc_header sample_desc) = 0"
  by (simp_all add: sample_desc_def mk_OdbcHandleDesc_def mk_DescHeader_def DescHeader_Reset_def)

lemma sample_params_at_exec: "text_at_exec 0 8 8192 sample_params"
  by (simp add: text_at_exec_def sample_params_def plain_params_def)

theorem put_data_roundtrip_witness:
  "\<exists>p' m'. put_pieces 65536 (\<lambda>_. None) [(1000, ''du''), (2000, ''ck'')] sample_params
      (store_int 8 8192 (- 2) (store_bytes 1000 ''du'' (store_bytes 2000 ''ck'' (\<lambda>_. CHR 0x00)))) = Some (p', m') \<and>
    SetValue (\<lambda>_. True) 0 (apd p') p' m' = Some (SQL_SUCCESS, with_value (PVarchar ''duck'') 0 p', m') \<and>
    cur_param_idx p' = 0"
proof -
  let ?m = "store_int 8 8192 (- 2) (store_bytes 1000 ''du'' (store_bytes 2000 ''ck'' (\<lambda>_. CHR 0x00)))"
  have c: "client_pieces 65536 8 8192 [(1000, ''du''), (2000, ''ck'')] ?m"
    by (simp add: client_pieces_def apart_def store_int_def load_store_disjoint load_store_same)
  show ?thesis
    using put_data_roundtrip[OF sample_params_at_exec, of ?m "[(1000, ''du''), (2000, ''ck'')]" 65536 "\<lambda>_. True" "\<lambda>_. None"] c
    by (simp add: load_store_s in_s_def apart_def char_types_def) (simp add: sample_params_def)
qed

section \<open>Where the code departs from ODBC\<close>

text \<open>
  An array of integers is never read past its first element: every set of parameters gets the value
  of set 0.
\<close>

theorem integer_array_reads_first:
  assumes "plain_params cur p" "i < length (desc_records cur)" "i < length (desc_records (ipd p))"
    "i < length (desc_records (apd p))" "sql_desc_type (desc_records (ipd p) ! i) = SQL_INTEGER"
    "sql_desc_type (desc_records cur ! i) \<noteq> SQL_C_ULONG" "0 < sql_desc_data_ptr (desc_records cur ! i)"
    "0 < sql_desc_indicator_ptr (desc_records cur ! i)" "text_len m cur i (paramset_idx p) = 4"
    "0 \<le> sql_desc_length (desc_records (ipd p) ! i)" "sql_desc_length (desc_records (ipd p) ! i) < 2 ^ 63 - 100"
    "valid (PInteger (load_s 4 (sql_desc_data_ptr (desc_records cur ! i)) m))"
  shows "SetValue valid i cur p m =
    Some (SQL_SUCCESS, with_value (PInteger (load_s 4 (sql_desc_data_ptr (desc_records cur ! i)) m)) i p, m)"
proof -
  have l: "0 \<le> load_s 8 (sql_desc_indicator_ptr (desc_records cur ! i) + 8 * paramset_idx p) m"
    using assms(9) by (simp add: text_len_def)
  show ?thesis
    using assms indicator_is_length[OF l assms(10,11)]
    by (simp add: SetValue_def plain_pointers Let_def text_len_def with_value_def parameter_value_def fixed_value_def
        char_types_def wide_types_def binary_types_def)
qed

theorem integer_array_reads_first_witness:
  "SetValue (\<lambda>_. True) 0
     (sample_desc\<lparr>desc_records := [sample_record\<lparr>sql_desc_data_ptr := 4096, sql_desc_indicator_ptr := 8192\<rparr>]\<rparr>)
     (sample_params\<lparr>ipd := sample_desc\<lparr>desc_records := [sample_record\<lparr>sql_desc_type := SQL_INTEGER\<rparr>]\<rparr>, paramset_idx := 1\<rparr>)
     (store_int 4 4096 11 (store_int 4 4100 22 (store_int 8 8200 4 (\<lambda>_. CHR 0x00)))) =
   Some (SQL_SUCCESS, with_value (PInteger 11) 0
     (sample_params\<lparr>ipd := sample_desc\<lparr>desc_records := [sample_record\<lparr>sql_desc_type := SQL_INTEGER\<rparr>]\<rparr>, paramset_idx := 1\<rparr>),
     store_int 4 4096 11 (store_int 4 4100 22 (store_int 8 8200 4 (\<lambda>_. CHR 0x00))))"
proof -
  let ?m = "store_int 4 4096 11 (store_int 4 4100 22 (store_int 8 8200 4 (\<lambda>_. CHR 0x00)))"
  have m: "load_s 4 4096 ?m = 11" "load_s 8 8200 ?m = 4"
    by (simp_all add: load_store_s load_store_int_disjoint in_s_def)
  show ?thesis
    using integer_array_reads_first[of
        "sample_desc\<lparr>desc_records := [sample_record\<lparr>sql_desc_data_ptr := 4096, sql_desc_indicator_ptr := 8192\<rparr>]\<rparr>"
        "sample_params\<lparr>ipd := sample_desc\<lparr>desc_records := [sample_record\<lparr>sql_desc_type := SQL_INTEGER\<rparr>]\<rparr>, paramset_idx := 1\<rparr>"
        0 ?m "\<lambda>_. True"] m
    by (simp add: plain_params_def text_len_def sample_record_def) (simp add: sample_params_def)
qed

text \<open>A parameter with data and no indicator is bound as NULL; ODBC takes it for a value that is not null.\<close>

lemma null_indicator_binds_null:
  assumes "plain_params cur p" "i < length (desc_records cur)" "i < length (desc_records (ipd p))"
    "sql_desc_data_ptr (desc_records cur ! i) \<noteq> nullptr" "sql_desc_indicator_ptr (desc_records cur ! i) = nullptr"
  shows "SetValue valid i cur p m = Some (SQL_SUCCESS, with_value PNull i p, m)"
  using assms by (simp add: SetValue_def plain_pointers Let_def with_value_def)

text \<open>With a bind offset of \<^verbatim>\<open>b\<close> bytes the indicator is read \<^verbatim>\<open>8 * b\<close> bytes further.\<close>

lemma bind_offset_scaled:
  assumes "sql_desc_bind_offset_ptr (desc_header cur) \<noteq> nullptr" "load_s 8 (sql_desc_bind_offset_ptr (desc_header cur)) m = b"
  shows "GetSQLDescDataPtr m cur r = sql_desc_data_ptr r + b"
    "GetSQLDescIndicatorPtr m cur r k = sql_desc_indicator_ptr r + 8 * k + 8 * b"
  using assms by (simp_all add: GetSQLDescDataPtr_def GetSQLDescIndicatorPtr_def bind_offset_def)

text \<open>The fraction of a timestamp, at offset 12 of its struct, is not read.\<close>

lemma timestamp_fraction_dropped:
  "fixed_value SQL_TYPE_TIMESTAMP c p (store_int 4 (p + 12) f m) = fixed_value SQL_TYPE_TIMESTAMP c p m"
  by (simp add: fixed_value_def load_store_int_disjoint)

end
