(* ===== verification/Handle_Functions.thy ===== *)
theory Handle_Functions
  imports Odbc_Handles
begin

text \<open>
  \<^verbatim>\<open>src/odbc_driver/common/handle_functions.cpp\<close>: the conversions a handler begins with, on the object
  behind the handle. \<^verbatim>\<open>conn\<close> says whether the connection of the statement is open. A conversion
  cleans the diagnostic area of its handle before the function does its work.
\<close>

definition ConvertHSTMT :: "bool \<Rightarrow> 'v OdbcHandleStmt \<Rightarrow> int \<times> 'v OdbcHandleStmt" where
  "ConvertHSTMT conn h =
     (if \<not> conn then stmt_diag h SQL_ERROR ''dbc'' ''No database connection found'' ST_08003 []
      else (SQL_SUCCESS, h\<lparr>st_diag := Clean (st_diag h)\<rparr>))"

definition ConvertHSTMTPrepared :: "bool \<Rightarrow> string \<Rightarrow> 'v OdbcHandleStmt \<Rightarrow> int \<times> 'v OdbcHandleStmt" where
  "ConvertHSTMTPrepared conn dsn h =
     (case ConvertHSTMT conn h of (ret, h) \<Rightarrow>
      if ret \<noteq> SQL_SUCCESS then (ret, h)
      else
        (case st_stmt h of
           None \<Rightarrow> stmt_diag h SQL_ERROR ''stmt'' ''No statement found'' ST_HY000 []
         | Some stmt \<Rightarrow>
             (case ps_error stmt of
                Some msg \<Rightarrow> stmt_diag h SQL_ERROR ''stmt'' msg ST_HY000 dsn
              | None \<Rightarrow> (SQL_SUCCESS, h))))"

text \<open>
  The message of a failed result is asked of the statement, which has an empty message when it is
  not the one that failed.
\<close>

definition ConvertHSTMTResult :: "bool \<Rightarrow> string \<Rightarrow> 'v OdbcHandleStmt \<Rightarrow> (int \<times> 'v OdbcHandleStmt) option" where
  "ConvertHSTMTResult conn dsn h =
     (case ConvertHSTMT conn h of (ret, h) \<Rightarrow>
      if ret \<noteq> SQL_SUCCESS then Some (ret, h)
      else
        (case st_res h of
           None \<Rightarrow> Some (stmt_diag h SQL_ERROR ''stmt'' ''No result set found'' ST_HY000 dsn)
         | Some res \<Rightarrow>
             if res_error res \<noteq> None then
               (case st_stmt h of
                  None \<Rightarrow> None
                | Some stmt \<Rightarrow>
                    Some (stmt_diag h SQL_ERROR ''stmt''
                      (case ps_error stmt of None \<Rightarrow> [] | Some msg \<Rightarrow> msg) ST_HY000 dsn))
             else Some (SQL_SUCCESS, h)))"

lemma ConvertHSTMT_frame [simp]:
  "odbc_fetcher (snd (ConvertHSTMT conn h)) = odbc_fetcher h"
  "st_res (snd (ConvertHSTMT conn h)) = st_res h"
  "st_stmt (snd (ConvertHSTMT conn h)) = st_stmt h"
  "st_open (snd (ConvertHSTMT conn h)) = st_open h"
  "row_desc (snd (ConvertHSTMT conn h)) = row_desc h"
  "param_desc (snd (ConvertHSTMT conn h)) = param_desc h"
  "bound_cols (snd (ConvertHSTMT conn h)) = bound_cols h"
  by (simp_all add: ConvertHSTMT_def)

lemma ConvertHSTMT_open [simp]:
  "ConvertHSTMT True h = (SQL_SUCCESS, h\<lparr>st_diag := Clean (st_diag h)\<rparr>)"
  by (simp add: ConvertHSTMT_def)

lemma ConvertHSTMT_closed [simp]:
  "fst (ConvertHSTMT False h) = SQL_ERROR"
  by (simp add: ConvertHSTMT_def)

lemma ConvertHSTMTPrepared_success_iff:
  "fst (ConvertHSTMTPrepared conn dsn h) = SQL_SUCCESS \<longleftrightarrow>
     conn \<and> (\<exists>stmt. st_stmt h = Some stmt \<and> ps_error stmt = None)"
  by (cases conn) (auto simp: ConvertHSTMTPrepared_def ConvertHSTMT_def split: option.split prod.split
      dest: arg_cong[of _ _ fst])

lemma ConvertHSTMTPrepared_success:
  "st_stmt h = Some stmt \<Longrightarrow> ps_error stmt = None \<Longrightarrow>
   ConvertHSTMTPrepared True dsn h = (SQL_SUCCESS, h\<lparr>st_diag := Clean (st_diag h)\<rparr>)"
  by (simp add: ConvertHSTMTPrepared_def)

lemma ConvertHSTMTResult_success:
  "st_res h = Some res \<Longrightarrow> res_error res = None \<Longrightarrow>
   ConvertHSTMTResult True dsn h = Some (SQL_SUCCESS, h\<lparr>st_diag := Clean (st_diag h)\<rparr>)"
  by (simp add: ConvertHSTMTResult_def)

end
