(* ===== verification/Statement_Execution.thy ===== *)
theory Statement_Execution
  imports Parameter_Sets Handle_Functions Cursor_Refinement
begin

text \<open>
  Preparing and executing statements: the first and the last part of
  \<^verbatim>\<open>src/odbc_driver/statement/statement_functions.cpp\<close> and the handlers of \<^verbatim>\<open>statement_api.cpp\<close>,
  \<^verbatim>\<open>result_api.cpp\<close>, \<^verbatim>\<open>parameter_api.cpp\<close>, \<^verbatim>\<open>binding_api.cpp\<close> and \<^verbatim>\<open>cursor_api.cpp\<close> under
  \<^verbatim>\<open>src/odbc_api\<close>.

  The engine is a parameter: \<^verbatim>\<open>sql_prepare\<close> is \<^verbatim>\<open>Connection::Prepare\<close> on a text, \<^verbatim>\<open>sql_extract\<close>
  \<^verbatim>\<open>ExtractStatements\<close> (Inl is its exception), \<^verbatim>\<open>sql_prepare_statement\<close> \<^verbatim>\<open>Prepare\<close> on one of the extracted
  statements and \<^verbatim>\<open>sql_execute\<close> \<^verbatim>\<open>PreparedStatement::Execute\<close>, which may replace the data of the
  statement and changes the database; None is an exception it throws. \<^verbatim>\<open>sql_valid\<close> says for which
  values the constructor of the engine does not throw.
\<close>

record ('v, 'q, 'db) sql_engine =
  sql_prepare :: "string \<Rightarrow> 'db \<Rightarrow> PreparedStatement"
  sql_extract :: "string \<Rightarrow> 'db \<Rightarrow> string + 'q list"
  sql_prepare_statement :: "'q \<Rightarrow> 'db \<Rightarrow> PreparedStatement"
  sql_execute :: "PreparedStatement \<Rightarrow> ParamValue list \<Rightarrow> 'db \<Rightarrow> ('v QueryResult \<times> PreparedStatement \<times> 'db) option"
  sql_interrupt :: "'db \<Rightarrow> 'db"
  sql_valid :: "ParamValue \<Rightarrow> bool"
  sql_physical_name :: "LogicalType \<Rightarrow> string"
  sql_catalog :: string
  sql_junk :: "nat \<Rightarrow> DescRecord"

section \<open>Preparing\<close>

definition PrepareQuery :: "'v OdbcHandleStmt \<Rightarrow> 'v OdbcHandleStmt" where
  "PrepareQuery h = h\<lparr>st_stmt := None, st_res := None, odbc_fetcher := ClearChunks (odbc_fetcher h)\<rparr>"

text \<open>\<^verbatim>\<open>bound_cols.resize\<close>.\<close>

definition resize_bound :: "nat \<Rightarrow> OdbcBoundCol list \<Rightarrow> OdbcBoundCol list" where
  "resize_bound n bs = take n bs @ replicate (n - length bs) mk_OdbcBoundCol"

definition fill_ird :: "('v, 'q, 'db) sql_engine \<Rightarrow> 'v OdbcHandleStmt \<Rightarrow> 'v OdbcHandleStmt option" where
  "fill_ird sql h = FillIRD (sql_physical_name sql) (sql_catalog sql) (sql_junk sql) h"

definition FinalizeStmt ::
  "('v, 'q, 'db) sql_engine \<Rightarrow> string \<Rightarrow> desc_store \<Rightarrow> 'v OdbcHandleStmt \<Rightarrow> (int \<times> desc_store \<times> 'v OdbcHandleStmt) option" where
  "FinalizeStmt sql dsn ds h = do {
     stmt \<leftarrow> st_stmt h;
     (case ps_error stmt of
        Some msg \<Rightarrow> (case stmt_diag h SQL_ERROR ''PrepareStmt'' msg ST_42000 dsn of (ret, h) \<Rightarrow> Some (ret, ds, h))
      | None \<Rightarrow>
        let (ret, h) =
              (if \<not> bound_all_parameters stmt then
                 stmt_diag (h\<lparr>st_stmt := Some (stmt\<lparr>ps_types := [], ps_names := []\<rparr>)\<rparr>) SQL_SUCCESS_WITH_INFO
                   ''PrepareStmt'' ''Not all parameters are bound'' ST_01000 dsn
               else (SQL_SUCCESS, h))
        in do {
          (ds, p) \<leftarrow> ResetParams (sql_junk sql) (wrap_s 16 (int (named_param_count stmt))) ds (param_desc h);
          stmt \<leftarrow> st_stmt h;
          h \<leftarrow> fill_ird sql (h\<lparr>param_desc := p, bound_cols := resize_bound (ColumnCount stmt) (bound_cols h)\<rparr>);
          Some (ret, ds, h) }) }"

section \<open>Executing\<close>

type_synonym ('v, 'db) exec_result = "(int \<times> 'v OdbcHandleStmt \<times> mem \<times> 'db) option"

definition SingleExecuteStmt ::
  "('v, 'q, 'db) sql_engine \<Rightarrow> string \<Rightarrow> desc_store \<Rightarrow> 'v OdbcHandleStmt \<Rightarrow> mem \<Rightarrow> 'db \<Rightarrow> ('v, 'db) exec_result" where
  "SingleExecuteStmt sql dsn ds h m db =
     (let h = h\<lparr>st_res := None, odbc_fetcher := ClearChunks (odbc_fetcher h), st_open := False\<rparr>;
          m = store_opt 8 (rows_fetched_ptr h) 0 m
      in do {
        (ret, values, h, m) \<leftarrow> GetParamValues (sql_valid sql) dsn ds h m;
        if ret = SQL_NEED_DATA \<or> ret = SQL_ERROR then Some (ret, h, m, db)
        else do {
          stmt \<leftarrow> st_stmt h;
          (res, stmt, db) \<leftarrow> sql_execute sql stmt values db;
          (let h = h\<lparr>st_res := Some res, st_stmt := Some stmt\<rparr> in
           case res_error res of
             Some msg \<Rightarrow> (case stmt_diag h SQL_ERROR ''SingleExecuteStmt'' msg ST_HY000 dsn of
                            (ret, h) \<Rightarrow> Some (ret, h, m, db))
           | None \<Rightarrow> Some (if ret = SQL_STILL_EXECUTING then SQL_STILL_EXECUTING else SQL_SUCCESS,
                         h\<lparr>st_open := True\<rparr>, m, db)) } })"

text \<open>
  The do-while loop of \<^verbatim>\<open>BatchExecuteStmt\<close>: the outer None is a loop that does not end, the inner one an
  execution that is not survived.
\<close>

partial_function (option) batch_loop ::
  "('v, 'q, 'db) sql_engine \<Rightarrow> string \<Rightarrow> desc_store \<Rightarrow> 'v OdbcHandleStmt \<Rightarrow> mem \<Rightarrow> 'db \<Rightarrow> ('v, 'db) exec_result option" where
  "batch_loop sql dsn ds h m db =
     (case SingleExecuteStmt sql dsn ds h m db of
        None \<Rightarrow> Some None
      | Some (ret, h, m, db) \<Rightarrow>
          if ret = SQL_STILL_EXECUTING then batch_loop sql dsn ds h m db else Some (Some (ret, h, m, db)))"

text \<open>After the loop: the first chunk is fetched and columns only known now are filled in.\<close>

definition after_batch ::
  "('v, 'q, 'db) sql_engine \<Rightarrow> string \<Rightarrow> int \<Rightarrow> 'v OdbcHandleStmt \<Rightarrow> (int \<times> 'v OdbcHandleStmt) option" where
  "after_batch sql dsn ret h =
     (if \<not> SQL_SUCCEEDED ret then Some (ret, h)
      else do {
        (fetch_ret, h) \<leftarrow> FetchFirst dsn h;
        if fetch_ret = SQL_ERROR then Some (fetch_ret, h)
        else do {
          stmt \<leftarrow> st_stmt h;
          if \<not> bound_all_parameters stmt then do {
            res \<leftarrow> st_res h;
            (let stmt = stmt\<lparr>ps_types := res_types res, ps_names := res_names res\<rparr> in do {
               h \<leftarrow> fill_ird sql (h\<lparr>st_stmt := Some stmt, bound_cols := resize_bound (ColumnCount stmt) (bound_cols h)\<rparr>);
               Some (ret, h) }) }
          else Some (ret, h) } })"

definition BatchExecuteStmt ::
  "('v, 'q, 'db) sql_engine \<Rightarrow> string \<Rightarrow> desc_store \<Rightarrow> 'v OdbcHandleStmt \<Rightarrow> mem \<Rightarrow> 'db \<Rightarrow> ('v, 'db) exec_result option" where
  "BatchExecuteStmt sql dsn ds h m db =
     map_option (\<lambda>r. case r of
         None \<Rightarrow> None
       | Some (ret, h, m, db) \<Rightarrow> map_option (\<lambda>(ret, h). (ret, h, m, db)) (after_batch sql dsn ret h))
       (batch_loop sql dsn ds h m db)"

definition FetchStmtResult ::
  "'v engine \<Rightarrow> string \<Rightarrow> int \<Rightarrow> int \<Rightarrow> 'v OdbcHandleStmt \<Rightarrow> mem \<Rightarrow> 'v result" where
  "FetchStmtResult eng dsn fetch_orientation fetch_offset h m =
     (if \<not> st_open h then Some (SQL_NO_DATA, h, m)
      else Fetch eng dsn fetch_orientation fetch_offset h m)"

text \<open>
  \<^verbatim>\<open>ExecDirectStmt\<close>: the loop over the extracted statements; \<^verbatim>\<open>info\<close> is \<^verbatim>\<open>success_with_info\<close>.
\<close>

fun exec_statements ::
  "('v, 'q, 'db) sql_engine \<Rightarrow> string \<Rightarrow> bool \<Rightarrow> int \<Rightarrow> 'q list \<Rightarrow> desc_store \<Rightarrow> 'v OdbcHandleStmt \<Rightarrow> mem \<Rightarrow> 'db
   \<Rightarrow> (int \<times> desc_store \<times> 'v OdbcHandleStmt \<times> mem \<times> 'db) option option" where
  "exec_statements sql dsn info ret [] ds h m db =
     Some (Some (if info then SQL_SUCCESS_WITH_INFO else ret, ds, h, m, db))" |
  "exec_statements sql dsn info ret (q # qs) ds h m db =
     (case FinalizeStmt sql dsn ds (h\<lparr>st_stmt := Some (sql_prepare_statement sql q db)\<rparr>) of
        None \<Rightarrow> Some None
      | Some (ret, ds, h) \<Rightarrow>
        if \<not> SQL_SUCCEEDED ret then Some (Some (ret, ds, h, m, db))
        else
          let info = info \<or> ret = SQL_SUCCESS_WITH_INFO in
          (case BatchExecuteStmt sql dsn ds h m db of
             None \<Rightarrow> None
           | Some None \<Rightarrow> Some None
           | Some (Some (ret, h, m, db)) \<Rightarrow>
               if \<not> SQL_SUCCEEDED ret then Some (Some (ret, ds, h, m, db))
               else exec_statements sql dsn (info \<or> ret = SQL_SUCCESS_WITH_INFO) ret qs ds h m db))"

definition ExecDirectStmt ::
  "('v, 'q, 'db) sql_engine \<Rightarrow> string \<Rightarrow> string \<Rightarrow> desc_store \<Rightarrow> 'v OdbcHandleStmt \<Rightarrow> mem \<Rightarrow> 'db
   \<Rightarrow> (int \<times> desc_store \<times> 'v OdbcHandleStmt \<times> mem \<times> 'db) option option" where
  "ExecDirectStmt sql dsn query ds h m db =
     (let h = PrepareQuery h in
      case sql_extract sql query db of
        Inl msg \<Rightarrow> (case stmt_diag h SQL_ERROR ''SQLExecDirect'' msg ST_42000 dsn of
                      (ret, h) \<Rightarrow> Some (Some (ret, ds, h, m, db)))
      | Inr statements \<Rightarrow> exec_statements sql dsn False SQL_SUCCESS statements ds h m db)"

section \<open>Binding\<close>

text \<open>The record of an application descriptor a parameter is bound to.\<close>

definition bind_record :: "nat \<Rightarrow> (DescRecord \<Rightarrow> DescRecord) \<Rightarrow> OdbcHandleDesc \<Rightarrow> OdbcHandleDesc" where
  "bind_record i f d = d\<lparr>desc_records := (desc_records d)[i := f (desc_records d ! i)]\<rparr>"

text \<open>
  The implicit descriptors are written, whichever application descriptor is current. Both of
  \<^verbatim>\<open>SetSqlDataType\<close> are evaluated from left to right, the second one only when the first succeeds.
\<close>

definition BindParameterStmt ::
  "(nat \<Rightarrow> DescRecord) \<Rightarrow> string \<Rightarrow> int \<Rightarrow> int \<Rightarrow> int \<Rightarrow> int \<Rightarrow> int \<Rightarrow> int \<Rightarrow> addr \<Rightarrow> int \<Rightarrow> addr \<Rightarrow> 'v OdbcHandleStmt
   \<Rightarrow> int \<times> 'v OdbcHandleStmt" where
  "BindParameterStmt junk dsn parameter_number input_output_type value_type parameter_type column_size decimal_digits
     parameter_value_ptr buffer_length str_len_or_ind_ptr h =
     (if input_output_type \<noteq> SQL_PARAM_INPUT then
        stmt_diag h SQL_ERROR ''SQLBindParameter'' ''Only SQL_PARAM_INPUT is supported.'' ST_HYC00 dsn
      else if parameter_number < 1 then
        stmt_diag h SQL_ERROR ''SQLBindParameter'' ''Invalid descriptor index.'' ST_07009 dsn
      else
        let i = nat (parameter_number - 1);
            p = param_desc h;
            ipd' = GetDescRecord junk i (ipd p);
            apd' = GetDescRecord junk i (apd p);
            (iret, ir) = SetSqlDataType parameter_type ((desc_records ipd' ! i)\<lparr>
               sql_desc_parameter_type := input_output_type, sql_desc_length := column_size,
               sql_desc_precision := wrap_s 16 column_size, sql_desc_scale := decimal_digits\<rparr>);
            ipd' = bind_record i (\<lambda>_. ir) ipd';
            (aret, ar) = (if iret = SQL_ERROR then (SQL_SUCCESS, desc_records apd' ! i)
                          else SetSqlDataType value_type (desc_records apd' ! i));
            apd' = bind_record i (\<lambda>_. ar) apd'
        in
        if iret = SQL_ERROR \<or> aret = SQL_ERROR then
          stmt_diag (h\<lparr>param_desc := p\<lparr>ipd := ipd', apd := apd'\<rparr>\<rparr>) SQL_ERROR ''SQLBindParameter''
            ''Invalid data type.'' ST_HY004 dsn
        else
          (SQL_SUCCESS, h\<lparr>param_desc := p\<lparr>ipd := ipd', apd := bind_record i (\<lambda>r. r\<lparr>
             sql_desc_data_ptr := parameter_value_ptr, sql_desc_octet_length := buffer_length,
             sql_desc_indicator_ptr := str_len_or_ind_ptr, sql_desc_octet_length_ptr := str_len_or_ind_ptr\<rparr>) apd'\<rparr>\<rparr>))"

text \<open>\<^verbatim>\<open>Close\<close>; the parameters start over.\<close>

definition CloseStmt :: "desc_store \<Rightarrow> 'v OdbcHandleStmt \<Rightarrow> (int \<times> desc_store \<times> 'v OdbcHandleStmt) option" where
  "CloseStmt ds h =
     (let h = h\<lparr>st_open := False, st_res := None, odbc_fetcher := ClearChunks (odbc_fetcher h)\<rparr> in
      map_option (\<lambda>(ds, p). (SQL_SUCCESS, ds, h\<lparr>param_desc := p\<rparr>)) (ParameterDescriptor_Reset ds (param_desc h)))"

end
