(* ===== verification/Statement_Api.thy ===== *)
theory Statement_Api
  imports Statement_Execution
begin

text \<open>
  The handlers of \<^verbatim>\<open>src/odbc_api/statement_api.cpp\<close>, \<^verbatim>\<open>result_api.cpp\<close>, \<^verbatim>\<open>parameter_api.cpp\<close>,
  \<^verbatim>\<open>binding_api.cpp\<close>, \<^verbatim>\<open>cursor_api.cpp\<close> and the options of SQLFreeStmt in \<^verbatim>\<open>handle_api.cpp\<close> on the statement behind a
  handle. \<^verbatim>\<open>conn\<close> says whether its connection is open, \<^verbatim>\<open>dsn\<close> is the name of its data source, \<^verbatim>\<open>ds\<close> holds
  the explicit descriptors. None stands for an uncaught exception or an undefined access; where a
  statement is executed the outer None is an execution that does not return.
\<close>

section \<open>Arguments in wide characters\<close>

text \<open>
  The converted argument is a vector at the address \<^verbatim>\<open>vec\<close>; the narrow function gets its address and
  its length.
\<close>

definition conv_argument :: "addr \<Rightarrow> int \<Rightarrow> mem \<Rightarrow> utf16_conv option" where
  "conv_argument a n m =
     (if a = nullptr then Some (mk_utf16_conv None n)
      else if n = SQL_NTS then map_option (\<lambda>s. mk_utf16_conv (Some (s @ [0])) n) (wide_str a m)
      else Some (mk_utf16_conv (Some (load_units a (wrap_u 64 n) m)) n))"

definition conv_store :: "addr \<Rightarrow> utf16_conv \<Rightarrow> mem \<Rightarrow> addr \<times> mem" where
  "conv_store vec c m =
     (case conv_utf8_str c of None \<Rightarrow> (nullptr, m) | Some v \<Rightarrow> (vec, store_bytes vec (chars_of v) m))"

section \<open>statement\_api.cpp\<close>

type_synonym ('v, 'db) api_result = "(int \<times> desc_store \<times> 'v OdbcHandleStmt \<times> mem \<times> 'db) option"

definition SQLPrepare ::
  "('v, 'q, 'db) sql_engine \<Rightarrow> bool \<Rightarrow> string \<Rightarrow> addr \<Rightarrow> int \<Rightarrow> desc_store \<Rightarrow> 'v OdbcHandleStmt \<Rightarrow> mem \<Rightarrow> 'db
   \<Rightarrow> ('v, 'db) api_result" where
  "SQLPrepare sql conn dsn statement_text text_length ds h m db =
     (case ConvertHSTMT conn h of (ret, h) \<Rightarrow>
      if ret \<noteq> SQL_SUCCESS then Some (ret, ds, h, m, db)
      else do {
        query \<leftarrow> ConvertSQLCHARToString statement_text text_length m;
        (ret, ds, h) \<leftarrow> FinalizeStmt sql dsn ds ((PrepareQuery h)\<lparr>st_stmt := Some (sql_prepare sql query db)\<rparr>);
        Some (ret, ds, h, m, db) })"

definition SQLPrepareW ::
  "('v, 'q, 'db) sql_engine \<Rightarrow> bool \<Rightarrow> string \<Rightarrow> addr \<Rightarrow> addr \<Rightarrow> int \<Rightarrow> desc_store \<Rightarrow> 'v OdbcHandleStmt \<Rightarrow> mem \<Rightarrow> 'db
   \<Rightarrow> ('v, 'db) api_result" where
  "SQLPrepareW sql conn dsn vec statement_text text_length ds h m db = do {
     c \<leftarrow> conv_argument statement_text text_length m;
     (case conv_store vec c m of (a, m) \<Rightarrow> SQLPrepare sql conn dsn a (utf8_len_int c) ds h m db) }"

definition SQLExecute ::
  "('v, 'q, 'db) sql_engine \<Rightarrow> bool \<Rightarrow> string \<Rightarrow> desc_store \<Rightarrow> 'v OdbcHandleStmt \<Rightarrow> mem \<Rightarrow> 'db
   \<Rightarrow> ('v, 'db) exec_result option" where
  "SQLExecute sql conn dsn ds h m db =
     (case ConvertHSTMT conn h of (ret, h) \<Rightarrow>
      if ret \<noteq> SQL_SUCCESS then Some (Some (ret, h, m, db)) else BatchExecuteStmt sql dsn ds h m db)"

definition SQLExecDirect ::
  "('v, 'q, 'db) sql_engine \<Rightarrow> bool \<Rightarrow> string \<Rightarrow> addr \<Rightarrow> int \<Rightarrow> desc_store \<Rightarrow> 'v OdbcHandleStmt \<Rightarrow> mem \<Rightarrow> 'db
   \<Rightarrow> ('v, 'db) api_result option" where
  "SQLExecDirect sql conn dsn statement_text text_length ds h m db =
     (case ConvertHSTMT conn h of (ret, h) \<Rightarrow>
      if ret \<noteq> SQL_SUCCESS then Some (Some (ret, ds, h, m, db))
      else case ConvertSQLCHARToString statement_text text_length m of
             None \<Rightarrow> Some None
           | Some query \<Rightarrow> ExecDirectStmt sql dsn query ds h m db)"

definition SQLExecDirectW ::
  "('v, 'q, 'db) sql_engine \<Rightarrow> bool \<Rightarrow> string \<Rightarrow> addr \<Rightarrow> addr \<Rightarrow> int \<Rightarrow> desc_store \<Rightarrow> 'v OdbcHandleStmt \<Rightarrow> mem \<Rightarrow> 'db
   \<Rightarrow> ('v, 'db) api_result option" where
  "SQLExecDirectW sql conn dsn vec statement_text text_length ds h m db =
     (case conv_argument statement_text text_length m of
        None \<Rightarrow> Some None
      | Some c \<Rightarrow> (case conv_store vec c m of (a, m) \<Rightarrow> SQLExecDirect sql conn dsn a (utf8_len_int c) ds h m db))"

definition SQLCancel ::
  "('v, 'q, 'db) sql_engine \<Rightarrow> bool \<Rightarrow> 'v OdbcHandleStmt \<Rightarrow> 'db \<Rightarrow> int \<times> 'v OdbcHandleStmt \<times> 'db" where
  "SQLCancel sql conn h db =
     (case ConvertHSTMT conn h of (ret, h) \<Rightarrow>
      if ret \<noteq> SQL_SUCCESS then (ret, h, db) else (SQL_SUCCESS, h, sql_interrupt sql db))"

section \<open>result\_api.cpp\<close>

definition has_result :: "'v OdbcHandleStmt \<Rightarrow> bool" where
  "has_result h \<longleftrightarrow> (case st_res h of None \<Rightarrow> False | Some res \<Rightarrow> res_error res = None)"

definition ExecuteBeforeFetch ::
  "('v, 'q, 'db) sql_engine \<Rightarrow> bool \<Rightarrow> string \<Rightarrow> desc_store \<Rightarrow> 'v OdbcHandleStmt \<Rightarrow> mem \<Rightarrow> 'db \<Rightarrow> ('v, 'db) exec_result" where
  "ExecuteBeforeFetch sql conn dsn ds h m db =
     (case ConvertHSTMTPrepared conn dsn h of (ret, h) \<Rightarrow>
      if ret \<noteq> SQL_SUCCESS then Some (ret, h, m, db)
      else if has_result h then Some (SQL_SUCCESS, h, m, db)
      else do {
        todo \<leftarrow> HasParamSetToProcess ds (param_desc h);
        if todo then do {
          (rc, h, m, db) \<leftarrow> SingleExecuteStmt sql dsn ds h m db;
          Some (if rc = SQL_SUCCESS \<or> rc = SQL_STILL_EXECUTING then SQL_SUCCESS else rc, h, m, db) }
        else Some (SQL_SUCCESS, h, m, db) })"

definition SQLFetch ::
  "'v engine \<Rightarrow> ('v, 'q, 'db) sql_engine \<Rightarrow> bool \<Rightarrow> string \<Rightarrow> desc_store \<Rightarrow> 'v OdbcHandleStmt \<Rightarrow> mem \<Rightarrow> 'db
   \<Rightarrow> ('v, 'db) exec_result" where
  "SQLFetch eng sql conn dsn ds h m db =
     (case ConvertHSTMTPrepared conn dsn h of (ret, h) \<Rightarrow>
      if ret \<noteq> SQL_SUCCESS then Some (ret, h, m, db)
      else case DummyFetch h m of (ret, m) \<Rightarrow>
        if ret \<noteq> SQL_NEED_DATA then Some (ret, h, m, db)
        else do {
          (ret, h, m, db) \<leftarrow> ExecuteBeforeFetch sql conn dsn ds h m db;
          if ret \<noteq> SQL_SUCCESS then Some (ret, h, m, db)
          else do {
            (ret, h, m) \<leftarrow> FetchStmtResult eng dsn SQL_FETCH_NEXT 0 h m;
            Some (ret, h, m, db) } })"

definition SQLFetchScroll ::
  "'v engine \<Rightarrow> bool \<Rightarrow> string \<Rightarrow> int \<Rightarrow> int \<Rightarrow> 'v OdbcHandleStmt \<Rightarrow> mem \<Rightarrow> 'v result" where
  "SQLFetchScroll eng conn dsn fetch_orientation fetch_offset h m =
     (if fetch_orientation \<in> {SQL_FETCH_FIRST, SQL_FETCH_ABSOLUTE, SQL_FETCH_PRIOR, SQL_FETCH_NEXT} then do {
        (ret, h) \<leftarrow> ConvertHSTMTResult conn dsn h;
        if ret \<noteq> SQL_SUCCESS then Some (ret, h, m)
        else FetchStmtResult eng dsn fetch_orientation (fetch_offset - 1) h m }
      else Some (SQL_ERROR, h, m))"

definition SQLGetData ::
  "'v engine \<Rightarrow> bool \<Rightarrow> string \<Rightarrow> nat \<Rightarrow> int \<Rightarrow> addr \<Rightarrow> int \<Rightarrow> addr \<Rightarrow> 'v OdbcHandleStmt \<Rightarrow> mem \<Rightarrow> 'v result" where
  "SQLGetData eng conn dsn col_or_param_num target_type target_value_ptr buffer_length str_len_or_ind_ptr h m = do {
     (ret, h) \<leftarrow> ConvertHSTMTResult conn dsn h;
     if ret \<noteq> SQL_SUCCESS then Some (ret, h, m)
     else GetDataStmtResult eng dsn col_or_param_num target_type target_value_ptr buffer_length str_len_or_ind_ptr h m }"

definition SQLMoreResults ::
  "('v, 'q, 'db) sql_engine \<Rightarrow> bool \<Rightarrow> string \<Rightarrow> desc_store \<Rightarrow> 'v OdbcHandleStmt \<Rightarrow> mem \<Rightarrow> 'db \<Rightarrow> ('v, 'db) exec_result" where
  "SQLMoreResults sql conn dsn ds h m db =
     (case ConvertHSTMT conn h of (ret, h) \<Rightarrow>
      if ret \<noteq> SQL_SUCCESS then Some (ret, h, m, db)
      else do {
        todo \<leftarrow> HasParamSetToProcess ds (param_desc h);
        if \<not> todo then Some (SQL_NO_DATA, h, m, db) else SingleExecuteStmt sql dsn ds h m db })"

definition SQLRowCount ::
  "bool \<Rightarrow> string \<Rightarrow> addr \<Rightarrow> 'v OdbcHandleStmt \<Rightarrow> mem \<Rightarrow> 'v result" where
  "SQLRowCount conn dsn row_count_ptr h m = do {
     (ret, h) \<leftarrow> ConvertHSTMTResult conn dsn h;
     if ret \<noteq> SQL_SUCCESS then Some (ret, h, m)
     else if row_count_ptr = nullptr then Some (SQL_ERROR, h, m)
     else do {
       n \<leftarrow> GetRowCount (odbc_fetcher h);
       stmt \<leftarrow> st_stmt h;
       Some (SQL_SUCCESS, h, store_int 8 row_count_ptr
         (if ps_statement_type stmt \<in> {INSERT_STATEMENT, UPDATE_STATEMENT, DELETE_STATEMENT} then n else - 1) m) } }"

section \<open>parameter\_api.cpp\<close>

definition SQLDescribeParam ::
  "bool \<Rightarrow> string \<Rightarrow> int \<Rightarrow> addr \<Rightarrow> addr \<Rightarrow> addr \<Rightarrow> addr \<Rightarrow> 'v OdbcHandleStmt \<Rightarrow> mem \<Rightarrow> 'v result" where
  "SQLDescribeParam conn dsn parameter_number data_type_ptr parameter_size_ptr decimal_digits_ptr nullable_ptr h m =
     (case ConvertHSTMTPrepared conn dsn h of (ret, h) \<Rightarrow>
      if ret \<noteq> SQL_SUCCESS then Some (ret, h, m)
      else do {
        stmt \<leftarrow> st_stmt h;
        if parameter_number \<le> 0 \<or> parameter_number > int (named_param_count stmt) then Some (SQL_ERROR, h, m)
        else
          let type_id = ps_param_type stmt (nat parameter_number);
              answer = (\<lambda>odbc_type odbc_size.
                let m = store_opt 2 data_type_ptr odbc_type m;
                    m = store_opt 8 parameter_size_ptr odbc_size m
                in Some (SQL_SUCCESS, h, store_opt 2 nullable_ptr SQL_NULLABLE_UNKNOWN m))
          in
          if type_id = LogicalTypeId_VARCHAR then answer SQL_VARCHAR SQL_NO_TOTAL
          else if type_id = LogicalTypeId_FLOAT then answer SQL_FLOAT 4
          else if type_id = LogicalTypeId_DOUBLE then answer SQL_DOUBLE 8
          else if type_id = LogicalTypeId_SMALLINT then answer SQL_SMALLINT 2
          else if type_id = LogicalTypeId_INTEGER then answer SQL_INTEGER 4
          else Some (SQL_ERROR, h, m) })"

definition SQLNumParams :: "bool \<Rightarrow> string \<Rightarrow> addr \<Rightarrow> 'v OdbcHandleStmt \<Rightarrow> mem \<Rightarrow> 'v result" where
  "SQLNumParams conn dsn parameter_count_ptr h m =
     (case ConvertHSTMTPrepared conn dsn h of (ret, h) \<Rightarrow>
      if ret \<noteq> SQL_SUCCESS then Some (ret, h, m)
      else if parameter_count_ptr = nullptr then Some (SQL_ERROR, h, m)
      else do {
        stmt \<leftarrow> st_stmt h;
        Some (SQL_SUCCESS, h, store_int 2 parameter_count_ptr (wrap_s 16 (int (named_param_count stmt))) m) })"

text \<open>No data becomes success, so that the client cannot tell the last parameter from the others.\<close>

definition SQLParamData ::
  "bool \<Rightarrow> string \<Rightarrow> desc_store \<Rightarrow> addr \<Rightarrow> 'v OdbcHandleStmt \<Rightarrow> mem \<Rightarrow> 'v result" where
  "SQLParamData conn dsn ds value_ptr_ptr h m =
     (case ConvertHSTMTPrepared conn dsn h of (ret, h) \<Rightarrow>
      if ret \<noteq> SQL_SUCCESS then Some (ret, h, m)
      else do {
        (ret, m) \<leftarrow> GetNextParam ds value_ptr_ptr (param_desc h) m;
        Some (if ret \<noteq> SQL_NO_DATA then ret else SQL_SUCCESS, h, m) })"

text \<open>Every outcome is reported as success.\<close>

definition SQLPutData ::
  "bool \<Rightarrow> string \<Rightarrow> addr \<Rightarrow> addr \<Rightarrow> int \<Rightarrow> desc_store \<Rightarrow> 'v OdbcHandleStmt \<Rightarrow> mem
   \<Rightarrow> (int \<times> desc_store \<times> 'v OdbcHandleStmt \<times> mem) option" where
  "SQLPutData conn dsn alloc data_ptr str_len_or_ind_ptr ds h m =
     (case ConvertHSTMTPrepared conn dsn h of (ret, h) \<Rightarrow>
      if ret \<noteq> SQL_SUCCESS then Some (ret, ds, h, m)
      else do {
        (ret, ds, p, m) \<leftarrow> PutData alloc data_ptr str_len_or_ind_ptr ds (param_desc h) m;
        Some (SQL_SUCCESS, ds, h\<lparr>param_desc := p\<rparr>, m) })"

section \<open>binding\_api.cpp, cursor\_api.cpp and SQLFreeStmt\<close>

text \<open>Column 0 writes before the vector (the assertion is not compiled into a release).\<close>

definition SQLBindCol ::
  "bool \<Rightarrow> int \<Rightarrow> int \<Rightarrow> addr \<Rightarrow> int \<Rightarrow> addr \<Rightarrow> 'v OdbcHandleStmt \<Rightarrow> (int \<times> 'v OdbcHandleStmt) option" where
  "SQLBindCol conn column_number target_type target_value_ptr buffer_length str_len_or_ind_ptr h =
     (case ConvertHSTMT conn h of (ret, h) \<Rightarrow>
      if ret \<noteq> SQL_SUCCESS then Some (ret, h)
      else if column_number < 1 then None
      else
        let bs = (if column_number > int (length (bound_cols h))
                  then resize_bound (nat column_number) (bound_cols h) else bound_cols h)
        in Some (SQL_SUCCESS, h\<lparr>bound_cols := bs[nat (column_number - 1) :=
             \<lparr>bc_type = target_type, bc_ptr = target_value_ptr, bc_len = buffer_length,
              bc_strlen_or_ind = str_len_or_ind_ptr\<rparr>]\<rparr>))"

definition SQLBindParameter ::
  "(nat \<Rightarrow> DescRecord) \<Rightarrow> bool \<Rightarrow> string \<Rightarrow> int \<Rightarrow> int \<Rightarrow> int \<Rightarrow> int \<Rightarrow> int \<Rightarrow> int \<Rightarrow> addr \<Rightarrow> int \<Rightarrow> addr \<Rightarrow> 'v OdbcHandleStmt
   \<Rightarrow> int \<times> 'v OdbcHandleStmt" where
  "SQLBindParameter junk conn dsn parameter_number input_output_type value_type parameter_type column_size decimal_digits
     parameter_value_ptr buffer_length str_len_or_ind_ptr h =
     (case ConvertHSTMT conn h of (ret, h) \<Rightarrow>
      if ret \<noteq> SQL_SUCCESS then (ret, h)
      else BindParameterStmt junk dsn parameter_number input_output_type value_type parameter_type column_size
        decimal_digits parameter_value_ptr buffer_length str_len_or_ind_ptr h)"

definition SQLCloseCursor ::
  "bool \<Rightarrow> desc_store \<Rightarrow> 'v OdbcHandleStmt \<Rightarrow> (int \<times> desc_store \<times> 'v OdbcHandleStmt) option" where
  "SQLCloseCursor conn ds h =
     (case ConvertHSTMT conn h of (ret, h) \<Rightarrow>
      if ret \<noteq> SQL_SUCCESS then Some (ret, ds, h) else CloseStmt ds h)"

text \<open>SQLFreeStmt with the options that keep the handle; SQL\_DROP frees it (\<^verbatim>\<open>SQLFreeStmt\<close> in Handle\_World).\<close>

definition FreeStmt_option ::
  "bool \<Rightarrow> int \<Rightarrow> desc_store \<Rightarrow> 'v OdbcHandleStmt \<Rightarrow> (int \<times> desc_store \<times> 'v OdbcHandleStmt) option" where
  "FreeStmt_option conn option ds h =
     (case ConvertHSTMT conn h of (ret, h) \<Rightarrow>
      if ret \<noteq> SQL_SUCCESS then Some (ret, ds, h)
      else if option = SQL_UNBIND then Some (SQL_SUCCESS, ds, h\<lparr>bound_cols := []\<rparr>)
      else if option = SQL_RESET_PARAMS then
        map_option (\<lambda>(ds, p). (SQL_SUCCESS, ds, h\<lparr>param_desc := p\<rparr>)) (ParameterDescriptor_Clear ds (param_desc h))
      else if option = SQL_CLOSE then CloseStmt ds h
      else Some (SQL_ERROR, ds, h))"

end
