(* ===== verification/Catalog_Api.thy ===== *)
theory Catalog_Api
  imports Statement_Api
begin

text \<open>
  \<^verbatim>\<open>src/odbc_api/metadata_api.cpp\<close> and the catalog queries of \<^verbatim>\<open>src/odbc_driver/common/odbc_utils.cpp\<close>:
  SQLTables and SQLColumns put the names and patterns of the client into the text of a query and
  execute it on the statement. SQLGetTypeInfo of \<^verbatim>\<open>src/odbc_api/info_api.cpp\<close> does so with the table of types.
\<close>

section \<open>Texts of queries\<close>

text \<open>A text that writes a backquote for every quote.\<close>

definition sq :: "string \<Rightarrow> string" where
  "sq s = map (\<lambda>c. if c = CHR 0x60 then CHR 0x27 else c) s"

text \<open>
  \<^verbatim>\<open>std::regex_replace\<close> with an expression that \<^verbatim>\<open>mt\<close> matches at the start of a string, giving what is
  behind the match. No expression of the code matches the empty string.
\<close>

function regex_replace :: "(string \<Rightarrow> string option) \<Rightarrow> string \<Rightarrow> string \<Rightarrow> string" where
  "regex_replace mt rep [] = []" |
  "regex_replace mt rep (c # cs) =
     (case mt (c # cs) of
        Some rest \<Rightarrow> if length rest \<le> length cs then rep @ regex_replace mt rep rest else c # cs
      | None \<Rightarrow> c # regex_replace mt rep cs)"
  by pat_completeness auto
termination by (relation "measure (\<lambda>(_, _, s). length s)") auto

text \<open>
  The expressions of the code: a word in quotes or the word alone, as in \<^verbatim>\<open>('VIEW'|VIEW)\<close>, and \<^verbatim>\<open>,\\s*,\<close>.
\<close>

fun match_words :: "string list \<Rightarrow> string \<Rightarrow> string option" where
  "match_words [] s = None" |
  "match_words (p # ps) s = (case skip p s of Some r \<Rightarrow> Some r | None \<Rightarrow> match_words ps s)"

definition match_type :: "string \<Rightarrow> string \<Rightarrow> string option" where
  "match_type w = match_words [CHR 0x27 # w @ [CHR 0x27], w]"

definition match_commas :: "string \<Rightarrow> string option" where
  "match_commas s = Option.bind (skip '','' s) (\<lambda>r. skip '','' (dropWhile IsSpace r))"

section \<open>SQLTables\<close>

definition duckdb_tables_select :: string where
  \<open>duckdb_tables_select = sq ''
		SELECT
			table_catalog::VARCHAR "TABLE_CAT",
			table_schema::VARCHAR "TABLE_SCHEM",
			table_name::VARCHAR "TABLE_NAME",
			CASE
				WHEN table_type=`BASE TABLE`
				THEN `TABLE`::VARCHAR
				ELSE table_type::VARCHAR
			END "TABLE_TYPE",
			``::VARCHAR "REMARKS"
			FROM information_schema.tables
	''\<close>

definition GetQueryDuckdbTables :: "string \<Rightarrow> string \<Rightarrow> string \<Rightarrow> string \<Rightarrow> string" where
  "GetQueryDuckdbTables catalog_filter schema_filter table_filter table_type_filter =
     duckdb_tables_select @ '' WHERE '' @ catalog_filter @ CHR 0x0A # '' AND '' @ schema_filter @
     CHR 0x0A # '' AND '' @ table_filter @
     (if table_type_filter \<noteq> [] \<and> table_type_filter \<noteq> sq ''`%`''
      then CHR 0x0A # '' AND table_type IN ('' @ table_type_filter @ '') '' else []) @
     CHR 0x0A # sq '' AND table_catalog NOT LIKE `__ducklake_%` '' @
     CHR 0x0A # '' ORDER BY TABLE_TYPE, TABLE_CATALOG, TABLE_SCHEMA, TABLE_NAME''"

text \<open>The three special cases of SQLTables.\<close>

definition all_catalogs_query :: string where
  \<open>all_catalogs_query = sq ''
SELECT DISTINCT
	CAST(catalog_name AS VARCHAR) AS "TABLE_CAT",
	CAST(NULL         AS VARCHAR) AS "TABLE_SCHEM",
	CAST(NULL         AS VARCHAR) AS "TABLE_NAME",
	CAST(NULL         AS VARCHAR) AS "TABLE_TYPE",
	CAST(NULL         AS VARCHAR) AS "REMARKS"
FROM information_schema.schemata
WHERE catalog_name NOT IN (
	`system`,
	`temp`)
AND catalog_name NOT LIKE `__ducklake_%`
ORDER BY "TABLE_CAT"
''\<close>

definition all_schemas_query :: string where
  \<open>all_schemas_query = sq ''
SELECT
	CAST(NULL        AS VARCHAR) AS "TABLE_CAT",
	CAST(schema_name AS VARCHAR) AS "TABLE_SCHEM",
	CAST(NULL        AS VARCHAR) AS "TABLE_NAME",
	CAST(NULL        AS VARCHAR) AS "TABLE_TYPE",
	CAST(NULL        AS VARCHAR) AS "REMARKS"
FROM information_schema.schemata
WHERE catalog_name NOT IN (
	`system`,
	`temp`)
AND catalog_name NOT LIKE `__ducklake_%`
ORDER BY "TABLE_SCHEM"
''\<close>

definition all_table_types_query :: string where
  \<open>all_table_types_query = sq ''
SELECT
	CAST(NULL AS VARCHAR) AS "TABLE_CAT",
	CAST(NULL AS VARCHAR) AS "TABLE_SCHEM",
	CAST(NULL AS VARCHAR) AS "TABLE_NAME",
	UNNEST([
		CAST(`TABLE` AS VARCHAR),
		CAST(`VIEW`  AS VARCHAR)
	]) AS "TABLE_TYPE",
	CAST(NULL AS VARCHAR) AS "REMARKS"
''\<close>

definition table_types :: "string \<Rightarrow> string" where
  "table_types table_tp =
     (let table_tp = regex_replace (match_type ''SYSTEM TABLE'') [] table_tp;
          table_tp = regex_replace match_commas '','' table_tp;
          table_tp = regex_replace (match_type ''TABLE'') (sq ''`BASE TABLE`'') table_tp;
          table_tp = regex_replace (match_type ''VIEW'') (sq ''`VIEW`'') table_tp
      in regex_replace (match_type ''%'') (sq ''`%`'') table_tp)"

text \<open>
  The text of the query, or the exception of the filters, which are built in the special cases too;
  \<^verbatim>\<open>metadata_id\<close> is the attribute of the connection.
\<close>

definition tables_query :: "int \<Rightarrow> string \<Rightarrow> string \<Rightarrow> string \<Rightarrow> string \<Rightarrow> std_exception + string" where
  "tables_query metadata_id catalog_n schema_n table_n table_tp =
     bind_sum (ParseStringFilter ''\"TABLE_CAT\"'' catalog_n metadata_id []) (\<lambda>catalog_filter.
     bind_sum (ParseStringFilter ''\"TABLE_SCHEM\"'' schema_n metadata_id []) (\<lambda>schema_filter.
     bind_sum (ParseStringFilter ''\"TABLE_NAME\"'' table_n metadata_id []) (\<lambda>table_filter.
       Inr (if catalog_n = ''%'' \<and> schema_n = [] \<and> table_n = [] \<and> table_tp = [] then all_catalogs_query
            else if schema_n = ''%'' \<and> catalog_n = [] \<and> table_n = [] \<and> table_tp = [] then all_schemas_query
            else if table_tp = ''%'' \<and> catalog_n = [] \<and> schema_n = [] \<and> table_n = [] then all_table_types_query
            else GetQueryDuckdbTables catalog_filter schema_filter table_filter (table_types table_tp)))))"

text \<open>An argument of a catalog function: a pointer and the length of the string.\<close>

type_synonym name_arg = "addr \<times> int"

definition arg_string :: "name_arg \<Rightarrow> mem \<Rightarrow> string option" where
  "arg_string a m = ConvertSQLCHARToString (fst a) (snd a) m"

text \<open>
  The four conversions of a wide entry point, each into a vector of its own; \<^verbatim>\<open>utf8_len_smallint\<close> is
  the length that is passed on.
\<close>

fun conv_names :: "(addr \<times> name_arg) list \<Rightarrow> mem \<Rightarrow> (name_arg list \<times> mem) option" where
  "conv_names [] m = Some ([], m)" |
  "conv_names ((vec, a) # as) m = do {
     c \<leftarrow> conv_argument (fst a) (snd a) m;
     (case conv_store vec c m of (p, m) \<Rightarrow> do {
        (rest, m) \<leftarrow> conv_names as m;
        Some ((p, utf8_len_smallint c) # rest, m) }) }"

definition TablesInternal ::
  "('v, 'q, 'db) sql_engine \<Rightarrow> int \<Rightarrow> bool \<Rightarrow> string \<Rightarrow> name_arg \<Rightarrow> name_arg \<Rightarrow> name_arg \<Rightarrow> name_arg
   \<Rightarrow> desc_store \<Rightarrow> 'v OdbcHandleStmt \<Rightarrow> mem \<Rightarrow> 'db \<Rightarrow> ('v, 'db) api_result option" where
  "TablesInternal sql metadata_id conn dsn catalog_name schema_name table_name table_type ds h m db =
     (case ConvertHSTMT conn h of (ret, h) \<Rightarrow>
      if \<not> SQL_SUCCEEDED ret then Some (Some (ret, ds, h, m, db))
      else (case do {
          catalog_n \<leftarrow> arg_string catalog_name m;
          schema_n \<leftarrow> arg_string schema_name m;
          table_n \<leftarrow> arg_string table_name m;
          table_tp \<leftarrow> arg_string table_type m;
          Some (tables_query metadata_id catalog_n schema_n table_n table_tp) } of
        Some (Inr query) \<Rightarrow> ExecDirectStmt sql dsn query ds h m db
      | _ \<Rightarrow> Some None))"

definition SQLTables ::
  "('v, 'q, 'db) sql_engine \<Rightarrow> int \<Rightarrow> bool \<Rightarrow> string \<Rightarrow> name_arg \<Rightarrow> name_arg \<Rightarrow> name_arg \<Rightarrow> name_arg
   \<Rightarrow> desc_store \<Rightarrow> 'v OdbcHandleStmt \<Rightarrow> mem \<Rightarrow> 'db \<Rightarrow> ('v, 'db) api_result option" where
  "SQLTables = TablesInternal"

definition SQLTablesW ::
  "('v, 'q, 'db) sql_engine \<Rightarrow> int \<Rightarrow> bool \<Rightarrow> string \<Rightarrow> addr list \<Rightarrow> name_arg \<Rightarrow> name_arg \<Rightarrow> name_arg \<Rightarrow> name_arg
   \<Rightarrow> desc_store \<Rightarrow> 'v OdbcHandleStmt \<Rightarrow> mem \<Rightarrow> 'db \<Rightarrow> ('v, 'db) api_result option" where
  "SQLTablesW sql metadata_id conn dsn vecs catalog_name schema_name table_name table_type ds h m db =
     (case conv_names (zip vecs [catalog_name, schema_name, table_name, table_type]) m of
        Some ([c, s, t, tp], m) \<Rightarrow> TablesInternal sql metadata_id conn dsn c s t tp ds h m db
      | _ \<Rightarrow> Some None)"

section \<open>SQLColumns\<close>

definition duckdb_columns_select :: string where
  \<open>duckdb_columns_select = sq ''
        SELECT * EXCLUDE (mapping, data_type_no_typmod)
        FROM (
            SELECT NULL::VARCHAR AS "TABLE_CAT",
            SCHEMA_NAME AS "TABLE_SCHEM",
            TABLE_NAME AS "TABLE_NAME",
            COLUMN_NAME AS "COLUMN_NAME",
            MAP {
                `BOOLEAN`: 1, -- SQL_CHAR
                `TINYINT`: -6, -- SQL_TINYINT
                `UTINYINT`: -6, -- SQL_TINYINT
                `SMALLINT`: 5, -- SQL_SMALLINT
                `USMALLINT`: 5, -- SQL_SMALLINT
                `INTEGER`: 4, -- SQL_INTEGER
                `UINTEGER`: 4, -- SQL_INTEGER
                `BIGINT`: -5, -- SQL_BIGINT
                `UBIGINT`: -5, -- SQL_BIGINT
                `HUGEINT`: 2, -- SQL_NUMERIC
                `UHUGEINT`: 2, -- SQL_NUMERIC
                `FLOAT`: 6, -- SQL_FLOAT
                `DOUBLE`: 8, -- SQL_DOUBLE
                `DATE`: 91, -- SQL_TYPE_DATE
                `TIME`: 92, -- SQL_TYPE_TIME
                `VARCHAR`: 12, -- SQL_VARCHAR
                `BLOB`: -3, -- SQL_VARBINARY
                `INTERVAL`: 10, -- SQL_INTERVAL
                `DECIMAL`: 2, -- SQL_NUMERIC
                `BIT`: -7, -- SQL_BIT
                `LIST`: 12 -- SQL_VARCHAR
            } AS mapping,
            STRING_SPLIT(data_type, `(`)[1] AS data_type_no_typmod,
            CASE
                -- value 93 is SQL_TIMESTAMP
                -- TODO: investigate why map key with spaces and regexes don`t work
                WHEN data_type LIKE `TIMESTAMP%` THEN 93::SMALLINT
                WHEN mapping[data_type_no_typmod] IS NOT NULL THEN mapping[data_type_no_typmod]::SMALLINT
                ELSE data_type_id::SMALLINT
            END AS "DATA_TYPE",
            CASE
                WHEN data_type_no_typmod = `DECIMAL` THEN `NUMERIC`
                WHEN data_type LIKE `TIMESTAMP%` THEN `TIMESTAMP`
                ELSE data_type_no_typmod
            END AS "TYPE_NAME",
            CASE
                WHEN data_type=`DATE` THEN 12
                WHEN data_type=`TIME` THEN 15
                WHEN data_type LIKE `TIMESTAMP%` THEN 26
                WHEN data_type=`CHAR`
                    OR data_type=`BOOLEAN` THEN 1
                WHEN data_type=`VARCHAR`
                    OR data_type=`BLOB` THEN character_maximum_length
                WHEN data_type LIKE `%INT%` THEN numeric_precision
                WHEN data_type like `DECIMAL%` THEN numeric_precision
                WHEN data_type=`FLOAT`
                    OR data_type=`DOUBLE` THEN numeric_precision
                ELSE NULL
            END AS "COLUMN_SIZE",
            CASE
                WHEN data_type=`DATE` THEN 4
                WHEN data_type LIKE `TIMESTAMP%` THEN 8
                WHEN data_type LIKE `TIME%` THEN 8 
                WHEN data_type=`CHAR`
                    OR data_type=`BOOLEAN` THEN 1
                WHEN data_type=`VARCHAR`
                    OR data_type=`BLOB` THEN 16
                WHEN data_type LIKE `%TINYINT` THEN 1
                WHEN data_type LIKE `%SMALLINT` THEN 2
                WHEN data_type LIKE `%INTEGER` THEN 4
                WHEN data_type LIKE `%BIGINT` THEN 8
                WHEN data_type=`HUGEINT` THEN 16
                WHEN data_type like `DECIMAL%` THEN 16
                WHEN data_type=`FLOAT` THEN 4
                WHEN data_type=`DOUBLE` THEN 8
                ELSE NULL
            END AS "BUFFER_LENGTH",
            numeric_scale::SMALLINT AS "DECIMAL_DIGITS",
            numeric_precision_radix::SMALLINT "NUM_PREC_RADIX",
            CASE is_nullable
                WHEN FALSE THEN 0::SMALLINT
                WHEN TRUE THEN 1::SMALLINT
                ELSE 2::SMALLINT
            END AS "NULLABLE",
            `` AS "REMARKS",
            column_default AS "COLUMN_DEF",
            CASE
                WHEN data_type LIKE `TIMESTAMP%` THEN 93::SMALLINT
                WHEN mapping[data_type_no_typmod] IS NOT NULL THEN mapping[data_type_no_typmod]::SMALLINT
                ELSE data_type_id::SMALLINT
            END AS "SQL_DATA_TYPE",
            CASE
                WHEN data_type=`DATE` then 1::SMALLINT
                WHEN data_type LIKE `TIMESTAMP%` THEN 3::SMALLINT
                WHEN data_type LIKE `TIME%` THEN 2::SMALLINT
                ELSE NULL::SMALLINT
            END AS "SQL_DATETIME_SUB",
            CASE
                WHEN data_type=`%CHAR`
                     OR data_type=`BLOB` THEN character_maximum_length
                ELSE NULL
            END AS "CHAR_OCTET_LENGTH",
            column_index AS "ORDINAL_POSITION",
            CASE is_nullable
                WHEN FALSE THEN `NO`
                WHEN TRUE THEN `YES`
                ELSE ``
            END AS "IS_NULLABLE"
            FROM duckdb_columns
        )
	''\<close>

definition duckdb_columns_order :: string where
  \<open>duckdb_columns_order = sq ''
		ORDER BY
			"TABLE_CAT",
			"TABLE_SCHEM",
			"TABLE_NAME",
			"ORDINAL_POSITION"
	''\<close>

definition GetQueryDuckdbColumns :: "string \<Rightarrow> string \<Rightarrow> string \<Rightarrow> string \<Rightarrow> string" where
  "GetQueryDuckdbColumns catalog_filter schema_filter table_filter column_filter =
     duckdb_columns_select @ '' WHERE '' @
     (if catalog_filter \<noteq> [] then catalog_filter @ '' AND '' else []) @
     (if schema_filter \<noteq> [] then schema_filter @ '' AND '' else []) @
     (if table_filter \<noteq> [] then table_filter @ '' AND '' else []) @ column_filter @ duckdb_columns_order"

definition catalog_filter_of :: "int \<Rightarrow> string \<Rightarrow> std_exception + string" where
  "catalog_filter_of metadata_id catalog_n =
     (if catalog_n = [] then Inr ''\"TABLE_CAT\" IS NULL''
      else if metadata_id = SQL_TRUE then
        bind_sum (GetStringAsIdentifier catalog_n) (\<lambda>i. Inr (''\"TABLE_CAT\"='' @ i))
      else Inr [])"

definition DEFAULT_SCHEMA :: string where "DEFAULT_SCHEMA = ''main''"

definition columns_query :: "int \<Rightarrow> string \<Rightarrow> string \<Rightarrow> string \<Rightarrow> string \<Rightarrow> std_exception + string" where
  "columns_query metadata_id catalog_n schema_n table_n column_n =
     bind_sum (catalog_filter_of metadata_id catalog_n) (\<lambda>catalog_filter.
     bind_sum (ParseStringFilter ''\"TABLE_SCHEM\"'' schema_n metadata_id DEFAULT_SCHEMA) (\<lambda>schema_filter.
     bind_sum (ParseStringFilter ''\"TABLE_NAME\"'' table_n metadata_id []) (\<lambda>table_filter.
     bind_sum (ParseStringFilter ''\"COLUMN_NAME\"'' column_n metadata_id []) (\<lambda>column_filter.
       Inr (GetQueryDuckdbColumns catalog_filter schema_filter table_filter column_filter)))))"

definition ColumnsInternal ::
  "('v, 'q, 'db) sql_engine \<Rightarrow> int \<Rightarrow> bool \<Rightarrow> string \<Rightarrow> name_arg \<Rightarrow> name_arg \<Rightarrow> name_arg \<Rightarrow> name_arg
   \<Rightarrow> desc_store \<Rightarrow> 'v OdbcHandleStmt \<Rightarrow> mem \<Rightarrow> 'db \<Rightarrow> ('v, 'db) api_result option" where
  "ColumnsInternal sql metadata_id conn dsn catalog_name schema_name table_name column_name ds h m db =
     (case ConvertHSTMT conn h of (ret, h) \<Rightarrow>
      if ret \<noteq> SQL_SUCCESS then Some (Some (ret, ds, h, m, db))
      else (case do {
          catalog_n \<leftarrow> arg_string catalog_name m;
          schema_n \<leftarrow> arg_string schema_name m;
          table_n \<leftarrow> arg_string table_name m;
          column_n \<leftarrow> arg_string column_name m;
          Some (columns_query metadata_id catalog_n schema_n table_n column_n) } of
        Some (Inr query) \<Rightarrow>
          map_option (map_option (\<lambda>(ret, r). (if \<not> SQL_SUCCEEDED ret then ret else SQL_SUCCESS, r)))
            (ExecDirectStmt sql dsn query ds h m db)
      | _ \<Rightarrow> Some None))"

definition SQLColumns ::
  "('v, 'q, 'db) sql_engine \<Rightarrow> int \<Rightarrow> bool \<Rightarrow> string \<Rightarrow> name_arg \<Rightarrow> name_arg \<Rightarrow> name_arg \<Rightarrow> name_arg
   \<Rightarrow> desc_store \<Rightarrow> 'v OdbcHandleStmt \<Rightarrow> mem \<Rightarrow> 'db \<Rightarrow> ('v, 'db) api_result option" where
  "SQLColumns = ColumnsInternal"

definition SQLColumnsW ::
  "('v, 'q, 'db) sql_engine \<Rightarrow> int \<Rightarrow> bool \<Rightarrow> string \<Rightarrow> addr list \<Rightarrow> name_arg \<Rightarrow> name_arg \<Rightarrow> name_arg \<Rightarrow> name_arg
   \<Rightarrow> desc_store \<Rightarrow> 'v OdbcHandleStmt \<Rightarrow> mem \<Rightarrow> 'db \<Rightarrow> ('v, 'db) api_result option" where
  "SQLColumnsW sql metadata_id conn dsn vecs catalog_name schema_name table_name column_name ds h m db =
     (case conv_names (zip vecs [catalog_name, schema_name, table_name, column_name]) m of
        Some ([c, s, t, cn], m) \<Rightarrow> ColumnsInternal sql metadata_id conn dsn c s t cn ds h m db
      | _ \<Rightarrow> Some None)"

section \<open>SQLGetTypeInfo\<close>

definition type_info_columns :: string where
  \<open>type_info_columns = sq ''
	) AS odbc_types (
		"TYPE_NAME",
		"DATA_TYPE",
		"COLUMN_SIZE",
		"LITERAL_PREFIX",
		"LITERAL_SUFFIX",
		"CREATE_PARAMS",
		"NULLABLE",
		"CASE_SENSITIVE",
		"SEARCHABLE",
		"UNSIGNED_ATTRIBUTE",
		"FIXED_PREC_SCALE",
		"AUTO_UNIQUE_VALUE",
		"LOCAL_TYPE_NAME",
		"MINIMUM_SCALE",
		"MAXIMUM_SCALE",
		"SQL_DATA_TYPE",
		"SQL_DATETIME_SUB",
		"NUM_PREC_RADIX",
		"INTERVAL_PRECISION"
	)''\<close>

definition type_info_query :: "int \<Rightarrow> string" where
  "type_info_query data_type =
     WriteInfoTypesToQueryString
       (if data_type = SQL_ALL_TYPES then GetVectorTypesAddr else FindDataType data_type [])
       ''SELECT * FROM (VALUES '' @ type_info_columns"

definition SQLGetTypeInfo ::
  "('v, 'q, 'db) sql_engine \<Rightarrow> int \<Rightarrow> bool \<Rightarrow> string \<Rightarrow> desc_store \<Rightarrow> 'v OdbcHandleStmt \<Rightarrow> mem \<Rightarrow> 'db
   \<Rightarrow> ('v, 'db) api_result option" where
  "SQLGetTypeInfo sql data_type conn dsn ds h m db =
     (case ConvertHSTMT conn h of (ret, h) \<Rightarrow>
      if ret \<noteq> SQL_SUCCESS then Some (Some (ret, ds, h, m, db))
      else ExecDirectStmt sql dsn (type_info_query data_type) ds h m db)"

section \<open>The types of tables\<close>

lemma skip_simps:
  "skip [] s = Some s"
  "skip (p # ps) [] = None"
  "skip (p # ps) (c # cs) = (if p = c then skip ps cs else None)"
  by (auto simp: skip_def)

text \<open>What a client asks for: a type of tables, in quotes or not. The engine has no system tables.\<close>

datatype table_kind = Tables | Views | System_Tables

fun kind_word :: "table_kind \<Rightarrow> string" where
  "kind_word Tables = ''TABLE''" |
  "kind_word Views = ''VIEW''" |
  "kind_word System_Tables = ''SYSTEM TABLE''"

fun client_text :: "bool \<times> table_kind \<Rightarrow> string" where
  "client_text (quoted, k) = (if quoted then CHR 0x27 # kind_word k @ [CHR 0x27] else kind_word k)"

fun engine_text :: "bool \<times> table_kind \<Rightarrow> string" where
  "engine_text (_, Tables) = sq ''`BASE TABLE`''" |
  "engine_text (_, Views) = sq ''`VIEW`''" |
  "engine_text (_, System_Tables) = []"

fun commas :: "string list \<Rightarrow> string" where
  "commas [] = []" |
  "commas [x] = x" |
  "commas (x # y # xs) = x @ CHR '','' # commas (y # xs)"

lemma commas_Cons: "commas (x # xs) = x @ (if xs = [] then [] else CHR '','' # commas xs)"
  by (cases xs) auto

definition at_comma :: "string \<Rightarrow> bool" where
  "at_comma r \<longleftrightarrow> r = [] \<or> (\<exists>r'. r = CHR '','' # r')"

lemma at_comma_simps [simp]: "at_comma []" "at_comma (CHR '','' # r)"
  by (simp_all add: at_comma_def)

text \<open>A list is rewritten entry by entry when no match reaches over a comma.\<close>

lemma regex_replace_commas:
  assumes "\<And>t r. t \<in> set ts \<Longrightarrow> at_comma r \<Longrightarrow> regex_replace mt rep (g t @ r) = f t @ regex_replace mt rep r"
    and "\<And>t r. t \<in> set ts \<Longrightarrow> mt (CHR '','' # g t @ r) = None"
    and "at_comma r"
  shows "regex_replace mt rep (commas (map g ts) @ r) = commas (map f ts) @ regex_replace mt rep r"
  using assms
proof (induction ts)
  case Nil
  then show ?case by simp
next
  case (Cons t ts)
  then show ?case by (cases ts) (auto simp: commas_Cons split: if_splits)
qed

lemmas evaluate_replace = skip_simps match_type_def sq_def match_commas_def IsSpace_def at_comma_def

lemma commas_pass:
  assumes "snd t \<noteq> System_Tables"
  shows "regex_replace match_commas '','' (client_text t @ r) =
      client_text t @ regex_replace match_commas '','' r"
    "match_commas (CHR '','' # client_text t @ r) = None"
  using assms by (cases t; cases "snd t"; simp add: evaluate_replace)+

lemma system_pass:
  assumes "at_comma r"
  shows "regex_replace (match_type ''SYSTEM TABLE'') [] (client_text t @ r) =
      (if snd t = System_Tables then [] else client_text t) @
      regex_replace (match_type ''SYSTEM TABLE'') [] r"
  using assms by (cases t; cases "snd t"; auto simp add: evaluate_replace)

definition base_text :: "bool \<times> table_kind \<Rightarrow> string" where
  "base_text t = (if snd t = Tables then engine_text t else client_text t)"

lemma table_pass:
  assumes "at_comma r" "snd t \<noteq> System_Tables"
  shows "regex_replace (match_type ''TABLE'') (sq ''`BASE TABLE`'') (client_text t @ r) =
      base_text t @ regex_replace (match_type ''TABLE'') (sq ''`BASE TABLE`'') r"
  using assms by (cases t; cases "snd t"; auto simp add: base_text_def evaluate_replace)

lemma view_pass:
  assumes "at_comma r" "snd t \<noteq> System_Tables"
  shows "regex_replace (match_type ''VIEW'') (sq ''`VIEW`'') (base_text t @ r) =
      engine_text t @ regex_replace (match_type ''VIEW'') (sq ''`VIEW`'') r"
  using assms by (cases t; cases "snd t"; auto simp add: base_text_def evaluate_replace)

lemma percent_pass:
  assumes "at_comma r" "snd t \<noteq> System_Tables"
  shows "regex_replace (match_type ''%'') (sq ''`%`'') (engine_text t @ r) =
      engine_text t @ regex_replace (match_type ''%'') (sq ''`%`'') r"
  using assms by (cases t; cases "snd t"; auto simp add: evaluate_replace)

text \<open>The passes over a list without system tables.\<close>

lemma commas_passed:
  "\<forall>t \<in> set ts. snd t \<noteq> System_Tables \<Longrightarrow> regex_replace match_commas '','' (commas (map client_text ts) @ r) =
      commas (map client_text ts) @ regex_replace match_commas '','' r"
proof (induction ts)
  case Nil
  then show ?case by simp
next
  case (Cons t ts)
  note t = commas_pass(1)[of t]
  show ?case
  proof (cases ts)
    case Nil
    then show ?thesis using Cons.prems t by simp
  next
    case ts: (Cons t' ts')
    have "match_commas (CHR '','' # commas (map client_text ts) @ r) = None"
      unfolding ts list.map commas_Cons append_assoc by (rule commas_pass(2)) (use Cons.prems ts in simp)
    then show ?thesis using Cons.prems Cons.IH t ts by (simp add: commas_Cons)
  qed
qed

lemma words_no_comma [simp]:
  "(match_type ''SYSTEM TABLE'') (CHR '','' # s) = None"
  "(match_type ''TABLE'') (CHR '','' # s) = None"
  "(match_type ''VIEW'') (CHR '','' # s) = None"
  "(match_type ''%'') (CHR '','' # s) = None"
  by (simp_all add: match_type_def skip_simps)

lemma table_passed:
  "\<forall>t \<in> set ts. snd t \<noteq> System_Tables \<Longrightarrow> at_comma r \<Longrightarrow>
   regex_replace (match_type ''TABLE'') (sq ''`BASE TABLE`'') (commas (map client_text ts) @ r) =
   commas (map base_text ts) @ regex_replace (match_type ''TABLE'') (sq ''`BASE TABLE`'') r"
  by (rule regex_replace_commas) (simp_all add: table_pass)

lemma view_passed:
  "\<forall>t \<in> set ts. snd t \<noteq> System_Tables \<Longrightarrow> at_comma r \<Longrightarrow>
   regex_replace (match_type ''VIEW'') (sq ''`VIEW`'') (commas (map base_text ts) @ r) =
   commas (map engine_text ts) @ regex_replace (match_type ''VIEW'') (sq ''`VIEW`'') r"
  by (rule regex_replace_commas) (simp_all add: view_pass)

lemma percent_passed:
  "\<forall>t \<in> set ts. snd t \<noteq> System_Tables \<Longrightarrow> at_comma r \<Longrightarrow>
   regex_replace (match_type ''%'') (sq ''`%`'') (commas (map engine_text ts) @ r) =
   commas (map engine_text ts) @ regex_replace (match_type ''%'') (sq ''`%`'') r"
  by (rule regex_replace_commas) (simp_all add: percent_pass)

lemma system_passed:
  assumes "\<forall>t \<in> set ts. snd t \<noteq> System_Tables" "at_comma r"
  shows "regex_replace (match_type ''SYSTEM TABLE'') [] (commas (map client_text ts) @ r) =
    commas (map client_text ts) @ regex_replace (match_type ''SYSTEM TABLE'') [] r"
  using assms by (intro regex_replace_commas) (simp_all add: system_pass)

text \<open>The passes behind the removal of system tables, after a prefix that is empty or a comma.\<close>

lemma late_passes:
  assumes "\<forall>t \<in> set ts. snd t \<noteq> System_Tables" "p = [] \<or> p = '',''"
  shows "regex_replace (match_type ''%'') (sq ''`%`'') (regex_replace (match_type ''VIEW'') (sq ''`VIEW`'')
      (regex_replace (match_type ''TABLE'') (sq ''`BASE TABLE`'') (p @ commas (map client_text ts)))) =
    p @ commas (map engine_text ts)"
  using assms table_passed[of ts "[]"] view_passed[of ts "[]"] percent_passed[of ts "[]"] by auto

lemma commas_append: "xs \<noteq> [] \<Longrightarrow> ys \<noteq> [] \<Longrightarrow> commas (xs @ ys) = commas xs @ CHR '','' # commas ys"
  by (induction xs) (auto simp: commas_Cons)

lemma joined_around:
  "ts1 \<noteq> [] \<Longrightarrow> ts2 \<noteq> [] \<Longrightarrow> commas (map f (ts1 @ t # ts2)) =
    commas (map f ts1) @ CHR '','' # f t @ CHR '','' # commas (map f ts2)"
  by (simp add: commas_append commas_Cons)

lemma match_two_commas: "match_commas (CHR '','' # CHR '','' # r) = Some r"
  by (simp add: match_commas_def IsSpace_def skip_simps)

text \<open>
  C32. A list of table types, each in quotes or not, becomes the list of the engine's types in the
  same order, \<^verbatim>\<open>TABLE\<close> as \<^verbatim>\<open>'BASE TABLE'\<close>, and one \<^verbatim>\<open>SYSTEM TABLE\<close> between two of them is left out with
  its comma.
\<close>

theorem table_types_translated:
  assumes "\<forall>t \<in> set (ts1 @ ts2). snd t \<noteq> System_Tables"
    and "system = [] \<or> system = [(quoted, System_Tables)] \<and> ts1 \<noteq> [] \<and> ts2 \<noteq> []"
  shows "table_types (commas (map client_text (ts1 @ system @ ts2))) = commas (map engine_text (ts1 @ ts2))"
proof -
  let ?sys = "regex_replace (match_type ''SYSTEM TABLE'') []" and ?com = "regex_replace match_commas '','' "
  have "?com (?sys (commas (map client_text (ts1 @ system @ ts2)))) = commas (map client_text (ts1 @ ts2))"
  proof (cases "system = []")
    case True
    then show ?thesis using assms(1) system_passed[of "ts1 @ ts2" "[]"] commas_passed[of "ts1 @ ts2" "[]"] by simp
  next
    case False
    then have s: "system = [(quoted, System_Tables)]" "ts1 \<noteq> []" "ts2 \<noteq> []" using assms(2) by auto
    have ts: "\<forall>t \<in> set ts1. snd t \<noteq> System_Tables" "\<forall>t \<in> set ts2. snd t \<noteq> System_Tables" using assms(1) by auto
    have eq: "commas (map client_text (ts1 @ system @ ts2)) = commas (map client_text ts1) @
        CHR '','' # client_text (quoted, System_Tables) @ CHR '','' # commas (map client_text ts2)"
      using joined_around[OF s(2,3)] by (simp only: s(1) append_Cons append_Nil)
    have "?sys (commas (map client_text (ts1 @ system @ ts2))) =
        commas (map client_text ts1) @ CHR '','' # CHR '','' # commas (map client_text ts2)"
      using system_passed[OF ts(2), of "[]"] unfolding eq
      by (simp add: system_passed[OF ts(1)] system_pass del: client_text.simps)
    also have "?com \<dots> = commas (map client_text ts1) @ CHR '','' # commas (map client_text ts2)"
      using commas_passed[OF ts(2), of "[]"] by (simp add: commas_passed[OF ts(1)] match_two_commas)
    finally show ?thesis using s by (simp add: commas_append)
  qed
  then show ?thesis using late_passes[OF assms(1), of "[]"] by (simp add: table_types_def)
qed

theorem table_types_translated_witness:
  "table_types (commas (map client_text ([(False, Tables)] @ [(True, System_Tables)] @ [(True, Views)]))) =
    commas (map engine_text ([(False, Tables)] @ [(True, Views)]))"
  by (rule table_types_translated) simp_all

text \<open>
  Asked first, \<^verbatim>\<open>SYSTEM TABLE\<close> leaves its comma, and the condition of the query starts \<^verbatim>\<open>table_type IN (,\<close>.
\<close>

theorem leading_system_table:
  assumes "\<forall>t \<in> set ts. snd t \<noteq> System_Tables" "ts \<noteq> []"
  shows "table_types (commas (map client_text ((quoted, System_Tables) # ts))) = CHR '','' # commas (map engine_text ts)"
proof -
  obtain t ts' where t: "ts = t # ts'" using assms(2) by (cases ts) auto
  have "match_commas (CHR '','' # commas (map client_text ts)) = None"
    unfolding t list.map commas_Cons by (rule commas_pass(2)) (use assms t in simp)
  moreover have "regex_replace (match_type ''SYSTEM TABLE'') [] (commas (map client_text ((quoted, System_Tables) # ts))) =
      CHR '','' # commas (map client_text ts)"
    using assms system_passed[OF assms(1), of "[]"] by (simp add: commas_Cons system_pass del: client_text.simps)
  ultimately show ?thesis
    using late_passes[OF assms(1), of "'',''"] commas_passed[OF assms(1), of "[]"]
    by (simp add: table_types_def)
qed

theorem leading_system_table_witness:
  "table_types (commas (map client_text ((False, System_Tables) # [(False, Tables)]))) =
    CHR '','' # commas (map engine_text [(False, Tables)])"
  by (rule leading_system_table) simp_all

section \<open>Patterns inside the text of a query\<close>

definition escape_clause :: string where
  "escape_clause = '' ESCAPE '' @ [CHR 0x27, CHR 0x5C, CHR 0x27]"

text \<open>A pattern stands in the text of a catalog query as it is, quotes included.\<close>

lemma pattern_not_escaped:
  assumes "v \<noteq> []" "metadata_id \<noteq> SQL_TRUE"
  shows "ParseStringFilter name v metadata_id d = Inr (name @ '' LIKE '' @ CHR 0x27 # v @ CHR 0x27 # escape_clause)"
  using assms by (simp add: ParseStringFilter_def escape_clause_def)

text \<open>With the identifier attribute a name that is not quoted is compared without quotes, as a column's name.\<close>

theorem identifier_not_quoted:
  assumes "v \<noteq> []" "\<not> is_quoted v"
  shows "ParseStringFilter name v SQL_TRUE d = Inr (name @ ''='' @ StringUtil_Upper (squeeze_blanks v) @ escape_clause)"
  using assms by (simp add: ParseStringFilter_def GetStringAsIdentifier_def escape_clause_def)

theorem identifier_not_quoted_witness:
  "ParseStringFilter ''n'' ''t'' SQL_TRUE [] = Inr (''n'' @ ''='' @ StringUtil_Upper (squeeze_blanks ''t'') @ escape_clause)"
  by (rule identifier_not_quoted) (simp_all add: is_quoted_def)

text \<open>Without the identifier attribute SQLColumns takes every catalog but the empty one for any catalog.\<close>

theorem catalog_pattern_ignored:
  assumes "catalog_n \<noteq> []" "metadata_id \<noteq> SQL_TRUE"
  shows "columns_query metadata_id catalog_n schema_n table_n column_n =
    columns_query metadata_id ''%'' schema_n table_n column_n"
  using assms by (simp add: columns_query_def catalog_filter_of_def)

theorem catalog_pattern_ignored_witness:
  "columns_query 0 ''other'' [] ''t'' [] = columns_query 0 ''%'' [] ''t'' []"
  by (rule catalog_pattern_ignored) simp_all

section \<open>The rows of SQLGetTypeInfo\<close>

lemma WriteInfoTypesToQueryString_rows:
  "WriteInfoTypesToQueryString ts query = query @ commas (map info_type_row ts)"
  by (induction ts query rule: WriteInfoTypesToQueryString.induct) auto

text \<open>
  The query of SQLGetTypeInfo lists one row for every entry of the table of types with the type that
  is asked for, in the order of the table, and every entry when all types are.
\<close>

theorem type_info_rows:
  "type_info_query data_type = ''SELECT * FROM (VALUES '' @
    commas (map info_type_row (filter (\<lambda>t. data_type = SQL_ALL_TYPES \<or> ti_data_type t = data_type) ODBC_SUPPORTED_SQL_TYPES)) @
    type_info_columns"
  by (simp add: type_info_query_def WriteInfoTypesToQueryString_rows find_run_types FindDataType_def GetVectorTypesAddr_def)

text \<open>Of a type that the table does not have no row is listed: the text is no statement of SQL.\<close>

theorem unknown_type_info:
  assumes "data_type \<noteq> SQL_ALL_TYPES" "data_type \<notin> set (map ti_data_type ODBC_SUPPORTED_SQL_TYPES)"
  shows "type_info_query data_type = ''SELECT * FROM (VALUES '' @ type_info_columns"
proof -
  have "find_run data_type ODBC_SUPPORTED_SQL_TYPES = []"
    using assms(2) by (auto simp: find_run_types filter_empty_conv)
  then show ?thesis using assms(1) by (simp add: type_info_query_def FindDataType_def)
qed

theorem unknown_type_info_witness: "type_info_query 77 = ''SELECT * FROM (VALUES '' @ type_info_columns"
  by (rule unknown_type_info) (simp_all add: ODBC_SUPPORTED_SQL_TYPES_def)

end
