(* ===== verification/Connection_Handles.thy ===== *)
theory Connection_Handles
  imports Parameter_Descriptor Handle_Functions
begin

text \<open>
  Environments and connections (\<^verbatim>\<open>include/duckdb_odbc.hpp\<close>,
  \<^verbatim>\<open>src/odbc_driver/common/duckdb_odbc.cpp\<close>) and the part of the engine a connection uses to delimit
  its transactions: \<^verbatim>\<open>TransactionContext\<close>
  (\<^verbatim>\<open>src/duckdb/src/transaction/transaction_context.cpp\<close>), the operator that executes COMMIT and ROLLBACK
  (\<^verbatim>\<open>physical_transaction.cpp\<close>) and what surrounds a query (\<^verbatim>\<open>client_context.cpp\<close>).
\<close>

section \<open>Transactions of the engine\<close>

text \<open>
  A transaction has a working state 't and the flag of its \<^verbatim>\<open>ValidChecker\<close>. What the storage does is
  a parameter: \<^verbatim>\<open>mt_begin\<close> takes a snapshot of the database 'd, \<^verbatim>\<open>mt_commit\<close> publishes the working
  state or fails with a message, \<^verbatim>\<open>mt_rollback\<close> may fail with a message.
\<close>

record ('d, 't) storage =
  mt_begin :: "'d \<Rightarrow> 't"
  mt_commit :: "'t \<Rightarrow> 'd \<Rightarrow> string + 'd"
  mt_rollback :: "'t \<Rightarrow> 'd \<Rightarrow> string option"

record 't MetaTransaction =
  mt_state :: 't
  mt_invalidated :: bool

record ('d, 't) Connection =
  auto_commit :: bool
  current_transaction :: "'t MetaTransaction option"
  conn_db :: 'd

text \<open>An operation that can throw gives the message of the exception and the state it leaves behind.\<close>

type_synonym ('d, 't) conn_result = "string option \<times> ('d, 't) Connection"

definition BeginTransaction :: "('d, 't) storage \<Rightarrow> ('d, 't) Connection \<Rightarrow> ('d, 't) conn_result" where
  "BeginTransaction st c =
     (case current_transaction c of
        Some t \<Rightarrow> (Some ''cannot start a transaction within a transaction'', c)
      | None \<Rightarrow> (None, c\<lparr>current_transaction :=
          Some \<lparr>mt_state = mt_begin st (conn_db c), mt_invalidated = False\<rparr>\<rparr>))"

definition SetAutoCommit :: "('d, 't) storage \<Rightarrow> bool \<Rightarrow> ('d, 't) Connection \<Rightarrow> ('d, 't) conn_result" where
  "SetAutoCommit st v c =
     (let c = c\<lparr>auto_commit := v\<rparr> in
      if \<not> auto_commit c \<and> current_transaction c = None then BeginTransaction st c else (None, c))"

text \<open>The transaction was moved out before: clearing turns the automatic commit on.\<close>

definition ClearTransaction :: "('d, 't) storage \<Rightarrow> ('d, 't) Connection \<Rightarrow> ('d, 't) Connection" where
  "ClearTransaction st c = (snd (SetAutoCommit st True c))\<lparr>current_transaction := None\<rparr>"

definition TransactionCommit :: "('d, 't) storage \<Rightarrow> ('d, 't) Connection \<Rightarrow> ('d, 't) conn_result" where
  "TransactionCommit st c =
     (case current_transaction c of
        None \<Rightarrow> (Some ''failed to commit: no transaction active'', c)
      | Some t \<Rightarrow>
        let c = ClearTransaction st c in
        (case mt_commit st (mt_state t) (conn_db c) of
           Inl msg \<Rightarrow> (Some (''Failed to commit: '' @ msg), c)
         | Inr d \<Rightarrow> (None, c\<lparr>conn_db := d\<rparr>)))"

definition TransactionRollback :: "('d, 't) storage \<Rightarrow> ('d, 't) Connection \<Rightarrow> ('d, 't) conn_result" where
  "TransactionRollback st c =
     (case current_transaction c of
        None \<Rightarrow> (Some ''failed to rollback: no transaction active'', c)
      | Some t \<Rightarrow> (mt_rollback st (mt_state t) (conn_db c), ClearTransaction st c))"

text \<open>
  A query: \<^verbatim>\<open>BeginQueryInternal\<close> starts a transaction when the connection commits automatically,
  \<^verbatim>\<open>EndQueryInternal\<close> then commits or rolls back. An error between them is the error of the query; one
  that invalidates the transaction (\<^verbatim>\<open>Inl (msg, True)\<close>) marks it.
\<close>

definition BeginQueryInternal :: "('d, 't) storage \<Rightarrow> ('d, 't) Connection \<Rightarrow> ('d, 't) conn_result" where
  "BeginQueryInternal st c =
     (case (if auto_commit c then BeginTransaction st c else (None, c)) of
        (Some msg, c) \<Rightarrow> (Some msg, c)
      | (None, c) \<Rightarrow>
        if current_transaction c = None then (Some ''SetActiveQuery called without active transaction'', c)
        else (None, c))"

definition EndQueryInternal ::
  "('d, 't) storage \<Rightarrow> bool \<Rightarrow> bool \<Rightarrow> ('d, 't) Connection \<Rightarrow> ('d, 't) conn_result" where
  "EndQueryInternal st success invalidate_transaction c =
     (case current_transaction c of
        None \<Rightarrow> (None, c)
      | Some t \<Rightarrow>
        if auto_commit c then if success then TransactionCommit st c else TransactionRollback st c
        else if invalidate_transaction then (None, c\<lparr>current_transaction := Some (t\<lparr>mt_invalidated := True\<rparr>)\<rparr>)
        else (None, c))"

definition run_query ::
  "('d, 't) storage \<Rightarrow> (('d, 't) Connection \<Rightarrow> (string \<times> bool) option \<times> ('d, 't) Connection)
   \<Rightarrow> ('d, 't) Connection \<Rightarrow> ('d, 't) conn_result" where
  "run_query st body c =
     (case BeginQueryInternal st c of
        (Some msg, c) \<Rightarrow> (Some msg, c)
      | (None, c) \<Rightarrow>
        (case body c of
           (Some (msg, invalidates), c) \<Rightarrow> (Some msg, snd (EndQueryInternal st False invalidates c))
         | (None, c) \<Rightarrow> EndQueryInternal st True False c))"

text \<open>A statement that changes the database works on the state of the active transaction.\<close>

definition statement_body ::
  "('t \<Rightarrow> (string \<times> bool) + 't) \<Rightarrow> ('d, 't) Connection \<Rightarrow> (string \<times> bool) option \<times> ('d, 't) Connection" where
  "statement_body f c =
     (case current_transaction c of
        None \<Rightarrow> (Some (''TransactionContext::ActiveTransaction called without active transaction'', True), c)
      | Some t \<Rightarrow>
        if mt_invalidated t then (Some (''Current transaction is aborted (please ROLLBACK)'', False), c)
        else case f (mt_state t) of
               Inl e \<Rightarrow> (Some e, c)
             | Inr t' \<Rightarrow> (None, c\<lparr>current_transaction := Some (t\<lparr>mt_state := t'\<rparr>)\<rparr>))"

text \<open>\<^verbatim>\<open>PhysicalTransaction::GetDataInternal\<close> for COMMIT and ROLLBACK.\<close>

definition rollback_body ::
  "('d, 't) storage \<Rightarrow> ('d, 't) Connection \<Rightarrow> (string \<times> bool) option \<times> ('d, 't) Connection" where
  "rollback_body st c =
     (if auto_commit c then (Some (''cannot rollback - no transaction is active'', False), c)
      else case TransactionRollback st c of (err, c) \<Rightarrow> (map_option (\<lambda>msg. (msg, True)) err, c))"

definition commit_body ::
  "('d, 't) storage \<Rightarrow> ('d, 't) Connection \<Rightarrow> (string \<times> bool) option \<times> ('d, 't) Connection" where
  "commit_body st c =
     (if (case current_transaction c of None \<Rightarrow> False | Some t \<Rightarrow> mt_invalidated t) then rollback_body st c
      else if auto_commit c then (Some (''cannot commit - no transaction is active'', False), c)
      else case TransactionCommit st c of (err, c) \<Rightarrow> (map_option (\<lambda>msg. (msg, True)) err, c))"

text \<open>\<^verbatim>\<open>Connection::Commit\<close> and \<^verbatim>\<open>Connection::Rollback\<close> throw the error of their query.\<close>

definition ConnectionCommit :: "('d, 't) storage \<Rightarrow> ('d, 't) Connection \<Rightarrow> ('d, 't) conn_result" where
  "ConnectionCommit st c = run_query st (commit_body st) c"

definition ConnectionRollback :: "('d, 't) storage \<Rightarrow> ('d, 't) Connection \<Rightarrow> ('d, 't) conn_result" where
  "ConnectionRollback st c = run_query st (rollback_body st) c"

text \<open>\<^verbatim>\<open>TransactionContext(context)\<close>.\<close>

definition mk_Connection :: "'d \<Rightarrow> ('d, 't) Connection" where
  "mk_Connection db = \<lparr>auto_commit = True, current_transaction = None, conn_db = db\<rparr>"

section \<open>Environments and connections\<close>

text \<open>\<^verbatim>\<open>env_db\<close> is the pointer to the database of the environment.\<close>

record OdbcHandleEnv =
  env_diag :: OdbcDiagnostic
  env_db :: addr
  odbc_version :: int
  connection_pooling :: int
  cp_match :: int
  output_nts :: int

record ('d, 't) OdbcHandleDbc =
  dbc_diag :: OdbcDiagnostic
  dbc_env :: addr
  dbc_conn :: "('d, 't) Connection option"
  dbc_autocommit :: bool
  sql_attr_metadata_id :: int
  sql_attr_access_mode :: int
  sql_attr_current_catalog :: string
  dbc_dsn :: string
  vec_stmt_ref :: "addr list"

text \<open>The constructors; the database of an environment is created with it.\<close>

definition mk_OdbcHandleEnv :: "OdbcHandleEnv \<Rightarrow> addr \<Rightarrow> OdbcHandleEnv" where
  "mk_OdbcHandleEnv junk db = junk\<lparr>env_diag := mk_OdbcDiagnostic, env_db := db\<rparr>"

definition mk_OdbcHandleDbc :: "('d, 't) OdbcHandleDbc \<Rightarrow> addr \<Rightarrow> ('d, 't) OdbcHandleDbc" where
  "mk_OdbcHandleDbc junk env_p =
     \<lparr>dbc_diag = mk_OdbcDiagnostic, dbc_env = env_p, dbc_conn = None, dbc_autocommit = True,
      sql_attr_metadata_id = sql_attr_metadata_id junk, sql_attr_access_mode = SQL_MODE_READ_WRITE,
      sql_attr_current_catalog = [], dbc_dsn = [], vec_stmt_ref = []\<rparr>"

text \<open>\<^verbatim>\<open>remove1\<close> of the library erases the first occurrence, as the loop of the code does.\<close>

definition EraseStmtRef :: "addr \<Rightarrow> ('d, 't) OdbcHandleDbc \<Rightarrow> ('d, 't) OdbcHandleDbc" where
  "EraseStmtRef stmt dbc = dbc\<lparr>vec_stmt_ref := remove1 stmt (vec_stmt_ref dbc)\<rparr>"

definition SetDatabaseName :: "string \<Rightarrow> ('d, 't) OdbcHandleDbc \<Rightarrow> ('d, 't) OdbcHandleDbc" where
  "SetDatabaseName db_name dbc = (if db_name \<noteq> [] then dbc\<lparr>sql_attr_current_catalog := db_name\<rparr> else dbc)"

definition GetDatabaseName :: "('d, 't) OdbcHandleDbc \<Rightarrow> string" where
  "GetDatabaseName dbc = sql_attr_current_catalog dbc"

definition GetDataSourceName :: "('d, 't) OdbcHandleDbc \<Rightarrow> string" where
  "GetDataSourceName dbc = dbc_dsn dbc"

definition env_error ::
  "int \<Rightarrow> string \<Rightarrow> string \<Rightarrow> SQLStateType \<Rightarrow> string \<Rightarrow> OdbcHandleEnv \<Rightarrow> int \<times> OdbcHandleEnv" where
  "env_error ret component msg state server env =
     (let (r, g) = SetDiagnosticRecord (env_diag env) ret component msg state server in (r, env\<lparr>env_diag := g\<rparr>))"

definition dbc_error ::
  "int \<Rightarrow> string \<Rightarrow> string \<Rightarrow> SQLStateType \<Rightarrow> string \<Rightarrow> ('d, 't) OdbcHandleDbc \<Rightarrow> int \<times> ('d, 't) OdbcHandleDbc" where
  "dbc_error ret component msg state server dbc =
     (let (r, g) = SetDiagnosticRecord (dbc_diag dbc) ret component msg state server in (r, dbc\<lparr>dbc_diag := g\<rparr>))"

definition ConvertEnvironment :: "OdbcHandleEnv \<Rightarrow> int \<times> OdbcHandleEnv" where
  "ConvertEnvironment env =
     (if env_db env = nullptr then
        env_error SQL_ERROR ''env'' ''No database connection found'' ST_HY000 [] env
      else (SQL_SUCCESS, env))"

definition ConvertConnection :: "('d, 't) OdbcHandleDbc \<Rightarrow> int \<times> ('d, 't) OdbcHandleDbc" where
  "ConvertConnection dbc =
     (if dbc_conn dbc = None then
        dbc_error SQL_ERROR ''dbc'' ''No database connection found'' ST_08003 [] dbc
      else (SQL_SUCCESS, dbc\<lparr>dbc_diag := Clean (dbc_diag dbc)\<rparr>))"

lemma fst_dbc_error [simp]: "fst (dbc_error ret c msg st srv dbc) = ret"
  by (simp add: dbc_error_def SetDiagnosticRecord_def Let_def)

lemma dbc_error_frame [simp]:
  "dbc_conn (snd (dbc_error ret c msg st srv dbc)) = dbc_conn dbc"
  "dbc_autocommit (snd (dbc_error ret c msg st srv dbc)) = dbc_autocommit dbc"
  "dbc_env (snd (dbc_error ret c msg st srv dbc)) = dbc_env dbc"
  "sql_attr_metadata_id (snd (dbc_error ret c msg st srv dbc)) = sql_attr_metadata_id dbc"
  "dbc_dsn (snd (dbc_error ret c msg st srv dbc)) = dbc_dsn dbc"
  "vec_stmt_ref (snd (dbc_error ret c msg st srv dbc)) = vec_stmt_ref dbc"
  by (simp_all add: dbc_error_def SetDiagnosticRecord_def Let_def)

lemma fst_env_error [simp]: "fst (env_error ret c msg st srv env) = ret"
  by (simp add: env_error_def SetDiagnosticRecord_def Let_def)

lemma env_error_frame [simp]:
  "env_db (snd (env_error ret c msg st srv env)) = env_db env"
  "odbc_version (snd (env_error ret c msg st srv env)) = odbc_version env"
  by (simp_all add: env_error_def SetDiagnosticRecord_def Let_def)

end
