(* ===== verification/Attribute_Api.thy ===== *)
theory Attribute_Api
  imports Connection_Handles
begin

text \<open>
  \<^verbatim>\<open>src/odbc_api/attribute_api.cpp\<close>: the attributes of an environment, a connection and a statement. The
  value of an attribute that is set is the pointer argument itself, read as an integer; one that is
  got is stored through it. None is a store through a null pointer or an exception of the engine.
\<close>

section \<open>Environment attributes\<close>

definition SQLGetEnvAttr :: "int \<Rightarrow> addr \<Rightarrow> OdbcHandleEnv \<Rightarrow> mem \<Rightarrow> int \<times> OdbcHandleEnv \<times> mem" where
  "SQLGetEnvAttr attribute value_ptr env m =
     (if value_ptr = nullptr then (SQL_SUCCESS, env, m)
      else if attribute = SQL_ATTR_ODBC_VERSION then (SQL_SUCCESS, env, store_int 4 value_ptr (odbc_version env) m)
      else if attribute = SQL_ATTR_CONNECTION_POOLING then
        (SQL_SUCCESS, env, store_int 4 value_ptr (connection_pooling env) m)
      else if attribute = SQL_ATTR_OUTPUT_NTS then (SQL_SUCCESS, env, store_int 4 value_ptr (output_nts env) m)
      else if attribute = SQL_ATTR_CP_MATCH then
        (case env_error SQL_SUCCESS_WITH_INFO ''SQLGetEnvAttr'' ''Optional feature not implemented.'' ST_HYC00 [] env of
           (ret, env) \<Rightarrow> (ret, env, m))
      else (SQL_SUCCESS, env, m))"

definition ExtractMajorVersion :: "addr \<Rightarrow> int" where
  "ExtractMajorVersion value_ptr =
     (let full_version = wrap_u 32 value_ptr in
      if full_version > 100 then full_version div 100
      else if full_version > 10 then full_version div 10
      else full_version)"

definition SQLSetEnvAttr :: "int \<Rightarrow> addr \<Rightarrow> OdbcHandleEnv \<Rightarrow> int \<times> OdbcHandleEnv" where
  "SQLSetEnvAttr attribute value_ptr env =
     (case ConvertEnvironment env of (ret, env) \<Rightarrow>
      if ret \<noteq> SQL_SUCCESS then (ret, env)
      else if attribute = SQL_ATTR_ODBC_VERSION then
        let major_version = ExtractMajorVersion value_ptr in
        if major_version = SQL_OV_ODBC3 \<or> major_version = SQL_OV_ODBC2 then
          (SQL_SUCCESS, env\<lparr>odbc_version := major_version\<rparr>)
        else env_error SQL_SUCCESS_WITH_INFO ''SQLSetEnvAttr''
               (''ODBC version not supported: '' @ to_string major_version) ST_HY092 [] env
      else if attribute = SQL_ATTR_CONNECTION_POOLING then
        let pooling = wrap_s 32 value_ptr in
        if pooling = SQL_CP_OFF \<or> pooling = SQL_CP_ONE_PER_DRIVER \<or> pooling = SQL_CP_ONE_PER_HENV then
          (SQL_SUCCESS, env\<lparr>connection_pooling := pooling\<rparr>)
        else env_error SQL_SUCCESS_WITH_INFO ''SQLSetConnectAttr''
               (''Connection pooling not supported: '' @ to_string attribute) ST_HY092 [] env
      else if attribute = SQL_ATTR_CP_MATCH then
        env_error SQL_SUCCESS_WITH_INFO ''SQLSetConnectAttr'' ''Optional feature not implemented.'' ST_HY092 [] env
      else if attribute = SQL_ATTR_OUTPUT_NTS then
        if wrap_s 32 value_ptr = SQL_TRUE then (SQL_SUCCESS, env\<lparr>output_nts := SQL_TRUE\<rparr>)
        else env_error SQL_SUCCESS_WITH_INFO ''SQLSetConnectAttr''
               ''Optional feature not implemented.  SQL_ATTR_OUTPUT_NTS must be SQL_TRUE'' ST_HY092 [] env
      else env_error SQL_SUCCESS_WITH_INFO ''SQLSetEnvAttr'' ''Invalid attribute value'' ST_HY024 [] env)"

section \<open>Connection attributes\<close>

definition ungettable_attributes :: "int set" where
  "ungettable_attributes = {SQL_ATTR_ASYNC_DBC_EVENT, SQL_ATTR_ASYNC_DBC_FUNCTIONS_ENABLE,
     SQL_ATTR_ASYNC_DBC_PCALLBACK, SQL_ATTR_ASYNC_DBC_PCONTEXT, SQL_ATTR_ASYNC_ENABLE, SQL_ATTR_AUTO_IPD,
     SQL_ATTR_CONNECTION_DEAD, SQL_ATTR_CONNECTION_TIMEOUT, SQL_ATTR_DBC_INFO_TOKEN, SQL_ATTR_ENLIST_IN_DTC,
     SQL_ATTR_LOGIN_TIMEOUT, SQL_ATTR_METADATA_ID, SQL_ATTR_ODBC_CURSORS, SQL_ATTR_PACKET_SIZE,
     SQL_ATTR_QUIET_MODE, SQL_ATTR_TRACE, SQL_ATTR_TRACEFILE, SQL_ATTR_TRANSLATE_LIB, SQL_ATTR_TRANSLATE_OPTION}"

definition GetConnectAttrInternal ::
  "bool \<Rightarrow> int \<Rightarrow> addr \<Rightarrow> int \<Rightarrow> addr \<Rightarrow> ('d, 't) OdbcHandleDbc \<Rightarrow> mem \<Rightarrow> int \<times> ('d, 't) OdbcHandleDbc \<times> mem" where
  "GetConnectAttrInternal wide attribute value_ptr buffer_length string_length_ptr dbc m =
     (case ConvertConnection dbc of (ret, dbc) \<Rightarrow>
      let stored = (\<lambda>v. (SQL_SUCCESS, dbc, StoreWithLength 4 4 v value_ptr string_length_ptr m)) in
      if ret \<noteq> SQL_SUCCESS then (ret, dbc, m)
      else if attribute = SQL_ATTR_AUTOCOMMIT then stored (if dbc_autocommit dbc then 1 else 0)
      else if attribute = SQL_ATTR_ACCESS_MODE then stored (sql_attr_access_mode dbc)
      else if attribute = SQL_ATTR_CURRENT_CATALOG then
        (SQL_SUCCESS, dbc,
         write_string wide 4 (sql_attr_current_catalog dbc) value_ptr buffer_length string_length_ptr m)
      else if attribute \<in> ungettable_attributes then (SQL_NO_DATA, dbc, m)
      else if attribute = SQL_ATTR_QUERY_TIMEOUT then stored 0
      else if attribute = SQL_ATTR_TXN_ISOLATION then stored SQL_TXN_SERIALIZABLE
      else (case dbc_error SQL_ERROR ''SQLGetConnectAttr'' ''Attribute not supported.'' ST_HY092
                   (GetDataSourceName dbc) dbc of (ret, dbc) \<Rightarrow> (ret, dbc, m)))"

text \<open>The vendor attribute of the Jet engine.\<close>

abbreviation (input) VENDOR_MSJET :: int where "VENDOR_MSJET \<equiv> 30002"

definition ignored_attributes :: "int set" where
  "ignored_attributes = {SQL_ATTR_DBC_INFO_TOKEN, SQL_ATTR_ENLIST_IN_DTC, SQL_ATTR_METADATA_ID,
     SQL_ATTR_QUIET_MODE, SQL_ATTR_TRACE, SQL_ATTR_TRACEFILE, SQL_ATTR_TRANSLATE_LIB,
     SQL_ATTR_TRANSLATE_OPTION, SQL_ATTR_TXN_ISOLATION}"

text \<open>An exception of \<^verbatim>\<open>SetAutoCommit\<close> leaves the function.\<close>

definition set_autocommit ::
  "('d, 't) storage \<Rightarrow> bool \<Rightarrow> ('d, 't) OdbcHandleDbc \<Rightarrow> (int \<times> ('d, 't) OdbcHandleDbc) option" where
  "set_autocommit st v dbc =
     (case dbc_conn dbc of
        None \<Rightarrow> None
      | Some c \<Rightarrow>
        (case SetAutoCommit st v c of
           (Some _, _) \<Rightarrow> None
         | (None, c) \<Rightarrow> Some (SQL_SUCCESS, dbc\<lparr>dbc_autocommit := v, dbc_conn := Some c\<rparr>)))"

text \<open>
  SQL\_ATTR\_METADATA\_ID has its case inside the switch on the value of SQL\_ATTR\_AUTOCOMMIT; as an
  attribute it is among those that are accepted and ignored. The branch that sets the catalog needs
  a connection that is not open and is behind the check that it is.
\<close>

definition SetConnectAttrInternal ::
  "('d, 't) storage \<Rightarrow> int \<Rightarrow> addr \<Rightarrow> ('d, 't) OdbcHandleDbc \<Rightarrow> (int \<times> ('d, 't) OdbcHandleDbc) option" where
  "SetConnectAttrInternal st attribute value_ptr dbc =
     (if attribute \<in> {SQL_ATTR_LOGIN_TIMEOUT, SQL_ATTR_ODBC_CURSORS, SQL_ATTR_PACKET_SIZE, VENDOR_MSJET}
      then Some (SQL_SUCCESS, dbc)
      else case ConvertConnection dbc of (ret, dbc) \<Rightarrow>
        let error = (\<lambda>ret msg state. Some (dbc_error ret ''SQLSetConnectAttr'' msg state (GetDataSourceName dbc) dbc)) in
        if ret \<noteq> SQL_SUCCESS then Some (ret, dbc)
        else if attribute = SQL_ATTR_AUTOCOMMIT then
          if value_ptr = SQL_AUTOCOMMIT_ON then set_autocommit st True dbc
          else if value_ptr = SQL_AUTOCOMMIT_OFF then set_autocommit st False dbc
          else if value_ptr = SQL_ATTR_METADATA_ID then
            Some (SQL_SUCCESS, dbc\<lparr>sql_attr_metadata_id := SQLPointerToSQLUInteger value_ptr\<rparr>)
          else Some (SQL_SUCCESS, dbc)
        else if attribute = SQL_ATTR_ACCESS_MODE then
          let access_mode = SQLPointerToSQLUInteger value_ptr in
          if access_mode = SQL_MODE_READ_WRITE then
            Some (SQL_SUCCESS, dbc\<lparr>sql_attr_access_mode := SQL_MODE_READ_WRITE\<rparr>)
          else if access_mode = SQL_MODE_READ_ONLY then
            Some (SQL_SUCCESS, dbc\<lparr>sql_attr_access_mode := SQL_MODE_READ_ONLY\<rparr>)
          else error SQL_ERROR ''Invalid access mode.'' ST_HY024
        else if attribute \<in> {SQL_ATTR_ASYNC_DBC_EVENT, SQL_ATTR_ASYNC_DBC_FUNCTIONS_ENABLE,
            SQL_ATTR_ASYNC_DBC_PCALLBACK, SQL_ATTR_ASYNC_DBC_PCONTEXT, SQL_ATTR_ASYNC_ENABLE} then
          error SQL_ERROR ''DuckDB does not support asynchronous events.'' ST_HY024
        else if attribute \<in> {SQL_ATTR_AUTO_IPD, SQL_ATTR_CONNECTION_DEAD} then
          error SQL_ERROR ''Read-only attribute.'' ST_HY092
        else if attribute = SQL_ATTR_CONNECTION_TIMEOUT then Some (SQL_SUCCESS, dbc)
        else if attribute = SQL_ATTR_CURRENT_CATALOG then
          error SQL_ERROR ''Connection already established, the database name could not be set.'' ST_01S00
        else if attribute \<in> ignored_attributes then Some (SQL_SUCCESS, dbc)
        else error SQL_SUCCESS_WITH_INFO (''Option value changed:'' @ to_string attribute) ST_01S02)"

section \<open>Statement attributes\<close>

text \<open>The addresses of the descriptors a statement uses, as the client gets them.\<close>

record stmt_places =
  place_apd :: addr
  place_ipd :: addr
  place_ard :: addr
  place_ird :: addr

text \<open>Where the application descriptors of the statement are: the explicit one when one is current.\<close>

definition app_param_desc :: "stmt_places \<Rightarrow> 'v OdbcHandleStmt \<Rightarrow> addr" where
  "app_param_desc pl h = (case cur_apd (param_desc h) of None \<Rightarrow> place_apd pl | Some a \<Rightarrow> a)"

definition app_row_desc :: "stmt_places \<Rightarrow> 'v OdbcHandleStmt \<Rightarrow> addr" where
  "app_row_desc pl h = (case cur_ard (row_desc h) of None \<Rightarrow> place_ard pl | Some a \<Rightarrow> a)"

definition GetStmtAttrInternal ::
  "stmt_places \<Rightarrow> bool \<Rightarrow> string \<Rightarrow> int \<Rightarrow> addr \<Rightarrow> addr \<Rightarrow> 'v OdbcHandleStmt \<Rightarrow> mem
   \<Rightarrow> (int \<times> 'v OdbcHandleStmt \<times> mem) option" where
  "GetStmtAttrInternal pl conn dsn attribute value_ptr string_length_ptr h m =
     (case ConvertHSTMT conn h of (ret, h) \<Rightarrow>
      let through = (\<lambda>n v m. map_option (\<lambda>m. (SQL_SUCCESS, h, m)) (store_through n value_ptr v m));
          checked = (\<lambda>n v. if value_ptr = nullptr then Some (SQL_ERROR, h, m) else through n v m);
          pointer = (\<lambda>v. through 8 v (store_opt 4 string_length_ptr SQL_IS_POINTER m))
      in
      if ret \<noteq> SQL_SUCCESS then Some (ret, h, m)
      else if attribute = SQL_ATTR_APP_PARAM_DESC then pointer (app_param_desc pl h)
      else if attribute = SQL_ATTR_IMP_PARAM_DESC then pointer (place_ipd pl)
      else if attribute = SQL_ATTR_APP_ROW_DESC then pointer (app_row_desc pl h)
      else if attribute = SQL_ATTR_IMP_ROW_DESC then pointer (place_ird pl)
      else if attribute = SQL_ATTR_PARAM_BIND_OFFSET_PTR then
        checked 8 (sql_desc_bind_offset_ptr (desc_header (apd (param_desc h))))
      else if attribute = SQL_ATTR_PARAM_BIND_TYPE then
        checked 4 (sql_desc_bind_type (desc_header (apd (param_desc h))))
      else if attribute = SQL_ATTR_PARAMS_PROCESSED_PTR then
        checked 8 (sql_desc_rows_processed_ptr (desc_header (ipd (param_desc h))))
      else if attribute = SQL_ATTR_PARAMSET_SIZE then
        checked 8 (sql_desc_array_size (desc_header (apd (param_desc h))))
      else if attribute = SQL_ATTR_ROW_ARRAY_SIZE then
        checked 8 (sql_desc_array_size (desc_header (ard (row_desc h))))
      else if attribute = SQL_ATTR_ROWS_FETCHED_PTR then checked 8 (rows_fetched_ptr h)
      else if attribute = SQL_ATTR_ROW_BIND_TYPE then
        checked 8 (if value_ptr \<noteq> SQL_BIND_BY_COLUMN
                   then sql_desc_bind_type (desc_header (ard (row_desc h))) else SQL_BIND_BY_COLUMN)
      else if attribute = SQL_ATTR_ROW_STATUS_PTR then
        checked 8 (sql_desc_array_status_ptr (desc_header (ird (row_desc h))))
      else if attribute = SQL_ATTR_CURSOR_TYPE then checked 8 (cursor_type (odbc_fetcher h))
      else if attribute = SQL_ATTR_CONCURRENCY then through 8 SQL_CONCUR_LOCK m
      else if attribute = SQL_ATTR_QUERY_TIMEOUT then through 4 0 m
      else if attribute = SQL_ATTR_RETRIEVE_DATA then through 8 (retrieve_data h) m
      else if attribute = SQL_ATTR_CURSOR_SCROLLABLE then through 8 (cursor_scrollable (odbc_fetcher h)) m
      else if attribute = SQL_ATTR_MAX_LENGTH then through 8 (client_max_len h) m
      else (case stmt_diag h SQL_ERROR ''SQLGetStmtAttr'' (''Unsupported attribute type:'' @ to_string attribute)
                   ST_HY092 dsn of (ret, h) \<Rightarrow> Some (ret, h, m)))"

definition set_apd_header :: "(DescHeader \<Rightarrow> DescHeader) \<Rightarrow> 'v OdbcHandleStmt \<Rightarrow> 'v OdbcHandleStmt" where
  "set_apd_header f h = h\<lparr>param_desc := (param_desc h)\<lparr>apd := (apd (param_desc h))\<lparr>desc_header :=
     f (desc_header (apd (param_desc h)))\<rparr>\<rparr>\<rparr>"

definition set_ard_header :: "(DescHeader \<Rightarrow> DescHeader) \<Rightarrow> 'v OdbcHandleStmt \<Rightarrow> 'v OdbcHandleStmt" where
  "set_ard_header f h = h\<lparr>row_desc := (row_desc h)\<lparr>ard := (ard (row_desc h))\<lparr>desc_header :=
     f (desc_header (ard (row_desc h)))\<rparr>\<rparr>\<rparr>"

definition set_ird_header :: "(DescHeader \<Rightarrow> DescHeader) \<Rightarrow> 'v OdbcHandleStmt \<Rightarrow> 'v OdbcHandleStmt" where
  "set_ird_header f h = h\<lparr>row_desc := (row_desc h)\<lparr>ird := (ird (row_desc h))\<lparr>desc_header :=
     f (desc_header (ird (row_desc h)))\<rparr>\<rparr>\<rparr>"

text \<open>
  The attributes of the descriptors change the implicit ones. A descriptor that is made current is
  written at once, so that a null or a dangling handle is not survived.
\<close>

definition SetStmtAttrInternal ::
  "bool \<Rightarrow> string \<Rightarrow> int \<Rightarrow> addr \<Rightarrow> desc_store \<Rightarrow> 'v OdbcHandleStmt \<Rightarrow> mem
   \<Rightarrow> (int \<times> desc_store \<times> 'v OdbcHandleStmt \<times> mem) option" where
  "SetStmtAttrInternal conn dsn attribute value_ptr ds h m =
     (case ConvertHSTMT conn h of (ret, h) \<Rightarrow>
      let ok = (\<lambda>h. Some (SQL_SUCCESS, ds, h, m));
          v = wrap_u 64 value_ptr;
          diag = (\<lambda>ret msg state. case stmt_diag h ret ''SQLSetStmtAttr'' (msg @ to_string attribute) state dsn of
                    (ret, h) \<Rightarrow> Some (ret, ds, h, m));
          with_fetcher = (\<lambda>f. h\<lparr>odbc_fetcher := f (odbc_fetcher h)\<rparr>)
      in
      if ret \<noteq> SQL_SUCCESS then Some (ret, ds, h, m)
      else if attribute = SQL_ATTR_PARAMSET_SIZE then ok (set_apd_header (\<lambda>d. d\<lparr>sql_desc_array_size := v\<rparr>) h)
      else if attribute = SQL_ATTR_PARAM_BIND_TYPE then
        ok (if value_ptr \<noteq> nullptr then set_apd_header (\<lambda>d. d\<lparr>sql_desc_bind_type := wrap_s 32 v\<rparr>) h else h)
      else if attribute = SQL_ATTR_PARAMS_PROCESSED_PTR then
        (case SetParamProcessedPtr value_ptr (param_desc h) m of
           (p, m) \<Rightarrow> Some (SQL_SUCCESS, ds, h\<lparr>param_desc := p\<rparr>, m))
      else if attribute = SQL_ATTR_PARAM_STATUS_PTR then
        ok (h\<lparr>param_desc := SetArrayStatusPtr value_ptr (param_desc h)\<rparr>)
      else if attribute = SQL_ATTR_ROW_ARRAY_SIZE then
        if value_ptr \<noteq> nullptr then
          if v < 1 then Some (SQL_ERROR, ds, h, m)
          else ok (set_ard_header (\<lambda>d. d\<lparr>sql_desc_array_size := v\<rparr>) h)
        else ok h
      else if attribute = SQL_ATTR_ROWS_FETCHED_PTR then
        ok (set_ird_header (\<lambda>d. d\<lparr>sql_desc_rows_processed_ptr := value_ptr\<rparr>) (h\<lparr>rows_fetched_ptr := value_ptr\<rparr>))
      else if attribute = SQL_ATTR_ROW_BIND_TYPE then
        if value_ptr = nullptr then Some (SQL_ERROR, ds, h, m)
        else ok (set_ard_header (\<lambda>d. d\<lparr>sql_desc_bind_type := wrap_s 32 value_ptr\<rparr>) h)
      else if attribute = SQL_ATTR_ROW_STATUS_PTR then
        ok (set_ird_header (\<lambda>d. d\<lparr>sql_desc_array_status_ptr := value_ptr\<rparr>) h)
      else if attribute = SQL_ATTR_CURSOR_TYPE then ok (with_fetcher (\<lambda>f. f\<lparr>cursor_type := v\<rparr>))
      else if attribute = SQL_ATTR_APP_ROW_DESC then
        map_option (\<lambda>(ds, r). (SQL_SUCCESS, ds, h\<lparr>row_desc := r\<rparr>, m)) (SetCurrentARD value_ptr ds (row_desc h))
      else if attribute = SQL_ATTR_APP_PARAM_DESC then
        map_option (\<lambda>(ds, p). (SQL_SUCCESS, ds, h\<lparr>param_desc := p\<rparr>, m)) (SetCurrentAPD value_ptr ds (param_desc h))
      else if attribute \<in> {SQL_ATTR_IMP_PARAM_DESC, SQL_ATTR_IMP_ROW_DESC} then
        diag SQL_ERROR ''Option value changed:'' ST_HY017
      else if attribute = SQL_ATTR_PARAM_BIND_OFFSET_PTR then
        ok (h\<lparr>param_desc := SetBindOffesetPtr value_ptr (param_desc h)\<rparr>)
      else if attribute = SQL_ATTR_CONCURRENCY then
        if v \<noteq> SQL_CONCUR_LOCK then diag SQL_SUCCESS_WITH_INFO ''Option value changed:'' ST_01S02 else ok h
      else if attribute = SQL_ATTR_QUERY_TIMEOUT then ok h
      else if attribute = SQL_ATTR_RETRIEVE_DATA then
        if v = SQL_RD_ON \<or> v = SQL_RD_OFF then ok (h\<lparr>retrieve_data := v\<rparr>)
        else diag SQL_ERROR ''Invalid attribute value: '' ST_HY024
      else if attribute = SQL_ATTR_CURSOR_SCROLLABLE then
        if v = SQL_NONSCROLLABLE then
          ok (with_fetcher (\<lambda>f. f\<lparr>cursor_type := SQL_CURSOR_FORWARD_ONLY, cursor_scrollable := v\<rparr>))
        else if v = SQL_SCROLLABLE then
          ok (with_fetcher (\<lambda>f. f\<lparr>cursor_type := SQL_CURSOR_STATIC, cursor_scrollable := v\<rparr>))
        else diag SQL_ERROR ''Invalid attribute value:'' ST_HY024
      else if attribute = SQL_ATTR_MAX_LENGTH then ok (h\<lparr>client_max_len := v\<rparr>)
      else diag SQL_SUCCESS_WITH_INFO ''Option value changed:'' ST_01S02)"


section \<open>The attributes of a statement as a map\<close>

text \<open>The attributes that SQLGetStmtAttr delivers, with the size of their value.\<close>

definition stmt_attributes :: "(int \<times> nat) list" where
  "stmt_attributes = [(SQL_ATTR_PARAM_BIND_OFFSET_PTR, 8), (SQL_ATTR_PARAM_BIND_TYPE, 4),
     (SQL_ATTR_PARAMS_PROCESSED_PTR, 8), (SQL_ATTR_PARAMSET_SIZE, 8), (SQL_ATTR_ROW_ARRAY_SIZE, 8),
     (SQL_ATTR_ROWS_FETCHED_PTR, 8), (SQL_ATTR_ROW_BIND_TYPE, 8), (SQL_ATTR_ROW_STATUS_PTR, 8),
     (SQL_ATTR_CURSOR_TYPE, 8), (SQL_ATTR_RETRIEVE_DATA, 8), (SQL_ATTR_CURSOR_SCROLLABLE, 8),
     (SQL_ATTR_MAX_LENGTH, 8), (SQL_ATTR_CONCURRENCY, 8), (SQL_ATTR_QUERY_TIMEOUT, 4),
     (SQL_ATTR_APP_PARAM_DESC, 8), (SQL_ATTR_IMP_PARAM_DESC, 8), (SQL_ATTR_APP_ROW_DESC, 8),
     (SQL_ATTR_IMP_ROW_DESC, 8)]"

text \<open>Their values: one kind of concurrency, no timeout, and the handles of the four descriptors.\<close>

definition stmt_attribute :: "stmt_places \<Rightarrow> int \<Rightarrow> 'v OdbcHandleStmt \<Rightarrow> int" where
  "stmt_attribute pl a h =
     (if a = SQL_ATTR_PARAM_BIND_OFFSET_PTR then sql_desc_bind_offset_ptr (desc_header (apd (param_desc h)))
      else if a = SQL_ATTR_PARAM_BIND_TYPE then sql_desc_bind_type (desc_header (apd (param_desc h)))
      else if a = SQL_ATTR_PARAMS_PROCESSED_PTR then sql_desc_rows_processed_ptr (desc_header (ipd (param_desc h)))
      else if a = SQL_ATTR_PARAMSET_SIZE then sql_desc_array_size (desc_header (apd (param_desc h)))
      else if a = SQL_ATTR_ROW_ARRAY_SIZE then sql_desc_array_size (desc_header (ard (row_desc h)))
      else if a = SQL_ATTR_ROWS_FETCHED_PTR then rows_fetched_ptr h
      else if a = SQL_ATTR_ROW_BIND_TYPE then sql_desc_bind_type (desc_header (ard (row_desc h)))
      else if a = SQL_ATTR_ROW_STATUS_PTR then sql_desc_array_status_ptr (desc_header (ird (row_desc h)))
      else if a = SQL_ATTR_CURSOR_TYPE then cursor_type (odbc_fetcher h)
      else if a = SQL_ATTR_RETRIEVE_DATA then retrieve_data h
      else if a = SQL_ATTR_CURSOR_SCROLLABLE then cursor_scrollable (odbc_fetcher h)
      else if a = SQL_ATTR_MAX_LENGTH then client_max_len h
      else if a = SQL_ATTR_CONCURRENCY then SQL_CONCUR_LOCK
      else if a = SQL_ATTR_QUERY_TIMEOUT then 0
      else if a = SQL_ATTR_APP_PARAM_DESC then app_param_desc pl h
      else if a = SQL_ATTR_IMP_PARAM_DESC then place_ipd pl
      else if a = SQL_ATTR_APP_ROW_DESC then app_row_desc pl h
      else place_ird pl)"

text \<open>
  The value an attribute has after it was set to \<^verbatim>\<open>v\<close>, when it is stored at all: a zero is not stored as
  a kind of binding or as the size of a rowset, and a timeout or a concurrency never.
\<close>

definition stored_value :: "int \<Rightarrow> int \<Rightarrow> int option" where
  "stored_value a v =
     (if a \<in> {SQL_ATTR_PARAM_BIND_TYPE, SQL_ATTR_ROW_BIND_TYPE} then if v = 0 then None else Some (wrap_s 32 v)
      else if a = SQL_ATTR_ROW_ARRAY_SIZE then if v = 0 then None else Some v
      else if a \<in> {SQL_ATTR_RETRIEVE_DATA, SQL_ATTR_CURSOR_SCROLLABLE} then if v \<in> {0, 1} then Some v else None
      else if a \<in> {SQL_ATTR_PARAM_BIND_OFFSET_PTR, SQL_ATTR_PARAMS_PROCESSED_PTR, SQL_ATTR_PARAMSET_SIZE,
        SQL_ATTR_ROWS_FETCHED_PTR, SQL_ATTR_ROW_STATUS_PTR, SQL_ATTR_CURSOR_TYPE, SQL_ATTR_MAX_LENGTH} then Some v
      else None)"

text \<open>What the client is told: refused, accepted with a warning, or accepted, whether it has an effect or not.\<close>

definition attribute_return :: "int \<Rightarrow> int \<Rightarrow> int" where
  "attribute_return a v =
     (if stored_value a v \<noteq> None then SQL_SUCCESS
      else if a \<in> {SQL_ATTR_ROW_BIND_TYPE, SQL_ATTR_RETRIEVE_DATA, SQL_ATTR_CURSOR_SCROLLABLE,
        SQL_ATTR_IMP_PARAM_DESC, SQL_ATTR_IMP_ROW_DESC} then SQL_ERROR
      else if a \<in> {SQL_ATTR_PARAM_BIND_TYPE, SQL_ATTR_ROW_ARRAY_SIZE, SQL_ATTR_QUERY_TIMEOUT, SQL_ATTR_PARAM_STATUS_PTR} \<or>
        a = SQL_ATTR_CONCURRENCY \<and> v = SQL_CONCUR_LOCK then SQL_SUCCESS
      else SQL_SUCCESS_WITH_INFO)"

text \<open>The map after an attribute was set: scrollability decides on the type of the cursor too.\<close>

definition attribute_after :: "stmt_places \<Rightarrow> int \<Rightarrow> int \<Rightarrow> int \<Rightarrow> 'v OdbcHandleStmt \<Rightarrow> int" where
  "attribute_after pl a v b h =
     (case stored_value a v of
        None \<Rightarrow> stmt_attribute pl b h
      | Some w \<Rightarrow>
          if b = a then w
          else if a = SQL_ATTR_CURSOR_SCROLLABLE \<and> b = SQL_ATTR_CURSOR_TYPE then
            (if w = SQL_NONSCROLLABLE then SQL_CURSOR_FORWARD_ONLY else SQL_CURSOR_STATIC)
          else stmt_attribute pl b h)"

lemma stmt_attributes_cases [consumes 1]:
  assumes "(a, n) \<in> set stmt_attributes"
  obtains "a = 17" "n = 8" | "a = 18" "n = 4" | "a = 21" "n = 8" | "a = 22" "n = 8" | "a = 27" "n = 8"
    | "a = 26" "n = 8" | "a = 5" "n = 8" | "a = 25" "n = 8" | "a = 6" "n = 8" | "a = 11" "n = 8"
    | "a = - 1" "n = 8" | "a = 3" "n = 8" | "a = 7" "n = 8" | "a = 0" "n = 4"
    | "a = SQL_ATTR_APP_PARAM_DESC" "n = 8" | "a = SQL_ATTR_IMP_PARAM_DESC" "n = 8"
    | "a = SQL_ATTR_APP_ROW_DESC" "n = 8" | "a = SQL_ATTR_IMP_ROW_DESC" "n = 8"
  using assms by (auto simp: stmt_attributes_def)

lemma GetStmtAttr_reads:
  assumes "(b, n) \<in> set stmt_attributes" "q \<noteq> nullptr"
  shows "\<exists>h' m'. GetStmtAttrInternal pl True dsn b q l h m = Some (SQL_SUCCESS, h', m') \<and>
    load_u n q m' = stmt_attribute pl b h mod 256 ^ n"
  by (cases rule: stmt_attributes_cases[OF assms(1)];
      use assms(2) in \<open>simp add: GetStmtAttrInternal_def Let_def store_through_def stmt_attribute_def load_store_u
        app_param_desc_def app_row_desc_def\<close>)

text \<open>What setting an attribute does to the statement.\<close>

definition with_attribute :: "int \<Rightarrow> int \<Rightarrow> 'v OdbcHandleStmt \<Rightarrow> 'v OdbcHandleStmt" where
  "with_attribute a v h =
     (case stored_value a v of
        None \<Rightarrow> if a = SQL_ATTR_PARAM_STATUS_PTR then h\<lparr>param_desc := SetArrayStatusPtr v (param_desc h)\<rparr> else h
      | Some w \<Rightarrow>
          if a = SQL_ATTR_PARAM_BIND_OFFSET_PTR then h\<lparr>param_desc := SetBindOffesetPtr w (param_desc h)\<rparr>
          else if a = SQL_ATTR_PARAM_BIND_TYPE then set_apd_header (\<lambda>d. d\<lparr>sql_desc_bind_type := w\<rparr>) h
          else if a = SQL_ATTR_PARAMS_PROCESSED_PTR then
            h\<lparr>param_desc := fst (SetParamProcessedPtr w (param_desc h) (\<lambda>_. CHR 0x00))\<rparr>
          else if a = SQL_ATTR_PARAMSET_SIZE then set_apd_header (\<lambda>d. d\<lparr>sql_desc_array_size := w\<rparr>) h
          else if a = SQL_ATTR_ROW_ARRAY_SIZE then set_ard_header (\<lambda>d. d\<lparr>sql_desc_array_size := w\<rparr>) h
          else if a = SQL_ATTR_ROWS_FETCHED_PTR then
            set_ird_header (\<lambda>d. d\<lparr>sql_desc_rows_processed_ptr := w\<rparr>) (h\<lparr>rows_fetched_ptr := w\<rparr>)
          else if a = SQL_ATTR_ROW_BIND_TYPE then set_ard_header (\<lambda>d. d\<lparr>sql_desc_bind_type := w\<rparr>) h
          else if a = SQL_ATTR_ROW_STATUS_PTR then set_ird_header (\<lambda>d. d\<lparr>sql_desc_array_status_ptr := w\<rparr>) h
          else if a = SQL_ATTR_CURSOR_TYPE then h\<lparr>odbc_fetcher := (odbc_fetcher h)\<lparr>cursor_type := w\<rparr>\<rparr>
          else if a = SQL_ATTR_RETRIEVE_DATA then h\<lparr>retrieve_data := w\<rparr>
          else if a = SQL_ATTR_CURSOR_SCROLLABLE then
            h\<lparr>odbc_fetcher := (odbc_fetcher h)\<lparr>cursor_type :=
              (if w = SQL_NONSCROLLABLE then SQL_CURSOR_FORWARD_ONLY else SQL_CURSOR_STATIC), cursor_scrollable := w\<rparr>\<rparr>
          else h\<lparr>client_max_len := w\<rparr>)"

lemma stmt_diag_only: "stmt_diag h ret c msg st dsn = (r, h') \<Longrightarrow> r = ret \<and> (\<exists>d. h' = h\<lparr>st_diag := d\<rparr>)"
  by (auto simp: stmt_diag_def SetDiagnosticRecord_def Let_def)

lemma SetStmtAttr_with_attribute:
  assumes "a \<notin> {SQL_ATTR_APP_ROW_DESC, SQL_ATTR_APP_PARAM_DESC}" "in_u 64 v"
  shows "\<exists>h' m'. SetStmtAttrInternal True dsn a v ds h m = Some (attribute_return a v, ds, h', m') \<and>
    h'\<lparr>st_diag := st_diag h\<rparr> = with_attribute a v h"
proof (cases "a \<in> {17, 18, 21, 22, 27, 26, 5, 25, 6, 11, - 1, 3, 7, 0, 20, 10012, 10013}")
  case True
  then show ?thesis using assms(2)
    by (elim insertE emptyE)
      (auto simp: SetStmtAttrInternal_def Let_def stored_value_def attribute_return_def with_attribute_def
        SetParamProcessedPtr_def set_apd_header_def set_ard_header_def set_ird_header_def in_u_def
        dest!: stmt_diag_only split: prod.split)
next
  case False
  then show ?thesis using assms(1)
    by (auto simp: SetStmtAttrInternal_def Let_def stored_value_def attribute_return_def with_attribute_def
        dest!: stmt_diag_only split: prod.split)
qed

lemma stmt_attribute_with:
  assumes "(b, k) \<in> set stmt_attributes"
  shows "stmt_attribute pl b (with_attribute a v h) = attribute_after pl a v b h"
proof (cases "stored_value a v")
  case None
  then show ?thesis
    by (simp add: with_attribute_def attribute_after_def stmt_attribute_def SetArrayStatusPtr_def app_param_desc_def app_row_desc_def)
next
  case (Some w)
  then have "a \<in> {17, 18, 21, 22, 27, 26, 5, 25, 6, 11, - 1, 3}"
    by (auto simp: stored_value_def split: if_split_asm)
  with Some show ?thesis
    by (elim insertE emptyE; cases rule: stmt_attributes_cases[OF assms];
        simp add: with_attribute_def stmt_attribute_def attribute_after_def set_apd_header_def set_ard_header_def
          set_ird_header_def SetParamProcessedPtr_def SetBindOffesetPtr_def app_param_desc_def app_row_desc_def)
qed

lemma stmt_attribute_diag: "stmt_attribute pl b (h\<lparr>st_diag := d\<rparr>) = stmt_attribute pl b h"
  by (simp add: stmt_attribute_def app_param_desc_def app_row_desc_def)

text \<open>
  C28. Every attribute of a statement but the two application descriptors can be set to every value, and
  then SQLGetStmtAttr delivers every attribute it has: the one that was set has the new value exactly
  where the value is stored, in the size of the attribute; the scrollability of the cursor determines
  its type as well; and every other attribute is what it was. A zero for the kind of binding or the
  size of a rowset, and every timeout, are not stored. SQL\_ATTR\_PARAM\_STATUS\_PTR can be set and not be got.
\<close>

theorem stmt_attributes_independent:
  assumes "a \<notin> {SQL_ATTR_APP_ROW_DESC, SQL_ATTR_APP_PARAM_DESC}" "in_u 64 v" "(b, k) \<in> set stmt_attributes" "q \<noteq> nullptr"
  shows "\<exists>h1 m1 h2 m2. SetStmtAttrInternal True dsn a v ds h m = Some (attribute_return a v, ds, h1, m1) \<and>
    GetStmtAttrInternal pl True dsn b q len h1 m1 = Some (SQL_SUCCESS, h2, m2) \<and>
    load_u k q m2 = attribute_after pl a v b h mod 256 ^ k"
proof -
  obtain h1 m1 where set: "SetStmtAttrInternal True dsn a v ds h m = Some (attribute_return a v, ds, h1, m1)"
    "h1\<lparr>st_diag := st_diag h\<rparr> = with_attribute a v h"
    using SetStmtAttr_with_attribute[OF assms(1,2)] by blast
  have "stmt_attribute pl b h1 = attribute_after pl a v b h"
    using stmt_attribute_with[OF assms(3), of pl a v h] stmt_attribute_diag[of pl b "st_diag h" h1] set(2) by simp
  then show ?thesis using set(1) GetStmtAttr_reads[OF assms(3,4), of pl dsn len h1 m1] by auto
qed

theorem stmt_attributes_independent_witness:
  "\<forall>h :: string OdbcHandleStmt. \<exists>h1 m1 h2 m2.
    SetStmtAttrInternal True [] SQL_ATTR_CURSOR_SCROLLABLE 1 Map.empty h (\<lambda>_. CHR 0x00) =
      Some (SQL_SUCCESS, Map.empty, h1, m1) \<and>
    GetStmtAttrInternal \<lparr>place_apd = 1, place_ipd = 2, place_ard = 3, place_ird = 4\<rparr> True []
      SQL_ATTR_CURSOR_TYPE 64 0 h1 m1 = Some (SQL_SUCCESS, h2, m2) \<and> load_u 8 64 m2 = SQL_CURSOR_STATIC"
proof
  fix h :: "string OdbcHandleStmt"
  let ?pl = "\<lparr>place_apd = 1, place_ipd = 2, place_ard = 3, place_ird = 4\<rparr>"
  have after: "attribute_after ?pl SQL_ATTR_CURSOR_SCROLLABLE 1 SQL_ATTR_CURSOR_TYPE h mod 256 ^ 8 = SQL_CURSOR_STATIC"
    "attribute_return SQL_ATTR_CURSOR_SCROLLABLE 1 = SQL_SUCCESS"
    by (simp_all add: attribute_after_def stored_value_def attribute_return_def)
  show "\<exists>h1 m1 h2 m2.
    SetStmtAttrInternal True [] SQL_ATTR_CURSOR_SCROLLABLE 1 Map.empty h (\<lambda>_. CHR 0x00) =
      Some (SQL_SUCCESS, Map.empty, h1, m1) \<and>
    GetStmtAttrInternal ?pl True [] SQL_ATTR_CURSOR_TYPE 64 0 h1 m1 = Some (SQL_SUCCESS, h2, m2) \<and>
    load_u 8 64 m2 = SQL_CURSOR_STATIC"
    using stmt_attributes_independent[of SQL_ATTR_CURSOR_SCROLLABLE 1 SQL_ATTR_CURSOR_TYPE 8 64 "[]" Map.empty h
        "\<lambda>_. CHR 0x00" ?pl 0]
    unfolding after by (simp add: stmt_attributes_def in_u_def)
qed

section \<open>Attributes that are not what they seem\<close>

text \<open>The connection attribute SQL\_ATTR\_METADATA\_ID is accepted and ignored.\<close>

lemma metadata_id_ignored:
  assumes "dbc_conn dbc = Some c"
  shows "SetConnectAttrInternal st SQL_ATTR_METADATA_ID v dbc =
    Some (SQL_SUCCESS, dbc\<lparr>dbc_diag := Clean (dbc_diag dbc)\<rparr>)"
  using assms by (simp add: SetConnectAttrInternal_def ConvertConnection_def ignored_attributes_def)

text \<open>Binding by column, which is 0, cannot be set again once rows were bound by row.\<close>

lemma bind_by_column_refused:
  "SetStmtAttrInternal True dsn SQL_ATTR_ROW_BIND_TYPE SQL_BIND_BY_COLUMN ds h m =
     Some (SQL_ERROR, ds, h\<lparr>st_diag := Clean (st_diag h)\<rparr>, m)"
  by (simp add: SetStmtAttrInternal_def)

text \<open>The null handle, which ODBC gives the meaning of the implicit descriptor, is dereferenced.\<close>

lemma null_descriptor_crashes:
  assumes "ds nullptr = None"
  shows "SetStmtAttrInternal True dsn SQL_ATTR_APP_ROW_DESC nullptr ds h m = None"
  using assms by (simp add: SetStmtAttrInternal_def SetCurrentARD_def)

text \<open>A scrollable type of cursor does not make the cursor scrollable.\<close>

lemma cursor_type_leaves_scrollable:
  "SetStmtAttrInternal True dsn SQL_ATTR_CURSOR_TYPE SQL_CURSOR_STATIC ds h m =
     Some (SQL_SUCCESS, ds, h\<lparr>st_diag := Clean (st_diag h),
       odbc_fetcher := (odbc_fetcher h)\<lparr>cursor_type := SQL_CURSOR_STATIC\<rparr>\<rparr>, m)"
  by (simp add: SetStmtAttrInternal_def in_u_def)

section \<open>Environment attributes\<close>

lemma odbc_version_roundtrip:
  assumes "env_db env \<noteq> nullptr" "v = 3 \<or> v = 2 \<or> v = 380" "q \<noteq> nullptr"
  shows "\<exists>env'. SQLSetEnvAttr SQL_ATTR_ODBC_VERSION v env = (SQL_SUCCESS, env') \<and>
    (\<exists>m'. SQLGetEnvAttr SQL_ATTR_ODBC_VERSION q env' m = (SQL_SUCCESS, env', m') \<and>
      load_s 4 q m' = (if v = 2 then SQL_OV_ODBC2 else SQL_OV_ODBC3))"
  using assms
  by (auto simp: SQLSetEnvAttr_def SQLGetEnvAttr_def ConvertEnvironment_def ExtractMajorVersion_def Let_def
      load_store_s in_s_def in_u_def)

end
