(* ===== verification/Handle_Links.thy ===== *)
theory Handle_Links
  imports Statement_Api Attribute_Api
begin

text \<open>
  What ties a statement to the other handles: its connection and the explicit descriptors it uses. No
  handler of a statement changes these links, except SQLSetStmtAttr when it makes a descriptor the
  current one, and none changes the connection an explicit descriptor belongs to. The lemmas follow
  the handlers from the bottom.
\<close>

definition links :: "'v OdbcHandleStmt \<Rightarrow> addr \<times> addr option \<times> addr option" where
  "links h = (st_dbc h, cur_ard (row_desc h), cur_apd (param_desc h))"

definition store_links :: "desc_store \<Rightarrow> addr \<Rightarrow> addr option" where
  "store_links ds a = map_option desc_dbc (ds a)"

named_theorems link_dests \<open>handlers keep the links\<close>

lemma links_frame [simp]:
  "links (h\<lparr>odbc_fetcher := f\<rparr>) = links h"
  "links (h\<lparr>st_res := r\<rparr>) = links h"
  "links (h\<lparr>st_stmt := s\<rparr>) = links h"
  "links (h\<lparr>st_open := b\<rparr>) = links h"
  "links (h\<lparr>st_diag := g\<rparr>) = links h"
  "links (h\<lparr>bound_cols := bs\<rparr>) = links h"
  "links (h\<lparr>retrieve_data := i\<rparr>) = links h"
  "links (h\<lparr>rows_fetched_ptr := i\<rparr>) = links h"
  "links (h\<lparr>client_max_len := i\<rparr>) = links h"
  "cur_apd p = cur_apd (param_desc h) \<Longrightarrow> links (h\<lparr>param_desc := p\<rparr>) = links h"
  "cur_ard q = cur_ard (row_desc h) \<Longrightarrow> links (h\<lparr>row_desc := q\<rparr>) = links h"
  by (simp_all add: links_def)

lemma links_stmt_diag [simp]: "links (snd (stmt_diag h ret c msg st dsn)) = links h"
  by (simp add: stmt_diag_def SetDiagnosticRecord_def Let_def)

lemma stmt_diag_links [link_dests]: "stmt_diag h ret c msg st dsn = (r, h') \<Longrightarrow> links h' = links h"
  using links_stmt_diag[of h ret c msg st dsn] by simp

lemma fail_diag_links [link_dests]: "fail_diag dsn h m ret c msg st = Some (r, h', m') \<Longrightarrow> links h' = links h"
  by (auto simp: fail_diag_def dest: stmt_diag_links split: prod.splits)

lemma ConvertHSTMT_links [link_dests]: "ConvertHSTMT conn h = (r, h') \<Longrightarrow> links h' = links h"
  by (auto simp: ConvertHSTMT_def dest: stmt_diag_links split: if_split_asm)

lemma ConvertHSTMTPrepared_links [link_dests]: "ConvertHSTMTPrepared conn dsn h = (r, h') \<Longrightarrow> links h' = links h"
  by (auto simp: ConvertHSTMTPrepared_def dest!: stmt_diag_links ConvertHSTMT_links
      split: if_split_asm prod.splits option.splits)

lemma ConvertHSTMTResult_links [link_dests]: "ConvertHSTMTResult conn dsn h = Some (r, h') \<Longrightarrow> links h' = links h"
  by (auto simp: ConvertHSTMTResult_def dest!: stmt_diag_links ConvertHSTMT_links
      split: if_split_asm prod.splits option.splits)

section \<open>The fetcher\<close>

lemma FetchNext_links [link_dests]: "FetchNext dsn h = Some (r, h') \<Longrightarrow> links h' = links h"
  by (auto simp: FetchNext_def Let_def bind_eq_Some_conv dest!: stmt_diag_links
      split: if_split_asm option.splits prod.splits sum.splits)

lemma SetFirstCurrentChunk_links [link_dests]: "SetFirstCurrentChunk dsn h = Some (r, h') \<Longrightarrow> links h' = links h"
  by (auto simp: SetFirstCurrentChunk_def Let_def dest!: FetchNext_links split: if_split_asm)

lemma if_SomeE: "(if b then x else y) = Some z \<Longrightarrow> (x = Some z \<Longrightarrow> R) \<Longrightarrow> (y = Some z \<Longrightarrow> R) \<Longrightarrow> R"
  by (cases b) auto

lemma bind_SomeE: "Option.bind x f = Some z \<Longrightarrow> (\<And>a. x = Some a \<Longrightarrow> f a = Some z \<Longrightarrow> R) \<Longrightarrow> R"
  by (cases x) auto

lemma SetAbsoluteCurrentChunk_links_pair:
  "SetAbsoluteCurrentChunk dsn off h = Some y \<Longrightarrow> links (snd y) = links h"
proof (induction rule: SetAbsoluteCurrentChunk.raw_induct[rotated, consumes 1, case_names step])
  case (step f dsn off h y)
  from step(2) show ?case
    unfolding Let_def BeforeStart_def prod.case
    by (elim bind_SomeE if_SomeE) (auto dest!: FetchNext_links step(1))
qed

lemma SetAbsoluteCurrentChunk_links [link_dests]:
  "SetAbsoluteCurrentChunk dsn off h = Some (r, h') \<Longrightarrow> links h' = links h"
  using SetAbsoluteCurrentChunk_links_pair by fastforce

lemma FetchNextChunk_links [link_dests]: "FetchNextChunk dsn ori off h = Some (r, h') \<Longrightarrow> links h' = links h"
  by (auto simp: FetchNextChunk_def Let_def bind_eq_Some_conv
      dest!: FetchNext_links SetAbsoluteCurrentChunk_links SetFirstCurrentChunk_links stmt_diag_links
      split: if_split_asm prod.splits)

lemma FetchFirst_links [link_dests]: "FetchFirst dsn h = Some (r, h') \<Longrightarrow> links h' = links h"
  by (auto simp: FetchFirst_def Let_def bind_eq_Some_conv dest!: FetchNextChunk_links split: prod.splits)

section \<open>Values\<close>

lemma GetVariableValue_links [link_dests]:
  "GetVariableValue dsn n col p len ind buf nt h m = Some (r, h', m') \<Longrightarrow> links h' = links h"
  by (auto simp: GetVariableValue_def Let_def dest!: fail_diag_links stmt_diag_links split: if_split_asm prod.splits)

lemma local_timestamp_links [link_dests]: "local_timestamp eng dsn v h = (v', h') \<Longrightarrow> links h' = links h"
  by (auto simp: local_timestamp_def Let_def split: if_split_asm sum.splits prod.splits)

lemma GetInternalValue_links [link_dests]:
  "GetInternalValue eng dsn n val type p ind h m = Some (r, h', m') \<Longrightarrow> links h' = links h"
  by (auto simp: GetInternalValue_def dest!: fail_diag_links split: sum.splits)

lemma ThrowInvalidCast_links [link_dests]:
  "ThrowInvalidCast eng dsn cmp ft tt h m = Some (r, h', m') \<Longrightarrow> links h' = links h"
  by (auto simp: ThrowInvalidCast_def dest!: fail_diag_links)

lemma ValidateType_links [link_dests]: "ValidateType eng dsn a b h = (r, h') \<Longrightarrow> links h' = links h"
  by (auto simp: ValidateType_def dest!: stmt_diag_links split: if_split_asm)

lemma CastTimestampValue_links [link_dests]:
  "CastTimestampValue eng dsn co val t f h = (b, t', h') \<Longrightarrow> links h' = links h"
  by (auto simp: CastTimestampValue_def Let_def dest!: stmt_diag_links split: sum.splits prod.splits)

lemma GetNumeric_links [link_dests]: "GetNumeric eng dsn val p ind h m = Some (r, h', m') \<Longrightarrow> links h' = links h"
  by (auto simp: GetNumeric_def Let_def dest!: fail_diag_links ThrowInvalidCast_links ValidateType_links
      split: if_split_asm option.splits prod.splits)

lemma GetDateOrTime_links [link_dests]:
  "GetDateOrTime eng dsn ty a b st val p ind h m = Some (r, h', m') \<Longrightarrow> links h' = links h"
  by (auto simp: GetDateOrTime_def Let_def dest!: fail_diag_links ThrowInvalidCast_links ValidateType_links CastTimestampValue_links
      split: if_split_asm option.splits prod.splits)

lemma GetTimestamp_links [link_dests]:
  "GetTimestamp eng dsn val p ind h m = Some (r, h', m') \<Longrightarrow> links h' = links h"
  by (auto simp: GetTimestamp_def Let_def bind_eq_Some_conv dest!: fail_diag_links ThrowInvalidCast_links ValidateType_links CastTimestampValue_links
      split: if_split_asm option.splits prod.splits sum.splits)

lemma GetIntervalData_links [link_dests]:
  "GetIntervalData eng dsn setter val p ind h m = Some (r, h', m') \<Longrightarrow> links h' = links h"
  by (auto simp: GetIntervalData_def GetInterval_def Let_def dest!: fail_diag_links ThrowInvalidCast_links ValidateType_links
      split: if_split_asm option.splits prod.splits)

lemma GetDataStmtResult_links [link_dests]:
  assumes "GetDataStmtResult eng dsn col ty p len ind h m = Some (r, h', m')"
  shows "links h' = links h"
  using assms unfolding GetDataStmtResult_def Let_def
  by (elim bind_SomeE if_SomeE)
    (auto dest!: link_dests split: option.splits prod.splits if_split_asm sum.splits)

section \<open>Rows\<close>

lemma fetch_columns_links:
  "fetch_columns eng dsn b t i cols ret h m = Some (r, h', m') \<Longrightarrow> links h' = links h"
proof (induction cols arbitrary: ret h m)
  case (Cons c cols)
  from Cons.prems show ?case
    unfolding fetch_columns.simps Let_def
    by (elim if_SomeE bind_SomeE) (auto dest!: Cons.IH GetDataStmtResult_links split: prod.splits)
qed simp

lemma fetch_rows_links:
  "fetch_rows eng dsn b t rows ret h m = Some (r, h', m') \<Longrightarrow> links h' = links h"
proof (induction rows arbitrary: ret h m)
  case (Cons c rows)
  let ?h = "h\<lparr>odbc_fetcher := (odbc_fetcher h)\<lparr>chunk_row := chunk_row (odbc_fetcher h) + 1\<rparr>\<rparr>"
  obtain s ret1 h1 m1 where
    row: "fetch_columns eng dsn b (t c) c [0..<ColumnCount s] ret ?h (SetRowStatus c SQL_SUCCESS ?h m) = Some (ret1, h1, m1)"
    and rest: "fetch_rows eng dsn b t rows ret1 h1 m1 = Some (r, h', m')"
    using Cons.prems by (auto simp: Let_def bind_eq_Some_conv)
  show ?case using Cons.IH[OF rest] fetch_columns_links[OF row] by simp
qed simp

lemma ColumnWise_links: "ColumnWise eng dsn h m = Some (r, h', m') \<Longrightarrow> links h' = links h"
  by (auto simp: ColumnWise_def Let_def bind_eq_Some_conv dest!: fetch_rows_links)

lemma RowWise_links: "RowWise eng dsn h m = Some (r, h', m') \<Longrightarrow> links h' = links h"
  by (auto simp: RowWise_def Let_def bind_eq_Some_conv dest!: fetch_rows_links)

lemma count_rows_links: "count_rows h = Some h' \<Longrightarrow> links h' = links h"
  by (auto simp: count_rows_def)

lemma Fetch_links [link_dests]:
  assumes "Fetch eng dsn ori off h m = Some (r, h', m')"
  shows "links h' = links h"
proof -
  obtain r1 h1 where n: "FetchNextChunk dsn ori off h = Some (r1, h1)"
    using assms by (auto simp: Fetch_def bind_eq_Some_conv)
  from assms show ?thesis
    unfolding Fetch_def n bind.bind_lunit prod.case Let_def
    using FetchNextChunk_links[OF n]
    by (elim if_SomeE bind_SomeE; simp only: split_beta prod.sel; elim if_SomeE bind_SomeE)
      (auto dest!: ColumnWise_links RowWise_links count_rows_links)
qed

lemma FetchStmtResult_links [link_dests]:
  "FetchStmtResult eng dsn ori off h m = Some (r, h', m') \<Longrightarrow> links h' = links h"
  by (auto simp: FetchStmtResult_def dest!: Fetch_links split: if_split_asm)

section \<open>Parameters\<close>

lemma store_links_upd [simp]:
  "ds a = Some d \<Longrightarrow> desc_dbc d' = desc_dbc d \<Longrightarrow> store_links (ds(a \<mapsto> d')) = store_links ds"
  by (auto simp: store_links_def fun_eq_iff)

text \<open>A descriptor put back where it was taken from, with its connection unchanged.\<close>

lemma put_apd_links:
  assumes "put_apd d' ds p = (ds', p')" "GetAPD ds q = Some d" "cur_apd q = cur_apd p" "desc_dbc d' = desc_dbc d"
  shows "store_links ds' = store_links ds \<and> cur_apd p' = cur_apd p"
  using assms by (auto simp: put_apd_def GetAPD_def current_desc_def split: option.splits)

lemma AddMoreRecords_dbc: "AddMoreRecords junk n d = Some d' \<Longrightarrow> desc_dbc d' = desc_dbc d"
  by (auto simp: AddMoreRecords_def split: if_split_asm)

lemma GetDescRecord_dbc [simp]: "desc_dbc (GetDescRecord junk i d) = desc_dbc d"
  by (simp add: GetDescRecord_def Let_def)

lemma SetDescHeaderField_dbc: "SetDescHeaderField t dsn f p m d = Some (r, d') \<Longrightarrow> desc_dbc d' = desc_dbc d"
  unfolding SetDescHeaderField_def set_header_def
  by (elim if_SomeE bind_SomeE) (auto dest!: sym[of "(_, _)"] simp: prod_eq_iff)

lemma set_checked_type_dbc: "set_checked_type dsn i ty d = Some (r, d') \<Longrightarrow> desc_dbc d' = desc_dbc d"
  by (auto simp: set_checked_type_def set_record_def prod_eq_iff split: prod.splits if_split_asm
      dest!: arg_cong[of _ _ snd])

lemma ResetParams_links:
  assumes "ResetParams junk n ds p = Some (ds', p')"
  shows "store_links ds' = store_links ds \<and> cur_apd p' = cur_apd p"
proof -
  obtain i d d' where i: "AddMoreRecords junk n (ipd p) = Some i"
    and d: "GetAPD ds (p\<lparr>pool_allocated_ptr := [], ipd := i\<rparr>) = Some d" "AddMoreRecords junk n d = Some d'"
    and put: "put_apd d' ds (p\<lparr>pool_allocated_ptr := [], ipd := i\<rparr>) = (ds', p')"
    using assms by (auto simp: ResetParams_def Let_def bind_eq_Some_conv)
  show ?thesis using put_apd_links[OF put d(1) _ AddMoreRecords_dbc[OF d(2)]] by simp
qed

lemma ParameterDescriptor_Reset_links:
  assumes "ParameterDescriptor_Reset ds p = Some (ds', p')"
  shows "store_links ds' = store_links ds \<and> cur_apd p' = cur_apd p"
  using assms
  by (auto simp: ParameterDescriptor_Reset_def Let_def with_count_def split: option.splits prod.splits
      dest!: put_apd_links)

lemma ParameterDescriptor_Clear_links:
  assumes "ParameterDescriptor_Clear ds p = Some (ds', p')"
  shows "store_links ds' = store_links ds \<and> cur_apd p' = cur_apd p"
proof -
  let ?p = "p\<lparr>ipd := OdbcHandleDesc_Reset (ipd p)\<rparr>"
  obtain d ds1 p1 where d: "GetAPD ds ?p = Some d" and put: "put_apd (OdbcHandleDesc_Reset d) ds ?p = (ds1, p1)"
    and r: "ParameterDescriptor_Reset ds1 p1 = Some (ds', p')"
    using assms by (auto simp: ParameterDescriptor_Clear_def Let_def split: option.splits prod.splits)
  show ?thesis
    using put_apd_links[OF put d] ParameterDescriptor_Reset_links[OF r] by (simp add: OdbcHandleDesc_Reset_def)
qed

lemma SetValue_apd: "SetValue valid i cur p m = Some (r, p', m') \<Longrightarrow> cur_apd p' = cur_apd p"
  unfolding SetValue_def Let_def
  by (elim if_SomeE) (auto split: option.splits prod.splits sum.splits if_split_asm)

lemma get_values_links: "get_values valid dsn i n cur vals h m = Some (r, vs, h', m') \<Longrightarrow> links h' = links h"
proof (induction n arbitrary: i vals h m)
  case 0
  then show ?case by (auto simp: SetParamIndex_def Let_def split: if_split_asm)
next
  case (Suc n)
  obtain r1 p m1 where v: "SetValue valid i cur (param_desc h) m = Some (r1, p, m1)"
    using Suc.prems by (auto split: option.splits)
  show ?case
    using Suc.prems SetValue_apd[OF v]
    by (auto simp: v Let_def dest!: Suc.IH split: if_split_asm)
qed

lemma GetParamValues_links [link_dests]:
  "GetParamValues valid dsn ds h m = Some (r, vs, h', m') \<Longrightarrow> links h' = links h"
  by (auto simp: GetParamValues_def Let_def dest!: get_values_links split: if_split_asm option.splits)

lemma SetSQLDescDataPtr_dbc: "SetSQLDescDataPtr m a i d = Some d' \<Longrightarrow> desc_dbc d' = desc_dbc d"
  by (auto simp: SetSQLDescDataPtr_def split: if_split_asm)

lemma FillParamCharDataBuffer_links:
  "FillParamCharDataBuffer alloc i a n cur p m = Some (r, cur', p', m') \<Longrightarrow>
   desc_dbc cur' = desc_dbc cur \<and> cur_apd p' = cur_apd p"
  unfolding FillParamCharDataBuffer_def Let_def
  by (elim if_SomeE bind_SomeE)
    (auto dest!: SetSQLDescDataPtr_dbc split: if_split_asm prod.splits)

lemma FillCurParamCharSet_links:
  "FillCurParamCharSet alloc i a n cur p m = Some (r, cur', p', m') \<Longrightarrow>
   desc_dbc cur' = desc_dbc cur \<and> cur_apd p' = cur_apd p"
  unfolding FillCurParamCharSet_def Let_def
  by (elim if_SomeE bind_SomeE)
    (auto dest!: SetSQLDescDataPtr_dbc split: if_split_asm prod.splits)

lemma PutData_links:
  assumes "PutData alloc a n ds p m = Some (r, ds', p', m')"
  shows "store_links ds' = store_links ds \<and> cur_apd p' = cur_apd p"
proof -
  obtain d where d: "GetAPD ds p = Some d" using assms by (auto simp: PutData_def bind_eq_Some_conv)
  from assms show ?thesis
    unfolding PutData_def d bind.bind_lunit Let_def
    by (elim if_SomeE bind_SomeE)
      (auto dest!: put_apd_links[OF _ d] FillParamCharDataBuffer_links FillCurParamCharSet_links
        SetSQLDescDataPtr_dbc split: prod.splits)
qed

section \<open>Execution\<close>

lemma FillIRD_links [link_dests]: "FillIRD pn cat junk h = Some h' \<Longrightarrow> links h' = links h"
  by (auto simp: FillIRD_def Let_def split: if_split_asm option.splits)

lemma FinalizeStmt_links:
  assumes "FinalizeStmt sql dsn ds h = Some (r, ds', h')"
  shows "links h' = links h \<and> store_links ds' = store_links ds"
proof -
  obtain stmt where s: "st_stmt h = Some stmt" using assms by (auto simp: FinalizeStmt_def bind_eq_Some_conv)
  show ?thesis
  proof (cases "ps_error stmt")
    case (Some msg)
    then show ?thesis using assms s
      by (auto simp: FinalizeStmt_def dest!: stmt_diag_links split: prod.splits)
  next
    case None
    obtain ret h1 where h1: "(if \<not> bound_all_parameters stmt then
                 stmt_diag (h\<lparr>st_stmt := Some (stmt\<lparr>ps_types := [], ps_names := []\<rparr>)\<rparr>) SQL_SUCCESS_WITH_INFO
                   ''PrepareStmt'' ''Not all parameters are bound'' ST_01000 dsn
               else (SQL_SUCCESS, h)) = (ret, h1)" by (metis surj_pair)
    have l1: "links h1 = links h" using h1 by (auto dest!: stmt_diag_links split: if_split_asm)
    obtain ds1 p1 s1 h2 where r: "ResetParams (sql_junk sql) (wrap_s 16 (int (named_param_count stmt))) ds (param_desc h1) = Some (ds1, p1)"
      and f: "fill_ird sql (h1\<lparr>param_desc := p1, bound_cols := resize_bound (ColumnCount s1) (bound_cols h1)\<rparr>) = Some h2"
      and e: "ds' = ds1" "h' = h2"
      using assms s None h1 by (auto simp: FinalizeStmt_def bind_eq_Some_conv split: prod.splits)
    show ?thesis using ResetParams_links[OF r] FillIRD_links[OF f[unfolded fill_ird_def]] l1 e by simp
  qed
qed

lemma SingleExecuteStmt_links [link_dests]:
  assumes "SingleExecuteStmt sql dsn ds h m db = Some (r, h', m', db')"
  shows "links h' = links h"
proof -
  let ?h = "h\<lparr>st_res := None, odbc_fetcher := ClearChunks (odbc_fetcher h), st_open := False\<rparr>"
  obtain r1 vs h1 m1 where v: "GetParamValues (sql_valid sql) dsn ds ?h (store_opt 8 (rows_fetched_ptr h) 0 m) = Some (r1, vs, h1, m1)"
    using assms by (auto simp: SingleExecuteStmt_def Let_def bind_eq_Some_conv)
  from assms show ?thesis
    using GetParamValues_links[OF v]
    by (auto simp: SingleExecuteStmt_def Let_def v bind_eq_Some_conv split_beta
        split: if_split_asm option.splits)
qed

lemma batch_loop_links_all:
  "batch_loop sql dsn ds h m db = Some y \<Longrightarrow> (\<forall>r h' m' db'. y = Some (r, h', m', db') \<longrightarrow> links h' = links h)"
proof (induction rule: batch_loop.raw_induct[rotated, consumes 1, case_names step])
  case (step f sql dsn ds h m db y)
  show ?case
  proof (cases "SingleExecuteStmt sql dsn ds h m db")
    case None
    then show ?thesis using step(2) by auto
  next
    case (Some a)
    obtain r1 h1 m1 db1 where a: "a = (r1, h1, m1, db1)" by (cases a) auto
    have l: "links h1 = links h" using SingleExecuteStmt_links[OF Some[unfolded a]] .
    show ?thesis
    proof (cases "r1 = SQL_STILL_EXECUTING")
      case True
      then have "f sql dsn ds h1 m1 db1 = Some y" using step(2) Some a by simp
      from step(1)[OF this] show ?thesis using l by simp
    next
      case False
      then show ?thesis using step(2) Some a l by auto
    qed
  qed
qed

lemma after_batch_links [link_dests]: "after_batch sql dsn ret h = Some (r, h') \<Longrightarrow> links h' = links h"
  by (auto simp: after_batch_def Let_def bind_eq_Some_conv fill_ird_def dest!: FetchFirst_links FillIRD_links
      split: if_split_asm)

lemma BatchExecuteStmt_links [link_dests]:
  assumes "BatchExecuteStmt sql dsn ds h m db = Some (Some (r, h', m', db'))"
  shows "links h' = links h"
proof -
  obtain r1 h1 where b: "batch_loop sql dsn ds h m db = Some (Some (r1, h1, m', db'))"
    and a: "after_batch sql dsn r1 h1 = Some (r, h')"
    using assms by (auto simp: BatchExecuteStmt_def split: option.splits)
  show ?thesis using batch_loop_links_all[OF b] after_batch_links[OF a] by simp
qed

lemma exec_statements_links:
  "exec_statements sql dsn info ret qs ds h m db = Some (Some (r, ds', h', m', db')) \<Longrightarrow>
   links h' = links h \<and> store_links ds' = store_links ds"
proof (induction qs arbitrary: info ret ds h m db)
  case (Cons q qs)
  let ?h = "h\<lparr>st_stmt := Some (sql_prepare_statement sql q db)\<rparr>"
  obtain r1 ds1 h1 where f: "FinalizeStmt sql dsn ds ?h = Some (r1, ds1, h1)"
    using Cons.prems by (auto split: option.splits)
  have l1: "links h1 = links h \<and> store_links ds1 = store_links ds" using FinalizeStmt_links[OF f] by simp
  show ?case
  proof (cases "SQL_SUCCEEDED r1")
    case False
    then show ?thesis using Cons.prems f l1 by simp
  next
    case True
    obtain r2 h2 m2 db2 where b: "BatchExecuteStmt sql dsn ds1 h1 m db = Some (Some (r2, h2, m2, db2))"
      using Cons.prems f True by (auto simp: Let_def split: option.splits)
    have l2: "links h2 = links h1" using BatchExecuteStmt_links[OF b] .
    show ?thesis
    proof (cases "SQL_SUCCEEDED r2")
      case False
      then show ?thesis using Cons.prems f True b l1 l2 by simp
    next
      case succ: True
      have "exec_statements sql dsn (info \<or> r1 = SQL_SUCCESS_WITH_INFO \<or> r2 = SQL_SUCCESS_WITH_INFO) r2 qs ds1 h2 m2 db2 =
          Some (Some (r, ds', h', m', db'))"
        using Cons.prems f True b succ by (simp add: disj_assoc)
      from Cons.IH[OF this] show ?thesis using l1 l2 by simp
    qed
  qed
qed auto

lemma ExecDirectStmt_links:
  "ExecDirectStmt sql dsn q ds h m db = Some (Some (r, ds', h', m', db')) \<Longrightarrow>
   links h' = links h \<and> store_links ds' = store_links ds"
  by (auto simp: ExecDirectStmt_def PrepareQuery_def Let_def dest!: exec_statements_links stmt_diag_links
      split: sum.splits prod.splits)

section \<open>The handlers\<close>

lemma SQLPrepare_links:
  "SQLPrepare sql conn dsn a n ds h m db = Some (r, ds', h', m', db') \<Longrightarrow>
   links h' = links h \<and> store_links ds' = store_links ds"
  by (auto simp: SQLPrepare_def PrepareQuery_def bind_eq_Some_conv dest!: ConvertHSTMT_links FinalizeStmt_links
      split: if_split_asm prod.splits)

lemma SQLPrepareW_links:
  "SQLPrepareW sql conn dsn vec a n ds h m db = Some (r, ds', h', m', db') \<Longrightarrow>
   links h' = links h \<and> store_links ds' = store_links ds"
  by (auto simp: SQLPrepareW_def bind_eq_Some_conv split_beta dest!: SQLPrepare_links)

lemma SQLExecute_links:
  "SQLExecute sql conn dsn ds h m db = Some (Some (r, h', m', db')) \<Longrightarrow> links h' = links h"
  by (auto simp: SQLExecute_def dest!: ConvertHSTMT_links BatchExecuteStmt_links split: if_split_asm prod.splits)

lemma SQLExecDirect_links:
  "SQLExecDirect sql conn dsn a n ds h m db = Some (Some (r, ds', h', m', db')) \<Longrightarrow>
   links h' = links h \<and> store_links ds' = store_links ds"
  by (auto simp: SQLExecDirect_def dest!: ConvertHSTMT_links ExecDirectStmt_links
      split: if_split_asm prod.splits option.splits)

lemma SQLExecDirectW_links:
  "SQLExecDirectW sql conn dsn vec a n ds h m db = Some (Some (r, ds', h', m', db')) \<Longrightarrow>
   links h' = links h \<and> store_links ds' = store_links ds"
  by (auto simp: SQLExecDirectW_def split_beta dest!: SQLExecDirect_links split: option.splits)

lemma SQLCancel_links: "SQLCancel sql conn h db = (r, h', db') \<Longrightarrow> links h' = links h"
  by (auto simp: SQLCancel_def dest!: ConvertHSTMT_links split: if_split_asm prod.splits)

lemma ExecuteBeforeFetch_links:
  "ExecuteBeforeFetch sql conn dsn ds h m db = Some (r, h', m', db') \<Longrightarrow> links h' = links h"
  by (auto simp: ExecuteBeforeFetch_def bind_eq_Some_conv
      dest!: ConvertHSTMTPrepared_links SingleExecuteStmt_links split: if_split_asm prod.splits)

lemma SQLFetch_links: "SQLFetch eng sql conn dsn ds h m db = Some (r, h', m', db') \<Longrightarrow> links h' = links h"
  by (auto simp: SQLFetch_def bind_eq_Some_conv
      dest!: ConvertHSTMTPrepared_links ExecuteBeforeFetch_links FetchStmtResult_links split: if_split_asm prod.splits)

lemma SQLFetchScroll_links: "SQLFetchScroll eng conn dsn ori off h m = Some (r, h', m') \<Longrightarrow> links h' = links h"
  by (auto simp: SQLFetchScroll_def bind_eq_Some_conv dest!: ConvertHSTMTResult_links FetchStmtResult_links
      split: if_split_asm)

lemma SQLGetData_links: "SQLGetData eng conn dsn col ty p len ind h m = Some (r, h', m') \<Longrightarrow> links h' = links h"
  by (auto simp: SQLGetData_def bind_eq_Some_conv dest!: ConvertHSTMTResult_links GetDataStmtResult_links
      split: if_split_asm)

lemma SQLMoreResults_links: "SQLMoreResults sql conn dsn ds h m db = Some (r, h', m', db') \<Longrightarrow> links h' = links h"
  by (auto simp: SQLMoreResults_def bind_eq_Some_conv dest!: ConvertHSTMT_links SingleExecuteStmt_links
      split: if_split_asm prod.splits)

lemma SQLRowCount_links: "SQLRowCount conn dsn p h m = Some (r, h', m') \<Longrightarrow> links h' = links h"
  by (auto simp: SQLRowCount_def bind_eq_Some_conv dest!: ConvertHSTMTResult_links split: if_split_asm)

lemma SQLDescribeParam_links:
  "SQLDescribeParam conn dsn n p1 p2 p3 p4 h m = Some (r, h', m') \<Longrightarrow> links h' = links h"
  by (auto simp: SQLDescribeParam_def Let_def bind_eq_Some_conv dest!: ConvertHSTMTPrepared_links
      split: if_split_asm prod.splits)

lemma SQLNumParams_links: "SQLNumParams conn dsn p h m = Some (r, h', m') \<Longrightarrow> links h' = links h"
  by (auto simp: SQLNumParams_def bind_eq_Some_conv dest!: ConvertHSTMTPrepared_links
      split: if_split_asm prod.splits)

lemma SQLParamData_links: "SQLParamData conn dsn ds p h m = Some (r, h', m') \<Longrightarrow> links h' = links h"
  by (auto simp: SQLParamData_def bind_eq_Some_conv dest!: ConvertHSTMTPrepared_links
      split: if_split_asm prod.splits)

lemma SQLPutData_links:
  "SQLPutData conn dsn alloc p n ds h m = Some (r, ds', h', m') \<Longrightarrow>
   links h' = links h \<and> store_links ds' = store_links ds"
  by (auto simp: SQLPutData_def bind_eq_Some_conv dest!: ConvertHSTMTPrepared_links PutData_links
      split: if_split_asm prod.splits)

lemma SQLBindCol_links: "SQLBindCol conn col ty p len ind h = Some (r, h') \<Longrightarrow> links h' = links h"
  by (auto simp: SQLBindCol_def Let_def dest!: ConvertHSTMT_links split: if_split_asm prod.splits)

lemma BindParameterStmt_links:
  "BindParameterStmt junk dsn n io vt pt csize decimals p len ind h = (r, h') \<Longrightarrow> links h' = links h"
  by (auto simp: BindParameterStmt_def Let_def dest!: stmt_diag_links split: if_split_asm prod.splits)

lemma SQLBindParameter_links:
  "SQLBindParameter junk conn dsn n io vt pt csize decimals p len ind h = (r, h') \<Longrightarrow> links h' = links h"
  by (auto simp: SQLBindParameter_def dest!: ConvertHSTMT_links BindParameterStmt_links
      split: if_split_asm prod.splits)

lemma CloseStmt_links:
  "CloseStmt ds h = Some (r, ds', h') \<Longrightarrow> links h' = links h \<and> store_links ds' = store_links ds"
  by (auto simp: CloseStmt_def Let_def dest!: ParameterDescriptor_Reset_links)

lemma SQLCloseCursor_links:
  "SQLCloseCursor conn ds h = Some (r, ds', h') \<Longrightarrow> links h' = links h \<and> store_links ds' = store_links ds"
  by (auto simp: SQLCloseCursor_def dest!: ConvertHSTMT_links CloseStmt_links split: if_split_asm prod.splits)

lemma FreeStmt_option_links:
  "FreeStmt_option conn opt ds h = Some (r, ds', h') \<Longrightarrow> links h' = links h \<and> store_links ds' = store_links ds"
  by (auto simp: FreeStmt_option_def dest!: ConvertHSTMT_links CloseStmt_links ParameterDescriptor_Clear_links
      split: if_split_asm prod.splits)

lemma GetStmtAttr_links: "GetStmtAttrInternal pl conn dsn a p q h m = Some (r, h', m') \<Longrightarrow> links h' = links h"
  unfolding GetStmtAttrInternal_def Let_def split_beta
  by (elim if_SomeE) (auto simp: ConvertHSTMT_def split_beta split: if_split_asm)

lemma set_header_links [simp]:
  "links (set_apd_header f h) = links h" "links (set_ard_header f h) = links h" "links (set_ird_header f h) = links h"
  by (simp_all add: set_apd_header_def set_ard_header_def set_ird_header_def)

lemma SetStmtAttr_links:
  assumes "SetStmtAttrInternal conn dsn a v ds h m = Some (r, ds', h', m')"
    "a \<notin> {SQL_ATTR_APP_ROW_DESC, SQL_ATTR_APP_PARAM_DESC}"
  shows "links h' = links h \<and> store_links ds' = store_links ds"
proof -
  have e: "a \<noteq> SQL_ATTR_APP_ROW_DESC" "a \<noteq> SQL_ATTR_APP_PARAM_DESC" using assms(2) by auto
  from assms(1) show ?thesis
    unfolding SetStmtAttrInternal_def Let_def split_beta SetParamProcessedPtr_def prod.sel
      if_not_P[OF e(1)] if_not_P[OF e(2)]
    by (elim if_SomeE)
      (auto simp: ConvertHSTMT_def SetArrayStatusPtr_def SetBindOffesetPtr_def split: if_split_asm)
qed

end
