(* ===== verification/Descriptor_Api.thy ===== *)
theory Descriptor_Api
  imports Odbc_Descriptor
begin

text \<open>
  \<^verbatim>\<open>src/odbc_api/descriptor_api.cpp\<close>: SQLGetDescField, SQLGetDescRec and SQLSetDescRec on the descriptor
  the handle converts to. None stands for a store or a load through a null pointer.
\<close>

section \<open>SQLGetDescField\<close>

text \<open>
  SQL\_DESC\_DATA\_PTR assigns the local parameter: nothing is stored. The header fields come before the
  check of the record number.
\<close>

definition GetDescHeaderField ::
  "string \<Rightarrow> int \<Rightarrow> addr \<Rightarrow> OdbcHandleDesc \<Rightarrow> mem \<Rightarrow> (int \<times> OdbcHandleDesc \<times> mem) option" where
  "GetDescHeaderField dsn field_identifier value_ptr d m =
     (let h = desc_header d;
          stored = (\<lambda>n v. map_option (\<lambda>m. (SQL_SUCCESS, d, m)) (store_through n value_ptr v m));
          invalid = (case ReturnInvalidFieldIdentifier dsn False d of (ret, d) \<Rightarrow> Some (ret, d, m))
      in
      if field_identifier = SQL_DESC_ALLOC_TYPE then stored 2 (sql_desc_alloc_type h)
      else if field_identifier = SQL_DESC_ARRAY_SIZE then
        (if IsID d then invalid else stored 8 (sql_desc_array_size h))
      else if field_identifier = SQL_DESC_ARRAY_STATUS_PTR then stored 8 (sql_desc_array_status_ptr h)
      else if field_identifier = SQL_DESC_BIND_OFFSET_PTR then
        (if IsID d then invalid else stored 8 (sql_desc_bind_offset_ptr h))
      else if field_identifier = SQL_DESC_BIND_TYPE then
        (if IsID d then invalid else stored 4 (sql_desc_bind_type h))
      else if field_identifier = SQL_DESC_COUNT then stored 2 (sql_desc_count h)
      else (if IsAD d then invalid else stored 8 (sql_desc_rows_processed_ptr h)))"

definition GetDescRecordField ::
  "bool \<Rightarrow> bool \<Rightarrow> bool \<Rightarrow> string \<Rightarrow> nat \<Rightarrow> int \<Rightarrow> addr \<Rightarrow> int \<Rightarrow> addr \<Rightarrow> OdbcHandleDesc \<Rightarrow> mem
   \<Rightarrow> (int \<times> OdbcHandleDesc \<times> mem) option" where
  "GetDescRecordField wide this_ird this_ipd dsn rec_idx field_identifier value_ptr buffer_length
     string_length_ptr d m =
     (let r = desc_records d ! rec_idx;
          stored = (\<lambda>n v. map_option (\<lambda>m. (SQL_SUCCESS, d, m)) (store_through n value_ptr v m));
          written = (\<lambda>s. Some (SQL_SUCCESS, d,
                           write_string wide 4 s value_ptr buffer_length string_length_ptr m));
          invalid = (case ReturnInvalidFieldIdentifier dsn False d of (ret, d) \<Rightarrow> Some (ret, d, m));
          only_ird = (\<lambda>x. if \<not> IsIRD this_ird d then invalid else x);
          not_ad = (\<lambda>x. if IsAD d then invalid else x);
          only_ad = (\<lambda>x. if \<not> IsAD d then invalid else x);
          not_id = (\<lambda>x. if IsID d then invalid else x);
          only_ipd = (\<lambda>x. if \<not> IsIPD this_ipd d then invalid else x)
      in
      if field_identifier = SQL_DESC_AUTO_UNIQUE_VALUE then only_ird (stored 4 SQL_FALSE)
      else if field_identifier = SQL_DESC_BASE_COLUMN_NAME then only_ird (written (sql_desc_base_column_name r))
      else if field_identifier = SQL_DESC_BASE_TABLE_NAME then only_ird (written (sql_desc_base_table_name r))
      else if field_identifier = SQL_DESC_CASE_SENSITIVE then only_ird (stored 4 (sql_desc_case_sensitive r))
      else if field_identifier = SQL_DESC_CATALOG_NAME then only_ird (written (sql_desc_catalog_name r))
      else if field_identifier = SQL_DESC_CONCISE_TYPE then stored 2 (sql_desc_concise_type r)
      else if field_identifier = SQL_DESC_DATA_PTR then not_id (Some (SQL_SUCCESS, d, m))
      else if field_identifier = SQL_DESC_DATETIME_INTERVAL_CODE then stored 2 (sql_desc_datetime_interval_code r)
      else if field_identifier = SQL_DESC_DATETIME_INTERVAL_PRECISION then
        stored 4 (sql_desc_datetime_interval_precision r)
      else if field_identifier = SQL_DESC_DISPLAY_SIZE then only_ird (stored 8 (sql_desc_display_size r))
      else if field_identifier = SQL_DESC_FIXED_PREC_SCALE then only_ird (stored 2 (sql_desc_fixed_prec_scale r))
      else if field_identifier = SQL_DESC_INDICATOR_PTR then not_id (stored 8 (sql_desc_indicator_ptr r))
      else if field_identifier = SQL_DESC_LABEL then only_ird (written (sql_desc_label r))
      else if field_identifier = SQL_DESC_LENGTH then stored 8 (sql_desc_length r)
      else if field_identifier = SQL_DESC_LITERAL_PREFIX then only_ird (written (sql_desc_literal_prefix r))
      else if field_identifier = SQL_DESC_LITERAL_SUFFIX then only_ird (written (sql_desc_literal_suffix r))
      else if field_identifier = SQL_DESC_LOCAL_TYPE_NAME then not_ad (written (sql_desc_local_type_name r))
      else if field_identifier = SQL_DESC_NAME then not_ad (written (sql_desc_name r))
      else if field_identifier = SQL_DESC_NULLABLE then only_ad (stored 2 (sql_desc_nullable r))
      else if field_identifier = SQL_DESC_NUM_PREC_RADIX then stored 4 (sql_desc_num_prec_radix r)
      else if field_identifier = SQL_DESC_OCTET_LENGTH then stored 8 (sql_desc_octet_length r)
      else if field_identifier = SQL_DESC_OCTET_LENGTH_PTR then not_id (stored 8 (sql_desc_octet_length_ptr r))
      else if field_identifier = SQL_DESC_PARAMETER_TYPE then only_ipd (stored 2 (sql_desc_parameter_type r))
      else if field_identifier = SQL_DESC_PRECISION then stored 2 (sql_desc_precision r)
      else if field_identifier = SQL_DESC_ROWVER then only_ad (stored 2 (sql_desc_rowver r))
      else if field_identifier = SQL_DESC_SCALE then stored 2 (sql_desc_scale r)
      else if field_identifier = SQL_DESC_SCHEMA_NAME then only_ird (written (sql_desc_schema_name r))
      else if field_identifier = SQL_DESC_SEARCHABLE then only_ird (stored 2 (sql_desc_searchable r))
      else if field_identifier = SQL_DESC_TABLE_NAME then only_ird (written (sql_desc_table_name r))
      else if field_identifier = SQL_DESC_TYPE then stored 2 (sql_desc_type r)
      else if field_identifier = SQL_DESC_TYPE_NAME then not_ad (written (sql_desc_type_name r))
      else if field_identifier = SQL_DESC_UNNAMED then only_ad (stored 2 (sql_desc_unnamed r))
      else if field_identifier = SQL_DESC_UNSIGNED then only_ad (stored 2 (sql_desc_unsigned r))
      else if field_identifier = SQL_DESC_UPDATABLE then only_ird (stored 2 (sql_desc_updatable r))
      else invalid)"

definition GetDescFieldInternal ::
  "bool \<Rightarrow> bool \<Rightarrow> bool \<Rightarrow> string \<Rightarrow> int \<Rightarrow> int \<Rightarrow> addr \<Rightarrow> int \<Rightarrow> addr \<Rightarrow> OdbcHandleDesc \<Rightarrow> mem
   \<Rightarrow> (int \<times> OdbcHandleDesc \<times> mem) option" where
  "GetDescFieldInternal wide this_ird this_ipd dsn rec_number field_identifier value_ptr buffer_length
     string_length_ptr d m =
     (let with_mem = (\<lambda>(ret, d). Some (ret, d, m)) in
      if IsNumericDescriptorField field_identifier \<and> value_ptr = nullptr then
        with_mem (desc_error dsn ''SQLGetDescField'' ''Invalid null value pointer for descriptor numeric field''
          ST_HY009 d)
      else if field_identifier \<in> header_fields then GetDescHeaderField dsn field_identifier value_ptr d m
      else if rec_number \<le> 0 \<or> rec_number > wrap_s 16 (int (length (desc_records d))) then
        with_mem (desc_error dsn ''SQLGetDescField'' ''Invalid descriptor index'' ST_07009 d)
      else GetDescRecordField wide this_ird this_ipd dsn (nat (rec_number - 1)) field_identifier value_ptr
        buffer_length string_length_ptr d m)"

section \<open>SQLGetDescRec\<close>

text \<open>
  \<^verbatim>\<open>prepared\<close> is \<^verbatim>\<open>desc->stmt->IsPrepared()\<close>. The length is stored as a 16 bit integer although the
  client's variable has 64 bits.
\<close>

definition GetDescRecInternal ::
  "(nat \<Rightarrow> DescRecord) \<Rightarrow> bool \<Rightarrow> bool \<Rightarrow> bool \<Rightarrow> int \<Rightarrow> addr \<Rightarrow> int \<Rightarrow> addr \<Rightarrow> addr \<Rightarrow> addr \<Rightarrow> addr \<Rightarrow> addr
   \<Rightarrow> addr \<Rightarrow> addr \<Rightarrow> OdbcHandleDesc \<Rightarrow> mem \<Rightarrow> int \<times> OdbcHandleDesc \<times> mem" where
  "GetDescRecInternal junk wide this_ird prepared rec_number name buffer_length string_length_ptr type_ptr
     sub_type_ptr length_ptr precision_ptr scale_ptr nullable_ptr d m =
     (if rec_number < 1 then (SQL_ERROR, d, m)
      else if rec_number > sql_desc_count (desc_header d) then (SQL_NO_DATA, d, m)
      else if IsIRD this_ird d \<and> prepared then (SQL_NO_DATA, d, m)
      else
        let rec_idx = nat (rec_number - 1);
            d = GetDescRecord junk rec_idx d;
            r = desc_records d ! rec_idx;
            sql_type = sql_desc_type r;
            m = write_string wide 2 (sql_desc_name r) name buffer_length string_length_ptr m;
            m = store_opt 2 type_ptr sql_type m;
            m = (if sql_type = SQL_DATETIME \<or> sql_type = SQL_INTERVAL
                 then store_opt 2 sub_type_ptr (sql_desc_datetime_interval_code r) m else m);
            m = store_opt 2 length_ptr (wrap_s 16 (sql_desc_octet_length r)) m;
            m = store_opt 2 precision_ptr (sql_desc_precision r) m;
            m = store_opt 2 scale_ptr (sql_desc_scale r) m;
            m = store_opt 2 nullable_ptr (sql_desc_nullable r) m
        in (SQL_SUCCESS, d, m))"

section \<open>SQLSetDescRec\<close>

text \<open>
  The arguments are passed on by the addresses of the parameters of the call, which live at
  \<^verbatim>\<open>frame\<close>, eight bytes each. For the pointer fields \<^verbatim>\<open>SetDescField\<close> stores the address it is given.
\<close>

definition call_frame :: "addr \<Rightarrow> int list \<Rightarrow> mem \<Rightarrow> mem" where
  "call_frame frame args m = store_bytes frame (concat (map (le_encode 8) args)) m"

fun set_fields ::
  "(nat \<Rightarrow> DescRecord) \<Rightarrow> bool \<Rightarrow> bool \<Rightarrow> string \<Rightarrow> int \<Rightarrow> (int \<times> addr) list \<Rightarrow> mem \<Rightarrow> OdbcHandleDesc
   \<Rightarrow> (int \<times> OdbcHandleDesc) option" where
  "set_fields junk this_ird this_ipd dsn rec_number [] m d = Some (SQL_SUCCESS, d)" |
  "set_fields junk this_ird this_ipd dsn rec_number ((field, p) # fs) m d =
     (case SetDescField junk this_ird this_ipd dsn rec_number field p 0 m d of
        None \<Rightarrow> None
      | Some (ret, d) \<Rightarrow>
          if SQL_SUCCEEDED ret then set_fields junk this_ird this_ipd dsn rec_number fs m d else Some (ret, d))"

definition SQLSetDescRec ::
  "(nat \<Rightarrow> DescRecord) \<Rightarrow> bool \<Rightarrow> bool \<Rightarrow> string \<Rightarrow> addr \<Rightarrow> int \<Rightarrow> int \<Rightarrow> int \<Rightarrow> int \<Rightarrow> int \<Rightarrow> int \<Rightarrow> addr \<Rightarrow> addr
   \<Rightarrow> addr \<Rightarrow> OdbcHandleDesc \<Rightarrow> mem \<Rightarrow> (int \<times> OdbcHandleDesc) option" where
  "SQLSetDescRec junk this_ird this_ipd dsn frame rec_number type sub_type len precision scale data_ptr
     string_length_ptr indicator_ptr d m =
     (if IsIRD this_ird d then
        Some (desc_error dsn ''SQLSetDescRec'' ''Cannot modify an implementation row descriptor'' ST_HY016 d)
      else if rec_number \<le> 0 then
        Some (desc_error dsn ''SQLSetDescRec'' ''Invalid descriptor index'' ST_07009 d)
      else do {
        d \<leftarrow> (if rec_number > sql_desc_count (desc_header d) then AddMoreRecords junk rec_number d else Some d);
        set_fields junk this_ird this_ipd dsn rec_number
          ([(SQL_DESC_TYPE, frame)] @
           (if type = SQL_DATETIME \<or> type = SQL_INTERVAL
            then [(SQL_DESC_DATETIME_INTERVAL_CODE, frame + 8)] else []) @
           [(SQL_DESC_OCTET_LENGTH, frame + 16), (SQL_DESC_PRECISION, frame + 24), (SQL_DESC_SCALE, frame + 32),
            (SQL_DESC_DATA_PTR, frame + 40), (SQL_DESC_OCTET_LENGTH_PTR, frame + 48),
            (SQL_DESC_INDICATOR_PTR, frame + 56)])
          (call_frame frame
            [type, sub_type, len, precision, scale, data_ptr, string_length_ptr, indicator_ptr] m) d })"

section \<open>What is set is read back\<close>

text \<open>The fields of an application descriptor that are integers: their size and whether they are signed.\<close>

definition integer_fields :: "(int \<times> nat \<times> bool) list" where
  "integer_fields = [(SQL_DESC_ARRAY_SIZE, 8, False), (SQL_DESC_BIND_TYPE, 4, True), (SQL_DESC_COUNT, 2, True),
     (SQL_DESC_CONCISE_TYPE, 2, True), (SQL_DESC_DATETIME_INTERVAL_PRECISION, 4, True),
     (SQL_DESC_LENGTH, 8, False), (SQL_DESC_NUM_PREC_RADIX, 4, True), (SQL_DESC_OCTET_LENGTH, 8, True),
     (SQL_DESC_PRECISION, 2, True), (SQL_DESC_SCALE, 2, True), (SQL_DESC_TYPE, 2, True),
     (SQL_DESC_DATETIME_INTERVAL_CODE, 2, True)]"

definition load_as :: "nat \<Rightarrow> bool \<Rightarrow> addr \<Rightarrow> mem \<Rightarrow> int" where
  "load_as n sg p m = (if sg then load_s n p m else load_u n p m)"


lemma integer_fields_cases:
  assumes "(field, n, sg) \<in> set integer_fields"
  obtains "field = SQL_DESC_ARRAY_SIZE" "n = 8" "\<not> sg" | "field = SQL_DESC_BIND_TYPE" "n = 4" "sg"
    | "field = SQL_DESC_COUNT" "n = 2" "sg" | "field = SQL_DESC_CONCISE_TYPE" "n = 2" "sg"
    | "field = SQL_DESC_DATETIME_INTERVAL_PRECISION" "n = 4" "sg" | "field = SQL_DESC_LENGTH" "n = 8" "\<not> sg"
    | "field = SQL_DESC_NUM_PREC_RADIX" "n = 4" "sg" | "field = SQL_DESC_OCTET_LENGTH" "n = 8" "sg"
    | "field = SQL_DESC_PRECISION" "n = 2" "sg" | "field = SQL_DESC_SCALE" "n = 2" "sg"
    | "field = SQL_DESC_TYPE" "n = 2" "sg" | "field = SQL_DESC_DATETIME_INTERVAL_CODE" "n = 2" "sg"
  using assms by (auto simp: integer_fields_def)

text \<open>The value of such a field in the descriptor.\<close>

definition field_value :: "int \<Rightarrow> nat \<Rightarrow> OdbcHandleDesc \<Rightarrow> int" where
  "field_value field i d =
     (let h = desc_header d; r = desc_records d ! i in
      if field = SQL_DESC_ARRAY_SIZE then sql_desc_array_size h
      else if field = SQL_DESC_BIND_TYPE then sql_desc_bind_type h
      else if field = SQL_DESC_COUNT then sql_desc_count h
      else if field = SQL_DESC_CONCISE_TYPE then sql_desc_concise_type r
      else if field = SQL_DESC_DATETIME_INTERVAL_PRECISION then sql_desc_datetime_interval_precision r
      else if field = SQL_DESC_LENGTH then sql_desc_length r
      else if field = SQL_DESC_NUM_PREC_RADIX then sql_desc_num_prec_radix r
      else if field = SQL_DESC_OCTET_LENGTH then sql_desc_octet_length r
      else if field = SQL_DESC_PRECISION then sql_desc_precision r
      else if field = SQL_DESC_SCALE then sql_desc_scale r
      else if field = SQL_DESC_TYPE then sql_desc_type r
      else sql_desc_datetime_interval_code r)"

text \<open>
  The value the field of a record \<^verbatim>\<open>r\<close> has after it was set to \<^verbatim>\<open>v\<close>, or None when the value is refused.
  The type becomes the one the table of the types has for it. The interval code becomes the one the
  table has for the type the record has, whatever the value is.
\<close>

definition table_entry :: "int \<Rightarrow> OdbcTypeInfo option" where
  "table_entry type = (case filter (\<lambda>t. ti_data_type t = type) ODBC_SUPPORTED_SQL_TYPES of [] \<Rightarrow> None | t # _ \<Rightarrow> Some t)"

definition stored_field :: "int \<Rightarrow> int \<Rightarrow> DescRecord \<Rightarrow> int option" where
  "stored_field field v r =
     (if field = SQL_DESC_ARRAY_SIZE then if v = 0 then None else Some v
      else if field = SQL_DESC_TYPE then map_option ti_sql_data_type (table_entry v)
      else if field = SQL_DESC_DATETIME_INTERVAL_CODE then map_option ti_sql_datetime_sub (table_entry (sql_desc_type r))
      else Some v)"

lemma table_sizes:
  "list_all (\<lambda>t. in_s 16 (ti_sql_data_type t) \<and> in_s 16 (ti_sql_datetime_sub t) \<and> \<not> IsIntervalType (ti_sql_data_type t))
     ODBC_SUPPORTED_SQL_TYPES"
  by (simp add: ODBC_SUPPORTED_SQL_TYPES_def in_s_def IsIntervalType_def)

lemma table_entry_sizes:
  assumes "table_entry type = Some t"
  shows "in_s 16 (ti_sql_data_type t)" "in_s 16 (ti_sql_datetime_sub t)" "\<not> IsIntervalType (ti_sql_data_type t)"
proof -
  obtain ts where "filter (\<lambda>t. ti_data_type t = type) ODBC_SUPPORTED_SQL_TYPES = t # ts"
    using assms by (auto simp: table_entry_def split: list.split_asm)
  then have "t \<in> set (filter (\<lambda>t. ti_data_type t = type) ODBC_SUPPORTED_SQL_TYPES)"
    by (metis list.set_intros(1))
  then show "in_s 16 (ti_sql_data_type t)" "in_s 16 (ti_sql_datetime_sub t)" "\<not> IsIntervalType (ti_sql_data_type t)"
    using table_sizes by (auto simp: list_all_iff)
qed

lemma FindDataType_entry:
  "table_entry type = None \<Longrightarrow> FindDataType type [] = []"
  "table_entry type = Some t \<Longrightarrow> \<exists>ts. FindDataType type [] = t # ts"
  by (auto simp: table_entry_def FindDataType_def find_run_types split: list.split_asm)

lemma SetSqlDescType_entry:
  "table_entry type = None \<Longrightarrow> SetSqlDescType type r = (SQL_ERROR, r)"
  "table_entry type = Some t \<Longrightarrow> \<exists>r'. SetSqlDescType type r = (SQL_SUCCESS, r') \<and>
     sql_desc_type r' = ti_sql_data_type t \<and> sql_desc_datetime_interval_code r' = ti_sql_datetime_sub t"
  using table_entry_sizes(3)[of type t]
  by (auto simp: SetSqlDescType_def SetSqlDataType_def Let_def dest: FindDataType_entry)

text \<open>A value that is stored, or refused with the header and the records as they were.\<close>

definition field_set :: "int \<Rightarrow> nat \<Rightarrow> int option \<Rightarrow> OdbcHandleDesc \<Rightarrow> (int \<times> OdbcHandleDesc) option \<Rightarrow> bool" where
  "field_set field i w d res \<longleftrightarrow>
     (case w of
        None \<Rightarrow> \<exists>d'. res = Some (SQL_ERROR, d') \<and> desc_header d' = desc_header d \<and> desc_records d' = desc_records d
      | Some w \<Rightarrow> \<exists>d'. res = Some (SQL_SUCCESS, d') \<and> field_value field i d' = w)"

lemma set_checked_type_entry:
  assumes "i < length (desc_records d)" "field = SQL_DESC_TYPE \<or> field = SQL_DESC_DATETIME_INTERVAL_CODE"
  shows "field_set field i (map_option (if field = SQL_DESC_TYPE then ti_sql_data_type else ti_sql_datetime_sub) (table_entry type))
    d (set_checked_type dsn i type d)"
proof (cases "table_entry type")
  case None
  then show ?thesis
    by (simp add: field_set_def set_checked_type_def SetSqlDescType_entry desc_error_def SetDiagnosticRecord_def Let_def)
next
  case (Some t)
  then obtain r' where "SetSqlDescType type (desc_records d ! i) = (SQL_SUCCESS, r')"
    "sql_desc_type r' = ti_sql_data_type t" "sql_desc_datetime_interval_code r' = ti_sql_datetime_sub t"
    using SetSqlDescType_entry(2)[OF Some] by blast
  then show ?thesis using Some assms
    by (auto simp: field_set_def set_checked_type_def set_record_def field_value_def)
qed

lemma SetDescRecordField_value:
  assumes "(field, n, sg) \<in> set integer_fields" "IsAD d" "field \<notin> header_fields" "p \<noteq> nullptr"
    "i < length (desc_records d)"
  shows "field_set field i (stored_field field (load_as n sg p m) (desc_records d ! i)) d
    (SetDescRecordField this_ird this_ipd dsn i field p b m d)"
proof (cases "field = SQL_DESC_TYPE \<or> field = SQL_DESC_DATETIME_INTERVAL_CODE")
  case True
  have "n = 2" "sg" using True assms(1) by (auto simp: integer_fields_def)
  then have "SetDescRecordField this_ird this_ipd dsn i field p b m d =
      set_checked_type dsn i (if field = SQL_DESC_TYPE then load_as n sg p m else sql_desc_type (desc_records d ! i)) d"
    using True assms(2,4)
    by (auto simp: SetDescRecordField_def readonly_fields_def IsAD_def IsID_def IsIRD_def deref_s_def load_as_def)
  then show ?thesis
    using True set_checked_type_entry[OF assms(5) True, of "if field = SQL_DESC_TYPE then load_as n sg p m else
      sql_desc_type (desc_records d ! i)" dsn] by (auto simp: stored_field_def)
next
  case False
  then show ?thesis using assms
    by (elim integer_fields_cases; simp add: SetDescRecordField_def readonly_fields_def header_fields_def set_record_def
        IsAD_def IsID_def IsIRD_def deref_s_def deref_u_def field_value_def load_as_def field_set_def stored_field_def)
qed







section \<open>Implicit descriptors\<close>

text \<open>
  The implicit descriptors are created without their statement, so that every one of them is taken
  for an application descriptor: a record of the implementation row descriptor is created and
  changed by SQLSetDescField, and SQLGetDescField refuses the fields only the IRD has.
\<close>

theorem ird_treated_as_application:
  assumes "p \<noteq> nullptr" "d = ird (row_desc (mk_OdbcHandleStmt stmt_junk js dbc))"
  shows "\<exists>d'. SetDescField junk True False dsn 1 SQL_DESC_CONCISE_TYPE p b m d = Some (SQL_SUCCESS, d') \<and>
    sql_desc_concise_type (desc_records d' ! 0) = load_s 2 p m \<and>
    (\<exists>d''. GetDescFieldInternal wide True False dsn 1 SQL_DESC_BASE_COLUMN_NAME q b' len d' m2 =
       Some (SQL_ERROR, d'', m2))"
proof -
  have d: "desc_stmt d = nullptr" "desc_records d = []"
    using assms(2) by (simp_all add: mk_OdbcHandleStmt_def mk_RowDescriptor_def mk_OdbcHandleDesc_def split: prod.split)
  have f: "IsAD d" using d by (simp add: IsAD_def)
  have i: "(SQL_DESC_CONCISE_TYPE, 2, True) \<in> set integer_fields" by (simp add: integer_fields_def)
  let ?d = "GetDescRecord junk 0 d"
  obtain d' where d': "SetDescRecordField True False dsn 0 SQL_DESC_CONCISE_TYPE p b m ?d = Some (SQL_SUCCESS, d')"
    "field_value SQL_DESC_CONCISE_TYPE 0 d' = load_as 2 True p m"
    using SetDescRecordField_value[OF i, of ?d p 0 m True False dsn b] d assms(1)
    by (auto simp: IsAD_def header_fields_def field_set_def stored_field_def)
  have l: "length (desc_records d') = 1" "\<not> IsID d'" using SetDescRecordField_frame(2,4)[OF d'(1)] d by (simp_all add: IsID_def)
  have "SetDescField junk True False dsn 1 SQL_DESC_CONCISE_TYPE p b m d = Some (SQL_SUCCESS, d')"
    using d'(1) by (simp add: SetDescField_def header_fields_def)
  moreover have "\<exists>d''. GetDescFieldInternal wide True False dsn 1 SQL_DESC_BASE_COLUMN_NAME q b' len d' m2 = Some (SQL_ERROR, d'', m2)"
    using l by (simp add: GetDescFieldInternal_def GetDescRecordField_def header_fields_def IsNumericDescriptorField_def
        Let_def IsIRD_def in_s_def split: prod.split) (metis fst_ReturnInvalid fst_conv prod.collapse)
  ultimately show ?thesis using d'(2) by (simp add: field_value_def load_as_def)
qed

theorem ird_treated_as_application_witness:
  "\<exists>d'. SetDescField (\<lambda>_. sample_record) True False [] 1 SQL_DESC_CONCISE_TYPE 4096 0 (\<lambda>_. CHR 0x01)
      (ird (row_desc (mk_OdbcHandleStmt undefined (undefined, undefined, undefined, undefined) 16))) =
        Some (SQL_SUCCESS, d') \<and>
    sql_desc_concise_type (desc_records d' ! 0) = load_s 2 4096 (\<lambda>_. CHR 0x01) \<and>
    (\<exists>d''. GetDescFieldInternal False True False [] 1 SQL_DESC_BASE_COLUMN_NAME 8192 64 nullptr d' (\<lambda>_. CHR 0x00) =
       Some (SQL_ERROR, d'', \<lambda>_. CHR 0x00))"
  by (rule ird_treated_as_application[OF _ refl]) simp

text \<open>Reading a parameter of the call in the size of its type.\<close>

lemma take_le_encode: "n \<le> k \<Longrightarrow> take n (le_encode k v) = le_encode n v"
proof (induction k arbitrary: n v)
  case (Suc k)
  then show ?case by (cases n) auto
qed simp

lemma load_call_frame:
  assumes "k < length args" "n \<le> 8"
  shows "load_u n (frame + 8 * int k) (call_frame frame args m) = args ! k mod 256 ^ n"
proof -
  have c: "take 8 (drop (8 * k) (concat (map (le_encode 8) args))) = le_encode 8 (args ! k)"
    using assms(1)
  proof (induction args arbitrary: k)
    case (Cons a args)
    then show ?case by (cases k) auto
  qed simp
  have l: "length (concat (map (le_encode 8) args)) = 8 * length args" for args by (induction args) auto
  have "load_bytes (frame + 8 * int k) n (call_frame frame args m) =
      take n (drop (8 * k) (concat (map (le_encode 8) args)))"
    unfolding call_frame_def using assms l[of args]
    by (intro nth_equalityI) (auto simp: load_bytes_def store_bytes_def nat_add_distrib nat_mult_distrib)
  also have "\<dots> = take n (take 8 (drop (8 * k) (concat (map (le_encode 8) args))))" using assms(2) by (simp add: min_def)
  finally show ?thesis using c take_le_encode[OF assms(2)] by (simp add: load_u_def le_decode_encode)
qed

lemma load_s_call_frame:
  assumes "k < length args" "0 < n" "n \<le> 8" "in_s (8 * n) (args ! k)"
  shows "load_s n (frame + 8 * int k) (call_frame frame args m) = args ! k"
  using assms by (simp add: load_s_def load_call_frame pow256 wrap_s_mod)

lemma SetDescField_present:
  assumes "field \<notin> header_fields" "1 \<le> rec_number" "rec_number \<le> int (length (desc_records d))"
  shows "SetDescField junk this_ird this_ipd dsn rec_number field p b m d =
    SetDescRecordField this_ird this_ipd dsn (nat (rec_number - 1)) field p b m d"
  using assms by (simp add: SetDescField_def Let_def)

lemma SetSqlDescType_found: "FindDataType type [] \<noteq> [] \<Longrightarrow> fst (SetSqlDescType type r) = SQL_SUCCESS"
  by (auto simp: SetSqlDescType_def Let_def split: list.split)

text \<open>
  SQLSetDescRec sets the type, the length, the precision and the scale it is given, but the data,
  length and indicator pointers of the record become the addresses of the parameters of the call,
  whatever the client passed; they dangle when the call returns.
\<close>

theorem SetDescRec_stores_addresses:
  assumes "IsAD d" "sql_desc_count (desc_header d) = int (length (desc_records d))"
    "1 \<le> rec_number" "rec_number \<le> int (length (desc_records d))"
    "FindDataType type [] \<noteq> []" "type \<noteq> SQL_DATETIME" "type \<noteq> SQL_INTERVAL"
    "in_s 16 type" "in_s 64 len" "in_s 16 precision" "in_s 16 scale" "0 < frame"
  shows "\<exists>d' r. SQLSetDescRec junk this_ird this_ipd dsn frame rec_number type sub_type len precision scale data_ptr
      string_length_ptr indicator_ptr d m = Some (SQL_SUCCESS, d') \<and> r = desc_records d' ! nat (rec_number - 1) \<and>
    sql_desc_octet_length r = len \<and> sql_desc_precision r = precision \<and> sql_desc_scale r = scale \<and>
    sql_desc_data_ptr r = frame + 40 \<and> sql_desc_octet_length_ptr r = frame + 48 \<and>
    sql_desc_indicator_ptr r = frame + 56"
proof -
  let ?i = "nat (rec_number - 1)"
  let ?args = "[type, sub_type, len, precision, scale, data_ptr, string_length_ptr, indicator_ptr]"
  define m' where "m' = call_frame frame ?args m"
  have i: "?i < length (desc_records d)" using assms(3,4) by linarith
  have ad: "\<not> IsID d" "\<not> IsIRD this_ird d" "\<And>rs. \<not> IsID (d\<lparr>desc_records := rs\<rparr>)"
    "\<And>rs. \<not> IsIRD this_ird (d\<lparr>desc_records := rs\<rparr>)"
    using assms(1) by (auto simp: IsAD_def IsID_def IsIRD_def)
  have args: "load_s 2 frame m' = type" "load_s 8 (frame + 16) m' = len"
      "load_s 2 (frame + 24) m' = precision" "load_s 2 (frame + 32) m' = scale"
    using load_s_call_frame[of 0 ?args 2 frame m] load_s_call_frame[of 2 ?args 8 frame m]
      load_s_call_frame[of 3 ?args 2 frame m] load_s_call_frame[of 4 ?args 2 frame m] assms(8-11)
    by (simp_all add: m'_def)
  obtain r1 where r1: "SetSqlDescType type (desc_records d ! ?i) = (SQL_SUCCESS, r1)"
    using SetSqlDescType_found[OF assms(5), of "desc_records d ! ?i"] by (metis prod.collapse)
  have present: "SetDescField junk this_ird this_ipd dsn rec_number field p 0 m' (d\<lparr>desc_records := rs\<rparr>) =
      SetDescRecordField this_ird this_ipd dsn ?i field p 0 m' (d\<lparr>desc_records := rs\<rparr>)"
    if "field \<notin> header_fields" "length rs = length (desc_records d)" for field p rs
    using SetDescField_present[of field rec_number "d\<lparr>desc_records := rs\<rparr>"] that assms(3,4) by simp
  have type: "SetDescField junk this_ird this_ipd dsn rec_number SQL_DESC_TYPE frame 0 m' d =
      Some (SQL_SUCCESS, d\<lparr>desc_records := (desc_records d)[?i := r1]\<rparr>)"
    using present[of SQL_DESC_TYPE "desc_records d" frame] assms(12) args(1) r1 ad
    by (simp add: header_fields_def SetDescRecordField_def readonly_fields_def deref_s_def set_checked_type_def set_record_def)
  show ?thesis
    unfolding SQLSetDescRec_def m'_def[symmetric] using assms(2-4,6,7,12) ad args i type
    by (simp add: header_fields_def present SetDescRecordField_def readonly_fields_def deref_s_def set_record_def)
qed

theorem SetDescRec_stores_addresses_witness:
  "\<exists>d' r. SQLSetDescRec (\<lambda>_. sample_record) False False [] 65536 1 SQL_INTEGER 0 4 10 0 4096 nullptr nullptr
      (sample_desc\<lparr>desc_records := [sample_record],
         desc_header := (desc_header sample_desc)\<lparr>sql_desc_count := 1\<rparr>\<rparr>) (\<lambda>_. CHR 0x00) = Some (SQL_SUCCESS, d') \<and>
    r = desc_records d' ! nat (1 - 1) \<and> sql_desc_octet_length r = 4 \<and> sql_desc_precision r = 10 \<and>
    sql_desc_scale r = 0 \<and> sql_desc_data_ptr r = 65536 + 40 \<and> sql_desc_octet_length_ptr r = 65536 + 48 \<and>
    sql_desc_indicator_ptr r = 65536 + 56"
  by (rule SetDescRec_stores_addresses)
    (simp_all add: IsAD_def in_s_def FindDataType_def ODBC_SUPPORTED_SQL_TYPES_def)

section \<open>The length of SQLGetDescRec\<close>

text \<open>Only two of the eight bytes of the length the client passes are stored.\<close>

lemma GetDescRec_length_bytes:
  assumes "0 < length_ptr" "2 \<le> k" "k < 8"
    "GetDescRecInternal junk wide this_ird prepared rec_number nullptr 0 nullptr nullptr nullptr length_ptr
       nullptr nullptr nullptr d m = (SQL_SUCCESS, d', m')" "\<not> wide"
  shows "m' (length_ptr + k) = m (length_ptr + k)"
  using assms
  by (auto simp: GetDescRecInternal_def Let_def store_opt_def write_string_def WriteString_def store_int_def
      store_bytes_outside split: if_splits)

end
