(* ===== verification/Column_Info.thy ===== *)
theory Column_Info
  imports Odbc_Descriptor Handle_Functions Odbc_Cursor
begin

text \<open>
  \<^verbatim>\<open>src/odbc_api/column_info_api.cpp\<close>: SQLDescribeCol, SQLColAttribute and SQLNumResultCols over the
  prepared statement and the implementation row descriptor. None stands for an index out of range.
\<close>

section \<open>SQLDescribeCol\<close>

text \<open>Column 0 passes the check and becomes the largest index.\<close>

definition DescribeColInternal ::
  "bool \<Rightarrow> string \<Rightarrow> int \<Rightarrow> addr \<Rightarrow> int \<Rightarrow> addr \<Rightarrow> addr \<Rightarrow> addr \<Rightarrow> addr \<Rightarrow> addr \<Rightarrow> 'v OdbcHandleStmt \<Rightarrow> mem
   \<Rightarrow> (int \<times> 'v OdbcHandleStmt \<times> mem) option" where
  "DescribeColInternal conn dsn column_number column_name buffer_length name_length_ptr data_type_ptr
     column_size_ptr decimal_digits_ptr nullable_ptr h m =
     (case ConvertHSTMTPrepared conn dsn h of (ret, h) \<Rightarrow>
      if ret \<noteq> SQL_SUCCESS then Some (ret, h, m)
      else do {
        stmt \<leftarrow> st_stmt h;
        if column_number > int (ColumnCount stmt) then Some (SQL_ERROR, h, m)
        else
          let col_idx = wrap_u 64 (column_number - 1) in
          if col_idx < int (length (ps_names stmt)) \<and> col_idx < int (length (ps_types stmt)) then
            let m = WriteString 2 (ps_names stmt ! nat col_idx) column_name buffer_length name_length_ptr m;
                col_type = ps_types stmt ! nat col_idx;
                sql_type = FindRelatedSQLType (lt_id col_type);
                m = store_opt 2 data_type_ptr sql_type m;
                m = store_opt 8 column_size_ptr (GetColumnSize col_type) m;
                m = store_opt 2 decimal_digits_ptr
                      (if lt_id col_type = LogicalTypeId_DECIMAL then lt_scale col_type
                       else if sql_type = SQL_TYPE_TIME \<or> sql_type = SQL_TYPE_TIMESTAMP
                       then GetTemporalPrecision (lt_id col_type) else 0) m;
                m = store_opt 2 nullable_ptr SQL_NULLABLE_UNKNOWN m
            in Some (SQL_SUCCESS, h, m)
          else None })"

text \<open>
  The wide version lets the narrow one write into a vector whose storage is at \<^verbatim>\<open>vec\<close>, and transcodes
  what it finds there.
\<close>

definition store_units :: "addr \<Rightarrow> addr \<Rightarrow> unit16 list \<times> int option \<Rightarrow> mem \<Rightarrow> mem" where
  "store_units out len_ptr r m =
     (let m = store_bytes out (unit_bytes (fst r)) m
      in case snd r of None \<Rightarrow> m | Some n \<Rightarrow> store_opt 2 len_ptr n m)"

definition SQLDescribeColW ::
  "addr \<Rightarrow> bool \<Rightarrow> string \<Rightarrow> int \<Rightarrow> addr \<Rightarrow> int \<Rightarrow> addr \<Rightarrow> addr \<Rightarrow> addr \<Rightarrow> addr \<Rightarrow> addr \<Rightarrow> 'v OdbcHandleStmt \<Rightarrow> mem
   \<Rightarrow> (int \<times> 'v OdbcHandleStmt \<times> mem) option" where
  "SQLDescribeColW vec conn dsn column_number column_name buffer_length name_length_ptr data_type_ptr
     column_size_ptr decimal_digits_ptr nullable_ptr h m =
     (let zeros = utf8_alloc_out_vec buffer_length;
          m = store_bytes vec (replicate (length zeros) (CHR 0x00)) m
      in do {
        (ret, h, m) \<leftarrow> DescribeColInternal conn dsn column_number
          (if zeros = [] then nullptr else vec) (wrap_s 16 (int (length zeros)))
          name_length_ptr data_type_ptr column_size_ptr decimal_digits_ptr nullable_ptr h m;
        Some (ret, h, store_units column_name name_length_ptr
          (utf16_write_str 16 ret (octets_of (load_bytes vec (length zeros) m)) (column_name \<noteq> nullptr)
             buffer_length (name_length_ptr \<noteq> nullptr)) m) })"

section \<open>SQLColAttribute\<close>

definition SetNumericAttributePtr ::
  "string \<Rightarrow> int \<Rightarrow> addr \<Rightarrow> 'v OdbcHandleStmt \<Rightarrow> mem \<Rightarrow> int \<times> 'v OdbcHandleStmt \<times> mem" where
  "SetNumericAttributePtr dsn val numeric_attribute_ptr h m =
     (if numeric_attribute_ptr \<noteq> nullptr then (SQL_SUCCESS, h, store_int 8 numeric_attribute_ptr val m)
      else case stmt_diag h SQL_ERROR ''SQLColAttribute(s)''
             ''Memory management error; numeric attribute pointer is null'' ST_HY013 dsn of
             (ret, h) \<Rightarrow> (ret, h, m))"

definition SetCharacterAttributePtr ::
  "string \<Rightarrow> string \<Rightarrow> addr \<Rightarrow> int \<Rightarrow> addr \<Rightarrow> 'v OdbcHandleStmt \<Rightarrow> mem \<Rightarrow> int \<times> 'v OdbcHandleStmt \<times> mem" where
  "SetCharacterAttributePtr dsn str character_attribute_ptr buffer_length string_length_ptr h m =
     (let fail = (\<lambda>msg st. case stmt_diag h SQL_ERROR ''SQLColAttribute(s)'' msg st dsn of
                             (ret, h) \<Rightarrow> (ret, h, m))
      in
      if character_attribute_ptr = nullptr \<and> string_length_ptr \<noteq> nullptr then
        (SQL_SUCCESS, h, store_int 2 string_length_ptr (wrap_s 16 (int (length str))) m)
      else if buffer_length \<le> 0 then fail ''Invalid string or buffer length'' ST_HY090
      else if character_attribute_ptr \<noteq> nullptr then
        (SQL_SUCCESS, h, WriteString 2 str character_attribute_ptr buffer_length string_length_ptr m)
      else fail ''Memory management error; character attribute pointer is null'' ST_HY013)"

text \<open>
  The attributes that are a member of the record of the IRD; the others have a case of their own in
  the handler.
\<close>

definition numeric_attribute :: "int \<Rightarrow> (DescRecord \<Rightarrow> int) option" where
  "numeric_attribute field_identifier =
     (if field_identifier = SQL_DESC_CASE_SENSITIVE then Some sql_desc_case_sensitive
      else if field_identifier = SQL_DESC_CONCISE_TYPE then Some sql_desc_concise_type
      else if field_identifier = SQL_DESC_FIXED_PREC_SCALE then Some sql_desc_fixed_prec_scale
      else if field_identifier \<in> {SQL_COLUMN_LENGTH, SQL_DESC_LENGTH} then Some sql_desc_length
      else if field_identifier \<in> {SQL_COLUMN_NULLABLE, SQL_DESC_NULLABLE} then Some sql_desc_nullable
      else if field_identifier = SQL_DESC_NUM_PREC_RADIX then Some sql_desc_num_prec_radix
      else if field_identifier = SQL_DESC_OCTET_LENGTH then Some sql_desc_octet_length
      else if field_identifier \<in> {SQL_COLUMN_PRECISION, SQL_DESC_PRECISION} then Some sql_desc_precision
      else if field_identifier = SQL_DESC_SEARCHABLE then Some sql_desc_searchable
      else if field_identifier = SQL_DESC_TYPE then Some sql_desc_type
      else if field_identifier = SQL_DESC_UNNAMED then Some sql_desc_unnamed
      else if field_identifier = SQL_DESC_UNSIGNED then Some sql_desc_unsigned
      else if field_identifier = SQL_DESC_UPDATABLE then Some sql_desc_updatable
      else None)"

definition character_attribute :: "int \<Rightarrow> (DescRecord \<Rightarrow> string) option" where
  "character_attribute field_identifier =
     (if field_identifier = SQL_DESC_BASE_COLUMN_NAME then Some sql_desc_base_column_name
      else if field_identifier = SQL_DESC_CATALOG_NAME then Some sql_desc_catalog_name
      else if field_identifier = SQL_DESC_LABEL then Some sql_desc_label
      else if field_identifier = SQL_DESC_LITERAL_PREFIX then Some sql_desc_literal_prefix
      else if field_identifier = SQL_DESC_LITERAL_SUFFIX then Some sql_desc_literal_suffix
      else if field_identifier = SQL_DESC_LOCAL_TYPE_NAME then Some sql_desc_local_type_name
      else if field_identifier \<in> {SQL_COLUMN_NAME, SQL_DESC_NAME} then Some sql_desc_name
      else if field_identifier = SQL_DESC_SCHEMA_NAME then Some sql_desc_schema_name
      else if field_identifier = SQL_DESC_TYPE_NAME then Some sql_desc_type_name
      else None)"

definition ColAttributeInternal ::
  "(nat \<Rightarrow> DescRecord) \<Rightarrow> bool \<Rightarrow> string \<Rightarrow> int \<Rightarrow> int \<Rightarrow> addr \<Rightarrow> int \<Rightarrow> addr \<Rightarrow> addr \<Rightarrow> 'v OdbcHandleStmt \<Rightarrow> mem
   \<Rightarrow> (int \<times> 'v OdbcHandleStmt \<times> mem) option" where
  "ColAttributeInternal junk conn dsn column_number field_identifier character_attribute_ptr buffer_length
     string_length_ptr numeric_attribute_ptr h m =
     (case ConvertHSTMTPrepared conn dsn h of (ret, h) \<Rightarrow>
      if ret \<noteq> SQL_SUCCESS then Some (ret, h, m)
      else do {
        stmt \<leftarrow> st_stmt h;
        (let diag = (\<lambda>ret msg st h m. case stmt_diag h ret ''SQLColAttribute(s)'' msg st dsn of
                       (ret, h) \<Rightarrow> Some (ret, h, m))
         in
         if field_identifier \<noteq> SQL_DESC_COUNT \<and> (case st_res h of None \<Rightarrow> False | Some res \<Rightarrow> \<not> res_is_query res)
         then diag SQL_ERROR ''Prepared statement not a cursor-specification'' ST_07005 h m
         else if column_number < 1 \<or> column_number > int (length (ps_types stmt)) then
           diag SQL_ERROR ''Invalid descriptor index'' ST_07009 h m
         else
           let col_idx = nat (column_number - 1);
               d = GetDescRecord junk col_idx (ird (row_desc h));
               h = h\<lparr>row_desc := (row_desc h)\<lparr>ird := d\<rparr>\<rparr>;
               r = desc_records d ! col_idx;
               numeric = (\<lambda>v. SetNumericAttributePtr dsn v numeric_attribute_ptr h m)
           in
           if field_identifier = SQL_DESC_AUTO_UNIQUE_VALUE then
             (case numeric (sql_desc_auto_unique_value r) of (ret, h, m) \<Rightarrow>
              if ret = SQL_ERROR then Some (ret, h, m)
              else diag SQL_SUCCESS_WITH_INFO ''DuckDB does not support autoincrementing columns'' ST_HYC00 h m)
           else if field_identifier \<in> {SQL_DESC_TABLE_NAME, SQL_DESC_BASE_TABLE_NAME} then
             diag SQL_ERROR ''Driver not capable'' ST_HYC00 h m
           else if field_identifier \<in> {SQL_COLUMN_COUNT, SQL_DESC_COUNT} then
             Some (numeric (int (length (desc_records d))))
           else if field_identifier = SQL_DESC_DISPLAY_SIZE then
             (case numeric (sql_desc_display_size r) of (ret, h, m) \<Rightarrow>
              if sql_desc_display_size r = 0 then
                diag SQL_SUCCESS_WITH_INFO
                  ''Cannot determine the column or parameter length of variable types'' ST_01000 h m
              else Some (ret, h, m))
           else if field_identifier \<in> {SQL_COLUMN_SCALE, SQL_DESC_SCALE} then
             if sql_desc_scale r = - 1 then
               (case numeric SQL_NO_TOTAL of (ret, h, m) \<Rightarrow>
                if SQL_SUCCEEDED ret then
                  diag SQL_SUCCESS_WITH_INFO ''SQL_NO_TOTAL: Scale is undefined for this column data type''
                    ST_01000 h m
                else Some (ret, h, m))
             else Some (numeric (sql_desc_scale r))
           else
             (case numeric_attribute field_identifier of
                Some sel \<Rightarrow> Some (numeric (sel r))
              | None \<Rightarrow>
                (case character_attribute field_identifier of
                   Some sel \<Rightarrow> Some (SetCharacterAttributePtr dsn (sel r) character_attribute_ptr
                     buffer_length string_length_ptr h m)
                 | None \<Rightarrow> diag SQL_ERROR ''Invalid descriptor field identifier'' ST_HY091 h m))) })"

text \<open>
  The wide version computes the length of the buffer in characters and the length it reports in
  bytes. \<^verbatim>\<open>SQLCHAR\<close> is the character type of the inner call, so nothing is written wide there.
\<close>

definition SQLColAttributeW ::
  "(nat \<Rightarrow> DescRecord) \<Rightarrow> addr \<Rightarrow> bool \<Rightarrow> string \<Rightarrow> int \<Rightarrow> int \<Rightarrow> addr \<Rightarrow> int \<Rightarrow> addr \<Rightarrow> addr \<Rightarrow> 'v OdbcHandleStmt \<Rightarrow> mem
   \<Rightarrow> (int \<times> 'v OdbcHandleStmt \<times> mem) option" where
  "SQLColAttributeW junk vec conn dsn column_number field_identifier character_attribute_ptr buffer_length
     string_length_ptr numeric_attribute_ptr h m =
     (let zeros = utf8_alloc_out_vec buffer_length;
          m = store_bytes vec (replicate (length zeros) (CHR 0x00)) m
      in do {
        (ret, h, m) \<leftarrow> ColAttributeInternal junk conn dsn column_number field_identifier
          (if zeros = [] then nullptr else vec) (wrap_s 16 (int (length zeros))) string_length_ptr
          numeric_attribute_ptr h m;
        (let r = utf16_write_str 16 ret (octets_of (load_bytes vec (length zeros) m))
               (character_attribute_ptr \<noteq> nullptr) (wrap_s 16 (wrap_u 64 buffer_length div 2)) True;
             m = store_bytes character_attribute_ptr (unit_bytes (fst r)) m;
             written_chars = (case snd r of None \<Rightarrow> 0 | Some n \<Rightarrow> n)
         in Some (ret, h, store_opt 2 string_length_ptr (wrap_s 16 (2 * written_chars)) m)) })"

section \<open>SQLNumResultCols\<close>

definition SQLNumResultCols ::
  "bool \<Rightarrow> string \<Rightarrow> addr \<Rightarrow> 'v OdbcHandleStmt \<Rightarrow> mem \<Rightarrow> (int \<times> 'v OdbcHandleStmt \<times> mem) option" where
  "SQLNumResultCols conn dsn column_count_ptr h m =
     (case ConvertHSTMTPrepared conn dsn h of (ret, h) \<Rightarrow>
      if ret \<noteq> SQL_SUCCESS then Some (ret, h, m)
      else if column_count_ptr = nullptr then Some (SQL_ERROR, h, m)
      else do {
        stmt \<leftarrow> st_stmt h;
        (let m = store_int 2 column_count_ptr (wrap_s 16 (int (ColumnCount stmt))) m
         in Some (SQL_SUCCESS, h,
              if ps_statement_type stmt \<in> {CALL_STATEMENT, EXECUTE_STATEMENT, EXPLAIN_STATEMENT,
                   EXTENSION_STATEMENT, SELECT_STATEMENT}
              then m else store_int 2 column_count_ptr 0 m)) })"

section \<open>The IRD and SQLDescribeCol\<close>

lemma FindRelatedSQLType_range:
  "FindRelatedSQLType i \<in> {SQL_UNKNOWN_TYPE, SQL_INTERVAL, SQL_CHAR, SQL_TINYINT, SQL_SMALLINT, SQL_INTEGER, SQL_BIGINT,
     SQL_NUMERIC, SQL_FLOAT, SQL_DOUBLE, SQL_TYPE_DATE, SQL_TYPE_TIMESTAMP, SQL_TYPE_TIME, SQL_VARCHAR, SQL_VARBINARY,
     SQL_DECIMAL, SQL_BIT}"
  by (simp add: FindRelatedSQLType_def)

lemma table_type:
  assumes "sql_type \<in> {SQL_CHAR, SQL_TINYINT, SQL_SMALLINT, SQL_INTEGER, SQL_BIGINT, SQL_NUMERIC, SQL_FLOAT, SQL_DOUBLE,
     SQL_TYPE_DATE, SQL_TYPE_TIMESTAMP, SQL_TYPE_TIME, SQL_VARCHAR, SQL_VARBINARY, SQL_DECIMAL, SQL_BIT}"
  shows "\<exists>t ts. FindDataType sql_type [] = t # ts \<and> ti_sql_data_type t = sql_type"
  using assms by (auto simp: FindDataType_def ODBC_SUPPORTED_SQL_TYPES_def)

lemma SetSqlDescType_type:
  assumes "FindDataType sql_type [] = t # ts"
  shows "sql_desc_concise_type (snd (SetSqlDescType sql_type r)) = ti_sql_data_type t"
  using assms by (simp add: SetSqlDescType_def SetSqlDataType_def Let_def)

lemma SetSqlDescType_keeps [simp]:
  "sql_desc_name (snd (SetSqlDescType type r)) = sql_desc_name r"
  "sql_desc_label (snd (SetSqlDescType type r)) = sql_desc_label r"
  "sql_desc_base_column_name (snd (SetSqlDescType type r)) = sql_desc_base_column_name r"
  by (simp_all add: SetSqlDescType_def SetSqlDataType_def Let_def split: list.split)

lemma SetDescUnsignedField_keeps [simp]:
  "sql_desc_name (SetDescUnsignedField t r) = sql_desc_name r"
  "sql_desc_label (SetDescUnsignedField t r) = sql_desc_label r"
  "sql_desc_concise_type (SetDescUnsignedField t r) = sql_desc_concise_type r"
  "sql_desc_display_size (SetDescUnsignedField t r) = sql_desc_display_size r"
  by (simp_all add: SetDescUnsignedField_def)

lemma fill_record_name [simp]: "sql_desc_name (fill_record pn cat junk t name) = name"
  by (simp add: fill_record_def Let_def DescRecord_copy_def)

lemma fill_record_type:
  "sql_desc_concise_type (fill_record pn cat junk t name) =
     (if FindRelatedSQLType (lt_id t) \<in> {SQL_INTERVAL, SQL_UNKNOWN_TYPE} then SQL_VARCHAR
      else FindRelatedSQLType (lt_id t))"
proof -
  let ?s = "FindRelatedSQLType (lt_id t)"
  have c: "sql_desc_concise_type (fill_record pn cat junk t name) =
      sql_desc_concise_type (snd (SetSqlDescType (if ?s = SQL_INTERVAL then SQL_INTERVAL_DAY_TO_SECOND else ?s) r))"
    if "r = (mk_DescRecord junk)\<lparr>sql_desc_base_column_name := name, sql_desc_name := name, sql_desc_label := name,
      sql_desc_length := int (length name), sql_desc_unnamed := (if name = [] then SQL_UNNAMED else SQL_NAMED)\<rparr>" for r
    using that by (simp add: fill_record_def Let_def DescRecord_copy_def)
  have iv: "\<exists>t ts. FindDataType SQL_INTERVAL_DAY_TO_SECOND [] = t # ts \<and> ti_sql_data_type t = SQL_VARCHAR"
    "\<exists>t ts. FindDataType SQL_UNKNOWN_TYPE [] = t # ts \<and> ti_sql_data_type t = SQL_VARCHAR"
    by (simp_all add: FindDataType_def ODBC_SUPPORTED_SQL_TYPES_def)
  show ?thesis
  proof (cases "?s \<in> {SQL_INTERVAL, SQL_UNKNOWN_TYPE}")
    case True
    then show ?thesis using iv by (auto simp: c[OF refl] SetSqlDescType_type)
  next
    case False
    then obtain ti ts where "FindDataType ?s [] = ti # ts" "ti_sql_data_type ti = ?s"
      using table_type[of ?s] FindRelatedSQLType_range[of "lt_id t"] by blast
    then show ?thesis using False by (simp add: c[OF refl] SetSqlDescType_type)
  qed
qed

lemma FillIRD_records:
  assumes "FillIRD pn cat junk h = Some h'" "st_stmt h = Some stmt"
  shows "length (desc_records (ird (row_desc h'))) = ColumnCount stmt" "st_stmt h' = Some stmt" "st_res h' = st_res h"
    "i < ColumnCount stmt \<Longrightarrow> desc_records (ird (row_desc h')) ! i =
       fill_record pn cat (junk i) (ps_types stmt ! i) (ps_names stmt ! i)"
    "sql_desc_count (desc_header (ird (row_desc h'))) = 0" "ColumnCount stmt \<le> length (ps_names stmt)"
  using assms by (auto simp: FillIRD_def Let_def OdbcHandleDesc_Reset_def split: if_split_asm)

definition is_query :: "'v OdbcHandleStmt \<Rightarrow> bool" where
  "is_query h \<longleftrightarrow> (case st_res h of None \<Rightarrow> True | Some res \<Rightarrow> res_is_query res)"

text \<open>
  C27. After FillIRD the type SQLColAttribute reports for a column is the one SQLDescribeCol reports, for
  every column whose type is not an interval and is known to the type mapping.
\<close>

theorem attribute_agrees_with_describe:
  assumes "st_stmt h = Some stmt" "ps_error stmt = None" "is_query h" "FillIRD pn cat junk h = Some h'"
    "1 \<le> c" "c \<le> int (ColumnCount stmt)" "c < 65536" "q \<noteq> nullptr" "p \<noteq> nullptr"
    "FindRelatedSQLType (lt_id (ps_types stmt ! nat (c - 1))) \<notin> {SQL_INTERVAL, SQL_UNKNOWN_TYPE}"
  shows "\<exists>h1 m1 h2 m2.
    ColAttributeInternal junk' True dsn c SQL_DESC_CONCISE_TYPE nullptr 0 nullptr q h' m = Some (SQL_SUCCESS, h1, m1) \<and>
    DescribeColInternal True dsn c nullptr 0 nullptr p nullptr nullptr nullptr h' m = Some (SQL_SUCCESS, h2, m2) \<and>
    load_s 8 q m1 = load_s 2 p m2"
proof -
  let ?t = "FindRelatedSQLType (lt_id (ps_types stmt ! nat (c - 1)))"
  note f = FillIRD_records[OF assms(4,1)]
  have i: "nat (c - 1) < ColumnCount stmt" using assms(5,6) by linarith
  have w: "wrap_u 64 (c - 1) = c - 1" using assms(5,7) by (intro wrap_u_id) (simp add: in_u_def)
  have t: "in_s 16 ?t" "in_s 64 ?t" using FindRelatedSQLType_range[of "lt_id (ps_types stmt ! nat (c - 1))"]
    by (auto simp: in_s_def)
  have conv: "ConvertHSTMTPrepared True dsn h' = (SQL_SUCCESS, h'\<lparr>st_diag := Clean (st_diag h')\<rparr>)"
    using f(2) assms(2) by (rule ConvertHSTMTPrepared_success)
  have q: "\<not> (case st_res h' of None \<Rightarrow> False | Some res \<Rightarrow> \<not> res_is_query res)"
    using assms(3) f(3) by (simp add: is_query_def split: option.splits)
  have r: "sql_desc_concise_type (desc_records (ird (row_desc h')) ! nat (c - 1)) = ?t"
    using f(4)[OF i] assms(10) by (simp add: fill_record_type)
  have a: "ColAttributeInternal junk' True dsn c SQL_DESC_CONCISE_TYPE nullptr 0 nullptr q h' m =
      Some (SQL_SUCCESS, h'\<lparr>st_diag := Clean (st_diag h')\<rparr>, store_int 8 q ?t m)"
    using assms(5,6,8) f(1,2) q i r
    by (simp add: ColAttributeInternal_def conv ColumnCount_def numeric_attribute_def SetNumericAttributePtr_def Let_def)
  have d: "DescribeColInternal True dsn c nullptr 0 nullptr p nullptr nullptr nullptr h' m =
      Some (SQL_SUCCESS, h'\<lparr>st_diag := Clean (st_diag h')\<rparr>, store_int 2 p ?t m)"
    using assms(5,6,9) f(2,6) i
    by (simp add: DescribeColInternal_def conv w ColumnCount_def WriteString_def store_opt_def Let_def)
  show ?thesis using a d t by (simp add: load_store_s)
qed

theorem attribute_agrees_with_describe_witness:
  "\<exists>h' h1 m1 h2 m2.
    FillIRD (\<lambda>_. ''VARCHAR'') ''system'' (\<lambda>_. sample_record)
      (sample_stmt (sample_fetch SQL_CURSOR_FORWARD_ONLY [] 0 False) [] :: string OdbcHandleStmt) = Some h' \<and>
    ColAttributeInternal (\<lambda>_. sample_record) True [] 1 SQL_DESC_CONCISE_TYPE nullptr 0 nullptr 4096 h' (\<lambda>_. CHR 0x00) =
      Some (SQL_SUCCESS, h1, m1) \<and>
    DescribeColInternal True [] 1 nullptr 0 nullptr 8192 nullptr nullptr nullptr h' (\<lambda>_. CHR 0x00) =
      Some (SQL_SUCCESS, h2, m2) \<and> load_s 8 4096 m1 = load_s 2 8192 m2"
proof -
  let ?h = "sample_stmt (sample_fetch SQL_CURSOR_FORWARD_ONLY [] 0 False) [] :: string OdbcHandleStmt"
  obtain stmt where s: "st_stmt ?h = Some stmt" "ps_error stmt = None" "is_query ?h" "ColumnCount stmt = 1"
    "FindRelatedSQLType (lt_id (ps_types stmt ! 0)) = SQL_VARCHAR" "length (ps_names stmt) = 1"
    by (simp add: sample_stmt_def ColumnCount_def FindRelatedSQLType_def is_query_def)
  obtain h' where h': "FillIRD (\<lambda>_. ''VARCHAR'') ''system'' (\<lambda>_. sample_record) ?h = Some h'"
    using s by (simp add: FillIRD_def Let_def)
  show ?thesis
    using attribute_agrees_with_describe[OF s(1-3) h', of 1 4096 8192 "\<lambda>_. sample_record" "[]" "\<lambda>_. CHR 0x00"] s h'
    by auto
qed

text \<open>The index of column 0 is the largest unsigned integer.\<close>

lemma describe_column_0:
  assumes "st_stmt h = Some stmt" "ps_error stmt = None" "length (ps_types stmt) < 2 ^ 32"
  shows "DescribeColInternal True dsn 0 name b n ty sz digits nullable h m = None"
proof -
  have "wrap_u 64 (- 1) = 2 ^ 64 - 1" by (simp add: wrap_u_def)
  then show ?thesis using assms ConvertHSTMTPrepared_success[OF assms(1,2), of dsn]
    by (simp add: DescribeColInternal_def)
qed

end
