(* ===== verification/Handle_World.thy ===== *)
theory Handle_World
  imports Handle_Links Descriptor_Api Column_Info
begin

text \<open>
  All the handles of the driver together: \<^verbatim>\<open>src/odbc_api/handle_api.cpp\<close>,
  \<^verbatim>\<open>src/odbc_api/transaction_api.cpp\<close>, \<^verbatim>\<open>FreeHandle\<close> of \<^verbatim>\<open>src/odbc_driver/driver.cpp\<close>, SQLCopyDesc and the
  parts of \<^verbatim>\<open>src/odbc_driver/common/duckdb_odbc.cpp\<close> that walk from one handle to another. The objects live
  at addresses; an address without an object is a dangling pointer, and a function that follows one is
  None.
\<close>

section \<open>The state\<close>

record ('v, 'd, 't) driver =
  envs :: "addr \<Rightarrow> OdbcHandleEnv option"
  dbcs :: "addr \<Rightarrow> ('d, 't) OdbcHandleDbc option"
  stmts :: "addr \<Rightarrow> 'v OdbcHandleStmt option"
  descs :: desc_store

definition no_handles :: "('v, 'd, 't) driver" where
  "no_handles = \<lparr>envs = Map.empty, dbcs = Map.empty, stmts = Map.empty, descs = Map.empty\<rparr>"

text \<open>The member \<^verbatim>\<open>type\<close> of the object at an address.\<close>

definition type_of_handle :: "addr \<Rightarrow> ('v, 'd, 't) driver \<Rightarrow> OdbcHandleType option" where
  "type_of_handle a w =
     (if envs w a \<noteq> None then Some ENV else if dbcs w a \<noteq> None then Some DBC
      else if stmts w a \<noteq> None then Some STMT else if descs w a \<noteq> None then Some DESC else None)"

text \<open>The memory the constructors find.\<close>

record ('v, 'd, 't) heap_junk =
  junk_env :: OdbcHandleEnv
  junk_dbc :: "('d, 't) OdbcHandleDbc"
  junk_stmt :: "'v OdbcHandleStmt"
  junk_headers :: "DescHeader \<times> DescHeader \<times> DescHeader \<times> DescHeader"
  junk_database :: addr

section \<open>Allocation\<close>

text \<open>\<^verbatim>\<open>a\<close> is the address \<^verbatim>\<open>new\<close> gives. A descriptor is created as if it were an implicit one.\<close>

definition SQLAllocHandle ::
  "('v, 'd, 't) heap_junk \<Rightarrow> addr \<Rightarrow> int \<Rightarrow> addr \<Rightarrow> addr \<Rightarrow> ('v, 'd, 't) driver \<Rightarrow> mem
   \<Rightarrow> (int \<times> ('v, 'd, 't) driver \<times> mem) option" where
  "SQLAllocHandle junk a handle_type input_handle output_handle_ptr w m =
     (let answer = (\<lambda>w. map_option (\<lambda>m. (SQL_SUCCESS, w, m)) (store_through 8 output_handle_ptr a m)) in
      if handle_type = SQL_HANDLE_DBC then
        answer (w\<lparr>dbcs := (dbcs w)(a \<mapsto> mk_OdbcHandleDbc (junk_dbc junk) input_handle)\<rparr>)
      else if handle_type = SQL_HANDLE_DESC then
        answer (w\<lparr>descs := (descs w)(a \<mapsto> mk_OdbcHandleDesc (fst (junk_headers junk)) input_handle nullptr False)\<rparr>)
      else if handle_type = SQL_HANDLE_ENV then
        answer (w\<lparr>envs := (envs w)(a \<mapsto> mk_OdbcHandleEnv (junk_env junk) (junk_database junk))\<rparr>)
      else if handle_type = SQL_HANDLE_STMT then
        (case dbcs w input_handle of
           None \<Rightarrow> None
         | Some dbc \<Rightarrow> answer (w\<lparr>
             dbcs := (dbcs w)(input_handle \<mapsto> dbc\<lparr>vec_stmt_ref := vec_stmt_ref dbc @ [a]\<rparr>),
             stmts := (stmts w)(a \<mapsto> mk_OdbcHandleStmt (junk_stmt junk) (junk_headers junk) input_handle)\<rparr>))
      else Some (SQL_INVALID_HANDLE, w, m))"

section \<open>Freeing\<close>

text \<open>\<^verbatim>\<open>~OdbcHandleDbc\<close> deletes the statements that were not freed; deleting one twice is not survived.\<close>

fun delete_stmts :: "addr list \<Rightarrow> (addr \<Rightarrow> 'v OdbcHandleStmt option) \<Rightarrow> (addr \<Rightarrow> 'v OdbcHandleStmt option) option" where
  "delete_stmts [] ss = Some ss" |
  "delete_stmts (s # refs) ss = (if ss s = None then None else delete_stmts refs (ss(s := None)))"

text \<open>\<^verbatim>\<open>ResetStmtDescriptors\<close> of a connection, on the statements it refers to.\<close>

definition reset_descriptor :: "addr \<Rightarrow> 'v OdbcHandleStmt \<Rightarrow> 'v OdbcHandleStmt" where
  "reset_descriptor old_desc h =
     (let h = (if cur_apd (param_desc h) = Some old_desc then h\<lparr>param_desc := ResetCurrentAPD (param_desc h)\<rparr> else h)
      in if cur_ard (row_desc h) = Some old_desc then h\<lparr>row_desc := ResetCurrentARD (row_desc h)\<rparr> else h)"

fun ResetStmtDescriptors ::
  "addr \<Rightarrow> addr list \<Rightarrow> (addr \<Rightarrow> 'v OdbcHandleStmt option) \<Rightarrow> (addr \<Rightarrow> 'v OdbcHandleStmt option) option" where
  "ResetStmtDescriptors old_desc [] ss = Some ss" |
  "ResetStmtDescriptors old_desc (s # refs) ss =
     (case ss s of
        None \<Rightarrow> None
      | Some h \<Rightarrow> ResetStmtDescriptors old_desc refs (ss(s \<mapsto> reset_descriptor old_desc h)))"

text \<open>A handle that does not have the type it is freed as is not survived.\<close>

definition FreeHandle :: "int \<Rightarrow> addr \<Rightarrow> ('v, 'd, 't) driver \<Rightarrow> (int \<times> ('v, 'd, 't) driver) option" where
  "FreeHandle handle_type handle w =
     (if handle = nullptr then Some (SQL_INVALID_HANDLE, w)
      else if handle_type = SQL_HANDLE_DBC then do {
        dbc \<leftarrow> dbcs w handle;
        ss \<leftarrow> delete_stmts (vec_stmt_ref dbc) (stmts w);
        Some (SQL_SUCCESS, w\<lparr>dbcs := (dbcs w)(handle := None), stmts := ss\<rparr>) }
      else if handle_type = SQL_HANDLE_DESC then do {
        d \<leftarrow> descs w handle;
        dbc \<leftarrow> dbcs w (desc_dbc d);
        ss \<leftarrow> ResetStmtDescriptors handle (vec_stmt_ref dbc) (stmts w);
        Some (SQL_SUCCESS, w\<lparr>stmts := ss, descs := (descs w)(handle := None)\<rparr>) }
      else if handle_type = SQL_HANDLE_ENV then
        (if envs w handle = None then None else Some (SQL_SUCCESS, w\<lparr>envs := (envs w)(handle := None)\<rparr>))
      else if handle_type = SQL_HANDLE_STMT then do {
        h \<leftarrow> stmts w handle;
        dbc \<leftarrow> dbcs w (st_dbc h);
        Some (SQL_SUCCESS, w\<lparr>dbcs := (dbcs w)(st_dbc h \<mapsto> EraseStmtRef handle dbc),
                             stmts := (stmts w)(handle := None)\<rparr>) }
      else Some (SQL_INVALID_HANDLE, w))"

section \<open>Handlers of a statement\<close>

text \<open>
  A handler gets from the conversion of its handle whether the connection is open, the name of its
  data source, the explicit descriptors and the statement; it answers with its return code and what
  else it changed.
\<close>

type_synonym ('v, 'b) stmt_handler =
  "bool \<Rightarrow> string \<Rightarrow> desc_store \<Rightarrow> 'v OdbcHandleStmt \<Rightarrow> ((int \<times> 'b) \<times> desc_store \<times> 'v OdbcHandleStmt) option"

definition stmt_call ::
  "('v, 'b) stmt_handler \<Rightarrow> addr \<Rightarrow> ('v, 'd, 't) driver \<Rightarrow> (int \<times> 'b option \<times> ('v, 'd, 't) driver) option" where
  "stmt_call f statement_handle w =
     (if statement_handle = nullptr then Some (SQL_INVALID_HANDLE, None, w)
      else
        (case stmts w statement_handle of
           None \<Rightarrow> if type_of_handle statement_handle w = None then None else Some (SQL_INVALID_HANDLE, None, w)
         | Some h \<Rightarrow> do {
             dbc \<leftarrow> dbcs w (st_dbc h);
             ((ret, b), ds, h') \<leftarrow> f (dbc_conn dbc \<noteq> None) (dbc_dsn dbc) (descs w) h;
             Some (ret, Some b, w\<lparr>descs := ds, stmts := (stmts w)(statement_handle \<mapsto> h')\<rparr>) }))"

text \<open>SQL\_DROP converts the handle, which clears its diagnostics, and frees it.\<close>

definition SQLFreeStmt :: "int \<Rightarrow> addr \<Rightarrow> ('v, 'd, 't) driver \<Rightarrow> (int \<times> ('v, 'd, 't) driver) option" where
  "SQLFreeStmt option statement_handle w =
     (if option = SQL_DROP then do {
        (ret, b, w) \<leftarrow> stmt_call (\<lambda>conn dsn ds h. case ConvertHSTMT conn h of (ret, h) \<Rightarrow> Some ((ret, ()), ds, h))
          statement_handle w;
        if ret \<noteq> SQL_SUCCESS then Some (ret, w) else FreeHandle SQL_HANDLE_STMT statement_handle w }
      else map_option (\<lambda>(ret, b, w). (ret, w))
        (stmt_call (\<lambda>conn dsn ds h. map_option (\<lambda>(ret, ds, h). ((ret, ()), ds, h)) (FreeStmt_option conn option ds h))
          statement_handle w))"

text \<open>A call of the engine that does not return.\<close>

definition returned :: "'a option option \<Rightarrow> 'a option" where
  "returned r = (case r of None \<Rightarrow> None | Some x \<Rightarrow> x)"

lemma returned_Some [simp]: "returned r = Some x \<longleftrightarrow> r = Some (Some x)"
  by (auto simp: returned_def split: option.splits)

section \<open>Transactions\<close>

definition stmt_MaterializeResult ::
  "string \<Rightarrow> 'v OdbcHandleStmt \<Rightarrow> (int \<times> 'v OdbcHandleStmt) option option" where
  "stmt_MaterializeResult dsn h =
     (if (case st_stmt h of None \<Rightarrow> True | Some s \<Rightarrow> ps_error s \<noteq> None) then Some (Some (SQL_SUCCESS, h))
      else if (case st_res h of None \<Rightarrow> True | Some res \<Rightarrow> res_error res \<noteq> None) then Some (Some (SQL_SUCCESS, h))
      else Materialize dsn h)"

text \<open>Only the statement that was allocated last is materialised; the outer None is a loop that does not end.\<close>

definition MaterializeResult ::
  "('d, 't) OdbcHandleDbc \<Rightarrow> (addr \<Rightarrow> 'v OdbcHandleStmt option)
   \<Rightarrow> (int \<times> (addr \<Rightarrow> 'v OdbcHandleStmt option)) option option" where
  "MaterializeResult dbc ss =
     (if vec_stmt_ref dbc = [] then Some (Some (SQL_SUCCESS, ss))
      else let s = last (vec_stmt_ref dbc) in
        (case ss s of
           None \<Rightarrow> Some None
         | Some h \<Rightarrow> map_option (map_option (\<lambda>(ret, h'). (ret, ss(s \<mapsto> h')))) (stmt_MaterializeResult (dbc_dsn dbc) h)))"

text \<open>\<^verbatim>\<open>SetDiagnosticRecord\<close> on a handle of any type.\<close>

definition handle_error ::
  "int \<Rightarrow> string \<Rightarrow> string \<Rightarrow> SQLStateType \<Rightarrow> addr \<Rightarrow> ('v, 'd, 't) driver \<Rightarrow> (int \<times> ('v, 'd, 't) driver) option" where
  "handle_error ret component msg state a w =
     (case type_of_handle a w of
        None \<Rightarrow> None
      | Some ENV \<Rightarrow> map_option (\<lambda>e. (ret, w\<lparr>envs := (envs w)(a \<mapsto> snd (env_error ret component msg state [] e))\<rparr>)) (envs w a)
      | Some DBC \<Rightarrow> map_option (\<lambda>d. (ret, w\<lparr>dbcs := (dbcs w)(a \<mapsto> snd (dbc_error ret component msg state [] d))\<rparr>)) (dbcs w a)
      | Some STMT \<Rightarrow> map_option (\<lambda>h. (ret, w\<lparr>stmts := (stmts w)(a \<mapsto> snd (stmt_diag h ret component msg state []))\<rparr>)) (stmts w a)
      | Some DESC \<Rightarrow> map_option (\<lambda>d. (ret, w\<lparr>descs := (descs w)(a \<mapsto>
          d\<lparr>desc_diag := snd (SetDiagnosticRecord (desc_diag d) ret component msg state [])\<rparr>)\<rparr>)) (descs w a))"

text \<open>The check of a connection handle in front of its handler \<^verbatim>\<open>f\<close>.\<close>

definition dbc_call ::
  "addr \<Rightarrow> (('d, 't) OdbcHandleDbc \<Rightarrow> ('v, 'd, 't) driver \<Rightarrow> (int \<times> ('v, 'd, 't) driver) option option)
   \<Rightarrow> ('v, 'd, 't) driver \<Rightarrow> (int \<times> ('v, 'd, 't) driver) option option" where
  "dbc_call handle f w =
     (if handle = nullptr then Some (Some (SQL_INVALID_HANDLE, w))
      else
        (case dbcs w handle of
           None \<Rightarrow> Some (if type_of_handle handle w = None then None else Some (SQL_INVALID_HANDLE, w))
         | Some dbc \<Rightarrow>
             (case ConvertConnection dbc of (ret, dbc) \<Rightarrow>
                let w = w\<lparr>dbcs := (dbcs w)(handle \<mapsto> dbc)\<rparr> in
                if ret \<noteq> SQL_SUCCESS then Some (Some (ret, w)) else f dbc w)))"

text \<open>
  An exception of \<^verbatim>\<open>Commit\<close> leaves the function, one of \<^verbatim>\<open>Rollback\<close> becomes a diagnostic record.
\<close>

definition SQLEndTran ::
  "('d, 't) storage \<Rightarrow> int \<Rightarrow> addr \<Rightarrow> int \<Rightarrow> ('v, 'd, 't) driver \<Rightarrow> (int \<times> ('v, 'd, 't) driver) option option" where
  "SQLEndTran st handle_type handle completion_type w =
     (if handle_type \<noteq> SQL_HANDLE_DBC then
        Some (handle_error SQL_ERROR ''SQLEndTran'' ''Invalid handle type, must be SQL_HANDLE_DBC.'' ST_HY092 handle w)
      else dbc_call handle (\<lambda>dbc w.
        case dbc_conn dbc of
          None \<Rightarrow> Some None
        | Some c \<Rightarrow>
          if completion_type = SQL_COMMIT then
            (case MaterializeResult dbc (stmts w) of
               None \<Rightarrow> None
             | Some None \<Rightarrow> Some None
             | Some (Some (ret, ss)) \<Rightarrow>
                 let w = w\<lparr>stmts := ss\<rparr> in
                 if ret \<noteq> SQL_SUCCESS then Some (Some (SQL_ERROR, w))
                 else if auto_commit c then Some (Some (SQL_SUCCESS, w))
                 else (case ConnectionCommit st c of
                         (Some msg, _) \<Rightarrow> Some None
                       | (None, c) \<Rightarrow> Some (Some (SQL_SUCCESS, w\<lparr>dbcs := (dbcs w)(handle \<mapsto> dbc\<lparr>dbc_conn := Some c\<rparr>)\<rparr>))))
          else if completion_type = SQL_ROLLBACK then
            (case ConnectionRollback st c of
               (None, c) \<Rightarrow> Some (Some (SQL_SUCCESS, w\<lparr>dbcs := (dbcs w)(handle \<mapsto> dbc\<lparr>dbc_conn := Some c\<rparr>)\<rparr>))
             | (Some msg, c) \<Rightarrow>
                 (case dbc_error SQL_ERROR ''SQLEndTran'' msg ST_HY115 (dbc_dsn dbc) (dbc\<lparr>dbc_conn := Some c\<rparr>) of
                    (ret, dbc) \<Rightarrow> Some (Some (ret, w\<lparr>dbcs := (dbcs w)(handle \<mapsto> dbc)\<rparr>))))
          else
            (case dbc_error SQL_ERROR ''SQLEndTran'' ''Invalid completion type.'' ST_HY012 (dbc_dsn dbc) dbc of
               (ret, dbc) \<Rightarrow> Some (Some (ret, w\<lparr>dbcs := (dbcs w)(handle \<mapsto> dbc)\<rparr>)))) w)"

definition SQLSetConnectAttr ::
  "('d, 't) storage \<Rightarrow> addr \<Rightarrow> int \<Rightarrow> addr \<Rightarrow> ('v, 'd, 't) driver \<Rightarrow> (int \<times> ('v, 'd, 't) driver) option" where
  "SQLSetConnectAttr st handle attribute value_ptr w =
     (if attribute \<in> {SQL_ATTR_LOGIN_TIMEOUT, SQL_ATTR_ODBC_CURSORS, SQL_ATTR_PACKET_SIZE, VENDOR_MSJET}
      then Some (SQL_SUCCESS, w)
      else if handle = nullptr then Some (SQL_INVALID_HANDLE, w)
      else
        (case dbcs w handle of
           None \<Rightarrow> if type_of_handle handle w = None then None else Some (SQL_INVALID_HANDLE, w)
         | Some dbc \<Rightarrow> map_option (\<lambda>(ret, dbc). (ret, w\<lparr>dbcs := (dbcs w)(handle \<mapsto> dbc)\<rparr>))
             (SetConnectAttrInternal st attribute value_ptr dbc)))"

definition SQLDisconnect :: "addr \<Rightarrow> ('v, 'd, 't) driver \<Rightarrow> (int \<times> ('v, 'd, 't) driver) option" where
  "SQLDisconnect handle w =
     returned (dbc_call handle (\<lambda>dbc w.
       Some (Some (SQL_SUCCESS, w\<lparr>dbcs := (dbcs w)(handle \<mapsto> dbc\<lparr>dbc_conn := None\<rparr>)\<rparr>))) w)"

section \<open>Descriptor handles\<close>

text \<open>
  A descriptor handle is an explicit descriptor or one of the four a statement owns; SQLGetStmtAttr
  gives out the latter.
\<close>

datatype desc_ref = Explicit addr | ImplicitARD addr | ImplicitIRD addr | ImplicitAPD addr | ImplicitIPD addr

definition get_desc :: "desc_ref \<Rightarrow> ('v, 'd, 't) driver \<Rightarrow> OdbcHandleDesc option" where
  "get_desc r w =
     (case r of
        Explicit a \<Rightarrow> descs w a
      | ImplicitARD s \<Rightarrow> map_option (\<lambda>h. ard (row_desc h)) (stmts w s)
      | ImplicitIRD s \<Rightarrow> map_option (\<lambda>h. ird (row_desc h)) (stmts w s)
      | ImplicitAPD s \<Rightarrow> map_option (\<lambda>h. apd (param_desc h)) (stmts w s)
      | ImplicitIPD s \<Rightarrow> map_option (\<lambda>h. ipd (param_desc h)) (stmts w s))"

definition put_desc :: "desc_ref \<Rightarrow> OdbcHandleDesc \<Rightarrow> ('v, 'd, 't) driver \<Rightarrow> ('v, 'd, 't) driver" where
  "put_desc r d w =
     (let on_stmt = (\<lambda>s f. w\<lparr>stmts := (stmts w)(s := map_option f (stmts w s))\<rparr>) in
      case r of
        Explicit a \<Rightarrow> w\<lparr>descs := (descs w)(a \<mapsto> d)\<rparr>
      | ImplicitARD s \<Rightarrow> on_stmt s (\<lambda>h. h\<lparr>row_desc := (row_desc h)\<lparr>ard := d\<rparr>\<rparr>)
      | ImplicitIRD s \<Rightarrow> on_stmt s (\<lambda>h. h\<lparr>row_desc := (row_desc h)\<lparr>ird := d\<rparr>\<rparr>)
      | ImplicitAPD s \<Rightarrow> on_stmt s (\<lambda>h. h\<lparr>param_desc := (param_desc h)\<lparr>apd := d\<rparr>\<rparr>)
      | ImplicitIPD s \<Rightarrow> on_stmt s (\<lambda>h. h\<lparr>param_desc := (param_desc h)\<lparr>ipd := d\<rparr>\<rparr>))"

text \<open>\<^verbatim>\<open>this_ird\<close> and \<^verbatim>\<open>this_ipd\<close> of the descriptor behind a handle.\<close>

definition is_ird_ref :: "desc_ref \<Rightarrow> bool" where
  "is_ird_ref r \<longleftrightarrow> (case r of ImplicitIRD s \<Rightarrow> True | _ \<Rightarrow> False)"

definition is_ipd_ref :: "desc_ref \<Rightarrow> bool" where
  "is_ipd_ref r \<longleftrightarrow> (case r of ImplicitIPD s \<Rightarrow> True | _ \<Rightarrow> False)"

text \<open>The data source name is read when an error is recorded; its connection must be alive then.\<close>

definition data_source :: "('v, 'd, 't) driver \<Rightarrow> OdbcHandleDesc \<Rightarrow> string" where
  "data_source w d = (case dbcs w (desc_dbc d) of None \<Rightarrow> [] | Some dbc \<Rightarrow> dbc_dsn dbc)"

definition SQLSetDescField ::
  "(nat \<Rightarrow> DescRecord) \<Rightarrow> desc_ref \<Rightarrow> int \<Rightarrow> int \<Rightarrow> addr \<Rightarrow> int \<Rightarrow> ('v, 'd, 't) driver \<Rightarrow> mem
   \<Rightarrow> (int \<times> ('v, 'd, 't) driver) option" where
  "SQLSetDescField junk r rec_number field_identifier value_ptr buffer_length w m = do {
     d \<leftarrow> get_desc r w;
     (ret, d') \<leftarrow> SetDescField junk (is_ird_ref r) (is_ipd_ref r) (data_source w d) rec_number field_identifier
                   value_ptr buffer_length m d;
     if ret = SQL_ERROR \<and> dbcs w (desc_dbc d) = None then None else Some (ret, put_desc r d' w) }"

definition SQLGetDescField ::
  "bool \<Rightarrow> desc_ref \<Rightarrow> int \<Rightarrow> int \<Rightarrow> addr \<Rightarrow> int \<Rightarrow> addr \<Rightarrow> ('v, 'd, 't) driver \<Rightarrow> mem
   \<Rightarrow> (int \<times> ('v, 'd, 't) driver \<times> mem) option" where
  "SQLGetDescField wide r rec_number field_identifier value_ptr buffer_length string_length_ptr w m = do {
     d \<leftarrow> get_desc r w;
     (ret, d', m) \<leftarrow> GetDescFieldInternal wide (is_ird_ref r) (is_ipd_ref r) (data_source w d) rec_number
                      field_identifier value_ptr buffer_length string_length_ptr d m;
     if ret = SQL_ERROR \<and> dbcs w (desc_dbc d) = None then None else Some (ret, put_desc r d' w, m) }"

text \<open>
  SQLCopyDesc: the walk over the statements of the source's connection, then the copy. Between
  descriptors of one connection the local pointer is assigned and nothing is copied.
\<close>

definition desc_diag_at ::
  "string \<Rightarrow> SQLStateType \<Rightarrow> desc_ref \<Rightarrow> OdbcHandleDesc \<Rightarrow> ('v, 'd, 't) driver \<Rightarrow> (int \<times> ('v, 'd, 't) driver) option" where
  "desc_diag_at msg state r d w =
     (case dbcs w (desc_dbc d) of
        None \<Rightarrow> None
      | Some dbc \<Rightarrow> (case desc_error (dbc_dsn dbc) ''SQLCopyDesc'' msg state d of
          (ret, d) \<Rightarrow> Some (ret, put_desc r d w)))"

fun copy_check ::
  "desc_ref \<Rightarrow> desc_ref \<Rightarrow> OdbcHandleDesc \<Rightarrow> OdbcHandleDesc \<Rightarrow> addr list \<Rightarrow> ('v, 'd, 't) driver
   \<Rightarrow> (int \<times> ('v, 'd, 't) driver) option option" where
  "copy_check source target sd td [] w = None" |
  "copy_check source target sd td (s # refs) w =
     (case stmts w s of
        None \<Rightarrow> Some None
      | Some h \<Rightarrow>
        if target = ImplicitIRD s then
          Some (desc_diag_at ''Cannot modify an implementation row descriptor.'' ST_HY016 target td w)
        else if source = ImplicitIRD s \<and> \<not> IsPrepared h then
          Some (desc_diag_at ''Associated statement is not prepared.'' ST_HY007 source sd w)
        else copy_check source target sd td refs w)"

definition SQLCopyDesc ::
  "desc_ref option \<Rightarrow> desc_ref option \<Rightarrow> ('v, 'd, 't) driver \<Rightarrow> (int \<times> ('v, 'd, 't) driver) option" where
  "SQLCopyDesc source_desc_handle target_desc_handle w =
     (case (source_desc_handle, target_desc_handle) of
        (Some source, Some target) \<Rightarrow> do {
          sd \<leftarrow> get_desc source w;
          td \<leftarrow> get_desc target w;
          dbc \<leftarrow> dbcs w (desc_dbc sd);
          (case copy_check source target sd td (vec_stmt_ref dbc) w of
             Some r \<Rightarrow> r
           | None \<Rightarrow>
             if desc_dbc sd = desc_dbc td then Some (SQL_SUCCESS, w)
             else do {
               tdbc \<leftarrow> dbcs w (desc_dbc td);
               if dbc_env dbc = dbc_env tdbc then Some (SQL_SUCCESS, put_desc target (CopyOnlyOdbcFields sd td) w)
               else Some (SQL_SUCCESS, put_desc target (CopyFieldByField sd td) w) }) }
      | _ \<Rightarrow> Some (SQL_INVALID_HANDLE, w))"

section \<open>Samples\<close>

text \<open>One environment, one open connection and one statement.\<close>

definition sample_dbc :: "(unit, unit) OdbcHandleDbc" where
  "sample_dbc = \<lparr>dbc_diag = mk_OdbcDiagnostic, dbc_env = 8, dbc_conn = Some (mk_Connection ()), dbc_autocommit = True,
     sql_attr_metadata_id = 0, sql_attr_access_mode = SQL_MODE_READ_WRITE, sql_attr_current_catalog = [], dbc_dsn = [],
     vec_stmt_ref = [32]\<rparr>"

definition sample_driver :: "string OdbcHandleStmt \<Rightarrow> (string, unit, unit) driver" where
  "sample_driver h =
     \<lparr>envs = [8 \<mapsto> \<lparr>env_diag = mk_OdbcDiagnostic, env_db = 4, odbc_version = SQL_OV_ODBC3, connection_pooling = 0,
        cp_match = 0, output_nts = 1\<rparr>],
      dbcs = [16 \<mapsto> sample_dbc], stmts = [32 \<mapsto> h], descs = Map.empty\<rparr>"

lemma sample_driver_simps [simp]:
  "stmts (sample_driver h) s = (if s = 32 then Some h else None)"
  "dbcs (sample_driver h) c = (if c = 16 then Some sample_dbc else None)"
  "descs (sample_driver h) = Map.empty" "dbc_conn sample_dbc = Some (mk_Connection ())" "dbc_dsn sample_dbc = []"
  by (simp_all add: sample_driver_def sample_dbc_def)

end
