(* ===== verification/Execution_Refinement.thy ===== *)
theory Execution_Refinement
  imports Statement_Api
begin

text \<open>
  What executing promises: every set of parameters is executed once and in order, and a query
  executed with SQLExecDirect delivers through SQLFetch the rows of the engine's result.
\<close>

section \<open>One execution per set of parameters\<close>

text \<open>The engine run on a list of parameter sets, up to the first result with an error.\<close>

fun execute_all ::
  "('v, 'q, 'db) sql_engine \<Rightarrow> PreparedStatement \<Rightarrow> ParamValue list list \<Rightarrow> 'db
   \<Rightarrow> ('v QueryResult \<times> PreparedStatement \<times> 'db) option" where
  "execute_all sql stmt [] db = None" |
  "execute_all sql stmt (vs # vss) db =
     (case sql_execute sql stmt vs db of
        None \<Rightarrow> None
      | Some (res, stmt, db) \<Rightarrow>
          if res_error res \<noteq> None \<or> vss = [] then Some (res, stmt, db) else execute_all sql stmt vss db)"

text \<open>The statement holds the outcome of the last execution.\<close>

definition after_execution :: "'v QueryResult \<Rightarrow> PreparedStatement \<Rightarrow> 'v OdbcHandleStmt \<Rightarrow> bool" where
  "after_execution res stmt h \<longleftrightarrow> st_res h = Some res \<and> st_stmt h = Some stmt \<and> st_open h = (res_error res = None)"

lemma store_opt_twice [simp]: "store_opt n a v (store_opt n a v m) = store_opt n a v m"
  by (auto simp: store_opt_def store_int_def store_bytes_def fun_eq_iff)

lemma stmt_diag_ret: "stmt_diag h ret c msg st dsn = (r, h') \<Longrightarrow> r = ret"
  by (metis fst_conv fst_stmt_diag)

lemma SingleExecute_text:
  assumes "GetAPD ds (param_desc h) = Some cur" "paramset_idx (param_desc h) = k" "k < 2 ^ 64 - 1"
    "m0 = store_opt 8 (rows_fetched_ptr h) 0 m" "bound_params (sql_valid sql) m0 cur (param_desc h) k"
    "st_stmt h = Some stmt"
  shows "\<exists>vs. SingleExecuteStmt sql dsn ds h m db =
    (case sql_execute sql stmt (bound_set m0 cur (param_desc h) k) db of
       None \<Rightarrow> None
     | Some (res, stmt', db') \<Rightarrow>
       (let h' = h\<lparr>odbc_fetcher := ClearChunks (odbc_fetcher h), st_open := False,
             param_desc := next_set vs (param_desc h), st_res := Some res, st_stmt := Some stmt'\<rparr>
        in case res_error res of
          Some msg \<Rightarrow> Some (SQL_ERROR, snd (stmt_diag h' SQL_ERROR ''SingleExecuteStmt'' msg ST_HY000 dsn), m0, db')
        | None \<Rightarrow> Some (if k + 1 = sql_desc_array_size (desc_header cur) then SQL_SUCCESS else SQL_STILL_EXECUTING,
                     h'\<lparr>st_open := True\<rparr>, m0, db')))"
proof -
  let ?h = "h\<lparr>st_res := None, odbc_fetcher := ClearChunks (odbc_fetcher h), st_open := False\<rparr>"
  obtain vs where g: "GetParamValues (sql_valid sql) dsn ds ?h m0 = Some
    (if k + 1 = sql_desc_array_size (desc_header cur) then SQL_SUCCESS else SQL_STILL_EXECUTING,
     bound_set m0 cur (param_desc ?h) k, ?h\<lparr>param_desc := next_set vs (param_desc ?h)\<rparr>, m0)"
    using GetParamValues_text[of ds ?h cur k "sql_valid sql" m0 dsn] assms by auto
  have "store_opt 8 (rows_fetched_ptr ?h) 0 m = m0" using assms(4) by simp
  then show ?thesis using g assms(6)
    by (intro exI[of _ vs])
      (auto simp: SingleExecuteStmt_def Let_def dest: stmt_diag_ret split: option.split prod.split)
qed


lemma batch_loop_step:
  "SingleExecuteStmt sql dsn ds h m db = None \<Longrightarrow> batch_loop sql dsn ds h m db = Some None"
  "SingleExecuteStmt sql dsn ds h m db = Some (SQL_STILL_EXECUTING, h', m', db') \<Longrightarrow>
     batch_loop sql dsn ds h m db = batch_loop sql dsn ds h' m' db'"
  "SingleExecuteStmt sql dsn ds h m db = Some (ret, h', m', db') \<Longrightarrow> ret \<noteq> SQL_STILL_EXECUTING \<Longrightarrow>
     batch_loop sql dsn ds h m db = Some (Some (ret, h', m', db'))"
  by (subst batch_loop.simps, simp)+

definition bound_sets :: "mem \<Rightarrow> OdbcHandleDesc \<Rightarrow> ParameterDescriptor \<Rightarrow> nat list \<Rightarrow> ParamValue list list" where
  "bound_sets m cur p ks = map (\<lambda>k. bound_set m cur p (int k)) ks"

lemma next_set_sets [simp]: "bound_sets m cur (next_set vs p) ks = bound_sets m cur p ks"
  by (simp add: bound_sets_def)

text \<open>The parameters are those before with the index of the set behind the last one.\<close>

definition advanced :: "nat \<Rightarrow> 'v OdbcHandleStmt \<Rightarrow> 'v OdbcHandleStmt \<Rightarrow> bool" where
  "advanced n h h' \<longleftrightarrow> (\<exists>vs. param_desc h' = (param_desc h)\<lparr>paramset_idx := int n, param_values := vs\<rparr>) \<and>
     rows_fetched_ptr h' = rows_fetched_ptr h"

lemma batch_from:
  assumes "GetAPD ds (param_desc h) = Some cur" "sql_desc_array_size (desc_header cur) = int n" "int n < 2 ^ 63"
    "m0 = store_opt 8 (rows_fetched_ptr h) 0 m" "st_stmt h = Some stmt"
    "paramset_idx (param_desc h) = int k" "k < n"
    "\<And>j. k \<le> j \<Longrightarrow> j < n \<Longrightarrow> bound_params (sql_valid sql) m0 cur (param_desc h) (int j)"
  shows "\<exists>h'. batch_loop sql dsn ds h m db =
    Some (case execute_all sql stmt (bound_sets m0 cur (param_desc h) [k..<n]) db of
       None \<Rightarrow> None
     | Some (res, stmt', db') \<Rightarrow> Some (if res_error res = None then SQL_SUCCESS else SQL_ERROR, h', m0, db')) \<and>
    (\<forall>res stmt' db'. execute_all sql stmt (bound_sets m0 cur (param_desc h) [k..<n]) db = Some (res, stmt', db') \<longrightarrow>
       after_execution res stmt' h' \<and> (res_error res = None \<longrightarrow> advanced n h h'))"
  using assms
proof (induction "n - k" arbitrary: k h m stmt db)
  case (Suc d)
  let ?p = "param_desc h"
  have k: "int k < 2 ^ 64 - 1" using Suc.prems(3,7) by simp
  have m0: "store_opt 8 (rows_fetched_ptr h) 0 m0 = m0" using Suc.prems(4) by simp
  have sets: "bound_sets m0 cur ?p [k..<n] = bound_set m0 cur ?p (int k) # bound_sets m0 cur ?p [Suc k..<n]"
    using Suc.prems(7) by (simp add: bound_sets_def upt_conv_Cons)
  have last: "bound_sets m0 cur ?p [Suc k..<n] = [] \<longleftrightarrow> int k + 1 = sql_desc_array_size (desc_header cur)"
    using Suc.prems(2,7) by (auto simp: bound_sets_def)
  obtain vs where single: "SingleExecuteStmt sql dsn ds h m db =
    (case sql_execute sql stmt (bound_set m0 cur ?p (int k)) db of
       None \<Rightarrow> None
     | Some (res, stmt', db') \<Rightarrow>
       (let h' = h\<lparr>odbc_fetcher := ClearChunks (odbc_fetcher h), st_open := False,
             param_desc := next_set vs ?p, st_res := Some res, st_stmt := Some stmt'\<rparr>
        in case res_error res of
          Some msg \<Rightarrow> Some (SQL_ERROR, snd (stmt_diag h' SQL_ERROR ''SingleExecuteStmt'' msg ST_HY000 dsn), m0, db')
        | None \<Rightarrow> Some (if int k + 1 = sql_desc_array_size (desc_header cur) then SQL_SUCCESS else SQL_STILL_EXECUTING,
                     h'\<lparr>st_open := True\<rparr>, m0, db')))"
    by (rule exE[OF SingleExecute_text[OF Suc.prems(1,6) k Suc.prems(4) Suc.prems(8)[OF order_refl Suc.prems(7)] Suc.prems(5)]])
  show ?case
  proof (cases "sql_execute sql stmt (bound_set m0 cur ?p (int k)) db")
    case None
    then show ?thesis using single sets batch_loop_step(1) by (simp add: Let_def)
  next
    case (Some r)
    obtain res stmt' db' where r: "r = (res, stmt', db')" by (cases r)
    let ?h = "h\<lparr>odbc_fetcher := ClearChunks (odbc_fetcher h), st_open := False, param_desc := next_set vs ?p,
      st_res := Some res, st_stmt := Some stmt'\<rparr>"
    have advance: "advanced (Suc k) h (?h\<lparr>st_open := True\<rparr>)"
      using Suc.prems(6) by (auto simp: advanced_def next_set_def add.commute intro!: exI[of _ vs])
    have advanced_later: "advanced n h h'" if "advanced n (?h\<lparr>st_open := True\<rparr>) h'" for h'
      using that by (auto simp: advanced_def next_set_def)
    show ?thesis
    proof (cases "res_error res")
      case (Some msg)
      then have "SingleExecuteStmt sql dsn ds h m db =
          Some (SQL_ERROR, snd (stmt_diag ?h SQL_ERROR ''SingleExecuteStmt'' msg ST_HY000 dsn), m0, db')"
        using single \<open>sql_execute _ _ _ _ = Some r\<close> r by (simp add: Let_def)
      from batch_loop_step(3)[OF this] show ?thesis
        using Some \<open>sql_execute _ _ _ _ = Some r\<close> r sets by (auto simp: after_execution_def)
    next
      case None
      note exec = this
      show ?thesis
      proof (cases "int k + 1 = sql_desc_array_size (desc_header cur)")
        case True
        then have "SingleExecuteStmt sql dsn ds h m db = Some (SQL_SUCCESS, ?h\<lparr>st_open := True\<rparr>, m0, db')"
          using single Some r exec by (simp add: Let_def)
        note step = batch_loop_step(3)[OF this]
        have "Suc k = n" using True Suc.prems(2) by linarith
        with advance have "advanced n h (?h\<lparr>st_open := True\<rparr>)" by simp
        with step show ?thesis
          using True last Some r exec sets by (auto simp: after_execution_def)
      next
        case False
        then have "SingleExecuteStmt sql dsn ds h m db = Some (SQL_STILL_EXECUTING, ?h\<lparr>st_open := True\<rparr>, m0, db')"
          using single Some r exec by (simp add: Let_def)
        note step = batch_loop_step(2)[OF this]
        have "\<exists>h'. batch_loop sql dsn ds (?h\<lparr>st_open := True\<rparr>) m0 db' =
          Some (case execute_all sql stmt' (bound_sets m0 cur (param_desc (?h\<lparr>st_open := True\<rparr>)) [Suc k..<n]) db' of
             None \<Rightarrow> None
           | Some (res, stmt', db') \<Rightarrow> Some (if res_error res = None then SQL_SUCCESS else SQL_ERROR, h', m0, db')) \<and>
          (\<forall>res stmt'' db''. execute_all sql stmt' (bound_sets m0 cur (param_desc (?h\<lparr>st_open := True\<rparr>)) [Suc k..<n]) db' =
              Some (res, stmt'', db'') \<longrightarrow>
              after_execution res stmt'' h' \<and> (res_error res = None \<longrightarrow> advanced n (?h\<lparr>st_open := True\<rparr>) h'))"
        proof (rule Suc.hyps(1))
          show "d = n - Suc k" using Suc.hyps(2) by simp
          show "Suc k < n" using False Suc.prems(2,7) by linarith
          show "m0 = store_opt 8 (rows_fetched_ptr (?h\<lparr>st_open := True\<rparr>)) 0 m0" using m0 by simp
          show "bound_params (sql_valid sql) m0 cur (param_desc (?h\<lparr>st_open := True\<rparr>)) (int j)" if "Suc k \<le> j" "j < n" for j
            using Suc.prems(8)[of j] that by simp
        qed (use Suc.prems(1-3,6) in simp_all)
        then show ?thesis using step Some r exec sets False last advanced_later by simp blast
      qed
    qed
  qed
qed simp


text \<open>
  C5. The loop of SQLExecute over an array of parameters, each of them NULL or given with its length, ends
  when it starts at the first set. It runs the engine once for every index of the array, in order, up to
  the first error, and leaves the result of the last run and the index behind the last set. A text or a
  binary parameter contributes its element of the set, at the stride of the driver; a parameter of fixed
  size contributes the first element of its array to every set. The arrays are bound by column without
  an offset and without a status array; SQL\_NUMERIC and data sent at execution are left aside.
\<close>

theorem batch_executes_each_set_once:
  assumes "GetAPD ds (param_desc h) = Some cur" "sql_desc_array_size (desc_header cur) = int n" "0 < n" "int n < 2 ^ 63"
    "m0 = store_opt 8 (rows_fetched_ptr h) 0 m" "st_stmt h = Some stmt" "paramset_idx (param_desc h) = 0"
    "\<And>j. j < n \<Longrightarrow> bound_params (sql_valid sql) m0 cur (param_desc h) (int j)"
  shows "\<exists>h'. batch_loop sql dsn ds h m db =
    Some (case execute_all sql stmt (bound_sets m0 cur (param_desc h) [0..<n]) db of
       None \<Rightarrow> None
     | Some (res, stmt', db') \<Rightarrow> Some (if res_error res = None then SQL_SUCCESS else SQL_ERROR, h', m0, db')) \<and>
    (\<forall>res stmt' db'. execute_all sql stmt (bound_sets m0 cur (param_desc h) [0..<n]) db = Some (res, stmt', db') \<longrightarrow>
       after_execution res stmt' h' \<and> (res_error res = None \<longrightarrow> advanced n h h'))"
  using batch_from[of ds h cur n m0 m stmt 0 sql dsn db] assms by simp

section \<open>Executing again\<close>

text \<open>The engine run on a list of sets without an error.\<close>

fun execute_run ::
  "('v, 'q, 'db) sql_engine \<Rightarrow> PreparedStatement \<Rightarrow> ParamValue list list \<Rightarrow> 'db \<Rightarrow> (PreparedStatement \<times> 'db) option" where
  "execute_run sql stmt [] db = Some (stmt, db)" |
  "execute_run sql stmt (vs # vss) db =
     (case sql_execute sql stmt vs db of
        None \<Rightarrow> None
      | Some (res, stmt, db) \<Rightarrow> if res_error res = None then execute_run sql stmt vss db else None)"

definition never_fails :: "('v, 'q, 'db) sql_engine \<Rightarrow> bool" where
  "never_fails sql \<longleftrightarrow> (\<forall>stmt vs db. \<exists>res stmt' db'. sql_execute sql stmt vs db = Some (res, stmt', db') \<and> res_error res = None)"

lemma execute_all_never_fails:
  "never_fails sql \<Longrightarrow> vss \<noteq> [] \<Longrightarrow> \<exists>res stmt' db'. execute_all sql stmt vss db = Some (res, stmt', db') \<and> res_error res = None"
proof (induction vss arbitrary: stmt db)
  case (Cons vs vss)
  obtain res stmt' db' where "sql_execute sql stmt vs db = Some (res, stmt', db')" "res_error res = None"
    using Cons.prems(1) unfolding never_fails_def by metis
  then show ?case using Cons.IH[OF Cons.prems(1)] by (cases "vss = []") simp_all
qed simp

lemma overrun_from:
  assumes "GetAPD ds (param_desc h) = Some cur" "sql_desc_array_size (desc_header cur) = int n" "n \<le> k"
    "int (k + d) < 2 ^ 64 - 1" "m0 = store_opt 8 (rows_fetched_ptr h) 0 m" "st_stmt h = Some stmt"
    "paramset_idx (param_desc h) = int k" "never_fails sql"
    "\<And>j. k \<le> j \<Longrightarrow> j < k + d \<Longrightarrow> bound_params (sql_valid sql) m0 cur (param_desc h) (int j)"
  shows "\<exists>h' m' stmt' db'. batch_loop sql dsn ds h m db = batch_loop sql dsn ds h' m' db' \<and>
    paramset_idx (param_desc h') = int (k + d) \<and>
    execute_run sql stmt (bound_sets m0 cur (param_desc h) [k..<k + d]) db = Some (stmt', db')"
  using assms
proof (induction d arbitrary: k h m stmt db)
  case 0
  then show ?case by (auto simp: bound_sets_def)
next
  case (Suc d)
  let ?p = "param_desc h"
  have k: "int k < 2 ^ 64 - 1" using Suc.prems(4) by simp
  have m0: "store_opt 8 (rows_fetched_ptr h) 0 m0 = m0" using Suc.prems(5) by simp
  have t: "bound_params (sql_valid sql) m0 cur ?p (int k)" by (rule Suc.prems(9)) simp_all
  obtain res stmt1 db1 where e: "sql_execute sql stmt (bound_set m0 cur ?p (int k)) db = Some (res, stmt1, db1)"
    "res_error res = None" using Suc.prems(8) unfolding never_fails_def by metis
  have ne: "int k + 1 \<noteq> sql_desc_array_size (desc_header cur)" using Suc.prems(2,3) by linarith
  obtain vs where "SingleExecuteStmt sql dsn ds h m db = Some (SQL_STILL_EXECUTING,
      h\<lparr>odbc_fetcher := ClearChunks (odbc_fetcher h), param_desc := next_set vs ?p,
        st_res := Some res, st_stmt := Some stmt1, st_open := True\<rparr>, m0, db1)"
    by (rule exE[OF SingleExecute_text[OF Suc.prems(1,7) k Suc.prems(5) t Suc.prems(6), of dsn db]])
      (use e ne in \<open>auto simp: Let_def\<close>)
  note step = batch_loop_step(2)[OF this]
  let ?h = "h\<lparr>odbc_fetcher := ClearChunks (odbc_fetcher h), param_desc := next_set vs ?p,
        st_res := Some res, st_stmt := Some stmt1, st_open := True\<rparr>"
  have "\<exists>h' m' stmt' db'. batch_loop sql dsn ds ?h m0 db1 = batch_loop sql dsn ds h' m' db' \<and>
    paramset_idx (param_desc h') = int (Suc k + d) \<and>
    execute_run sql stmt1 (bound_sets m0 cur (param_desc ?h) [Suc k..<Suc k + d]) db1 = Some (stmt', db')"
  proof (rule Suc.IH)
    show "m0 = store_opt 8 (rows_fetched_ptr ?h) 0 m0" using m0 by simp
    show "bound_params (sql_valid sql) m0 cur (param_desc ?h) (int j)" if "Suc k \<le> j" "j < Suc k + d" for j
      using Suc.prems(9)[of j] that by simp
  qed (use Suc.prems(1-4,7,8) in simp_all)
  then obtain h' m' stmt' db' where r: "batch_loop sql dsn ds ?h m0 db1 = batch_loop sql dsn ds h' m' db'"
    "paramset_idx (param_desc h') = int (Suc k + d)"
    "execute_run sql stmt1 (bound_sets m0 cur ?p [Suc k..<Suc k + d]) db1 = Some (stmt', db')" by auto
  have "execute_run sql stmt (bound_sets m0 cur ?p [k..<k + Suc d]) db = Some (stmt', db')"
    using e r(3) by (simp add: bound_sets_def upt_rec[of k] del: upt_Suc)
  then show ?case using step r(1,2) by (metis add_Suc add_Suc_right)
qed

text \<open>Fetching the first chunk and filling the IRD leave the parameters of a statement alone.\<close>

definition same_params :: "'v OdbcHandleStmt \<Rightarrow> 'v OdbcHandleStmt \<Rightarrow> bool" where
  "same_params h h' \<longleftrightarrow> param_desc h' = param_desc h \<and> rows_fetched_ptr h' = rows_fetched_ptr h \<and>
     (st_stmt h \<noteq> None \<longrightarrow> st_stmt h' \<noteq> None)"

lemma same_params_simps [simp]:
  "same_params h h" "same_params h (h\<lparr>odbc_fetcher := f\<rparr>)" "same_params h (h\<lparr>st_diag := d\<rparr>)"
  "same_params (h\<lparr>odbc_fetcher := f\<rparr>) h' = same_params h h'" "same_params h (h'\<lparr>odbc_fetcher := f\<rparr>) = same_params h h'"
  by (simp_all add: same_params_def)

lemma stmt_diag_params [simp]: "same_params h (snd (stmt_diag h' ret c msg st dsn)) = same_params h h'"
  by (simp add: stmt_diag_def SetDiagnosticRecord_def Let_def same_params_def)

lemma stmt_diag_params_eq: "stmt_diag h' ret c msg st dsn = (r, h'') \<Longrightarrow> same_params h h' \<Longrightarrow> same_params h h''"
  by (metis snd_conv stmt_diag_params)

lemma FetchNext_params: "FetchNext dsn h = Some (ret, h') \<Longrightarrow> same_params h h'"
  by (auto simp: FetchNext_def Let_def bind_eq_Some_conv split: if_split_asm option.splits prod.splits sum.splits
      elim!: stmt_diag_params_eq) (simp_all add: same_params_def)

lemma FetchFirst_params: "FetchFirst dsn h = Some (ret, h') \<Longrightarrow> same_params h h'"
  by (auto simp: FetchFirst_def FetchNextChunk_def SetFirstCurrentChunk_def Let_def bind_eq_Some_conv
      split: if_split_asm prod.splits dest!: FetchNext_params)

lemma after_batch_params:
  assumes "after_batch sql dsn ret h = Some (ret', h')" "st_stmt h \<noteq> None"
  shows "same_params h h'"
proof -
  have fill: "same_params h2 h'" if "FillIRD phys cat junk (h1\<lparr>st_stmt := Some s, bound_cols := b\<rparr>) = Some h'" "same_params h2 h1"
    for h1 h2 s b phys cat junk
    using that by (auto simp: FillIRD_def Let_def bind_eq_Some_conv same_params_def split: option.splits if_split_asm)
  show ?thesis using assms(1)
    by (auto simp: after_batch_def fill_ird_def Let_def bind_eq_Some_conv split: if_split_asm
        dest!: FetchFirst_params elim: fill)
qed

text \<open>
  C26. The index of the parameter set is not reset by an execution: when SQLExecute has run a prepared
  statement on the \<^verbatim>\<open>n\<close> sets of its array and is called again before the cursor is closed, it goes on after
  the last set. The loop misses its only exit and runs the engine on whatever lies behind the client's
  arrays, for as many more sets \<^verbatim>\<open>d\<close> as can be read there; an engine that never fails is assumed.
\<close>

theorem reexecution_overruns:
  assumes "GetAPD ds (param_desc h) = Some cur" "sql_desc_array_size (desc_header cur) = int n" "0 < n"
    "int (n + d) < 2 ^ 63" "m0 = store_opt 8 (rows_fetched_ptr h) 0 m" "st_stmt h = Some stmt"
    "paramset_idx (param_desc h) = 0" "never_fails sql"
    "\<And>j. j < n + d \<Longrightarrow> bound_params (sql_valid sql) m0 cur (param_desc h) (int j)"
    "SQLExecute sql True dsn ds h m db = Some (Some (ret, h1, m1, db1))"
  shows "\<exists>h' m' stmt1 stmt' db'. SQLExecute sql True dsn ds h1 m1 db1 = BatchExecuteStmt sql dsn ds h' m' db' \<and>
    paramset_idx (param_desc h') = int (n + d) \<and> st_stmt h1 = Some stmt1 \<and>
    execute_run sql stmt1 (bound_sets m0 cur (param_desc h) [n..<n + d]) db1 = Some (stmt', db')"
proof -
  let ?h = "h\<lparr>st_diag := Clean (st_diag h)\<rparr>"
  have first: "\<exists>h2. batch_loop sql dsn ds ?h m db =
      Some (case execute_all sql stmt (bound_sets m0 cur (param_desc ?h) [0..<n]) db of
         None \<Rightarrow> None
       | Some (res, stmt', db') \<Rightarrow> Some (if res_error res = None then SQL_SUCCESS else SQL_ERROR, h2, m0, db')) \<and>
      (\<forall>res stmt' db'. execute_all sql stmt (bound_sets m0 cur (param_desc ?h) [0..<n]) db = Some (res, stmt', db') \<longrightarrow>
         after_execution res stmt' h2 \<and> (res_error res = None \<longrightarrow> advanced n ?h h2))"
    by (rule batch_from) (use assms in simp_all)
  obtain h2 res stmt2 db2 where e: "execute_all sql stmt (bound_sets m0 cur (param_desc ?h) [0..<n]) db = Some (res, stmt2, db2)"
    "res_error res = None" "batch_loop sql dsn ds ?h m db = Some (Some (SQL_SUCCESS, h2, m0, db2))"
    "after_execution res stmt2 h2" "advanced n ?h h2"
    using first execute_all_never_fails[OF assms(8), of "bound_sets m0 cur (param_desc ?h) [0..<n]" stmt db] assms(3)
    by (auto simp: bound_sets_def)
  have h1: "m1 = m0" "db1 = db2" "after_batch sql dsn SQL_SUCCESS h2 = Some (ret, h1)"
    using assms(10) e(3) by (auto simp: SQLExecute_def BatchExecuteStmt_def)
  have s: "same_params h2 h1" using after_batch_params[OF h1(3)] e(4) by (simp add: after_execution_def)
  obtain vs where vs: "param_desc h1 = (param_desc h)\<lparr>paramset_idx := int n, param_values := vs\<rparr>"
    "rows_fetched_ptr h1 = rows_fetched_ptr h" using s e(5) by (auto simp: same_params_def advanced_def)
  obtain stmt1 where stmt1: "st_stmt h1 = Some stmt1" using s e(4) by (auto simp: same_params_def after_execution_def)
  let ?h1 = "h1\<lparr>st_diag := Clean (st_diag h1)\<rparr>"
  have same: "bound_sets m0 cur (param_desc ?h1) ks = bound_sets m0 cur (param_desc h) ks"
    "bound_params v m0 cur (param_desc ?h1) k = bound_params v m0 cur (param_desc h) k" for ks v k
    by (simp_all add: vs(1) bound_sets_def bound_set_def bound_value_def text_stride_def bound_params_def bound_param_def
        plain_params_def)
  have "\<exists>h' m' stmt' db'. batch_loop sql dsn ds ?h1 m0 db2 = batch_loop sql dsn ds h' m' db' \<and>
      paramset_idx (param_desc h') = int (n + d) \<and>
      execute_run sql stmt1 (bound_sets m0 cur (param_desc ?h1) [n..<n + d]) db2 = Some (stmt', db')"
  proof (rule overrun_from)
    show "GetAPD ds (param_desc ?h1) = Some cur" using assms(1) by (simp add: vs(1) GetAPD_def)
    show "m0 = store_opt 8 (rows_fetched_ptr ?h1) 0 m0" using assms(5) vs(2) by simp
    show "bound_params (sql_valid sql) m0 cur (param_desc ?h1) (int j)" if "n \<le> j" "j < n + d" for j
      using assms(9)[of j] that by (simp only: same)
    show "int (n + d) < 2 ^ 64 - 1" using assms(4) by simp
    show "st_stmt ?h1 = Some stmt1" "paramset_idx (param_desc ?h1) = int n" using stmt1 vs(1) by simp_all
  qed (rule assms order_refl)+
  then obtain h' m' stmt' db' where r: "batch_loop sql dsn ds ?h1 m0 db2 = batch_loop sql dsn ds h' m' db'"
    "paramset_idx (param_desc h') = int (n + d)"
    "execute_run sql stmt1 (bound_sets m0 cur (param_desc h) [n..<n + d]) db2 = Some (stmt', db')" unfolding same by blast
  have "SQLExecute sql True dsn ds h1 m1 db1 = BatchExecuteStmt sql dsn ds h' m' db'"
    using r(1) by (simp add: SQLExecute_def BatchExecuteStmt_def h1(1,2))
  then show ?thesis using r(2,3) stmt1 h1(2) by blast
qed

section \<open>From SQLExecDirect to the last row\<close>

text \<open>What fetching leaves alone.\<close>

definition same_session :: "'v OdbcHandleStmt \<Rightarrow> 'v OdbcHandleStmt \<Rightarrow> bool" where
  "same_session h h' \<longleftrightarrow> st_stmt h' = st_stmt h \<and> retrieve_data h' = retrieve_data h \<and> st_open h' = st_open h \<and>
     bound_cols h' = bound_cols h"

lemma same_session_fetcher [simp]: "same_session h (h\<lparr>odbc_fetcher := f\<rparr>)" "same_session h h"
  by (simp_all add: same_session_def)

lemma same_session_trans: "same_session h h1 \<Longrightarrow> same_session h1 h2 \<Longrightarrow> same_session h h2"
  by (simp add: same_session_def)

lemma FetchNext_session:
  assumes "FetchNext dsn h = Some (ret, h')" "ret \<noteq> SQL_ERROR"
  shows "same_session h h'"
  using assms
  by (auto simp: FetchNext_def same_session_def Let_def bind_eq_Some_conv dest: stmt_diag_ret
      split: if_split_asm option.splits prod.splits sum.splits)

lemma FetchNextChunk_session:
  assumes "FetchNextChunk dsn SQL_FETCH_NEXT off h = Some (ret, h')" "ret \<noteq> SQL_ERROR"
  shows "same_session h h'"
proof -
  let ?h = "h\<lparr>odbc_fetcher := (odbc_fetcher h)\<lparr>prior_chunk_row := chunk_row (odbc_fetcher h)\<rparr>\<rparr>"
  have "h' = ?h \<or> FetchNext dsn ?h = Some (ret, h')"
    using assms(1) by (auto simp: FetchNextChunk_def Let_def split: if_split_asm)
  then show ?thesis using FetchNext_session[of dsn ?h ret h'] assms(2) same_session_trans[of h ?h h'] by auto
qed

lemma fetch_rows_session:
  assumes "fetch_rows eng dsn bound target rows ret h m = Some (ret', h', m')" "unbound h" "bound_cols h \<noteq> []"
    "\<forall>b \<in> set (bound_cols h). \<not> bound b"
  shows "ret' = ret \<and> (\<exists>f. h' = h\<lparr>odbc_fetcher := f\<rparr>)"
  using assms
proof (induction rows arbitrary: h m)
  case Nil
  then show ?case by (auto intro: exI[of _ "odbc_fetcher h"])
next
  case (Cons i rows)
  let ?h = "h\<lparr>odbc_fetcher := (odbc_fetcher h)\<lparr>chunk_row := chunk_row (odbc_fetcher h) + 1\<rparr>\<rparr>"
  obtain s where s: "st_stmt h = Some s" "ColumnCount s \<le> length (bound_cols h)"
    using Cons.prems(2,3) by (auto simp: unbound_def)
  have "fetch_rows eng dsn bound target rows ret ?h (SetRowStatus i SQL_SUCCESS ?h m) = Some (ret', h', m')"
    using Cons.prems(1,4) s by (simp add: fetch_columns_unbound Let_def)
  then have "ret' = ret \<and> (\<exists>f. h' = ?h\<lparr>odbc_fetcher := f\<rparr>)" by (rule Cons.IH) (use Cons.prems in simp_all)
  then show ?case by auto
qed

lemma count_rows_session: "count_rows h = Some h' \<Longrightarrow> same_session h h'"
  by (auto simp: count_rows_def)

lemma rowset_session:
  assumes "unbound h" "bound_cols h \<noteq> []"
  shows "ColumnWise eng dsn h m = Some (ret, h', m') \<Longrightarrow> same_session h h'"
    and "RowWise eng dsn h m = Some (ret, h', m') \<Longrightarrow> same_session h h'"
proof -
  have nb: "\<forall>b \<in> set (bound_cols h). \<not> (IsBound b \<or> IsVarcharBound b)" "\<forall>b \<in> set (bound_cols h). \<not> IsBound b"
    using assms(1) by (auto simp: unbound_def)
  show "ColumnWise eng dsn h m = Some (ret, h', m') \<Longrightarrow> same_session h h'"
    by (auto simp: ColumnWise_def Let_def bind_eq_Some_conv dest: fetch_rows_session[OF _ assms nb(1)])
  show "RowWise eng dsn h m = Some (ret, h', m') \<Longrightarrow> same_session h h'"
    by (auto simp: RowWise_def Let_def bind_eq_Some_conv dest: fetch_rows_session[OF _ assms nb(2)])
qed

lemma Fetch_session:
  assumes "Fetch eng dsn SQL_FETCH_NEXT off h m = Some (ret, h', m')" "unbound h" "ret \<noteq> SQL_ERROR"
  shows "same_session h h'"
proof -
  obtain r1 h1 where n: "FetchNextChunk dsn SQL_FETCH_NEXT off h = Some (r1, h1)"
    using assms(1) by (auto simp: Fetch_def bind_eq_Some_conv)
  show ?thesis
  proof (cases "r1 = SQL_SUCCESS")
    case False
    then show ?thesis using assms n FetchNextChunk_session[OF n] by (auto simp: Fetch_def split: if_split_asm)
  next
    case True
    then have s1: "same_session h h1" using FetchNextChunk_session[OF n] by simp
    then have u: "unbound h1" using unbound_cong[of h1 h] assms(2) by (simp add: same_session_def)
    have "same_session h1 h'"
    proof (cases "bound_cols h1 = []")
      case True
      let ?h = "h1\<lparr>odbc_fetcher := (odbc_fetcher h1)\<lparr>chunk_row := wrap_s 64 (chunk_row (odbc_fetcher h1) + ard_array_size h1)\<rparr>\<rparr>"
      have "count_rows ?h = Some h'"
        using assms(1) n \<open>r1 = SQL_SUCCESS\<close> True by (auto simp: Fetch_def Let_def bind_eq_Some_conv)
      then show ?thesis using count_rows_session same_session_trans same_session_fetcher(1) by blast
    next
      case False
      obtain r2 h2 m2 where w: "ColumnWise eng dsn h1 m = Some (r2, h2, m2) \<or> RowWise eng dsn h1 m = Some (r2, h2, m2)"
        and c: "h' = h2 \<or> count_rows h2 = Some h'"
        using assms(1) n \<open>r1 = SQL_SUCCESS\<close> False
        by (auto simp: Fetch_def Let_def bind_eq_Some_conv split: if_split_asm)
      have "same_session h1 h2" using w rowset_session[OF u False] by blast
      then show ?thesis using c count_rows_session same_session_trans by blast
    qed
    then show ?thesis using s1 same_session_trans by blast
  qed
qed


text \<open>
  A session in which SQLFetch goes straight to the fetcher: the statement is prepared and open, data
  are wanted and the forward-only cursor is in order.
\<close>

definition fetching :: "'v OdbcHandleStmt \<Rightarrow> bool" where
  "fetching h \<longleftrightarrow> forward_inv h \<and> (\<exists>s. st_stmt h = Some s \<and> ps_error s = None) \<and> retrieve_data h = SQL_RD_ON \<and> st_open h"

definition sql_fetch_row ::
  "'v engine \<Rightarrow> ('v, 'q, 'db) sql_engine \<Rightarrow> string \<Rightarrow> desc_store \<Rightarrow> 'db \<Rightarrow> 'v OdbcHandleStmt \<times> mem
   \<Rightarrow> ('v list option \<times> 'v OdbcHandleStmt \<times> mem) option" where
  "sql_fetch_row eng sql dsn ds db s =
     (case SQLFetch eng sql True dsn ds (fst s) (snd s) db of
        None \<Rightarrow> None
      | Some (ret, h, m, db') \<Rightarrow>
          if ret = SQL_SUCCESS then map_option (\<lambda>r. (Some r, h, m)) (current_row (odbc_fetcher h))
          else if ret = SQL_NO_DATA then Some (None, h, m) else None)"

lemma diag_frame [simp]:
  "forward_inv (h\<lparr>st_diag := d\<rparr>) = forward_inv h" "undelivered (h\<lparr>st_diag := d\<rparr>) = undelivered h"
  "unbound (h\<lparr>st_diag := d\<rparr>) = unbound h"
  by (simp_all add: forward_inv_def undelivered_def unbound_def pending_def ard_array_size_def split: option.split)

lemma SQLFetch_fetching:
  assumes "fetching h"
  shows "SQLFetch eng sql True dsn ds h m db =
    map_option (\<lambda>(ret, h, m). (ret, h, m, db)) (Fetch eng dsn SQL_FETCH_NEXT 0 (h\<lparr>st_diag := Clean (Clean (st_diag h))\<rparr>) m)"
proof -
  let ?h = "h\<lparr>st_diag := Clean (st_diag h)\<rparr>" and ?h2 = "h\<lparr>st_diag := Clean (Clean (st_diag h))\<rparr>"
  obtain s where s: "st_stmt h = Some s" "ps_error s = None" using assms by (auto simp: fetching_def)
  have p: "ConvertHSTMTPrepared True dsn h = (SQL_SUCCESS, ?h)" "ConvertHSTMTPrepared True dsn ?h = (SQL_SUCCESS, ?h2)"
    using ConvertHSTMTPrepared_success[of h s dsn] ConvertHSTMTPrepared_success[of ?h s dsn] s by simp_all
  have "has_result ?h2" using assms by (auto simp: has_result_def fetching_def forward_inv_def Let_def pending_def)
  then show ?thesis using assms p
    by (simp add: SQLFetch_def ExecuteBeforeFetch_def DummyFetch_def FetchStmtResult_def fetching_def map_conv_bind_option)
      (simp add: split_def comp_def)
qed

lemma sql_fetch_row_next:
  assumes "fetching (fst s)" "fetch_next_row eng dsn ((fst s)\<lparr>st_diag := Clean (Clean (st_diag (fst s)))\<rparr>, snd s) = Some (r, s')"
  shows "sql_fetch_row eng sql dsn ds db s = Some (r, s') \<and> (forward_inv (fst s') \<longrightarrow> fetching (fst s'))"
proof -
  let ?h = "(fst s)\<lparr>st_diag := Clean (Clean (st_diag (fst s)))\<rparr>"
  obtain ret h' m' where F: "Fetch eng dsn SQL_FETCH_NEXT 0 ?h (snd s) = Some (ret, h', m')"
    and ret: "ret = SQL_SUCCESS \<or> ret = SQL_NO_DATA" and s': "s' = (h', m')"
    using assms(2) by (auto simp: fetch_next_row_def split: option.splits if_split_asm)
  have "unbound ?h" using assms(1) by (simp add: fetching_def forward_inv_def Let_def)
  then have "same_session ?h h'" using Fetch_session[OF F] ret by auto
  then have "forward_inv h' \<longrightarrow> fetching h'" using assms(1) by (auto simp: fetching_def same_session_def)
  moreover have "sql_fetch_row eng sql dsn ds db s = Some (r, s')"
    using assms(2) F SQLFetch_fetching[OF assms(1), of eng sql dsn ds "snd s" db] s'
    by (simp add: sql_fetch_row_def fetch_next_row_def)
  ultimately show ?thesis using s' by simp
qed

interpretation sql_fetch: row_source "sql_fetch_row eng sql dsn ds db" "\<lambda>s. fetching (fst s)" "\<lambda>s. undelivered (fst s)"
  for eng :: "'v engine" and sql :: "('v, 'q, 'db) sql_engine" and dsn ds db
proof unfold_locales
  fix s :: "'v OdbcHandleStmt \<times> mem" and r rs
  assume f: "fetching (fst s)" "undelivered (fst s) = r # rs"
  let ?s = "((fst s)\<lparr>st_diag := Clean (Clean (st_diag (fst s)))\<rparr>, snd s)"
  obtain s' where "fetch_next_row eng dsn ?s = Some (Some r, s')" "forward_inv (fst s')" "undelivered (fst s') = rs"
    using forward.next_some[of ?s r rs eng dsn] f by (auto simp: fetching_def)
  then show "\<exists>s'. sql_fetch_row eng sql dsn ds db s = Some (Some r, s') \<and> fetching (fst s') \<and> undelivered (fst s') = rs"
    using sql_fetch_row_next[OF f(1), of eng dsn "Some r" s' sql ds db] by auto
next
  fix s :: "'v OdbcHandleStmt \<times> mem"
  assume f: "fetching (fst s)" "undelivered (fst s) = []"
  let ?s = "((fst s)\<lparr>st_diag := Clean (Clean (st_diag (fst s)))\<rparr>, snd s)"
  obtain s' where "fetch_next_row eng dsn ?s = Some (None, s')" "forward_inv (fst s')" "undelivered (fst s') = []"
    using forward.next_none[of ?s eng dsn] f by (auto simp: fetching_def)
  then show "\<exists>s'. sql_fetch_row eng sql dsn ds db s = Some (None, s') \<and> fetching (fst s') \<and> undelivered (fst s') = []"
    using sql_fetch_row_next[OF f(1), of eng dsn None s' sql ds db] by auto
qed


text \<open>Fetching the first chunk after an execution puts the cursor before the first row.\<close>

lemma FetchFirst_forward:
  assumes "odbc_fetcher h = ClearChunks f" "cursor_type f = SQL_CURSOR_FORWARD_ONLY" "pending h cs"
    "list_all small_chunk cs" "unbound h" "ard_array_size h = 1"
  obtains ret h' where "FetchFirst dsn h = Some (ret, h')" "ret \<noteq> SQL_ERROR" "forward_inv h'"
    "undelivered h' = concat cs" "same_session h h'"
proof -
  define f0 where "f0 = (ClearChunks f)\<lparr>cursor_type := SQL_CURSOR_DYNAMIC, current_chunk_idx := 0, chunk_row := - 1,
    prior_chunk_row := - 1\<rparr>"
  let ?h = "h\<lparr>odbc_fetcher := f0\<rparr>"
  have f0: "chunks f0 = []" "current_chunk f0 = None" "\<not> resultset_end f0" "cursor_type f0 = SQL_CURSOR_DYNAMIC"
    "current_chunk_idx f0 = 0" by (simp_all add: f0_def ClearChunks_def)
  have first: "FetchNextChunk dsn SQL_FETCH_FIRST 0 (h\<lparr>odbc_fetcher := (odbc_fetcher h)\<lparr>cursor_type := SQL_CURSOR_DYNAMIC\<rparr>\<rparr>) =
      FetchNext dsn ?h"
    using assms(1) by (simp add: FetchNextChunk_def SetFirstCurrentChunk_def BeforeStart_def f0_def ClearChunks_def)
  have ct: "cursor_type (odbc_fetcher h) = SQL_CURSOR_FORWARD_ONLY" using assms(1,2) by (simp add: ClearChunks_def)
  show thesis
  proof (cases cs)
    case Nil
    let ?h1 = "?h\<lparr>odbc_fetcher := (ResetLastFetchedVariableVal f0)\<lparr>resultset_end := True\<rparr>\<rparr>"
    let ?h2 = "?h1\<lparr>odbc_fetcher := (odbc_fetcher ?h1)\<lparr>cursor_type := SQL_CURSOR_FORWARD_ONLY\<rparr>\<rparr>"
    have p: "pending ?h2 []" using assms(3) Nil by simp
    have "FetchFirst dsn h = Some (SQL_NO_DATA, ?h2)"
      using first ct FetchNext_end[of ?h dsn] assms(3) Nil f0 by (simp add: FetchFirst_def)
    moreover have "forward_inv ?h2"
      using p assms(5,6) f0 unfolding forward_inv_def by (auto simp: Let_def)
    moreover have "undelivered ?h2 = concat cs"
      using undelivered_pending[OF p] Nil f0 by (simp add: deref_chunk_def)
    ultimately show thesis using that by simp
  next
    case (Cons c cs')
    obtain h1 where h1: "FetchNext dsn ?h = map_option (\<lambda>(ret, f). (ret, h1\<lparr>odbc_fetcher := f\<rparr>)) (SetCurrentChunk (append_chunk c f0))"
      "pending h1 cs'" "\<And>f. ard_array_size (h1\<lparr>odbc_fetcher := f\<rparr>) = ard_array_size h" "bound_cols h1 = bound_cols h"
      "st_stmt h1 = st_stmt h" "retrieve_data h1 = retrieve_data h" "st_open h1 = st_open h"
      using FetchNext_chunk[of ?h c cs' dsn] assms(3) Cons f0(3) by auto
    let ?f1 = "(append_chunk c f0)\<lparr>current_chunk := Some (next_chunk f0), current_chunk_idx := 0, chunk_row := - 1,
      prior_chunk_row := - 1\<rparr>"
    let ?h2 = "h1\<lparr>odbc_fetcher := ?f1\<lparr>cursor_type := SQL_CURSOR_FORWARD_ONLY\<rparr>\<rparr>"
    have "SetCurrentChunk (append_chunk c f0) = Some (SQL_SUCCESS, ?f1)"
      using SetCurrentChunk_last[of "append_chunk c f0"] f0 by simp
    then have F: "FetchFirst dsn h = Some (SQL_SUCCESS, ?h2)" using first ct h1(1) by (simp add: FetchFirst_def)
    have s: "single (odbc_fetcher ?h2) (next_chunk f0) c" "pending ?h2 cs'"
      using assms(4) Cons h1(2) f0 by (simp_all add: single_def)
    have "unbound ?h2" using unbound_cong[OF h1(4,5)] assms(5) by simp
    then have "forward_inv ?h2"
      by (rule forward_invI[where cs = cs' and c = c]) (use s assms(4,6) Cons h1(3) f0 in \<open>auto simp: small_chunk_def\<close>)
    moreover have "undelivered ?h2 = concat cs" using undelivered_pending[OF s(2)] single_deref[OF s(1)] Cons by simp
    moreover have "same_session h ?h2" using h1(4-7) by (simp add: same_session_def)
    ultimately show thesis using that[OF F] by simp
  qed
qed

text \<open>A statement without parameters whose columns are known.\<close>

definition plain_statement :: "PreparedStatement \<Rightarrow> bool" where
  "plain_statement stmt \<longleftrightarrow> ps_error stmt = None \<and> bound_all_parameters stmt \<and> named_param_count stmt = 0 \<and>
     length (ps_types stmt) \<le> length (ps_names stmt)"

definition no_bound_columns :: "'v OdbcHandleStmt \<Rightarrow> bool" where
  "no_bound_columns h \<longleftrightarrow> (\<forall>b \<in> set (bound_cols h). \<not> IsBound b \<and> \<not> IsVarcharBound b)"

lemma resize_bound_unbound:
  "\<forall>b \<in> set bs. \<not> IsBound b \<and> \<not> IsVarcharBound b \<Longrightarrow>
   \<forall>b \<in> set (resize_bound n bs). \<not> IsBound b \<and> \<not> IsVarcharBound b"
  "length (resize_bound n bs) = n"
  by (auto simp: resize_bound_def mk_OdbcBoundCol_def IsBound_def IsVarcharBound_def IsCharType_def dest: in_set_takeD)

lemma ResetParams_0:
  assumes "GetAPD ds p = Some d"
  obtains ds' q d' where "ResetParams junk 0 ds p = Some (ds', q)" "desc_records (ipd q) = []" "GetAPD ds' q = Some d'"
  using assms
  by (cases "cur_apd p") (auto simp: ResetParams_def AddMoreRecords_def GetAPD_def current_desc_def put_apd_def
      resize_records_def Let_def)

lemma FinalizeStmt_plain:
  assumes "st_stmt h = Some stmt" "plain_statement stmt" "GetAPD ds (param_desc h) = Some d" "no_bound_columns h"
  shows "\<exists>ds' h' d'. FinalizeStmt sql dsn ds h = Some (SQL_SUCCESS, ds', h') \<and> st_stmt h' = Some stmt \<and>
    desc_records (ipd (param_desc h')) = [] \<and> GetAPD ds' (param_desc h') = Some d' \<and> unbound h' \<and>
    odbc_fetcher h' = odbc_fetcher h \<and> ard_array_size h' = ard_array_size h \<and> retrieve_data h' = retrieve_data h \<and>
    rows_fetched_ptr h' = rows_fetched_ptr h \<and> st_open h' = st_open h \<and> st_res h' = st_res h"
proof -
  note p = assms(2)[unfolded plain_statement_def]
  obtain ds' q d' where r: "ResetParams (sql_junk sql) 0 ds (param_desc h) = Some (ds', q)" "desc_records (ipd q) = []"
    "GetAPD ds' q = Some d'" using ResetParams_0[OF assms(3)] by metis
  let ?h = "h\<lparr>param_desc := q, bound_cols := resize_bound (ColumnCount stmt) (bound_cols h)\<rparr>"
  obtain h' where h': "fill_ird sql ?h = Some h'"
    using assms(1) p by (simp add: fill_ird_def FillIRD_def ColumnCount_def Let_def)
  have fr: "st_stmt h' = Some stmt" "param_desc h' = q" "bound_cols h' = resize_bound (ColumnCount stmt) (bound_cols h)"
    "odbc_fetcher h' = odbc_fetcher h" "ard_array_size h' = ard_array_size h" "retrieve_data h' = retrieve_data h"
    "rows_fetched_ptr h' = rows_fetched_ptr h" "st_open h' = st_open h" "st_res h' = st_res h"
    using h' assms(1) by (auto simp: fill_ird_def FillIRD_def Let_def ard_array_size_def split: if_split_asm)
  have "unbound h'" using resize_bound_unbound(1)[of "bound_cols h"] resize_bound_unbound(2) assms(4) fr(1,3)
    by (auto simp: unbound_def no_bound_columns_def)
  moreover have "FinalizeStmt sql dsn ds h = Some (SQL_SUCCESS, ds', h')"
    using assms(1) p r(1) h' by (simp add: FinalizeStmt_def)
  ultimately show ?thesis using r(2,3) fr by blast
qed

text \<open>A query without parameters, from a statement handle in its initial configuration.\<close>

definition ready :: "'v OdbcHandleStmt \<Rightarrow> bool" where
  "ready h \<longleftrightarrow> no_bound_columns h \<and> ard_array_size h = 1 \<and> cursor_type (odbc_fetcher h) = SQL_CURSOR_FORWARD_ONLY \<and>
     retrieve_data h = SQL_RD_ON"

lemma ready_frame [simp]: "ready (h\<lparr>st_diag := d\<rparr>) = ready h"
  by (simp add: ready_def no_bound_columns_def ard_array_size_def)

lemma SingleExecute_plain:
  assumes "st_stmt h = Some stmt" "desc_records (ipd (param_desc h)) = []" "sql_execute sql stmt [] db = Some (res, stmt', db')"
    "res_error res = None"
  shows "SingleExecuteStmt sql dsn ds h m db = Some (SQL_SUCCESS,
    h\<lparr>st_res := Some res, odbc_fetcher := ClearChunks (odbc_fetcher h), st_open := True, st_stmt := Some stmt'\<rparr>,
    store_opt 8 (rows_fetched_ptr h) 0 m, db')"
  using assms by (simp add: SingleExecuteStmt_def GetParamValues_def Let_def)

lemma ExecDirect_fetching:
  assumes "ready h" "GetAPD ds (param_desc h) = Some d" "sql_extract sql query db = Inr [q]"
    "plain_statement (sql_prepare_statement sql q db)"
    "sql_execute sql (sql_prepare_statement sql q db) [] db = Some (res, sql_prepare_statement sql q db, db')"
    "res_error res = None" "res_events res = map Fetched cs" "list_all small_chunk cs"
  obtains ds' h' where
    "ExecDirectStmt sql dsn query ds h m db = Some (Some (SQL_SUCCESS, ds', h', store_opt 8 (rows_fetched_ptr h) 0 m, db'))"
    "fetching h'" "undelivered h' = concat cs"
proof -
  let ?stmt = "sql_prepare_statement sql q db"
  let ?h = "(PrepareQuery h)\<lparr>st_stmt := Some ?stmt\<rparr>"
  have nb: "no_bound_columns ?h" "GetAPD ds (param_desc ?h) = Some d"
    using assms(1,2) by (simp_all add: ready_def no_bound_columns_def PrepareQuery_def)
  obtain ds' h1 where f: "FinalizeStmt sql dsn ds ?h = Some (SQL_SUCCESS, ds', h1)" "st_stmt h1 = Some ?stmt"
    "desc_records (ipd (param_desc h1)) = []" "unbound h1" "odbc_fetcher h1 = odbc_fetcher ?h"
    "ard_array_size h1 = ard_array_size ?h" "retrieve_data h1 = retrieve_data ?h" "rows_fetched_ptr h1 = rows_fetched_ptr ?h"
    using FinalizeStmt_plain[OF _ assms(4) nb(2,1), of sql dsn] by auto
  let ?h2 = "h1\<lparr>st_res := Some res, odbc_fetcher := ClearChunks (odbc_fetcher h1), st_open := True, st_stmt := Some ?stmt\<rparr>"
  let ?m = "store_opt 8 (rows_fetched_ptr h) 0 m"
  have s: "SingleExecuteStmt sql dsn ds' h1 m db = Some (SQL_SUCCESS, ?h2, ?m, db')"
    using SingleExecute_plain[OF f(2,3) assms(5,6), of dsn ds' m] f(8) by (simp add: PrepareQuery_def)
  have sc: "[] \<notin> set cs" using assms(8) by (auto simp: list_all_iff small_chunk_def)
  have u: "unbound ?h2" using f(2,4) by (simp add: unbound_def)
  have h2: "odbc_fetcher ?h2 = ClearChunks (odbc_fetcher h1)" "cursor_type (odbc_fetcher h1) = SQL_CURSOR_FORWARD_ONLY"
    "pending ?h2 cs" "ard_array_size ?h2 = 1"
    using assms(1,6,7) f(5,6) sc by (simp_all add: pending_def ready_def PrepareQuery_def ClearChunks_def ard_array_size_def)
  obtain ret h3 where h3: "FetchFirst dsn ?h2 = Some (ret, h3)" "ret \<noteq> SQL_ERROR" "forward_inv h3" "undelivered h3 = concat cs"
    "same_session ?h2 h3"
    using FetchFirst_forward[OF h2(1-3) assms(8) u h2(4), of dsn] by metis
  have "after_batch sql dsn SQL_SUCCESS ?h2 = Some (SQL_SUCCESS, h3)"
    using h3(1,2,5) assms(4) by (simp add: after_batch_def same_session_def plain_statement_def)
  then have "BatchExecuteStmt sql dsn ds' h1 m db = Some (Some (SQL_SUCCESS, h3, ?m, db'))"
    using batch_loop_step(3)[OF s] by (simp add: BatchExecuteStmt_def)
  then have "ExecDirectStmt sql dsn query ds h m db = Some (Some (SQL_SUCCESS, ds', h3, ?m, db'))"
    using assms(3) f(1) by (simp add: ExecDirectStmt_def PrepareQuery_def)
  moreover have "fetching h3"
    using h3(3,5) assms(1,4) f(7) by (auto simp: fetching_def same_session_def plain_statement_def ready_def PrepareQuery_def)
  ultimately show thesis using that h3(4) by blast
qed

text \<open>
  C1. One statement without parameters is executed with SQLExecDirect on a fresh handle without bound
  columns and with rowsets of one row, and the engine answers without an error. Then any number of calls
  of SQLFetch deliver exactly the rows of the result of the engine, in order and whatever the chunks it
  comes in, and SQL\_NO\_DATA each time after the last row.
\<close>

theorem exec_direct_then_fetch:
  assumes "ready h" "GetAPD ds (param_desc h) = Some d" "ConvertSQLCHARToString a len m = Some query"
    "sql_extract sql query db = Inr [q]" "plain_statement (sql_prepare_statement sql q db)"
    "sql_execute sql (sql_prepare_statement sql q db) [] db = Some (res, sql_prepare_statement sql q db, db')"
    "res_error res = None" "res_events res = map Fetched cs" "list_all small_chunk cs"
  shows "\<exists>ds' h' m' s. SQLExecDirect sql True dsn a len ds h m db = Some (Some (SQL_SUCCESS, ds', h', m', db')) \<and>
    calls (sql_fetch_row eng sql dsn ds' db') n (h', m') = Some (answers n (concat cs), s)"
proof -
  let ?h = "h\<lparr>st_diag := Clean (st_diag h)\<rparr>"
  have r: "ready ?h" "GetAPD ds (param_desc ?h) = Some d" using assms(1,2) by simp_all
  obtain ds' h' where e: "ExecDirectStmt sql dsn query ds ?h m db =
      Some (Some (SQL_SUCCESS, ds', h', store_opt 8 (rows_fetched_ptr ?h) 0 m, db'))"
    "fetching h'" "undelivered h' = concat cs"
    using ExecDirect_fetching[OF r assms(4-9), of dsn m] by metis
  have "SQLExecDirect sql True dsn a len ds h m db =
      Some (Some (SQL_SUCCESS, ds', h', store_opt 8 (rows_fetched_ptr ?h) 0 m, db'))"
    using e(1) assms(3) by (simp add: SQLExecDirect_def)
  then show ?thesis
    using sql_fetch.calls_answers[of "(h', store_opt 8 (rows_fetched_ptr ?h) 0 m)" eng sql dsn ds' db' n] e(2,3)
    by auto
qed

section \<open>Fetching what was not executed\<close>

text \<open>
  Preparing a statement drops the result of the one before but leaves the cursor marked as open: a
  fetch after a prepare, without an execution between them, dereferences the null result.
\<close>

theorem fetch_after_prepare_crashes:
  assumes "st_open h" "retrieve_data h = SQL_RD_ON" "no_bound_columns h" "GetAPD ds (param_desc h) = Some d"
    "cursor_type (odbc_fetcher h) = SQL_CURSOR_FORWARD_ONLY"
    "ConvertSQLCHARToString a len m = Some query" "plain_statement (sql_prepare sql query db)"
  shows "\<exists>ds' h'. SQLPrepare sql True dsn a len ds h m db = Some (SQL_SUCCESS, ds', h', m, db) \<and>
    SQLFetch eng sql True dsn ds' h' m db = None"
proof -
  let ?stmt = "sql_prepare sql query db"
  let ?h = "(PrepareQuery (h\<lparr>st_diag := Clean (st_diag h)\<rparr>))\<lparr>st_stmt := Some ?stmt\<rparr>"
  have nb: "no_bound_columns ?h" "GetAPD ds (param_desc ?h) = Some d"
    using assms(3,4) by (simp_all add: no_bound_columns_def PrepareQuery_def)
  obtain ds' h1 d' where f: "FinalizeStmt sql dsn ds ?h = Some (SQL_SUCCESS, ds', h1)" "st_stmt h1 = Some ?stmt"
    "desc_records (ipd (param_desc h1)) = []" "GetAPD ds' (param_desc h1) = Some d'" "odbc_fetcher h1 = odbc_fetcher ?h"
    "retrieve_data h1 = retrieve_data ?h" "st_open h1 = st_open ?h" "st_res h1 = st_res ?h"
    using FinalizeStmt_plain[OF _ assms(7) nb(2,1), of sql dsn] by auto
  have fr: "st_open h1" "st_res h1 = None" "retrieve_data h1 = SQL_RD_ON" "odbc_fetcher h1 = ClearChunks (odbc_fetcher h)"
    using f(5-8) assms(1,2) by (simp_all add: PrepareQuery_def)
  have err: "ps_error ?stmt = None" using assms(7) by (simp add: plain_statement_def)
  let ?h1 = "h1\<lparr>st_diag := Clean (st_diag h1)\<rparr>" and ?h2 = "h1\<lparr>st_diag := Clean (Clean (st_diag h1))\<rparr>"
  have conv: "ConvertHSTMTPrepared True dsn h1 = (SQL_SUCCESS, ?h1)" "ConvertHSTMTPrepared True dsn ?h1 = (SQL_SUCCESS, ?h2)"
    using ConvertHSTMTPrepared_success[of h1 ?stmt dsn] ConvertHSTMTPrepared_success[of ?h1 ?stmt dsn] f(2) err by simp_all
  have "FetchNextChunk dsn SQL_FETCH_NEXT 0 ?h2 = None"
    using fr assms(5) by (simp add: FetchNextChunk_def RequireFetch_def ClearChunks_def FetchNext_def Let_def)
  then have "SQLFetch eng sql True dsn ds' h1 m db = None"
    using f(2-4) fr conv by (simp add: SQLFetch_def ExecuteBeforeFetch_def DummyFetch_def has_result_def
        HasParamSetToProcess_def FetchStmtResult_def Fetch_def)
  moreover have "SQLPrepare sql True dsn a len ds h m db = Some (SQL_SUCCESS, ds', h1, m, db)"
    using f(1) assms(6) by (simp add: SQLPrepare_def)
  ultimately show ?thesis by blast
qed


section \<open>Samples\<close>

text \<open>An engine that logs what it executes and answers with three rows in two chunks.\<close>

definition sample_prepared :: PreparedStatement where
  "sample_prepared = \<lparr>ps_query = ''SELECT s'', ps_error = None, bound_all_parameters = True,
     ps_types = [\<lparr>lt_id = LogicalTypeId_VARCHAR, lt_width = 0, lt_scale = 0\<rparr>], ps_names = [''s''], named_param_count = 0,
     ps_statement_type = SELECT_STATEMENT, ps_param_type = \<lambda>_. 0\<rparr>"

definition sample_result :: "string QueryResult" where
  "sample_result = \<lparr>res_events = map Fetched [[[''a''], [''b'']], [[''c'']]], res_error = None,
     res_types = [], res_names = [], res_is_query = True\<rparr>"

lemma sample_result_ok [simp]: "res_error sample_result = None" "res_events sample_result = map Fetched [[[''a''], [''b'']], [[''c'']]]"
  by (simp_all add: sample_result_def)

definition sample_sql :: "(string, string, ParamValue list list) sql_engine" where
  "sample_sql = \<lparr>sql_prepare = \<lambda>_ _. sample_prepared, sql_extract = \<lambda>q _. Inr [q],
     sql_prepare_statement = \<lambda>_ _. sample_prepared,
     sql_execute = \<lambda>stmt vs db. Some (sample_result, stmt, db @ [vs]),
     sql_interrupt = \<lambda>db. db, sql_valid = \<lambda>_. True, sql_physical_name = \<lambda>_. ''VARCHAR'', sql_catalog = ''system'',
     sql_junk = \<lambda>_. sample_record\<rparr>"

text \<open>One parameter bound to an array of \<^verbatim>\<open>n\<close> texts of eight bytes; two texts are in the memory.\<close>

definition sample_array :: "int \<Rightarrow> int \<Rightarrow> string OdbcHandleStmt" where
  "sample_array n k = (sample_stmt (sample_fetch SQL_CURSOR_FORWARD_ONLY [] 0 False) [])\<lparr>
     st_stmt := Some sample_prepared, param_desc := sample_params\<lparr>paramset_idx := k,
       apd := (apd sample_params)\<lparr>desc_header := (desc_header (apd sample_params))\<lparr>sql_desc_array_size := n\<rparr>\<rparr>\<rparr>\<rparr>"

definition sample_texts :: mem where
  "sample_texts = store_bytes 4096 ''duck'' (store_bytes 4104 ''db'' (store_int 8 8192 4 (store_int 8 8200 2 (\<lambda>_. CHR 0x00))))"

lemma sample_texts_load:
  "load_s 8 8192 sample_texts = 4" "load_s 8 8200 sample_texts = 2"
  "load_bytes 4096 4 sample_texts = ''duck''" "load_bytes 4104 2 sample_texts = ''db''"
proof -
  have d: "load_s 8 a (store_bytes b bs m) = load_s 8 a m" if "b + int (length bs) \<le> a" for a b bs m
    using that by (simp add: load_s_def load_u_def load_store_disjoint)
  show "load_s 8 8192 sample_texts = 4" "load_s 8 8200 sample_texts = 2"
    by (simp_all add: sample_texts_def d load_store_s load_store_int_disjoint in_s_def)
  show "load_bytes 4096 4 sample_texts = ''duck''" "load_bytes 4104 2 sample_texts = ''db''"
    by (simp_all add: sample_texts_def load_store_same load_store_disjoint)
qed

lemma sample_array_simps [simp]:
  "st_stmt (sample_array n k) = Some sample_prepared" "paramset_idx (param_desc (sample_array n k)) = k"
  "rows_fetched_ptr (sample_array n k) = nullptr" "cur_apd (param_desc (sample_array n k)) = None"
  "sql_desc_array_size (desc_header (apd (param_desc (sample_array n k)))) = n"
  by (simp_all add: sample_array_def sample_params_def)

lemma sample_array_texts:
  "bound_params (\<lambda>_. True) sample_texts (apd (param_desc (sample_array n k))) (param_desc (sample_array n k)) 0"
  "bound_params (\<lambda>_. True) sample_texts (apd (param_desc (sample_array n k))) (param_desc (sample_array n k)) 1"
  "bound_set sample_texts (apd (param_desc (sample_array n k))) (param_desc (sample_array n k)) 0 = [PVarchar ''duck'']"
  "bound_set sample_texts (apd (param_desc (sample_array n k))) (param_desc (sample_array n k)) 1 = [PVarchar ''db'']"
  using sample_texts_load
  by (simp_all add: bound_params_def plain_params_def bound_param_def text_len_def text_stride_def bound_set_def bound_value_def
      sample_array_def sample_params_def char_types_def in_s_def sample_record_def)

theorem batch_executes_each_set_once_witness:
  "\<exists>h'. batch_loop sample_sql [] (\<lambda>_. None) (sample_array 2 0) sample_texts [] =
     Some (Some (SQL_SUCCESS, h', sample_texts, [[PVarchar ''duck''], [PVarchar ''db'']])) \<and> st_open h'"
proof -
  let ?h = "sample_array 2 0"
  have t: "bound_params (sql_valid sample_sql) sample_texts (apd (param_desc ?h)) (param_desc ?h) (int j)" if "j < 2" for j
  proof -
    have "j = 0 \<or> j = 1" using that by auto
    then show ?thesis using sample_array_texts(1,2)[of 2 0] by (auto simp: sample_sql_def)
  qed
  have s: "bound_sets sample_texts (apd (param_desc ?h)) (param_desc ?h) [0..<2] = [[PVarchar ''duck''], [PVarchar ''db'']]"
    using sample_array_texts(3,4)[of 2 0] by (simp add: bound_sets_def upt_rec)
  show ?thesis
    using batch_executes_each_set_once[of "\<lambda>_. None" ?h "apd (param_desc ?h)" 2 sample_texts sample_texts sample_prepared
        sample_sql "[]" "[]"] t s
    by (auto simp: GetAPD_def current_desc_def store_opt_def sample_sql_def after_execution_def)
qed

lemma sample_first_execution:
  "\<exists>ret h1. SQLExecute sample_sql True [] (\<lambda>_. None) (sample_array 1 0) sample_texts [] =
     Some (Some (ret, h1, sample_texts, [[PVarchar ''duck'']]))"
proof -
  let ?h = "(sample_array 1 0)\<lparr>st_diag := Clean (st_diag (sample_array 1 0))\<rparr>"
  have t: "bound_params (sql_valid sample_sql) sample_texts (apd (param_desc ?h)) (param_desc ?h) 0"
    "bound_set sample_texts (apd (param_desc ?h)) (param_desc ?h) 0 = [PVarchar ''duck'']"
    using sample_array_texts(1,3)[of 1 0] by (simp_all add: sample_sql_def)
  have "\<exists>vs. SingleExecuteStmt sample_sql [] (\<lambda>_. None) ?h sample_texts [] =
    (case sql_execute sample_sql sample_prepared (bound_set sample_texts (apd (param_desc ?h)) (param_desc ?h) 0) [] of
       None \<Rightarrow> None
     | Some (res, stmt', db') \<Rightarrow>
       (let h' = ?h\<lparr>odbc_fetcher := ClearChunks (odbc_fetcher ?h), st_open := False,
             param_desc := next_set vs (param_desc ?h), st_res := Some res, st_stmt := Some stmt'\<rparr>
        in case res_error res of
          Some msg \<Rightarrow> Some (SQL_ERROR, snd (stmt_diag h' SQL_ERROR ''SingleExecuteStmt'' msg ST_HY000 []), sample_texts, db')
        | None \<Rightarrow> Some (if 0 + 1 = sql_desc_array_size (desc_header (apd (param_desc ?h))) then SQL_SUCCESS else SQL_STILL_EXECUTING,
                     h'\<lparr>st_open := True\<rparr>, sample_texts, db')))"
    by (rule SingleExecute_text) (use t(1) in \<open>simp_all add: GetAPD_def current_desc_def store_opt_def\<close>)
  then obtain vs where s: "SingleExecuteStmt sample_sql [] (\<lambda>_. None) ?h sample_texts [] = Some (SQL_SUCCESS,
      ?h\<lparr>odbc_fetcher := ClearChunks (odbc_fetcher ?h), st_open := False, param_desc := next_set vs (param_desc ?h),
        st_res := Some sample_result, st_stmt := Some sample_prepared\<rparr>\<lparr>st_open := True\<rparr>, sample_texts, [[PVarchar ''duck'']])"
    unfolding t(2) by (auto simp: sample_sql_def sample_result_def Let_def)
  let ?h2 = "?h\<lparr>odbc_fetcher := ClearChunks (odbc_fetcher ?h), st_open := False, param_desc := next_set vs (param_desc ?h),
        st_res := Some sample_result, st_stmt := Some sample_prepared\<rparr>\<lparr>st_open := True\<rparr>"
  have "pending ?h2 [[[''a''], [''b'']], [[''c'']]]" by (simp add: pending_def sample_result_def)
  moreover have "unbound ?h2" "ard_array_size ?h2 = 1" "cursor_type (odbc_fetcher ?h) = SQL_CURSOR_FORWARD_ONLY"
    by (simp_all add: unbound_def ard_array_size_def sample_array_def sample_stmt_def sample_fetch_def)
  moreover have "odbc_fetcher ?h2 = ClearChunks (odbc_fetcher ?h)" "list_all small_chunk [[[''a''], [''b'']], [[''c'']]]"
    by (simp_all add: small_chunk_def)
  ultimately obtain ret h3 where h3: "FetchFirst [] ?h2 = Some (ret, h3)" "ret \<noteq> SQL_ERROR" "same_session ?h2 h3"
    using FetchFirst_forward[of ?h2 "odbc_fetcher ?h" "[[[''a''], [''b'']], [[''c'']]]" "[]"] by metis
  then have "after_batch sample_sql [] SQL_SUCCESS ?h2 = Some (SQL_SUCCESS, h3)"
    by (simp add: after_batch_def same_session_def sample_prepared_def)
  then show ?thesis using batch_loop_step(3)[OF s]
    by (auto simp: SQLExecute_def BatchExecuteStmt_def)
qed

theorem reexecution_overruns_witness:
  "\<exists>ret h1 h' m'. SQLExecute sample_sql True [] (\<lambda>_. None) (sample_array 1 0) sample_texts [] =
      Some (Some (ret, h1, sample_texts, [[PVarchar ''duck'']])) \<and>
    SQLExecute sample_sql True [] (\<lambda>_. None) h1 sample_texts [[PVarchar ''duck'']] =
      BatchExecuteStmt sample_sql [] (\<lambda>_. None) h' m' [[PVarchar ''duck''], [PVarchar ''db'']] \<and>
    paramset_idx (param_desc h') = 2"
proof -
  let ?h = "sample_array 1 0"
  obtain ret h1 where e: "SQLExecute sample_sql True [] (\<lambda>_. None) ?h sample_texts [] =
      Some (Some (ret, h1, sample_texts, [[PVarchar ''duck'']]))" using sample_first_execution by blast
  have t: "bound_params (sql_valid sample_sql) sample_texts (apd (param_desc ?h)) (param_desc ?h) (int j)" if "j < 2" for j
    using sample_array_texts(1,2)[of 1 0] that by (auto simp: sample_sql_def less_2_cases_iff)
  have s: "bound_sets sample_texts (apd (param_desc ?h)) (param_desc ?h) [1..<2] = [[PVarchar ''db'']]"
    using sample_array_texts(4)[of 1 0] by (simp add: bound_sets_def upt_rec)
  have "never_fails sample_sql" by (simp add: never_fails_def sample_sql_def)
  then have "\<exists>h' m' stmt1 stmt' db'. SQLExecute sample_sql True [] (\<lambda>_. None) h1 sample_texts [[PVarchar ''duck'']] =
        BatchExecuteStmt sample_sql [] (\<lambda>_. None) h' m' db' \<and>
      paramset_idx (param_desc h') = int (1 + 1) \<and> st_stmt h1 = Some stmt1 \<and>
      execute_run sample_sql stmt1 (bound_sets sample_texts (apd (param_desc ?h)) (param_desc ?h) [1..<1 + 1])
        [[PVarchar ''duck'']] = Some (stmt', db')"
    by (intro reexecution_overruns[where d = 1 and ret = ret, OF _ _ _ _ _ _ _ _ _ e])
      (use t in \<open>simp_all add: GetAPD_def current_desc_def store_opt_def\<close>)
  then show ?thesis using e s by (auto simp: sample_sql_def numeral_2_eq_2)
qed

text \<open>A statement handle before its first statement.\<close>

definition sample_handle :: "string OdbcHandleStmt" where
  "sample_handle = (sample_stmt (sample_fetch SQL_CURSOR_FORWARD_ONLY [] 0 False) [])"

lemma sample_handle_ready: "ready sample_handle" "GetAPD (\<lambda>_. None) (param_desc sample_handle) = Some sample_desc"
  by (simp_all add: ready_def sample_handle_def no_bound_columns_def sample_fetch_def GetAPD_def current_desc_def)
    (simp_all add: sample_stmt_def)

theorem exec_direct_then_fetch_witness:
  "\<exists>ds' h' m' s. SQLExecDirect sample_sql True [] 4096 4 (\<lambda>_. None) sample_handle sample_texts [] =
      Some (Some (SQL_SUCCESS, ds', h', m', [[]])) \<and>
    calls (sql_fetch_row sample_engine sample_sql [] ds' [[]]) 5 (h', m') =
      Some ([Some [''a''], Some [''b''], Some [''c''], None, None], s)"
proof -
  have "answers 5 (concat [[[''a''], [''b'']], [[''c'']]]) = [Some [''a''], Some [''b''], Some [''c''], None, None]"
    by (simp add: numeral_eq_Suc)
  then show ?thesis
    using exec_direct_then_fetch[OF sample_handle_ready, where sql = sample_sql and a = 4096 and len = 4 and m = sample_texts and
        query = "''duck''" and db = "[]" and q = "''duck''" and db' = "[[]]" and cs = "[[[''a''], [''b'']], [[''c'']]]" and n = 5 and
        dsn = "[]" and eng = sample_engine]
      sample_texts_load(3)
    by (simp add: ConvertSQLCHARToString_def sample_sql_def plain_statement_def sample_prepared_def small_chunk_def)
qed

theorem fetch_after_prepare_crashes_witness:
  "\<exists>ds' h'. SQLPrepare sample_sql True [] 4096 4 (\<lambda>_. None) sample_handle sample_texts [] =
      Some (SQL_SUCCESS, ds', h', sample_texts, []) \<and>
    SQLFetch sample_engine sample_sql True [] ds' h' sample_texts [] = None"
proof (rule fetch_after_prepare_crashes)
  show "ConvertSQLCHARToString 4096 4 sample_texts = Some ''duck''"
    using sample_texts_load(3) by (simp add: ConvertSQLCHARToString_def)
  show "GetAPD (\<lambda>_. None) (param_desc sample_handle) = Some sample_desc" by (rule sample_handle_ready(2))
qed (use sample_handle_ready(1) in \<open>simp_all add: ready_def, simp_all add: sample_handle_def sample_stmt_def sample_sql_def
    plain_statement_def sample_prepared_def\<close>)

end
