(* ===== verification/Api_Stubs.thy ===== *)
theory Api_Stubs
  imports Catalog_Api Handle_World Execution_Refinement
begin

text \<open>
  \<^verbatim>\<open>src/odbc_api/empty_api_stubs.cpp\<close>: the catalog functions that execute a query without rows, and the
  functions that record that they are not implemented.
\<close>

section \<open>Functions with an empty result\<close>

text \<open>
  The arguments with names are not used by the narrow entry points; the wide ones convert them, \<^verbatim>\<open>vecs\<close>
  being the vectors of the conversions.
\<close>

type_synonym ('v, 'db) query_call =
  "bool \<Rightarrow> string \<Rightarrow> desc_store \<Rightarrow> 'v OdbcHandleStmt \<Rightarrow> mem \<Rightarrow> 'db \<Rightarrow> ('v, 'db) api_result option"

definition fixed_query :: "('v, 'q, 'db) sql_engine \<Rightarrow> string \<Rightarrow> ('v, 'db) query_call" where
  "fixed_query sql query conn dsn ds h m db =
     (case ConvertHSTMT conn h of (ret, h) \<Rightarrow>
      if ret \<noteq> SQL_SUCCESS then Some (Some (ret, ds, h, m, db)) else ExecDirectStmt sql dsn query ds h m db)"

definition wide_fixed_query ::
  "('v, 'q, 'db) sql_engine \<Rightarrow> string \<Rightarrow> addr list \<Rightarrow> name_arg list \<Rightarrow> ('v, 'db) query_call" where
  "wide_fixed_query sql query vecs names conn dsn ds h m db =
     (case conv_names (zip vecs names) m of
        None \<Rightarrow> Some None
      | Some (_, m) \<Rightarrow> fixed_query sql query conn dsn ds h m db)"

definition primary_keys_query :: string where
  \<open>primary_keys_query = sq ''
SELECT
	CAST(`` AS VARCHAR) AS "TABLE_CAT",
	CAST(`` AS VARCHAR) AS "TABLE_SCHEM",
	CAST(`` AS VARCHAR) AS "TABLE_NAME",
	CAST(`` AS VARCHAR) AS "COLUMN_NAME",
	CAST(0 AS SMALLINT) AS "KEY_SEQ",
	CAST(`` AS VARCHAR) AS "PK_NAME"
WHERE 1 < 0
''\<close>

definition SQLPrimaryKeys :: "('v, 'q, 'db) sql_engine \<Rightarrow> ('v, 'db) query_call" where
  "SQLPrimaryKeys sql = fixed_query sql primary_keys_query"

definition SQLPrimaryKeysW :: "('v, 'q, 'db) sql_engine \<Rightarrow> addr list \<Rightarrow> name_arg list \<Rightarrow> ('v, 'db) query_call" where
  "SQLPrimaryKeysW sql = wide_fixed_query sql primary_keys_query"

definition foreign_keys_query :: string where
  \<open>foreign_keys_query = sq ''
SELECT
	CAST(`` AS VARCHAR) AS "PKTABLE_CAT",
	CAST(`` AS VARCHAR) AS "PKTABLE_SCHEM",
	CAST(`` AS VARCHAR) AS "PKTABLE_NAME",
	CAST(`` AS VARCHAR) AS "PKCOLUMN_NAME",
	CAST(`` AS VARCHAR) AS "FKTABLE_CAT",
	CAST(`` AS VARCHAR) AS "FKTABLE_SCHEM",
	CAST(`` AS VARCHAR) AS "FKTABLE_NAME",
	CAST(`` AS VARCHAR) AS "FKCOLUMN_NAME",
	CAST(0 AS SMALLINT) AS "KEY_SEQ",
	CAST(0 AS SMALLINT) AS "UPDATE_RULE",
	CAST(0 AS SMALLINT) AS "DELETE_RULE",
	CAST(`` AS VARCHAR) AS "FK_NAME",
	CAST(`` AS VARCHAR) AS "PK_NAME",
	CAST(0 AS SMALLINT) AS "DEFERRABILITY"
WHERE 1 < 0
''\<close>

definition SQLForeignKeys :: "('v, 'q, 'db) sql_engine \<Rightarrow> ('v, 'db) query_call" where
  "SQLForeignKeys sql = fixed_query sql foreign_keys_query"

definition SQLForeignKeysW :: "('v, 'q, 'db) sql_engine \<Rightarrow> addr list \<Rightarrow> name_arg list \<Rightarrow> ('v, 'db) query_call" where
  "SQLForeignKeysW sql = wide_fixed_query sql foreign_keys_query"

definition procedure_columns_query :: string where
  \<open>procedure_columns_query = sq ''
SELECT
	CAST(`` AS VARCHAR) AS "PROCEDURE_CAT",
	CAST(`` AS VARCHAR) AS "PROCEDURE_SCHEM",
	CAST(`` AS VARCHAR) AS "PROCEDURE_NAME",
	CAST(`` AS VARCHAR) AS "COLUMN_NAME",
	CAST(0 AS SMALLINT) AS "COLUMN_TYPE",
	CAST(0 AS SMALLINT) AS "DATA_TYPE",
	CAST(`` AS VARCHAR) AS "TYPE_NAME",
	CAST(0 AS INT) AS "COLUMN_SIZE",
	CAST(0 AS INT) AS "BUFFER_LENGTH",
	CAST(0 AS SMALLINT) AS "DECIMAL_DIGITS",
	CAST(0 AS SMALLINT) AS "NUM_PREC_RADIX",
	CAST(0 AS SMALLINT) AS "NULLABLE",
	CAST(`` AS VARCHAR) AS "REMARKS",
	CAST(`` AS VARCHAR) AS "COLUMN_DEF",
	CAST(0 AS SMALLINT) AS "SQL_DATA_TYPE",
	CAST(0 AS SMALLINT) AS "SQL_DATETIME_SUB",
	CAST(0 AS INT) AS "CHAR_OCTET_LENGTH",
	CAST(0 AS INT) AS "ORDINAL_POSITION",
	CAST(`` AS VARCHAR) AS "IS_NULLABLE"
WHERE 1 < 0
''\<close>

definition SQLProcedureColumns :: "('v, 'q, 'db) sql_engine \<Rightarrow> ('v, 'db) query_call" where
  "SQLProcedureColumns sql = fixed_query sql procedure_columns_query"

definition SQLProcedureColumnsW :: "('v, 'q, 'db) sql_engine \<Rightarrow> addr list \<Rightarrow> name_arg list \<Rightarrow> ('v, 'db) query_call" where
  "SQLProcedureColumnsW sql = wide_fixed_query sql procedure_columns_query"

definition procedures_query :: string where
  \<open>procedures_query = sq ''
SELECT
	CAST(`` AS VARCHAR) AS "PROCEDURE_CAT",
	CAST(`` AS VARCHAR) AS "PROCEDURE_SCHEM",
	CAST(`` AS VARCHAR) AS "PROCEDURE_NAME",
	CAST(0 AS INT) AS "NUM_INPUT_PARAMS",
	CAST(0 AS INT) AS "NUM_OUTPUT_PARAMS",
	CAST(0 AS INT) AS "NUM_RESULT_SETS",
	CAST(`` AS VARCHAR) AS "REMARKS",
	CAST(0 AS SMALLINT) AS "PROCEDURE_TYPE"
WHERE 1 < 0
''\<close>

definition SQLProcedures :: "('v, 'q, 'db) sql_engine \<Rightarrow> ('v, 'db) query_call" where
  "SQLProcedures sql = fixed_query sql procedures_query"

definition SQLProceduresW :: "('v, 'q, 'db) sql_engine \<Rightarrow> addr list \<Rightarrow> name_arg list \<Rightarrow> ('v, 'db) query_call" where
  "SQLProceduresW sql = wide_fixed_query sql procedures_query"

definition column_privileges_query :: string where
  \<open>column_privileges_query = sq ''
SELECT
	CAST(`` AS VARCHAR) AS "TABLE_CAT",
	CAST(`` AS VARCHAR) AS "TABLE_SCHEM",
	CAST(`` AS VARCHAR) AS "TABLE_NAME",
	CAST(`` AS VARCHAR) AS "COLUMN_NAME",
	CAST(`` AS VARCHAR) AS "GRANTOR",
	CAST(`` AS VARCHAR) AS "GRANTEE",
	CAST(`` AS VARCHAR) AS "PRIVILEGE",
	CAST(`` AS VARCHAR) AS "IS_GRANTABLE"
WHERE 1 < 0
''\<close>

definition SQLColumnPrivileges :: "('v, 'q, 'db) sql_engine \<Rightarrow> ('v, 'db) query_call" where
  "SQLColumnPrivileges sql = fixed_query sql column_privileges_query"

definition SQLColumnPrivilegesW :: "('v, 'q, 'db) sql_engine \<Rightarrow> addr list \<Rightarrow> name_arg list \<Rightarrow> ('v, 'db) query_call" where
  "SQLColumnPrivilegesW sql = wide_fixed_query sql column_privileges_query"

definition table_privileges_query :: string where
  \<open>table_privileges_query = sq ''
SELECT
	CAST(`` AS VARCHAR) AS "TABLE_CAT",
	CAST(`` AS VARCHAR) AS "TABLE_SCHEM",
	CAST(`` AS VARCHAR) AS "TABLE_NAME",
	CAST(`` AS VARCHAR) AS "GRANTOR",
	CAST(`` AS VARCHAR) AS "GRANTEE",
	CAST(`` AS VARCHAR) AS "PRIVILEGE",
	CAST(`` AS VARCHAR) AS "IS_GRANTABLE"
WHERE 1 < 0
''\<close>

definition SQLTablePrivileges :: "('v, 'q, 'db) sql_engine \<Rightarrow> ('v, 'db) query_call" where
  "SQLTablePrivileges sql = fixed_query sql table_privileges_query"

definition SQLTablePrivilegesW :: "('v, 'q, 'db) sql_engine \<Rightarrow> addr list \<Rightarrow> name_arg list \<Rightarrow> ('v, 'db) query_call" where
  "SQLTablePrivilegesW sql = wide_fixed_query sql table_privileges_query"

definition special_columns_query :: string where
  \<open>special_columns_query = sq ''
SELECT
	CAST(0  AS SMALLINT) AS "SCOPE",
	CAST(`` AS VARCHAR ) AS "COLUMN_NAME",
	CAST(0  AS SMALLINT) AS "DATA_TYPE",
	CAST(`` AS VARCHAR ) AS "TYPE_NAME",
	CAST(0  AS INT     ) AS "COLUMN_SIZE",
	CAST(0  AS INT     ) AS "BUFFER_LENGTH",
	CAST(0  AS SMALLINT) AS "DECIMAL_DIGITS",
	CAST(0  AS SMALLINT) AS "PSEUDO_COLUMN"
WHERE 1 < 0
''\<close>

definition SQLSpecialColumns :: "('v, 'q, 'db) sql_engine \<Rightarrow> ('v, 'db) query_call" where
  "SQLSpecialColumns sql = fixed_query sql special_columns_query"

definition SQLSpecialColumnsW :: "('v, 'q, 'db) sql_engine \<Rightarrow> addr list \<Rightarrow> name_arg list \<Rightarrow> ('v, 'db) query_call" where
  "SQLSpecialColumnsW sql = wide_fixed_query sql special_columns_query"

definition statistics_query :: string where
  \<open>statistics_query = sq ''
SELECT
	CAST(`` AS VARCHAR ) AS "TABLE_CAT",
	CAST(`` AS VARCHAR ) AS "TABLE_SCHEM",
	CAST(`` AS VARCHAR ) AS "TABLE_NAME",
	CAST(0  AS SMALLINT) AS "NON_UNIQUE",
	CAST(`` AS VARCHAR ) AS "INDEX_QUALIFIER",
	CAST(`` AS VARCHAR ) AS "INDEX_NAME",
	CAST(0  AS SMALLINT) AS "TYPE",
	CAST(0  AS SMALLINT) AS "ORDINAL_POSITION",
	CAST(`` AS VARCHAR ) AS "COLUMN_NAME",
	CAST(`` AS CHAR(1) ) AS "ASC_OR_DESC",
	CAST(0  AS INT     ) AS "CARDINALITY",
	CAST(0  AS INT     ) AS "PAGES",
	CAST(`` AS VARCHAR ) AS "FILTER_CONDITION"
WHERE 1 < 0
''\<close>

definition SQLStatistics :: "('v, 'q, 'db) sql_engine \<Rightarrow> ('v, 'db) query_call" where
  "SQLStatistics sql = fixed_query sql statistics_query"

definition SQLStatisticsW :: "('v, 'q, 'db) sql_engine \<Rightarrow> addr list \<Rightarrow> name_arg list \<Rightarrow> ('v, 'db) query_call" where
  "SQLStatisticsW sql = wide_fixed_query sql statistics_query"

section \<open>Functions that are not implemented\<close>

text \<open>\<^verbatim>\<open>SetNotImplemented\<close> behind \<^verbatim>\<open>ConvertHandle\<close>, which takes a handle of any type.\<close>

definition not_implemented_message :: "string \<Rightarrow> string" where
  "not_implemented_message func_name = func_name @ '' is not implemented''"

type_synonym ('v, 'd, 't) handle_call = "addr \<Rightarrow> ('v, 'd, 't) driver \<Rightarrow> (int \<times> ('v, 'd, 't) driver) option"

type_synonym ('v, 'd, 't) wide_handle_call =
  "addr list \<Rightarrow> name_arg list \<Rightarrow> addr \<Rightarrow> ('v, 'd, 't) driver \<Rightarrow> mem \<Rightarrow> (int \<times> ('v, 'd, 't) driver \<times> mem) option"

definition SetNotImplemented :: "string \<Rightarrow> ('v, 'd, 't) handle_call" where
  "SetNotImplemented func_name a w =
     (if a = nullptr then Some (SQL_INVALID_HANDLE, w)
      else handle_error SQL_ERROR func_name (not_implemented_message func_name) ST_HYC00 a w)"

definition SQLNativeSql :: "('v, 'd, 't) handle_call" where
  "SQLNativeSql = SetNotImplemented ''SQLNativeSql''"

definition SQLBrowseConnect :: "('v, 'd, 't) handle_call" where
  "SQLBrowseConnect = SetNotImplemented ''SQLBrowseConnect''"

definition SQLBulkOperations :: "('v, 'd, 't) handle_call" where
  "SQLBulkOperations = SetNotImplemented ''SQLBulkOperations''"

definition SQLSetPos :: "('v, 'd, 't) handle_call" where
  "SQLSetPos = SetNotImplemented ''SQLSetPos''"

definition SQLSetCursorName :: "('v, 'd, 't) handle_call" where
  "SQLSetCursorName = SetNotImplemented ''SQLSetCursorName''"

definition SQLSetCursorNameW :: "('v, 'd, 't) handle_call" where
  "SQLSetCursorNameW = SetNotImplemented ''SQLSetCursorNameW''"

definition SQLGetCursorName :: "('v, 'd, 't) handle_call" where
  "SQLGetCursorName = SetNotImplemented ''SQLGetCursorName''"

definition SQLGetCursorNameW :: "('v, 'd, 't) handle_call" where
  "SQLGetCursorNameW = SetNotImplemented ''SQLGetCursorNameW''"

text \<open>The wide entry points with strings convert them first and pass the results on, unused.\<close>

definition wide_not_implemented :: "('v, 'd, 't) handle_call \<Rightarrow> ('v, 'd, 't) wide_handle_call" where
  "wide_not_implemented f vecs names a w m = do {
     (_, m) \<leftarrow> conv_names (zip vecs names) m;
     (ret, w) \<leftarrow> f a w;
     Some (ret, w, m) }"

definition SQLNativeSqlW :: "('v, 'd, 't) wide_handle_call" where
  "SQLNativeSqlW = wide_not_implemented SQLNativeSql"

definition SQLBrowseConnectW :: "('v, 'd, 't) wide_handle_call" where
  "SQLBrowseConnectW = wide_not_implemented SQLBrowseConnect"

section \<open>What is announced\<close>

text \<open>The functions of this theory that are in the list of the supported ones, and their handlers.\<close>

definition announced :: "(int \<times> string) list" where
  "announced = [(SQL_API_SQLNATIVESQL, ''SQLNativeSql''), (SQL_API_SQLBROWSECONNECT, ''SQLBrowseConnect''),
     (SQL_API_SQLBULKOPERATIONS, ''SQLBulkOperations''), (SQL_API_SQLSETPOS, ''SQLSetPos''),
     (SQL_API_SQLSETCURSORNAME, ''SQLSetCursorName''), (SQL_API_SQLGETCURSORNAME, ''SQLGetCursorName'')]"

text \<open>
  The six functions that only record that they are not implemented are in the list of SQLGetFunctions:
  on every live statement they return an error and add a record with the state HYC00.
\<close>

theorem announced_not_implemented:
  assumes "(f, name) \<in> set announced" "stmts w a = Some h" "a \<noteq> nullptr" "type_of_handle a w = Some STMT"
  shows "f \<in> set ODBC3_EXTRA_SUPPORTED_FUNCTIONS \<and>
    SetNotImplemented name a w = Some (SQL_ERROR, w\<lparr>stmts := (stmts w)(a \<mapsto>
      snd (stmt_diag h SQL_ERROR name (name @ '' is not implemented'') ST_HYC00 []))\<rparr>)"
  using assms by (auto simp: announced_def ODBC3_EXTRA_SUPPORTED_FUNCTIONS_def SetNotImplemented_def handle_error_def
    not_implemented_message_def)

theorem announced_not_implemented_witness:
  "SQL_API_SQLSETPOS \<in> set ODBC3_EXTRA_SUPPORTED_FUNCTIONS \<and>
    SetNotImplemented ''SQLSetPos'' 32 (sample_driver sample_handle) = Some (SQL_ERROR, (sample_driver sample_handle)
      \<lparr>stmts := (stmts (sample_driver sample_handle))(32 \<mapsto>
        snd (stmt_diag sample_handle SQL_ERROR ''SQLSetPos'' (''SQLSetPos'' @ '' is not implemented'') ST_HYC00 []))\<rparr>)"
  by (rule announced_not_implemented) (simp_all add: announced_def sample_driver_def type_of_handle_def)

end
