(* ===== verification/Handle_Invariant.thy ===== *)
theory Handle_Invariant
  imports Api_Stubs Execution_Refinement
begin

text \<open>
  The invariant of the driver says that no link between live handles dangles: the statements of a
  connection, the connection of a statement and of an explicit descriptor, and the descriptors a
  statement uses. Every call keeps it.
\<close>

section \<open>Handlers of a statement\<close>

text \<open>The calls on a statement, with the arguments the client passes.\<close>

inductive handler ::
  "'v engine \<Rightarrow> ('v, 'q, 'db) sql_engine \<Rightarrow> ('v, mem \<times> 'db) stmt_handler \<Rightarrow> bool" for eng sql where
  prepare: "handler eng sql (\<lambda>conn dsn ds h. map_option (\<lambda>(ret, ds, h, m, db). ((ret, m, db), ds, h))
     (SQLPrepare sql conn dsn statement_text text_length ds h m db))"
| prepare_wide: "handler eng sql (\<lambda>conn dsn ds h. map_option (\<lambda>(ret, ds, h, m, db). ((ret, m, db), ds, h))
     (SQLPrepareW sql conn dsn vec statement_text text_length ds h m db))"
| execute: "handler eng sql (\<lambda>conn dsn ds h. map_option (\<lambda>(ret, h, m, db). ((ret, m, db), ds, h))
     (returned (SQLExecute sql conn dsn ds h m db)))"
| exec_direct: "handler eng sql (\<lambda>conn dsn ds h. map_option (\<lambda>(ret, ds, h, m, db). ((ret, m, db), ds, h))
     (returned (SQLExecDirect sql conn dsn statement_text text_length ds h m db)))"
| exec_direct_wide: "handler eng sql (\<lambda>conn dsn ds h. map_option (\<lambda>(ret, ds, h, m, db). ((ret, m, db), ds, h))
     (returned (SQLExecDirectW sql conn dsn vec statement_text text_length ds h m db)))"
| cancel: "handler eng sql (\<lambda>conn dsn ds h. case SQLCancel sql conn h db of (ret, h, db) \<Rightarrow> Some ((ret, m, db), ds, h))"
| fetch: "handler eng sql (\<lambda>conn dsn ds h. map_option (\<lambda>(ret, h, m, db). ((ret, m, db), ds, h))
     (SQLFetch eng sql conn dsn ds h m db))"
| fetch_scroll: "handler eng sql (\<lambda>conn dsn ds h. map_option (\<lambda>(ret, h, m). ((ret, m, db), ds, h))
     (SQLFetchScroll eng conn dsn ori off h m))"
| get_data: "handler eng sql (\<lambda>conn dsn ds h. map_option (\<lambda>(ret, h, m). ((ret, m, db), ds, h))
     (SQLGetData eng conn dsn col target_type target len ind h m))"
| more_results: "handler eng sql (\<lambda>conn dsn ds h. map_option (\<lambda>(ret, h, m, db). ((ret, m, db), ds, h))
     (SQLMoreResults sql conn dsn ds h m db))"
| row_count: "handler eng sql (\<lambda>conn dsn ds h. map_option (\<lambda>(ret, h, m). ((ret, m, db), ds, h))
     (SQLRowCount conn dsn p h m))"
| describe_param: "handler eng sql (\<lambda>conn dsn ds h. map_option (\<lambda>(ret, h, m). ((ret, m, db), ds, h))
     (SQLDescribeParam conn dsn n p1 p2 p3 p4 h m))"
| num_params: "handler eng sql (\<lambda>conn dsn ds h. map_option (\<lambda>(ret, h, m). ((ret, m, db), ds, h))
     (SQLNumParams conn dsn p h m))"
| param_data: "handler eng sql (\<lambda>conn dsn ds h. map_option (\<lambda>(ret, h, m). ((ret, m, db), ds, h))
     (SQLParamData conn dsn ds p h m))"
| put_data: "handler eng sql (\<lambda>conn dsn ds h. map_option (\<lambda>(ret, ds, h, m). ((ret, m, db), ds, h))
     (SQLPutData conn dsn alloc p n ds h m))"
| bind_col: "handler eng sql (\<lambda>conn dsn ds h. map_option (\<lambda>(ret, h). ((ret, m, db), ds, h))
     (SQLBindCol conn col target_type target len ind h))"
| bind_parameter: "handler eng sql (\<lambda>conn dsn ds h.
     case SQLBindParameter junk conn dsn n io vt pt csize decimals p len ind h of (ret, h) \<Rightarrow> Some ((ret, m, db), ds, h))"
| close_cursor: "handler eng sql (\<lambda>conn dsn ds h. map_option (\<lambda>(ret, ds, h). ((ret, m, db), ds, h))
     (SQLCloseCursor conn ds h))"
| num_result_cols: "handler eng sql (\<lambda>conn dsn ds h. map_option (\<lambda>(ret, h, m). ((ret, m, db), ds, h))
     (SQLNumResultCols conn dsn p h m))"
| describe_col: "handler eng sql (\<lambda>conn dsn ds h. map_option (\<lambda>(ret, h, m). ((ret, m, db), ds, h))
     (DescribeColInternal conn dsn col p1 len p2 p3 p4 p5 p6 h m))"
| col_attribute: "handler eng sql (\<lambda>conn dsn ds h. map_option (\<lambda>(ret, h, m). ((ret, m, db), ds, h))
     (ColAttributeInternal junk conn dsn col field p1 len p2 p3 h m))"
| get_attribute: "handler eng sql (\<lambda>conn dsn ds h. map_option (\<lambda>(ret, h, m). ((ret, m, db), ds, h))
     (GetStmtAttrInternal pl conn dsn attribute p1 p2 h m))"
| set_attribute: "attribute \<notin> {SQL_ATTR_APP_ROW_DESC, SQL_ATTR_APP_PARAM_DESC} \<Longrightarrow>
     handler eng sql (\<lambda>conn dsn ds h. map_option (\<lambda>(ret, ds, h, m). ((ret, m, db), ds, h))
     (SetStmtAttrInternal conn dsn attribute v ds h m))"
| tables: "handler eng sql (\<lambda>conn dsn ds h. map_option (\<lambda>(ret, ds, h, m, db). ((ret, m, db), ds, h))
     (returned (SQLTables sql metadata_id conn dsn n1 n2 n3 n4 ds h m db)))"
| tables_wide: "handler eng sql (\<lambda>conn dsn ds h. map_option (\<lambda>(ret, ds, h, m, db). ((ret, m, db), ds, h))
     (returned (SQLTablesW sql metadata_id conn dsn vecs n1 n2 n3 n4 ds h m db)))"
| columns: "handler eng sql (\<lambda>conn dsn ds h. map_option (\<lambda>(ret, ds, h, m, db). ((ret, m, db), ds, h))
     (returned (SQLColumns sql metadata_id conn dsn n1 n2 n3 n4 ds h m db)))"
| columns_wide: "handler eng sql (\<lambda>conn dsn ds h. map_option (\<lambda>(ret, ds, h, m, db). ((ret, m, db), ds, h))
     (returned (SQLColumnsW sql metadata_id conn dsn vecs n1 n2 n3 n4 ds h m db)))"
| type_info: "handler eng sql (\<lambda>conn dsn ds h. map_option (\<lambda>(ret, ds, h, m, db). ((ret, m, db), ds, h))
     (returned (SQLGetTypeInfo sql data_type conn dsn ds h m db)))"
| empty_catalog: "handler eng sql (\<lambda>conn dsn ds h. map_option (\<lambda>(ret, ds, h, m, db). ((ret, m, db), ds, h))
     (returned (fixed_query sql query conn dsn ds h m db)))"
| empty_catalog_wide: "handler eng sql (\<lambda>conn dsn ds h. map_option (\<lambda>(ret, ds, h, m, db). ((ret, m, db), ds, h))
     (returned (wide_fixed_query sql query vecs names conn dsn ds h m db)))"

section \<open>Handlers keep the links\<close>

lemma SQLNumResultCols_links: "SQLNumResultCols conn dsn p h m = Some (r, h', m') \<Longrightarrow> links h' = links h"
  by (auto simp: SQLNumResultCols_def Let_def bind_eq_Some_conv dest!: ConvertHSTMTPrepared_links
      split: if_split_asm prod.splits)

lemma DescribeCol_links:
  "DescribeColInternal conn dsn col p1 len p2 p3 p4 p5 p6 h m = Some (r, h', m') \<Longrightarrow> links h' = links h"
  by (auto simp: DescribeColInternal_def Let_def bind_eq_Some_conv dest!: ConvertHSTMTPrepared_links
      split: if_split_asm prod.splits)

lemma SetNumericAttributePtr_links: "links (fst (snd (SetNumericAttributePtr dsn v p h m))) = links h"
  by (auto simp: SetNumericAttributePtr_def split_beta)

lemma SetCharacterAttributePtr_links:
  "links (fst (snd (SetCharacterAttributePtr dsn s p n q h m))) = links h"
  by (auto simp: SetCharacterAttributePtr_def Let_def split_beta)

lemma ColAttribute_links:
  assumes "ColAttributeInternal junk conn dsn col field p1 len p2 p3 h m = Some (r, h', m')"
  shows "links h' = links h"
proof -
  obtain r1 h1 where p: "ConvertHSTMTPrepared conn dsn h = (r1, h1)" by fastforce
  from assms show ?thesis
    using ConvertHSTMTPrepared_links[OF p]
    unfolding ColAttributeInternal_def p prod.case Let_def split_beta
    by (elim if_SomeE bind_SomeE)
      (auto simp: SetNumericAttributePtr_links SetCharacterAttributePtr_links prod_eq_iff
        split: option.splits if_split_asm dest!: sym[of _ h'])
qed

text \<open>The functions that execute a query of the driver.\<close>

lemma TablesInternal_links:
  "TablesInternal sql metadata_id conn dsn n1 n2 n3 n4 ds h m db = Some (Some (r, ds', h', m', db')) \<Longrightarrow>
   links h' = links h \<and> store_links ds' = store_links ds"
  by (auto simp: TablesInternal_def dest!: ConvertHSTMT_links ExecDirectStmt_links
      split: prod.splits if_split_asm option.splits sum.splits)

lemma ColumnsInternal_links:
  "ColumnsInternal sql metadata_id conn dsn n1 n2 n3 n4 ds h m db = Some (Some (r, ds', h', m', db')) \<Longrightarrow>
   links h' = links h \<and> store_links ds' = store_links ds"
  by (auto simp: ColumnsInternal_def dest!: ConvertHSTMT_links ExecDirectStmt_links
      split: prod.splits if_split_asm option.splits sum.splits)

lemma wide_catalog_links:
  "SQLTablesW sql metadata_id conn dsn vecs n1 n2 n3 n4 ds h m db = Some (Some (r, ds', h', m', db')) \<Longrightarrow>
   links h' = links h \<and> store_links ds' = store_links ds"
  "SQLColumnsW sql metadata_id conn dsn vecs n1 n2 n3 n4 ds h m db = Some (Some (r, ds', h', m', db')) \<Longrightarrow>
   links h' = links h \<and> store_links ds' = store_links ds"
  by (auto simp: SQLTablesW_def SQLColumnsW_def dest!: TablesInternal_links ColumnsInternal_links
      split: option.splits list.splits prod.splits)

lemma fixed_query_links:
  "SQLGetTypeInfo sql data_type conn dsn ds h m db = Some (Some (r, ds', h', m', db')) \<Longrightarrow>
   links h' = links h \<and> store_links ds' = store_links ds"
  "fixed_query sql query conn dsn ds h m db = Some (Some (r, ds', h', m', db')) \<Longrightarrow>
   links h' = links h \<and> store_links ds' = store_links ds"
  by (auto simp: SQLGetTypeInfo_def fixed_query_def dest!: ConvertHSTMT_links ExecDirectStmt_links
      split: prod.splits if_split_asm)

lemma wide_fixed_query_links:
  "wide_fixed_query sql query vecs names conn dsn ds h m db = Some (Some (r, ds', h', m', db')) \<Longrightarrow>
   links h' = links h \<and> store_links ds' = store_links ds"
  by (auto simp: wide_fixed_query_def dest!: fixed_query_links(2) split: option.splits prod.splits)

lemma handler_links:
  assumes "handler eng sql f" "f conn dsn ds h = Some (rb, ds', h')"
  shows "links h' = links h \<and> store_links ds' = store_links ds"
  using assms
  by (induction rule: handler.induct)
    (auto dest!: SQLPrepare_links SQLPrepareW_links SQLExecute_links SQLExecDirect_links SQLExecDirectW_links
      SQLCancel_links SQLFetch_links SQLFetchScroll_links SQLGetData_links SQLMoreResults_links SQLRowCount_links
      SQLDescribeParam_links SQLNumParams_links SQLParamData_links SQLPutData_links SQLBindCol_links
      SQLBindParameter_links SQLCloseCursor_links SQLNumResultCols_links DescribeCol_links
      ColAttribute_links GetStmtAttr_links SetStmtAttr_links TablesInternal_links ColumnsInternal_links
      wide_catalog_links fixed_query_links wide_fixed_query_links
      simp: SQLTables_def SQLColumns_def returned_Some split: prod.splits)

section \<open>No link dangles\<close>

text \<open>
  A statement is referred to by its connection and by no other, a descriptor it uses is alive and
  belongs to its connection, and an explicit descriptor has a live connection.
\<close>

definition statements_ok :: "('v, 'd, 't) driver \<Rightarrow> bool" where
  "statements_ok w \<longleftrightarrow>
     (\<forall>s h. stmts w s = Some h \<longrightarrow> (\<exists>d. dbcs w (st_dbc h) = Some d \<and> s \<in> set (vec_stmt_ref d))) \<and>
     (\<forall>c d. dbcs w c = Some d \<longrightarrow> distinct (vec_stmt_ref d) \<and>
        (\<forall>s \<in> set (vec_stmt_ref d). \<exists>h. stmts w s = Some h \<and> st_dbc h = c))"

definition uses :: "'v OdbcHandleStmt \<Rightarrow> addr \<Rightarrow> bool" where
  "uses h a \<longleftrightarrow> cur_ard (row_desc h) = Some a \<or> cur_apd (param_desc h) = Some a"

definition descriptors_ok :: "('v, 'd, 't) driver \<Rightarrow> bool" where
  "descriptors_ok w \<longleftrightarrow>
     (\<forall>s h a. stmts w s = Some h \<longrightarrow> uses h a \<longrightarrow> store_links (descs w) a = Some (st_dbc h)) \<and>
     (\<forall>a c. store_links (descs w) a = Some c \<longrightarrow> dbcs w c \<noteq> None)"

definition wf_driver :: "('v, 'd, 't) driver \<Rightarrow> bool" where
  "wf_driver w \<longleftrightarrow> statements_ok w \<and> descriptors_ok w"

text \<open>The two conditions only look at the links.\<close>

definition stmt_links :: "('v, 'd, 't) driver \<Rightarrow> addr \<Rightarrow> (addr \<times> addr option \<times> addr option) option" where
  "stmt_links w s = map_option links (stmts w s)"

definition dbc_links :: "('v, 'd, 't) driver \<Rightarrow> addr \<Rightarrow> addr list option" where
  "dbc_links w c = map_option vec_stmt_ref (dbcs w c)"

lemma statements_ok_iff:
  "statements_ok w \<longleftrightarrow>
     (\<forall>s l. stmt_links w s = Some l \<longrightarrow> (\<exists>v. dbc_links w (fst l) = Some v \<and> s \<in> set v)) \<and>
     (\<forall>c v. dbc_links w c = Some v \<longrightarrow> distinct v \<and> (\<forall>s \<in> set v. \<exists>l. stmt_links w s = Some l \<and> fst l = c))"
  by (fastforce simp: statements_ok_def stmt_links_def dbc_links_def links_def)

lemma descriptors_ok_iff:
  "descriptors_ok w \<longleftrightarrow>
     (\<forall>s l a. stmt_links w s = Some l \<longrightarrow> fst (snd l) = Some a \<or> snd (snd l) = Some a \<longrightarrow>
        store_links (descs w) a = Some (fst l)) \<and>
     (\<forall>a c. store_links (descs w) a = Some c \<longrightarrow> dbc_links w c \<noteq> None)"
  by (fastforce simp: descriptors_ok_def stmt_links_def dbc_links_def links_def uses_def)

lemma wf_driver_cong:
  assumes "stmt_links w' = stmt_links w" "dbc_links w' = dbc_links w" "store_links (descs w') = store_links (descs w)"
  shows "wf_driver w' = wf_driver w"
  using assms by (simp add: wf_driver_def statements_ok_iff descriptors_ok_iff)

lemma stmt_links_upd [simp]:
  "stmts w s = Some h \<Longrightarrow> links h' = links h \<Longrightarrow> stmt_links (w\<lparr>stmts := (stmts w)(s \<mapsto> h')\<rparr>) = stmt_links w"
  by (auto simp: stmt_links_def fun_eq_iff)

lemma links_other [simp]:
  "stmt_links (w\<lparr>descs := ds\<rparr>) = stmt_links w" "stmt_links (w\<lparr>dbcs := cs\<rparr>) = stmt_links w"
  "stmt_links (w\<lparr>envs := es\<rparr>) = stmt_links w" "dbc_links (w\<lparr>descs := ds\<rparr>) = dbc_links w"
  "dbc_links (w\<lparr>stmts := ss\<rparr>) = dbc_links w" "dbc_links (w\<lparr>envs := es\<rparr>) = dbc_links w"
  by (simp_all add: stmt_links_def dbc_links_def fun_eq_iff)

lemma dbc_links_upd [simp]:
  "dbcs w c = Some d \<Longrightarrow> vec_stmt_ref d' = vec_stmt_ref d \<Longrightarrow> dbc_links (w\<lparr>dbcs := (dbcs w)(c \<mapsto> d')\<rparr>) = dbc_links w"
  by (auto simp: dbc_links_def fun_eq_iff)

lemma stmt_call_wf:
  assumes "wf_driver w" "handler eng sql f" "stmt_call f s w = Some (ret, b, w')"
  shows "wf_driver w'"
proof (cases "stmts w s")
  case None
  then show ?thesis using assms by (auto simp: stmt_call_def split: if_split_asm)
next
  case (Some h)
  show ?thesis
  proof (cases "s = nullptr")
    case True
    then show ?thesis using assms by (simp add: stmt_call_def)
  next
    case False
    obtain conn dsn rb ds h' where f: "f conn dsn (descs w) h = Some (rb, ds, h')"
      and w': "w' = w\<lparr>descs := ds, stmts := (stmts w)(s \<mapsto> h')\<rparr>"
      using assms(3) Some False by (auto simp: stmt_call_def bind_eq_Some_conv)
    have l: "links h' = links h" "store_links ds = store_links (descs w)" using handler_links[OF assms(2) f] by auto
    have "wf_driver w' = wf_driver w"
      unfolding w'
      by (rule wf_driver_cong) (use Some l in \<open>auto simp: stmt_links_def dbc_links_def fun_eq_iff\<close>)
    then show ?thesis using assms(1) by simp
  qed
qed

section \<open>Every call keeps the invariant\<close>

text \<open>The address of a new object is not in use.\<close>

definition fresh :: "addr \<Rightarrow> ('v, 'd, 't) driver \<Rightarrow> bool" where
  "fresh a w \<longleftrightarrow> a \<noteq> nullptr \<and> type_of_handle a w = None"

lemma mk_stmt_links [simp]: "links (mk_OdbcHandleStmt junk js c) = (c, None, None)"
  by (simp add: links_def mk_OdbcHandleStmt_def mk_RowDescriptor_def mk_ParameterDescriptor_def split: prod.split)

lemma fresh_links:
  assumes "fresh a w"
  shows "stmt_links w a = None" "dbc_links w a = None" "store_links (descs w) a = None"
  using assms by (auto simp: fresh_def type_of_handle_def stmt_links_def dbc_links_def store_links_def split: if_split_asm)

text \<open>The invariant on the links alone, with which the cases are decided.\<close>

definition links_ok ::
  "(addr \<Rightarrow> (addr \<times> addr option \<times> addr option) option) \<Rightarrow> (addr \<Rightarrow> addr list option) \<Rightarrow> (addr \<Rightarrow> addr option) \<Rightarrow> bool" where
  "links_ok sl cl dl \<longleftrightarrow>
     (\<forall>s l. sl s = Some l \<longrightarrow> (\<exists>v. cl (fst l) = Some v \<and> s \<in> set v)) \<and>
     (\<forall>c v. cl c = Some v \<longrightarrow> distinct v \<and> (\<forall>s \<in> set v. \<exists>l. sl s = Some l \<and> fst l = c)) \<and>
     (\<forall>s l a. sl s = Some l \<longrightarrow> fst (snd l) = Some a \<or> snd (snd l) = Some a \<longrightarrow> dl a = Some (fst l)) \<and>
     (\<forall>a c. dl a = Some c \<longrightarrow> cl c \<noteq> None)"

lemma wf_driver_links_ok: "wf_driver w \<longleftrightarrow> links_ok (stmt_links w) (dbc_links w) (store_links (descs w))"
  by (auto simp: wf_driver_def statements_ok_iff descriptors_ok_iff links_ok_def)

lemma links_okD:
  assumes "links_ok sl cl dl"
  shows "sl s = Some l \<Longrightarrow> \<exists>v. cl (fst l) = Some v \<and> s \<in> set v"
    and "cl c = Some v \<Longrightarrow> distinct v"
    and "cl c = Some v \<Longrightarrow> s \<in> set v \<Longrightarrow> \<exists>l. sl s = Some l \<and> fst l = c"
    and "sl s = Some l \<Longrightarrow> fst (snd l) = Some a \<or> snd (snd l) = Some a \<Longrightarrow> dl a = Some (fst l)"
    and "dl a = Some c \<Longrightarrow> cl c \<noteq> None"
  using assms unfolding links_ok_def by blast+

lemma links_okI:
  assumes "\<And>s l. sl s = Some l \<Longrightarrow> \<exists>v. cl (fst l) = Some v \<and> s \<in> set v"
    and "\<And>c v. cl c = Some v \<Longrightarrow> distinct v"
    and "\<And>c v s. cl c = Some v \<Longrightarrow> s \<in> set v \<Longrightarrow> \<exists>l. sl s = Some l \<and> fst l = c"
    and "\<And>s l a. sl s = Some l \<Longrightarrow> fst (snd l) = Some a \<or> snd (snd l) = Some a \<Longrightarrow> dl a = Some (fst l)"
    and "\<And>a c. dl a = Some c \<Longrightarrow> cl c \<noteq> None"
  shows "links_ok sl cl dl"
  unfolding links_ok_def using assms by simp

lemma links_ok_new_dbc:
  assumes "links_ok sl cl dl" "cl a = None"
  shows "links_ok sl (cl(a \<mapsto> [])) dl"
proof (rule links_okI)
  fix s l assume "sl s = Some l"
  then show "\<exists>v. (cl(a \<mapsto> [])) (fst l) = Some v \<and> s \<in> set v" using links_okD(1)[OF assms(1)] assms(2) by fastforce
qed (use links_okD[OF assms(1)] in \<open>auto split: if_split_asm\<close>)

lemma links_ok_new_desc:
  assumes "links_ok sl cl dl" "dl a = None" "cl c \<noteq> None"
  shows "links_ok sl cl (dl(a \<mapsto> c))"
proof (rule links_okI)
  fix s l b assume "sl s = Some l" "fst (snd l) = Some b \<or> snd (snd l) = Some b"
  then have "dl b = Some (fst l)" using links_okD(4)[OF assms(1)] by blast
  then show "(dl(a \<mapsto> c)) b = Some (fst l)" using assms(2) by auto
qed (use links_okD[OF assms(1)] assms(3) in \<open>auto split: if_split_asm\<close>)

lemma links_ok_new_stmt:
  assumes ok: "links_ok sl cl dl" and "sl a = None" "cl c = Some v"
  shows "links_ok (sl(a \<mapsto> (c, None, None))) (cl(c \<mapsto> v @ [a])) dl"
proof (rule links_okI)
  have new: "a \<notin> set v" using links_okD(3)[OF ok assms(3)] assms(2) by fastforce
  fix s l
  show "(sl(a \<mapsto> (c, None, None))) s = Some l \<Longrightarrow> \<exists>w. (cl(c \<mapsto> v @ [a])) (fst l) = Some w \<and> s \<in> set w"
    using links_okD(1)[OF ok, of s l] assms by (auto split: if_split_asm)
  fix d w
  show "(cl(c \<mapsto> v @ [a])) d = Some w \<Longrightarrow> distinct w"
    using links_okD(2)[OF ok, of d w] links_okD(2)[OF ok assms(3)] new by (auto split: if_split_asm)
  show "(cl(c \<mapsto> v @ [a])) d = Some w \<Longrightarrow> s \<in> set w \<Longrightarrow> \<exists>l. (sl(a \<mapsto> (c, None, None))) s = Some l \<and> fst l = d"
    using links_okD(3)[OF ok, of d w s] links_okD(3)[OF ok assms(3), of s] assms(2) by (auto split: if_split_asm)
  fix b
  show "(sl(a \<mapsto> (c, None, None))) s = Some l \<Longrightarrow> fst (snd l) = Some b \<or> snd (snd l) = Some b \<Longrightarrow> dl b = Some (fst l)"
    using links_okD(4)[OF ok, of s l b] by (auto split: if_split_asm)
  show "dl b = Some d \<Longrightarrow> (cl(c \<mapsto> v @ [a])) d \<noteq> None"
    using links_okD(5)[OF ok, of b d] by auto
qed

lemma links_ok_free_stmt:
  assumes ok: "links_ok sl cl dl" and s: "sl a = Some l0" "cl (fst l0) = Some v"
  shows "links_ok (sl(a := None)) (cl(fst l0 \<mapsto> remove1 a v)) dl"
proof (rule links_okI)
  have dv: "distinct v" using links_okD(2)[OF ok s(2)] .
  fix s l
  show "(sl(a := None)) s = Some l \<Longrightarrow> \<exists>w. (cl(fst l0 \<mapsto> remove1 a v)) (fst l) = Some w \<and> s \<in> set w"
    using links_okD(1)[OF ok, of s l] s dv by (auto split: if_split_asm)
  fix d w
  show "(cl(fst l0 \<mapsto> remove1 a v)) d = Some w \<Longrightarrow> distinct w"
    using links_okD(2)[OF ok, of d w] dv by (auto split: if_split_asm)
  show "(cl(fst l0 \<mapsto> remove1 a v)) d = Some w \<Longrightarrow> s \<in> set w \<Longrightarrow> \<exists>l. (sl(a := None)) s = Some l \<and> fst l = d"
    using links_okD(3)[OF ok, of d w s] links_okD(3)[OF ok s(2), of s] s(1) dv by (auto split: if_split_asm)
  fix b
  show "(sl(a := None)) s = Some l \<Longrightarrow> fst (snd l) = Some b \<or> snd (snd l) = Some b \<Longrightarrow> dl b = Some (fst l)"
    using links_okD(4)[OF ok, of s l b] by (auto split: if_split_asm)
  show "dl b = Some d \<Longrightarrow> (cl(fst l0 \<mapsto> remove1 a v)) d \<noteq> None"
    using links_okD(5)[OF ok, of b d] by auto
qed

lemma links_ok_free_dbc:
  assumes ok: "links_ok sl cl dl" and c: "cl c = Some v" and d: "\<forall>a. dl a \<noteq> Some c"
  shows "links_ok (\<lambda>s. if s \<in> set v then None else sl s) (cl(c := None)) dl"
proof (rule links_okI)
  fix s l
  show "(if s \<in> set v then None else sl s) = Some l \<Longrightarrow> \<exists>w. (cl(c := None)) (fst l) = Some w \<and> s \<in> set w"
    using links_okD(1)[OF ok, of s l] c by (auto split: if_split_asm)
  fix d w
  show "(cl(c := None)) d = Some w \<Longrightarrow> distinct w"
    using links_okD(2)[OF ok, of d w] by (auto split: if_split_asm)
  show "(cl(c := None)) d = Some w \<Longrightarrow> s \<in> set w \<Longrightarrow> \<exists>l. (if s \<in> set v then None else sl s) = Some l \<and> fst l = d"
    using links_okD(3)[OF ok, of d w s] links_okD(3)[OF ok c, of s] by (auto split: if_split_asm)
  fix b
  show "(if s \<in> set v then None else sl s) = Some l \<Longrightarrow> fst (snd l) = Some b \<or> snd (snd l) = Some b \<Longrightarrow> dl b = Some (fst l)"
    using links_okD(4)[OF ok, of s l b] by (auto split: if_split_asm)
  show "dl b = Some d' \<Longrightarrow> (cl(c := None)) d' \<noteq> None" for d'
    using links_okD(5)[OF ok, of b d'] d by auto
qed

text \<open>A descriptor goes: the statements of its connection no longer use it.\<close>

definition drop_link :: "addr \<Rightarrow> addr \<times> addr option \<times> addr option \<Rightarrow> addr \<times> addr option \<times> addr option" where
  "drop_link a l = (case l of (c, r, p) \<Rightarrow> (c, if r = Some a then None else r, if p = Some a then None else p))"

lemma drop_link_fst [simp]: "fst (drop_link a l) = fst l"
  by (simp add: drop_link_def split: prod.split)

lemma links_ok_free_desc:
  assumes ok: "links_ok sl cl dl" and d: "dl a = Some c" and c: "cl c = Some v"
  shows "links_ok (\<lambda>s. if s \<in> set v then map_option (drop_link a) (sl s) else sl s) cl (dl(a := None))"
    (is "links_ok ?sl cl ?dl")
proof (rule links_okI)
  have here: "s \<in> set v" if "sl s = Some l" "fst l = c" for s l
    using links_okD(1)[OF ok that(1)] that(2) c by simp
  have old: "\<exists>l0. sl s = Some l0 \<and> fst l = fst l0" if "?sl s = Some l" for s l
    using that by (cases "s \<in> set v") auto
  fix s l
  show "\<exists>w. cl (fst l) = Some w \<and> s \<in> set w" if "?sl s = Some l"
    using old[OF that] links_okD(1)[OF ok, of s] by auto
  fix d w
  show "cl d = Some w \<Longrightarrow> distinct w" using links_okD(2)[OF ok, of d w] by simp
  show "\<exists>l. ?sl s = Some l \<and> fst l = d" if "cl d = Some w" "s \<in> set w"
  proof -
    obtain l0 where "sl s = Some l0" "fst l0 = d" using links_okD(3)[OF ok \<open>cl d = Some w\<close> \<open>s \<in> set w\<close>] by blast
    then show ?thesis by (intro exI[of _ "if s \<in> set v then drop_link a l0 else l0"]) simp
  qed
  fix b
  show "cl d \<noteq> None" if "?dl b = Some d"
    using that links_okD(5)[OF ok, of b d] by (cases "b = a") auto
  assume l: "?sl s = Some l" "fst (snd l) = Some b \<or> snd (snd l) = Some b"
  show "?dl b = Some (fst l)"
  proof (cases "s \<in> set v")
    case True
    then obtain l1 where l1: "sl s = Some l1" "l = drop_link a l1" using l(1) by auto
    then have "b \<noteq> a \<and> (fst (snd l1) = Some b \<or> snd (snd l1) = Some b)"
      using l(2) by (cases l1) (auto simp: drop_link_def split: if_split_asm)
    then show ?thesis using links_okD(4)[OF ok l1(1), of b] l1(2) by simp
  next
    case False
    then have u: "sl s = Some l" "dl b = Some (fst l)" using l links_okD(4)[OF ok, of s l b] by auto
    then have "b \<noteq> a" using here[OF u(1)] d False by auto
    then show ?thesis using u by simp
  qed
qed

section \<open>The cases of the step\<close>

lemma alloc_wf:
  assumes wf: "wf_driver w" and "fresh a w" "type = SQL_HANDLE_DESC \<longrightarrow> dbcs w input \<noteq> None"
    and call: "SQLAllocHandle junk a type input out w m = Some (ret, w', m')"
  shows "wf_driver w'"
proof -
  note new = fresh_links[OF assms(2)]
  have ok: "links_ok (stmt_links w) (dbc_links w) (store_links (descs w))" using wf by (simp add: wf_driver_links_ok)
  consider "type = SQL_HANDLE_DBC" | "type = SQL_HANDLE_DESC" | "type = SQL_HANDLE_ENV" | "type = SQL_HANDLE_STMT"
    | "type \<notin> {SQL_HANDLE_DBC, SQL_HANDLE_DESC, SQL_HANDLE_ENV, SQL_HANDLE_STMT}" by blast
  then show ?thesis
  proof cases
    case 1
    then have "stmt_links w' = stmt_links w" "dbc_links w' = (dbc_links w)(a \<mapsto> [])"
      "store_links (descs w') = store_links (descs w)"
      using call by (auto simp: SQLAllocHandle_def dbc_links_def mk_OdbcHandleDbc_def fun_eq_iff)
    then show ?thesis using links_ok_new_dbc[OF ok new(2)] by (simp add: wf_driver_links_ok)
  next
    case 2
    then have "stmt_links w' = stmt_links w" "dbc_links w' = dbc_links w"
      "store_links (descs w') = (store_links (descs w))(a \<mapsto> input)"
      using call by (auto simp: SQLAllocHandle_def store_links_def mk_OdbcHandleDesc_def Let_def fun_eq_iff)
    moreover have "dbc_links w input \<noteq> None" using 2 assms(3) by (simp add: dbc_links_def)
    ultimately show ?thesis using links_ok_new_desc[OF ok new(3)] by (simp add: wf_driver_links_ok)
  next
    case 3
    then have "stmt_links w' = stmt_links w" "dbc_links w' = dbc_links w" "descs w' = descs w"
      using call by (auto simp: SQLAllocHandle_def)
    then show ?thesis using wf wf_driver_cong[of w' w] by simp
  next
    case 4
    then obtain dbc where dbc: "dbcs w input = Some dbc"
      and w': "w' = w\<lparr>dbcs := (dbcs w)(input \<mapsto> dbc\<lparr>vec_stmt_ref := vec_stmt_ref dbc @ [a]\<rparr>),
             stmts := (stmts w)(a \<mapsto> mk_OdbcHandleStmt (junk_stmt junk) (junk_headers junk) input)\<rparr>"
      using call by (auto simp: SQLAllocHandle_def Let_def split: option.splits)
    have "stmt_links w' = (stmt_links w)(a \<mapsto> (input, None, None))"
      "dbc_links w' = (dbc_links w)(input \<mapsto> vec_stmt_ref dbc @ [a])" "descs w' = descs w"
      using dbc by (auto simp: w' stmt_links_def dbc_links_def fun_eq_iff)
    then show ?thesis using links_ok_new_stmt[OF ok new(1), of input "vec_stmt_ref dbc"] dbc
      by (simp add: wf_driver_links_ok dbc_links_def)
  next
    case 5
    then show ?thesis using call wf by (simp add: SQLAllocHandle_def Let_def)
  qed
qed

lemma delete_stmts_Some:
  "delete_stmts refs ss = Some ss' \<Longrightarrow> ss' = (\<lambda>s. if s \<in> set refs then None else ss s)"
  by (induction refs arbitrary: ss) (auto simp: fun_eq_iff split: if_split_asm)

lemma reset_descriptor_links: "links (reset_descriptor a h) = drop_link a (links h)"
  by (simp add: links_def drop_link_def reset_descriptor_def ResetCurrentAPD_def ResetCurrentARD_def Let_def)

lemma drop_link_idem [simp]: "drop_link a (drop_link a l) = drop_link a l"
  by (auto simp: drop_link_def split: prod.split)

lemma ResetStmtDescriptors_links:
  "ResetStmtDescriptors a refs ss = Some ss' \<Longrightarrow>
   map_option links (ss' s) = (if s \<in> set refs then map_option (drop_link a) (map_option links (ss s)) else map_option links (ss s))"
proof (induction refs arbitrary: ss)
  case (Cons t refs)
  then obtain h where h: "ss t = Some h"
    and r: "ResetStmtDescriptors a refs (ss(t \<mapsto> reset_descriptor a h)) = Some ss'"
    by (auto split: option.splits)
  show ?case using Cons.IH[OF r] h by (cases "s = t") (simp_all add: reset_descriptor_links)
qed simp

lemma free_wf:
  assumes wf: "wf_driver w" and d: "type = SQL_HANDLE_DBC \<longrightarrow> (\<forall>a. store_links (descs w) a \<noteq> Some handle)"
    and call: "FreeHandle type handle w = Some (ret, w')"
  shows "wf_driver w'"
proof (cases "handle = nullptr")
  case True
  then show ?thesis using wf call by (simp add: FreeHandle_def)
next
  case False
  have ok: "links_ok (stmt_links w) (dbc_links w) (store_links (descs w))" using wf by (simp add: wf_driver_links_ok)
  consider "type = SQL_HANDLE_DBC" | "type = SQL_HANDLE_DESC" | "type = SQL_HANDLE_ENV" | "type = SQL_HANDLE_STMT"
    | "type \<notin> {SQL_HANDLE_DBC, SQL_HANDLE_DESC, SQL_HANDLE_ENV, SQL_HANDLE_STMT}" by blast
  then show ?thesis
  proof cases
    case 1
    then obtain dbc ss where dbc: "dbcs w handle = Some dbc" and ss: "delete_stmts (vec_stmt_ref dbc) (stmts w) = Some ss"
      and w': "w' = w\<lparr>dbcs := (dbcs w)(handle := None), stmts := ss\<rparr>"
      using call False by (auto simp: FreeHandle_def bind_eq_Some_conv)
    have "stmt_links w' = (\<lambda>s. if s \<in> set (vec_stmt_ref dbc) then None else stmt_links w s)"
      "dbc_links w' = (dbc_links w)(handle := None)" "descs w' = descs w"
      by (auto simp: w' delete_stmts_Some[OF ss] stmt_links_def dbc_links_def fun_eq_iff)
    then show ?thesis using links_ok_free_dbc[OF ok, of handle] dbc d 1 by (simp add: wf_driver_links_ok dbc_links_def)
  next
    case 2
    then obtain d dbc ss where d: "descs w handle = Some d" and dbc: "dbcs w (desc_dbc d) = Some dbc"
      and ss: "ResetStmtDescriptors handle (vec_stmt_ref dbc) (stmts w) = Some ss"
      and w': "w' = w\<lparr>stmts := ss, descs := (descs w)(handle := None)\<rparr>"
      using call False by (auto simp: FreeHandle_def bind_eq_Some_conv)
    have "stmt_links w' = (\<lambda>s. if s \<in> set (vec_stmt_ref dbc) then map_option (drop_link handle) (stmt_links w s) else stmt_links w s)"
      "dbc_links w' = dbc_links w" "store_links (descs w') = (store_links (descs w))(handle := None)"
      using ResetStmtDescriptors_links[OF ss]
      by (auto simp: w' stmt_links_def dbc_links_def store_links_def fun_eq_iff)
    then show ?thesis using links_ok_free_desc[OF ok, of handle "desc_dbc d" "vec_stmt_ref dbc"] d dbc
      by (simp add: wf_driver_links_ok dbc_links_def store_links_def)
  next
    case 3
    then have "stmt_links w' = stmt_links w" "dbc_links w' = dbc_links w" "descs w' = descs w"
      using call False by (auto simp: FreeHandle_def split: if_split_asm)
    then show ?thesis using wf wf_driver_cong[of w' w] by simp
  next
    case 4
    then obtain h dbc where h: "stmts w handle = Some h" and dbc: "dbcs w (st_dbc h) = Some dbc"
      and w': "w' = w\<lparr>dbcs := (dbcs w)(st_dbc h \<mapsto> EraseStmtRef handle dbc), stmts := (stmts w)(handle := None)\<rparr>"
      using call False by (auto simp: FreeHandle_def bind_eq_Some_conv)
    have "stmt_links w' = (stmt_links w)(handle := None)"
      "dbc_links w' = (dbc_links w)(fst (links h) \<mapsto> remove1 handle (vec_stmt_ref dbc))" "descs w' = descs w"
      using dbc by (auto simp: w' stmt_links_def dbc_links_def links_def EraseStmtRef_def fun_eq_iff)
    then show ?thesis using links_ok_free_stmt[OF ok, of handle "links h" "vec_stmt_ref dbc"] h dbc
      by (simp add: wf_driver_links_ok dbc_links_def stmt_links_def links_def)
  next
    case 5
    then show ?thesis using call wf False by (simp add: FreeHandle_def)
  qed
qed

lemma same_links_wf:
  assumes "stmts w s = Some h" "links h' = links h" "store_links ds = store_links (descs w)" "wf_driver w"
  shows "wf_driver (w\<lparr>descs := ds, stmts := (stmts w)(s \<mapsto> h')\<rparr>)"
  using assms(4) by (subst wf_driver_cong) (use assms in \<open>auto simp: stmt_links_def dbc_links_def fun_eq_iff\<close>)

lemma free_stmt_wf:
  assumes wf: "wf_driver w" and call: "SQLFreeStmt opt s w = Some (ret, w')"
  shows "wf_driver w'"
proof -
  have plain: "wf_driver w2"
    if f: "stmt_call f s w = Some (r, b, w2)"
      and l: "\<And>conn dsn ds h x ds' h'. f conn dsn ds h = Some (x, ds', h') \<Longrightarrow> links h' = links h \<and> store_links ds' = store_links ds"
    for f :: "('a, unit) stmt_handler" and r b w2
    using f wf by (auto simp: stmt_call_def bind_eq_Some_conv split: if_split_asm option.splits
        intro!: same_links_wf dest!: l)
  show ?thesis
  proof (cases "opt = SQL_DROP")
    case False
    then show ?thesis using call by (auto simp: SQLFreeStmt_def elim!: plain dest!: FreeStmt_option_links)
  next
    case True
    let ?f = "\<lambda>conn dsn ds h. case ConvertHSTMT conn h of (ret, h) \<Rightarrow> Some ((ret, ()), ds, h)"
    obtain r b w2 where w2: "stmt_call ?f s w = Some (r, b, w2)"
      "(if r \<noteq> SQL_SUCCESS then Some (r, w2) else FreeHandle SQL_HANDLE_STMT s w2) = Some (ret, w')"
      using call True by (auto simp: SQLFreeStmt_def bind_eq_Some_conv)
    have "wf_driver w2" by (rule plain[OF w2(1)]) (auto split: prod.splits dest!: ConvertHSTMT_links)
    then show ?thesis using w2(2) free_wf[of w2 SQL_HANDLE_STMT s ret w'] by (auto split: if_split_asm)
  qed
qed

lemma SetStmtAttr_use:
  assumes "SetStmtAttrInternal conn dsn attribute a ds h m = Some (r, ds', h', m')"
    "attribute \<in> {SQL_ATTR_APP_ROW_DESC, SQL_ATTR_APP_PARAM_DESC}"
  obtains r' p' where "store_links ds' = store_links ds" "links h' = (st_dbc h, r', p')"
    "r' \<in> {cur_ard (row_desc h), Some a}" "p' \<in> {cur_apd (param_desc h), Some a}"
proof -
  have "store_links ds' = store_links ds \<and>
      links h' \<in> {links h, (st_dbc h, Some a, cur_apd (param_desc h)), (st_dbc h, cur_ard (row_desc h), Some a)}"
    using assms
    by (auto simp: SetStmtAttrInternal_def Let_def split_beta ConvertHSTMT_def SetCurrentARD_def SetCurrentAPD_def
        links_def stmt_diag_def SetDiagnosticRecord_def mark_user_def split: if_split_asm option.splits)
  then show ?thesis using that by (auto simp: links_def)
qed

lemma links_ok_use:
  assumes ok: "links_ok sl cl dl" and s: "sl s = Some (c, r, p)" "dl a = Some c"
    and "r' \<in> {r, Some a}" "p' \<in> {p, Some a}"
  shows "links_ok (sl(s \<mapsto> (c, r', p'))) cl dl"
proof (rule links_okI)
  fix t l
  show "(sl(s \<mapsto> (c, r', p'))) t = Some l \<Longrightarrow> \<exists>v. cl (fst l) = Some v \<and> t \<in> set v"
    using links_okD(1)[OF ok, of t] s by (auto split: if_split_asm)
  fix d w
  show "cl d = Some w \<Longrightarrow> distinct w" using links_okD(2)[OF ok, of d w] .
  show "cl d = Some w \<Longrightarrow> t \<in> set w \<Longrightarrow> \<exists>l. (sl(s \<mapsto> (c, r', p'))) t = Some l \<and> fst l = d"
    using links_okD(3)[OF ok, of d w t] s by auto
  fix b
  show "(sl(s \<mapsto> (c, r', p'))) t = Some l \<Longrightarrow> fst (snd l) = Some b \<or> snd (snd l) = Some b \<Longrightarrow> dl b = Some (fst l)"
    using links_okD(4)[OF ok, of t l b] links_okD(4)[OF ok s(1), of b] s(2) assms(4,5) by (auto split: if_split_asm)
  show "dl b = Some d \<Longrightarrow> cl d \<noteq> None" using links_okD(5)[OF ok, of b d] .
qed

text \<open>A handle that is no descriptor becomes the application descriptor of no statement.\<close>

lemma SetStmtAttr_no_descriptor:
  assumes "SetStmtAttrInternal conn dsn attribute a ds h m = Some (r, ds', h', m')"
    "attribute \<in> {SQL_ATTR_APP_ROW_DESC, SQL_ATTR_APP_PARAM_DESC}" "ds a = None"
  shows "links h' = links h \<and> store_links ds' = store_links ds"
  using assms
  by (auto simp: SetStmtAttrInternal_def Let_def split_beta ConvertHSTMT_def SetCurrentARD_def SetCurrentAPD_def
      links_def stmt_diag_def SetDiagnosticRecord_def split: if_split_asm option.splits)

lemma use_descriptor_wf:
  assumes wf: "wf_driver w" and at: "attribute \<in> {SQL_ATTR_APP_ROW_DESC, SQL_ATTR_APP_PARAM_DESC}"
    and own: "\<And>h d. stmts w s = Some h \<Longrightarrow> descs w a = Some d \<Longrightarrow> desc_dbc d = st_dbc h"
    and call: "stmt_call (\<lambda>conn dsn ds h. map_option (\<lambda>(ret, ds, h, m). ((ret, m), ds, h))
       (SetStmtAttrInternal conn dsn attribute a ds h m)) s w = Some (ret, b, w')"
  shows "wf_driver w'"
proof (cases "s = nullptr \<or> stmts w s = None")
  case True
  then show ?thesis using wf call by (auto simp: stmt_call_def split: if_split_asm)
next
  case False
  then obtain h where h: "stmts w s = Some h" by auto
  obtain conn dsn r m0 ds h' where f: "SetStmtAttrInternal conn dsn attribute a (descs w) h m = Some (r, ds, h', m0)"
    and w': "w' = w\<lparr>descs := ds, stmts := (stmts w)(s \<mapsto> h')\<rparr>"
    using call h False by (auto simp: stmt_call_def bind_eq_Some_conv)
  show ?thesis
  proof (cases "descs w a")
    case None
    then show ?thesis using SetStmtAttr_no_descriptor[OF f at] same_links_wf[OF h] wf by (simp add: w')
  next
    case (Some d)
    then have link: "store_links (descs w) a = Some (st_dbc h)" using own[OF h] by (simp add: store_links_def)
    obtain r' p' where l: "store_links ds = store_links (descs w)" "links h' = (st_dbc h, r', p')"
      "r' \<in> {cur_ard (row_desc h), Some a}" "p' \<in> {cur_apd (param_desc h), Some a}"
      using SetStmtAttr_use[OF f at] .
    have "stmt_links w' = (stmt_links w)(s \<mapsto> (st_dbc h, r', p'))" "dbc_links w' = dbc_links w"
      using l(2) by (auto simp: w' stmt_links_def dbc_links_def fun_eq_iff)
    then show ?thesis
      using links_ok_use[of "stmt_links w" "dbc_links w" "store_links (descs w)" s] wf h link l
      by (simp add: wf_driver_links_ok w' stmt_links_def links_def)
  qed
qed

text \<open>Writing a descriptor back keeps the connection it belongs to.\<close>

lemma put_desc_wf:
  assumes "get_desc r w = Some d" "desc_dbc d' = desc_dbc d"
  shows "wf_driver (put_desc r d' w) = wf_driver w"
  by (rule wf_driver_cong)
    (use assms in \<open>auto simp: put_desc_def get_desc_def Let_def stmt_links_def dbc_links_def links_def fun_eq_iff
       option.map_comp comp_def split: desc_ref.splits intro!: option.map_cong\<close>)

lemma SetDescRecordField_dbc:
  assumes "SetDescRecordField t1 t2 dsn i field p n m d = Some (ret, d')"
  shows "desc_dbc d' = desc_dbc d"
  using assms unfolding SetDescRecordField_def Let_def set_record_def
  by (elim if_SomeE bind_SomeE) (auto simp: prod_eq_iff dest!: set_checked_type_dbc sym[of "(_, _)"])

lemma SetDescField_dbc:
  "SetDescField junk t1 t2 dsn rn field p n m d = Some (ret, d') \<Longrightarrow> desc_dbc d' = desc_dbc d"
  unfolding SetDescField_def Let_def
  by (elim if_SomeE) (auto simp: prod_eq_iff dest!: SetDescHeaderField_dbc SetDescRecordField_dbc sym[of "(_, _)"])

lemma GetDescFieldInternal_dbc:
  "GetDescFieldInternal wide t1 t2 dsn rn field p n q d m = Some (ret, d', m') \<Longrightarrow> desc_dbc d' = desc_dbc d"
  unfolding GetDescFieldInternal_def GetDescHeaderField_def GetDescRecordField_def Let_def
  by (elim if_SomeE) (auto simp: split_beta)

lemma set_field_wf:
  "wf_driver w \<Longrightarrow> SQLSetDescField junk r rn field p n w m = Some (ret, w') \<Longrightarrow> wf_driver w'"
  by (auto simp: SQLSetDescField_def bind_eq_Some_conv put_desc_wf SetDescField_dbc split: if_split_asm)

lemma get_field_wf:
  "wf_driver w \<Longrightarrow> SQLGetDescField wide r rn field p n q w m = Some (ret, w', m') \<Longrightarrow> wf_driver w'"
  by (auto simp: SQLGetDescField_def bind_eq_Some_conv put_desc_wf GetDescFieldInternal_dbc split: if_split_asm)

lemma desc_diag_at_wf:
  "get_desc r w = Some d \<Longrightarrow> desc_diag_at msg state r d w = Some (ret, w') \<Longrightarrow> wf_driver w' = wf_driver w"
  by (auto simp: desc_diag_at_def split_beta put_desc_wf split: option.splits)

lemma copy_check_wf:
  assumes "get_desc source w = Some sd" "get_desc target w = Some td"
  shows "copy_check source target sd td refs w = Some (Some (ret, w')) \<Longrightarrow> wf_driver w' = wf_driver w"
proof (induction refs)
  case (Cons s refs)
  then show ?case using assms by (auto dest: desc_diag_at_wf split: option.splits if_split_asm)
qed simp

lemma copy_wf:
  assumes "wf_driver w" "SQLCopyDesc source target w = Some (ret, w')"
  shows "wf_driver w'"
proof (cases "source = None \<or> target = None")
  case True
  then show ?thesis using assms by (auto simp: SQLCopyDesc_def split: option.splits)
next
  case False
  then obtain sr tr where r: "source = Some sr" "target = Some tr" by auto
  obtain sd td dbc where d: "get_desc sr w = Some sd" "get_desc tr w = Some td" "dbcs w (desc_dbc sd) = Some dbc"
    using assms(2) r by (auto simp: SQLCopyDesc_def bind_eq_Some_conv)
  show ?thesis
  proof (cases "copy_check sr tr sd td (vec_stmt_ref dbc) w")
    case None
    then show ?thesis using assms r d
      by (auto simp: SQLCopyDesc_def bind_eq_Some_conv put_desc_wf CopyOnlyOdbcFields_def CopyFieldByField_def
          split: if_split_asm)
  next
    case (Some x)
    then show ?thesis using assms r d copy_check_wf[OF d(1,2)] by (auto simp: SQLCopyDesc_def)
  qed
qed

lemma materialize_loop_links:
  "materialize_loop dsn h = Some y \<Longrightarrow> (\<forall>r h'. y = Some (r, h') \<longrightarrow> links h' = links h)"
proof (induction rule: materialize_loop.raw_induct[rotated, consumes 1, case_names step])
  case (step f dsn h y)
  show ?case
  proof (cases "FetchNext dsn h")
    case None
    then show ?thesis using step(2) by auto
  next
    case (Some a)
    then obtain r h1 where a: "FetchNext dsn h = Some (r, h1)" by (cases a) auto
    then show ?thesis using step FetchNext_links[OF a] by (fastforce split: if_split_asm)
  qed
qed

lemma stmt_MaterializeResult_links: "stmt_MaterializeResult dsn h = Some (Some (ret, h')) \<Longrightarrow> links h' = links h"
  by (auto simp: stmt_MaterializeResult_def Materialize_def dest!: materialize_loop_links split: if_split_asm)

lemma MaterializeResult_links:
  "MaterializeResult dbc ss = Some (Some (ret, ss')) \<Longrightarrow> map_option links (ss' s) = map_option links (ss s)"
  by (auto simp: MaterializeResult_def Let_def dest!: stmt_MaterializeResult_links split: if_split_asm option.splits)

lemma ConvertConnection_stmts [simp]: "vec_stmt_ref (snd (ConvertConnection dbc)) = vec_stmt_ref dbc"
  by (simp add: ConvertConnection_def)

lemma put_dbc_wf:
  "dbcs w c = Some d \<Longrightarrow> vec_stmt_ref d' = vec_stmt_ref d \<Longrightarrow> wf_driver (w\<lparr>dbcs := (dbcs w)(c \<mapsto> d')\<rparr>) = wf_driver w"
  by (rule wf_driver_cong) simp_all

text \<open>A handler behind the check of its connection keeps the invariant when it does on the converted one.\<close>

lemma dbc_call_wf:
  assumes "wf_driver w" "dbc_call handle f w = Some (Some (ret, w'))"
    and f: "\<And>dbc w1 ret' w2. dbcs w1 handle = Some dbc \<Longrightarrow> wf_driver w1 \<Longrightarrow> f dbc w1 = Some (Some (ret', w2)) \<Longrightarrow> wf_driver w2"
  shows "wf_driver w'"
proof (cases "handle = nullptr \<or> dbcs w handle = None")
  case True
  then show ?thesis using assms by (auto simp: dbc_call_def split: if_split_asm)
next
  case False
  then obtain dbc where dbc: "dbcs w handle = Some dbc" by auto
  obtain r dbc1 where c: "ConvertConnection dbc = (r, dbc1)" by fastforce
  let ?w1 = "w\<lparr>dbcs := (dbcs w)(handle \<mapsto> dbc1)\<rparr>"
  have "vec_stmt_ref dbc1 = vec_stmt_ref dbc" using ConvertConnection_stmts[of dbc] c by simp
  then have w1: "wf_driver ?w1" using put_dbc_wf[OF dbc] assms(1) by simp
  have "w' = ?w1 \<or> f dbc1 ?w1 = Some (Some (ret, w'))"
    using assms(2) False dbc c by (auto simp: dbc_call_def Let_def split: if_split_asm)
  then show ?thesis using w1 f[of ?w1 dbc1 ret w'] by auto
qed

lemma put_wf:
  "wf_driver (w\<lparr>envs := es\<rparr>) = wf_driver w"
  "stmts w s = Some h \<Longrightarrow> links h' = links h \<Longrightarrow> wf_driver (w\<lparr>stmts := (stmts w)(s \<mapsto> h')\<rparr>) = wf_driver w"
  "descs w a = Some d \<Longrightarrow> desc_dbc d' = desc_dbc d \<Longrightarrow> wf_driver (w\<lparr>descs := (descs w)(a \<mapsto> d')\<rparr>) = wf_driver w"
  by (rule wf_driver_cong; simp)+

lemma handle_error_wf:
  assumes "wf_driver w" "handle_error ret c msg state a w = Some (r, w')"
  shows "wf_driver w'"
proof -
  obtain t where t: "type_of_handle a w = Some t" using assms(2) by (auto simp: handle_error_def split: option.splits)
  show ?thesis
    using assms by (cases t) (auto simp: handle_error_def t put_dbc_wf put_wf)
qed

lemma end_tran_wf:
  assumes wf: "wf_driver w" and call: "SQLEndTran st type handle completion w = Some (Some (ret, w'))"
  shows "wf_driver w'"
proof (cases "type = SQL_HANDLE_DBC")
  case False
  then show ?thesis using wf call by (auto simp: SQLEndTran_def dest: handle_error_wf)
next
  case True
  note call' = call[unfolded SQLEndTran_def, simplified True, simplified]
  show ?thesis
  proof (rule dbc_call_wf[OF wf call'], goal_cases)
    case (1 dbc w1 r w2)
    obtain c where c: "dbc_conn dbc = Some c" using 1 by (auto split: option.splits)
    consider "completion = SQL_COMMIT" | "completion = SQL_ROLLBACK" | "completion \<notin> {SQL_COMMIT, SQL_ROLLBACK}" by blast
    then show ?case
    proof cases
      case 1: 1
      obtain r0 ss where m: "MaterializeResult dbc (stmts w1) = Some (Some (r0, ss))"
        using \<open>_ = Some (Some (r, w2))\<close> c 1 by (auto split: option.splits)
      have w: "wf_driver (w1\<lparr>stmts := ss\<rparr>)"
        using MaterializeResult_links[OF m] \<open>wf_driver w1\<close>
        by (subst wf_driver_cong[of _ w1]) (auto simp: stmt_links_def dbc_links_def fun_eq_iff)
      show ?thesis
        using \<open>_ = Some (Some (r, w2))\<close> c 1 m w \<open>dbcs w1 handle = Some dbc\<close>
        by (auto simp: Let_def put_dbc_wf[of "w1\<lparr>stmts := ss\<rparr>", simplified] split: if_split_asm prod.splits option.splits)
    next
      case 2
      then show ?thesis using 1 c
        by (auto simp: put_dbc_wf split_beta split: option.splits prod.splits)
    next
      case 3
      then show ?thesis using 1 c by (auto simp: put_dbc_wf split_beta)
    qed
  qed
qed

lemma SetConnectAttrInternal_stmts:
  "SetConnectAttrInternal st attribute p dbc = Some (ret, dbc') \<Longrightarrow> vec_stmt_ref dbc' = vec_stmt_ref dbc"
  unfolding SetConnectAttrInternal_def set_autocommit_def Let_def split_beta
  by (elim if_SomeE) (auto simp: prod_eq_iff dest!: sym[of "(_, _)"] split: option.splits prod.splits)

lemma set_connect_attr_wf:
  "wf_driver w \<Longrightarrow> SQLSetConnectAttr st handle attribute p w = Some (ret, w') \<Longrightarrow> wf_driver w'"
  by (auto simp: SQLSetConnectAttr_def put_dbc_wf dest!: SetConnectAttrInternal_stmts split: if_split_asm option.splits)

lemma disconnect_wf:
  assumes "wf_driver w" "SQLDisconnect handle w = Some (ret, w')"
  shows "wf_driver w'"
  by (rule dbc_call_wf[OF assms(1) assms(2)[unfolded SQLDisconnect_def returned_Some]]) (auto simp: put_dbc_wf)

end
