(* ===== verification/Connect.thy ===== *)
theory Connect
  imports Connection_Handles
begin

text \<open>
  \<^verbatim>\<open>src/odbc_driver/connect/connect.cpp\<close>: the options of a connection, the parser of a connection
  string and the reading of the odbc.ini file. An option of the engine and its candidates message are
  parameters; so is the ini file, which is absent when the driver is built without ODBC\_LINK\_ODBCINST.
\<close>

section \<open>The state of a connection attempt\<close>

record connect_options =
  option_names :: "string list"
  candidates_message :: "string list \<Rightarrow> string \<Rightarrow> string"
  private_profile :: "(string \<Rightarrow> string \<Rightarrow> int \<times> string) option"

text \<open>
  The keys of \<^verbatim>\<open>seen_config_options\<close> are in the order of \<^verbatim>\<open>std::map\<close>. \<^verbatim>\<open>config_map\<close> compares its keys
  without case; here a key is lower case.
\<close>

record connect =
  input_str :: string
  success_with_info :: bool
  seen_config_options :: "(string \<times> bool) list"
  config_map :: "string \<Rightarrow> string option"

abbreviation (input) ROW_DEL :: char where "ROW_DEL \<equiv> CHR '';''"
abbreviation (input) KEY_VAL_DEL :: char where "KEY_VAL_DEL \<equiv> CHR ''=''"

definition IGNORE_KEYS :: "string list" where
  "IGNORE_KEYS = [''driver'', ''trusted_connection'', ''uid'', ''pwd'']"

definition SQL_FILE_OPTION :: string where
  "SQL_FILE_OPTION = ''session_init_sql_file''"

definition SQL_FILE_SHA256_OPTION :: string where
  "SQL_FILE_SHA256_OPTION = ''session_init_sql_file_sha256''"

definition CharacterToLower :: "char \<Rightarrow> char" where
  "CharacterToLower c = (if CHR ''A'' \<le> c \<and> c \<le> CHR ''Z'' then char_of ((of_char c :: nat) + 32) else c)"

definition StringUtil_Lower :: "string \<Rightarrow> string" where
  "StringUtil_Lower str = map CharacterToLower str"

text \<open>\<^verbatim>\<open>seen_config_options[key] = v\<close>; a new key takes its place in the order.\<close>

fun map_assign :: "string \<Rightarrow> bool \<Rightarrow> (string \<times> bool) list \<Rightarrow> (string \<times> bool) list" where
  "map_assign k v [] = [(k, v)]" |
  "map_assign k v ((k', v') # m) =
     (if k = k' then (k, v) # m
      else if ord_class.lexordp k k' then (k, v) # (k', v') # m
      else (k', v') # map_assign k v m)"

definition mk_Connect :: "connect_options \<Rightarrow> string \<Rightarrow> connect" where
  "mk_Connect opts input_str_p =
     \<lparr>input_str = input_str_p, success_with_info = False,
      seen_config_options = fold (\<lambda>k. map_assign k False)
        (option_names opts @ [''database'', ''dsn'', SQL_FILE_OPTION, SQL_FILE_SHA256_OPTION]) [],
      config_map = Map.empty\<rparr>"

definition SetSuccessWithInfo :: "int \<Rightarrow> connect \<Rightarrow> bool \<times> connect" where
  "SetSuccessWithInfo ret c =
     (if \<not> SQL_SUCCEEDED ret then (False, c)
      else if ret = SQL_SUCCESS_WITH_INFO then (True, c\<lparr>success_with_info := True\<rparr>)
      else (True, c))"

definition GetOptionFromConfigMap :: "string \<Rightarrow> string \<Rightarrow> connect \<Rightarrow> string" where
  "GetOptionFromConfigMap option_name default_val c =
     (if map_of (seen_config_options c) option_name \<noteq> Some True then default_val
      else case config_map c (StringUtil_Lower option_name) of None \<Rightarrow> default_val | Some v \<Rightarrow> v)"

definition set_option :: "string \<Rightarrow> string \<Rightarrow> connect \<Rightarrow> connect" where
  "set_option key val c =
     c\<lparr>config_map := (config_map c)(StringUtil_Lower key \<mapsto> val),
       seen_config_options := map_assign key True (seen_config_options c)\<rparr>"

section \<open>The connection string\<close>

text \<open>The first component is the return code, the second the key when there is one.\<close>

definition FindMatchingKey ::
  "connect_options \<Rightarrow> string \<Rightarrow> connect \<Rightarrow> ('d, 't) OdbcHandleDbc \<Rightarrow> int \<times> string option \<times> ('d, 't) OdbcHandleDbc" where
  "FindMatchingKey opts input c dbc =
     (if map_of (seen_config_options c) input \<noteq> None then (SQL_SUCCESS, Some input, dbc)
      else
        let msg = candidates_message opts (option_names opts) input in
        case dbc_error SQL_SUCCESS_WITH_INFO ''SQLDriverConnect''
               (''Invalid keyword: '' @ [CHR 0x27] @ input @ [CHR 0x27] @ ''. '' @ msg) ST_01S09 [] dbc of
          (ret, dbc) \<Rightarrow> (ret, None, dbc))"

text \<open>\<^verbatim>\<open>row.find\<close>: what is before and behind the first \<^verbatim>\<open>d\<close>.\<close>

definition split_at :: "char \<Rightarrow> string \<Rightarrow> (string \<times> string) option" where
  "split_at d s = (if d \<in> set s then Some (takeWhile (\<lambda>c. c \<noteq> d) s, tl (dropWhile (\<lambda>c. c \<noteq> d) s)) else None)"

definition FindKeyValPair ::
  "connect_options \<Rightarrow> string \<Rightarrow> connect \<Rightarrow> ('d, 't) OdbcHandleDbc \<Rightarrow> int \<times> connect \<times> ('d, 't) OdbcHandleDbc" where
  "FindKeyValPair opts row c dbc =
     (case split_at KEY_VAL_DEL row of
        None \<Rightarrow> (case dbc_error SQL_ERROR ''SQLDriverConnect'' ''Invalid connection string'' ST_HY000 [] dbc of
                  (ret, dbc) \<Rightarrow> (ret, c, dbc))
      | Some (key_spaces, val_spaces) \<Rightarrow>
        let key_candidate = TrimString (StringUtil_Lower key_spaces) in
        if key_candidate \<in> set IGNORE_KEYS then (SQL_SUCCESS, c, dbc)
        else
          (case FindMatchingKey opts key_candidate c dbc of
             (ret, None, dbc) \<Rightarrow> (ret, c, dbc)
           | (ret, Some key, dbc) \<Rightarrow>
               if key = SQL_FILE_OPTION \<or> key = SQL_FILE_SHA256_OPTION then
                 (case dbc_error SQL_ERROR ''SQLDriverConnect''
                        (''Options '' @ [CHR 0x27] @ SQL_FILE_OPTION @ [CHR 0x27] @ '' and '' @ [CHR 0x27] @
                         SQL_FILE_SHA256_OPTION @ [CHR 0x27] @
                         '' can only be specified in DSN configuration in a file or registry.'') ST_01S09 [] dbc of
                    (ret, dbc) \<Rightarrow> (ret, c, dbc))
               else (SQL_SUCCESS, set_option key (TrimString val_spaces) c, dbc)))"

lemma split_at_shorter: "split_at d s = Some (a, b) \<Longrightarrow> length b < length s"
  using length_dropWhile_le[of "\<lambda>c. c \<noteq> d" s]
  by (cases "dropWhile (\<lambda>c. c \<noteq> d) s") (auto simp: split_at_def split: if_split_asm)

text \<open>The loop of \<^verbatim>\<open>ParseInputStr\<close> with the check behind it for a last row without a delimiter.\<close>

function parse_rows ::
  "connect_options \<Rightarrow> connect \<Rightarrow> ('d, 't) OdbcHandleDbc \<Rightarrow> bool \<times> int \<times> connect \<times> ('d, 't) OdbcHandleDbc" where
  "parse_rows opts c dbc =
     (case split_at ROW_DEL (input_str c) of
        Some (row, rest) \<Rightarrow>
          (case FindKeyValPair opts row c dbc of (ret, c', dbc') \<Rightarrow>
             case SetSuccessWithInfo ret c' of (ok, c') \<Rightarrow>
               if \<not> ok then (False, ret, c', dbc')
               else parse_rows opts (c'\<lparr>input_str := rest\<rparr>) dbc')
      | None \<Rightarrow>
          if input_str c \<noteq> [] then
            (case FindKeyValPair opts (input_str c) c dbc of (ret, c', dbc') \<Rightarrow>
               case SetSuccessWithInfo ret c' of (ok, c') \<Rightarrow> (ok, ret, c', dbc'))
          else (True, SQL_SUCCESS, c, dbc))"
  by pat_completeness auto

termination
  by (relation "measure (\<lambda>(opts, c, dbc). length (input_str c))") (auto dest: split_at_shorter)

declare parse_rows.simps [simp del]

definition ParseInputStr ::
  "connect_options \<Rightarrow> connect \<Rightarrow> ('d, 't) OdbcHandleDbc \<Rightarrow> int \<times> connect \<times> ('d, 't) OdbcHandleDbc" where
  "ParseInputStr opts c dbc =
     (if input_str c = [] then (SQL_SUCCESS, c, dbc)
      else case parse_rows opts c dbc of (ok, ret, c, dbc) \<Rightarrow>
        if \<not> ok then (ret, c, dbc)
        else (if success_with_info c then SQL_SUCCESS_WITH_INFO else SQL_SUCCESS, c,
              dbc\<lparr>dbc_dsn := GetOptionFromConfigMap ''dsn'' [] c\<rparr>))"

section \<open>The ini file\<close>

text \<open>The loop over the options that the connection string did not set.\<close>

fun read_ini ::
  "(string \<Rightarrow> int \<times> string) \<Rightarrow> (string \<times> bool) list \<Rightarrow> connect \<Rightarrow> ('d, 't) OdbcHandleDbc
   \<Rightarrow> int \<times> connect \<times> ('d, 't) OdbcHandleDbc" where
  "read_ini profile [] c dbc = (SQL_SUCCESS, c, dbc)" |
  "read_ini profile ((key, seen) # keys) c dbc =
     (if seen then read_ini profile keys c dbc
      else case profile key of (read_size, char_val) \<Rightarrow>
        if read_size = 0 then read_ini profile keys c dbc
        else if read_size < 0 then
          (case dbc_error SQL_ERROR ''SQLDriverConnect'' ''Error reading from .odbc.ini'' ST_01S09 [] dbc of
             (ret, dbc) \<Rightarrow> (ret, c, dbc))
        else read_ini profile keys (set_option key (c_prefix char_val) c) dbc)"

definition ReadFromIniFile ::
  "connect_options \<Rightarrow> connect \<Rightarrow> ('d, 't) OdbcHandleDbc \<Rightarrow> int \<times> connect \<times> ('d, 't) OdbcHandleDbc" where
  "ReadFromIniFile opts c dbc =
     (case private_profile opts of
        None \<Rightarrow> (SQL_SUCCESS, c, dbc)
      | Some profile \<Rightarrow>
          if dbc_dsn dbc = [] then (SQL_SUCCESS, c, dbc)
          else read_ini (profile (dbc_dsn dbc)) (seen_config_options c) c dbc)"

section \<open>A well-formed string is read back\<close>

lemma split_at_first [simp]: "d \<notin> set a \<Longrightarrow> split_at d (a @ d # b) = Some (a, b)"
proof -
  assume d: "d \<notin> set a"
  have "takeWhile (\<lambda>c. c \<noteq> d) (a @ d # b) = a \<and> dropWhile (\<lambda>c. c \<noteq> d) (a @ d # b) = d # b"
    using d by (induction a) auto
  then show ?thesis by (simp add: split_at_def)
qed

lemma map_of_map_assign [simp]: "map_of (map_assign k v m) = (map_of m)(k \<mapsto> v)"
  by (induction m) (auto simp: fun_eq_iff)

lemma CharacterToLower_idem [simp]: "CharacterToLower (CharacterToLower c) = CharacterToLower c"
  by (simp add: CharacterToLower_def less_eq_char_def)

definition lower :: "string \<Rightarrow> bool" where
  "lower s \<longleftrightarrow> StringUtil_Lower s = s"

lemma lower_iff: "lower s \<longleftrightarrow> (\<forall>c \<in> set s. CharacterToLower c = c)"
  by (auto simp: lower_def StringUtil_Lower_def map_idI) (metis map_eq_conv map_ident)

lemma lower_Trim [simp]: "lower (TrimString (StringUtil_Lower s))"
proof -
  have "set (TrimString (StringUtil_Lower s)) \<subseteq> set (StringUtil_Lower s)"
    by (auto simp: TrimString_def Let_def dest: in_set_dropD in_set_takeD)
  then show ?thesis unfolding lower_iff by (auto simp: StringUtil_Lower_def)
qed

text \<open>The rows of a connection string, what a row means, and the keys that are accepted.\<close>

definition render :: "(string \<times> string) list \<Rightarrow> string" where
  "render rows = concat (map (\<lambda>(k, v). k @ [KEY_VAL_DEL] @ v @ [ROW_DEL]) rows)"

definition meaning :: "string \<times> string \<Rightarrow> string \<times> string" where
  "meaning row = (TrimString (StringUtil_Lower (fst row)), TrimString (snd row))"

definition plain_row :: "connect \<Rightarrow> string \<times> string \<Rightarrow> bool" where
  "plain_row c row \<longleftrightarrow> KEY_VAL_DEL \<notin> set (fst row) \<and> ROW_DEL \<notin> set (fst row) \<and> ROW_DEL \<notin> set (snd row) \<and>
     map_of (seen_config_options c) (fst (meaning row)) \<noteq> None \<and>
     fst (meaning row) \<notin> set IGNORE_KEYS \<union> {SQL_FILE_OPTION, SQL_FILE_SHA256_OPTION}"

definition set_row :: "string \<times> string \<Rightarrow> connect \<Rightarrow> connect" where
  "set_row row c = set_option (fst (meaning row)) (snd (meaning row)) c"

lemma set_row_frame [simp]:
  "input_str (set_row row c) = input_str c" "success_with_info (set_row row c) = success_with_info c"
  "(set_row row c)\<lparr>input_str := x\<rparr> = set_row row (c\<lparr>input_str := x\<rparr>)"
  by (simp_all add: set_row_def set_option_def)

lemma fold_set_row_frame [simp]:
  "success_with_info (fold set_row rows c) = success_with_info c"
  by (induction rows arbitrary: c) simp_all

lemma plain_row_set_row: "plain_row c r \<Longrightarrow> plain_row (set_row row c) r"
  by (auto simp: plain_row_def set_row_def set_option_def)

lemma FindKeyValPair_plain:
  assumes "plain_row c (k, v)"
  shows "FindKeyValPair opts (k @ KEY_VAL_DEL # v) c dbc = (SQL_SUCCESS, set_row (k, v) c, dbc)"
  using assms by (auto simp: FindKeyValPair_def plain_row_def meaning_def FindMatchingKey_def set_row_def)

lemma parse_rows_render:
  "(\<And>r. r \<in> set rows \<Longrightarrow> plain_row c r) \<Longrightarrow> input_str c = render rows \<Longrightarrow>
   parse_rows opts c dbc = (True, SQL_SUCCESS, fold set_row rows (c\<lparr>input_str := []\<rparr>), dbc)"
proof (induction rows arbitrary: c)
  case Nil
  then have "c\<lparr>input_str := []\<rparr> = c" by (simp add: render_def)
  then show ?case using Nil by (subst parse_rows.simps) (simp add: render_def split_at_def)
next
  case (Cons row rows)
  obtain k v where row: "row = (k, v)" by (cases row)
  have p: "plain_row c (k, v)" using Cons.prems(1) row by simp
  have "input_str c = (k @ KEY_VAL_DEL # v) @ ROW_DEL # render rows" using Cons.prems(2) by (simp add: row render_def)
  moreover have "ROW_DEL \<notin> set (k @ KEY_VAL_DEL # v)" using p by (auto simp: plain_row_def)
  ultimately have "split_at ROW_DEL (input_str c) = Some (k @ KEY_VAL_DEL # v, render rows)" by (metis split_at_first)
  then have "parse_rows opts c dbc = parse_rows opts ((set_row row c)\<lparr>input_str := render rows\<rparr>) dbc"
    by (subst parse_rows.simps) (simp add: FindKeyValPair_plain[OF p] SetSuccessWithInfo_def row del: set_row_frame(3))
  also have "\<dots> = (True, SQL_SUCCESS, fold set_row rows ((set_row row c)\<lparr>input_str := []\<rparr>), dbc)"
    by (subst Cons.IH) (use Cons.prems(1) plain_row_set_row in \<open>auto simp: plain_row_def\<close>)
  finally show ?case by simp
qed

text \<open>The options that were set have keys in lower case and a value.\<close>

definition options_set :: "connect \<Rightarrow> bool" where
  "options_set c \<longleftrightarrow> (\<forall>key. map_of (seen_config_options c) key = Some True \<longrightarrow> lower key \<and> config_map c key \<noteq> None)"

lemma options_set_mk: "options_set (mk_Connect opts s)"
proof -
  have "map_of (fold (\<lambda>k. map_assign k False) ks m) key \<noteq> Some True" if "map_of m key \<noteq> Some True" for ks m key
    using that by (induction ks arbitrary: m) simp_all
  then show ?thesis by (simp add: options_set_def mk_Connect_def)
qed

lemma lower_meaning: "lower (fst (meaning row))"
  by (simp add: meaning_def)

lemma options_set_row: "options_set c \<Longrightarrow> options_set (set_row row c)"
  using lower_meaning[of row] by (auto simp: options_set_def set_row_def set_option_def lower_def)

lemma GetOption_set_row:
  assumes "options_set c"
  shows "GetOptionFromConfigMap key d (set_row row c) =
    (if key = fst (meaning row) then snd (meaning row) else GetOptionFromConfigMap key d c)"
  using assms lower_meaning[of row]
  by (auto simp: GetOptionFromConfigMap_def set_row_def set_option_def options_set_def lower_def)

lemma GetOption_rows:
  "options_set c \<Longrightarrow> GetOptionFromConfigMap key d (fold set_row rows c) =
     (case map_of (rev (map meaning rows)) key of None \<Rightarrow> GetOptionFromConfigMap key d c | Some v \<Rightarrow> v)"
proof (induction rows arbitrary: c)
  case (Cons row rows)
  have "map_of (rev (map meaning (row # rows))) = map_of [meaning row] ++ map_of (rev (map meaning rows))" by simp
  then show ?case
    using Cons.IH[OF options_set_row[OF Cons.prems]] GetOption_set_row[OF Cons.prems]
    by (cases "meaning row") (auto simp: map_add_def split: option.splits)
qed simp

text \<open>The connection attempt behind a well-formed string.\<close>

lemma ParseInputStr_render:
  assumes "rows \<noteq> []" "\<forall>row \<in> set rows. plain_row (mk_Connect opts []) row"
  shows "ParseInputStr opts (mk_Connect opts (render rows)) dbc = (SQL_SUCCESS, fold set_row rows (mk_Connect opts []),
    dbc\<lparr>dbc_dsn := GetOptionFromConfigMap ''dsn'' [] (fold set_row rows (mk_Connect opts []))\<rparr>)"
proof -
  let ?c = "mk_Connect opts (render rows)"
  have start: "?c\<lparr>input_str := []\<rparr> = mk_Connect opts []" "input_str ?c = render rows" "\<not> success_with_info ?c"
    "\<not> success_with_info (mk_Connect opts [])"
    by (simp_all add: mk_Connect_def)
  have "plain_row ?c row" if "row \<in> set rows" for row
    using assms(2) that by (auto simp: plain_row_def mk_Connect_def)
  then have "parse_rows opts ?c dbc = (True, SQL_SUCCESS, fold set_row rows (mk_Connect opts []), dbc)"
    using start(2) by (subst parse_rows_render) (simp_all add: start(1))
  moreover have "render rows \<noteq> []" using assms(1) by (cases rows) (auto simp: render_def split: prod.splits)
  ultimately show ?thesis using start by (simp add: ParseInputStr_def)
qed

lemma GetOption_mk: "GetOptionFromConfigMap key d (mk_Connect opts s) = d"
  using options_set_mk[of opts s] by (auto simp: GetOptionFromConfigMap_def options_set_def mk_Connect_def split: option.splits)

lemma GetOption_parsed:
  "GetOptionFromConfigMap key d (fold set_row rows (mk_Connect opts [])) =
     (case map_of (rev (map meaning rows)) key of None \<Rightarrow> d | Some v \<Rightarrow> v)"
  by (simp add: GetOption_rows options_set_mk GetOption_mk cong: option.case_cong)

lemma config_map_parsed: "config_map (fold set_row rows (mk_Connect opts [])) = map_of (rev (map meaning rows))"
proof -
  have "config_map (fold set_row rows c) = config_map c ++ map_of (rev (map meaning rows))" for c
  proof (induction rows arbitrary: c)
    case (Cons row rows)
    have "config_map (set_row row c) = config_map c ++ map_of [meaning row]"
      using lower_meaning[of row] by (cases "meaning row") (simp add: set_row_def set_option_def lower_def)
    moreover have "map_of (rev (map meaning (row # rows))) = map_of [meaning row] ++ map_of (rev (map meaning rows))" by simp
    ultimately show ?case by (simp only: fold_simps Cons.IH map_add_assoc)
  qed simp
  then show ?thesis by (simp add: mk_Connect_def)
qed

section \<open>Every string is read by its rows\<close>

text \<open>
  The rows of a string: what is between the delimiters, and what is behind the last one when there is
  something.
\<close>

fun rows_of :: "string \<Rightarrow> string list" where
  "rows_of [] = []" |
  "rows_of (c # s) =
     (if c = ROW_DEL then [] # rows_of s
      else case rows_of s of [] \<Rightarrow> [[c]] | row # rows \<Rightarrow> (c # row) # rows)"

text \<open>What a row is, by its key without regard to case and white space.\<close>

datatype row_kind = Malformed | Ignored | Unknown string | Session_File | Setting string string

definition known_keys :: "connect_options \<Rightarrow> string set" where
  "known_keys opts = set (option_names opts) \<union> {''database'', ''dsn'', SQL_FILE_OPTION, SQL_FILE_SHA256_OPTION}"

definition kind_of_row :: "connect_options \<Rightarrow> string \<Rightarrow> row_kind" where
  "kind_of_row opts row =
     (let key = TrimString (StringUtil_Lower (takeWhile (\<lambda>c. c \<noteq> KEY_VAL_DEL) row)) in
      if KEY_VAL_DEL \<notin> set row then Malformed
      else if key \<in> set IGNORE_KEYS then Ignored
      else if key \<notin> known_keys opts then Unknown key
      else if key = SQL_FILE_OPTION \<or> key = SQL_FILE_SHA256_OPTION then Session_File
      else Setting key (TrimString (tl (dropWhile (\<lambda>c. c \<noteq> KEY_VAL_DEL) row))))"

definition accepted :: "connect_options \<Rightarrow> string \<Rightarrow> bool" where
  "accepted opts row \<longleftrightarrow> kind_of_row opts row \<noteq> Malformed \<and> kind_of_row opts row \<noteq> Session_File"

definition unknown :: "connect_options \<Rightarrow> string \<Rightarrow> bool" where
  "unknown opts row \<longleftrightarrow> (\<exists>key. kind_of_row opts row = Unknown key)"

text \<open>The options that the rows set, in their order.\<close>

fun settings :: "connect_options \<Rightarrow> string list \<Rightarrow> (string \<times> string) list" where
  "settings opts [] = []" |
  "settings opts (row # rows) =
     (case kind_of_row opts row of Setting k v \<Rightarrow> (k, v) # settings opts rows | _ \<Rightarrow> settings opts rows)"

text \<open>The record a row leaves in the diagnostics of the connection.\<close>

definition report :: "connect_options \<Rightarrow> string \<Rightarrow> ('d, 't) OdbcHandleDbc \<Rightarrow> ('d, 't) OdbcHandleDbc" where
  "report opts row dbc =
     (case kind_of_row opts row of
        Malformed \<Rightarrow> snd (dbc_error SQL_ERROR ''SQLDriverConnect'' ''Invalid connection string'' ST_HY000 [] dbc)
      | Unknown key \<Rightarrow> snd (dbc_error SQL_SUCCESS_WITH_INFO ''SQLDriverConnect''
          (''Invalid keyword: '' @ [CHR 0x27] @ key @ [CHR 0x27] @ ''. '' @ candidates_message opts (option_names opts) key)
          ST_01S09 [] dbc)
      | Session_File \<Rightarrow> snd (dbc_error SQL_ERROR ''SQLDriverConnect''
          (''Options '' @ [CHR 0x27] @ SQL_FILE_OPTION @ [CHR 0x27] @ '' and '' @ [CHR 0x27] @
           SQL_FILE_SHA256_OPTION @ [CHR 0x27] @
           '' can only be specified in DSN configuration in a file or registry.'') ST_01S09 [] dbc)
      | _ \<Rightarrow> dbc)"

definition apply_row :: "connect_options \<Rightarrow> string \<Rightarrow> connect \<Rightarrow> connect" where
  "apply_row opts row c =
     (case kind_of_row opts row of
        Setting k v \<Rightarrow> set_option k v c
      | Unknown _ \<Rightarrow> c\<lparr>success_with_info := True\<rparr>
      | _ \<Rightarrow> c)"

text \<open>The keys that can be set stay those of the construction.\<close>

definition keys_ok :: "connect_options \<Rightarrow> connect \<Rightarrow> bool" where
  "keys_ok opts c \<longleftrightarrow> dom (map_of (seen_config_options c)) = known_keys opts"

lemma keys_ok_mk: "keys_ok opts (mk_Connect opts s)"
proof -
  have "dom (map_of (fold (\<lambda>k. map_assign k False) ks m)) = set ks \<union> dom (map_of m)" for ks m
    by (induction ks arbitrary: m) (auto simp del: dom_map_of_conv_image_fst)
  from this[of "option_names opts @ [''database'', ''dsn'', SQL_FILE_OPTION, SQL_FILE_SHA256_OPTION]" "[]"]
  show ?thesis by (auto simp: keys_ok_def mk_Connect_def known_keys_def)
qed

lemma keys_ok_apply: "keys_ok opts c \<Longrightarrow> keys_ok opts ((apply_row opts row c)\<lparr>input_str := x\<rparr>)"
  by (auto simp: keys_ok_def apply_row_def set_option_def kind_of_row_def Let_def split: row_kind.splits if_split_asm)

lemma split_at_rows:
  "split_at ROW_DEL s = Some (row, rest) \<Longrightarrow> rows_of s = row # rows_of rest"
  "split_at ROW_DEL s = None \<Longrightarrow> s \<noteq> [] \<Longrightarrow> rows_of s = [s]"
proof -
  show "split_at ROW_DEL s = Some (row, rest) \<Longrightarrow> rows_of s = row # rows_of rest"
    by (induction s arbitrary: row) (auto simp: split_at_def split: if_split_asm list.splits)
  have "ROW_DEL \<notin> set s \<Longrightarrow> rows_of s = (if s = [] then [] else [s])" by (induction s) auto
  then show "split_at ROW_DEL s = None \<Longrightarrow> s \<noteq> [] \<Longrightarrow> rows_of s = [s]"
    by (simp add: split_at_def split: if_split_asm)
qed

lemma apply_row_input [simp]: "(apply_row opts row c)\<lparr>input_str := x\<rparr> = apply_row opts row (c\<lparr>input_str := x\<rparr>)"
  by (simp add: apply_row_def set_option_def split: row_kind.split)

lemma fold_apply_input: "(fold (apply_row opts) rows c)\<lparr>input_str := x\<rparr> = fold (apply_row opts) rows (c\<lparr>input_str := x\<rparr>)"
  by (induction rows arbitrary: c) simp_all

lemma FindKeyValPair_row:
  assumes "keys_ok opts c" "FindKeyValPair opts row c dbc = (ret, c', dbc')"
  shows "dbc' = report opts row dbc \<and>
    (if accepted opts row then SetSuccessWithInfo ret c' = (True, apply_row opts row c)
     else ret = SQL_ERROR \<and> SetSuccessWithInfo ret c' = (False, c))"
proof -
  have m: "map_of (seen_config_options c) key = None \<longleftrightarrow> key \<notin> known_keys opts" for key
    using assms(1) by (auto simp: keys_ok_def)
  have f: "FindKeyValPair opts row c dbc =
     (case kind_of_row opts row of
        Malformed \<Rightarrow> (SQL_ERROR, c, report opts row dbc)
      | Session_File \<Rightarrow> (SQL_ERROR, c, report opts row dbc)
      | Unknown _ \<Rightarrow> (SQL_SUCCESS_WITH_INFO, c, report opts row dbc)
      | Ignored \<Rightarrow> (SQL_SUCCESS, c, dbc)
      | Setting k v \<Rightarrow> (SQL_SUCCESS, set_option k v c, dbc))"
    by (simp add: FindKeyValPair_def kind_of_row_def FindMatchingKey_def split_at_def report_def Let_def m
        dbc_error_def split_beta)
  show ?thesis
    using assms(2) unfolding f
    by (auto simp: accepted_def apply_row_def report_def SetSuccessWithInfo_def split: row_kind.splits)
qed

lemma parse_rows_rows:
  assumes "keys_ok opts c" "rows = rows_of (input_str c)" "good = takeWhile (accepted opts) rows"
  shows "\<exists>ret x. parse_rows opts c dbc =
    (good = rows, ret, (fold (apply_row opts) good c)\<lparr>input_str := x\<rparr>,
     fold (report opts) (take (Suc (length good)) rows) dbc) \<and> (good \<noteq> rows \<longrightarrow> ret = SQL_ERROR)"
  using assms
proof (induction rows arbitrary: c dbc good)
  case Nil
  then have "input_str c = []" by (cases "input_str c") (auto split: if_split_asm list.splits)
  then have "parse_rows opts c dbc = (True, SQL_SUCCESS, c, dbc)" by (subst parse_rows.simps) (simp add: split_at_def)
  then show ?case using Nil by (auto intro!: exI[of _ "input_str c"])
next
  case (Cons row rows)
  obtain ret c1 dbc1 where f: "FindKeyValPair opts row c dbc = (ret, c1, dbc1)" by (cases "FindKeyValPair opts row c dbc")
  note row = FindKeyValPair_row[OF Cons.prems(1) f]
  show ?case
  proof (cases "accepted opts row")
    case False
    then have p: "SetSuccessWithInfo ret c1 = (False, c)" "ret = SQL_ERROR" "good = []"
      using row Cons.prems(3) by auto
    have "parse_rows opts c dbc = (False, ret, c, dbc1)"
    proof (cases "split_at ROW_DEL (input_str c)")
      case None
      then have "input_str c \<noteq> []" "input_str c = row" using Cons.prems(2) split_at_rows(2)[OF None] by fastforce+
      then show ?thesis using None f p by (subst parse_rows.simps) simp
    next
      case (Some y)
      then obtain rest where "split_at ROW_DEL (input_str c) = Some (row, rest)"
        using Cons.prems(2) split_at_rows(1) by (cases y) fastforce
      then show ?thesis using f p by (subst parse_rows.simps) simp
    qed
    then show ?thesis using p row by (auto intro!: exI[of _ "input_str c"])
  next
    case True
    then have p: "SetSuccessWithInfo ret c1 = (True, apply_row opts row c)" using row by simp
    let ?good = "takeWhile (accepted opts) rows"
    have good: "good = row # ?good" using True Cons.prems(3) by simp
    obtain rest where rest: "parse_rows opts c dbc = parse_rows opts (apply_row opts row (c\<lparr>input_str := rest\<rparr>)) dbc1 \<or>
        rows = [] \<and> parse_rows opts c dbc = (True, ret, apply_row opts row c, dbc1)" "rows = rows_of rest"
    proof (cases "split_at ROW_DEL (input_str c)")
      case None
      then have n: "input_str c \<noteq> []" "input_str c = row" "rows = []" using Cons.prems(2) split_at_rows(2)[OF None] by fastforce+
      then have "parse_rows opts c dbc = (True, ret, apply_row opts row c, dbc1)"
        using None f p by (subst parse_rows.simps) simp
      then show ?thesis using that[of "[]"] n by simp
    next
      case (Some y)
      then obtain rest where s: "split_at ROW_DEL (input_str c) = Some (row, rest)" "rows = rows_of rest"
        using Cons.prems(2) split_at_rows(1) by (cases y) fastforce
      then have "parse_rows opts c dbc = parse_rows opts (apply_row opts row (c\<lparr>input_str := rest\<rparr>)) dbc1"
        using f p by (subst parse_rows.simps) simp
      then show ?thesis using that[of rest] s(2) by blast
    qed
    from rest(1) show ?thesis
    proof
      assume e: "parse_rows opts c dbc = parse_rows opts (apply_row opts row (c\<lparr>input_str := rest\<rparr>)) dbc1"
      have inp: "input_str (apply_row opts row (c\<lparr>input_str := rest\<rparr>)) = rest"
        by (simp add: apply_row_def set_option_def split: row_kind.split)
      have "keys_ok opts (apply_row opts row (c\<lparr>input_str := rest\<rparr>))" using keys_ok_apply[OF Cons.prems(1), where row = row and x = rest] by simp
      from Cons.IH[OF this _ refl, of dbc1] inp rest(2) obtain r x where
        "parse_rows opts c dbc = (?good = rows, r, (fold (apply_row opts) ?good (apply_row opts row (c\<lparr>input_str := rest\<rparr>)))\<lparr>input_str := x\<rparr>,
          fold (report opts) (take (Suc (length ?good)) rows) dbc1)" "?good \<noteq> rows \<longrightarrow> r = SQL_ERROR" using e by auto
      then show ?thesis using good row by (intro exI[of _ r] exI[of _ x]) (simp add: fold_apply_input)
    next
      assume "rows = [] \<and> parse_rows opts c dbc = (True, ret, apply_row opts row c, dbc1)"
      then show ?thesis using good row by (auto intro!: exI[of _ "input_str c"])
    qed
  qed
qed

lemma GetOption_set_option:
  assumes "options_set c" "lower k"
  shows "GetOptionFromConfigMap key d (set_option k v c) = (if key = k then v else GetOptionFromConfigMap key d c)"
    "options_set (set_option k v c)"
  using assms by (auto simp: GetOptionFromConfigMap_def set_option_def options_set_def lower_def)

lemma GetOption_applied:
  "options_set c \<Longrightarrow> GetOptionFromConfigMap key d (fold (apply_row opts) rows c) =
     (case map_of (rev (settings opts rows)) key of None \<Rightarrow> GetOptionFromConfigMap key d c | Some v \<Rightarrow> v)"
proof (induction rows arbitrary: c)
  case (Cons row rows)
  have low: "kind_of_row opts row = Setting k v \<Longrightarrow> lower k" for k v
    by (auto simp: kind_of_row_def Let_def split: if_split_asm)
  have flag: "options_set (c\<lparr>success_with_info := True\<rparr>)"
    "GetOptionFromConfigMap key d (c\<lparr>success_with_info := True\<rparr>) = GetOptionFromConfigMap key d c"
    using Cons.prems by (simp_all add: options_set_def GetOptionFromConfigMap_def)
  show ?case
    using Cons.IH GetOption_set_option[OF Cons.prems low] flag Cons.prems
    by (cases "kind_of_row opts row") (auto simp: apply_row_def map_add_def split: option.splits)
qed simp

lemma applied_flag:
  "success_with_info (fold (apply_row opts) rows c) \<longleftrightarrow> success_with_info c \<or> (\<exists>row \<in> set rows. unknown opts row)"
  by (induction rows arbitrary: c) (auto simp: apply_row_def unknown_def set_option_def split: row_kind.splits)

text \<open>
  C12. How every connection string is read, by its rows, the last one with or without a delimiter. The
  rows before the first one that is refused count: those of a setting set it, the last value of a key
  counts and every other option keeps its default; those with a key for another program are skipped;
  and those with an unknown key leave a warning, which the return code tells. A row without a value or
  with one of the two options for a session file is refused with an error.
\<close>

theorem connection_string_parsed:
  "\<exists>c. ParseInputStr opts (mk_Connect opts s) dbc =
     (if takeWhile (accepted opts) (rows_of s) = rows_of s
      then if \<exists>row \<in> set (rows_of s). unknown opts row then SQL_SUCCESS_WITH_INFO else SQL_SUCCESS
      else SQL_ERROR, c,
      (fold (report opts) (take (Suc (length (takeWhile (accepted opts) (rows_of s)))) (rows_of s)) dbc)\<lparr>
        dbc_dsn := (if takeWhile (accepted opts) (rows_of s) = rows_of s \<and> s \<noteq> []
                    then GetOptionFromConfigMap ''dsn'' [] c else dbc_dsn dbc)\<rparr>) \<and>
   (\<forall>key d. GetOptionFromConfigMap key d c =
      (case map_of (rev (settings opts (takeWhile (accepted opts) (rows_of s)))) key of None \<Rightarrow> d | Some v \<Rightarrow> v))"
proof -
  let ?rows = "rows_of s" and ?c = "mk_Connect opts s"
  let ?good = "takeWhile (accepted opts) ?rows"
  have start: "input_str ?c = s" "\<not> success_with_info ?c" by (simp_all add: mk_Connect_def)
  obtain ret x where p: "parse_rows opts ?c dbc =
      (?good = ?rows, ret, (fold (apply_row opts) ?good ?c)\<lparr>input_str := x\<rparr>,
       fold (report opts) (take (Suc (length ?good)) ?rows) dbc)" "?good \<noteq> ?rows \<longrightarrow> ret = SQL_ERROR"
    using parse_rows_rows[OF keys_ok_mk refl refl, of opts s dbc] start by auto
  have dsn: "dbc_dsn (fold (report opts) rows dbc) = dbc_dsn dbc" for rows
    by (induction rows arbitrary: dbc) (auto simp: report_def dbc_error_def split_beta split: row_kind.split)
  have keep: "d\<lparr>dbc_dsn := dbc_dsn d\<rparr> = d" for d :: "('a, 'b) OdbcHandleDbc" by simp
  have opt: "GetOptionFromConfigMap key d (cc\<lparr>input_str := x\<rparr>) = GetOptionFromConfigMap key d cc" for key d cc
    by (simp add: GetOptionFromConfigMap_def)
  have get: "GetOptionFromConfigMap key d (fold (apply_row opts) ?good ?c) =
      (case map_of (rev (settings opts ?good)) key of None \<Rightarrow> d | Some v \<Rightarrow> v)" for key d
    using GetOption_applied[OF options_set_mk, of key d opts ?good opts s]
    by (simp add: GetOption_mk split: option.split)
  show ?thesis
  proof (cases "s = []")
    case True
    then show ?thesis using GetOption_mk[of _ _ opts "[]"] start by (auto simp: ParseInputStr_def mk_Connect_def)
  next
    case False
    let ?c' = "(fold (apply_row opts) ?good ?c)\<lparr>input_str := x\<rparr>"
    have flag: "success_with_info ?c' \<longleftrightarrow> (\<exists>row \<in> set ?good. unknown opts row)" using applied_flag start by simp
    show ?thesis
    proof (cases "?good = ?rows")
      case True
      have t: "take (Suc (length ?good)) ?rows = ?rows" by (metis True le_Suc_eq order_refl take_all)
      have "parse_rows opts ?c dbc = (True, ret, ?c', fold (report opts) ?rows dbc)"
        using p(1) unfolding t by (simp only: True simp_thms)
      then have "ParseInputStr opts ?c dbc = (if success_with_info ?c' then SQL_SUCCESS_WITH_INFO else SQL_SUCCESS, ?c',
          (fold (report opts) ?rows dbc)\<lparr>dbc_dsn := GetOptionFromConfigMap ''dsn'' [] ?c'\<rparr>)"
        using False by (simp add: ParseInputStr_def start)
      then show ?thesis unfolding t flag unfolding True using False
        by (intro exI[of _ "(fold (apply_row opts) ?rows ?c)\<lparr>input_str := x\<rparr>"] conjI allI)
          (simp_all add: opt get[unfolded True])
    next
      case f: False
      then show ?thesis using p False dsn keep by (intro exI[of _ ?c'] conjI allI) (simp_all add: ParseInputStr_def start opt get)
    qed
  qed
qed

text \<open>A string as the tests of the driver write it: no delimiter at the end and a key of the driver manager.\<close>

lemma sample_connection_string:
  "rows_of ''DRIVER=DuckDB; Database =a.db'' = [''DRIVER=DuckDB'', '' Database =a.db'']"
  "kind_of_row opts ''DRIVER=DuckDB'' = Ignored"
  "kind_of_row opts '' Database =a.db'' = Setting ''database'' ''a.db''"
proof -
  have k: "TrimString (StringUtil_Lower ''DRIVER'') = ''driver''" "TrimString (StringUtil_Lower '' Database '') = ''database''"
    "TrimString ''a.db'' = ''a.db''" by code_simp+
  show "rows_of ''DRIVER=DuckDB; Database =a.db'' = [''DRIVER=DuckDB'', '' Database =a.db'']" by simp
  show "kind_of_row opts ''DRIVER=DuckDB'' = Ignored" by (simp add: kind_of_row_def k IGNORE_KEYS_def)
  show "kind_of_row opts '' Database =a.db'' = Setting ''database'' ''a.db''"
    by (simp add: kind_of_row_def k IGNORE_KEYS_def known_keys_def SQL_FILE_OPTION_def SQL_FILE_SHA256_OPTION_def)
qed

theorem connection_string_parsed_witness:
  "\<forall>dbc :: (unit, unit) OdbcHandleDbc. \<exists>c.
    ParseInputStr \<lparr>option_names = [], candidates_message = \<lambda>_ _. [], private_profile = None\<rparr>
      (mk_Connect \<lparr>option_names = [], candidates_message = \<lambda>_ _. [], private_profile = None\<rparr>
         ''DRIVER=DuckDB; Database =a.db'') dbc = (SQL_SUCCESS, c, dbc\<lparr>dbc_dsn := []\<rparr>) \<and>
    GetOptionFromConfigMap ''database'' [] c = ''a.db''"
proof
  fix dbc :: "(unit, unit) OdbcHandleDbc"
  let ?o = "\<lparr>option_names = [], candidates_message = \<lambda>_ _. [], private_profile = None\<rparr>"
  have a: "accepted ?o ''DRIVER=DuckDB'' \<and> accepted ?o '' Database =a.db''"
    "\<not> unknown ?o ''DRIVER=DuckDB'' \<and> \<not> unknown ?o '' Database =a.db''"
    "report ?o ''DRIVER=DuckDB'' d = d \<and> report ?o '' Database =a.db'' d = d" for d :: "(unit, unit) OdbcHandleDbc"
    by (simp_all add: accepted_def unknown_def report_def sample_connection_string(2,3)
      del: rows_of.simps)
  show "\<exists>c. ParseInputStr ?o (mk_Connect ?o ''DRIVER=DuckDB; Database =a.db'') dbc = (SQL_SUCCESS, c, dbc\<lparr>dbc_dsn := []\<rparr>) \<and>
    GetOptionFromConfigMap ''database'' [] c = ''a.db''"
  proof -
    obtain c where "ParseInputStr ?o (mk_Connect ?o ''DRIVER=DuckDB; Database =a.db'') dbc =
        (SQL_SUCCESS, c, dbc\<lparr>dbc_dsn := GetOptionFromConfigMap ''dsn'' [] c\<rparr>)"
      and "\<forall>key d. GetOptionFromConfigMap key d c = (case [''database'' \<mapsto> ''a.db''] key of None \<Rightarrow> d | Some v \<Rightarrow> v)"
      using connection_string_parsed[of ?o "''DRIVER=DuckDB; Database =a.db''" dbc]
      unfolding sample_connection_string(1) by (auto simp: a sample_connection_string(2,3))
    then show ?thesis by (intro exI[of _ c]) simp
  qed
qed

end
