(* ===== verification/Picosha2.thy ===== *)
theory Picosha2
  imports Odbc_Prelude
begin

text \<open>
  \<^verbatim>\<open>third_party/picosha2.h\<close>, with which the driver checks the script it runs at connection, on the 64
  bit words \<^verbatim>\<open>unsigned long\<close> has here. The reference is SHA-256 as FIPS 180-4 defines it, on words of 32
  bits; the theory shows that the hasher computes it, in whatever pieces the message is given.
\<close>

section \<open>The functions on words\<close>

type_synonym word_t = "64 word"
type_synonym byte_t = "8 word"

definition mask_32bit :: "word_t \<Rightarrow> word_t" where
  "mask_32bit x = x AND 0xffffffff"

definition round_constants :: "int list" where
  "round_constants = concat [
    [0x428a2f98, 0x71374491, 0xb5c0fbcf, 0xe9b5dba5, 0x3956c25b, 0x59f111f1],
    [0x923f82a4, 0xab1c5ed5, 0xd807aa98, 0x12835b01, 0x243185be, 0x550c7dc3],
    [0x72be5d74, 0x80deb1fe, 0x9bdc06a7, 0xc19bf174, 0xe49b69c1, 0xefbe4786],
    [0x0fc19dc6, 0x240ca1cc, 0x2de92c6f, 0x4a7484aa, 0x5cb0a9dc, 0x76f988da],
    [0x983e5152, 0xa831c66d, 0xb00327c8, 0xbf597fc7, 0xc6e00bf3, 0xd5a79147],
    [0x06ca6351, 0x14292967, 0x27b70a85, 0x2e1b2138, 0x4d2c6dfc, 0x53380d13],
    [0x650a7354, 0x766a0abb, 0x81c2c92e, 0x92722c85, 0xa2bfe8a1, 0xa81a664b],
    [0xc24b8b70, 0xc76c51a3, 0xd192e819, 0xd6990624, 0xf40e3585, 0x106aa070],
    [0x19a4c116, 0x1e376c08, 0x2748774c, 0x34b0bcb5, 0x391c0cb3, 0x4ed8aa4a],
    [0x5b9cca4f, 0x682e6ff3, 0x748f82ee, 0x78a5636f, 0x84c87814, 0x8cc70208],
    [0x90befffa, 0xa4506ceb, 0xbef9a3f7, 0xc67178f2]]"

definition add_constant :: "word_t list" where
  "add_constant = map word_of_int round_constants"

text \<open>Eight words: a message digest, or the working variables a to h.\<close>

type_synonym 'w eight = "'w \<times> 'w \<times> 'w \<times> 'w \<times> 'w \<times> 'w \<times> 'w \<times> 'w"

fun map_eight :: "('a \<Rightarrow> 'b) \<Rightarrow> 'a eight \<Rightarrow> 'b eight" where
  "map_eight f' (a, b, c, d, e, f, g, h) = (f' a, f' b, f' c, f' d, f' e, f' f, f' g, f' h)"

fun list_eight :: "'a eight \<Rightarrow> 'a list" where
  "list_eight (a, b, c, d, e, f, g, h) = [a, b, c, d, e, f, g, h]"

definition initial_message_digest :: "word_t eight" where
  "initial_message_digest = (0x6a09e667, 0xbb67ae85, 0x3c6ef372, 0xa54ff53a, 0x510e527f, 0x9b05688c,
     0x1f83d9ab, 0x5be0cd19)"

definition ch :: "word_t \<Rightarrow> word_t \<Rightarrow> word_t \<Rightarrow> word_t" where
  "ch x y z = (x AND y) XOR (NOT x AND z)"

definition maj :: "word_t \<Rightarrow> word_t \<Rightarrow> word_t \<Rightarrow> word_t" where
  "maj x y z = (x AND y) XOR (x AND z) XOR (y AND z)"

definition rotr :: "word_t \<Rightarrow> nat \<Rightarrow> word_t" where
  "rotr x n = mask_32bit (drop_bit n x OR push_bit (32 - n) x)"

definition bsig0 :: "word_t \<Rightarrow> word_t" where
  "bsig0 x = rotr x 2 XOR rotr x 13 XOR rotr x 22"

definition bsig1 :: "word_t \<Rightarrow> word_t" where
  "bsig1 x = rotr x 6 XOR rotr x 11 XOR rotr x 25"

definition shr :: "word_t \<Rightarrow> nat \<Rightarrow> word_t" where
  "shr x n = drop_bit n x"

definition ssig0 :: "word_t \<Rightarrow> word_t" where
  "ssig0 x = rotr x 7 XOR rotr x 18 XOR shr x 3"

definition ssig1 :: "word_t \<Rightarrow> word_t" where
  "ssig1 x = rotr x 17 XOR rotr x 19 XOR shr x 10"

section \<open>One block\<close>

text \<open>The array \<^verbatim>\<open>w\<close>: the two loops that fill it.\<close>

definition load_word :: "byte_t list \<Rightarrow> nat \<Rightarrow> word_t" where
  "load_word block i =
     push_bit 24 (ucast (block ! (i * 4))) OR push_bit 16 (ucast (block ! (i * 4 + 1))) OR
     push_bit 8 (ucast (block ! (i * 4 + 2))) OR ucast (block ! (i * 4 + 3))"

definition message_schedule :: "byte_t list \<Rightarrow> word_t list" where
  "message_schedule block =
     fold (\<lambda>i w. w[i := mask_32bit (ssig1 (w ! (i - 2)) + w ! (i - 7) + ssig0 (w ! (i - 15)) + w ! (i - 16))])
       [16..<64] (map (load_word block) [0..<16] @ replicate 48 0)"

fun hash_round :: "word_t \<Rightarrow> word_t eight \<Rightarrow> word_t eight" where
  "hash_round kw (a, b, c, d, e, f, g, h) =
     (let temp1 = h + bsig1 e + ch e f g + kw;
          temp2 = bsig0 a + maj a b c
      in (mask_32bit (temp1 + temp2), a, b, c, mask_32bit (d + temp1), e, f, g))"

fun add_eight :: "word_t eight \<Rightarrow> word_t eight \<Rightarrow> word_t eight" where
  "add_eight (a, b, c, d, e, f, g, h) (a', b', c', d', e', f', g', h') =
     (a + a', b + b', c + c', d + d', e + e', f + f', g + g', h + h')"

definition hash256_block :: "word_t eight \<Rightarrow> byte_t list \<Rightarrow> word_t eight" where
  "hash256_block message_digest block =
     (let w = message_schedule block;
          vars = fold (\<lambda>i. hash_round (add_constant ! i + w ! i)) [0..<64] message_digest
      in map_eight mask_32bit (add_eight message_digest vars))"

section \<open>The hasher\<close>

record hash256_one_by_one =
  buffer :: "byte_t list"
  data_length_digits :: "word_t list"
  digest_h :: "word_t eight"

definition hasher_init :: hash256_one_by_one where
  "hasher_init = \<lparr>buffer = [], data_length_digits = replicate 4 0, digest_h = initial_message_digest\<rparr>"

text \<open>The loop stops at the first digit without a carry.\<close>

fun add_carry :: "word_t \<Rightarrow> word_t list \<Rightarrow> word_t list" where
  "add_carry carry [] = []" |
  "add_carry carry (d # ds) =
     (let d = d + carry in
      if d \<ge> 65536 then (d AND 65535) # add_carry (drop_bit 16 d) ds else d # ds)"

definition add_to_data_length :: "word_t \<Rightarrow> hash256_one_by_one \<Rightarrow> hash256_one_by_one" where
  "add_to_data_length n hasher =
     (let digs = data_length_digits hasher in
      hasher\<lparr>data_length_digits := add_carry 0 (digs[0 := digs ! 0 + n])\<rparr>)"

function process_blocks :: "nat \<Rightarrow> byte_t list \<Rightarrow> word_t eight \<Rightarrow> nat \<times> word_t eight" where
  "process_blocks i buf md =
     (if i + 64 \<le> length buf then process_blocks (i + 64) buf (hash256_block md (take 64 (drop i buf)))
      else (i, md))"
  by pat_completeness auto
termination
  by (relation "measure (\<lambda>(i, buf, md). length buf - i)") auto

declare process_blocks.simps [simp del]

definition hasher_process :: "byte_t list \<Rightarrow> hash256_one_by_one \<Rightarrow> hash256_one_by_one" where
  "hasher_process bytes hasher =
     (let hasher = add_to_data_length (of_nat (length bytes)) hasher;
          buf = buffer hasher @ bytes;
          (i, md) = process_blocks 0 buf (digest_h hasher)
      in hasher\<lparr>buffer := drop i buf, digest_h := md\<rparr>)"

text \<open>The byte length times eight, in digits of 16 bits, the most significant one first.\<close>

fun shift_digits :: "word_t \<Rightarrow> word_t list \<Rightarrow> word_t list" where
  "shift_digits carry [] = []" |
  "shift_digits carry (d # ds) =
     ((push_bit 3 d OR carry) AND 65535) # shift_digits (drop_bit 13 d AND 65535) ds"

definition data_bit_length :: "word_t list \<Rightarrow> byte_t list" where
  "data_bit_length digs =
     concat (map (\<lambda>d. [ucast (drop_bit 8 d), ucast d]) (rev (shift_digits 0 digs)))"

definition fill :: "nat \<Rightarrow> nat \<Rightarrow> byte_t \<Rightarrow> byte_t list \<Rightarrow> byte_t list" where
  "fill i j b bytes = take i bytes @ replicate (j - i) b @ drop j bytes"

definition hasher_finish :: "hash256_one_by_one \<Rightarrow> hash256_one_by_one" where
  "hasher_finish hasher =
     (let temp = replicate 64 0;
          remains = length (buffer hasher);
          temp = buffer hasher @ drop remains temp;
          remains = (if remains \<ge> 64 then 63 else remains);
          temp = temp[remains := 0x80];
          (temp, md) =
            (if remains > 55 then
               let temp = fill (remains + 1) 64 0 temp in
               (fill 0 (64 - 4) 0 temp, hash256_block (digest_h hasher) temp)
             else (fill (remains + 1) (64 - 4) 0 temp, digest_h hasher));
          temp = take 56 temp @ data_bit_length (data_length_digits hasher)
      in hasher\<lparr>digest_h := hash256_block md temp\<rparr>)"

definition get_hash_bytes :: "hash256_one_by_one \<Rightarrow> byte_t list" where
  "get_hash_bytes hasher =
     concat (map (\<lambda>v. map (\<lambda>i. ucast (drop_bit (24 - 8 * i) v)) [0..<4]) (list_eight (digest_h hasher)))"

definition hash256 :: "byte_t list \<Rightarrow> byte_t list" where
  "hash256 bytes = get_hash_bytes (hasher_finish (hasher_process bytes hasher_init))"

text \<open>Two lower case digits per byte.\<close>

definition hex_digit :: "nat \<Rightarrow> char" where
  "hex_digit n = ''0123456789abcdef'' ! n"

definition bytes_to_hex_string :: "byte_t list \<Rightarrow> string" where
  "bytes_to_hex_string bytes = concat (map (\<lambda>b. [hex_digit (unat b div 16), hex_digit (unat b mod 16)]) bytes)"

section \<open>SHA-256\<close>

text \<open>FIPS 180-4, sections 4.1.2, 5.1.1, 5.3.3 and 6.2.2.\<close>

definition Ch :: "32 word \<Rightarrow> 32 word \<Rightarrow> 32 word \<Rightarrow> 32 word" where
  "Ch x y z = (x AND y) XOR (NOT x AND z)"

definition Maj :: "32 word \<Rightarrow> 32 word \<Rightarrow> 32 word \<Rightarrow> 32 word" where
  "Maj x y z = (x AND y) XOR (x AND z) XOR (y AND z)"

definition Sigma0 :: "32 word \<Rightarrow> 32 word" where
  "Sigma0 x = word_rotr 2 x XOR word_rotr 13 x XOR word_rotr 22 x"

definition Sigma1 :: "32 word \<Rightarrow> 32 word" where
  "Sigma1 x = word_rotr 6 x XOR word_rotr 11 x XOR word_rotr 25 x"

definition sigma0 :: "32 word \<Rightarrow> 32 word" where
  "sigma0 x = word_rotr 7 x XOR word_rotr 18 x XOR drop_bit 3 x"

definition sigma1 :: "32 word \<Rightarrow> 32 word" where
  "sigma1 x = word_rotr 17 x XOR word_rotr 19 x XOR drop_bit 10 x"

definition be_word :: "byte_t list \<Rightarrow> 32 word" where
  "be_word bs = word_of_int (foldl (\<lambda>v b. 256 * v + uint b) 0 bs)"

fun W :: "byte_t list \<Rightarrow> nat \<Rightarrow> 32 word" where
  "W block t =
     (if t < 16 then be_word (take 4 (drop (4 * t) block))
      else sigma1 (W block (t - 2)) + W block (t - 7) + sigma0 (W block (t - 15)) + W block (t - 16))"

fun sha_round :: "32 word \<Rightarrow> 32 word \<Rightarrow> 32 word eight \<Rightarrow> 32 word eight" where
  "sha_round K Wt (a, b, c, d, e, f, g, h) =
     (let T1 = h + Sigma1 e + Ch e f g + K + Wt; T2 = Sigma0 a + Maj a b c
      in (T1 + T2, a, b, c, d + T1, e, f, g))"

fun sum_eight :: "32 word eight \<Rightarrow> 32 word eight \<Rightarrow> 32 word eight" where
  "sum_eight (a, b, c, d, e, f, g, h) (a', b', c', d', e', f', g', h') =
     (a + a', b + b', c + c', d + d', e + e', f + f', g + g', h + h')"

definition compress :: "32 word eight \<Rightarrow> byte_t list \<Rightarrow> 32 word eight" where
  "compress H block =
     sum_eight H (fold (\<lambda>t. sha_round (word_of_int (round_constants ! t)) (W block t)) [0..<64] H)"

definition H0 :: "32 word eight" where
  "H0 = (0x6a09e667, 0xbb67ae85, 0x3c6ef372, 0xa54ff53a, 0x510e527f, 0x9b05688c, 0x1f83d9ab, 0x5be0cd19)"

definition be_bytes :: "nat \<Rightarrow> nat \<Rightarrow> byte_t list" where
  "be_bytes n v = map (\<lambda>i. of_nat (v div 256 ^ (n - 1 - i))) [0..<n]"

definition pad :: "byte_t list \<Rightarrow> byte_t list" where
  "pad M = M @ [0x80] @ replicate ((119 - length M mod 64) mod 64) 0 @ be_bytes 8 (8 * length M)"

fun blocks_of :: "nat \<Rightarrow> byte_t list \<Rightarrow> byte_t list list" where
  "blocks_of 0 M = []" |
  "blocks_of (Suc n) M = take 64 M # blocks_of n (drop 64 M)"

definition sha256 :: "byte_t list \<Rightarrow> byte_t list" where
  "sha256 M =
     concat (map (\<lambda>v. be_bytes 4 (unat v))
       (list_eight (foldl compress H0 (blocks_of (length (pad M) div 64) (pad M)))))"

section \<open>Words of 32 bits in words of 64\<close>

definition up :: "32 word \<Rightarrow> word_t" where
  "up x = ucast x"

definition down :: "word_t \<Rightarrow> 32 word" where
  "down x = ucast x"

lemma down_up [simp]: "down (up x) = x"
  by (rule bit_word_eqI) (simp add: down_def up_def bit_simps)

lemma mask_32bit_up: "mask_32bit x = up (down x)"
proof -
  have "mask_32bit x = x AND mask 32" by (simp add: mask_32bit_def mask_eq_exp_minus_1)
  also have "\<dots> = up (down x)" by (rule bit_word_eqI) (auto simp: down_def up_def bit_simps)
  finally show ?thesis .
qed

lemma down_add [simp]: "down (x + y) = down x + down y"
proof -
  have "down (x + y) = word_of_int (uint (x + y))" by (simp add: down_def)
  also have "\<dots> = word_of_int (uint x + uint y)"
    unfolding word_of_int_eq_iff uint_word_ariths take_bit_eq_mod by (simp add: mod_mod_cancel)
  finally show ?thesis by (simp add: down_def)
qed

lemma up_bits [simp]:
  "up x XOR up y = up (x XOR y)" "up x AND up y = up (x AND y)" "NOT (up x) AND up y = up (NOT x AND y)"
  "drop_bit n (up x) = up (drop_bit n x)"
  by (rule bit_word_eqI; simp add: up_def bit_simps; auto dest: bit_imp_le_length)+

lemma rotr_up [simp]: "0 < n \<Longrightarrow> n < 32 \<Longrightarrow> rotr (up x) n = up (word_rotr n x)"
proof -
  assume n: "0 < n" "n < 32"
  have "bit (rotr (up x) n) i = bit (up (word_rotr n x)) i" if i: "i < 64" for i
  proof (cases "i < 32")
    case True
    then show ?thesis using n
      by (cases "i + n < 32")
        (auto simp: rotr_def mask_32bit_up down_def up_def bit_simps bit_word_rotr_iff mod_if add.commute[of n i] dest: bit_imp_le_length
          intro!: arg_cong[of _ _ "bit x"])
  next
    case False
    then show ?thesis by (auto simp: rotr_def mask_32bit_up up_def bit_simps dest: bit_imp_le_length)
  qed
  then show ?thesis by (intro bit_word_eqI) simp
qed

lemma functions_up [simp]:
  "ch (up x) (up y) (up z) = up (Ch x y z)" "maj (up x) (up y) (up z) = up (Maj x y z)"
  "bsig0 (up x) = up (Sigma0 x)" "bsig1 (up x) = up (Sigma1 x)"
  "ssig0 (up x) = up (sigma0 x)" "ssig1 (up x) = up (sigma1 x)"
  by (simp_all add: ch_def Ch_def maj_def Maj_def bsig0_def Sigma0_def bsig1_def Sigma1_def
      ssig0_def sigma0_def ssig1_def sigma1_def shr_def)

lemma initial_up: "initial_message_digest = map_eight up H0"
  by (simp add: initial_message_digest_def H0_def up_def)

section \<open>One block is compressed as SHA-256 does\<close>

declare upt_rec_numeral [simp del] W.simps [simp del]

lemma eight_exhaust: obtains a b c d e f g h where "r = (a, b, c, d, e, f, g, h)"
  using that by (metis surj_pair)

lemma hash_round_up: "hash_round kw (map_eight up r) = map_eight up (sha_round K Wt r)" if "down kw = K + Wt"
  by (cases r rule: eight_exhaust) (simp add: mask_32bit_up Let_def that ac_simps)

lemma add_eight_up: "map_eight mask_32bit (add_eight (map_eight up r) (map_eight up r')) = map_eight up (sum_eight r r')"
  by (cases r rule: eight_exhaust; cases r' rule: eight_exhaust) (simp add: mask_32bit_up)

lemma down_of_int: "down (word_of_int k) = word_of_int k"
proof -
  have "down (word_of_int k) = word_of_int (uint (word_of_int k :: word_t))" by (simp add: down_def)
  also have "\<dots> = word_of_int k"
    unfolding word_of_int_eq_iff uint_word_of_int take_bit_eq_mod by (simp add: mod_mod_cancel)
  finally show ?thesis .
qed

lemma up_of_int:
  assumes "0 \<le> k" "k < 2 ^ 32"
  shows "up (word_of_int k) = word_of_int k"
proof -
  have "up (word_of_int k) = word_of_int (uint (word_of_int k :: 32 word))" by (simp add: up_def)
  then show ?thesis using assms by (simp add: uint_word_of_int)
qed

lemma or_is_plus:
  fixes a b :: word_t
  assumes "a AND b = 0"
  shows "a OR b = a + b"
  using word_plus_and_or[of a b] assms by simp

lemma uint_byte: "0 \<le> uint (b :: byte_t)" "uint b < 256"
  using uint_lt2p[of b] by simp_all

lemma load_word_up:
  assumes "i < 16" "length block = 64"
  shows "load_word block i = up (W block i)"
proof -
  let ?b = "\<lambda>k. block ! (4 * i + k)"
  have t: "take 4 (drop (4 * i) block) = [?b 0, ?b 1, ?b 2, ?b 3]"
    by (rule nth_equalityI) (use assms in \<open>auto simp: nth_Cons' less_Suc_eq numeral_eq_Suc\<close>)
  let ?v = "uint (?b 0) * 2 ^ 24 + uint (?b 1) * 2 ^ 16 + uint (?b 2) * 2 ^ 8 + uint (?b 3)"
  have v: "0 \<le> ?v" "?v < 2 ^ 32"
    using uint_byte[of "?b 0"] uint_byte[of "?b 1"] uint_byte[of "?b 2"] uint_byte[of "?b 3"] by simp_all
  have "W block i = word_of_int ?v"
    using assms by (subst W.simps) (simp add: be_word_def t)
  moreover have "load_word block i = word_of_int ?v"
  proof -
    have "load_word block i = ((push_bit 24 (ucast (?b 0)) + push_bit 16 (ucast (?b 1))) + push_bit 8 (ucast (?b 2))) + ucast (?b 3)"
      unfolding load_word_def
      by (subst or_is_plus[symmetric], rule bit_word_eqI, auto simp: bit_simps dest: bit_imp_le_length)+
         (simp add: mult.commute or.assoc)
    then show ?thesis by (simp add: push_bit_eq_mult)
  qed
  ultimately show ?thesis using up_of_int[OF v] by simp
qed

lemma message_schedule_up:
  assumes "length block = 64" "t < 64"
  shows "message_schedule block ! t = up (W block t)"
proof -
  let ?step = "\<lambda>i w. w[i := mask_32bit (ssig1 (w ! (i - 2)) + w ! (i - 7) + ssig0 (w ! (i - 15)) + w ! (i - 16))]"
  let ?start = "map (load_word block) [0..<16] @ replicate 48 0"
  have "k \<le> 64 \<longrightarrow> length (fold ?step [16..<k] ?start) = 64 \<and>
      (\<forall>t < k. fold ?step [16..<k] ?start ! t = up (W block t))" if "16 \<le> k" for k
    using that
  proof (induction k rule: nat_induct_at_least)
    case base
    then show ?case using assms(1) by (auto simp: nth_append load_word_up)
  next
    case (Suc k)
    let ?w = "fold ?step [16..<k] ?start"
    have e: "fold ?step [16..<Suc k] ?start = ?step k ?w" using Suc.hyps by simp
    show ?case
    proof
      assume k: "Suc k \<le> 64"
      then have IH: "length ?w = 64" "\<And>t. t < k \<Longrightarrow> ?w ! t = up (W block t)" using Suc.IH by auto
      have "W block k = sigma1 (W block (k - 2)) + W block (k - 7) + sigma0 (W block (k - 15)) + W block (k - 16)"
        using Suc.hyps by (subst W.simps) (simp)
      then have new: "?step k ?w ! k = up (W block k)"
        using IH k Suc.hyps by (simp add: mask_32bit_up)
      show "length (fold ?step [16..<Suc k] ?start) = 64 \<and>
          (\<forall>t < Suc k. fold ?step [16..<Suc k] ?start ! t = up (W block t))"
        unfolding e using IH k new by (auto simp: less_Suc_eq nth_list_update)
    qed
  qed
  from this[of 64] show ?thesis using assms(2) by (simp add: message_schedule_def)
qed

lemma hash256_block_up:
  assumes "length block = 64"
  shows "hash256_block (map_eight up H) block = map_eight up (compress H block)"
proof -
  have "fold (\<lambda>i. hash_round (add_constant ! i + message_schedule block ! i)) [0..<n] (map_eight up H) =
      map_eight up (fold (\<lambda>t. sha_round (word_of_int (round_constants ! t)) (W block t)) [0..<n] H)" if "n \<le> 64" for n
    using that
  proof (induction n)
    case (Suc n)
    have l: "length round_constants = 64" by (simp add: round_constants_def)
    have "down (add_constant ! n + message_schedule block ! n) = word_of_int (round_constants ! n) + W block n"
      using Suc.prems l assms by (simp add: add_constant_def message_schedule_up down_of_int)
    then show ?case using Suc by (simp add: hash_round_up)
  qed simp
  from this[of 64] show ?thesis
    by (simp add: hash256_block_def compress_def Let_def add_eight_up)
qed

section \<open>The length of the message\<close>

text \<open>The least \<^verbatim>\<open>k\<close> digits of 16 bits of a number.\<close>

fun word_digits :: "nat \<Rightarrow> nat \<Rightarrow> word_t list" where
  "word_digits 0 v = []" |
  "word_digits (Suc k) v = of_nat (v mod 65536) # word_digits k (v div 65536)"

lemma length_word_digits [simp]: "length (word_digits k v) = k"
  by (induction k arbitrary: v) simp_all

lemma word_ge_nat: "(of_nat n :: word_t) \<ge> 65536 \<longleftrightarrow> n \<ge> 65536" if "n < 2 ^ 64"
  using that by (simp add: word_le_nat_alt unat_of_nat)

lemma word_low_nat: "(of_nat n :: word_t) AND 65535 = of_nat (n mod 65536)" if "n < 2 ^ 64"
proof -
  have "(of_nat n :: word_t) AND 65535 = of_nat n AND mask 16" by (simp add: mask_eq_exp_minus_1)
  also have "\<dots> = take_bit 16 (of_nat n)" by (simp add: take_bit_eq_mask)
  also have "\<dots> = of_nat (take_bit 16 n)" by (simp add: take_bit_of_nat)
  finally show ?thesis by (simp add: take_bit_eq_mod)
qed

lemma word_shift_nat: "drop_bit k (of_nat n :: word_t) = of_nat (n div 2 ^ k)" if "n < 2 ^ 64"
proof -
  have "unat (of_nat n :: word_t) = n" using that by (simp add: unat_of_nat)
  then have "unat (drop_bit k (of_nat n :: word_t)) = drop_bit k n" by (simp only: unat_drop_bit_eq)
  then have "unat (drop_bit k (of_nat n :: word_t)) = n div 2 ^ k" unfolding drop_bit_eq_div[of k n] .
  moreover have "n div 2 ^ k < 2 ^ 64" using that by (meson div_le_dividend order_le_less_trans)
  then have "unat (of_nat (n div 2 ^ k) :: word_t) = n div 2 ^ k" by (simp add: unat_of_nat)
  ultimately show ?thesis by (simp only: word_unat_eq_iff)
qed

lemma add_carry_digits:
  "v + c < 65536 ^ k \<Longrightarrow> v + c < 2 ^ 64 \<Longrightarrow> add_carry (of_nat c) (word_digits k v) = word_digits k (v + c)"
proof (induction k arbitrary: v c)
  case (Suc k)
  let ?d = "v mod 65536 + c"
  have d: "?d < 2 ^ 64" using Suc.prems(2) by (meson add_le_mono1 mod_less_eq_dividend order_le_less_trans)
  have sum: "(of_nat (v mod 65536) :: word_t) + of_nat c = of_nat ?d" by simp
  have v: "v + c = ?d + 65536 * (v div 65536)" using mult_div_mod_eq[of 65536 v] by linarith
  have quo: "(v + c) div 65536 = v div 65536 + ?d div 65536"
    by (subst v, rule div_mult_self2) simp
  have rem: "(v + c) mod 65536 = ?d mod 65536" by (subst v, rule mod_mult_self2)
  show ?case
  proof (cases "?d \<ge> 65536")
    case True
    have "(v + c) div 65536 < 65536 ^ k" using Suc.prems(1) by (simp add: div_less_iff_less_mult mult.commute)
    moreover have "(v + c) div 65536 < 2 ^ 64" using Suc.prems(2) by (meson div_le_dividend order_le_less_trans)
    ultimately have "add_carry (of_nat (?d div 65536)) (word_digits k (v div 65536)) = word_digits k ((v + c) div 65536)"
      unfolding quo by (intro Suc.IH)
    moreover have "drop_bit 16 (of_nat ?d :: word_t) = of_nat (?d div 65536)" using word_shift_nat[OF d, of 16] by simp
    moreover have "(of_nat ?d :: word_t) AND 65535 = of_nat ((v + c) mod 65536)"
      using word_low_nat[OF d] rem by simp
    ultimately show ?thesis
      using True word_ge_nat[OF d] unfolding word_digits.simps add_carry.simps Let_def sum by simp
  next
    case False
    then have "(v + c) mod 65536 = ?d" "(v + c) div 65536 = v div 65536" using quo rem by simp_all
    then show ?thesis using False word_ge_nat[OF d] unfolding word_digits.simps add_carry.simps Let_def sum by simp
  qed
qed simp

lemma shift_digits_digits:
  "c < 8 \<Longrightarrow> shift_digits (of_nat c) (word_digits k v) = word_digits k (8 * v + c)"
proof (induction k arbitrary: v c)
  case (Suc k)
  let ?d = "v mod 65536"
  have d: "?d < 65536" by simp
  have v: "8 * v + c = 8 * ?d + c + 65536 * (8 * (v div 65536))" using mult_div_mod_eq[of 65536 v] by linarith
  have "(8 * ?d + c) div 65536 = ?d div 8192"
    using div_mult2_eq[of "8 * ?d + c" 8 8192] Suc.prems by simp
  moreover have "(8 * v + c) div 65536 = 8 * (v div 65536) + (8 * ?d + c) div 65536"
    by (subst v, rule div_mult_self2) simp
  ultimately have quo: "(8 * v + c) div 65536 = 8 * (v div 65536) + ?d div 8192" by simp
  have rem: "(8 * v + c) mod 65536 = (8 * ?d + c) mod 65536" by (subst v, rule mod_mult_self2)
  have "push_bit 3 (of_nat ?d :: word_t) OR of_nat c = of_nat (8 * ?d + c)"
  proof -
    have "take_bit 3 c = c" using Suc.prems by (simp add: take_bit_eq_mod)
    moreover have "(of_nat c :: word_t) AND mask 3 = of_nat (take_bit 3 c)"
      by (simp only: take_bit_eq_mask[symmetric] take_bit_of_nat)
    ultimately have "(of_nat c :: word_t) = of_nat c AND mask 3" by simp
    moreover have "push_bit 3 (of_nat ?d :: word_t) AND (of_nat c AND mask 3) = 0"
      by (rule bit_word_eqI) (auto simp: bit_simps)
    ultimately have "push_bit 3 (of_nat ?d :: word_t) AND of_nat c = 0" by (simp only:)
    then show ?thesis by (simp add: or_is_plus push_bit_eq_mult mult.commute)
  qed
  moreover have "8 * ?d + c < 2 ^ 64" using Suc.prems d by simp
  ultimately have "(push_bit 3 (of_nat ?d :: word_t) OR of_nat c) AND 65535 = of_nat ((8 * v + c) mod 65536)"
    using word_low_nat[of "8 * ?d + c"] rem by simp
  moreover have "drop_bit 13 (of_nat ?d :: word_t) AND 65535 = of_nat (?d div 8192)"
    using word_shift_nat[of ?d 13] word_low_nat[of "?d div 8192"] d by simp
  moreover have "shift_digits (of_nat (?d div 8192)) (word_digits k (v div 65536)) = word_digits k ((8 * v + c) div 65536)"
    unfolding quo by (rule Suc.IH) simp
  ultimately show ?case by simp
qed simp

text \<open>A digit in two bytes, and a word in four.\<close>

lemma byte_of_digit:
  assumes "d < 2 ^ 64"
  shows "(ucast (of_nat d :: word_t) :: byte_t) = of_nat d"
proof -
  have "unat (of_nat d :: word_t) = d" using assms by (simp add: unat_of_nat)
  moreover have "(of_nat (unat (of_nat d :: word_t)) :: byte_t) = ucast (of_nat d :: word_t)" by (rule of_nat_unat)
  ultimately show ?thesis by simp
qed

lemma of_nat_byte_mod: "(of_nat (n mod 65536) :: byte_t) = of_nat n"
  by (rule word_unat_eq_iff[THEN iffD2]) (simp add: unat_of_nat mod_mod_cancel)

lemma of_nat_byte_div_mod: "(of_nat (n mod 65536 div 256) :: byte_t) = of_nat (n div 256)"
proof -
  have "n mod 65536 div 256 = n div 256 mod 256" using mod_mult2_eq[of n 256 256] by simp
  then show ?thesis by (intro word_unat_eq_iff[THEN iffD2]) (simp add: unat_of_nat)
qed

lemma digit_bytes:
  "(ucast (drop_bit 8 (of_nat (v mod 65536) :: word_t)) :: byte_t) = of_nat (v div 256)"
  "(ucast (of_nat (v mod 65536) :: word_t) :: byte_t) = of_nat v"
proof -
  have d: "v mod 65536 < 2 ^ 64" by (rule order_less_trans[of _ 65536]) simp_all
  show "(ucast (of_nat (v mod 65536) :: word_t) :: byte_t) = of_nat v"
    using byte_of_digit[OF d] by (simp only: of_nat_byte_mod)
  have "v mod 65536 div 256 < 2 ^ 64" using d by (meson div_le_dividend order_le_less_trans)
  then show "(ucast (drop_bit 8 (of_nat (v mod 65536) :: word_t)) :: byte_t) = of_nat (v div 256)"
    using word_shift_nat[OF d, of 8] by (simp add: byte_of_digit of_nat_byte_div_mod del: drop_bit_of_nat)
qed

lemma be_bytes_Suc: "be_bytes (Suc n) v = be_bytes n (v div 256) @ [of_nat v]"
proof -
  have "v div 256 ^ (n - i) = v div 256 div 256 ^ (n - Suc i)" if "i < n" for i
  proof -
    have "n - i = Suc (n - Suc i)" using that by simp
    then show ?thesis by (simp only: power_Suc div_mult2_eq)
  qed
  then show ?thesis by (simp add: be_bytes_def)
qed

lemma length_be_bytes [simp]: "length (be_bytes n v) = n"
  by (simp add: be_bytes_def)

lemma digits_to_bytes:
  "concat (map (\<lambda>d. [ucast (drop_bit 8 d), ucast d]) (rev (word_digits k v))) = be_bytes (2 * k) v"
proof (induction k arbitrary: v)
  case (Suc k)
  have "2 * Suc k = Suc (Suc (2 * k))" by simp
  moreover have "v div 256 div 256 = v div 65536" using div_mult2_eq[of v 256 256] by simp
  ultimately show ?case using Suc[of "v div 65536"] by (simp add: be_bytes_Suc digit_bytes)
qed (simp add: be_bytes_def)

lemma data_bit_length_digits: "data_bit_length (word_digits 4 n) = be_bytes 8 (8 * n)"
  using shift_digits_digits[of 0 4 n] digits_to_bytes[of 4 "8 * n"] by (simp add: data_bit_length_def)

section \<open>The hasher computes SHA-256\<close>

lemma blocks_of_length [simp]: "length (blocks_of n M) = n"
  by (induction n arbitrary: M) simp_all

lemma blocks_of_add: "blocks_of (a + b) M = blocks_of a M @ blocks_of b (drop (64 * a) M)"
  by (induction a arbitrary: M) (simp_all add: add.commute)

lemma blocks_of_append: "64 * n \<le> length M \<Longrightarrow> blocks_of n (M @ X) = blocks_of n M"
  by (induction n arbitrary: M) simp_all

lemma blocks_of_each: "64 * n \<le> length M \<Longrightarrow> list_all (\<lambda>b. length b = 64) (blocks_of n M)"
  by (induction n arbitrary: M) (simp_all add: min_def)

lemma process_blocks_foldl:
  "process_blocks i buf md =
     (i + 64 * ((length buf - i) div 64), foldl hash256_block md (blocks_of ((length buf - i) div 64) (drop i buf)))"
proof (induction i buf md rule: process_blocks.induct)
  case (1 i buf md)
  show ?case
  proof (cases "i + 64 \<le> length buf")
    case True
    have "(length buf - i) div 64 = Suc ((length buf - (i + 64)) div 64)"
      using True le_div_geq[of 64 "length buf - i"] by simp
    then show ?thesis using True 1 by (subst process_blocks.simps) (simp add: add.commute)
  next
    case False
    then show ?thesis by (subst process_blocks.simps) simp
  qed
qed

lemma foldl_hash256_up:
  "list_all (\<lambda>b. length b = 64) bs \<Longrightarrow> foldl hash256_block (map_eight up H) bs = map_eight up (foldl compress H bs)"
  by (induction bs arbitrary: H) (simp_all add: hash256_block_up)

text \<open>The hasher after the bytes \<^verbatim>\<open>M\<close>: the whole blocks are compressed, the rest is in the buffer.\<close>

definition hasher_of :: "byte_t list \<Rightarrow> hash256_one_by_one" where
  "hasher_of M = \<lparr>buffer = drop (64 * (length M div 64)) M, data_length_digits = word_digits 4 (length M),
     digest_h = map_eight up (foldl compress H0 (blocks_of (length M div 64) M))\<rparr>"

lemma word_digits_0: "word_digits k 0 = replicate k 0"
  by (induction k) simp_all

lemma hasher_of_Nil: "hasher_init = hasher_of []"
  by (simp add: hasher_init_def hasher_of_def initial_up word_digits_0)

lemma add_carry_first:
  "add_carry 0 ((word_digits (Suc k) v)[0 := word_digits (Suc k) v ! 0 + c]) = add_carry c (word_digits (Suc k) v)"
  by simp

lemma add_to_data_length_of:
  assumes "length M + n < 2 ^ 64"
  shows "add_to_data_length (of_nat n) (hasher_of M) = (hasher_of M)\<lparr>data_length_digits := word_digits 4 (length M + n)\<rparr>"
  using add_carry_digits[of "length M" n 4] add_carry_first[of 3 "length M" "of_nat n"] assms
  by (simp add: add_to_data_length_def hasher_of_def del: word_digits.simps)

lemma hasher_process_of:
  assumes "length M + length X < 2 ^ 64"
  shows "hasher_process X (hasher_of M) = hasher_of (M @ X)"
proof -
  let ?q = "length M div 64" and ?k = "length (M @ X) div 64"
  let ?buf = "drop (64 * ?q) (M @ X)"
  have buf: "drop (64 * ?q) M @ X = ?buf" by simp
  have le: "?q \<le> ?k" by (simp add: div_le_mono)
  have minus: "(a - 64 * q) div 64 = a div 64 - q" if "64 * q \<le> a" for a q :: nat
    using le_Suc_ex[OF that] by auto
  have "64 * ?q \<le> length (M @ X)" by simp
  from minus[OF this] have n: "length ?buf div 64 = ?k - ?q" by simp
  have "blocks_of ?k (M @ X) = blocks_of ?q M @ blocks_of (?k - ?q) ?buf"
    using blocks_of_add[of ?q "?k - ?q" "M @ X"] le blocks_of_append[of ?q M X] by simp
  moreover have "list_all (\<lambda>b. length b = 64) (blocks_of (?k - ?q) ?buf)"
    by (rule blocks_of_each) (simp add: n[symmetric])
  moreover have "drop (64 * (?k - ?q)) ?buf = drop (64 * ?k) (M @ X)"
    using le by (simp only: drop_drop) (simp add: diff_mult_distrib2)
  moreover note add_to_data_length_of[OF assms]
  ultimately show ?thesis
    unfolding hasher_process_def process_blocks_foldl Let_def
    by (simp add: hasher_of_def buf n[simplified] foldl_hash256_up del: drop_append)
qed

lemma hasher_process_chunks:
  "length M + length (concat chunks) < 2 ^ 64 \<Longrightarrow> fold hasher_process chunks (hasher_of M) = hasher_of (M @ concat chunks)"
proof (induction chunks arbitrary: M)
  case (Cons X chunks)
  then show ?case using Cons.IH[of "M @ X"] by (simp add: hasher_process_of)
qed simp

lemma take_first_set [simp]: "0 < n \<Longrightarrow> take (Suc 0) ((replicate n x)[0 := y]) = [y]"
  by (cases n) simp_all

lemma blocks_one: "length b = 64 \<Longrightarrow> blocks_of (Suc 0) b = [b]"
  by simp

lemma blocks_two: "length b = 64 \<Longrightarrow> length c = 64 \<Longrightarrow> blocks_of (Suc (Suc 0)) (b @ c) = [b, c]"
  by simp

lemma hasher_finish_of:
  assumes "length M < 2 ^ 61"
  shows "digest_h (hasher_finish (hasher_of M)) =
    map_eight up (foldl compress H0 (blocks_of (length (pad M) div 64) (pad M)))"
proof -
  let ?q = "length M div 64" and ?r = "length M mod 64" and ?B = "drop (64 * (length M div 64)) M"
  let ?len = "be_bytes 8 (8 * length M)"
  have r: "length ?B = ?r" by (simp add: minus_mult_div_eq_mod)
  have r64: "?r < 64" by simp
  then have not_full: "(64 \<le> ?r) = False" by (simp only: not_le[symmetric] not_not simp_thms)
  have M: "M = take (64 * ?q) M @ ?B" by simp
  have ql: "64 * ?q = length (take (64 * ?q) M)" by simp
  have q: "blocks_of (?q + n) (M @ X) = blocks_of ?q M @ blocks_of n (?B @ X)" for n X
    using blocks_of_add[of ?q n "M @ X"] blocks_of_append[of ?q M X] by simp
  show ?thesis
  proof (cases "?r \<le> 55")
    case True
    have k: "(119 - ?r) mod 64 = 55 - ?r" using True by (subst le_mod_geq) simp_all
    let ?b = "?B @ [0x80] @ replicate (55 - ?r) 0 @ ?len"
    have pad: "pad M = M @ [0x80] @ replicate (55 - ?r) 0 @ ?len" by (simp add: pad_def k)
    have n: "length (pad M) div 64 = ?q + Suc 0"
    proof -
      have "length (pad M) = length M + 1 + (55 - ?r) + 8" unfolding pad by simp
      then have "length (pad M) = 64 * ?q + 64" using True mult_div_mod_eq[of 64 "length M"] by arith
      then show ?thesis by simp
    qed
    have "blocks_of (length (pad M) div 64) (pad M) = blocks_of ?q M @ [?b]"
      unfolding n unfolding pad q by (subst blocks_one) (use r True in simp_all)
    moreover have "digest_h (hasher_finish (hasher_of M)) =
        hash256_block (map_eight up (foldl compress H0 (blocks_of ?q M))) ?b"
      using True r r64
      by (simp add: hasher_finish_def hasher_of_def Let_def fill_def data_bit_length_digits list_update_append not_full)
    moreover have "length ?b = 64" using r True by simp
    ultimately show ?thesis by (simp add: hash256_block_up)
  next
    case False
    have k: "(119 - ?r) mod 64 = (63 - ?r) + 56" using False r64 by simp
    let ?b = "?B @ [0x80] @ replicate (63 - ?r) 0" and ?c = "replicate 56 0 @ ?len"
    have pad: "pad M = M @ [0x80] @ replicate (63 - ?r) 0 @ ?c"
      unfolding pad_def k replicate_add by simp
    have n: "length (pad M) div 64 = ?q + Suc (Suc 0)"
    proof -
      have "length (pad M) = length M + 1 + (63 - ?r) + 64" unfolding pad by simp
      then have "length (pad M) = 64 * ?q + 128" using False r64 mult_div_mod_eq[of 64 "length M"] by arith
      then show ?thesis by simp
    qed
    have l: "length ?b = 64" "length ?c = 64" using r False r64 by simp_all
    have split: "?B @ [0x80] @ replicate (63 - ?r) 0 @ ?c = ?b @ ?c" by simp
    have "blocks_of (length (pad M) div 64) (pad M) = blocks_of ?q M @ [?b, ?c]"
      unfolding n unfolding pad q split blocks_two[OF l] ..
    moreover have "digest_h (hasher_finish (hasher_of M)) =
        hash256_block (hash256_block (map_eight up (foldl compress H0 (blocks_of ?q M))) ?b) ?c"
      using False r r64
      by (simp add: hasher_finish_def hasher_of_def Let_def fill_def data_bit_length_digits list_update_append not_full)
    ultimately show ?thesis using l by (simp add: hash256_block_up)
  qed
qed

lemma word_to_bytes: "map (\<lambda>i. ucast (up (drop_bit (24 - 8 * i) v))) [0..<4] = be_bytes 4 (unat v)"
proof -
  have "(ucast (up w) :: byte_t) = of_nat (unat w)" for w
  proof -
    have "(ucast (up w) :: byte_t) = ucast w" by (rule bit_word_eqI) (auto simp: up_def bit_simps)
    then show ?thesis by simp
  qed
  moreover have "unat (drop_bit k v) = unat v div 2 ^ k" for k
    by (simp only: unat_drop_bit_eq drop_bit_eq_div[of k "unat v"])
  moreover have "(2::nat) ^ (24 - 8 * i) = 256 ^ (3 - i)" for i
  proof -
    have "24 - 8 * i = 8 * (3 - i)" by simp
    then show ?thesis by (simp only: power_mult) simp
  qed
  ultimately show ?thesis by (simp add: be_bytes_def del: of_nat_unat)
qed

lemma get_hash_bytes_up: "digest_h hasher = map_eight up r \<Longrightarrow>
  get_hash_bytes hasher = concat (map (\<lambda>v. be_bytes 4 (unat v)) (list_eight r))"
  by (cases r rule: eight_exhaust) (simp add: get_hash_bytes_def word_to_bytes)

text \<open>
  The specification shares one thing with the code, the table of the rounds. Its values are what
  FIPS 180-4 says they are, the first 32 bits of the fractional parts of the cube roots of the first
  64 primes: with the integer part in front, each is a cube root of the prime times \<^verbatim>\<open>2 ^ 96\<close>, rounded
  down.
\<close>

definition first_primes :: "int list" where
  "first_primes = [2, 3, 5, 7, 11, 13, 17, 19, 23, 29, 31, 37, 41, 43, 47, 53,
     59, 61, 67, 71, 73, 79, 83, 89, 97, 101, 103, 107, 109, 113, 127, 131,
     137, 139, 149, 151, 157, 163, 167, 173, 179, 181, 191, 193, 197, 199, 211, 223,
     227, 229, 233, 239, 241, 251, 257, 263, 269, 271, 277, 281, 283, 293, 307, 311]"

definition cube_root_bits :: "int \<Rightarrow> int \<Rightarrow> bool" where
  "cube_root_bits p k \<longleftrightarrow>
     (let c = 2 ^ 32 * int (length (filter (\<lambda>i. i ^ 3 \<le> p) [1, 2, 3, 4, 5, 6])) + k
      in 0 \<le> k \<and> k < 2 ^ 32 \<and> c ^ 3 \<le> p * 2 ^ 96 \<and> p * 2 ^ 96 < (c + 1) ^ 3)"

lemma round_constants_cube_roots: "list_all2 cube_root_bits first_primes round_constants"
  by (simp add: first_primes_def round_constants_def cube_root_bits_def Let_def)

text \<open>
  C9. However a message of less than \<^verbatim>\<open>2 ^ 61\<close> bytes is cut into pieces, the hasher computes its
  SHA-256: the arithmetic on masked 64 bit words, the length in four digits with carries and the two
  cases of the padding implement the definition of FIPS 180-4.
\<close>

theorem hash256_is_sha256:
  assumes "length (concat chunks) < 2 ^ 61"
  shows "get_hash_bytes (hasher_finish (fold hasher_process chunks hasher_init)) = sha256 (concat chunks)"
proof -
  have "length [] + length (concat chunks) < 2 ^ 64" using assms by simp
  from hasher_process_chunks[OF this]
  have "fold hasher_process chunks hasher_init = hasher_of (concat chunks)" by (simp add: hasher_of_Nil)
  then show ?thesis
    using get_hash_bytes_up[OF hasher_finish_of[OF assms]] by (simp add: sha256_def)
qed

theorem hash256_is_sha256_witness:
  "get_hash_bytes (hasher_finish (fold hasher_process [[0x64, 0x75], [], [0x63, 0x6b]] hasher_init)) =
    sha256 [0x64, 0x75, 0x63, 0x6b]"
  using hash256_is_sha256[of "[[0x64, 0x75], [], [0x63, 0x6b]]"] by simp

end
