(* ===== verification/Session_Init.thy ===== *)
theory Session_Init
  imports Connect Handle_World Picosha2 Execution_Refinement
begin

text \<open>
  \<^verbatim>\<open>src/odbc_driver/connect/session_init.cpp\<close> with the file access of \<^verbatim>\<open>file_io.cpp\<close>: the script that is
  run when a database is created and when a connection is opened. The script is executed through the
  functions of the interface, on a statement allocated for it.
\<close>

section \<open>Files\<close>

text \<open>
  The regular files of the file system by their path, and the text \<^verbatim>\<open>what()\<close> of a failed read. A message
  is the exception that is thrown.
\<close>

record file_system =
  fs_files :: "string \<Rightarrow> string option"
  fs_what :: string

definition FileExists :: "file_system \<Rightarrow> string \<Rightarrow> bool" where
  "FileExists fs path \<longleftrightarrow> fs_files fs path \<noteq> None"

definition FileSizeBytes :: "file_system \<Rightarrow> string \<Rightarrow> string + nat" where
  "FileSizeBytes fs path =
     (case fs_files fs path of None \<Rightarrow> Inl (''Cannot get file size, path: '' @ path) | Some s \<Rightarrow> Inr (length s))"

text \<open>A read that meets the end of the file before the size sets the fail bit, which throws.\<close>

definition FileReadToString :: "file_system \<Rightarrow> string \<Rightarrow> nat \<Rightarrow> string + string" where
  "FileReadToString fs path max_size_bytes =
     (case fs_files fs path of
        None \<Rightarrow> Inl (''File read error, path: '' @ path @ '', message: '' @ fs_what fs)
      | Some s \<Rightarrow>
          if length s < max_size_bytes then Inl (''File read error, path: '' @ path @ '', message: '' @ fs_what fs)
          else Inr (take max_size_bytes s))"

section \<open>The script\<close>

record SessionInitSQLFile =
  db_init_sql :: string
  conn_init_sql :: string
  orig_file_text :: string

definition SessionInitSQLFile_IsEmpty :: "SessionInitSQLFile \<Rightarrow> bool" where
  "SessionInitSQLFile_IsEmpty f \<longleftrightarrow> db_init_sql f = [] \<and> conn_init_sql f = [] \<and> orig_file_text f = []"

definition SQL_FILE_MAX_SIZE_BYTES :: nat where
  "SQL_FILE_MAX_SIZE_BYTES = 2 ^ 20"

definition CONN_INIT_MARKER :: string where
  "CONN_INIT_MARKER = [CHR ''/'', CHR 0x5C] @ ''*'' @ [CHR 0x5C] @ ''s*DUCKDB_CONNECTION_INIT_BELOW_MARKER'' @
     [CHR 0x5C] @ ''s*'' @ [CHR 0x5C] @ ''*/''"

text \<open>
  The expression \<^verbatim>\<open>CONN_INIT_MARKER\<close>: a comment that holds the word and white space. No white space can
  also start the word or the end of the comment, so the match is unique.
\<close>

definition match_marker :: "string \<Rightarrow> string option" where
  "match_marker s =
     Option.bind (skip ''/*'' s) (\<lambda>s.
     Option.bind (skip ''DUCKDB_CONNECTION_INIT_BELOW_MARKER'' (dropWhile IsSpace s)) (\<lambda>s.
     skip ''*/'' (dropWhile IsSpace s)))"

text \<open>What is before and behind the first match.\<close>

fun find_marker :: "string \<Rightarrow> (string \<times> string) option" where
  "find_marker [] = None" |
  "find_marker (c # s) =
     (case match_marker (c # s) of
        Some rest \<Rightarrow> Some ([], rest)
      | None \<Rightarrow> map_option (\<lambda>(a, b). (c # a, b)) (find_marker s))"

lemma match_marker_shorter: "match_marker s = Some r \<Longrightarrow> length r < length s"
proof -
  assume "match_marker s = Some r"
  then obtain s1 s2 where s: "skip ''/*'' s = Some s1"
    "skip ''DUCKDB_CONNECTION_INIT_BELOW_MARKER'' (dropWhile IsSpace s1) = Some s2"
    "skip ''*/'' (dropWhile IsSpace s2) = Some r"
    by (auto simp: match_marker_def bind_eq_Some_conv)
  have "length s1 < length s" using s(1) by (cases s) (auto simp: skip_def split: if_split_asm)
  moreover have "length s2 \<le> length s1" using skip_shorter[OF s(2)] length_dropWhile_le le_trans by blast
  moreover have "length r \<le> length s2" using skip_shorter[OF s(3)] length_dropWhile_le le_trans by blast
  ultimately show ?thesis by simp
qed

lemma find_marker_shorter: "find_marker s = Some (a, b) \<Longrightarrow> length b < length s"
  by (induction s arbitrary: a) (fastforce dest: match_marker_shorter split: option.splits)+

text \<open>
  The token iterator with the submatch \<^verbatim>\<open>-1\<close>: the text in front of every match, and the rest behind the
  last one if it is not empty; without a match it is the whole text.
\<close>

function split_rest :: "string \<Rightarrow> string list" where
  "split_rest s =
     (case find_marker s of
        None \<Rightarrow> if s = [] then [] else [s]
      | Some (a, rest) \<Rightarrow> a # split_rest rest)"
  by pat_completeness auto
termination
  by (relation "measure length") (auto dest: find_marker_shorter)

declare split_rest.simps [simp del]

definition SplitByMarker :: "string \<Rightarrow> string list" where
  "SplitByMarker str = (case find_marker str of None \<Rightarrow> [str] | Some (a, rest) \<Rightarrow> a # split_rest rest)"

text \<open>
  The digest is compared with the option as it was given, although the message shows it in lower case.
\<close>

definition ReadSQLFile :: "file_system \<Rightarrow> string \<Rightarrow> string \<Rightarrow> string + SessionInitSQLFile" where
  "ReadSQLFile fs session_init_sql_file session_init_sql_file_sha256 =
     (if session_init_sql_file = [] then Inr \<lparr>db_init_sql = [], conn_init_sql = [], orig_file_text = []\<rparr>
      else if \<not> FileExists fs session_init_sql_file then
        Inl (''Specified session init SQL file not found, path: '' @ session_init_sql_file)
      else bind_sum (FileSizeBytes fs session_init_sql_file) (\<lambda>file_size.
        if file_size > SQL_FILE_MAX_SIZE_BYTES then
          Inl (''Specified session init SQL file size: '' @ to_string (int file_size) @
               '' exceeds max allowed size: '' @ to_string (int SQL_FILE_MAX_SIZE_BYTES))
        else bind_sum (FileReadToString fs session_init_sql_file file_size) (\<lambda>text.
          let expected_sha256 = StringUtil_Lower session_init_sql_file_sha256;
              actual_sha256 = bytes_to_hex_string (hash256 (octets_of text))
          in if session_init_sql_file_sha256 \<noteq> [] \<and> actual_sha256 \<noteq> session_init_sql_file_sha256 then
               Inl (''Session init SQL file SHA-256 mismatch, expected: '' @ expected_sha256 @
                    '', actual: '' @ actual_sha256)
             else
               let parts = SplitByMarker text in
               if length parts > 2 then
                 Inl (''Connection init marker: '' @ [CHR 0x27] @ CONN_INIT_MARKER @ [CHR 0x27] @
                      '' can only be specified once'')
               else Inr \<lparr>db_init_sql = TrimString (parts ! 0),
                         conn_init_sql = (if length parts = 2 then TrimString (parts ! 1) else []),
                         orig_file_text = text\<rparr>)))"

section \<open>Running it\<close>

text \<open>The local variables of \<^verbatim>\<open>RunQueryWithStmt\<close> and the characters of the query.\<close>

record query_frame =
  fr_stmt :: addr
  fr_query :: addr
  fr_sqlstate :: addr
  fr_native :: addr
  fr_msg :: addr
  fr_len :: addr

text \<open>SQLExecDirect, SQLGetDiagRec and SQLFreeStmt on the handle of a statement.\<close>

definition exec_handle ::
  "('v, 'q, 'db) sql_engine \<Rightarrow> addr \<Rightarrow> addr \<Rightarrow> int \<Rightarrow> ('v, 'd, 't) driver \<Rightarrow> mem \<Rightarrow> 'db
   \<Rightarrow> (int \<times> (mem \<times> 'db) option \<times> ('v, 'd, 't) driver) option" where
  "exec_handle sql a query_ptr len w m db =
     stmt_call (\<lambda>conn dsn ds h. map_option (\<lambda>(ret, ds, h, m, db). ((ret, m, db), ds, h))
       (returned (SQLExecDirect sql conn dsn query_ptr len ds h m db))) a w"

definition diag_handle ::
  "addr \<Rightarrow> query_frame \<Rightarrow> ('v, 'd, 't) driver \<Rightarrow> mem \<Rightarrow> (int \<times> ('v, 'd, 't) driver \<times> mem) option" where
  "diag_handle a fr w m = do {
     h \<leftarrow> stmts w a;
     (ret, handle, m) \<leftarrow> SQLGetDiagRec SQL_HANDLE_STMT (Some \<lparr>hdl_type = STMT, odbc_diagnostic = Some (st_diag h)\<rparr>) 1
        (fr_sqlstate fr) (fr_native fr) (fr_msg fr) 1024 (fr_len fr) m;
     g \<leftarrow> Option.bind handle odbc_diagnostic;
     Some (ret, w\<lparr>stmts := (stmts w)(a \<mapsto> h\<lparr>st_diag := g\<rparr>)\<rparr>, m) }"

definition close_handle :: "addr \<Rightarrow> ('v, 'd, 't) driver \<Rightarrow> ('v, 'd, 't) driver option" where
  "close_handle a w = map_option snd (SQLFreeStmt SQL_CLOSE a w)"

text \<open>
  The text of the record: \<^verbatim>\<open>msg_buf\<close> has 1024 bytes and \<^verbatim>\<open>msg_len\<close> is the length of the whole message; a
  longer one is read behind the vector.
\<close>

definition diag_message :: "query_frame \<Rightarrow> int \<Rightarrow> mem \<Rightarrow> string option" where
  "diag_message fr diag_ret m =
     (if \<not> SQL_SUCCEEDED diag_ret then Some ''N/A''
      else let msg_len = load_s 2 (fr_len fr) m in
        if msg_len < 0 \<or> msg_len > 1024 then None
        else Some (load_bytes (fr_sqlstate fr) 5 m @ '': '' @ load_bytes (fr_msg fr) (nat msg_len) m))"

text \<open>\<^verbatim>\<open>a\<close> is where the statement is allocated; the length of the query is passed in 16 bits.\<close>

definition RunQueryWithStmt ::
  "('v, 'q, 'db) sql_engine \<Rightarrow> ('v, 'd, 't) heap_junk \<Rightarrow> addr \<Rightarrow> query_frame \<Rightarrow> addr \<Rightarrow> string
   \<Rightarrow> ('v, 'd, 't) driver \<Rightarrow> mem \<Rightarrow> 'db \<Rightarrow> (int \<times> ('v, 'd, 't) driver \<times> mem \<times> 'db) option" where
  "RunQueryWithStmt sql junk a fr dbc_p query w m db = do {
     (alloc_ret, w, m) \<leftarrow> SQLAllocHandle junk a SQL_HANDLE_STMT dbc_p (fr_stmt fr) w m;
     let m = store_bytes (fr_query fr) (query @ [CHR 0x00]) m in do {
     (exec_ret, b, w) \<leftarrow> exec_handle sql a (fr_query fr) (wrap_s 16 (int (length query))) w m db;
     let (m, db) = (case b of None \<Rightarrow> (m, db) | Some (m, db) \<Rightarrow> (m, db)) in do {
     (w, m) \<leftarrow> (if SQL_SUCCEEDED exec_ret then Some (w, m)
                else do {
                  (diag_ret, w, m) \<leftarrow> diag_handle a fr w m;
                  message \<leftarrow> diag_message fr diag_ret m;
                  dbc \<leftarrow> dbcs w dbc_p;
                  let dbc = snd (dbc_error exec_ret ''SQLDriverConnect''
                        (''Connection init error:'' @ [CHR 0x0A] @ message @ [CHR 0x0A] @ query) ST_42000 [] dbc) in
                  Some (w\<lparr>dbcs := (dbcs w)(dbc_p \<mapsto> dbc)\<rparr>, m) });
     w \<leftarrow> close_handle a w;
     (_, w) \<leftarrow> FreeHandle SQL_HANDLE_STMT a w;
     Some (exec_ret, w, m, db) } } }"

definition SessionInit_Run ::
  "('v, 'q, 'db) sql_engine \<Rightarrow> ('v, 'd, 't) heap_junk \<Rightarrow> addr \<times> addr \<Rightarrow> query_frame \<Rightarrow> addr \<Rightarrow> SessionInitSQLFile \<Rightarrow> bool
   \<Rightarrow> ('v, 'd, 't) driver \<Rightarrow> mem \<Rightarrow> 'db \<Rightarrow> (int \<times> ('v, 'd, 't) driver \<times> mem \<times> 'db) option" where
  "SessionInit_Run sql junk places fr dbc_p sql_file db_created w m db = do {
     (ret, w, m, db) \<leftarrow> (if db_created \<and> db_init_sql sql_file \<noteq> [] then
         RunQueryWithStmt sql junk (fst places) fr dbc_p (db_init_sql sql_file) w m db else Some (SQL_SUCCESS, w, m, db));
     if \<not> SQL_SUCCEEDED ret then Some (ret, w, m, db)
     else do {
       (ret, w, m, db) \<leftarrow> (if conn_init_sql sql_file \<noteq> [] then
           RunQueryWithStmt sql junk (snd places) fr dbc_p (conn_init_sql sql_file) w m db else Some (SQL_SUCCESS, w, m, db));
       if \<not> SQL_SUCCEEDED ret then Some (ret, w, m, db)
       else do {
         dbc \<leftarrow> dbcs w dbc_p;
         let (ret, dbc) = dbc_error SQL_SUCCESS_WITH_INFO ''SQLDriverConnect''
               (''Session init SQL:'' @ [CHR 0x0A] @ orig_file_text sql_file) ST_01000 [] dbc in
         Some (ret, w\<lparr>dbcs := (dbcs w)(dbc_p \<mapsto> dbc)\<rparr>, m, db) } } }"

section \<open>The marker\<close>

lemma dropWhile_blanks: "list_all IsSpace ws \<Longrightarrow> s \<noteq> [] \<Longrightarrow> \<not> IsSpace (hd s) \<Longrightarrow> dropWhile IsSpace (ws @ s) = s"
  by (induction ws) (auto simp: dropWhile_eq_self_iff)

definition marker :: "string \<Rightarrow> string \<Rightarrow> string" where
  "marker ws ws' = ''/*'' @ ws @ ''DUCKDB_CONNECTION_INIT_BELOW_MARKER'' @ ws' @ ''*/''"

lemma match_marker_marker:
  assumes "list_all IsSpace ws" "list_all IsSpace ws'"
  shows "match_marker (marker ws ws' @ s) = Some s"
proof -
  let ?word = "''DUCKDB_CONNECTION_INIT_BELOW_MARKER''"
  have "skip ''/*'' (marker ws ws' @ s) = Some (ws @ ?word @ ws' @ ''*/'' @ s)"
    unfolding marker_def append_assoc by (rule take_skip)
  moreover have "dropWhile IsSpace (ws @ ?word @ ws' @ ''*/'' @ s) = ?word @ ws' @ ''*/'' @ s"
    by (rule dropWhile_blanks[OF assms(1)]) (simp_all add: IsSpace_def)
  moreover have "dropWhile IsSpace (ws' @ ''*/'' @ s) = ''*/'' @ s"
    by (rule dropWhile_blanks[OF assms(2)]) (simp_all add: IsSpace_def)
  ultimately show ?thesis by (simp only: match_marker_def bind.bind_lunit take_skip)
qed

lemma find_marker_first:
  "\<forall>i < length a. match_marker (drop i (a @ s)) = None \<Longrightarrow> match_marker s = Some r \<Longrightarrow>
   find_marker (a @ s) = Some (a, r)"
proof (induction a)
  case Nil
  then show ?case by (cases s) (auto simp: match_marker_def skip_def)
next
  case (Cons c a)
  have "match_marker (c # a @ s) = None" using Cons.prems(1) by force
  moreover have "\<forall>i < length a. match_marker (drop i (a @ s)) = None" using Cons.prems(1) by force
  ultimately show ?case using Cons.IH Cons.prems(2) by simp
qed

text \<open>The first marker of a text is the one behind \<^verbatim>\<open>a\<close>.\<close>

definition first_marker_behind :: "string \<Rightarrow> string \<Rightarrow> bool" where
  "first_marker_behind a s \<longleftrightarrow> (\<forall>i < length a. match_marker (drop i (a @ s)) = None)"


lemma SplitByMarker_trailing:
  assumes "list_all IsSpace ws" "list_all IsSpace ws'"
    "first_marker_behind a (marker ws ws' @ b @ marker ws ws')" "first_marker_behind b (marker ws ws')"
  shows "SplitByMarker (a @ marker ws ws' @ b @ marker ws ws') = [a, b]"
proof -
  have "find_marker (a @ marker ws ws' @ b @ marker ws ws') = Some (a, b @ marker ws ws')"
    using find_marker_first[OF assms(3)[unfolded first_marker_behind_def] match_marker_marker[OF assms(1,2)]] by simp
  moreover have "find_marker (b @ marker ws ws') = Some (b, [])"
    using find_marker_first[OF assms(4)[unfolded first_marker_behind_def]] match_marker_marker[OF assms(1,2), of "[]"] by simp
  ultimately show ?thesis by (simp add: SplitByMarker_def split_rest.simps)
qed

lemma hex_lower: "c \<in> set (bytes_to_hex_string bs) \<Longrightarrow> CharacterToLower c = c"
proof -
  have d: "CharacterToLower (hex_digit n) = hex_digit n" if "n < 16" for n
  proof -
    have "\<forall>n < 16. CharacterToLower (''0123456789abcdef'' ! n) = ''0123456789abcdef'' ! n"
      by (simp add: CharacterToLower_def All_less_Suc numeral_eq_Suc less_eq_char_def)
    then show ?thesis using that by (simp add: hex_digit_def)
  qed
  have "unat b div 16 < 16" for b :: byte_t
  proof -
    have "unat b < 2 ^ LENGTH(8)" by (rule unsigned_less)
    then show ?thesis by (simp add: less_mult_imp_div_less)
  qed
  moreover assume "c \<in> set (bytes_to_hex_string bs)"
  ultimately show ?thesis by (auto simp: bytes_to_hex_string_def d)
qed

lemma ReadSQLFile_parts:
  assumes "path \<noteq> []" "fs_files fs path = Some text" "length text \<le> SQL_FILE_MAX_SIZE_BYTES" "length (SplitByMarker text) = 2"
    "digest = bytes_to_hex_string (hash256 (octets_of text))"
  shows "ReadSQLFile fs path sha =
    (if sha = [] \<or> sha = digest
     then Inr \<lparr>db_init_sql = TrimString (SplitByMarker text ! 0), conn_init_sql = TrimString (SplitByMarker text ! 1), orig_file_text = text\<rparr>
     else Inl (''Session init SQL file SHA-256 mismatch, expected: '' @ StringUtil_Lower sha @ '', actual: '' @ digest))"
  using assms by (auto simp: ReadSQLFile_def FileExists_def FileSizeBytes_def FileReadToString_def Let_def)





text \<open>
  A second marker at the end of the file is not noticed: the check that the marker is specified once
  counts the parts, and no part is behind it.
\<close>

theorem trailing_marker_accepted:
  assumes "path \<noteq> []" "fs_files fs path = Some text" "length text \<le> SQL_FILE_MAX_SIZE_BYTES"
    and content: "text = a @ marker ws ws' @ b @ marker ws ws'" "list_all IsSpace ws" "list_all IsSpace ws'"
      "first_marker_behind a (marker ws ws' @ b @ marker ws ws')" "first_marker_behind b (marker ws ws')"
  shows "ReadSQLFile fs path [] =
    Inr \<lparr>db_init_sql = TrimString a, conn_init_sql = TrimString b, orig_file_text = text\<rparr>"
  using ReadSQLFile_parts[OF assms(1-3) _ refl, of "[]"] SplitByMarker_trailing[OF content(2-5)] content(1) by simp

theorem trailing_marker_accepted_witness:
  "ReadSQLFile \<lparr>fs_files = [''init.sql'' \<mapsto> ''SET x=1'' @ marker '' '' '' '' @ '' USE d'' @ marker '' '' '' ''], fs_what = []\<rparr>
      ''init.sql'' [] =
    Inr \<lparr>db_init_sql = TrimString ''SET x=1'', conn_init_sql = TrimString '' USE d'',
         orig_file_text = ''SET x=1'' @ marker '' '' '' '' @ '' USE d'' @ marker '' '' '' ''\<rparr>"
proof (rule trailing_marker_accepted)
  show "first_marker_behind ''SET x=1'' (marker '' '' '' '' @ '' USE d'' @ marker '' '' '' '')"
    "first_marker_behind '' USE d'' (marker '' '' '' '')"
    by (simp_all add: first_marker_behind_def All_less_Suc match_marker_def skip_def marker_def less_Suc_eq numeral_eq_Suc)
qed (simp_all add: SQL_FILE_MAX_SIZE_BYTES_def marker_def IsSpace_def)

section \<open>The digest\<close>

text \<open>
  A digest that is given with a capital letter is refused for every file, also when it is the digest
  of the file: the option is compared before it is put into lower case.
\<close>

theorem upper_case_digest_refused:
  assumes "path \<noteq> []" "fs_files fs path = Some text" "length text \<le> SQL_FILE_MAX_SIZE_BYTES"
    and "c \<in> set sha" "CharacterToLower c \<noteq> c"
  shows "ReadSQLFile fs path sha = Inl (''Session init SQL file SHA-256 mismatch, expected: '' @ StringUtil_Lower sha @
    '', actual: '' @ bytes_to_hex_string (hash256 (octets_of text)))"
proof -
  have "sha \<noteq> []" "bytes_to_hex_string (hash256 (octets_of text)) \<noteq> sha" using assms(4,5) hex_lower by fastforce+
  then show ?thesis
    using assms(1-3) by (simp add: ReadSQLFile_def FileExists_def FileSizeBytes_def FileReadToString_def Let_def)
qed

theorem upper_case_digest_refused_witness:
  "ReadSQLFile \<lparr>fs_files = [''init.sql'' \<mapsto> ''USE d''], fs_what = []\<rparr> ''init.sql'' ''AB'' =
    Inl (''Session init SQL file SHA-256 mismatch, expected: '' @ StringUtil_Lower ''AB'' @
    '', actual: '' @ bytes_to_hex_string (hash256 (octets_of ''USE d'')))"
  by (rule upper_case_digest_refused[where c = "CHR ''A''"])
    (simp_all add: SQL_FILE_MAX_SIZE_BYTES_def CharacterToLower_def less_eq_char_def char_of_def)

section \<open>The text that is executed\<close>

lemma exec_handle_text:
  assumes "a \<noteq> nullptr" "stmts w a = Some h" "dbcs w (st_dbc h) = Some dbc" "dbc_conn dbc \<noteq> None"
    and "ConvertSQLCHARToString p len m = Some query"
  shows "exec_handle sql a p len w m db =
    map_option (\<lambda>(ret, ds, h, m, db). (ret, Some (m, db), w\<lparr>descs := ds, stmts := (stmts w)(a \<mapsto> h)\<rparr>))
      (returned (ExecDirectStmt sql (dbc_dsn dbc) query (descs w) (h\<lparr>st_diag := Clean (st_diag h)\<rparr>) m db))"
  using assms
  by (cases "returned (ExecDirectStmt sql (dbc_dsn dbc) query (descs w) (h\<lparr>st_diag := Clean (st_diag h)\<rparr>) m db)")
    (auto simp: exec_handle_def stmt_call_def SQLExecDirect_def ConvertHSTMT_def returned_def)

lemma wrap_s_16_of:
  assumes "n mod 65536 < 32768"
  shows "wrap_s 16 (int n) = int (n mod 65536)"
proof -
  have "int (n mod 65536) < int 32768" using assms by (simp only: of_nat_less_iff)
  then show ?thesis by (simp add: wrap_s_def zmod_int Let_def)
qed

lemma load_stored_prefix: "n \<le> length bs \<Longrightarrow> load_bytes a n (store_bytes a bs m) = take n bs"
  by (rule nth_equalityI) (auto simp: load_bytes_def store_bytes_def)

text \<open>
  The length of the script is passed to SQLExecDirect in 16 bits: of a script of \<^verbatim>\<open>n\<close> characters the
  first \<^verbatim>\<open>n mod 65536\<close> are executed when that is less than 32768. So a script of up to 32 KB is executed
  whole, and of one of 64 KB and ten characters, ten; a file may have 1 MB.
\<close>

theorem script_length_wraps:
  assumes "a \<noteq> nullptr" "stmts w a = Some h" "dbcs w (st_dbc h) = Some dbc" "dbc_conn dbc \<noteq> None"
    and "fr_query fr \<noteq> nullptr" "length query mod 65536 < 32768"
  shows "exec_handle sql a (fr_query fr) (wrap_s 16 (int (length query))) w
      (store_bytes (fr_query fr) (query @ [CHR 0x00]) m) db =
    map_option (\<lambda>(ret, ds, h, m, db). (ret, Some (m, db), w\<lparr>descs := ds, stmts := (stmts w)(a \<mapsto> h)\<rparr>))
      (returned (ExecDirectStmt sql (dbc_dsn dbc) (take (length query mod 65536) query) (descs w)
         (h\<lparr>st_diag := Clean (st_diag h)\<rparr>) (store_bytes (fr_query fr) (query @ [CHR 0x00]) m) db))"
proof (rule exec_handle_text[OF assms(1-4)])
  let ?n = "length query mod 65536"
  have n: "?n \<le> length query" by simp
  then have "load_bytes (fr_query fr) ?n (store_bytes (fr_query fr) (query @ [CHR 0x00]) m) = take ?n query"
    by (simp add: load_stored_prefix)
  then show "ConvertSQLCHARToString (fr_query fr) (wrap_s 16 (int (length query)))
      (store_bytes (fr_query fr) (query @ [CHR 0x00]) m) = Some (take ?n query)"
    using assms(5,6) by (simp add: ConvertSQLCHARToString_def wrap_s_16_of) (simp add: load_bytes_def)
qed

theorem script_length_wraps_witness:
  "exec_handle sample_sql 32 4096 (wrap_s 16 (int (length (''duck'' @ replicate 65536 (CHR '';'')))))
      (sample_driver sample_handle) (store_bytes 4096 ((''duck'' @ replicate 65536 (CHR '';'')) @ [CHR 0x00]) (\<lambda>_. CHR 0x00)) [] =
    map_option (\<lambda>(ret, ds, h, m, db). (ret, Some (m, db),
        (sample_driver sample_handle)\<lparr>descs := ds, stmts := (stmts (sample_driver sample_handle))(32 \<mapsto> h)\<rparr>))
      (returned (ExecDirectStmt sample_sql [] ''duck'' Map.empty (sample_handle\<lparr>st_diag := Clean (st_diag sample_handle)\<rparr>)
         (store_bytes 4096 ((''duck'' @ replicate 65536 (CHR '';'')) @ [CHR 0x00]) (\<lambda>_. CHR 0x00)) []))"
proof -
  let ?fr = "\<lparr>fr_stmt = 1, fr_query = 4096, fr_sqlstate = 2, fr_native = 3, fr_msg = 4, fr_len = 5\<rparr>"
  let ?q = "''duck'' @ replicate 65536 (CHR '';'')"
  have l: "length ?q mod 65536 = 4" by simp
  have c: "st_dbc sample_handle = 16" by (simp add: sample_handle_def sample_stmt_def)
  have "take (length ?q mod 65536) ?q = ''duck''" unfolding l by simp
  then show ?thesis
    using script_length_wraps[of 32 "sample_driver sample_handle" sample_handle sample_dbc ?fr ?q sample_sql "\<lambda>_. CHR 0x00" "[]"] l c
    by simp
qed

text \<open>Reading the only record of a statement, whose message does not fit the buffer.\<close>

lemma GetDiagRec_long:
  assumes "1024 < length (sql_diag_message_text r)" "length (sql_diag_message_text r) \<le> 32767"
    "CHR 0x00 \<notin> set (sql_diag_message_text r)" "fr_msg fr \<noteq> nullptr" "fr_len fr \<noteq> nullptr"
  shows "\<exists>m'. SQLGetDiagRec SQL_HANDLE_STMT (Some \<lparr>hdl_type = STMT, odbc_diagnostic = Some (after_pieces 1024 0 hdr r)\<rparr>) 1
      (fr_sqlstate fr) (fr_native fr) (fr_msg fr) 1024 (fr_len fr) m =
        Some (SQL_SUCCESS_WITH_INFO, Some \<lparr>hdl_type = STMT, odbc_diagnostic = Some (after_pieces 1024 1 hdr r)\<rparr>, m') \<and>
      load_s 2 (fr_len fr) m' = int (length (sql_diag_message_text r))"
proof -
  let ?t = "sql_diag_message_text r"
  have "0 * 1024 + 1024 < length ?t" "length ?t < 2 ^ 63" using assms(1,2) by simp_all
  note gm = GetMessage_piece[OF this]
  have len: "wrap_s 16 (int (length ?t)) = int (length ?t)" using assms(2) by (simp add: in_s_def)
  have rem: "0 < wrap_s 16 (int (length ?t) - 1024)" using assms(1,2) by (simp add: in_s_def)
  have tot: "GetTotalRecords (after_pieces 1024 0 hdr r) = 1" by (simp add: GetTotalRecords_def after_pieces_def)
  have rec: "diag_records (after_pieces 1024 0 hdr r) ! 0 = r\<lparr>stack_msg_offset := map (\<lambda>i. i * 1024) (rev [0..<Suc 0])\<rparr>"
    by (simp add: after_pieces_def)
  have nxt: "AddNewRecIdx 0 ((after_pieces 1024 0 hdr r)\<lparr>diag_records := (diag_records (after_pieces 1024 0 hdr r))[0 :=
      r\<lparr>stack_msg_offset := map (\<lambda>i. i * 1024) (rev [0..<Suc (Suc 0)])\<rparr>]\<rparr>) = Some (after_pieces 1024 1 hdr r)"
    by (simp add: after_pieces_def AddNewRecIdx_def)
  have ne: "?t \<noteq> []" using assms(1) by auto
  have pre: "c_prefix ?t = ?t" using assms(3) by (rule c_prefix_id)
  have ld: "load_s 2 (fr_len fr) (WriteString 2 ?t (fr_msg fr) 1024 (fr_len fr) m') = int (length ?t)" for m'
    using assms(2,4,5) len by (simp add: WriteString_def pre store_opt_def load_store_s in_s_def)
  show ?thesis
    using assms(4,5) ne gm nxt
    by (simp add: SQLGetDiagRec_def GetDiagRecInternal_def ConvertHandle_def handle_type_of_def tot
        GetDiagRecord_after_pieces[of 0, simplified] rec Let_def len rem ld
        WriteStringWithLenInChars_def)
qed

text \<open>A failed execution that left one record with a long message.\<close>

lemma run_overread:
  assumes "SQLAllocHandle junk a SQL_HANDLE_STMT dbc_p (fr_stmt fr) w m = Some (SQL_SUCCESS, w1, m1)"
    and "exec_handle sql a (fr_query fr) (wrap_s 16 (int (length query))) w1
      (store_bytes (fr_query fr) (query @ [CHR 0x00]) m1) db = Some (SQL_ERROR, b, w2)"
    and "stmts w2 a = Some h" "st_diag h = after_pieces 1024 0 hdr r"
    and "1024 < length (sql_diag_message_text r)" "length (sql_diag_message_text r) \<le> 32767"
      "CHR 0x00 \<notin> set (sql_diag_message_text r)" "fr_msg fr \<noteq> nullptr" "fr_len fr \<noteq> nullptr"
  shows "RunQueryWithStmt sql junk a fr dbc_p query w m db = None"
proof -
  have "\<exists>w3 m3. diag_handle a fr w2 m2 = Some (SQL_SUCCESS_WITH_INFO, w3, m3) \<and>
      diag_message fr SQL_SUCCESS_WITH_INFO m3 = None" for m2
  proof -
    obtain m3 where rec: "SQLGetDiagRec SQL_HANDLE_STMT
        (Some \<lparr>hdl_type = STMT, odbc_diagnostic = Some (after_pieces 1024 0 hdr r)\<rparr>) 1
        (fr_sqlstate fr) (fr_native fr) (fr_msg fr) 1024 (fr_len fr) m2 =
          Some (SQL_SUCCESS_WITH_INFO, Some \<lparr>hdl_type = STMT, odbc_diagnostic = Some (after_pieces 1024 1 hdr r)\<rparr>, m3)"
      and len: "load_s 2 (fr_len fr) m3 = int (length (sql_diag_message_text r))"
      using GetDiagRec_long[OF assms(5-9)] by blast
    show ?thesis
      using assms(3,5) by (simp add: diag_handle_def assms(4) rec diag_message_def Let_def len)
  qed
  from this[of "case b of None \<Rightarrow> store_bytes (fr_query fr) (query @ [CHR 0x00]) m1 | Some (m, db) \<Rightarrow> m"]
  obtain w3 m3 where "diag_handle a fr w2 (case b of None \<Rightarrow> store_bytes (fr_query fr) (query @ [CHR 0x00]) m1
      | Some (m, db) \<Rightarrow> m) = Some (SQL_SUCCESS_WITH_INFO, w3, m3)" "diag_message fr SQL_SUCCESS_WITH_INFO m3 = None"
    by blast
  then show ?thesis
    using assms(1,2) by (cases b) (auto simp: RunQueryWithStmt_def Let_def)
qed

lemma SetDiagnosticRecord_clean:
  "SetDiagnosticRecord (Clean d) ret cmp msg st srv = (ret, after_pieces B 0 mk_DiagHeader
     \<lparr>sql_diag_column_number = SQL_NO_COLUMN_NUMBER, sql_diag_native = 0,
      sql_diag_row_number = SQL_NO_ROW_NUMBER, sql_diag_server_name = srv,
      sql_diag_sqlstate = (case map_of MAP_ODBC_SQL_STATES st of None \<Rightarrow> [] | Some (code, _) \<Rightarrow> code),
      sql_diag_message_text = ''ODBC_DuckDB'' @ (if srv \<noteq> [] then ''->'' @ srv else []) @
        (if cmp \<noteq> [] then ''->'' @ cmp else []) @ [CHR 0x0A] @ msg,
      stack_msg_offset = [0]\<rparr>)"
  by (simp add: SetDiagnosticRecord_area Clean_def AddDiagRecord_def after_pieces_def in_s_def)

text \<open>
  A script the engine refuses with a message of 1024 characters or more brings the driver down: the
  buffer for the message has 1024 bytes, SQLGetDiagRec answers with the length of the whole message, and
  that many bytes are copied from the buffer.
\<close>

theorem session_error_overread:
  assumes "dbcs w dbc_p = Some dbc" "dbc_conn dbc \<noteq> None" "a \<noteq> nullptr"
    and "fr_stmt fr \<noteq> nullptr" "fr_query fr \<noteq> nullptr" "fr_msg fr \<noteq> nullptr" "fr_len fr \<noteq> nullptr"
    and "length query < 32768" "sql_extract sql query db = Inl msg"
    and "1024 \<le> length msg" "length msg + length (dbc_dsn dbc) \<le> 32700" "CHR 0x00 \<notin> set (dbc_dsn dbc @ msg)"
  shows "RunQueryWithStmt sql junk a fr dbc_p query w m db = None"
proof -
  let ?dbc = "dbc\<lparr>vec_stmt_ref := vec_stmt_ref dbc @ [a]\<rparr>"
  let ?h = "mk_OdbcHandleStmt (junk_stmt junk) (junk_headers junk) dbc_p"
  let ?w1 = "w\<lparr>dbcs := (dbcs w)(dbc_p \<mapsto> ?dbc), stmts := (stmts w)(a \<mapsto> ?h)\<rparr>"
  let ?m1 = "store_int 8 (fr_stmt fr) a m"
  let ?m2 = "store_bytes (fr_query fr) (query @ [CHR 0x00]) ?m1"
  have dbc_of: "st_dbc ?h = dbc_p" by (simp add: mk_OdbcHandleStmt_def split: prod.split)
  have alloc: "SQLAllocHandle junk a SQL_HANDLE_STMT dbc_p (fr_stmt fr) w m = Some (SQL_SUCCESS, ?w1, ?m1)"
    using assms(1,4) by (simp add: SQLAllocHandle_def store_through_def)
  let ?prep = "PrepareQuery (?h\<lparr>st_diag := Clean (st_diag ?h)\<rparr>)"
  obtain r where diag: "stmt_diag ?prep SQL_ERROR ''SQLExecDirect'' msg ST_42000 (dbc_dsn dbc) =
      (SQL_ERROR, ?prep\<lparr>st_diag := after_pieces 1024 0 mk_DiagHeader r\<rparr>)"
    and r: "sql_diag_message_text r = ''ODBC_DuckDB'' @ (if dbc_dsn dbc \<noteq> [] then ''->'' @ dbc_dsn dbc else []) @
        ''->SQLExecDirect'' @ [CHR 0x0A] @ msg"
    by (simp add: stmt_diag_def PrepareQuery_def SetDiagnosticRecord_clean[of _ _ _ _ _ _ 1024])
  have given: "ConvertSQLCHARToString (fr_query fr) (wrap_s 16 (int (length query))) ?m2 = Some query"
    using assms(5,8) wrap_s_16_of[of "length query"] load_stored_prefix[of "length query" "query @ [CHR 0x00]" "fr_query fr" ?m1]
    by (cases "query = []") (auto simp: ConvertSQLCHARToString_def load_bytes_def)
  have "exec_handle sql a (fr_query fr) (wrap_s 16 (int (length query))) ?w1 ?m2 db =
      Some (SQL_ERROR, Some (?m2, db), ?w1\<lparr>descs := descs ?w1, stmts := (stmts ?w1)(a \<mapsto>
        ?prep\<lparr>st_diag := after_pieces 1024 0 mk_DiagHeader r\<rparr>)\<rparr>)"
    using exec_handle_text[OF assms(3) _ _ _ given, where w = ?w1 and h = ?h and dbc = ?dbc and sql = sql and db = db] assms(2,9) dbc_of diag
    by (simp add: ExecDirectStmt_def returned_def Let_def)
  from run_overread[OF alloc this, of "?prep\<lparr>st_diag := after_pieces 1024 0 mk_DiagHeader r\<rparr>"]
  show ?thesis using assms(6,7,10-12) r by simp
qed

definition refusing_sql :: "(string, string, ParamValue list list) sql_engine" where
  "refusing_sql = sample_sql\<lparr>sql_extract := \<lambda>q db. Inl (replicate 2000 (CHR ''x''))\<rparr>"

definition sample_junk :: "(string, unit, unit) heap_junk" where
  "sample_junk = \<lparr>junk_env = \<lparr>env_diag = mk_OdbcDiagnostic, env_db = 0, odbc_version = 0, connection_pooling = 0, cp_match = 0,
       output_nts = 0\<rparr>,
     junk_dbc = sample_dbc, junk_stmt = sample_handle,
     junk_headers = (desc_header sample_desc, desc_header sample_desc, desc_header sample_desc, desc_header sample_desc),
     junk_database = 4\<rparr>"

theorem session_error_overread_witness:
  "RunQueryWithStmt refusing_sql sample_junk 64
     \<lparr>fr_stmt = 1, fr_query = 4096, fr_sqlstate = 2, fr_native = 3, fr_msg = 4, fr_len = 5\<rparr> 16 ''SELEC'' (sample_driver sample_handle)
     (\<lambda>_. CHR 0x00) [] = None"
  by (rule session_error_overread[where msg = "replicate 2000 (CHR ''x'')" and dbc = sample_dbc])
    (simp_all add: refusing_sql_def)

end
