(* ===== verification/Connection_Api.thy ===== *)
theory Connection_Api
  imports Session_Init
begin

text \<open>
  \<^verbatim>\<open>SetConnection\<close> of \<^verbatim>\<open>src/odbc_driver/connect/connect.cpp\<close> and the functions of
  \<^verbatim>\<open>src/odbc_api/connection_api.cpp\<close> that open a connection. The configuration of the engine and its cache
  of database instances are parameters.
\<close>

section \<open>The engine behind a connection\<close>

text \<open>
  A configuration 'g and the cache 'i. An operation that throws gives the message of the exception;
  opening an instance gives the pointer to it, the database, and whether it was created.
\<close>

record ('d, 'g, 'i) instances =
  default_config :: 'g
  set_option_by_name :: "string \<Rightarrow> string \<Rightarrow> 'g \<Rightarrow> string + 'g"
  set_options_by_name :: "(string \<Rightarrow> string option) \<Rightarrow> 'g \<Rightarrow> string + 'g"
  get_or_create_instance :: "string \<Rightarrow> 'g \<Rightarrow> bool \<Rightarrow> 'i \<Rightarrow> (string + addr \<times> 'd \<times> bool) \<times> 'i"

text \<open>Where the script of a session runs: the memory of its objects, its two statements, its variables.\<close>

record ('v, 'd, 't) session_frame =
  sf_junk :: "('v, 'd, 't) heap_junk"
  sf_stmts :: "addr \<times> addr"
  sf_query :: query_frame

definition IN_MEMORY_PATH :: string where
  "IN_MEMORY_PATH = '':memory:''"

section \<open>SetConnection\<close>

text \<open>\<^verbatim>\<open>NormalizeWindowsPathSeparators\<close> does nothing outside Windows.\<close>

definition erase_options :: "string list \<Rightarrow> connect \<Rightarrow> connect" where
  "erase_options keys c = c\<lparr>config_map := (\<lambda>key. if key \<in> set keys then None else config_map c key)\<rparr>"

text \<open>The \<^verbatim>\<open>try\<close> block: the script of the session, the pointer, the database and \<^verbatim>\<open>db_created\<close>.\<close>

definition open_instance ::
  "('d, 'g, 'i) instances \<Rightarrow> file_system \<Rightarrow> string \<Rightarrow> string \<Rightarrow> string \<Rightarrow> string \<Rightarrow> connect \<Rightarrow> 'g \<Rightarrow> 'i
   \<Rightarrow> (string + SessionInitSQLFile \<times> addr \<times> 'd \<times> bool) \<times> 'i" where
  "open_instance inst fs database enable_external_access sql_file sql_file_sha256 c config i =
     (case bind_sum (ReadSQLFile fs sql_file sql_file_sha256) (\<lambda>session_init_content.
           bind_sum (set_options_by_name inst (config_map c) config) (\<lambda>config.
           bind_sum (if enable_external_access \<noteq> []
                     then set_option_by_name inst ''enable_external_access'' enable_external_access config
                     else Inr config) (\<lambda>config.
           Inr (session_init_content, config)))) of
        Inl msg \<Rightarrow> (Inl msg, i)
      | Inr (session_init_content, config) \<Rightarrow>
          (let cache_instance = (database \<noteq> IN_MEMORY_PATH) in
           case get_or_create_instance inst database config cache_instance i of
             (Inl msg, i) \<Rightarrow> (Inl msg, i)
           | (Inr p, i) \<Rightarrow> (Inr (session_init_content, p), i)))"

text \<open>\<^verbatim>\<open>SetAutoCommit\<close> of a new connection; an open connection is kept.\<close>

definition open_connection :: "('d, 't) storage \<Rightarrow> 'd \<Rightarrow> ('d, 't) OdbcHandleDbc \<Rightarrow> ('d, 't) OdbcHandleDbc option" where
  "open_connection st d dbc =
     (if dbc_conn dbc \<noteq> None then Some dbc
      else case SetAutoCommit st (dbc_autocommit dbc) (mk_Connection d) of
             (None, conn) \<Rightarrow> Some (dbc\<lparr>dbc_conn := Some conn\<rparr>)
           | (Some msg, _) \<Rightarrow> None)"

type_synonym ('v, 'd, 't, 'i, 'db) connect_result = "(int \<times> ('v, 'd, 't) driver \<times> 'i \<times> mem \<times> 'db) option"

text \<open>The pointer to the instance is given to the environment of the connection.\<close>

definition set_env_db :: "addr \<Rightarrow> addr \<Rightarrow> ('v, 'd, 't) driver \<Rightarrow> ('v, 'd, 't) driver option" where
  "set_env_db a p w = map_option (\<lambda>env. w\<lparr>envs := (envs w)(a \<mapsto> env\<lparr>env_db := p\<rparr>)\<rparr>) (envs w a)"

definition SetConnection ::
  "('d, 't) storage \<Rightarrow> ('v, 'q, 'db) sql_engine \<Rightarrow> ('d, 'g, 'i) instances \<Rightarrow> connect_options \<Rightarrow> file_system
   \<Rightarrow> ('v, 'd, 't) session_frame \<Rightarrow> addr \<Rightarrow> connect \<Rightarrow> ('v, 'd, 't) driver \<Rightarrow> 'i \<Rightarrow> mem \<Rightarrow> 'db
   \<Rightarrow> ('v, 'd, 't, 'i, 'db) connect_result" where
  "SetConnection st sql inst opts fs sf dbc_p c w i m db = do {
     dbc \<leftarrow> dbcs w dbc_p;
     let (_, c, dbc) = ReadFromIniFile opts c dbc;
         database = GetOptionFromConfigMap ''database'' IN_MEMORY_PATH c;
         dbc = SetDatabaseName database dbc in
     case set_option_by_name inst ''duckdb_api'' ''odbc'' (default_config inst) of
       Inl msg \<Rightarrow> None
     | Inr config \<Rightarrow>
       (let enable_external_access = GetOptionFromConfigMap ''enable_external_access'' [] c;
            sql_file = GetOptionFromConfigMap SQL_FILE_OPTION [] c;
            sql_file_sha256 = GetOptionFromConfigMap SQL_FILE_SHA256_OPTION [] c;
            c = erase_options [''database'', ''dsn'', SQL_FILE_OPTION, SQL_FILE_SHA256_OPTION, ''enable_external_access''] c
        in case open_instance inst fs database enable_external_access sql_file sql_file_sha256 c config i of
             (Inl msg, i) \<Rightarrow>
               (case dbc_error SQL_ERROR ''SQLDriverConnect'' msg ST_IM003 [] dbc of
                  (ret, dbc) \<Rightarrow> Some (ret, w\<lparr>dbcs := (dbcs w)(dbc_p \<mapsto> dbc)\<rparr>, i, m, db))
           | (Inr (script, p, d, db_created), i) \<Rightarrow> do {
               w \<leftarrow> set_env_db (dbc_env dbc) p w;
               dbc \<leftarrow> open_connection st d dbc;
               let w = w\<lparr>dbcs := (dbcs w)(dbc_p \<mapsto> dbc)\<rparr> in
               if SessionInitSQLFile_IsEmpty script then Some (SQL_SUCCESS, w, i, m, db)
               else do {
                 (ret, w, m, db) \<leftarrow> SessionInit_Run sql (sf_junk sf) (sf_stmts sf) (sf_query sf) dbc_p script db_created w m db;
                 dbc \<leftarrow> dbcs w dbc_p;
                 Some (ret, if SQL_SUCCEEDED ret then w else w\<lparr>dbcs := (dbcs w)(dbc_p \<mapsto> dbc\<lparr>dbc_conn := None\<rparr>)\<rparr>, i, m, db) } }) }"

section \<open>connection\_api.cpp\<close>

text \<open>The check of the handle, in front of what is done with the connection behind it.\<close>

definition before_connection ::
  "addr \<Rightarrow> (('d, 't) OdbcHandleDbc \<Rightarrow> ('v, 'd, 't, 'i, 'db) connect_result) \<Rightarrow> ('v, 'd, 't) driver \<Rightarrow> 'i \<Rightarrow> mem \<Rightarrow> 'db
   \<Rightarrow> ('v, 'd, 't, 'i, 'db) connect_result" where
  "before_connection handle f w i m db =
     (if handle = nullptr then Some (SQL_INVALID_HANDLE, w, i, m, db)
      else
        (case dbcs w handle of
           None \<Rightarrow> if type_of_handle handle w = None then None else Some (SQL_INVALID_HANDLE, w, i, m, db)
         | Some dbc \<Rightarrow> f dbc))"

definition SQLConnect ::
  "('d, 't) storage \<Rightarrow> ('v, 'q, 'db) sql_engine \<Rightarrow> ('d, 'g, 'i) instances \<Rightarrow> connect_options \<Rightarrow> file_system
   \<Rightarrow> ('v, 'd, 't) session_frame \<Rightarrow> addr \<Rightarrow> addr \<Rightarrow> int \<Rightarrow> ('v, 'd, 't) driver \<Rightarrow> 'i \<Rightarrow> mem \<Rightarrow> 'db
   \<Rightarrow> ('v, 'd, 't, 'i, 'db) connect_result" where
  "SQLConnect st sql inst opts fs sf handle server_name name_length1 w i m db =
     before_connection handle (\<lambda>dbc. do {
       server_name_st \<leftarrow> ConvertSQLCHARToString server_name name_length1 m;
       SetConnection st sql inst opts fs sf handle (mk_Connect opts server_name_st)
         (w\<lparr>dbcs := (dbcs w)(handle \<mapsto> dbc\<lparr>dbc_dsn := server_name_st\<rparr>)\<rparr>) i m db }) w i m db"

text \<open>The name of the user and the password are converted and not used.\<close>

definition SQLConnectW ::
  "('d, 't) storage \<Rightarrow> ('v, 'q, 'db) sql_engine \<Rightarrow> ('d, 'g, 'i) instances \<Rightarrow> connect_options \<Rightarrow> file_system
   \<Rightarrow> ('v, 'd, 't) session_frame \<Rightarrow> addr \<Rightarrow> addr \<Rightarrow> addr \<Rightarrow> int \<Rightarrow> addr \<Rightarrow> int \<Rightarrow> addr \<Rightarrow> int
   \<Rightarrow> ('v, 'd, 't) driver \<Rightarrow> 'i \<Rightarrow> mem \<Rightarrow> 'db \<Rightarrow> ('v, 'd, 't, 'i, 'db) connect_result" where
  "SQLConnectW st sql inst opts fs sf vec handle server_name name_length1 user_name name_length2
     authentication name_length3 w i m db = do {
     server_name_conv \<leftarrow> conv_argument server_name name_length1 m;
     _ \<leftarrow> conv_argument user_name name_length2 m;
     _ \<leftarrow> conv_argument authentication name_length3 m;
     (case conv_store vec server_name_conv m of
        (a, m) \<Rightarrow> SQLConnect st sql inst opts fs sf handle a (utf8_len_smallint server_name_conv) w i m db) }"

text \<open>The string that is given back: the one that came in, as far as the buffer takes it.\<close>

definition out_connection ::
  "string \<Rightarrow> addr \<Rightarrow> int \<Rightarrow> addr \<Rightarrow> mem \<Rightarrow> mem" where
  "out_connection in_conn_str out_connection_string buffer_length string_length2_ptr m =
     (if out_connection_string \<noteq> nullptr then
        store_opt 2 string_length2_ptr (wrap_s 16 (wrap_s 32 (int (length (c_prefix in_conn_str)))))
          (snprintf_s out_connection_string (wrap_u 64 buffer_length) in_conn_str m)
      else store_opt 2 string_length2_ptr (wrap_s 16 (int (length in_conn_str))) m)"

definition SQLDriverConnect ::
  "('d, 't) storage \<Rightarrow> ('v, 'q, 'db) sql_engine \<Rightarrow> ('d, 'g, 'i) instances \<Rightarrow> connect_options \<Rightarrow> file_system
   \<Rightarrow> ('v, 'd, 't) session_frame \<Rightarrow> addr \<Rightarrow> addr \<Rightarrow> int \<Rightarrow> addr \<Rightarrow> int \<Rightarrow> addr \<Rightarrow> ('v, 'd, 't) driver \<Rightarrow> 'i \<Rightarrow> mem \<Rightarrow> 'db
   \<Rightarrow> ('v, 'd, 't, 'i, 'db) connect_result" where
  "SQLDriverConnect st sql inst opts fs sf handle in_connection_string string_length1 out_connection_string
     buffer_length string_length2_ptr w i m db =
     before_connection handle (\<lambda>dbc. do {
       in_conn_str \<leftarrow> ConvertSQLCHARToString in_connection_string string_length1 m;
       (case ParseInputStr opts (mk_Connect opts in_conn_str) dbc of (ret, c, dbc) \<Rightarrow>
        let w = w\<lparr>dbcs := (dbcs w)(handle \<mapsto> dbc)\<rparr> in
        case SetSuccessWithInfo ret c of (ok, c) \<Rightarrow>
        if \<not> ok then Some (ret, w, i, m, db)
        else do {
          (ret, w, i, m, db) \<leftarrow> SetConnection st sql inst opts fs sf handle c w i m db;
          (case SetSuccessWithInfo ret c of (ok, c) \<Rightarrow>
           if \<not> ok then Some (ret, w, i, m, db)
           else Some (if success_with_info c then SQL_SUCCESS_WITH_INFO else ret, w, i,
                  out_connection in_conn_str out_connection_string buffer_length string_length2_ptr m, db)) }) }) w i m db"

text \<open>\<^verbatim>\<open>vec_in\<close> and \<^verbatim>\<open>vec_out\<close> are the vectors of the converted input and of the output.\<close>

definition SQLDriverConnectW ::
  "('d, 't) storage \<Rightarrow> ('v, 'q, 'db) sql_engine \<Rightarrow> ('d, 'g, 'i) instances \<Rightarrow> connect_options \<Rightarrow> file_system
   \<Rightarrow> ('v, 'd, 't) session_frame \<Rightarrow> addr \<Rightarrow> addr \<Rightarrow> addr \<Rightarrow> addr \<Rightarrow> int \<Rightarrow> addr \<Rightarrow> int \<Rightarrow> addr
   \<Rightarrow> ('v, 'd, 't) driver \<Rightarrow> 'i \<Rightarrow> mem \<Rightarrow> 'db \<Rightarrow> ('v, 'd, 't, 'i, 'db) connect_result" where
  "SQLDriverConnectW st sql inst opts fs sf vec_in vec_out handle in_connection_string string_length1
     out_connection_string buffer_length string_length2_ptr w i m db = do {
     conv \<leftarrow> conv_argument in_connection_string string_length1 m;
     (case conv_store vec_in conv m of (a, m) \<Rightarrow>
      let zeros = utf8_alloc_out_vec buffer_length;
          m = store_bytes vec_out (replicate (length zeros) (CHR 0x00)) m
      in do {
        (ret, w, i, m, db) \<leftarrow> SQLDriverConnect st sql inst opts fs sf handle a (utf8_len_smallint conv)
          (if zeros = [] then nullptr else vec_out) (wrap_s 16 (int (length zeros))) string_length2_ptr w i m db;
        Some (ret, w, i, store_units out_connection_string string_length2_ptr
          (utf16_write_str 16 ret (octets_of (load_bytes vec_out (length zeros) m)) (out_connection_string \<noteq> nullptr)
             buffer_length (string_length2_ptr \<noteq> nullptr)) m, db) }) }"

section \<open>Opening a connection from a connection string\<close>

text \<open>What a connection string asks of the engine: the value of a key, and the options it passes on.\<close>

definition asked :: "(string \<times> string) list \<Rightarrow> string \<Rightarrow> string \<Rightarrow> string" where
  "asked rows key d = (case map_of (rev (map meaning rows)) key of None \<Rightarrow> d | Some v \<Rightarrow> v)"

definition engine_options :: "(string \<times> string) list \<Rightarrow> string \<Rightarrow> string option" where
  "engine_options rows key =
     (if key \<in> {''database'', ''dsn'', SQL_FILE_OPTION, SQL_FILE_SHA256_OPTION, ''enable_external_access''} then None
      else map_of (rev (map meaning rows)) key)"

text \<open>The configuration an instance is opened with: the access to files is restricted last.\<close>

definition configured :: "('d, 'g, 'i) instances \<Rightarrow> (string \<times> string) list \<Rightarrow> string + 'g" where
  "configured inst rows =
     bind_sum (set_option_by_name inst ''duckdb_api'' ''odbc'' (default_config inst)) (\<lambda>g.
     bind_sum (set_options_by_name inst (engine_options rows) g) (\<lambda>g.
     if asked rows ''enable_external_access'' [] \<noteq> []
     then set_option_by_name inst ''enable_external_access'' (asked rows ''enable_external_access'' []) g else Inr g))"

lemma SQL_FILE_not_asked:
  assumes "\<forall>row \<in> set rows. plain_row c row" "key \<in> {SQL_FILE_OPTION, SQL_FILE_SHA256_OPTION}"
  shows "map_of (rev (map meaning rows)) key = None"
proof -
  have "key \<notin> fst ` set (rev (map meaning rows))" using assms by (auto simp: plain_row_def)
  then show ?thesis by (simp add: map_of_eq_None_iff)
qed

lemma open_instance_asked:
  assumes "\<forall>row \<in> set rows. plain_row c0 row" "set_option_by_name inst ''duckdb_api'' ''odbc'' (default_config inst) = Inr g"
    and "config_map c = map_of (rev (map meaning rows))"
  shows "open_instance inst fs database (asked rows ''enable_external_access'' []) (asked rows SQL_FILE_OPTION [])
      (asked rows SQL_FILE_SHA256_OPTION [])
      (erase_options [''database'', ''dsn'', SQL_FILE_OPTION, SQL_FILE_SHA256_OPTION, ''enable_external_access''] c) g i =
    (case configured inst rows of
       Inl msg \<Rightarrow> (Inl msg, i)
     | Inr g' \<Rightarrow> (case get_or_create_instance inst database g' (database \<noteq> IN_MEMORY_PATH) i of
         (Inl msg, i) \<Rightarrow> (Inl msg, i)
       | (Inr p, i) \<Rightarrow> (Inr (\<lparr>db_init_sql = [], conn_init_sql = [], orig_file_text = []\<rparr>, p), i)))"
proof -
  have "config_map (erase_options [''database'', ''dsn'', SQL_FILE_OPTION, SQL_FILE_SHA256_OPTION, ''enable_external_access''] c) =
      engine_options rows"
    using assms(3) by (auto simp: erase_options_def engine_options_def fun_eq_iff)
  moreover have "asked rows SQL_FILE_OPTION [] = []"
    using SQL_FILE_not_asked[OF assms(1)] by (simp add: asked_def)
  ultimately show ?thesis
    by (cases "set_options_by_name inst (engine_options rows) g")
      (auto simp: open_instance_def ReadSQLFile_def configured_def assms(2) Let_def split: sum.split)
qed

text \<open>The connection handle as the string leaves it.\<close>

definition parsed_dbc :: "(string \<times> string) list \<Rightarrow> ('d, 't) OdbcHandleDbc \<Rightarrow> ('d, 't) OdbcHandleDbc" where
  "parsed_dbc rows dbc = SetDatabaseName (asked rows ''database'' IN_MEMORY_PATH) (dbc\<lparr>dbc_dsn := asked rows ''dsn'' []\<rparr>)"

lemma SQLDriverConnect_render:
  assumes "handle \<noteq> nullptr" "dbcs w handle = Some dbc" "ConvertSQLCHARToString p n m = Some (render rows)"
    and rows: "rows \<noteq> []" "\<forall>row \<in> set rows. plain_row (mk_Connect opts []) row"
    and "private_profile opts = None" "set_option_by_name inst ''duckdb_api'' ''odbc'' (default_config inst) = Inr g"
  shows "SQLDriverConnect st sql inst opts fs sf handle p n out len len_ptr w i m db =
    (case (case configured inst rows of
             Inl msg \<Rightarrow> (Inl msg, i)
           | Inr g' \<Rightarrow> get_or_create_instance inst (asked rows ''database'' IN_MEMORY_PATH) g'
               (asked rows ''database'' IN_MEMORY_PATH \<noteq> IN_MEMORY_PATH) i) of
       (Inl msg, i) \<Rightarrow>
         Some (SQL_ERROR, w\<lparr>dbcs := (dbcs w)(handle \<mapsto>
           snd (dbc_error SQL_ERROR ''SQLDriverConnect'' msg ST_IM003 [] (parsed_dbc rows dbc)))\<rparr>, i, m, db)
     | (Inr (q, d, created), i) \<Rightarrow> do {
         w \<leftarrow> set_env_db (dbc_env dbc) q w;
         dbc \<leftarrow> open_connection st d (parsed_dbc rows dbc);
         Some (SQL_SUCCESS, w\<lparr>dbcs := (dbcs w)(handle \<mapsto> dbc)\<rparr>, i, out_connection (render rows) out len len_ptr m, db) })"
proof -
  let ?c = "fold set_row rows (mk_Connect opts [])"
  have c: "GetOptionFromConfigMap key d ?c = asked rows key d" for key d by (simp add: GetOption_parsed asked_def)
  have quiet: "\<not> success_with_info ?c" by (simp add: mk_Connect_def)
  have env: "dbc_env (parsed_dbc rows dbc) = dbc_env dbc" by (simp add: parsed_dbc_def SetDatabaseName_def)
  have call: "SetConnection st sql inst opts fs sf handle ?c
      (w\<lparr>dbcs := (dbcs w)(handle \<mapsto> dbc\<lparr>dbc_dsn := asked rows ''dsn'' []\<rparr>)\<rparr>) i m db =
    (case (case configured inst rows of
             Inl msg \<Rightarrow> (Inl msg, i)
           | Inr g' \<Rightarrow> get_or_create_instance inst (asked rows ''database'' IN_MEMORY_PATH) g'
               (asked rows ''database'' IN_MEMORY_PATH \<noteq> IN_MEMORY_PATH) i) of
       (Inl msg, i) \<Rightarrow>
         Some (SQL_ERROR, w\<lparr>dbcs := (dbcs w)(handle \<mapsto>
           snd (dbc_error SQL_ERROR ''SQLDriverConnect'' msg ST_IM003 [] (parsed_dbc rows dbc)))\<rparr>, i, m, db)
     | (Inr (q, d, created), i) \<Rightarrow> do {
         w \<leftarrow> set_env_db (dbc_env dbc) q w;
         dbc \<leftarrow> open_connection st d (parsed_dbc rows dbc);
         Some (SQL_SUCCESS, w\<lparr>dbcs := (dbcs w)(handle \<mapsto> dbc)\<rparr>, i, m, db) })"
  proof -
    note simps = SetConnection_def ReadFromIniFile_def assms(6,7) c open_instance_asked[OF rows(2) assms(7) config_map_parsed]
      Let_def split_beta set_env_db_def SessionInitSQLFile_IsEmpty_def
    show ?thesis
    proof (cases "configured inst rows")
      case (Inl msg)
      then show ?thesis by (simp add: simps flip: parsed_dbc_def)
    next
      case (Inr g')
      obtain x i1 where x: "get_or_create_instance inst (asked rows ''database'' IN_MEMORY_PATH) g'
          (asked rows ''database'' IN_MEMORY_PATH \<noteq> IN_MEMORY_PATH) i = (x, i1)" by fastforce
      show ?thesis
      proof (cases x)
        case (Inl msg)
        then show ?thesis using Inr x by (simp add: simps flip: parsed_dbc_def)
      next
        case r: (Inr r)
        show ?thesis
        proof (cases "envs w (dbc_env dbc)")
          case None
          then show ?thesis using Inr x r env by (simp add: simps flip: parsed_dbc_def)
        next
          case (Some e)
          then show ?thesis
            using Inr x r env by (cases "open_connection st (fst (snd r)) (parsed_dbc rows dbc)")
              (simp_all add: simps flip: parsed_dbc_def)
        qed
      qed
    qed
  qed
  obtain x i1 where x: "(case configured inst rows of
             Inl msg \<Rightarrow> (Inl msg, i)
           | Inr g' \<Rightarrow> get_or_create_instance inst (asked rows ''database'' IN_MEMORY_PATH) g'
               (asked rows ''database'' IN_MEMORY_PATH \<noteq> IN_MEMORY_PATH) i) = (x, i1)" by fastforce
  have start: "SQLDriverConnect st sql inst opts fs sf handle p n out len len_ptr w i m db = do {
      (ret, w, i, m, db) \<leftarrow> SetConnection st sql inst opts fs sf handle ?c
        (w\<lparr>dbcs := (dbcs w)(handle \<mapsto> dbc\<lparr>dbc_dsn := asked rows ''dsn'' []\<rparr>)\<rparr>) i m db;
      Some (if SQL_SUCCEEDED ret then (ret, w, i, out_connection (render rows) out len len_ptr m, db) else (ret, w, i, m, db)) }"
    using assms(1,2,3) quiet
    by (auto simp: SQLDriverConnect_def before_connection_def ParseInputStr_render[OF rows] c SetSuccessWithInfo_def
        intro!: bind_option_cong)
  show ?thesis
  proof (cases x)
    case (Inl msg)
    then show ?thesis unfolding start call x by simp
  next
    case (Inr r)
    then show ?thesis unfolding start call x
      by (cases r; cases "set_env_db (dbc_env dbc) (fst r) w"; cases "open_connection st (fst (snd r)) (parsed_dbc rows dbc)")
        simp_all
  qed
qed

text \<open>An engine that opens every database, and one connection handle that is not open.\<close>

definition sample_instances :: "(unit, unit, unit) instances" where
  "sample_instances = \<lparr>default_config = (), set_option_by_name = (\<lambda>_ _ g. Inr g), set_options_by_name = (\<lambda>_ g. Inr g),
     get_or_create_instance = (\<lambda>_ _ _ i. (Inr (4, (), True), i))\<rparr>"

definition sample_options :: connect_options where
  "sample_options = \<lparr>option_names = [], candidates_message = \<lambda>_ _. [], private_profile = None\<rparr>"

definition unit_storage :: "(unit, unit) storage" where
  "unit_storage = \<lparr>mt_begin = (\<lambda>_. ()), mt_commit = (\<lambda>_ _. Inr ()), mt_rollback = (\<lambda>_ _. None)\<rparr>"

definition sample_frame :: "(string, unit, unit) session_frame" where
  "sample_frame = \<lparr>sf_junk = sample_junk, sf_stmts = (64, 72),
     sf_query = \<lparr>fr_stmt = 200, fr_query = 8192, fr_sqlstate = 208, fr_native = 216, fr_msg = 300, fr_len = 220\<rparr>\<rparr>"

definition closed_driver :: "(string, unit, unit) driver" where
  "closed_driver = (sample_driver sample_handle)\<lparr>dbcs := [16 \<mapsto> sample_dbc\<lparr>dbc_conn := None\<rparr>]\<rparr>"

definition sample_rows :: "(string \<times> string) list" where
  "sample_rows = [(''Database'', ''a.db'')]"

definition sample_string :: mem where
  "sample_string = store_bytes 4096 (render sample_rows) (\<lambda>_. CHR 0x00)"

lemma sample_string_read: "ConvertSQLCHARToString 4096 14 sample_string = Some (render sample_rows)"
  by (simp add: ConvertSQLCHARToString_def sample_string_def load_stored_prefix sample_rows_def render_def)

lemma sample_rows_plain: "\<forall>row \<in> set sample_rows. plain_row (mk_Connect sample_options []) row"
  by (auto simp: sample_rows_def plain_row_def meaning_def StringUtil_Lower_def CharacterToLower_def TrimString_def IsSpace_def
      IGNORE_KEYS_def SQL_FILE_OPTION_def SQL_FILE_SHA256_OPTION_def mk_Connect_def sample_options_def less_eq_char_def Let_def char_of_def bit_0)

text \<open>
  C8. SQLDriverConnect opens the database of the string, ":memory:" when there is none, with exactly the
  options that are not local to ODBC; only a database in a file comes from the cache. A new connection
  gets the commit mode of its handle; a connection that is open already stays on its old database.
\<close>

theorem driver_connect_opens:
  assumes "handle \<noteq> nullptr" "dbcs w handle = Some dbc" "envs w (dbc_env dbc) = Some env"
    and "ConvertSQLCHARToString p n m = Some (render rows)"
    and "rows \<noteq> []" "\<forall>row \<in> set rows. plain_row (mk_Connect opts []) row" "private_profile opts = None"
    and "configured inst rows = Inr g"
    and "get_or_create_instance inst (asked rows ''database'' IN_MEMORY_PATH) g
      (asked rows ''database'' IN_MEMORY_PATH \<noteq> IN_MEMORY_PATH) i = (Inr (q, d, created), i')"
  shows "\<exists>w' dbc'. SQLDriverConnect st sql inst opts fs sf handle p n out len len_ptr w i m db =
      Some (SQL_SUCCESS, w', i', out_connection (render rows) out len len_ptr m, db) \<and>
    dbcs w' handle = Some dbc' \<and> envs w' (dbc_env dbc) = Some (env\<lparr>env_db := q\<rparr>) \<and>
    GetDataSourceName dbc' = asked rows ''dsn'' [] \<and>
    dbc_conn dbc' = (if dbc_conn dbc = None then Some (snd (SetAutoCommit st (dbc_autocommit dbc) (mk_Connection d)))
                     else dbc_conn dbc)"
proof -
  obtain g0 where g0: "set_option_by_name inst ''duckdb_api'' ''odbc'' (default_config inst) = Inr g0"
    using assms(8) by (auto simp: configured_def split: sum.splits)
  have conn: "dbc_conn (parsed_dbc rows dbc) = dbc_conn dbc" "dbc_autocommit (parsed_dbc rows dbc) = dbc_autocommit dbc"
    "dbc_dsn (parsed_dbc rows dbc) = asked rows ''dsn'' []"
    by (simp_all add: parsed_dbc_def SetDatabaseName_def)
  obtain c where c: "SetAutoCommit st (dbc_autocommit dbc) (mk_Connection d) = (None, c)"
    by (cases "dbc_autocommit dbc") (auto simp: SetAutoCommit_def BeginTransaction_def mk_Connection_def Let_def)
  have "\<exists>dbc'. open_connection st d (parsed_dbc rows dbc) = Some dbc' \<and> dbc_dsn dbc' = asked rows ''dsn'' [] \<and>
      dbc_conn dbc' = (if dbc_conn dbc = None then Some c else dbc_conn dbc)"
    by (cases "dbc_conn dbc") (simp_all add: open_connection_def conn c)
  then show ?thesis
    unfolding SQLDriverConnect_render[OF assms(1,2,4-7) g0]
    using assms(3,8,9) by (auto simp: set_env_db_def GetDataSourceName_def c)
qed

theorem driver_connect_opens_witness:
  "\<exists>w' dbc'. SQLDriverConnect unit_storage sample_sql sample_instances sample_options \<lparr>fs_files = Map.empty, fs_what = []\<rparr> sample_frame
      16 4096 14 nullptr 0 nullptr closed_driver () sample_string [] =
      Some (SQL_SUCCESS, w', (), out_connection (render sample_rows) nullptr 0 nullptr sample_string, []) \<and>
    dbcs w' 16 = Some dbc' \<and> envs w' (dbc_env (sample_dbc\<lparr>dbc_conn := None\<rparr>)) =
      Some (\<lparr>env_diag = mk_OdbcDiagnostic, env_db = 4, odbc_version = SQL_OV_ODBC3, connection_pooling = 0,
        cp_match = 0, output_nts = 1\<rparr>\<lparr>env_db := 4\<rparr>) \<and>
    GetDataSourceName dbc' = asked sample_rows ''dsn'' [] \<and>
    dbc_conn dbc' = (if dbc_conn (sample_dbc\<lparr>dbc_conn := None\<rparr>) = None
      then Some (snd (SetAutoCommit unit_storage (dbc_autocommit (sample_dbc\<lparr>dbc_conn := None\<rparr>)) (mk_Connection ())))
      else dbc_conn (sample_dbc\<lparr>dbc_conn := None\<rparr>))"
  by (rule driver_connect_opens[where rows = sample_rows and g = "()" and created = True and opts = sample_options])
    (simp_all add: sample_string_read sample_rows_plain,
     simp_all add: closed_driver_def sample_driver_def sample_dbc_def sample_rows_def sample_options_def configured_def sample_instances_def)

text \<open>
  When the engine refuses the configuration or the database, SQLDriverConnect answers with an error:
  nothing is opened, the environment keeps its database, no memory of the client is written.
\<close>

theorem driver_connect_refused:
  assumes "handle \<noteq> nullptr" "dbcs w handle = Some dbc"
    and "ConvertSQLCHARToString p n m = Some (render rows)"
    and "rows \<noteq> []" "\<forall>row \<in> set rows. plain_row (mk_Connect opts []) row" "private_profile opts = None"
    and "set_option_by_name inst ''duckdb_api'' ''odbc'' (default_config inst) = Inr g0"
    and "configured inst rows = Inl msg \<or> (\<exists>g. configured inst rows = Inr g \<and>
      fst (get_or_create_instance inst (asked rows ''database'' IN_MEMORY_PATH) g
        (asked rows ''database'' IN_MEMORY_PATH \<noteq> IN_MEMORY_PATH) i) = Inl msg)"
  shows "\<exists>w' dbc' i'. SQLDriverConnect st sql inst opts fs sf handle p n out len len_ptr w i m db =
      Some (SQL_ERROR, w', i', m, db) \<and>
    envs w' = envs w \<and> stmts w' = stmts w \<and> descs w' = descs w \<and> dbcs w' = (dbcs w)(handle \<mapsto> dbc') \<and>
    dbc_conn dbc' = dbc_conn dbc \<and> sql_diag_sqlstate (last (diag_records (dbc_diag dbc'))) = ''IM003''"
proof -
  have conn: "dbc_conn (parsed_dbc rows dbc) = dbc_conn dbc" "dbc_diag (parsed_dbc rows dbc) = dbc_diag dbc"
    by (simp_all add: parsed_dbc_def SetDatabaseName_def)
  let ?dbc' = "snd (dbc_error SQL_ERROR ''SQLDriverConnect'' msg ST_IM003 [] (parsed_dbc rows dbc))"
  have state: "sql_diag_sqlstate (last (diag_records (dbc_diag ?dbc'))) = ''IM003''"
    by (simp add: dbc_error_def SetDiagnosticRecord_area AddDiagRecord_def MAP_ODBC_SQL_STATES_def)
  obtain i' where r: "(case configured inst rows of
             Inl msg \<Rightarrow> (Inl msg, i)
           | Inr g' \<Rightarrow> get_or_create_instance inst (asked rows ''database'' IN_MEMORY_PATH) g'
               (asked rows ''database'' IN_MEMORY_PATH \<noteq> IN_MEMORY_PATH) i) = (Inl msg, i')"
    using assms(8) by (cases "configured inst rows") (auto simp: prod_eq_iff)
  then show ?thesis
    unfolding SQLDriverConnect_render[OF assms(1-7)] r
    by (intro exI[of _ i'] exI[of _ "w\<lparr>dbcs := (dbcs w)(handle \<mapsto> ?dbc')\<rparr>"] exI[of _ ?dbc']) (simp add: conn state)
qed

definition refusing_instances :: "(unit, unit, unit) instances" where
  "refusing_instances = sample_instances\<lparr>get_or_create_instance := (\<lambda>_ _ _ i. (Inl ''locked'', i))\<rparr>"

theorem driver_connect_refused_witness:
  "\<exists>w' dbc' i'. SQLDriverConnect unit_storage sample_sql refusing_instances sample_options \<lparr>fs_files = Map.empty, fs_what = []\<rparr>
      sample_frame 16 4096 14 nullptr 0 nullptr closed_driver () sample_string [] =
      Some (SQL_ERROR, w', i', sample_string, []) \<and>
    envs w' = envs closed_driver \<and> stmts w' = stmts closed_driver \<and> descs w' = descs closed_driver \<and>
    dbcs w' = (dbcs closed_driver)(16 \<mapsto> dbc') \<and>
    dbc_conn dbc' = dbc_conn (sample_dbc\<lparr>dbc_conn := None\<rparr>) \<and>
    sql_diag_sqlstate (last (diag_records (dbc_diag dbc'))) = ''IM003''"
  by (rule driver_connect_refused[where rows = sample_rows and opts = sample_options and msg = "''locked''" and ?g0.0 = "()"])
    (simp_all add: sample_string_read sample_rows_plain,
     simp_all add: closed_driver_def sample_rows_def sample_options_def configured_def sample_instances_def refusing_instances_def)

end
