(* ===== verification/Info_Api.thy ===== *)
theory Info_Api
  imports Info_Constants Connection_Api Api_Stubs
begin

text \<open>
  \<^verbatim>\<open>src/odbc_api/info_api.cpp\<close> and \<^verbatim>\<open>IsNumericInfoType\<close> of \<^verbatim>\<open>src/odbc_driver/api_info.cpp\<close>: SQLGetInfo with the
  table of its constant answers and the four that depend on the connection, SQLGetFunctions,
  SQLDataSources and SQLDrivers.
\<close>

section \<open>Constant answers\<close>

text \<open>
  A character string, or a number with the width it is stored in; \<^verbatim>\<open>Nothing\<close> is the answer of a case that
  returns without storing one.
\<close>

datatype info_answer = Text string | UShort int | Short int | UInteger int | Nothing

definition flags :: "int list \<Rightarrow> int" where
  "flags vs = fold (OR) vs 0"

text \<open>The cases of the switch in the order of the code.\<close>

definition info_answers1 :: "(int \<times> info_answer) list" where
  "info_answers1 = [
     (SQL_ACCESSIBLE_PROCEDURES, Text ''N''),
     (SQL_ACCESSIBLE_TABLES, Text ''Y''),
     (SQL_ACTIVE_ENVIRONMENTS, UShort 0),
     (SQL_AGGREGATE_FUNCTIONS, UInteger (flags [
        SQL_AF_ALL, SQL_AF_AVG, SQL_AF_COUNT, SQL_AF_DISTINCT, SQL_AF_MAX, SQL_AF_MIN, SQL_AF_SUM])),
     (SQL_ALTER_DOMAIN, UInteger 0),
     (SQL_ALTER_TABLE, UInteger (flags [
        SQL_AT_ADD_COLUMN_COLLATION, SQL_AT_ADD_COLUMN_DEFAULT, SQL_AT_ADD_COLUMN_SINGLE,
        SQL_AT_ADD_CONSTRAINT, SQL_AT_ADD_TABLE_CONSTRAINT, SQL_AT_DROP_COLUMN_DEFAULT,
        SQL_AT_SET_COLUMN_DEFAULT])),
     (SQL_ASYNC_DBC_FUNCTIONS, UInteger SQL_ASYNC_DBC_NOT_CAPABLE),
     (SQL_ASYNC_MODE, UInteger SQL_AM_NONE),
     (SQL_ASYNC_NOTIFICATION, UInteger SQL_ASYNC_NOTIFICATION_NOT_CAPABLE),
     (SQL_BATCH_ROW_COUNT, UInteger SQL_BRC_EXPLICIT),
     (SQL_BATCH_SUPPORT, UInteger (flags [
        SQL_BS_SELECT_EXPLICIT, SQL_BS_ROW_COUNT_EXPLICIT])),
     (SQL_BOOKMARK_PERSISTENCE, Nothing),
     (SQL_CATALOG_LOCATION, UShort SQL_CL_START),
     (SQL_CATALOG_NAME, Text ''Y''),
     (SQL_CATALOG_NAME_SEPARATOR, Text ''.''),
     (SQL_CATALOG_TERM, Text []),
     (SQL_CATALOG_USAGE, UInteger (flags [
        SQL_CU_DML_STATEMENTS, SQL_CU_TABLE_DEFINITION])),
     (SQL_COLLATION_SEQ, Text ''UTF-8''),
     (SQL_COLUMN_ALIAS, Text ''Y''),
     (SQL_CONCAT_NULL_BEHAVIOR, UShort SQL_CB_NON_NULL),
     (SQL_CONVERT_TINYINT, UInteger (flags [
        SQL_CVT_BIGINT, SQL_CVT_BIT, SQL_CVT_CHAR, SQL_CVT_DECIMAL, SQL_CVT_DOUBLE, SQL_CVT_FLOAT,
        SQL_CVT_INTEGER, SQL_CVT_LONGVARCHAR, SQL_CVT_NUMERIC, SQL_CVT_REAL, SQL_CVT_SMALLINT, SQL_CVT_TINYINT,
        SQL_CVT_VARCHAR])),
     (SQL_CONVERT_SMALLINT, UInteger (flags [
        SQL_CVT_BIGINT, SQL_CVT_BIT, SQL_CVT_CHAR, SQL_CVT_DECIMAL, SQL_CVT_DOUBLE, SQL_CVT_FLOAT,
        SQL_CVT_INTEGER, SQL_CVT_LONGVARCHAR, SQL_CVT_NUMERIC, SQL_CVT_REAL, SQL_CVT_SMALLINT, SQL_CVT_TINYINT,
        SQL_CVT_VARCHAR])),
     (SQL_CONVERT_INTEGER, UInteger (flags [
        SQL_CVT_BIGINT, SQL_CVT_BIT, SQL_CVT_CHAR, SQL_CVT_DECIMAL, SQL_CVT_DOUBLE, SQL_CVT_FLOAT,
        SQL_CVT_INTEGER, SQL_CVT_LONGVARCHAR, SQL_CVT_NUMERIC, SQL_CVT_REAL, SQL_CVT_SMALLINT, SQL_CVT_TINYINT,
        SQL_CVT_VARCHAR])),
     (SQL_CONVERT_BIGINT, UInteger (flags [
        SQL_CVT_BIGINT, SQL_CVT_BIT, SQL_CVT_CHAR, SQL_CVT_DECIMAL, SQL_CVT_DOUBLE, SQL_CVT_FLOAT,
        SQL_CVT_INTEGER, SQL_CVT_LONGVARCHAR, SQL_CVT_NUMERIC, SQL_CVT_REAL, SQL_CVT_SMALLINT, SQL_CVT_TINYINT,
        SQL_CVT_VARCHAR])),
     (SQL_CONVERT_BINARY, UInteger (flags [
        SQL_CVT_BINARY, SQL_CVT_CHAR, SQL_CVT_LONGVARBINARY, SQL_CVT_LONGVARCHAR, SQL_CVT_VARBINARY,
        SQL_CVT_VARCHAR])),
     (SQL_CONVERT_LONGVARBINARY, UInteger (flags [
        SQL_CVT_BINARY, SQL_CVT_CHAR, SQL_CVT_LONGVARBINARY, SQL_CVT_LONGVARCHAR, SQL_CVT_VARBINARY,
        SQL_CVT_VARCHAR])),
     (SQL_CONVERT_VARBINARY, UInteger (flags [
        SQL_CVT_BINARY, SQL_CVT_CHAR, SQL_CVT_LONGVARBINARY, SQL_CVT_LONGVARCHAR, SQL_CVT_VARBINARY,
        SQL_CVT_VARCHAR])),
     (SQL_CONVERT_BIT, UInteger (flags [
        SQL_CVT_BIGINT, SQL_CVT_BIT, SQL_CVT_CHAR, SQL_CVT_INTEGER, SQL_CVT_LONGVARCHAR, SQL_CVT_SMALLINT,
        SQL_CVT_TINYINT, SQL_CVT_VARCHAR]))]"

definition info_answers2 :: "(int \<times> info_answer) list" where
  "info_answers2 = [
     (SQL_CONVERT_CHAR, UInteger (flags [
        SQL_CVT_BIGINT, SQL_CVT_BINARY, SQL_CVT_BIT, SQL_CVT_CHAR, SQL_CVT_DATE, SQL_CVT_DECIMAL,
        SQL_CVT_DOUBLE, SQL_CVT_FLOAT, SQL_CVT_INTEGER, SQL_CVT_INTERVAL_DAY_TIME, SQL_CVT_INTERVAL_YEAR_MONTH,
        SQL_CVT_LONGVARBINARY, SQL_CVT_LONGVARCHAR, SQL_CVT_NUMERIC, SQL_CVT_REAL, SQL_CVT_SMALLINT,
        SQL_CVT_TIME, SQL_CVT_TIMESTAMP, SQL_CVT_TINYINT, SQL_CVT_VARBINARY, SQL_CVT_VARCHAR])),
     (SQL_CONVERT_VARCHAR, UInteger (flags [
        SQL_CVT_BIGINT, SQL_CVT_BINARY, SQL_CVT_BIT, SQL_CVT_CHAR, SQL_CVT_DATE, SQL_CVT_DECIMAL,
        SQL_CVT_DOUBLE, SQL_CVT_FLOAT, SQL_CVT_INTEGER, SQL_CVT_INTERVAL_DAY_TIME, SQL_CVT_INTERVAL_YEAR_MONTH,
        SQL_CVT_LONGVARBINARY, SQL_CVT_LONGVARCHAR, SQL_CVT_NUMERIC, SQL_CVT_REAL, SQL_CVT_SMALLINT,
        SQL_CVT_TIME, SQL_CVT_TIMESTAMP, SQL_CVT_TINYINT, SQL_CVT_VARBINARY, SQL_CVT_VARCHAR])),
     (SQL_CONVERT_LONGVARCHAR, UInteger (flags [
        SQL_CVT_BIGINT, SQL_CVT_BINARY, SQL_CVT_BIT, SQL_CVT_CHAR, SQL_CVT_DATE, SQL_CVT_DECIMAL,
        SQL_CVT_DOUBLE, SQL_CVT_FLOAT, SQL_CVT_INTEGER, SQL_CVT_INTERVAL_DAY_TIME, SQL_CVT_INTERVAL_YEAR_MONTH,
        SQL_CVT_LONGVARBINARY, SQL_CVT_LONGVARCHAR, SQL_CVT_NUMERIC, SQL_CVT_REAL, SQL_CVT_SMALLINT,
        SQL_CVT_TIME, SQL_CVT_TIMESTAMP, SQL_CVT_TINYINT, SQL_CVT_VARBINARY, SQL_CVT_VARCHAR])),
     (SQL_CONVERT_GUID, UInteger 0),
     (SQL_CONVERT_DATE, UInteger (flags [
        SQL_CVT_CHAR, SQL_CVT_DATE, SQL_CVT_LONGVARCHAR, SQL_CVT_TIMESTAMP, SQL_CVT_VARCHAR])),
     (SQL_CONVERT_DECIMAL, UInteger (flags [
        SQL_CVT_BIGINT, SQL_CVT_CHAR, SQL_CVT_DECIMAL, SQL_CVT_DOUBLE, SQL_CVT_FLOAT, SQL_CVT_INTEGER,
        SQL_CVT_INTERVAL_DAY_TIME, SQL_CVT_LONGVARCHAR, SQL_CVT_NUMERIC, SQL_CVT_REAL, SQL_CVT_SMALLINT,
        SQL_CVT_TINYINT, SQL_CVT_VARCHAR])),
     (SQL_CONVERT_NUMERIC, UInteger (flags [
        SQL_CVT_BIGINT, SQL_CVT_CHAR, SQL_CVT_DECIMAL, SQL_CVT_DOUBLE, SQL_CVT_FLOAT, SQL_CVT_INTEGER,
        SQL_CVT_INTERVAL_DAY_TIME, SQL_CVT_LONGVARCHAR, SQL_CVT_NUMERIC, SQL_CVT_REAL, SQL_CVT_SMALLINT,
        SQL_CVT_TINYINT, SQL_CVT_VARCHAR])),
     (SQL_CONVERT_DOUBLE, UInteger (flags [
        SQL_CVT_BIGINT, SQL_CVT_CHAR, SQL_CVT_DECIMAL, SQL_CVT_DOUBLE, SQL_CVT_FLOAT, SQL_CVT_INTEGER,
        SQL_CVT_LONGVARCHAR, SQL_CVT_NUMERIC, SQL_CVT_REAL, SQL_CVT_SMALLINT, SQL_CVT_TINYINT, SQL_CVT_VARCHAR])),
     (SQL_CONVERT_REAL, UInteger (flags [
        SQL_CVT_BIGINT, SQL_CVT_CHAR, SQL_CVT_DECIMAL, SQL_CVT_DOUBLE, SQL_CVT_FLOAT, SQL_CVT_INTEGER,
        SQL_CVT_LONGVARCHAR, SQL_CVT_NUMERIC, SQL_CVT_REAL, SQL_CVT_SMALLINT, SQL_CVT_TINYINT, SQL_CVT_VARCHAR])),
     (SQL_CONVERT_FLOAT, UInteger (flags [
        SQL_CVT_BIGINT, SQL_CVT_CHAR, SQL_CVT_DECIMAL, SQL_CVT_DOUBLE, SQL_CVT_FLOAT, SQL_CVT_INTEGER,
        SQL_CVT_LONGVARCHAR, SQL_CVT_NUMERIC, SQL_CVT_REAL, SQL_CVT_SMALLINT, SQL_CVT_TINYINT, SQL_CVT_VARCHAR])),
     (SQL_CONVERT_INTERVAL_DAY_TIME, UInteger (flags [
        SQL_CVT_BIGINT, SQL_CVT_CHAR, SQL_CVT_INTEGER, SQL_CVT_INTERVAL_DAY_TIME, SQL_CVT_LONGVARCHAR,
        SQL_CVT_SMALLINT, SQL_CVT_TIME, SQL_CVT_TINYINT, SQL_CVT_VARCHAR])),
     (SQL_CONVERT_INTERVAL_YEAR_MONTH, UInteger (flags [
        SQL_CVT_BIGINT, SQL_CVT_CHAR, SQL_CVT_INTEGER, SQL_CVT_INTERVAL_YEAR_MONTH, SQL_CVT_LONGVARCHAR,
        SQL_CVT_SMALLINT, SQL_CVT_TINYINT, SQL_CVT_VARCHAR])),
     (SQL_CONVERT_TIME, UInteger (flags [
        SQL_CVT_CHAR, SQL_CVT_INTERVAL_DAY_TIME, SQL_CVT_LONGVARCHAR, SQL_CVT_TIME, SQL_CVT_VARCHAR])),
     (SQL_CONVERT_TIMESTAMP, UInteger (flags [
        SQL_CVT_CHAR, SQL_CVT_DATE, SQL_CVT_LONGVARCHAR, SQL_CVT_TIME, SQL_CVT_TIMESTAMP, SQL_CVT_VARCHAR])),
     (SQL_CONVERT_FUNCTIONS, UInteger SQL_FN_CVT_CAST),
     (SQL_CORRELATION_NAME, UShort SQL_CN_ANY),
     (SQL_CONVERT_WCHAR, UInteger 0),
     (SQL_CONVERT_WLONGVARCHAR, UInteger 0),
     (SQL_CONVERT_WVARCHAR, UInteger 0),
     (SQL_CREATE_ASSERTION, UInteger 0),
     (SQL_CREATE_CHARACTER_SET, UInteger 0),
     (SQL_CREATE_COLLATION, UInteger 0),
     (SQL_CREATE_DOMAIN, UInteger 0),
     (SQL_CREATE_TRANSLATION, UInteger 0),
     (SQL_CREATE_SCHEMA, UInteger SQL_CS_CREATE_SCHEMA),
     (SQL_CREATE_TABLE, UInteger (flags [
        SQL_CT_COLUMN_CONSTRAINT, SQL_CT_COLUMN_DEFAULT, SQL_CT_CONSTRAINT_NAME_DEFINITION,
        SQL_CT_CREATE_TABLE, SQL_CT_LOCAL_TEMPORARY, SQL_CT_TABLE_CONSTRAINT, SQL_CT_COLUMN_COLLATION])),
     (SQL_CREATE_VIEW, UInteger (flags [
        SQL_CV_CREATE_VIEW, SQL_CV_CHECK_OPTION])),
     (SQL_CURSOR_COMMIT_BEHAVIOR, UShort SQL_CB_PRESERVE),
     (SQL_CURSOR_ROLLBACK_BEHAVIOR, UShort SQL_CB_CLOSE),
     (SQL_CURSOR_SENSITIVITY, UInteger SQL_INSENSITIVE)]"

definition info_answers3 :: "(int \<times> info_answer) list" where
  "info_answers3 = [
     (SQL_DATA_SOURCE_READ_ONLY, Text ''N'')]"

definition info_answers4 :: "(int \<times> info_answer) list" where
  "info_answers4 = [
     (SQL_DATETIME_LITERALS, UInteger (flags [
        SQL_DL_SQL92_DATE, SQL_DL_SQL92_TIME, SQL_DL_SQL92_TIMESTAMP, SQL_DL_SQL92_INTERVAL_YEAR,
        SQL_DL_SQL92_INTERVAL_MONTH, SQL_DL_SQL92_INTERVAL_DAY, SQL_DL_SQL92_INTERVAL_HOUR,
        SQL_DL_SQL92_INTERVAL_MINUTE, SQL_DL_SQL92_INTERVAL_SECOND, SQL_DL_SQL92_INTERVAL_YEAR_TO_MONTH,
        SQL_DL_SQL92_INTERVAL_DAY_TO_HOUR, SQL_DL_SQL92_INTERVAL_DAY_TO_MINUTE,
        SQL_DL_SQL92_INTERVAL_DAY_TO_SECOND, SQL_DL_SQL92_INTERVAL_HOUR_TO_MINUTE,
        SQL_DL_SQL92_INTERVAL_HOUR_TO_SECOND, SQL_DL_SQL92_INTERVAL_MINUTE_TO_SECOND])),
     (SQL_DRIVER_NAME, Text ''DuckDB''),
     (SQL_DBMS_NAME, Text ''DuckDB'')]"

definition info_answers5 :: "(int \<times> info_answer) list" where
  "info_answers5 = [
     (SQL_DDL_INDEX, UInteger 0),
     (SQL_DEFAULT_TXN_ISOLATION, UInteger SQL_TXN_SERIALIZABLE),
     (SQL_DESCRIBE_PARAMETER, Text ''Y''),
     (SQL_DM_VER, Text (to_string SQL_SPEC_MAJOR @ ''.'' @ to_string SQL_SPEC_MINOR @ ''.####.####'')),
     (SQL_DRIVER_AWARE_POOLING_SUPPORTED, UInteger SQL_DRIVER_AWARE_POOLING_NOT_CAPABLE),
     (SQL_DRIVER_ODBC_VER, Text ''03.51''),
     (SQL_DRIVER_VER, Text ''03.51.0000''),
     (SQL_DROP_ASSERTION, UInteger 0),
     (SQL_DROP_CHARACTER_SET, UInteger 0),
     (SQL_DROP_COLLATION, UInteger 0),
     (SQL_DROP_DOMAIN, UInteger 0),
     (SQL_DROP_SCHEMA, UInteger (flags [
        SQL_DS_DROP_SCHEMA, SQL_DS_CASCADE, SQL_DS_RESTRICT])),
     (SQL_DROP_TABLE, UInteger (flags [
        SQL_DT_DROP_TABLE, SQL_DT_CASCADE, SQL_DT_RESTRICT])),
     (SQL_DROP_TRANSLATION, UInteger 0),
     (SQL_DROP_VIEW, UInteger (flags [
        SQL_DV_DROP_VIEW, SQL_DV_CASCADE, SQL_DV_RESTRICT])),
     (SQL_DYNAMIC_CURSOR_ATTRIBUTES1, UInteger (flags [
        SQL_CA1_ABSOLUTE, SQL_CA1_NEXT, SQL_CA1_RELATIVE])),
     (SQL_DYNAMIC_CURSOR_ATTRIBUTES2, UInteger 0),
     (SQL_EXPRESSIONS_IN_ORDERBY, Text ''Y''),
     (SQL_FILE_USAGE, UShort SQL_FILE_NOT_SUPPORTED),
     (SQL_FORWARD_ONLY_CURSOR_ATTRIBUTES1, UInteger SQL_CA1_NEXT),
     (SQL_FORWARD_ONLY_CURSOR_ATTRIBUTES2, UInteger 0),
     (SQL_GETDATA_EXTENSIONS, UInteger (flags [
        SQL_GD_ANY_COLUMN, SQL_GD_ANY_ORDER, SQL_GD_BOUND, SQL_GD_BLOCK])),
     (SQL_GROUP_BY, UShort SQL_GB_NO_RELATION),
     (SQL_IDENTIFIER_CASE, UShort SQL_IC_LOWER),
     (SQL_IDENTIFIER_QUOTE_CHAR, Text [CHR 0x22]),
     (SQL_INDEX_KEYWORDS, UInteger SQL_IK_NONE),
     (SQL_INFO_SCHEMA_VIEWS, UInteger 0),
     (SQL_INSERT_STATEMENT, UInteger SQL_IS_INSERT_LITERALS),
     (SQL_INTEGRITY, Text ''N'')]"

definition info_answers6 :: "(int \<times> info_answer) list" where
  "info_answers6 = [
     (SQL_KEYSET_CURSOR_ATTRIBUTES1, UInteger (flags [
        SQL_CA1_ABSOLUTE, SQL_CA1_NEXT, SQL_CA1_RELATIVE])),
     (SQL_KEYSET_CURSOR_ATTRIBUTES2, UInteger 0)]"

definition info_answers7 :: "(int \<times> info_answer) list" where
  "info_answers7 = [
     (SQL_LIKE_ESCAPE_CLAUSE, Text ''Y''),
     (SQL_MAX_ASYNC_CONCURRENT_STATEMENTS, UInteger 0),
     (SQL_MAX_BINARY_LITERAL_LEN, UInteger 0),
     (SQL_MAX_CHAR_LITERAL_LEN, UInteger 0),
     (SQL_MAX_INDEX_SIZE, UInteger 0),
     (SQL_MAX_ROW_SIZE, UInteger 0),
     (SQL_MAX_STATEMENT_LEN, UInteger 0),
     (SQL_MAX_CATALOG_NAME_LEN, UShort 0),
     (SQL_MAX_COLUMN_NAME_LEN, UShort 0),
     (SQL_MAX_COLUMNS_IN_GROUP_BY, UShort 0),
     (SQL_MAX_COLUMNS_IN_INDEX, UShort 0),
     (SQL_MAX_COLUMNS_IN_ORDER_BY, UShort 0),
     (SQL_MAX_COLUMNS_IN_SELECT, UShort 0),
     (SQL_MAX_COLUMNS_IN_TABLE, UShort 0),
     (SQL_MAX_CONCURRENT_ACTIVITIES, UShort 0),
     (SQL_MAX_CURSOR_NAME_LEN, UShort 0),
     (SQL_MAX_IDENTIFIER_LEN, UShort 0),
     (SQL_MAX_PROCEDURE_NAME_LEN, UShort 0),
     (SQL_MAX_SCHEMA_NAME_LEN, UShort 0),
     (SQL_MAX_TABLE_NAME_LEN, UShort 0),
     (SQL_MAX_TABLES_IN_SELECT, UShort 0),
     (SQL_MAX_USER_NAME_LEN, UShort 0),
     (SQL_MAX_DRIVER_CONNECTIONS, UShort 1),
     (SQL_MAX_ROW_SIZE_INCLUDES_LONG, Text ''Y''),
     (SQL_MULT_RESULT_SETS, Text ''N''),
     (SQL_MULTIPLE_ACTIVE_TXN, Text ''Y''),
     (SQL_NEED_LONG_DATA_LEN, Text ''N''),
     (SQL_NON_NULLABLE_COLUMNS, UShort SQL_NNC_NON_NULL),
     (SQL_NULL_COLLATION, UShort SQL_NC_START),
     (SQL_NUMERIC_FUNCTIONS, UInteger (flags [
        SQL_FN_NUM_ABS, SQL_FN_NUM_ACOS, SQL_FN_NUM_ASIN, SQL_FN_NUM_ATAN, SQL_FN_NUM_ATAN2,
        SQL_FN_NUM_CEILING, SQL_FN_NUM_COS, SQL_FN_NUM_COT, SQL_FN_NUM_DEGREES, SQL_FN_NUM_EXP,
        SQL_FN_NUM_FLOOR, SQL_FN_NUM_LOG, SQL_FN_NUM_LOG10, SQL_FN_NUM_MOD, SQL_FN_NUM_PI, SQL_FN_NUM_POWER,
        SQL_FN_NUM_RADIANS, SQL_FN_NUM_ROUND, SQL_FN_NUM_SIGN, SQL_FN_NUM_SIN, SQL_FN_NUM_SQRT, SQL_FN_NUM_TAN])),
     (SQL_ODBC_INTERFACE_CONFORMANCE, UInteger SQL_OIC_CORE),
     (SQL_ODBC_API_CONFORMANCE, Short SQL_OAC_LEVEL1),
     (SQL_OJ_CAPABILITIES, UInteger (flags [
        SQL_OJ_LEFT, SQL_OJ_RIGHT, SQL_OJ_FULL, SQL_OJ_INNER, SQL_OJ_ALL_COMPARISON_OPS])),
     (SQL_ORDER_BY_COLUMNS_IN_SELECT, Text ''Y''),
     (SQL_PARAM_ARRAY_ROW_COUNTS, UInteger SQL_PARC_BATCH),
     (SQL_PARAM_ARRAY_SELECTS, UInteger SQL_PAS_BATCH),
     (SQL_POS_OPERATIONS, UInteger 0),
     (SQL_PROCEDURE_TERM, Text []),
     (SQL_PROCEDURES, Text ''N''),
     (SQL_QUOTED_IDENTIFIER_CASE, UShort SQL_IC_SENSITIVE),
     (SQL_ROW_UPDATES, Text ''N''),
     (SQL_SCHEMA_TERM, Text ''schema''),
     (SQL_SCHEMA_USAGE, UInteger (flags [
        SQL_SU_DML_STATEMENTS, SQL_SU_TABLE_DEFINITION])),
     (SQL_SCROLL_OPTIONS, UInteger SQL_SCROLL_OPTIONS),
     (SQL_SEARCH_PATTERN_ESCAPE, Text [CHR 0x5C])]"

definition info_answers8 :: "(int \<times> info_answer) list" where
  "info_answers8 = [
     (SQL_SERVER_NAME, Text []),
     (SQL_SPECIAL_CHARACTERS, Text (''!%&'' @ [CHR 0x27] @ ''()*+,-./;:<=>?@[]^{}|~'')),
     (SQL_SQL_CONFORMANCE, UInteger SQL_SC_SQL92_ENTRY),
     (SQL_SQL92_DATETIME_FUNCTIONS, UInteger (flags [
        SQL_SDF_CURRENT_DATE, SQL_SDF_CURRENT_TIME, SQL_SDF_CURRENT_TIMESTAMP])),
     (SQL_SQL92_FOREIGN_KEY_DELETE_RULE, UInteger 0),
     (SQL_SQL92_FOREIGN_KEY_UPDATE_RULE, UInteger 0),
     (SQL_SQL92_GRANT, UInteger 0),
     (SQL_SQL92_NUMERIC_VALUE_FUNCTIONS, UInteger (flags [
        SQL_SNVF_BIT_LENGTH, SQL_SNVF_EXTRACT, SQL_SNVF_OCTET_LENGTH, SQL_SNVF_POSITION])),
     (SQL_SQL92_PREDICATES, UInteger (flags [
        SQL_SP_BETWEEN, SQL_SP_COMPARISON, SQL_SP_EXISTS, SQL_SP_IN, SQL_SP_ISNOTNULL, SQL_SP_ISNULL,
        SQL_SP_LIKE])),
     (SQL_SQL92_RELATIONAL_JOIN_OPERATORS, UInteger (flags [
        SQL_SRJO_CROSS_JOIN, SQL_SRJO_FULL_OUTER_JOIN, SQL_SRJO_INNER_JOIN, SQL_SRJO_LEFT_OUTER_JOIN,
        SQL_SRJO_NATURAL_JOIN, SQL_SRJO_RIGHT_OUTER_JOIN])),
     (SQL_SQL92_REVOKE, UInteger 0),
     (SQL_SQL92_ROW_VALUE_CONSTRUCTOR, UInteger (flags [
        SQL_SRVC_VALUE_EXPRESSION, SQL_SRVC_NULL, SQL_SRVC_DEFAULT, SQL_SRVC_ROW_SUBQUERY])),
     (SQL_SQL92_STRING_FUNCTIONS, UInteger (flags [
        SQL_SSF_CONVERT, SQL_SSF_LOWER, SQL_SSF_UPPER, SQL_SSF_SUBSTRING, SQL_SSF_TRIM_BOTH,
        SQL_SSF_TRIM_LEADING, SQL_SSF_TRIM_TRAILING])),
     (SQL_SQL92_VALUE_EXPRESSIONS, UInteger (flags [
        SQL_SVE_CASE, SQL_SVE_CAST, SQL_SVE_COALESCE, SQL_SVE_NULLIF])),
     (SQL_STANDARD_CLI_CONFORMANCE, UInteger 0),
     (SQL_STATIC_CURSOR_ATTRIBUTES1, UInteger (flags [
        SQL_CA1_NEXT, SQL_CA1_ABSOLUTE, SQL_CA1_RELATIVE])),
     (SQL_STATIC_CURSOR_ATTRIBUTES2, UInteger 0),
     (SQL_STRING_FUNCTIONS, UInteger (flags [
        SQL_FN_STR_ASCII, SQL_FN_STR_BIT_LENGTH, SQL_FN_STR_CONCAT, SQL_FN_STR_LCASE, SQL_FN_STR_LEFT,
        SQL_FN_STR_LENGTH, SQL_FN_STR_LOCATE, SQL_FN_STR_LTRIM, SQL_FN_STR_REPEAT, SQL_FN_STR_REPLACE,
        SQL_FN_STR_RIGHT, SQL_FN_STR_RTRIM, SQL_FN_STR_SUBSTRING, SQL_FN_STR_UCASE])),
     (SQL_SUBQUERIES, UInteger (flags [
        SQL_SQ_CORRELATED_SUBQUERIES, SQL_SQ_COMPARISON, SQL_SQ_EXISTS, SQL_SQ_IN, SQL_SQ_QUANTIFIED])),
     (SQL_SYSTEM_FUNCTIONS, UInteger 0),
     (SQL_TABLE_TERM, Text ''table''),
     (SQL_TIMEDATE_ADD_INTERVALS, UInteger (flags [
        SQL_FN_TSI_FRAC_SECOND, SQL_FN_TSI_SECOND, SQL_FN_TSI_MINUTE, SQL_FN_TSI_HOUR, SQL_FN_TSI_DAY,
        SQL_FN_TSI_WEEK, SQL_FN_TSI_MONTH, SQL_FN_TSI_QUARTER, SQL_FN_TSI_YEAR])),
     (SQL_TIMEDATE_DIFF_INTERVALS, UInteger (flags [
        SQL_FN_TSI_FRAC_SECOND, SQL_FN_TSI_SECOND, SQL_FN_TSI_MINUTE, SQL_FN_TSI_HOUR, SQL_FN_TSI_DAY,
        SQL_FN_TSI_WEEK, SQL_FN_TSI_MONTH, SQL_FN_TSI_QUARTER, SQL_FN_TSI_YEAR])),
     (SQL_TIMEDATE_FUNCTIONS, UInteger (flags [
        SQL_FN_TD_CURRENT_DATE, SQL_FN_TD_CURRENT_TIME, SQL_FN_TD_CURRENT_TIMESTAMP, SQL_FN_TD_DAYNAME,
        SQL_FN_TD_DAYOFMONTH, SQL_FN_TD_DAYOFWEEK, SQL_FN_TD_DAYOFYEAR, SQL_FN_TD_EXTRACT, SQL_FN_TD_HOUR,
        SQL_FN_TD_MINUTE, SQL_FN_TD_MONTH, SQL_FN_TD_MONTHNAME, SQL_FN_TD_NOW, SQL_FN_TD_QUARTER,
        SQL_FN_TD_SECOND, SQL_FN_TD_WEEK, SQL_FN_TD_YEAR])),
     (SQL_TXN_CAPABLE, UShort SQL_TC_ALL),
     (SQL_TXN_ISOLATION_OPTION, UInteger SQL_TXN_SERIALIZABLE),
     (SQL_UNION, UInteger (flags [
        SQL_U_UNION, SQL_U_UNION_ALL])),
     (SQL_USER_NAME, Text []),
     (SQL_XOPEN_CLI_YEAR, Text []),
     (SQL_DTC_TRANSACTION_COST, UInteger 0),
     (SQL_RETURN_ESCAPE_CLAUSE, UInteger 0)]"

definition info_answers :: "(int \<times> info_answer) list" where
  "info_answers = info_answers1 @ info_answers2 @ info_answers3 @ info_answers4 @ info_answers5 @ info_answers6 @ info_answers7 @ info_answers8"

definition info_answer :: "int \<Rightarrow> info_answer option" where
  "info_answer = map_of info_answers"

definition IsNumericInfoType :: "int \<Rightarrow> bool" where
  "IsNumericInfoType info_type = (info_type \<in> {
     SQL_ACTIVE_ENVIRONMENTS, SQL_AGGREGATE_FUNCTIONS, SQL_ALTER_DOMAIN, SQL_ALTER_TABLE,
     SQL_ASYNC_DBC_FUNCTIONS, SQL_ASYNC_MODE, SQL_ASYNC_NOTIFICATION, SQL_BATCH_ROW_COUNT,
     SQL_BOOKMARK_PERSISTENCE, SQL_CATALOG_LOCATION, SQL_CATALOG_USAGE, SQL_CONCAT_NULL_BEHAVIOR,
     SQL_CONVERT_BIGINT, SQL_CONVERT_BINARY, SQL_CONVERT_BIT, SQL_CONVERT_CHAR, SQL_CONVERT_DATE,
     SQL_CONVERT_DECIMAL, SQL_CONVERT_DOUBLE, SQL_CONVERT_FLOAT, SQL_CONVERT_INTEGER,
     SQL_CONVERT_INTERVAL_YEAR_MONTH, SQL_CONVERT_INTERVAL_DAY_TIME, SQL_CONVERT_LONGVARBINARY,
     SQL_CONVERT_LONGVARCHAR, SQL_CONVERT_NUMERIC, SQL_CONVERT_REAL, SQL_CONVERT_SMALLINT, SQL_CONVERT_TIME,
     SQL_CONVERT_TIMESTAMP, SQL_CONVERT_TINYINT, SQL_CONVERT_VARBINARY, SQL_CONVERT_VARCHAR,
     SQL_CONVERT_FUNCTIONS, SQL_CORRELATION_NAME, SQL_CREATE_ASSERTION, SQL_CREATE_CHARACTER_SET,
     SQL_CREATE_COLLATION, SQL_CREATE_DOMAIN, SQL_CREATE_SCHEMA, SQL_CREATE_TABLE, SQL_CREATE_TRANSLATION,
     SQL_CREATE_VIEW, SQL_CURSOR_COMMIT_BEHAVIOR, SQL_CURSOR_ROLLBACK_BEHAVIOR, SQL_CURSOR_SENSITIVITY,
     SQL_DATETIME_LITERALS, SQL_DDL_INDEX, SQL_DEFAULT_TXN_ISOLATION, SQL_DRIVER_AWARE_POOLING_SUPPORTED,
     SQL_DRIVER_HDESC, SQL_DRIVER_HSTMT, SQL_DROP_ASSERTION, SQL_DROP_CHARACTER_SET, SQL_DROP_COLLATION,
     SQL_DROP_DOMAIN, SQL_DROP_SCHEMA, SQL_DROP_TABLE, SQL_DROP_TRANSLATION, SQL_DROP_VIEW,
     SQL_DYNAMIC_CURSOR_ATTRIBUTES1, SQL_DYNAMIC_CURSOR_ATTRIBUTES2, SQL_FILE_USAGE,
     SQL_FORWARD_ONLY_CURSOR_ATTRIBUTES1, SQL_FORWARD_ONLY_CURSOR_ATTRIBUTES2, SQL_GETDATA_EXTENSIONS,
     SQL_GROUP_BY, SQL_IDENTIFIER_CASE, SQL_INDEX_KEYWORDS, SQL_INFO_SCHEMA_VIEWS, SQL_INSERT_STATEMENT,
     SQL_KEYSET_CURSOR_ATTRIBUTES1, SQL_KEYSET_CURSOR_ATTRIBUTES2, SQL_MAX_ASYNC_CONCURRENT_STATEMENTS,
     SQL_MAX_BINARY_LITERAL_LEN, SQL_MAX_CATALOG_NAME_LEN, SQL_MAX_CHAR_LITERAL_LEN, SQL_MAX_COLUMN_NAME_LEN,
     SQL_MAX_COLUMNS_IN_GROUP_BY, SQL_MAX_COLUMNS_IN_INDEX, SQL_MAX_COLUMNS_IN_ORDER_BY,
     SQL_MAX_COLUMNS_IN_SELECT, SQL_MAX_COLUMNS_IN_TABLE, SQL_MAX_CONCURRENT_ACTIVITIES,
     SQL_MAX_CURSOR_NAME_LEN, SQL_MAX_DRIVER_CONNECTIONS, SQL_MAX_IDENTIFIER_LEN, SQL_MAX_INDEX_SIZE,
     SQL_MAX_PROCEDURE_NAME_LEN, SQL_MAX_SCHEMA_NAME_LEN, SQL_MAX_STATEMENT_LEN, SQL_MAX_TABLE_NAME_LEN,
     SQL_MAX_TABLES_IN_SELECT, SQL_MAX_USER_NAME_LEN, SQL_NON_NULLABLE_COLUMNS, SQL_NULL_COLLATION,
     SQL_NUMERIC_FUNCTIONS, SQL_OJ_CAPABILITIES, SQL_PARAM_ARRAY_ROW_COUNTS, SQL_PARAM_ARRAY_SELECTS,
     SQL_POS_OPERATIONS, SQL_QUOTED_IDENTIFIER_CASE, SQL_SCHEMA_USAGE, SQL_SCROLL_OPTIONS, SQL_SQL_CONFORMANCE,
     SQL_SQL92_FOREIGN_KEY_DELETE_RULE, SQL_SQL92_FOREIGN_KEY_UPDATE_RULE, SQL_SQL92_GRANT,
     SQL_SQL92_NUMERIC_VALUE_FUNCTIONS, SQL_SQL92_PREDICATES, SQL_SQL92_RELATIONAL_JOIN_OPERATORS,
     SQL_SQL92_REVOKE, SQL_SQL92_STRING_FUNCTIONS, SQL_SQL92_VALUE_EXPRESSIONS, SQL_STATIC_CURSOR_ATTRIBUTES1,
     SQL_STATIC_CURSOR_ATTRIBUTES2, SQL_STRING_FUNCTIONS, SQL_SUBQUERIES, SQL_SYSTEM_FUNCTIONS,
     SQL_TIMEDATE_ADD_INTERVALS, SQL_TIMEDATE_DIFF_INTERVALS, SQL_TIMEDATE_FUNCTIONS, SQL_TXN_CAPABLE,
     SQL_TXN_ISOLATION_OPTION, SQL_UNION})"

section \<open>Storing an answer\<close>

definition store_answer :: "bool \<Rightarrow> info_answer \<Rightarrow> addr \<Rightarrow> int \<Rightarrow> addr \<Rightarrow> mem \<Rightarrow> mem" where
  "store_answer wide ans info_value_ptr buffer_length string_length_ptr m =
     (case ans of
        Text s \<Rightarrow> if wide then WriteStringW 2 s info_value_ptr buffer_length string_length_ptr m
                  else WriteString 2 s info_value_ptr buffer_length string_length_ptr m
      | UShort v \<Rightarrow> StoreWithLength 2 2 v info_value_ptr string_length_ptr m
      | Short v \<Rightarrow> StoreWithLength 2 2 v info_value_ptr string_length_ptr m
      | UInteger v \<Rightarrow> StoreWithLength 4 2 v info_value_ptr string_length_ptr m
      | Nothing \<Rightarrow> m)"

section \<open>Answers of the connection\<close>

text \<open>The result of a call: None is an exception, undefined behaviour or a call of the engine that does not return.\<close>

type_synonym ('v, 'd, 't, 'db) info_result = "(int \<times> ('v, 'd, 't) driver \<times> mem \<times> 'db) option"

definition with_connection ::
  "addr \<Rightarrow> (('d, 't) OdbcHandleDbc \<Rightarrow> ('v, 'd, 't) driver \<Rightarrow> int \<times> ('d, 't) OdbcHandleDbc \<times> mem)
   \<Rightarrow> ('v, 'd, 't) driver \<Rightarrow> mem \<Rightarrow> 'db \<Rightarrow> ('v, 'd, 't, 'db) info_result" where
  "with_connection handle f w m db =
     (if handle = nullptr then Some (SQL_INVALID_HANDLE, w, m, db)
      else
        (case dbcs w handle of
           None \<Rightarrow> if type_of_handle handle w = None then None else Some (SQL_INVALID_HANDLE, w, m, db)
         | Some dbc \<Rightarrow>
             (case ConvertConnection dbc of (ret, dbc) \<Rightarrow>
                let w = w\<lparr>dbcs := (dbcs w)(handle \<mapsto> dbc)\<rparr> in
                if ret \<noteq> SQL_SUCCESS then Some (ret, w, m, db)
                else (case f dbc w of (ret, dbc, m) \<Rightarrow> Some (ret, w\<lparr>dbcs := (dbcs w)(handle \<mapsto> dbc)\<rparr>, m, db)))))"

text \<open>The local variables: the pointers to the handle and to the length, and the buffer of \<^verbatim>\<open>malloc\<close>.\<close>

record info_frame =
  if_stmt :: addr
  if_len :: addr
  if_keyword :: addr

text \<open>SQLExecDirect with a text of the driver, SQLFetch and SQLGetData on the statement that was allocated.\<close>

definition stmt_step ::
  "('v, mem \<times> 'db) stmt_handler \<Rightarrow> addr \<Rightarrow> ('v, 'd, 't) driver \<Rightarrow> mem \<Rightarrow> 'db \<Rightarrow> ('v, 'd, 't, 'db) info_result" where
  "stmt_step f a w m db = do {
     (ret, b, w) \<leftarrow> stmt_call f a w;
     (case b of None \<Rightarrow> Some (ret, w, m, db) | Some (m, db) \<Rightarrow> Some (ret, w, m, db)) }"

definition exec_text ::
  "('v, 'q, 'db) sql_engine \<Rightarrow> string \<Rightarrow> addr \<Rightarrow> ('v, 'd, 't) driver \<Rightarrow> mem \<Rightarrow> 'db \<Rightarrow> ('v, 'd, 't, 'db) info_result" where
  "exec_text sql query a w m db =
     stmt_step (\<lambda>conn dsn ds h. map_option (\<lambda>(ret, ds, h, m, db). ((ret, m, db), ds, h))
       (returned (fixed_query sql query conn dsn ds h m db))) a w m db"

definition fetch_handle ::
  "'v engine \<Rightarrow> ('v, 'q, 'db) sql_engine \<Rightarrow> addr \<Rightarrow> ('v, 'd, 't) driver \<Rightarrow> mem \<Rightarrow> 'db \<Rightarrow> ('v, 'd, 't, 'db) info_result" where
  "fetch_handle eng sql a w m db =
     stmt_step (\<lambda>conn dsn ds h. map_option (\<lambda>(ret, h, m, db). ((ret, m, db), ds, h))
       (SQLFetch eng sql conn dsn ds h m db)) a w m db"

definition data_handle ::
  "'v engine \<Rightarrow> addr \<Rightarrow> int \<Rightarrow> addr \<Rightarrow> addr \<Rightarrow> ('v, 'd, 't) driver \<Rightarrow> mem \<Rightarrow> 'db \<Rightarrow> ('v, 'd, 't, 'db) info_result" where
  "data_handle eng target len ind a w m db =
     stmt_step (\<lambda>conn dsn ds h. map_option (\<lambda>(ret, h, m). ((ret, m, db), ds, h))
       (SQLGetData eng conn dsn 1 SQL_C_CHAR target len ind h m)) a w m db"

definition free_answer ::
  "addr \<Rightarrow> int \<Rightarrow> ('v, 'd, 't) driver \<Rightarrow> mem \<Rightarrow> 'db \<Rightarrow> ('v, 'd, 't, 'db) info_result" where
  "free_answer a ret w m db = map_option (\<lambda>(_, w). (ret, w, m, db)) (FreeHandle SQL_HANDLE_STMT a w)"

text \<open>
  \<^verbatim>\<open>SQL_DBMS_VER\<close>. Without a handle the variable that is freed was never written. The length is copied
  whether the data was read or not.
\<close>

definition version_query :: string where
  "version_query = ''SELECT library_version FROM pragma_version()''"

definition GetInfo_version ::
  "'v engine \<Rightarrow> ('v, 'q, 'db) sql_engine \<Rightarrow> ('v, 'd, 't) heap_junk \<Rightarrow> addr \<Rightarrow> info_frame \<Rightarrow> addr \<Rightarrow> addr \<Rightarrow> int \<Rightarrow> addr
   \<Rightarrow> ('v, 'd, 't) driver \<Rightarrow> mem \<Rightarrow> 'db \<Rightarrow> ('v, 'd, 't, 'db) info_result" where
  "GetInfo_version eng sql junk a fr handle info_value_ptr buffer_length string_length_ptr w m db = do {
     (ret, w, m) \<leftarrow> SQLAllocHandle junk a SQL_HANDLE_STMT handle (if_stmt fr) w m;
     if \<not> SQL_SUCCEEDED ret then None
     else do {
       (ret, w, m, db) \<leftarrow> exec_text sql version_query a w m db;
       if \<not> SQL_SUCCEEDED ret then free_answer a ret w m db
       else do {
         (ret, w, m, db) \<leftarrow> fetch_handle eng sql a w m db;
         if \<not> SQL_SUCCEEDED ret then free_answer a ret w m db
         else do {
           (ret, w, m, db) \<leftarrow> data_handle eng info_value_ptr buffer_length
              (if string_length_ptr \<noteq> nullptr then if_len fr else nullptr) a w m db;
           let m = (if string_length_ptr \<noteq> nullptr
                    then store_int 2 string_length_ptr (wrap_s 16 (load_s 8 (if_len fr) m)) m else m) in
           free_answer a (if \<not> SQL_SUCCEEDED ret then ret else SQL_SUCCESS) w m db } } } }"

text \<open>
  \<^verbatim>\<open>SQL_KEYWORDS\<close>: the loop over the rows, which returns the text it has collected, and what is behind it.
  The last character is taken away when the text is empty, which is undefined.
\<close>

definition keywords_query :: string where
  "keywords_query = sq ''SELECT keyword_name FROM duckdb_keywords() WHERE keyword_category=`reserved`''"

partial_function (option) read_keywords ::
  "'v engine \<Rightarrow> ('v, 'q, 'db) sql_engine \<Rightarrow> addr \<Rightarrow> addr \<Rightarrow> string \<Rightarrow> ('v, 'd, 't) driver \<Rightarrow> mem \<Rightarrow> 'db
   \<Rightarrow> (int \<times> string \<times> ('v, 'd, 't) driver \<times> mem \<times> 'db) option" where
  "read_keywords eng sql a keyword reserved_keywords w m db =
     Option.bind (fetch_handle eng sql a w m db) (\<lambda>(ret, w, m, db).
       if ret = SQL_NO_DATA then Some (SQL_SUCCESS, reserved_keywords, w, m, db)
       else if \<not> SQL_SUCCEEDED ret then Some (ret, reserved_keywords, w, m, db)
       else Option.bind (data_handle eng keyword 100 nullptr a w m db) (\<lambda>(ret, w, m, db).
         if \<not> SQL_SUCCEEDED ret then Some (ret, reserved_keywords, w, m, db)
         else Option.bind (c_str keyword m) (\<lambda>k.
           read_keywords eng sql a keyword (reserved_keywords @ k @ '','') w m db)))"

definition GetInfo_keywords ::
  "'v engine \<Rightarrow> ('v, 'q, 'db) sql_engine \<Rightarrow> ('v, 'd, 't) heap_junk \<Rightarrow> addr \<Rightarrow> info_frame \<Rightarrow> bool \<Rightarrow> addr \<Rightarrow> addr \<Rightarrow> int
   \<Rightarrow> addr \<Rightarrow> ('v, 'd, 't) driver \<Rightarrow> mem \<Rightarrow> 'db \<Rightarrow> ('v, 'd, 't, 'db) info_result" where
  "GetInfo_keywords eng sql junk a fr wide handle info_value_ptr buffer_length string_length_ptr w m db = do {
     (ret, w, m) \<leftarrow> SQLAllocHandle junk a SQL_HANDLE_STMT handle (if_stmt fr) w m;
     if \<not> SQL_SUCCEEDED ret then None
     else do {
       (ret, w, m, db) \<leftarrow> exec_text sql keywords_query a w m db;
       if \<not> SQL_SUCCEEDED ret then free_answer a ret w m db
       else do {
         (ret, reserved_keywords, w, m, db) \<leftarrow> read_keywords eng sql a (if_keyword fr) [] w m db;
         if \<not> SQL_SUCCEEDED ret then free_answer a ret w m db
         else if reserved_keywords = [] then None
         else do {
           (ret, w, m, db) \<leftarrow> free_answer a SQL_SUCCESS w m db;
           Some (ret, w, store_answer wide (Text reserved_keywords) info_value_ptr buffer_length string_length_ptr m, db) } } } }"

section \<open>SQLGetInfo\<close>

definition GetInfoInternal ::
  "'v engine \<Rightarrow> ('v, 'q, 'db) sql_engine \<Rightarrow> ('v, 'd, 't) heap_junk \<Rightarrow> addr \<Rightarrow> info_frame \<Rightarrow> bool \<Rightarrow> addr \<Rightarrow> int \<Rightarrow> addr
   \<Rightarrow> int \<Rightarrow> addr \<Rightarrow> ('v, 'd, 't) driver \<Rightarrow> mem \<Rightarrow> 'db \<Rightarrow> ('v, 'd, 't, 'db) info_result" where
  "GetInfoInternal eng sql junk a fr wide handle info_type info_value_ptr buffer_length string_length_ptr w m db =
     (if IsNumericInfoType info_type \<and> info_value_ptr = nullptr then
        with_connection handle (\<lambda>dbc w.
          case dbc_error SQL_ERROR ''SQLGetInfo'' ''Invalid null value pointer for numeric info type.'' ST_HY024
              (GetDataSourceName dbc) dbc of (ret, dbc) \<Rightarrow> (ret, dbc, m)) w m db
      else if info_type = SQL_DATA_SOURCE_NAME then
        with_connection handle (\<lambda>dbc w. (SQL_SUCCESS, dbc,
          store_answer wide (Text (GetDataSourceName dbc)) info_value_ptr buffer_length string_length_ptr m)) w m db
      else if info_type = SQL_DATABASE_NAME then
        with_connection handle (\<lambda>dbc w. (SQL_SUCCESS, dbc,
          store_answer wide (Text (if GetDatabaseName dbc = IN_MEMORY_PATH then [] else GetDatabaseName dbc))
            info_value_ptr buffer_length string_length_ptr m)) w m db
      else if info_type = SQL_DBMS_VER then
        GetInfo_version eng sql junk a fr handle info_value_ptr buffer_length string_length_ptr w m db
      else if info_type = SQL_KEYWORDS then
        GetInfo_keywords eng sql junk a fr wide handle info_value_ptr buffer_length string_length_ptr w m db
      else
        (case info_answer info_type of
           Some ans \<Rightarrow> Some (SQL_SUCCESS, w, store_answer wide ans info_value_ptr buffer_length string_length_ptr m, db)
         | None \<Rightarrow>
             with_connection handle (\<lambda>dbc w.
               case dbc_error SQL_SUCCESS ''SQLGetInfo'' (''Unrecognized attribute: '' @ to_string info_type) ST_HY092
                   (GetDataSourceName dbc) dbc of (ret, dbc) \<Rightarrow> (ret, dbc, m)) w m db))"

definition SQLGetInfo ::
  "'v engine \<Rightarrow> ('v, 'q, 'db) sql_engine \<Rightarrow> ('v, 'd, 't) heap_junk \<Rightarrow> addr \<Rightarrow> info_frame \<Rightarrow> addr \<Rightarrow> int \<Rightarrow> addr
   \<Rightarrow> int \<Rightarrow> addr \<Rightarrow> ('v, 'd, 't) driver \<Rightarrow> mem \<Rightarrow> 'db \<Rightarrow> ('v, 'd, 't, 'db) info_result" where
  "SQLGetInfo eng sql junk a fr = GetInfoInternal eng sql junk a fr False"

definition SQLGetInfoW ::
  "'v engine \<Rightarrow> ('v, 'q, 'db) sql_engine \<Rightarrow> ('v, 'd, 't) heap_junk \<Rightarrow> addr \<Rightarrow> info_frame \<Rightarrow> addr \<Rightarrow> int \<Rightarrow> addr
   \<Rightarrow> int \<Rightarrow> addr \<Rightarrow> ('v, 'd, 't) driver \<Rightarrow> mem \<Rightarrow> 'db \<Rightarrow> ('v, 'd, 't, 'db) info_result" where
  "SQLGetInfoW eng sql junk a fr = GetInfoInternal eng sql junk a fr True"

section \<open>SQLGetFunctions, SQLDataSources and SQLDrivers\<close>

definition SQLGetFunctions :: "int \<Rightarrow> addr \<Rightarrow> mem \<Rightarrow> int \<times> mem" where
  "SQLGetFunctions function_id supported_ptr m =
     (if function_id = SQL_API_ODBC3_ALL_FUNCTIONS then GetFunctions30 function_id supported_ptr m
      else GetFunctions function_id supported_ptr m)"

definition driver_manager_only :: "string \<Rightarrow> ('v, 'd, 't) handle_call" where
  "driver_manager_only component handle w =
     (if handle = nullptr then Some (SQL_INVALID_HANDLE, w)
      else
        (case envs w handle of
           None \<Rightarrow> if type_of_handle handle w = None then None else Some (SQL_INVALID_HANDLE, w)
         | Some env \<Rightarrow>
             (case ConvertEnvironment env of (ret, env) \<Rightarrow>
                if ret \<noteq> SQL_SUCCESS then Some (ret, w\<lparr>envs := (envs w)(handle \<mapsto> env)\<rparr>)
                else (case env_error SQL_ERROR component ''Driver Manager only function'' ST_HY000 [] env of
                        (ret, env) \<Rightarrow> Some (ret, w\<lparr>envs := (envs w)(handle \<mapsto> env)\<rparr>)))))"

definition SQLDataSources :: "('v, 'd, 't) handle_call" where
  "SQLDataSources = driver_manager_only ''SQLDataSources''"

definition SQLDataSourcesW :: "('v, 'd, 't) wide_handle_call" where
  "SQLDataSourcesW = wide_not_implemented SQLDataSources"

definition SQLDrivers :: "('v, 'd, 't) handle_call" where
  "SQLDrivers = driver_manager_only ''SQLDrivers''"

section \<open>Types of answers\<close>

definition is_number :: "info_answer \<Rightarrow> bool" where
  "is_number ans \<longleftrightarrow> (case ans of Text s \<Rightarrow> False | Nothing \<Rightarrow> False | _ \<Rightarrow> True)"

text \<open>The numbers that the check for a null pointer does not know.\<close>

definition unchecked_numbers :: "int list" where
  "unchecked_numbers = [SQL_BATCH_SUPPORT, SQL_CONVERT_GUID, SQL_CONVERT_WCHAR, SQL_CONVERT_WLONGVARCHAR,
     SQL_CONVERT_WVARCHAR, SQL_MAX_ROW_SIZE, SQL_ODBC_INTERFACE_CONFORMANCE, SQL_ODBC_API_CONFORMANCE,
     SQL_SQL92_DATETIME_FUNCTIONS, SQL_SQL92_ROW_VALUE_CONSTRUCTOR, SQL_STANDARD_CLI_CONFORMANCE,
     SQL_DTC_TRANSACTION_COST, SQL_RETURN_ESCAPE_CLAUSE]"

lemmas info_tables = info_answers_def info_answers1_def info_answers2_def info_answers3_def info_answers4_def
  info_answers5_def info_answers6_def info_answers7_def info_answers8_def

lemma info_answers_distinct: "distinct (map fst info_answers)"
  by (simp add: info_tables)

lemma info_answers_checked:
  "list_all (\<lambda>(t, ans). is_number ans = (IsNumericInfoType t \<and> t \<noteq> SQL_BOOKMARK_PERSISTENCE \<or> t \<in> set unchecked_numbers))
     info_answers"
  by (simp add: info_tables is_number_def IsNumericInfoType_def unchecked_numbers_def)

lemma info_types_listed:
  "IsNumericInfoType t \<Longrightarrow> t \<in> {SQL_DRIVER_HDESC, SQL_DRIVER_HSTMT} \<or> t \<in> set (map fst info_answers)"
  "t \<in> set unchecked_numbers \<Longrightarrow> t \<in> set (map fst info_answers)"
  by (auto simp: info_tables IsNumericInfoType_def unchecked_numbers_def)

lemma info_answer_mem: "info_answer t = Some ans \<longleftrightarrow> (t, ans) \<in> set info_answers"
  by (simp add: info_answer_def map_of_eq_Some_iff info_answers_distinct)

lemma info_answer_checked:
  "info_answer t = Some ans \<Longrightarrow>
   is_number ans \<longleftrightarrow> IsNumericInfoType t \<and> t \<noteq> SQL_BOOKMARK_PERSISTENCE \<or> t \<in> set unchecked_numbers"
  using info_answers_checked unfolding info_answer_mem list_all_iff by fastforce

lemma info_answer_special [simp]:
  "info_answer SQL_DATA_SOURCE_NAME = None" "info_answer SQL_DATABASE_NAME = None" "info_answer SQL_DBMS_VER = None"
  "info_answer SQL_KEYWORDS = None" "info_answer SQL_DRIVER_HDESC = None" "info_answer SQL_DRIVER_HSTMT = None"
  by (simp_all add: info_answer_def info_tables)

text \<open>
  C34. An information type is answered with a number exactly when \<^verbatim>\<open>IsNumericInfoType\<close> says so, with two kinds
  of exceptions: the two handles and the persistence of bookmarks, for which nothing is stored, are in
  its list, and thirteen types that are answered with a number are not.
\<close>

theorem numeric_info_types:
  "(\<exists>ans. info_answer t = Some ans \<and> is_number ans) \<longleftrightarrow>
    IsNumericInfoType t \<and> t \<notin> {SQL_DRIVER_HDESC, SQL_DRIVER_HSTMT, SQL_BOOKMARK_PERSISTENCE} \<or> t \<in> set unchecked_numbers"
  (is "?number \<longleftrightarrow> ?listed")
proof
  assume ?number
  then show ?listed using info_answer_checked[of t] by (auto dest: info_answer_checked)
next
  assume l: ?listed
  then have "t \<in> set (map fst info_answers)" using info_types_listed[of t] by blast
  then obtain ans where "info_answer t = Some ans" by (auto simp: info_answer_mem)
  then show ?number using l info_answer_checked[of t ans] by auto
qed

section \<open>What is stored\<close>

lemma get_info_constant:
  assumes "info_answer t = Some ans" "p \<noteq> nullptr"
  shows "GetInfoInternal eng sql junk a fr wide handle t p len q w m db =
    Some (SQL_SUCCESS, w, store_answer wide ans p len q m, db)"
proof -
  have "t \<noteq> SQL_DATA_SOURCE_NAME" "t \<noteq> SQL_DATABASE_NAME" "t \<noteq> SQL_DBMS_VER" "t \<noteq> SQL_KEYWORDS"
    using assms(1) by (auto simp del: option.distinct dest: sym[of "info_answer _"])
  then show ?thesis using assms by (simp add: GetInfoInternal_def)
qed

fun answer_size :: "info_answer \<Rightarrow> int \<Rightarrow> int" where
  "answer_size (Text s) len = len" |
  "answer_size (UShort v) len = 2" |
  "answer_size (Short v) len = 2" |
  "answer_size (UInteger v) len = 4" |
  "answer_size Nothing len = 0"

lemma WriteString_outside:
  assumes "0 \<le> len" "len < 2 ^ 63" "x < p \<or> p + len \<le> x" "q = nullptr \<or> x < q \<or> q + int n \<le> x"
  shows "WriteString n s p len q m x = m x"
proof -
  have "wrap_u 64 len = len" using assms(1,2) by (simp add: wrap_u_id in_u_def)
  then show ?thesis
    using assms by (auto simp: WriteString_def Let_def store_opt_outside snprintf_s_def store_bytes_outside)
qed

text \<open>
  A constant answer is stored inside the buffer of the client and the cell of the length, whatever
  the connection: of a string at most the length of the buffer, of a number its size. The wide function
  needs a buffer for one character or a cell for the length.
\<close>

theorem get_info_bounds:
  assumes "info_answer t = Some ans" "p \<noteq> nullptr" "0 \<le> len" "len < 2 ^ 15"
    and "wide \<longrightarrow> 2 \<le> len \<or> q \<noteq> nullptr"
    and "x < p \<or> p + answer_size ans len \<le> x" "q = nullptr \<or> x < q \<or> q + 2 \<le> x"
  shows "\<exists>m'. GetInfoInternal eng sql junk a fr wide handle t p len q w m db = Some (SQL_SUCCESS, w, m', db) \<and> m' x = m x"
proof (intro exI conjI)
  show "GetInfoInternal eng sql junk a fr wide handle t p len q w m db =
      Some (SQL_SUCCESS, w, store_answer wide ans p len q m, db)"
    using assms(1,2) by (rule get_info_constant)
  show "store_answer wide ans p len q m x = m x"
    using assms(3-) WriteStringW_bounds[of len q x p 2] WriteString_outside[of len x p q 2]
    by (cases ans) (auto simp: store_answer_def StoreWithLength_def store_opt_outside)
qed

theorem get_info_bounds_witness:
  "\<exists>m'. GetInfoInternal sample_engine sample_sql sample_junk 48 \<lparr>if_stmt = 1, if_len = 2, if_keyword = 3\<rparr> False 0
      SQL_COLLATION_SEQ 64 3 100 no_handles (\<lambda>_. CHR 0x00) [] = Some (SQL_SUCCESS, no_handles, m', []) \<and> m' 67 = CHR 0x00"
  by (rule get_info_bounds[where ans = "Text ''UTF-8''" and x = 67])
    (simp_all add: info_answer_mem info_tables)

text \<open>The numbers of the answers fit the widths they are stored in.\<close>

fun number_of_answer :: "info_answer \<Rightarrow> (nat \<times> int) option" where
  "number_of_answer (UShort v) = Some (2, v)" |
  "number_of_answer (Short v) = Some (2, v)" |
  "number_of_answer (UInteger v) = Some (4, v)" |
  "number_of_answer _ = None"

lemma info_numbers_fit:
  "list_all (\<lambda>(t, ans). case number_of_answer ans of Some (n, v) \<Rightarrow> 0 \<le> v \<and> v < 2 ^ 23 \<and> (n = 2 \<longrightarrow> v < 4) | None \<Rightarrow> True)
     info_answers"
  by (simp add: info_tables flags_def)

text \<open>
  C35. The number the client reads back from its buffer is the answer of the table, and the length says
  how many bytes it has.
\<close>

theorem get_info_number:
  assumes "info_answer t = Some ans" "number_of_answer ans = Some (n, v)" "p \<noteq> nullptr" "q \<noteq> nullptr"
    and "q + 2 \<le> p \<or> p + int n \<le> q"
  shows "\<exists>m'. GetInfoInternal eng sql junk a fr wide handle t p len q w m db = Some (SQL_SUCCESS, w, m', db) \<and>
    load_u n p m' = v \<and> load_s 2 q m' = int n"
proof (intro exI conjI)
  let ?m = "store_answer wide ans p len q m"
  show "GetInfoInternal eng sql junk a fr wide handle t p len q w m db = Some (SQL_SUCCESS, w, ?m, db)"
    using assms(1,3) by (rule get_info_constant)
  have n: "n = 2 \<or> n = 4" "0 \<le> v" "v < 256 ^ n"
    using assms(1,2) info_numbers_fit unfolding info_answer_mem list_all_iff by (cases ans; fastforce)+
  have m: "?m = StoreWithLength n 2 v p q m" using assms(2) by (cases ans) (auto simp: store_answer_def)
  show "load_u n p ?m = v"
    using n assms(3-5) by (auto simp: m StoreWithLength_def store_opt_def mem_simps)
  show "load_s 2 q ?m = int n"
    using n assms(3-5) by (auto simp: m StoreWithLength_def store_opt_def mem_simps in_s_def)
qed

theorem get_info_number_witness:
  "\<exists>m'. GetInfoInternal sample_engine sample_sql sample_junk 48 \<lparr>if_stmt = 1, if_len = 2, if_keyword = 3\<rparr> False 0
      SQL_GETDATA_EXTENSIONS 64 4 100 no_handles (\<lambda>_. CHR 0x00) [] = Some (SQL_SUCCESS, no_handles, m', []) \<and>
    load_u 4 64 m' = 15 \<and> load_s 2 100 m' = int 4"
  by (rule get_info_number[where ans = "UInteger 15"]) (simp_all add: info_answer_mem info_tables flags_def)

text \<open>
  Without a buffer a number that \<^verbatim>\<open>IsNumericInfoType\<close> knows is refused with the state HY024, and
  nothing is stored.
\<close>

theorem get_info_null_refused:
  assumes "IsNumericInfoType t" "handle \<noteq> nullptr" "dbcs w handle = Some dbc" "dbc_conn dbc = Some c"
  shows "GetInfoInternal eng sql junk a fr wide handle t nullptr len q w m db =
    Some (SQL_ERROR, w\<lparr>dbcs := (dbcs w)(handle \<mapsto> snd (dbc_error SQL_ERROR ''SQLGetInfo''
      ''Invalid null value pointer for numeric info type.'' ST_HY024 (dbc_dsn dbc)
      (dbc\<lparr>dbc_diag := Clean (dbc_diag dbc)\<rparr>)))\<rparr>, m, db)"
  using assms
  by (simp add: GetInfoInternal_def with_connection_def ConvertConnection_def GetDataSourceName_def dbc_error_def
      SetDiagnosticRecord_def Let_def)

section \<open>Keywords\<close>

lemma read_keywords_comma:
  "read_keywords eng sql a keyword acc w m db = Some y \<Longrightarrow> acc = [] \<or> last acc = CHR '','' \<Longrightarrow>
   fst (snd y) = [] \<or> last (fst (snd y)) = CHR '','' "
proof (induction rule: read_keywords.raw_induct[rotated, consumes 1, case_names step])
  case (step f eng sql a keyword acc w m db y)
  from step(2) show ?case
    unfolding split_beta
    by (elim bind_SomeE if_SomeE) (use step(3) in \<open>auto dest!: step(1)\<close>)
qed

text \<open>The list of the keywords always ends with a comma; of an empty list the last character is taken.\<close>

theorem keywords_end_with_comma:
  assumes "GetInfo_keywords eng sql junk a fr wide handle p len q w m db = Some (SQL_SUCCESS, w', m', db')"
  shows "\<exists>r m1. m' = store_answer wide (Text (r @ '','')) p len q m1"
proof -
  have comma: "\<exists>r'. r = r' @ '','' "
    if "read_keywords eng sql a (if_keyword fr) [] w1 m1 db1 = Some (ret, r, w2, m2, db2)" "r \<noteq> []" for r w1 m1 db1 ret w2 m2 db2
    using read_keywords_comma[OF that(1)] that(2) append_butlast_last_id[OF that(2)] by (metis fst_conv snd_conv)
  from assms show ?thesis
    by (auto simp: GetInfo_keywords_def free_answer_def SQL_SUCCEEDED_def bind_eq_Some_conv split: if_split_asm dest!: comma)
qed

end
