(* ===== verification/Driver_Steps.thy ===== *)
theory Driver_Steps
  imports Handle_Invariant Info_Api
begin

text \<open>
  One call of a client on any handle of the driver, as the relation \<^verbatim>\<open>step\<close>, and the runs of such calls
  from a driver without handles. A run is kept as the list of its calls, each with the state it was
  made in.
\<close>

section \<open>Calls that change no link\<close>

definition same_handles :: "('v, 'd, 't) driver \<Rightarrow> ('v, 'd, 't) driver \<Rightarrow> bool" where
  "same_handles w w' \<longleftrightarrow> dom (envs w') = dom (envs w) \<and> stmt_links w' = stmt_links w \<and> dbc_links w' = dbc_links w \<and>
     store_links (descs w') = store_links (descs w)"

lemma same_handles_refl [simp]: "same_handles w w"
  by (simp add: same_handles_def)

lemma same_handles_trans [trans]: "same_handles w1 w2 \<Longrightarrow> same_handles w2 w3 \<Longrightarrow> same_handles w1 w3"
  by (simp add: same_handles_def)

lemma same_handles_wf: "same_handles w w' \<Longrightarrow> wf_driver w' = wf_driver w"
  unfolding same_handles_def by (elim conjE) (rule wf_driver_cong)

lemma type_of_handle_links:
  "type_of_handle a w = (if a \<in> dom (envs w) then Some ENV else if dbc_links w a \<noteq> None then Some DBC
     else if stmt_links w a \<noteq> None then Some STMT else if store_links (descs w) a \<noteq> None then Some DESC else None)"
  by (auto simp: type_of_handle_def dbc_links_def stmt_links_def store_links_def)

lemma same_handles_type: "same_handles w w' \<Longrightarrow> type_of_handle a w' = type_of_handle a w"
  by (simp add: same_handles_def type_of_handle_links)

lemma same_handles_fresh: "same_handles w w' \<Longrightarrow> fresh a w' = fresh a w"
  by (simp add: fresh_def same_handles_type)

lemma same_handles_put:
  "dbcs w c = Some d \<Longrightarrow> vec_stmt_ref d' = vec_stmt_ref d \<Longrightarrow> same_handles w (w\<lparr>dbcs := (dbcs w)(c \<mapsto> d')\<rparr>)"
  "stmts w s = Some h \<Longrightarrow> links h' = links h \<Longrightarrow> same_handles w (w\<lparr>stmts := (stmts w)(s \<mapsto> h')\<rparr>)"
  "envs w a \<noteq> None \<Longrightarrow> same_handles w (w\<lparr>envs := (envs w)(a \<mapsto> e)\<rparr>)"
  by (auto simp: same_handles_def)

lemma stmt_call_handles:
  assumes "stmt_call f s w = Some (ret, b, w')"
    and f: "\<And>conn dsn ds h x ds' h'. f conn dsn ds h = Some (x, ds', h') \<Longrightarrow> links h' = links h \<and> store_links ds' = store_links ds"
  shows "same_handles w w'"
proof (cases "s = nullptr \<or> stmts w s = None")
  case True
  then show ?thesis using assms(1) by (auto simp: stmt_call_def split: if_split_asm)
next
  case False
  then obtain h where h: "stmts w s = Some h" by auto
  obtain conn dsn rb ds h' where fh: "f conn dsn (descs w) h = Some (rb, ds, h')"
    and w': "w' = w\<lparr>descs := ds, stmts := (stmts w)(s \<mapsto> h')\<rparr>"
    using assms(1) h False by (auto simp: stmt_call_def bind_eq_Some_conv)
  show ?thesis
    using f[OF fh] h by (auto simp: w' same_handles_def stmt_links_def dbc_links_def fun_eq_iff)
qed

section \<open>The script of a session\<close>

lemma exec_handle_handles: "exec_handle sql a p len w m db = Some (ret, b, w') \<Longrightarrow> same_handles w w'"
  unfolding exec_handle_def by (erule stmt_call_handles) (auto dest!: SQLExecDirect_links)

lemma close_handle_handles: "close_handle a w = Some w' \<Longrightarrow> same_handles w w'"
  by (auto simp: close_handle_def SQLFreeStmt_def elim!: stmt_call_handles dest!: FreeStmt_option_links)

lemma put_dbc_handles:
  "same_handles w w3 \<Longrightarrow> dbcs w3 c = Some d \<Longrightarrow> vec_stmt_ref d' = vec_stmt_ref d \<Longrightarrow>
   same_handles w (w3\<lparr>dbcs := (dbcs w3)(c \<mapsto> d')\<rparr>)"
  by (erule same_handles_trans) (simp add: same_handles_put(1))

lemma put_diag_handles:
  "same_handles w w3 \<Longrightarrow> dbcs w3 c = Some d \<Longrightarrow>
   same_handles w (w3\<lparr>dbcs := (dbcs w3)(c \<mapsto> snd (dbc_error ret cmp msg st srv d))\<rparr>)"
  by (simp add: put_dbc_handles)

lemma diag_handle_handles: "diag_handle a fr w m = Some (ret, w', m') \<Longrightarrow> same_handles w w'"
  by (auto simp: diag_handle_def bind_eq_Some_conv links_def intro!: same_handles_put(2))

lemma alloc_stmt_links:
  assumes "SQLAllocHandle junk a SQL_HANDLE_STMT c p w m = Some (ret, w', m')"
  obtains v where "dbc_links w c = Some v" "dom (envs w') = dom (envs w)"
    "stmt_links w' = (stmt_links w)(a \<mapsto> (c, None, None))" "dbc_links w' = (dbc_links w)(c \<mapsto> v @ [a])"
    "store_links (descs w') = store_links (descs w)"
proof -
  obtain d where "dbcs w c = Some d" using assms by (auto simp: SQLAllocHandle_def split: option.splits)
  then show ?thesis
    using assms by (intro that[of "vec_stmt_ref d"]) (auto simp: SQLAllocHandle_def stmt_links_def dbc_links_def fun_eq_iff)
qed

lemma free_stmt_links:
  assumes "FreeHandle SQL_HANDLE_STMT a w = Some (ret, w')" "a \<noteq> nullptr" "stmt_links w a = Some (c, l)"
  obtains v where "dbc_links w c = Some v" "dom (envs w') = dom (envs w)" "stmt_links w' = (stmt_links w)(a := None)"
    "dbc_links w' = (dbc_links w)(c \<mapsto> remove1 a v)" "store_links (descs w') = store_links (descs w)"
proof -
  obtain h d where h: "stmts w a = Some h" "dbcs w (st_dbc h) = Some d"
    and w': "w' = w\<lparr>dbcs := (dbcs w)(st_dbc h \<mapsto> EraseStmtRef a d), stmts := (stmts w)(a := None)\<rparr>"
    using assms(1,2) by (auto simp: FreeHandle_def bind_eq_Some_conv)
  then have "st_dbc h = c" using assms(3) by (auto simp: stmt_links_def links_def)
  then show ?thesis using h
    by (intro that[of "vec_stmt_ref d"]) (auto simp: w' stmt_links_def dbc_links_def EraseStmtRef_def fun_eq_iff)
qed

text \<open>A statement that a call allocates for itself and frees.\<close>

lemma temporary_statement:
  assumes "wf_driver w" "fresh a w" "SQLAllocHandle junk a SQL_HANDLE_STMT c p w m = Some (r1, w1, m1)"
    and "same_handles w1 w2" "FreeHandle SQL_HANDLE_STMT a w2 = Some (r2, w')"
  shows "same_handles w w'"
proof -
  obtain v where v: "dbc_links w c = Some v" "dom (envs w1) = dom (envs w)"
    "stmt_links w1 = (stmt_links w)(a \<mapsto> (c, None, None))" "dbc_links w1 = (dbc_links w)(c \<mapsto> v @ [a])"
    "store_links (descs w1) = store_links (descs w)"
    using alloc_stmt_links[OF assms(3)] .
  have new: "a \<notin> set v"
    using assms(1,2) v(1) links_okD(3) fresh_links(1) by (fastforce simp: wf_driver_links_ok)
  note w2 = assms(4)[unfolded same_handles_def]
  have "a \<noteq> nullptr" "stmt_links w2 a = Some (c, None, None)" using assms(2) w2 v by (auto simp: fresh_def)
  from free_stmt_links[OF assms(5) this] obtain v' where v': "dbc_links w2 c = Some v'" "dom (envs w') = dom (envs w2)"
    "stmt_links w' = (stmt_links w2)(a := None)" "dbc_links w' = (dbc_links w2)(c \<mapsto> remove1 a v')"
    "store_links (descs w') = store_links (descs w2)" .
  have "v' = v @ [a]" using v' w2 v by simp
  then have "remove1 a v' = v" using new by (simp add: remove1_append)
  then show ?thesis
    using v v' w2 fresh_links(1)[OF assms(2)] by (auto simp: same_handles_def fun_eq_iff)
qed

lemma RunQueryWithStmt_handles:
  assumes "wf_driver w" "fresh a w" "RunQueryWithStmt sql junk a fr dbc_p query w m db = Some (ret, w', m', db')"
  shows "same_handles w w'"
proof -
  from assms(3) obtain r1 w1 m1 r2 b w2 where
    alloc: "SQLAllocHandle junk a SQL_HANDLE_STMT dbc_p (fr_stmt fr) w m = Some (r1, w1, m1)"
    and exec: "exec_handle sql a (fr_query fr) (wrap_s 16 (int (length query))) w1
      (store_bytes (fr_query fr) (query @ [CHR 0x00]) m1) db = Some (r2, b, w2)"
    by (auto simp: RunQueryWithStmt_def Let_def bind_eq_Some_conv)
  have "\<exists>w3 w4 r5. same_handles w2 w3 \<and> close_handle a w3 = Some w4 \<and> FreeHandle SQL_HANDLE_STMT a w4 = Some (r5, w')"
    using assms(3) alloc exec
    by (auto simp: RunQueryWithStmt_def Let_def bind_eq_Some_conv split: if_split_asm prod.splits option.splits
      dest!: diag_handle_handles) (blast intro: same_handles_refl put_diag_handles)+
  then obtain w3 w4 r5 where "same_handles w2 w3" "close_handle a w3 = Some w4" "FreeHandle SQL_HANDLE_STMT a w4 = Some (r5, w')"
    by blast
  then show ?thesis
    using temporary_statement[OF assms(1,2) alloc] exec_handle_handles[OF exec] close_handle_handles same_handles_trans by blast
qed

lemma SessionInit_Run_handles:
  assumes "wf_driver w" "fresh (fst places) w" "fresh (snd places) w"
    "SessionInit_Run sql junk places fr dbc_p f created w m db = Some (ret, w', m', db')"
  shows "same_handles w w'"
proof -
  have run: "same_handles w1 w2"
    if "same_handles w w1" "a \<in> {fst places, snd places}" "RunQueryWithStmt sql junk a fr dbc_p q w1 m1 db1 = Some (r, w2, m2, db2)"
    for a q w1 m1 db1 r w2 m2 db2
    using that assms(1-3) RunQueryWithStmt_handles[of w1 a sql junk fr dbc_p q m1 db1 r w2 m2 db2]
    by (auto simp: same_handles_wf same_handles_fresh)
  obtain r1 w1 m1 db1 where first: "(if created \<and> db_init_sql f \<noteq> [] then
      RunQueryWithStmt sql junk (fst places) fr dbc_p (db_init_sql f) w m db else Some (SQL_SUCCESS, w, m, db)) = Some (r1, w1, m1, db1)"
    using assms(4) by (auto simp: SessionInit_Run_def bind_eq_Some_conv)
  have w1: "same_handles w w1" using first run[of w "fst places"] by (auto split: if_split_asm)
  show ?thesis
  proof (cases "SQL_SUCCEEDED r1")
    case False
    then show ?thesis using assms(4) w1 unfolding SessionInit_Run_def first by simp
  next
    case True
    obtain r2 w2 m2 db2 where second: "(if conn_init_sql f \<noteq> [] then
        RunQueryWithStmt sql junk (snd places) fr dbc_p (conn_init_sql f) w1 m1 db1 else Some (SQL_SUCCESS, w1, m1, db1)) = Some (r2, w2, m2, db2)"
      using assms(4) True unfolding SessionInit_Run_def first by (auto simp: bind_eq_Some_conv)
    have w2: "same_handles w w2" using second w1 run[OF w1, of "snd places"]
      by (auto split: if_split_asm intro: same_handles_trans[OF w1])
    show ?thesis
      using assms(4) True w2 second unfolding SessionInit_Run_def first
      by (cases "conn_init_sql f = []") (auto simp: split_beta bind_eq_Some_conv intro: put_diag_handles split: if_split_asm)
  qed
qed

section \<open>Opening a connection\<close>

lemma FindKeyValPair_refs: "vec_stmt_ref (snd (snd (FindKeyValPair opts row c dbc))) = vec_stmt_ref dbc"
  by (auto simp: FindKeyValPair_def FindMatchingKey_def Let_def split_beta split: option.splits prod.splits)

lemma ParseInputStr_refs:
  "ParseInputStr opts c dbc = (ret, c', dbc') \<Longrightarrow> vec_stmt_ref dbc' = vec_stmt_ref dbc"
proof -
  have "vec_stmt_ref (snd (snd (snd (parse_rows opts c dbc)))) = vec_stmt_ref dbc"
  proof (induction opts c dbc rule: parse_rows.induct)
    case (1 opts c dbc)
    show ?case
    proof (cases "split_at ROW_DEL (input_str c)")
      case None
      then show ?thesis by (subst parse_rows.simps) (simp add: FindKeyValPair_refs split_beta)
    next
      case (Some x)
      obtain row rest where x: "x = (row, rest)" by (cases x)
      obtain r c1 d1 where f: "FindKeyValPair opts row c dbc = (r, c1, d1)" by (cases "FindKeyValPair opts row c dbc")
      obtain ok c2 where c2: "SetSuccessWithInfo r c1 = (ok, c2)" by (cases "SetSuccessWithInfo r c1")
      have "vec_stmt_ref d1 = vec_stmt_ref dbc" using FindKeyValPair_refs[of opts row c dbc] by (simp add: f)
      then show ?thesis
        using 1[OF Some x[symmetric] f[symmetric] refl c2[symmetric]] by (subst parse_rows.simps) (simp add: Some x f c2)
    qed
  qed
  then show "ParseInputStr opts c dbc = (ret, c', dbc') \<Longrightarrow> ?thesis"
    by (auto simp: ParseInputStr_def split_beta split: if_split_asm)
qed

lemma ReadFromIniFile_refs: "vec_stmt_ref (snd (snd (ReadFromIniFile opts c dbc))) = vec_stmt_ref dbc"
proof -
  have "vec_stmt_ref (snd (snd (read_ini profile keys c dbc))) = vec_stmt_ref dbc" for profile keys
  proof (induction keys arbitrary: c dbc)
    case (Cons k keys)
    then show ?case by (cases k) (auto simp: split_beta Let_def)
  qed simp
  then show ?thesis by (simp add: ReadFromIniFile_def split: option.split)
qed

lemma open_connection_refs: "open_connection st d dbc = Some dbc' \<Longrightarrow> vec_stmt_ref dbc' = vec_stmt_ref dbc"
  by (auto simp: open_connection_def split: if_split_asm option.splits prod.splits)

lemma set_env_db_handles: "set_env_db a p w = Some w' \<Longrightarrow> same_handles w w' \<and> dbcs w' = dbcs w"
  by (auto simp: set_env_db_def same_handles_put(3))

lemma SetConnection_handles:
  assumes "wf_driver w" "fresh (fst (sf_stmts sf)) w" "fresh (snd (sf_stmts sf)) w"
    and "SetConnection st sql inst opts fs sf dbc_p c w i m db = Some (ret, w', i', m', db')"
  shows "same_handles w w'"
proof -
  obtain dbc where dbc: "dbcs w dbc_p = Some dbc" using assms(4) by (auto simp: SetConnection_def bind_eq_Some_conv)
  obtain r c1 dbc1 where ini: "ReadFromIniFile opts c dbc = (r, c1, dbc1)" by (cases "ReadFromIniFile opts c dbc")
  let ?dbc = "SetDatabaseName (GetOptionFromConfigMap ''database'' IN_MEMORY_PATH c1) dbc1"
  have v: "vec_stmt_ref ?dbc = vec_stmt_ref dbc" using ReadFromIniFile_refs[of opts c dbc] by (simp add: ini SetDatabaseName_def)
  note call = assms(4)[unfolded SetConnection_def dbc ini Let_def prod.case Option.bind.simps]
  obtain g where g: "set_option_by_name inst ''duckdb_api'' ''odbc'' (default_config inst) = Inr g"
    using call by (auto split: sum.splits)
  note call = call[unfolded g sum.case]
  let ?c = "erase_options [''database'', ''dsn'', SQL_FILE_OPTION, SQL_FILE_SHA256_OPTION, ''enable_external_access''] c1"
  obtain x i1 where o: "open_instance inst fs (GetOptionFromConfigMap ''database'' IN_MEMORY_PATH c1)
      (GetOptionFromConfigMap ''enable_external_access'' [] c1) (GetOptionFromConfigMap SQL_FILE_OPTION [] c1)
      (GetOptionFromConfigMap SQL_FILE_SHA256_OPTION [] c1) ?c g i = (x, i1)" by fastforce
  note call = call[unfolded o prod.case]
  show ?thesis
  proof (cases x)
    case (Inl msg)
    then show ?thesis using call dbc v by (auto simp: split_beta intro!: same_handles_put(1))
  next
    case (Inr y)
    obtain script p d created where y: "y = (script, p, d, created)" by (cases y)
    note call = call[unfolded Inr y sum.case prod.case]
    obtain w1 dbc2 where w1: "set_env_db (dbc_env ?dbc) p w = Some w1" and dbc2: "open_connection st d ?dbc = Some dbc2"
      using call by (auto simp: bind_eq_Some_conv)
    let ?w2 = "w1\<lparr>dbcs := (dbcs w1)(dbc_p \<mapsto> dbc2)\<rparr>"
    have "same_handles w1 ?w2"
      using set_env_db_handles[OF w1] dbc v open_connection_refs[OF dbc2] by (intro same_handles_put(1)) auto
    then have w2: "same_handles w ?w2" using set_env_db_handles[OF w1] same_handles_trans by blast
    note call = call[unfolded w1 dbc2 Option.bind.simps]
    show ?thesis
    proof (cases "SessionInitSQLFile_IsEmpty script")
      case True
      then show ?thesis using call w2 by simp
    next
      case False
      obtain w3 m3 db3 where run: "SessionInit_Run sql (sf_junk sf) (sf_stmts sf) (sf_query sf) dbc_p script created ?w2 m db =
          Some (ret, w3, m3, db3)"
        using call False by (auto simp: bind_eq_Some_conv)
      have "same_handles w w3"
        using SessionInit_Run_handles[OF _ _ _ run] w2 assms(1-3) same_handles_trans[OF w2]
        by (simp add: same_handles_wf[OF w2] same_handles_fresh[OF w2])
      then show ?thesis
        using call False run by (auto simp: bind_eq_Some_conv intro: put_dbc_handles split: if_split_asm)
    qed
  qed
qed


lemma before_connection_handles:
  assumes "before_connection handle f w i m db = Some (ret, w', i', m', db')"
    and "\<And>dbc. dbcs w handle = Some dbc \<Longrightarrow> f dbc = Some (ret, w', i', m', db') \<Longrightarrow> same_handles w w'"
  shows "same_handles w w'"
  using assms by (auto simp: before_connection_def split: if_split_asm option.splits)

lemma SetConnection_on:
  assumes "same_handles w w1" "wf_driver w" "fresh (fst (sf_stmts sf)) w" "fresh (snd (sf_stmts sf)) w"
    and "SetConnection st sql inst opts fs sf dbc_p c w1 i m db = Some (ret, w', i', m', db')"
  shows "same_handles w w'"
  using same_handles_trans[OF assms(1) SetConnection_handles[OF _ _ _ assms(5)]] assms(2-4)
  by (simp add: same_handles_wf[OF assms(1)] same_handles_fresh[OF assms(1)])

lemma SQLConnect_handles:
  assumes "wf_driver w" "fresh (fst (sf_stmts sf)) w" "fresh (snd (sf_stmts sf)) w"
    and "SQLConnect st sql inst opts fs sf handle p n w i m db = Some (ret, w', i', m', db')"
  shows "same_handles w w'"
proof (rule before_connection_handles[OF assms(4)[unfolded SQLConnect_def]], goal_cases)
  case (1 dbc)
  have "same_handles w (w\<lparr>dbcs := (dbcs w)(handle \<mapsto> dbc\<lparr>dbc_dsn := s\<rparr>)\<rparr>)" for s
    using 1(1) by (rule same_handles_put(1)) simp
  from SetConnection_on[OF this assms(1-3)] show ?case using 1(2) by (auto simp: bind_eq_Some_conv)
qed

lemma SQLDriverConnect_handles:
  assumes "wf_driver w" "fresh (fst (sf_stmts sf)) w" "fresh (snd (sf_stmts sf)) w"
    and "SQLDriverConnect st sql inst opts fs sf handle p n out len len_ptr w i m db = Some (ret, w', i', m', db')"
  shows "same_handles w w'"
proof (rule before_connection_handles[OF assms(4)[unfolded SQLDriverConnect_def]], goal_cases)
  case (1 dbc)
  obtain s where s: "ConvertSQLCHARToString p n m = Some s" using 1 by (auto simp: bind_eq_Some_conv)
  obtain r1 c1 dbc1 where p: "ParseInputStr opts (mk_Connect opts s) dbc = (r1, c1, dbc1)"
    by (cases "ParseInputStr opts (mk_Connect opts s) dbc")
  have w1: "same_handles w (w\<lparr>dbcs := (dbcs w)(handle \<mapsto> dbc1)\<rparr>)"
    using 1 ParseInputStr_refs[OF p] by (intro same_handles_put(1))
  then show ?case
    using 1(2) unfolding s p Option.bind.simps prod.case Let_def
    by (auto simp: bind_eq_Some_conv split_beta dest: SetConnection_on[OF w1 assms(1-3)] split: if_split_asm)
qed

lemma SQLConnectW_handles:
  assumes "wf_driver w" "fresh (fst (sf_stmts sf)) w" "fresh (snd (sf_stmts sf)) w"
    and "SQLConnectW st sql inst opts fs sf vec handle p1 n1 p2 n2 p3 n3 w i m db = Some (ret, w', i', m', db')"
  shows "same_handles w w'"
  using assms(4) by (auto simp: SQLConnectW_def bind_eq_Some_conv split_beta dest: SQLConnect_handles[OF assms(1-3)])

lemma SQLDriverConnectW_handles:
  assumes "wf_driver w" "fresh (fst (sf_stmts sf)) w" "fresh (snd (sf_stmts sf)) w"
    and "SQLDriverConnectW st sql inst opts fs sf vec_in vec_out handle p n out len len_ptr w i m db = Some (ret, w', i', m', db')"
  shows "same_handles w w'"
  using assms(4)
  by (auto simp: SQLDriverConnectW_def Let_def bind_eq_Some_conv split_beta dest: SQLDriverConnect_handles[OF assms(1-3)])

lemmas connect_wf =
  SQLConnect_handles[THEN same_handles_wf, THEN iffD2] SQLConnectW_handles[THEN same_handles_wf, THEN iffD2]
  SQLDriverConnect_handles[THEN same_handles_wf, THEN iffD2] SQLDriverConnectW_handles[THEN same_handles_wf, THEN iffD2]

section \<open>Information\<close>

lemma stmt_step_handles:
  assumes "stmt_step f a w m db = Some (ret, w', m', db')"
    and "\<And>conn dsn ds h x ds' h'. f conn dsn ds h = Some (x, ds', h') \<Longrightarrow> links h' = links h \<and> store_links ds' = store_links ds"
  shows "same_handles w w'"
  using assms(1)
  by (auto simp: stmt_step_def bind_eq_Some_conv split: option.splits intro: stmt_call_handles[OF _ assms(2)])

lemma info_calls_handles:
  "exec_text sql query a w m db = Some (ret, w', m', db') \<Longrightarrow> same_handles w w'"
  "fetch_handle eng sql a w m db = Some (ret, w', m', db') \<Longrightarrow> same_handles w w'"
  "data_handle eng target len ind a w m db = Some (ret, w', m', db') \<Longrightarrow> same_handles w w'"
  unfolding exec_text_def fetch_handle_def data_handle_def
  by (erule stmt_step_handles; auto dest!: fixed_query_links(2) SQLFetch_links SQLGetData_links)+

lemma read_keywords_handles_all:
  "read_keywords eng sql a keyword acc w m db = Some y \<Longrightarrow> same_handles w (fst (snd (snd y)))"
proof (induction rule: read_keywords.raw_induct[rotated, consumes 1, case_names step])
  case (step f eng sql a keyword acc w m db y)
  from step(2) show ?case
    by (auto simp: bind_eq_Some_conv split: if_split_asm dest!: info_calls_handles step(1) intro: same_handles_trans)
qed

lemmas read_keywords_handles = read_keywords_handles_all[of _ _ _ _ _ _ _ _ "(ret, r, w', m', db')" for ret r w' m' db',
  unfolded fst_conv snd_conv]

lemma GetInfo_version_handles:
  assumes "wf_driver w" "fresh a w"
    and "GetInfo_version eng sql junk a fr handle p len q w m db = Some (ret, w', m', db')"
  shows "same_handles w w'"
proof -
  from assms(3) obtain r1 w1 m1 where alloc: "SQLAllocHandle junk a SQL_HANDLE_STMT handle (if_stmt fr) w m = Some (r1, w1, m1)"
    by (auto simp: GetInfo_version_def bind_eq_Some_conv)
  have "\<exists>w2 r2. same_handles w1 w2 \<and> FreeHandle SQL_HANDLE_STMT a w2 = Some (r2, w')"
    using assms(3) alloc
    by (auto simp: GetInfo_version_def free_answer_def Let_def bind_eq_Some_conv split: if_split_asm
        dest!: info_calls_handles) (blast intro: same_handles_trans)+
  then show ?thesis using temporary_statement[OF assms(1,2) alloc] by blast
qed

lemma GetInfo_keywords_handles:
  assumes "wf_driver w" "fresh a w"
    and "GetInfo_keywords eng sql junk a fr wide handle p len q w m db = Some (ret, w', m', db')"
  shows "same_handles w w'"
proof -
  from assms(3) obtain r1 w1 m1 where alloc: "SQLAllocHandle junk a SQL_HANDLE_STMT handle (if_stmt fr) w m = Some (r1, w1, m1)"
    by (auto simp: GetInfo_keywords_def bind_eq_Some_conv)
  have "\<exists>w2 r2. same_handles w1 w2 \<and> FreeHandle SQL_HANDLE_STMT a w2 = Some (r2, w')"
    using assms(3) alloc
    by (auto simp: GetInfo_keywords_def free_answer_def bind_eq_Some_conv split: if_split_asm
        dest!: info_calls_handles read_keywords_handles) (blast intro: same_handles_trans)+
  then show ?thesis using temporary_statement[OF assms(1,2) alloc] by blast
qed

lemma with_connection_handles:
  assumes "with_connection handle f w m db = Some (ret, w', m', db')"
    and "\<And>dbc w. vec_stmt_ref (fst (snd (f dbc w))) = vec_stmt_ref dbc"
  shows "same_handles w w'"
proof -
  have "same_handles w (w\<lparr>dbcs := (dbcs w)(handle \<mapsto> d)\<rparr>)" if "dbcs w handle = Some dbc" "vec_stmt_ref d = vec_stmt_ref dbc" for dbc d
    using that by (rule same_handles_put(1))
  moreover have "vec_stmt_ref (snd (ConvertConnection dbc)) = vec_stmt_ref dbc" for dbc :: "('a, 'b) OdbcHandleDbc"
    by (auto simp: ConvertConnection_def)
  ultimately show ?thesis
    using assms by (auto simp: with_connection_def Let_def split_beta split: if_split_asm option.splits)
qed

lemma GetInfoInternal_handles:
  assumes "wf_driver w" "fresh a w"
    and "GetInfoInternal eng sql junk a fr wide handle t p len q w m db = Some (ret, w', m', db')"
  shows "same_handles w w'"
  using assms(3) unfolding GetInfoInternal_def
  by (auto split: if_split_asm option.splits dest: GetInfo_version_handles[OF assms(1,2)] GetInfo_keywords_handles[OF assms(1,2)]
      elim!: with_connection_handles simp: split_beta)

lemma driver_manager_only_handles:
  "driver_manager_only component handle w = Some (ret, w') \<Longrightarrow> same_handles w w'"
  by (auto simp: driver_manager_only_def split_beta intro!: same_handles_put(3) split: if_split_asm option.splits)

lemma SetNotImplemented_wf: "SetNotImplemented name a w = Some (ret, w') \<Longrightarrow> wf_driver w \<Longrightarrow> wf_driver w'"
  by (auto simp: SetNotImplemented_def split: if_split_asm dest: handle_error_wf)

lemmas info_wf = GetInfoInternal_handles[THEN same_handles_wf, THEN iffD2] driver_manager_only_handles[THEN same_handles_wf, THEN iffD2]
  SetNotImplemented_wf

section \<open>Calls of a client\<close>

text \<open>The calls that can leave a dangling link, with the handles they are made on.\<close>

datatype client_call = Free_Handle int addr | Use_Descriptor addr addr | Alloc_Descriptor addr | Other_Call

text \<open>
  One call. Nothing is asked of the client; the addresses of new handles, also of those that a call
  allocates for itself, are fresh.
\<close>

inductive step ::
  "'v engine \<Rightarrow> ('v, 'q, 'db) sql_engine \<Rightarrow> ('d, 'g, 'i) instances \<Rightarrow> client_call \<Rightarrow> ('v, 'd, 't) driver
   \<Rightarrow> ('v, 'd, 't) driver \<Rightarrow> bool"
  for eng sql inst where
  alloc: "fresh a w \<Longrightarrow> SQLAllocHandle junk a type input out w m = Some (ret, w', m') \<Longrightarrow>
     step eng sql inst (if type = SQL_HANDLE_DESC then Alloc_Descriptor input else Other_Call) w w'"
| free: "FreeHandle type handle w = Some (ret, w') \<Longrightarrow> step eng sql inst (Free_Handle type handle) w w'"
| free_stmt: "SQLFreeStmt opt s w = Some (ret, w') \<Longrightarrow> step eng sql inst Other_Call w w'"
| on_statement: "handler eng sql f \<Longrightarrow> stmt_call f s w = Some (ret, b, w') \<Longrightarrow> step eng sql inst Other_Call w w'"
| use_descriptor: "attribute \<in> {SQL_ATTR_APP_ROW_DESC, SQL_ATTR_APP_PARAM_DESC} \<Longrightarrow>
     stmt_call (\<lambda>conn dsn ds h. map_option (\<lambda>(ret, ds, h, m). ((ret, m), ds, h))
       (SetStmtAttrInternal conn dsn attribute a ds h m)) s w = Some (ret, b, w') \<Longrightarrow>
     step eng sql inst (Use_Descriptor s a) w w'"
| set_field: "SQLSetDescField junk r rec_number field p n w m = Some (ret, w') \<Longrightarrow> step eng sql inst Other_Call w w'"
| get_field: "SQLGetDescField wide r rec_number field p n q w m = Some (ret, w', m') \<Longrightarrow> step eng sql inst Other_Call w w'"
| copy: "SQLCopyDesc source target w = Some (ret, w') \<Longrightarrow> step eng sql inst Other_Call w w'"
| end_tran: "SQLEndTran st type handle completion w = Some (Some (ret, w')) \<Longrightarrow> step eng sql inst Other_Call w w'"
| set_connect_attr: "SQLSetConnectAttr st handle attribute p w = Some (ret, w') \<Longrightarrow> step eng sql inst Other_Call w w'"
| connect: "fresh (fst (sf_stmts sf)) w \<Longrightarrow> fresh (snd (sf_stmts sf)) w \<Longrightarrow>
     SQLConnect st sql inst opts fs sf handle p n w i m db = Some (ret, w', i', m', db') \<Longrightarrow> step eng sql inst Other_Call w w'"
| connect_wide: "fresh (fst (sf_stmts sf)) w \<Longrightarrow> fresh (snd (sf_stmts sf)) w \<Longrightarrow>
     SQLConnectW st sql inst opts fs sf vec handle p1 n1 p2 n2 p3 n3 w i m db = Some (ret, w', i', m', db') \<Longrightarrow>
     step eng sql inst Other_Call w w'"
| driver_connect: "fresh (fst (sf_stmts sf)) w \<Longrightarrow> fresh (snd (sf_stmts sf)) w \<Longrightarrow>
     SQLDriverConnect st sql inst opts fs sf handle p n out len len_ptr w i m db = Some (ret, w', i', m', db') \<Longrightarrow>
     step eng sql inst Other_Call w w'"
| driver_connect_wide: "fresh (fst (sf_stmts sf)) w \<Longrightarrow> fresh (snd (sf_stmts sf)) w \<Longrightarrow>
     SQLDriverConnectW st sql inst opts fs sf vec_in vec_out handle p n out len len_ptr w i m db = Some (ret, w', i', m', db') \<Longrightarrow>
     step eng sql inst Other_Call w w'"
| disconnect: "SQLDisconnect handle w = Some (ret, w') \<Longrightarrow> step eng sql inst Other_Call w w'"
| get_info: "fresh a w \<Longrightarrow> GetInfoInternal eng sql junk a fr wide handle info_type p len q w m db = Some (ret, w', m', db') \<Longrightarrow>
     step eng sql inst Other_Call w w'"
| driver_manager: "driver_manager_only component handle w = Some (ret, w') \<Longrightarrow> step eng sql inst Other_Call w w'"
| not_implemented: "SetNotImplemented name handle w = Some (ret, w') \<Longrightarrow> step eng sql inst Other_Call w w'"

text \<open>
  The driver does not check three things: that a connection that is freed has no explicit descriptor
  left, that an application descriptor is of the connection of the statement, and that a descriptor is
  allocated on a connection. A call offends when it is made where the check would have refused it.
\<close>

fun offends :: "('v, 'd, 't) driver \<Rightarrow> client_call \<Rightarrow> bool" where
  "offends w (Free_Handle type handle) \<longleftrightarrow> type = SQL_HANDLE_DBC \<and> handle \<in> ran (store_links (descs w))"
| "offends w (Use_Descriptor s a) \<longleftrightarrow> (\<exists>h d. stmts w s = Some h \<and> descs w a = Some d \<and> desc_dbc d \<noteq> st_dbc h)"
| "offends w (Alloc_Descriptor input) \<longleftrightarrow> dbcs w input = None"
| "offends w Other_Call \<longleftrightarrow> False"

inductive runs ::
  "'v engine \<Rightarrow> ('v, 'q, 'db) sql_engine \<Rightarrow> ('d, 'g, 'i) instances \<Rightarrow> (('v, 'd, 't) driver \<times> client_call) list
   \<Rightarrow> ('v, 'd, 't) driver \<Rightarrow> bool"
  for eng sql inst where
  start: "runs eng sql inst [] no_handles"
| call: "runs eng sql inst tr w \<Longrightarrow> step eng sql inst c w w' \<Longrightarrow> runs eng sql inst (tr @ [(w, c)]) w'"

text \<open>The states that are reached without an offending call.\<close>

definition reachable ::
  "'v engine \<Rightarrow> ('v, 'q, 'db) sql_engine \<Rightarrow> ('d, 'g, 'i) instances \<Rightarrow> ('v, 'd, 't) driver \<Rightarrow> bool" where
  "reachable eng sql inst w \<longleftrightarrow> (\<exists>tr. runs eng sql inst tr w \<and> (\<forall>(w, c) \<in> set tr. \<not> offends w c))"

lemma step_wf: "step eng sql inst c w w' \<Longrightarrow> wf_driver w \<Longrightarrow> \<not> offends w c \<Longrightarrow> wf_driver w'"
proof (induction rule: step.induct)
  case (alloc a w junk type input out m ret w' m')
  then show ?case by (intro alloc_wf[of w a type input junk out m ret w' m']) (auto split: if_split_asm)
next
  case (free type handle w ret w')
  then show ?case by (intro free_wf[of w type handle ret w']) (auto simp: ran_def)
next
  case (use_descriptor attribute a m s w ret b w')
  then show ?case by (intro use_descriptor_wf[of w attribute s a m ret b w']) auto
qed (auto intro: free_stmt_wf stmt_call_wf set_field_wf get_field_wf copy_wf end_tran_wf
      set_connect_attr_wf disconnect_wf connect_wf info_wf)

section \<open>What a client can rely on\<close>

text \<open>A connection and a statement, reached from nothing.\<close>

definition sample_world :: "(string, unit, unit) driver" where
  "sample_world = \<lparr>envs = Map.empty, dbcs = [16 \<mapsto> (mk_OdbcHandleDbc sample_dbc 8)\<lparr>vec_stmt_ref := [32]\<rparr>],
     stmts = [32 \<mapsto> mk_OdbcHandleStmt sample_handle (junk_headers sample_junk) 16], descs = Map.empty\<rparr>"

definition connected_world :: "(string, unit, unit) driver" where
  "connected_world = no_handles\<lparr>dbcs := [16 \<mapsto> mk_OdbcHandleDbc sample_dbc 8]\<rparr>"

lemma sample_run:
  "runs sample_engine sample_sql sample_instances [(no_handles, Other_Call), (connected_world, Other_Call)] sample_world"
proof -
  let ?w1 = "connected_world"
  have "step sample_engine sample_sql sample_instances (if SQL_HANDLE_DBC = SQL_HANDLE_DESC then Alloc_Descriptor 8 else Other_Call)
      (no_handles :: (string, unit, unit) driver) ?w1"
    by (rule step.alloc[where a = 16 and type = SQL_HANDLE_DBC and junk = sample_junk and out = 100 and input = 8 and m = "\<lambda>_. CHR 0x00"])
      (simp_all add: fresh_def type_of_handle_def no_handles_def SQLAllocHandle_def sample_junk_def store_through_def connected_world_def)
  moreover have "step sample_engine sample_sql sample_instances (if SQL_HANDLE_STMT = SQL_HANDLE_DESC then Alloc_Descriptor 16 else Other_Call)
      ?w1 sample_world"
    by (rule step.alloc[where a = 32 and type = SQL_HANDLE_STMT and junk = sample_junk and out = 100 and input = 16 and m = "\<lambda>_. CHR 0x00"])
      (simp_all add: fresh_def type_of_handle_def no_handles_def SQLAllocHandle_def sample_junk_def store_through_def
        sample_world_def mk_OdbcHandleDbc_def connected_world_def)
  ultimately show ?thesis using runs.call[OF runs.call[OF runs.start]] by fastforce
qed

lemma sample_world_reachable: "reachable sample_engine sample_sql sample_instances sample_world"
  unfolding reachable_def by (rule exI, rule conjI, rule sample_run) simp

lemma runs_wf:
  "runs eng sql inst tr w \<Longrightarrow> \<not> wf_driver w \<Longrightarrow> \<exists>(w0, c) \<in> set tr. wf_driver w0 \<and> offends w0 c"
proof (induction rule: runs.induct)
  case start
  then show ?case by (simp add: wf_driver_def statements_ok_def descriptors_ok_def no_handles_def store_links_def)
next
  case (call tr w c w')
  then show ?case using step_wf[OF call.hyps(2)] by (cases "wf_driver w") auto
qed

lemma reachable_ok: "reachable eng sql inst w \<Longrightarrow> wf_driver w"
  unfolding reachable_def by (blast dest: runs_wf)

lemma wf_driverD:
  assumes "wf_driver w"
  shows "stmts w s = Some h \<Longrightarrow> \<exists>d. dbcs w (st_dbc h) = Some d \<and> s \<in> set (vec_stmt_ref d)"
    and "stmts w s = Some h \<Longrightarrow> uses h a \<Longrightarrow> descs w a \<noteq> None"
    and "dbcs w c = Some dbc \<Longrightarrow> distinct (vec_stmt_ref dbc)"
    and "dbcs w c = Some dbc \<Longrightarrow> s \<in> set (vec_stmt_ref dbc) \<Longrightarrow> \<exists>h. stmts w s = Some h \<and> st_dbc h = c"
    and "descs w a = Some d \<Longrightarrow> \<exists>c. dbcs w (desc_dbc d) = Some c"
  using assms unfolding wf_driver_def statements_ok_def descriptors_ok_def store_links_def by fastforce+



text \<open>
  In a reachable state the pointers a handler follows from a live statement lead to live objects:
  its connection, which refers back to it, and the descriptor of its parameters and of its rows.
\<close>

theorem statement_pointers_live:
  assumes "reachable eng sql inst w" "stmts w s = Some h"
  shows "(\<exists>dbc. dbcs w (st_dbc h) = Some dbc \<and> s \<in> set (vec_stmt_ref dbc)) \<and>
    GetAPD (descs w) (param_desc h) \<noteq> None \<and> RowDescriptor_GetARD (descs w) (row_desc h) \<noteq> None"
proof -
  note wf = wf_driverD[OF reachable_ok[OF assms(1)]]
  show ?thesis
    using wf(1)[OF assms(2)] wf(2)[OF assms(2)]
    by (auto simp: GetAPD_def RowDescriptor_GetARD_def current_desc_def uses_def split: option.split)
qed

theorem statement_pointers_live_witness:
  "(\<exists>dbc. dbcs sample_world (st_dbc (mk_OdbcHandleStmt sample_handle (junk_headers sample_junk) 16)) = Some dbc \<and>
      32 \<in> set (vec_stmt_ref dbc)) \<and>
    GetAPD (descs sample_world) (param_desc (mk_OdbcHandleStmt sample_handle (junk_headers sample_junk) 16)) \<noteq> None \<and>
    RowDescriptor_GetARD (descs sample_world) (row_desc (mk_OdbcHandleStmt sample_handle (junk_headers sample_junk) 16)) \<noteq> None"
  by (rule statement_pointers_live[OF sample_world_reachable]) (simp add: sample_world_def)

definition handle_code :: "OdbcHandleType \<Rightarrow> int" where
  "handle_code t = (case t of ENV \<Rightarrow> SQL_HANDLE_ENV | DBC \<Rightarrow> SQL_HANDLE_DBC | STMT \<Rightarrow> SQL_HANDLE_STMT | DESC \<Rightarrow> SQL_HANDLE_DESC)"

lemma delete_stmts_returns: "distinct refs \<Longrightarrow> \<forall>s \<in> set refs. ss s \<noteq> None \<Longrightarrow> delete_stmts refs ss \<noteq> None"
proof (induction refs arbitrary: ss)
  case (Cons s refs)
  then have "\<forall>t \<in> set refs. (ss(s := None)) t \<noteq> None" by auto
  then show ?case using Cons by simp
qed simp

lemma ResetStmtDescriptors_returns: "\<forall>s \<in> set refs. ss s \<noteq> None \<Longrightarrow> ResetStmtDescriptors a refs ss \<noteq> None"
  by (induction refs arbitrary: ss) (auto split: option.split)

lemma FreeHandle_returns:
  assumes wf: "wf_driver w" and t: "type_of_handle a w = Some t" "a \<noteq> nullptr"
  shows "\<exists>w'. FreeHandle (handle_code t) a w = Some (SQL_SUCCESS, w')"
proof -
  have refs: "distinct (vec_stmt_ref d)" "\<forall>s \<in> set (vec_stmt_ref d). stmts w s \<noteq> None" if "dbcs w c = Some d" for c d
    using wf_driverD(3,4)[OF wf that] by fastforce+
  show ?thesis
  proof (cases t)
    case ENV
    then show ?thesis using t by (auto simp: FreeHandle_def handle_code_def type_of_handle_def split: if_split_asm)
  next
    case DBC
    then obtain d where d: "dbcs w a = Some d" using t by (auto simp: type_of_handle_def split: if_split_asm)
    then show ?thesis
      using DBC t(2) delete_stmts_returns[OF refs[OF d]] by (auto simp: FreeHandle_def handle_code_def)
  next
    case STMT
    then obtain h where h: "stmts w a = Some h" using t by (auto simp: type_of_handle_def split: if_split_asm)
    then obtain d where "dbcs w (st_dbc h) = Some d" using wf_driverD(1)[OF wf] by blast
    then show ?thesis using STMT t(2) h by (auto simp: FreeHandle_def handle_code_def)
  next
    case DESC
    then obtain d where d: "descs w a = Some d" using t by (auto simp: type_of_handle_def split: if_split_asm)
    then obtain c where c: "dbcs w (desc_dbc d) = Some c" using wf_driverD(5)[OF wf] by blast
    obtain ss where "ResetStmtDescriptors a (vec_stmt_ref c) (stmts w) = Some ss"
      using ResetStmtDescriptors_returns[OF refs(2)[OF c]] by blast
    then show ?thesis using DESC t(2) d c by (simp add: FreeHandle_def handle_code_def)
  qed
qed

lemma free_connection_dangles:
  assumes "FreeHandle SQL_HANDLE_DBC a w = Some (ret, w')" "a \<noteq> nullptr" "a \<in> ran (store_links (descs w))"
  shows "\<not> wf_driver w'"
proof -
  obtain x where "store_links (descs w) x = Some a" using assms(3) by (auto simp: ran_def)
  moreover have "descs w' = descs w" "dbcs w' a = None" using assms(1,2) by (auto simp: FreeHandle_def bind_eq_Some_conv)
  ultimately show ?thesis by (auto simp: wf_driver_def descriptors_ok_def)
qed

text \<open>
  C10. After any run of calls none of which offends, every live handle can be freed: the walk over the
  statements of its connection meets no dangling pointer and frees no statement twice. The links that
  are left are well formed in every case but one, a connection that still has an explicit descriptor.
\<close>

theorem live_handles_can_be_freed:
  assumes "runs eng sql inst tr w" "\<forall>(w0, c) \<in> set tr. \<not> offends w0 c" "type_of_handle a w = Some t" "a \<noteq> nullptr"
  shows "\<exists>w'. FreeHandle (handle_code t) a w = Some (SQL_SUCCESS, w') \<and>
    (wf_driver w' \<longleftrightarrow> \<not> (t = DBC \<and> a \<in> ran (store_links (descs w))))"
proof -
  have wf: "wf_driver w" using assms(1,2) by (blast dest: runs_wf)
  obtain w' where w': "FreeHandle (handle_code t) a w = Some (SQL_SUCCESS, w')"
    using FreeHandle_returns[OF wf assms(3,4)] by blast
  have dbc: "handle_code t = SQL_HANDLE_DBC \<longleftrightarrow> t = DBC" by (cases t) (simp_all add: handle_code_def)
  show ?thesis
  proof (cases "t = DBC \<and> a \<in> ran (store_links (descs w))")
    case True
    then show ?thesis using w' dbc free_connection_dangles[of a w SQL_SUCCESS w'] assms(4) by auto
  next
    case False
    then have "handle_code t = SQL_HANDLE_DBC \<longrightarrow> (\<forall>x. store_links (descs w) x \<noteq> Some a)" using dbc by (auto simp: ran_def)
    then show ?thesis using w' False free_wf[OF wf _ w'] by blast
  qed
qed

theorem live_handles_can_be_freed_witness:
  "\<exists>w'. FreeHandle (handle_code DBC) 16 sample_world = Some (SQL_SUCCESS, w') \<and>
    (wf_driver w' \<longleftrightarrow> \<not> (DBC = DBC \<and> 16 \<in> ran (store_links (descs sample_world))))"
  by (rule live_handles_can_be_freed[OF sample_run]) (simp_all add: sample_world_def type_of_handle_def)

text \<open>
  C33. A descriptor of another connection is accepted as the application descriptor of a statement, but
  freeing it resets only the statements of its own connection: the pointer of the statement dangles.
\<close>

theorem foreign_descriptor_dangles:
  assumes "wf_driver w" "stmts w s = Some h" "s \<noteq> nullptr" "dbcs w (st_dbc h) = Some dbc" "dbc_conn dbc \<noteq> None"
    and "descs w a = Some d" "a \<noteq> nullptr" "desc_dbc d \<noteq> st_dbc h"
  shows "\<exists>b w1 w2 h2.
    stmt_call (\<lambda>conn dsn ds h. map_option (\<lambda>(ret, ds, h, m). ((ret, m), ds, h))
      (SetStmtAttrInternal conn dsn SQL_ATTR_APP_PARAM_DESC a ds h m)) s w = Some (SQL_SUCCESS, b, w1) \<and>
    FreeHandle SQL_HANDLE_DESC a w1 = Some (SQL_SUCCESS, w2) \<and>
    stmts w2 s = Some h2 \<and> GetAPD (descs w2) (param_desc h2) = None"
proof -
  let ?h1 = "h\<lparr>st_diag := Clean (st_diag h), param_desc := (param_desc h)\<lparr>cur_apd := Some a\<rparr>\<rparr>"
  let ?w1 = "w\<lparr>descs := (descs w)(a \<mapsto> mark_user d), stmts := (stmts w)(s \<mapsto> ?h1)\<rparr>"
  have set: "stmt_call (\<lambda>conn dsn ds h. map_option (\<lambda>(ret, ds, h, m). ((ret, m), ds, h))
      (SetStmtAttrInternal conn dsn SQL_ATTR_APP_PARAM_DESC a ds h m)) s w = Some (SQL_SUCCESS, Some m, ?w1)"
    if "dbc_conn dbc = Some cn" for cn
    using assms that by (simp add: stmt_call_def SetStmtAttrInternal_def ConvertHSTMT_def SetCurrentAPD_def)
  obtain c where c: "dbcs w (desc_dbc d) = Some c" using wf_driverD(5)[OF assms(1,6)] by blast
  have refs: "s \<notin> set (vec_stmt_ref c)" "\<forall>t \<in> set (vec_stmt_ref c). stmts ?w1 t \<noteq> None"
    using wf_driverD(4)[OF assms(1) c] assms(2,8) by fastforce+
  have keeps: "s \<notin> set v \<Longrightarrow> ResetStmtDescriptors a v ss = Some ss' \<Longrightarrow> ss' s = ss s" for v ss ss'
    by (induction v arbitrary: ss) (auto split: option.splits)
  obtain ss where ss: "ResetStmtDescriptors a (vec_stmt_ref c) (stmts ?w1) = Some ss"
    using ResetStmtDescriptors_returns[OF refs(2)] by blast
  have "ss s = Some ?h1" using keeps[OF refs(1) ss] by simp
  moreover have "FreeHandle SQL_HANDLE_DESC a ?w1 = Some (SQL_SUCCESS, ?w1\<lparr>stmts := ss, descs := (descs ?w1)(a := None)\<rparr>)"
    using assms(7) c ss by (simp add: FreeHandle_def mark_user_def)
  moreover have "GetAPD ((descs ?w1)(a := None)) (param_desc ?h1) = None" by (simp add: GetAPD_def current_desc_def)
  ultimately show ?thesis using set assms(5) by (intro exI conjI) auto
qed

definition two_connections :: "(string, unit, unit) driver" where
  "two_connections = (sample_driver sample_handle)\<lparr>dbcs := [16 \<mapsto> sample_dbc, 24 \<mapsto> sample_dbc\<lparr>vec_stmt_ref := []\<rparr>],
     descs := [40 \<mapsto> sample_desc\<lparr>desc_dbc := 24\<rparr>]\<rparr>"

theorem foreign_descriptor_dangles_witness:
  "\<exists>b w1 w2 h2.
    stmt_call (\<lambda>conn dsn ds h. map_option (\<lambda>(ret, ds, h, m). ((ret, m), ds, h))
      (SetStmtAttrInternal conn dsn SQL_ATTR_APP_PARAM_DESC 40 ds h (\<lambda>_. CHR 0x00))) 32 two_connections = Some (SQL_SUCCESS, b, w1) \<and>
    FreeHandle SQL_HANDLE_DESC 40 w1 = Some (SQL_SUCCESS, w2) \<and>
    stmts w2 32 = Some h2 \<and> GetAPD (descs w2) (param_desc h2) = None"
proof -
  have s: "st_dbc sample_handle = 16" "vec_stmt_ref sample_dbc = [32]" "cur_ard (row_desc sample_handle) = None"
    "cur_apd (param_desc sample_handle) = None"
    by (simp_all add: sample_handle_def sample_stmt_def sample_dbc_def)
  have "wf_driver two_connections"
    by (auto simp: wf_driver_def statements_ok_def descriptors_ok_def two_connections_def uses_def store_links_def s split: if_split_asm)
  then show ?thesis
    using foreign_descriptor_dangles[of two_connections 32 sample_handle sample_dbc 40 "sample_desc\<lparr>desc_dbc := 24\<rparr>" "\<lambda>_. CHR 0x00"]
    by (simp add: two_connections_def s)
qed

end
