(* ===== verification/Transaction_Sessions.thy ===== *)
theory Transaction_Sessions
  imports Handle_World
begin

text \<open>
  What the calls of a transaction mean for the data: statements between SQLSetConnectAttr and SQLEndTran,
  a statement that fails, and what is left of the manual mode behind SQLEndTran.
\<close>

section \<open>A run of statements\<close>

definition run_statement ::
  "('d, 't) storage \<Rightarrow> ('t \<Rightarrow> (string \<times> bool) + 't) \<Rightarrow> ('d, 't) Connection \<Rightarrow> ('d, 't) conn_result" where
  "run_statement st f c = run_query st (statement_body f) c"

fun run_statements ::
  "('d, 't) storage \<Rightarrow> ('t \<Rightarrow> (string \<times> bool) + 't) list \<Rightarrow> ('d, 't) Connection \<Rightarrow> ('d, 't) conn_result" where
  "run_statements st [] c = (None, c)" |
  "run_statements st (f # fs) c =
     (case run_statement st f c of (None, c) \<Rightarrow> run_statements st fs c | (Some msg, c) \<Rightarrow> (Some msg, c))"

text \<open>The effect of the statements on the state of a transaction.\<close>

fun work :: "('t \<Rightarrow> (string \<times> bool) + 't) list \<Rightarrow> 't \<Rightarrow> (string \<times> bool) + 't" where
  "work [] t = Inr t" |
  "work (f # fs) t = bind_sum (f t) (work fs)"

text \<open>A connection inside a manual transaction.\<close>

definition manual :: "'d \<Rightarrow> 't \<Rightarrow> bool \<Rightarrow> ('d, 't) Connection" where
  "manual d t aborted = \<lparr>auto_commit = False, current_transaction = Some \<lparr>mt_state = t, mt_invalidated = aborted\<rparr>, conn_db = d\<rparr>"

lemma manual_fields [simp]: "auto_commit (manual d t aborted) = False" "conn_db (manual d t aborted) = d"
  by (simp_all add: manual_def)

lemmas query_defs = run_query_def BeginQueryInternal_def EndQueryInternal_def BeginTransaction_def TransactionCommit_def
  TransactionRollback_def ClearTransaction_def SetAutoCommit_def commit_body_def rollback_body_def statement_body_def

lemma manual_start: "SetAutoCommit st False (mk_Connection d) = (None, manual d (mt_begin st d) False)"
  by (simp add: query_defs mk_Connection_def manual_def)

lemma manual_statement:
  "run_statement st f (manual d t False) =
     (case f t of Inl (msg, bad) \<Rightarrow> (Some msg, manual d t bad) | Inr t' \<Rightarrow> (None, manual d t' False))"
  by (auto simp: run_statement_def query_defs manual_def split: sum.split)

lemma aborted_statement:
  "run_statement st f (manual d t True) = (Some ''Current transaction is aborted (please ROLLBACK)'', manual d t True)"
  by (simp add: run_statement_def query_defs manual_def)

lemma manual_commit:
  "ConnectionCommit st (manual d t False) =
     (case mt_commit st t d of Inl msg \<Rightarrow> (Some (''Failed to commit: '' @ msg), mk_Connection d) | Inr d' \<Rightarrow> (None, mk_Connection d'))"
  by (simp add: ConnectionCommit_def query_defs manual_def mk_Connection_def split: sum.split)

lemma manual_rollback: "ConnectionRollback st (manual d t aborted) = (mt_rollback st t d, mk_Connection d)"
  by (cases "mt_rollback st t d") (simp_all add: ConnectionRollback_def query_defs manual_def mk_Connection_def)

lemma aborted_commit: "ConnectionCommit st (manual d t True) = (mt_rollback st t d, mk_Connection d)"
  by (cases "mt_rollback st t d") (simp_all add: ConnectionCommit_def query_defs manual_def mk_Connection_def)

lemma manual_statements:
  "work fs t = Inr t' \<Longrightarrow> run_statements st fs (manual d t False) = (None, manual d t' False)"
proof (induction fs arbitrary: t)
  case (Cons f fs)
  then show ?case by (cases "f t") (simp_all add: manual_statement)
qed simp

lemma auto_statement:
  "run_statement st f (mk_Connection d) =
     (case f (mt_begin st d) of
        Inl (msg, bad) \<Rightarrow> (Some msg, mk_Connection d)
      | Inr t \<Rightarrow> (case mt_commit st t d of
          Inl msg \<Rightarrow> (Some (''Failed to commit: '' @ msg), mk_Connection d) | Inr d' \<Rightarrow> (None, mk_Connection d')))"
  by (auto simp: run_statement_def query_defs mk_Connection_def split: sum.split option.split)

text \<open>
  C6. When the automatic commit is turned off on a new connection, statements work on one snapshot and
  the database does not change until the end: Commit publishes what they did together, Rollback
  leaves the database as it was.
\<close>

theorem manual_transaction:
  assumes "work fs (mt_begin st d) = Inr t"
  shows "\<exists>c. run_statements st fs (snd (SetAutoCommit st False (mk_Connection d))) = (None, c) \<and> conn_db c = d \<and>
    ConnectionCommit st c = (case mt_commit st t d of
      Inl msg \<Rightarrow> (Some (''Failed to commit: '' @ msg), mk_Connection d) | Inr d' \<Rightarrow> (None, mk_Connection d')) \<and>
    ConnectionRollback st c = (mt_rollback st t d, mk_Connection d)"
  by (intro exI[of _ "manual d t False"])
    (simp add: manual_start manual_statements[OF assms] manual_commit manual_rollback)

text \<open>Tables are lists of rows; a transaction works on a copy.\<close>

definition sample_storage :: "(nat list, nat list) storage" where
  "sample_storage = \<lparr>mt_begin = (\<lambda>d. d), mt_commit = (\<lambda>t d. Inr t), mt_rollback = (\<lambda>t d. None)\<rparr>"

theorem manual_transaction_witness:
  "\<exists>c. run_statements sample_storage [\<lambda>t. Inr (1 # t), \<lambda>t. Inr (2 # t)] (snd (SetAutoCommit sample_storage False (mk_Connection [7]))) =
      (None, c) \<and> conn_db c = [7] \<and>
    ConnectionCommit sample_storage c = (case mt_commit sample_storage [2, 1, 7] [7] of
      Inl msg \<Rightarrow> (Some (''Failed to commit: '' @ msg), mk_Connection [7]) | Inr d' \<Rightarrow> (None, mk_Connection d')) \<and>
    ConnectionRollback sample_storage c = (mt_rollback sample_storage [2, 1, 7] [7], mk_Connection [7])"
  by (rule manual_transaction) (simp add: sample_storage_def)

text \<open>
  C30. An error that invalidates the transaction aborts it: every later statement is refused, and both
  Commit and Rollback throw the work away, Commit without an error.
\<close>

theorem aborted_transaction:
  assumes "work fs (mt_begin st d) = Inr t" "f t = Inl (msg, True)" "mt_rollback st t d = None"
  shows "\<exists>c c'. run_statements st fs (snd (SetAutoCommit st False (mk_Connection d))) = (None, c) \<and>
    run_statement st f c = (Some msg, c') \<and>
    (\<forall>g. run_statement st g c' = (Some ''Current transaction is aborted (please ROLLBACK)'', c')) \<and>
    ConnectionCommit st c' = (None, mk_Connection d) \<and> ConnectionRollback st c' = (None, mk_Connection d)"
  by (intro exI[of _ "manual d t False"] exI[of _ "manual d t True"])
    (simp add: manual_start manual_statements[OF assms(1)] manual_statement aborted_statement aborted_commit manual_rollback assms(2,3))

theorem aborted_transaction_witness:
  "\<exists>c c'. run_statements sample_storage [\<lambda>t. Inr (1 # t)] (snd (SetAutoCommit sample_storage False (mk_Connection [7]))) = (None, c) \<and>
    run_statement sample_storage (\<lambda>t. Inl (''conflict'', True)) c = (Some ''conflict'', c') \<and>
    (\<forall>g. run_statement sample_storage g c' = (Some ''Current transaction is aborted (please ROLLBACK)'', c')) \<and>
    ConnectionCommit sample_storage c' = (None, mk_Connection [7]) \<and> ConnectionRollback sample_storage c' = (None, mk_Connection [7])"
  by (rule aborted_transaction[where t = "[1, 7]"]) (simp_all add: sample_storage_def)

section \<open>SQLEndTran\<close>

lemma end_tran_commit:
  assumes "a \<noteq> nullptr" "dbcs w a = Some dbc" "dbc_conn dbc = Some (manual d t False)"
    and "MaterializeResult (dbc\<lparr>dbc_diag := Clean (dbc_diag dbc)\<rparr>) (stmts w) = Some (Some (SQL_SUCCESS, ss))"
    and "mt_commit st t d = Inr d'"
  shows "SQLEndTran st SQL_HANDLE_DBC a SQL_COMMIT w = Some (Some (SQL_SUCCESS, w\<lparr>stmts := ss,
    dbcs := (dbcs w)(a \<mapsto> dbc\<lparr>dbc_diag := Clean (dbc_diag dbc), dbc_conn := Some (mk_Connection d')\<rparr>)\<rparr>))"
  using assms by (simp add: SQLEndTran_def dbc_call_def ConvertConnection_def manual_commit Let_def)

lemma auto_rollback:
  "ConnectionRollback st (mk_Connection d) = (Some ''cannot rollback - no transaction is active'', mk_Connection d)"
  by (auto simp: ConnectionRollback_def query_defs mk_Connection_def split: option.split)

lemma end_tran_rollback_auto:
  assumes "a \<noteq> nullptr" "dbcs w a = Some dbc" "dbc_conn dbc = Some (mk_Connection d)"
  shows "\<exists>w'. SQLEndTran st SQL_HANDLE_DBC a SQL_ROLLBACK w = Some (Some (SQL_ERROR, w')) \<and>
    (\<exists>dbc'. dbcs w' a = Some dbc' \<and> dbc_conn dbc' = Some (mk_Connection d))"
  using assms by (simp add: SQLEndTran_def dbc_call_def ConvertConnection_def auto_rollback split_beta)

text \<open>
  C31. The manual mode does not outlive the first transaction: SQLEndTran leaves the attribute of the
  connection off while the engine commits automatically again. The next statement is published at
  once, and a rollback of it fails.
\<close>

theorem commit_ends_manual_mode:
  assumes "a \<noteq> nullptr" "dbcs w a = Some dbc" "dbc_conn dbc = Some (manual d t False)" "\<not> dbc_autocommit dbc"
    and "MaterializeResult (dbc\<lparr>dbc_diag := Clean (dbc_diag dbc)\<rparr>) (stmts w) = Some (Some (SQL_SUCCESS, ss))"
    and "mt_commit st t d = Inr d1" "f (mt_begin st d1) = Inr t2" "mt_commit st t2 d1 = Inr d2"
  shows "\<exists>w1 dbc1 c1 c2. SQLEndTran st SQL_HANDLE_DBC a SQL_COMMIT w = Some (Some (SQL_SUCCESS, w1)) \<and>
    dbcs w1 a = Some dbc1 \<and> \<not> dbc_autocommit dbc1 \<and> dbc_conn dbc1 = Some c1 \<and>
    run_statement st f c1 = (None, c2) \<and> conn_db c2 = d2 \<and>
    (\<exists>w2. SQLEndTran st SQL_HANDLE_DBC a SQL_ROLLBACK (w1\<lparr>dbcs := (dbcs w1)(a \<mapsto> dbc1\<lparr>dbc_conn := Some c2\<rparr>)\<rparr>) =
        Some (Some (SQL_ERROR, w2)) \<and>
      (\<exists>dbc2. dbcs w2 a = Some dbc2 \<and> dbc_conn dbc2 = Some c2))"
proof -
  let ?dbc1 = "dbc\<lparr>dbc_diag := Clean (dbc_diag dbc), dbc_conn := Some (mk_Connection d1)\<rparr>"
  let ?w1 = "w\<lparr>stmts := ss, dbcs := (dbcs w)(a \<mapsto> ?dbc1)\<rparr>"
  let ?w2 = "?w1\<lparr>dbcs := (dbcs ?w1)(a \<mapsto> ?dbc1\<lparr>dbc_conn := Some (mk_Connection d2)\<rparr>)\<rparr>"
  have "run_statement st f (mk_Connection d1) = (None, mk_Connection d2)" using assms(7,8) by (simp add: auto_statement)
  moreover have "conn_db (mk_Connection d2) = d2" by (simp add: mk_Connection_def)
  ultimately show ?thesis
    using end_tran_commit[OF assms(1-3,5,6)] end_tran_rollback_auto[of a ?w2 "?dbc1\<lparr>dbc_conn := Some (mk_Connection d2)\<rparr>" d2 st] assms(1,4)
    by (intro exI[of _ ?w1] exI[of _ ?dbc1] exI[of _ "mk_Connection d1"] exI[of _ "mk_Connection d2"]) simp
qed

definition manual_dbc :: "(nat list, nat list) OdbcHandleDbc" where
  "manual_dbc = \<lparr>dbc_diag = mk_OdbcDiagnostic, dbc_env = 8, dbc_conn = Some (manual [7] [1, 7] False), dbc_autocommit = False,
     sql_attr_metadata_id = 0, sql_attr_access_mode = SQL_MODE_READ_WRITE, sql_attr_current_catalog = [], dbc_dsn = [],
     vec_stmt_ref = []\<rparr>"

theorem commit_ends_manual_mode_witness:
  "\<exists>w1 dbc1 c1 c2. SQLEndTran sample_storage SQL_HANDLE_DBC 16 SQL_COMMIT (no_handles\<lparr>dbcs := [16 \<mapsto> manual_dbc]\<rparr>) =
      Some (Some (SQL_SUCCESS, w1 :: (string, nat list, nat list) driver)) \<and>
    dbcs w1 16 = Some dbc1 \<and> \<not> dbc_autocommit dbc1 \<and> dbc_conn dbc1 = Some c1 \<and>
    run_statement sample_storage (\<lambda>t. Inr (2 # t)) c1 = (None, c2) \<and> conn_db c2 = [2, 1, 7] \<and>
    (\<exists>w2. SQLEndTran sample_storage SQL_HANDLE_DBC 16 SQL_ROLLBACK (w1\<lparr>dbcs := (dbcs w1)(16 \<mapsto> dbc1\<lparr>dbc_conn := Some c2\<rparr>)\<rparr>) =
        Some (Some (SQL_ERROR, w2)) \<and>
      (\<exists>dbc2. dbcs w2 16 = Some dbc2 \<and> dbc_conn dbc2 = Some c2))"
  by (rule commit_ends_manual_mode[where d = "[7]" and t = "[1, 7]" and ?d1.0 = "[1, 7]" and ?t2.0 = "[2, 1, 7]" and ss = Map.empty
      and dbc = manual_dbc])
    (simp_all add: manual_dbc_def sample_storage_def MaterializeResult_def no_handles_def)

end
