(* ===== verification/Engine_Calendar.thy ===== *)
theory Engine_Calendar
  imports Odbc_Prelude "HOL-Library.Monad_Syntax" "HOL-Library.Signed_Division"
begin

text \<open>
  The calendar of the engine, which the driver calls for dates, times and timestamps:
  \<^verbatim>\<open>src/common/types/date.cpp\<close>, \<^verbatim>\<open>time.cpp\<close> and \<^verbatim>\<open>timestamp.cpp\<close> under \<^verbatim>\<open>src/duckdb\<close>. A date is the number
  of days since 1970-01-01, a time the microseconds since midnight, a timestamp the microseconds since
  1970-01-01 00:00. None stands for what the code does not survive: a read outside a table, a signed
  overflow, and for an exception. The assertions of \<^verbatim>\<open>D_ASSERT\<close> are compiled away; the lemmas show that they
  hold.
\<close>

section \<open>Tables\<close>

definition NORMAL_DAYS :: "int list" where
  "NORMAL_DAYS =
    [0, 31, 28, 31, 30, 31, 30, 31, 31, 30, 31, 30, 31]"

definition CUMULATIVE_DAYS :: "int list" where
  "CUMULATIVE_DAYS =
    [0, 31, 59, 90, 120, 151, 181, 212, 243, 273, 304, 334, 365]"

definition LEAP_DAYS :: "int list" where
  "LEAP_DAYS =
    [0, 31, 29, 31, 30, 31, 30, 31, 31, 30, 31, 30, 31]"

definition CUMULATIVE_LEAP_DAYS :: "int list" where
  "CUMULATIVE_LEAP_DAYS =
    [0, 31, 60, 91, 121, 152, 182, 213, 244, 274, 305, 335, 366]"

definition MONTH_PER_DAY_OF_YEAR :: "int list" where
  "MONTH_PER_DAY_OF_YEAR =
    [1, 1, 1, 1, 1, 1, 1, 1, 1, 1, 1, 1, 1, 1, 1, 1, 1, 1, 1, 1, 1, 1, 1, 1, 1, 1, 1, 1, 1, 1, 1, 2, 2,
     2, 2, 2, 2, 2, 2, 2, 2, 2, 2, 2, 2, 2, 2, 2, 2, 2, 2, 2, 2, 2, 2, 2, 2, 2, 2, 3, 3, 3, 3, 3, 3, 3,
     3, 3, 3, 3, 3, 3, 3, 3, 3, 3, 3, 3, 3, 3, 3, 3, 3, 3, 3, 3, 3, 3, 3, 3, 4, 4, 4, 4, 4, 4, 4, 4, 4,
     4, 4, 4, 4, 4, 4, 4, 4, 4, 4, 4, 4, 4, 4, 4, 4, 4, 4, 4, 4, 4, 5, 5, 5, 5, 5, 5, 5, 5, 5, 5, 5, 5,
     5, 5, 5, 5, 5, 5, 5, 5, 5, 5, 5, 5, 5, 5, 5, 5, 5, 5, 5, 6, 6, 6, 6, 6, 6, 6, 6, 6, 6, 6, 6, 6, 6,
     6, 6, 6, 6, 6, 6, 6, 6, 6, 6, 6, 6, 6, 6, 6, 6, 7, 7, 7, 7, 7, 7, 7, 7, 7, 7, 7, 7, 7, 7, 7, 7, 7,
     7, 7, 7, 7, 7, 7, 7, 7, 7, 7, 7, 7, 7, 7, 8, 8, 8, 8, 8, 8, 8, 8, 8, 8, 8, 8, 8, 8, 8, 8, 8, 8, 8,
     8, 8, 8, 8, 8, 8, 8, 8, 8, 8, 8, 8, 9, 9, 9, 9, 9, 9, 9, 9, 9, 9, 9, 9, 9, 9, 9, 9, 9, 9, 9, 9, 9,
     9, 9, 9, 9, 9, 9, 9, 9, 9, 10, 10, 10, 10, 10, 10, 10, 10, 10, 10, 10, 10, 10, 10, 10, 10, 10, 10,
     10, 10, 10, 10, 10, 10, 10, 10, 10, 10, 10, 10, 10, 11, 11, 11, 11, 11, 11, 11, 11, 11, 11, 11,
     11, 11, 11, 11, 11, 11, 11, 11, 11, 11, 11, 11, 11, 11, 11, 11, 11, 11, 11, 12, 12, 12, 12, 12,
     12, 12, 12, 12, 12, 12, 12, 12, 12, 12, 12, 12, 12, 12, 12, 12, 12, 12, 12, 12, 12, 12, 12, 12,
     12, 12]"

definition LEAP_MONTH_PER_DAY_OF_YEAR :: "int list" where
  "LEAP_MONTH_PER_DAY_OF_YEAR =
    [1, 1, 1, 1, 1, 1, 1, 1, 1, 1, 1, 1, 1, 1, 1, 1, 1, 1, 1, 1, 1, 1, 1, 1, 1, 1, 1, 1, 1, 1, 1, 2, 2,
     2, 2, 2, 2, 2, 2, 2, 2, 2, 2, 2, 2, 2, 2, 2, 2, 2, 2, 2, 2, 2, 2, 2, 2, 2, 2, 2, 3, 3, 3, 3, 3, 3,
     3, 3, 3, 3, 3, 3, 3, 3, 3, 3, 3, 3, 3, 3, 3, 3, 3, 3, 3, 3, 3, 3, 3, 3, 3, 4, 4, 4, 4, 4, 4, 4, 4,
     4, 4, 4, 4, 4, 4, 4, 4, 4, 4, 4, 4, 4, 4, 4, 4, 4, 4, 4, 4, 4, 4, 5, 5, 5, 5, 5, 5, 5, 5, 5, 5, 5,
     5, 5, 5, 5, 5, 5, 5, 5, 5, 5, 5, 5, 5, 5, 5, 5, 5, 5, 5, 5, 6, 6, 6, 6, 6, 6, 6, 6, 6, 6, 6, 6, 6,
     6, 6, 6, 6, 6, 6, 6, 6, 6, 6, 6, 6, 6, 6, 6, 6, 6, 7, 7, 7, 7, 7, 7, 7, 7, 7, 7, 7, 7, 7, 7, 7, 7,
     7, 7, 7, 7, 7, 7, 7, 7, 7, 7, 7, 7, 7, 7, 7, 8, 8, 8, 8, 8, 8, 8, 8, 8, 8, 8, 8, 8, 8, 8, 8, 8, 8,
     8, 8, 8, 8, 8, 8, 8, 8, 8, 8, 8, 8, 8, 9, 9, 9, 9, 9, 9, 9, 9, 9, 9, 9, 9, 9, 9, 9, 9, 9, 9, 9, 9,
     9, 9, 9, 9, 9, 9, 9, 9, 9, 9, 10, 10, 10, 10, 10, 10, 10, 10, 10, 10, 10, 10, 10, 10, 10, 10, 10,
     10, 10, 10, 10, 10, 10, 10, 10, 10, 10, 10, 10, 10, 10, 11, 11, 11, 11, 11, 11, 11, 11, 11, 11,
     11, 11, 11, 11, 11, 11, 11, 11, 11, 11, 11, 11, 11, 11, 11, 11, 11, 11, 11, 11, 12, 12, 12, 12,
     12, 12, 12, 12, 12, 12, 12, 12, 12, 12, 12, 12, 12, 12, 12, 12, 12, 12, 12, 12, 12, 12, 12, 12,
     12, 12, 12]"

definition CUMULATIVE_YEAR_DAYS :: "int list" where
  "CUMULATIVE_YEAR_DAYS =
    [0, 365, 730, 1096, 1461, 1826, 2191, 2557, 2922, 3287, 3652, 4018, 4383, 4748, 5113, 5479, 5844,
     6209, 6574, 6940, 7305, 7670, 8035, 8401, 8766, 9131, 9496, 9862, 10227, 10592, 10957, 11323,
     11688, 12053, 12418, 12784, 13149, 13514, 13879, 14245, 14610, 14975, 15340, 15706, 16071, 16436,
     16801, 17167, 17532, 17897, 18262, 18628, 18993, 19358, 19723, 20089, 20454, 20819, 21184, 21550,
     21915, 22280, 22645, 23011, 23376, 23741, 24106, 24472, 24837, 25202, 25567, 25933, 26298, 26663,
     27028, 27394, 27759, 28124, 28489, 28855, 29220, 29585, 29950, 30316, 30681, 31046, 31411, 31777,
     32142, 32507, 32872, 33238, 33603, 33968, 34333, 34699, 35064, 35429, 35794, 36160, 36525, 36890,
     37255, 37621, 37986, 38351, 38716, 39082, 39447, 39812, 40177, 40543, 40908, 41273, 41638, 42004,
     42369, 42734, 43099, 43465, 43830, 44195, 44560, 44926, 45291, 45656, 46021, 46387, 46752, 47117,
     47482, 47847, 48212, 48577, 48942, 49308, 49673, 50038, 50403, 50769, 51134, 51499, 51864, 52230,
     52595, 52960, 53325, 53691, 54056, 54421, 54786, 55152, 55517, 55882, 56247, 56613, 56978, 57343,
     57708, 58074, 58439, 58804, 59169, 59535, 59900, 60265, 60630, 60996, 61361, 61726, 62091, 62457,
     62822, 63187, 63552, 63918, 64283, 64648, 65013, 65379, 65744, 66109, 66474, 66840, 67205, 67570,
     67935, 68301, 68666, 69031, 69396, 69762, 70127, 70492, 70857, 71223, 71588, 71953, 72318, 72684,
     73049, 73414, 73779, 74145, 74510, 74875, 75240, 75606, 75971, 76336, 76701, 77067, 77432, 77797,
     78162, 78528, 78893, 79258, 79623, 79989, 80354, 80719, 81084, 81450, 81815, 82180, 82545, 82911,
     83276, 83641, 84006, 84371, 84736, 85101, 85466, 85832, 86197, 86562, 86927, 87293, 87658, 88023,
     88388, 88754, 89119, 89484, 89849, 90215, 90580, 90945, 91310, 91676, 92041, 92406, 92771, 93137,
     93502, 93867, 94232, 94598, 94963, 95328, 95693, 96059, 96424, 96789, 97154, 97520, 97885, 98250,
     98615, 98981, 99346, 99711, 100076, 100442, 100807, 101172, 101537, 101903, 102268, 102633,
     102998, 103364, 103729, 104094, 104459, 104825, 105190, 105555, 105920, 106286, 106651, 107016,
     107381, 107747, 108112, 108477, 108842, 109208, 109573, 109938, 110303, 110669, 111034, 111399,
     111764, 112130, 112495, 112860, 113225, 113591, 113956, 114321, 114686, 115052, 115417, 115782,
     116147, 116513, 116878, 117243, 117608, 117974, 118339, 118704, 119069, 119435, 119800, 120165,
     120530, 120895, 121260, 121625, 121990, 122356, 122721, 123086, 123451, 123817, 124182, 124547,
     124912, 125278, 125643, 126008, 126373, 126739, 127104, 127469, 127834, 128200, 128565, 128930,
     129295, 129661, 130026, 130391, 130756, 131122, 131487, 131852, 132217, 132583, 132948, 133313,
     133678, 134044, 134409, 134774, 135139, 135505, 135870, 136235, 136600, 136966, 137331, 137696,
     138061, 138427, 138792, 139157, 139522, 139888, 140253, 140618, 140983, 141349, 141714, 142079,
     142444, 142810, 143175, 143540, 143905, 144271, 144636, 145001, 145366, 145732, 146097]"

abbreviation (input) YEAR_INTERVAL :: int where "YEAR_INTERVAL \<equiv> 400"
abbreviation (input) DAYS_PER_YEAR_INTERVAL :: int where "DAYS_PER_YEAR_INTERVAL \<equiv> 146097"
abbreviation (input) MICROS_PER_DAY :: int where "MICROS_PER_DAY \<equiv> 86400000000"

text \<open>A read of a table; outside of it the behaviour is undefined.\<close>

definition table_at :: "int list \<Rightarrow> int \<Rightarrow> int option" where
  "table_at xs i = (if 0 \<le> i \<and> i < int (length xs) then Some (xs ! nat i) else None)"

section \<open>Days to dates\<close>

function normalize_up :: "int \<Rightarrow> int \<Rightarrow> int \<times> int" where
  "normalize_up n year =
     (if n < 0 then normalize_up (n + DAYS_PER_YEAR_INTERVAL) (year - YEAR_INTERVAL) else (n, year))"
  by pat_completeness auto
termination by (relation "measure (\<lambda>(n, _). nat (- n))") auto

function normalize_down :: "int \<Rightarrow> int \<Rightarrow> int \<times> int" where
  "normalize_down n year =
     (if n \<ge> DAYS_PER_YEAR_INTERVAL then normalize_down (n - DAYS_PER_YEAR_INTERVAL) (year + YEAR_INTERVAL)
      else (n, year))"
  by pat_completeness auto
termination by (relation "measure (\<lambda>(n, _). nat n)") auto

declare normalize_up.simps [simp del] normalize_down.simps [simp del]

text \<open>The third loop goes down in the table of years; below its start it reads outside.\<close>

fun search_year :: "int \<Rightarrow> nat \<Rightarrow> int option" where
  "search_year n 0 = do {
     c \<leftarrow> table_at CUMULATIVE_YEAR_DAYS 0;
     if n < c then None else Some 0
   }"
| "search_year n (Suc k) = do {
     c \<leftarrow> table_at CUMULATIVE_YEAR_DAYS (int (Suc k));
     if n < c then search_year n k else Some (int (Suc k))
   }"

text \<open>The normalised day, the year and the offset of the year in its 400 years.\<close>

definition ExtractYearOffset :: "int \<Rightarrow> (int \<times> int \<times> int) option" where
  "ExtractYearOffset n =
     (let (n, year) = normalize_up n 1970;
          (n, year) = normalize_down n year
      in do {
        year_offset \<leftarrow> search_year n (nat (n sdiv 365));
        Some (n, year + year_offset, year_offset)
      })"

definition Date_Convert :: "int \<Rightarrow> (int \<times> int \<times> int) option" where
  "Date_Convert d = do {
     (n, year, year_offset) \<leftarrow> ExtractYearOffset d;
     this \<leftarrow> table_at CUMULATIVE_YEAR_DAYS year_offset;
     following \<leftarrow> table_at CUMULATIVE_YEAR_DAYS (year_offset + 1);
     let day = n - this;
     let is_leap_year = (following - this = 366);
     month \<leftarrow> table_at (if is_leap_year then LEAP_MONTH_PER_DAY_OF_YEAR else MONTH_PER_DAY_OF_YEAR) day;
     preceding \<leftarrow> table_at (if is_leap_year then CUMULATIVE_LEAP_DAYS else CUMULATIVE_DAYS) (month - 1);
     Some (year, month, day - preceding + 1)
   }"

section \<open>Dates to days\<close>

definition IsLeapYear :: "int \<Rightarrow> bool" where
  "IsLeapYear year \<longleftrightarrow> year smod 4 = 0 \<and> (year smod 100 \<noteq> 0 \<or> year smod 400 = 0)"

text \<open>The 25th of June -5877641 to the 10th of July 5881580.\<close>

definition Date_IsValid :: "int \<Rightarrow> int \<Rightarrow> int \<Rightarrow> bool" where
  "Date_IsValid year month day \<longleftrightarrow>
     \<not> (month < 1 \<or> month > 12) \<and> \<not> day < 1 \<and>
     \<not> (year < -5877641 \<or> year = -5877641 \<and> (month < 6 \<or> month = 6 \<and> day < 25)) \<and>
     \<not> (year > 5881580 \<or> year = 5881580 \<and> (month > 7 \<or> month = 7 \<and> day > 10)) \<and>
     day \<le> (if IsLeapYear year then LEAP_DAYS else NORMAL_DAYS) ! nat month"

text \<open>The outer option is undefined behaviour, the inner one the result false.\<close>

definition TryFromDate :: "int \<Rightarrow> int \<Rightarrow> int \<Rightarrow> int option option" where
  "TryFromDate year month day =
     (if \<not> Date_IsValid year month day then Some None
      else do {
        preceding \<leftarrow> table_at (if IsLeapYear year then CUMULATIVE_LEAP_DAYS else CUMULATIVE_DAYS) (month - 1);
        let n = preceding + (day - 1);
        if year < 1970 then do {
          let diff_from_base = 1970 - year;
          let year_index = 400 - diff_from_base smod 400;
          let fractions = diff_from_base sdiv 400;
          c \<leftarrow> table_at CUMULATIVE_YEAR_DAYS year_index;
          Some (Some (n + c - DAYS_PER_YEAR_INTERVAL - fractions * DAYS_PER_YEAR_INTERVAL))
        } else if year \<ge> 2370 then do {
          let diff_from_base = year - 2370;
          let year_index = diff_from_base smod 400;
          let fractions = diff_from_base sdiv 400;
          c \<leftarrow> table_at CUMULATIVE_YEAR_DAYS year_index;
          Some (Some (n + c + DAYS_PER_YEAR_INTERVAL + fractions * DAYS_PER_YEAR_INTERVAL))
        } else do {
          c \<leftarrow> table_at CUMULATIVE_YEAR_DAYS (year - 1970);
          Some (Some (n + c))
        }
      })"

text \<open>An invalid date is an exception.\<close>

definition FromDate :: "int \<Rightarrow> int \<Rightarrow> int \<Rightarrow> int option" where
  "FromDate year month day = Option.bind (TryFromDate year month day) id"

section \<open>Times and timestamps\<close>

definition IsValidTime :: "int \<Rightarrow> int \<Rightarrow> int \<Rightarrow> int \<Rightarrow> bool" where
  "IsValidTime hour minute second microseconds \<longleftrightarrow>
     (if hour < 0 \<or> hour \<ge> 24 then hour = 24 \<and> minute = 0 \<and> second = 0 \<and> microseconds = 0
      else \<not> (minute < 0 \<or> minute \<ge> 60) \<and> \<not> (second < 0 \<or> second > 60) \<and>
           \<not> (microseconds < 0 \<or> microseconds > 1000000))"

definition FromTime :: "int \<Rightarrow> int \<Rightarrow> int \<Rightarrow> int \<Rightarrow> int" where
  "FromTime hour minute second microseconds =
     ((hour * 60 + minute) * 60 + second) * 1000000 + microseconds"

definition Time_Convert :: "int \<Rightarrow> int \<times> int \<times> int \<times> int" where
  "Time_Convert time =
     (let hour = wrap_s 32 (time sdiv 3600000000); time = time - hour * 3600000000;
          min = wrap_s 32 (time sdiv 60000000); time = time - min * 60000000;
          sec = wrap_s 32 (time sdiv 1000000); time = time - sec * 1000000
      in (hour, min, sec, wrap_s 32 time))"

definition timestamp_infinity :: int where "timestamp_infinity = 2 ^ 63 - 1"
definition date_infinity :: int where "date_infinity = 2 ^ 31 - 1"

definition IsFinite :: "int \<Rightarrow> bool" where
  "IsFinite timestamp \<longleftrightarrow> timestamp \<noteq> timestamp_infinity \<and> timestamp \<noteq> - timestamp_infinity"

definition GetDate :: "int \<Rightarrow> int" where
  "GetDate timestamp =
     (if timestamp = timestamp_infinity then date_infinity
      else if timestamp = - timestamp_infinity then - date_infinity
      else let negative = (if timestamp < 0 then 1 else 0)
           in wrap_s 32 ((timestamp + negative) sdiv MICROS_PER_DAY - negative))"

text \<open>An infinite timestamp is an exception; the product can leave the 64 bits.\<close>

definition GetTime :: "int \<Rightarrow> int option" where
  "GetTime timestamp =
     (if \<not> IsFinite timestamp then None
      else let micros = GetDate timestamp * MICROS_PER_DAY
           in if in_s 64 micros \<and> in_s 64 (timestamp - micros) then Some (timestamp - micros) else None)"

definition TryFromDatetime :: "int \<Rightarrow> int \<Rightarrow> int option" where
  "TryFromDatetime date time =
     (let product = date * MICROS_PER_DAY in
      if \<not> in_s 64 product then None
      else if \<not> in_s 64 (product + time) then None
      else if IsFinite (product + time) then Some (product + time) else None)"

text \<open>Seconds, milliseconds and nanoseconds to microseconds; None is the exception.\<close>

definition FromEpochSeconds :: "int \<Rightarrow> int option" where
  "FromEpochSeconds sec = (if in_s 64 (sec * 1000000) then Some (sec * 1000000) else None)"

definition FromEpochMs :: "int \<Rightarrow> int option" where
  "FromEpochMs ms = (if in_s 64 (ms * 1000) then Some (ms * 1000) else None)"

definition FromEpochMicroSeconds :: "int \<Rightarrow> int" where
  "FromEpochMicroSeconds micros = micros"

definition FromEpochNanoSeconds :: "int \<Rightarrow> int" where
  "FromEpochNanoSeconds ns = ns sdiv 1000"

text \<open>The cast of a date to a timestamp; infinite dates become infinite timestamps.\<close>

definition date_to_timestamp :: "int \<Rightarrow> int option" where
  "date_to_timestamp date =
     (if date = date_infinity then Some timestamp_infinity
      else if date = - date_infinity then Some (- timestamp_infinity)
      else TryFromDatetime date (FromTime 0 0 0 0))"

section \<open>The tables\<close>

text \<open>The checks walk the tables once, so that they are computed.\<close>

lemma IsLeapYear_iff: "IsLeapYear y \<longleftrightarrow> y mod 4 = 0 \<and> (y mod 100 \<noteq> 0 \<or> y mod 400 = 0)"
proof -
  have "y smod n = 0 \<longleftrightarrow> y mod n = 0" if "0 < n" for n :: int
    using that by (auto simp: smod_int_alt_def sgn_if abs_if zmod_zminus1_eq_if mod_eq_0_iff_dvd)
  then show ?thesis by (simp add: IsLeapYear_def)
qed

fun year_steps :: "int \<Rightarrow> int list \<Rightarrow> bool" where
  "year_steps y (a # b # xs) \<longleftrightarrow> b = a + (if IsLeapYear y then 366 else 365) \<and> year_steps (y + 1) (b # xs)"
| "year_steps y xs \<longleftrightarrow> True"

lemma year_steps_nth:
  "year_steps y xs \<Longrightarrow> Suc k < length xs \<Longrightarrow>
   xs ! Suc k = xs ! k + (if IsLeapYear (y + int k) then 366 else 365)"
  by (induction y xs arbitrary: k rule: year_steps.induct) (auto simp: nth_Cons' algebra_simps split: nat.splits)

lemma year_table_steps: "year_steps 1970 CUMULATIVE_YEAR_DAYS"
  by (simp add: CUMULATIVE_YEAR_DAYS_def IsLeapYear_iff)

lemma year_table_length: "length CUMULATIVE_YEAR_DAYS = 401"
  by (simp add: CUMULATIVE_YEAR_DAYS_def)

fun month_runs :: "int \<Rightarrow> int list \<Rightarrow> int list \<Rightarrow> int \<Rightarrow> bool" where
  "month_runs d (m # ms) cs k \<longleftrightarrow> 1 \<le> m \<and> m \<le> 12 \<and> cs ! nat (m - 1) \<le> d \<and> d < cs ! nat m \<and> month_runs (d + 1) ms cs k"
| "month_runs d [] cs k \<longleftrightarrow> d = k"

lemma month_runs_nth:
  "month_runs d ms cs k \<Longrightarrow> i < length ms \<Longrightarrow>
   1 \<le> ms ! i \<and> ms ! i \<le> 12 \<and> cs ! nat (ms ! i - 1) \<le> d + int i \<and> d + int i < cs ! nat (ms ! i)"
proof (induction d ms cs k arbitrary: i rule: month_runs.induct)
  case (1 d m ms cs k)
  then show ?case by (cases i) (auto simp: algebra_simps)
qed simp

lemma month_tables:
  "month_runs 0 MONTH_PER_DAY_OF_YEAR CUMULATIVE_DAYS 365"
  "month_runs 0 LEAP_MONTH_PER_DAY_OF_YEAR CUMULATIVE_LEAP_DAYS 366"
  by (simp_all add: MONTH_PER_DAY_OF_YEAR_def LEAP_MONTH_PER_DAY_OF_YEAR_def CUMULATIVE_DAYS_def CUMULATIVE_LEAP_DAYS_def)


section \<open>The year of a day\<close>

text \<open>The day a year starts on: the specification the tables and the loops implement.\<close>

definition year_start :: "int \<Rightarrow> int" where
  "year_start y = CUMULATIVE_YEAR_DAYS ! nat ((y - 1970) mod 400) + 146097 * ((y - 1970) div 400)"

definition year_length :: "int \<Rightarrow> int" where
  "year_length y = (if IsLeapYear y then 366 else 365)"

lemma IsLeapYear_period: "IsLeapYear (y + 400 * q) = IsLeapYear y"
proof -
  have "400 * q = 4 * (100 * q)" "400 * q = 100 * (4 * q)" by simp_all
  then show ?thesis unfolding IsLeapYear_iff by (metis mod_mult_self2)
qed

lemma year_table_Suc: "k < 400 \<Longrightarrow> CUMULATIVE_YEAR_DAYS ! Suc k = CUMULATIVE_YEAR_DAYS ! k + year_length (1970 + int k)"
  using year_steps_nth[OF year_table_steps, of k] by (simp add: year_table_length year_length_def)

lemma year_table_ends: "CUMULATIVE_YEAR_DAYS ! 0 = 0" "CUMULATIVE_YEAR_DAYS ! 400 = 146097"
  by (simp_all add: CUMULATIVE_YEAR_DAYS_def)

lemma year_length_bounds: "365 \<le> year_length y" "year_length y \<le> 366"
  by (simp_all add: year_length_def)

lemma year_table_mono: "i \<le> j \<Longrightarrow> j \<le> 400 \<Longrightarrow> CUMULATIVE_YEAR_DAYS ! i \<le> CUMULATIVE_YEAR_DAYS ! j"
proof (induction j rule: dec_induct)
  case (step j)
  then show ?case using year_table_Suc[of j] year_length_bounds[of "1970 + int j"] by simp
qed simp

lemma year_table_lower: "k \<le> 400 \<Longrightarrow> 365 * int k \<le> CUMULATIVE_YEAR_DAYS ! k"
proof (induction k)
  case (Suc k)
  then show ?case using year_table_Suc[of k] year_length_bounds[of "1970 + int k"] by simp
qed (simp add: year_table_ends)

lemma year_start_offset:
  assumes "k < 400"
  shows "year_start (1970 + 400 * q + int k) = CUMULATIVE_YEAR_DAYS ! k + 146097 * q"
proof -
  have "(400 * q + int k) mod 400 = int k" "(400 * q + int k) div 400 = q" using assms by simp_all
  then show ?thesis by (simp add: year_start_def)
qed

lemma year_cases:
  obtains q k where "k < 400" "y = 1970 + 400 * q + int k"
proof
  have m: "0 \<le> (y - 1970) mod 400" "(y - 1970) mod 400 < 400" by simp_all
  then show "nat ((y - 1970) mod 400) < 400" by simp
  have "y - 1970 = 400 * ((y - 1970) div 400) + (y - 1970) mod 400" by simp
  then show "y = 1970 + 400 * ((y - 1970) div 400) + int (nat ((y - 1970) mod 400))" using m by linarith
qed

lemma year_length_offset: "year_length (1970 + 400 * q + int k) = year_length (1970 + int k)"
  using IsLeapYear_period[of "1970 + int k" q] by (simp add: year_length_def algebra_simps)

lemma year_start_step: "year_start (y + 1) = year_start y + year_length y"
proof -
  obtain q k where k: "k < 400" "y = 1970 + 400 * q + int k" by (rule year_cases)
  have "year_start (y + 1) = CUMULATIVE_YEAR_DAYS ! Suc k + 146097 * q"
  proof (cases "k = 399")
    case True
    have "y + 1 = 1970 + 400 * (q + 1) + int 0" using k(2) True by simp
    then show ?thesis using year_start_offset[of 0 "q + 1"] True year_table_ends by (simp add: eval_nat_numeral)
  next
    case False
    have "y + 1 = 1970 + 400 * q + int (Suc k)" using k(2) by simp
    then show ?thesis using year_start_offset[of "Suc k" q] k False by simp
  qed
  then show ?thesis using k year_table_Suc[of k] year_start_offset[of k q] by (simp add: year_length_offset)
qed

lemma year_start_mono: "y \<le> z \<Longrightarrow> year_start y \<le> year_start z"
proof (induction z rule: int_ge_induct)
  case (step z)
  then show ?case using year_start_step[of z] year_length_bounds[of z] by simp
qed simp

lemma year_table_between:
  "j \<le> 400 \<Longrightarrow> 0 \<le> n \<Longrightarrow> n < CUMULATIVE_YEAR_DAYS ! j \<Longrightarrow>
   \<exists>k<j. CUMULATIVE_YEAR_DAYS ! k \<le> n \<and> n < CUMULATIVE_YEAR_DAYS ! Suc k"
proof (induction j)
  case (Suc j)
  then show ?case by (cases "n < CUMULATIVE_YEAR_DAYS ! j") (auto simp: less_Suc_eq)
qed (simp add: year_table_ends)

lemma table_at_year: "k \<le> 400 \<Longrightarrow> table_at CUMULATIVE_YEAR_DAYS (int k) = Some (CUMULATIVE_YEAR_DAYS ! k)"
  by (simp add: table_at_def year_table_length)

lemma search_year_finds:
  "CUMULATIVE_YEAR_DAYS ! k \<le> n \<Longrightarrow> n < CUMULATIVE_YEAR_DAYS ! Suc k \<Longrightarrow> k \<le> j \<Longrightarrow> j \<le> 400 \<Longrightarrow>
   search_year n j = Some (int k)"
proof (induction j)
  case 0
  then show ?case by (simp add: table_at_year[of 0, simplified])
next
  case (Suc j)
  show ?case
  proof (cases "k = Suc j")
    case False
    then have "n < CUMULATIVE_YEAR_DAYS ! Suc j" using Suc year_table_mono[of "Suc k" "Suc j"] by simp
    then show ?thesis using Suc False by (simp add: table_at_year del: of_nat_Suc)
  qed (use Suc in \<open>simp add: table_at_year del: of_nat_Suc\<close>)
qed

lemma interval_shift: "(n + 146097) mod 146097 = n mod (146097 :: int)" "(n + 146097) div 146097 = n div (146097 :: int) + 1"
  by simp_all

lemma normalize_up_neg:
  "n < 0 \<Longrightarrow> normalize_up n y = (n mod 146097, y + 400 * (n div 146097))"
proof (induction n y rule: normalize_up.induct)
  case (1 n y)
  have step: "normalize_up n y = normalize_up (n + 146097) (y - 400)"
    using 1(2) by (simp add: normalize_up.simps[of n])
  show ?case
  proof (cases "n + 146097 < 0")
    case True
    show ?thesis using 1(1)[OF 1(2) True] unfolding step interval_shift by simp
  next
    case False
    then have "n div 146097 = -1" "n mod 146097 = n + 146097"
      using 1(2) int_div_pos_eq[of n 146097 "-1" "n + 146097"] int_mod_pos_eq[of n 146097 "-1" "n + 146097"] by simp_all
    then show ?thesis using False unfolding step by (simp add: normalize_up.simps[of "n + 146097"])
  qed
qed

lemma normalize_down_nonneg:
  "0 \<le> n \<Longrightarrow> normalize_down n y = (n mod 146097, y + 400 * (n div 146097))"
proof (induction n y rule: normalize_down.induct)
  case (1 n y)
  show ?case
  proof (cases "n < 146097")
    case True
    then show ?thesis using 1(2) by (simp add: normalize_down.simps[of n y] div_pos_pos_trivial mod_pos_pos_trivial)
  next
    case False
    have step: "normalize_down n y = normalize_down (n - 146097) (y + 400)"
      using False by (simp add: normalize_down.simps[of n y])
    have "146097 \<le> n" "0 \<le> n - 146097" using False by simp_all
    from 1(1)[OF this] show ?thesis using interval_shift[of "n - 146097"] unfolding step by (simp only:) simp
  qed
qed

lemma normalized:
  "(case normalize_up n 1970 of (n, y) \<Rightarrow> normalize_down n y) = (n mod 146097, 1970 + 400 * (n div 146097))"
proof (cases "n < 0")
  case True
  then show ?thesis by (simp add: normalize_up_neg normalize_down_nonneg div_pos_pos_trivial)
next
  case False
  then show ?thesis by (simp add: normalize_down_nonneg normalize_up.simps[of n])
qed

section \<open>Round trips of dates\<close>

lemma signed_nonneg:
  assumes "0 \<le> a" "0 < b"
  shows "a sdiv b = a div (b :: int)" "a smod b = a mod b"
  using assms by (cases "a = 0"; simp add: signed_divide_int_def signed_modulo_int_def sgn_if)+

abbreviation month_starts :: "int \<Rightarrow> int list" where
  "month_starts y \<equiv> (if IsLeapYear y then CUMULATIVE_LEAP_DAYS else CUMULATIVE_DAYS)"

abbreviation month_of_day :: "int \<Rightarrow> int list" where
  "month_of_day y \<equiv> (if IsLeapYear y then LEAP_MONTH_PER_DAY_OF_YEAR else MONTH_PER_DAY_OF_YEAR)"

abbreviation month_lengths :: "int \<Rightarrow> int list" where
  "month_lengths y \<equiv> (if IsLeapYear y then LEAP_DAYS else NORMAL_DAYS)"

lemma month_of_day_length: "int (length (month_of_day y)) = year_length y"
  by (simp add: MONTH_PER_DAY_OF_YEAR_def LEAP_MONTH_PER_DAY_OF_YEAR_def year_length_def)

lemma month_starts_length: "length (month_starts y) = 13"
  by (simp add: CUMULATIVE_DAYS_def CUMULATIVE_LEAP_DAYS_def)

lemma month_of_day_bounds:
  assumes "0 \<le> d" "d < year_length y"
  shows "1 \<le> month_of_day y ! nat d" "month_of_day y ! nat d \<le> 12"
    "month_starts y ! nat (month_of_day y ! nat d - 1) \<le> d" "d < month_starts y ! nat (month_of_day y ! nat d)"
proof -
  have "nat d < length (month_of_day y)" using assms month_of_day_length[of y] by linarith
  moreover have "month_runs 0 (month_of_day y) (month_starts y) (year_length y)"
    using month_tables by (simp add: year_length_def)
  ultimately show "1 \<le> month_of_day y ! nat d" "month_of_day y ! nat d \<le> 12"
    "month_starts y ! nat (month_of_day y ! nat d - 1) \<le> d" "d < month_starts y ! nat (month_of_day y ! nat d)"
    using month_runs_nth[of 0 "month_of_day y" "month_starts y" "year_length y" "nat d"] assms(1) by auto
qed

lemma month_starts_sorted: "sorted (month_starts y)"
  by (simp add: CUMULATIVE_DAYS_def CUMULATIVE_LEAP_DAYS_def)

lemma month_starts_mono: "0 \<le> a \<Longrightarrow> a \<le> b \<Longrightarrow> b \<le> 12 \<Longrightarrow> month_starts y ! nat a \<le> month_starts y ! nat b"
  using sorted_nth_mono[OF month_starts_sorted, of "nat a" "nat b" y] month_starts_length[of y] by simp

lemma month_unique:
  assumes "1 \<le> a" "a \<le> 12" "1 \<le> b" "b \<le> 12"
    "month_starts y ! nat (a - 1) \<le> d" "d < month_starts y ! nat a"
    "month_starts y ! nat (b - 1) \<le> d" "d < month_starts y ! nat b"
  shows "a = b"
proof (rule ccontr)
  assume "a \<noteq> b"
  then consider "a \<le> b - 1" | "b \<le> a - 1" by linarith
  then show False
    using month_starts_mono[of a "b - 1" y] month_starts_mono[of b "a - 1" y] assms by cases simp_all
qed

lemma month_lengths_check:
  "list_all (\<lambda>m. LEAP_DAYS ! nat m = CUMULATIVE_LEAP_DAYS ! nat m - CUMULATIVE_LEAP_DAYS ! nat (m - 1)) [1..12]"
  "list_all (\<lambda>m. NORMAL_DAYS ! nat m = CUMULATIVE_DAYS ! nat m - CUMULATIVE_DAYS ! nat (m - 1)) [1..12]"
  by code_simp+

lemma month_length:
  "1 \<le> m \<Longrightarrow> m \<le> 12 \<Longrightarrow> month_lengths y ! nat m = month_starts y ! nat m - month_starts y ! nat (m - 1)"
  using month_lengths_check by (simp add: list_all_iff)

lemma month_starts_ends: "month_starts y ! 0 = 0" "month_starts y ! 12 = year_length y"
  by (simp_all add: CUMULATIVE_DAYS_def CUMULATIVE_LEAP_DAYS_def year_length_def)

text \<open>The year, and with it the tables, is the one whose days the number lies in.\<close>

lemma year_of_day: obtains y where "year_start y \<le> n" "n < year_start (y + 1)"
proof -
  have "0 \<le> n mod 146097" "n mod 146097 < CUMULATIVE_YEAR_DAYS ! 400" by (simp_all add: year_table_ends)
  then obtain k where k: "k < 400" "CUMULATIVE_YEAR_DAYS ! k \<le> n mod 146097" "n mod 146097 < CUMULATIVE_YEAR_DAYS ! Suc k"
    using year_table_between[of 400 "n mod 146097"] by auto
  let ?y = "1970 + 400 * (n div 146097) + int k"
  have "n = 146097 * (n div 146097) + n mod 146097" by simp
  moreover have "year_start ?y = CUMULATIVE_YEAR_DAYS ! k + 146097 * (n div 146097)"
    by (rule year_start_offset[OF k(1)])
  moreover have "year_start (?y + 1) = CUMULATIVE_YEAR_DAYS ! Suc k + 146097 * (n div 146097)"
    using year_start_step[of ?y] year_table_Suc[OF k(1)] calculation(2) by (simp add: year_length_offset)
  ultimately show thesis using that[of ?y] k(2,3) by linarith
qed

lemma ExtractYearOffset_year:
  assumes "year_start y \<le> n" "n < year_start (y + 1)"
  obtains k where "k < 400" "ExtractYearOffset n = Some (n mod 146097, y, int k)"
    "n mod 146097 - CUMULATIVE_YEAR_DAYS ! k = n - year_start y"
    "CUMULATIVE_YEAR_DAYS ! Suc k - CUMULATIVE_YEAR_DAYS ! k = year_length y"
proof -
  obtain q k where k: "k < 400" "y = 1970 + 400 * q + int k" by (rule year_cases)
  have s: "year_start y = CUMULATIVE_YEAR_DAYS ! k + 146097 * q" using year_start_offset[OF k(1)] k(2) by simp
  have l: "CUMULATIVE_YEAR_DAYS ! Suc k - CUMULATIVE_YEAR_DAYS ! k = year_length y"
    using year_table_Suc[OF k(1)] k(2) by (simp add: year_length_offset)
  let ?r = "n - 146097 * q"
  have r: "CUMULATIVE_YEAR_DAYS ! k \<le> ?r" "?r < CUMULATIVE_YEAR_DAYS ! Suc k"
    using assms s l year_start_step[of y] by simp_all
  have "0 \<le> ?r" "?r < 146097"
    using r year_table_mono[of 0 k] year_table_mono[of "Suc k" 400] k(1) year_table_ends by simp_all
  then have m: "n div 146097 = q" "n mod 146097 = ?r"
    using int_div_pos_eq[of n 146097 q ?r] int_mod_pos_eq[of n 146097 q ?r] by simp_all
  have "365 * int k \<le> ?r" using year_table_lower[of k] r k by simp
  then have "k \<le> nat (?r div 365)" by linarith
  moreover have "nat (?r div 365) \<le> 400" using \<open>?r < 146097\<close> by linarith
  moreover have "?r sdiv 365 = ?r div 365" using \<open>0 \<le> ?r\<close> by (simp add: signed_nonneg)
  ultimately have f: "search_year ?r (nat (?r sdiv 365)) = Some (int k)"
    using search_year_finds[OF r, of "nat (?r div 365)"] by simp
  have "ExtractYearOffset n = Some (n mod 146097, y, int k)"
    using normalized[of n] f by (simp add: ExtractYearOffset_def split_beta m k(2))
  then show thesis using that k(1) l s m by simp
qed

lemma Date_Convert_in_year:
  assumes "year_start y \<le> n" "n < year_start (y + 1)"
  defines "d \<equiv> n - year_start y"
  shows "Date_Convert n =
    Some (y, month_of_day y ! nat d, d - month_starts y ! nat (month_of_day y ! nat d - 1) + 1)"
proof -
  obtain k where k: "k < 400" "ExtractYearOffset n = Some (n mod 146097, y, int k)"
    "n mod 146097 - CUMULATIVE_YEAR_DAYS ! k = d"
    "CUMULATIVE_YEAR_DAYS ! Suc k - CUMULATIVE_YEAR_DAYS ! k = year_length y"
    using ExtractYearOffset_year[OF assms(1,2)] unfolding d_def by metis
  have d: "0 \<le> d" "d < year_length y" using assms(1,2) year_start_step[of y] unfolding d_def by simp_all
  have t: "table_at CUMULATIVE_YEAR_DAYS (int k) = Some (CUMULATIVE_YEAR_DAYS ! k)"
    "table_at CUMULATIVE_YEAR_DAYS (int k + 1) = Some (CUMULATIVE_YEAR_DAYS ! Suc k)"
    using table_at_year[of k] table_at_year[of "Suc k"] k(1) by (simp_all add: add.commute)
  have leap: "(CUMULATIVE_YEAR_DAYS ! Suc k - CUMULATIVE_YEAR_DAYS ! k = 366) = IsLeapYear y"
    using k(4) by (simp add: year_length_def)
  have m: "table_at (month_of_day y) d = Some (month_of_day y ! nat d)"
    using d month_of_day_length[of y] by (simp add: table_at_def)
  have b: "table_at (month_starts y) (month_of_day y ! nat d - 1) = Some (month_starts y ! nat (month_of_day y ! nat d - 1))"
    using month_of_day_bounds(1,2)[OF d] month_starts_length[of y] unfolding table_at_def by (simp del: if_split_asm)
  show ?thesis by (simp add: Date_Convert_def k(2) t leap k(3) m b Let_def)
qed

text \<open>The day number of a valid date.\<close>

lemma TryFromDate_value:
  assumes "Date_IsValid y m d"
  shows "TryFromDate y m d = Some (Some (year_start y + month_starts y ! nat (m - 1) + (d - 1)))"
proof -
  have m: "1 \<le> m" "m \<le> 12" using assms by (simp_all add: Date_IsValid_def)
  have b: "table_at (month_starts y) (m - 1) = Some (month_starts y ! nat (m - 1))"
    using m month_starts_length[of y] unfolding table_at_def by (simp del: if_split_asm)
  consider "y < 1970" | "y \<ge> 2370" | "1970 \<le> y" "y < 2370" by linarith
  then show ?thesis
  proof cases
    case 1
    let ?x = "1970 - y"
    have x: "?x smod 400 = ?x mod 400" "?x sdiv 400 = ?x div 400" using 1 by (simp_all add: signed_nonneg)
    have neg: "(y - 1970) mod 400 = (if ?x mod 400 = 0 then 0 else 400 - ?x mod 400)"
      "(y - 1970) div 400 = (if ?x mod 400 = 0 then - (?x div 400) else - (?x div 400) - 1)"
      using zmod_zminus1_eq_if[of ?x 400] zdiv_zminus1_eq_if[of 400 ?x] by simp_all
    have t: "table_at CUMULATIVE_YEAR_DAYS (400 - ?x mod 400) = Some (CUMULATIVE_YEAR_DAYS ! nat (400 - ?x mod 400))"
      using table_at_year[of "nat (400 - ?x mod 400)"] pos_mod_bound[of 400 ?x] by (simp del: pos_mod_bound)
    have "CUMULATIVE_YEAR_DAYS ! nat (400 - ?x mod 400) - 146097 - ?x div 400 * 146097 = year_start y"
      unfolding year_start_def neg
      by (cases "?x mod 400 = 0") (simp_all add: year_table_ends algebra_simps)
    then show ?thesis using 1 assms b t x by (simp add: TryFromDate_def Let_def)
  next
    case 2
    let ?x = "y - 2370"
    have x: "?x smod 400 = ?x mod 400" "?x sdiv 400 = ?x div 400" using 2 by (simp_all add: signed_nonneg)
    have s: "(y - 1970) mod 400 = ?x mod 400" "(y - 1970) div 400 = ?x div 400 + 1"
      using div_add_self2[of 400 ?x] mod_add_self2[of ?x 400] by (simp_all add: algebra_simps)
    have t: "table_at CUMULATIVE_YEAR_DAYS (?x mod 400) = Some (CUMULATIVE_YEAR_DAYS ! nat (?x mod 400))"
      using table_at_year[of "nat (?x mod 400)"] by simp
    show ?thesis using 2 assms b t x by (simp add: TryFromDate_def Let_def year_start_def s algebra_simps)
  next
    case 3
    have t: "table_at CUMULATIVE_YEAR_DAYS (y - 1970) = Some (year_start y)"
      using 3 table_at_year[of "nat (y - 1970)"] by (simp add: year_start_def div_pos_pos_trivial mod_pos_pos_trivial)
    show ?thesis using 3 assms b t by (simp add: TryFromDate_def Let_def)
  qed
qed

lemma day_in_year:
  assumes "1 \<le> m" "m \<le> 12" "1 \<le> d" "d \<le> month_lengths y ! nat m"
  shows "0 \<le> month_starts y ! nat (m - 1) + (d - 1)" "month_starts y ! nat (m - 1) + (d - 1) < year_length y"
    "month_of_day y ! nat (month_starts y ! nat (m - 1) + (d - 1)) = m"
proof -
  let ?n = "month_starts y ! nat (m - 1) + (d - 1)"
  have u: "?n < month_starts y ! nat m" using assms(3,4) month_length[OF assms(1,2), of y] by linarith
  show l: "0 \<le> ?n" using month_starts_mono[of 0 "m - 1" y] month_starts_ends(1)[of y] assms by simp
  show "?n < year_length y" using u month_starts_mono[of m 12 y] month_starts_ends(2)[of y] assms by simp
  note b = month_of_day_bounds[OF l this]
  show "month_of_day y ! nat ?n = m"
    by (rule month_unique[OF b(1,2) assms(1,2) b(3,4) _ u]) (use assms(3) in simp)
qed

lemma Date_Convert_value:
  assumes "1 \<le> m" "m \<le> 12" "1 \<le> d" "d \<le> month_lengths y ! nat m"
  shows "Date_Convert (year_start y + month_starts y ! nat (m - 1) + (d - 1)) = Some (y, m, d)"
proof -
  let ?n = "year_start y + month_starts y ! nat (m - 1) + (d - 1)"
  note dy = day_in_year[OF assms]
  have "year_start y \<le> ?n" "?n < year_start (y + 1)" using dy year_start_step[of y] by linarith+
  from Date_Convert_in_year[OF this] dy(3) show ?thesis by (simp add: add.assoc del: if_split_asm)
qed

lemma Date_Convert_total:
  obtains y m d where "Date_Convert n = Some (y, m, d)" "1 \<le> m" "m \<le> 12" "1 \<le> d" "d \<le> month_lengths y ! nat m"
    "n = year_start y + month_starts y ! nat (m - 1) + (d - 1)"
proof -
  obtain y where y: "year_start y \<le> n" "n < year_start (y + 1)" by (rule year_of_day)
  have d: "0 \<le> n - year_start y" "n - year_start y < year_length y" using y year_start_step[of y] by simp_all
  note b = month_of_day_bounds[OF d]
  let ?m = "month_of_day y ! nat (n - year_start y)"
  show thesis
    by (rule that[OF Date_Convert_in_year[OF y]])
      (use b month_length[OF b(1,2), of y] in \<open>linarith+\<close>)
qed

lemma year_start_ends: "year_start (-5877641) = -2147483821" "year_start 5881580 = 2147483455"
  "\<not> IsLeapYear (-5877641)" "IsLeapYear 5881580"
  by (simp_all add: year_start_def IsLeapYear_iff CUMULATIVE_YEAR_DAYS_def)

lemma in_order: "y < z \<Longrightarrow> n < year_start (y + 1) \<Longrightarrow> n < year_start z"
  using year_start_mono[of "y + 1" z] by simp

text \<open>The valid dates are exactly the numbers of 32 bits that are neither infinite nor the smallest.\<close>

lemma valid_date_range:
  assumes "1 \<le> m" "m \<le> 12" "1 \<le> d" "d \<le> month_lengths y ! nat m"
  shows "Date_IsValid y m d \<longleftrightarrow>
    \<bar>year_start y + month_starts y ! nat (m - 1) + (d - 1)\<bar> < date_infinity"
proof -
  let ?n = "year_start y + month_starts y ! nat (m - 1) + (d - 1)"
  note dy = day_in_year[OF assms]
  have n: "year_start y \<le> ?n" "?n < year_start (y + 1)" using dy year_start_step[of y] by linarith+
  have low: "y < -5877641 \<or> y = -5877641 \<and> (m < 6 \<or> m = 6 \<and> d < 25) \<longleftrightarrow> ?n \<le> - date_infinity"
  proof (cases y "-5877641 :: int" rule: linorder_cases)
    case less
    then show ?thesis using in_order[OF less n(2)] by (simp add: year_start_ends date_infinity_def)
  next
    case equal
    have "m < 6 \<or> m = 6 \<and> d < 25 \<longleftrightarrow> ?n \<le> year_start y + 174"
    proof (cases m "6 :: int" rule: linorder_cases)
      case less
      then show ?thesis using month_starts_mono[of m 5 y] equal year_start_ends(3) month_length[OF assms(1,2), of y] assms(1,4)
        by (simp add: CUMULATIVE_DAYS_def)
    next
      case greater
      then show ?thesis using month_starts_mono[of 6 "m - 1" y] equal year_start_ends(3) assms(2,3)
        by (simp add: CUMULATIVE_DAYS_def)
    next
      case equal
      then show ?thesis using \<open>y = -5877641\<close> year_start_ends(3) by (simp add: CUMULATIVE_DAYS_def) presburger
    qed
    then show ?thesis using equal by (simp add: year_start_ends date_infinity_def)
  next
    case greater
    then have "year_start (-5877641 + 1) \<le> year_start y" by (intro year_start_mono) simp
    then show ?thesis using n greater year_start_step[of "-5877641"]
      by (simp add: year_start_ends date_infinity_def year_length_def)
  qed
  have high: "y > 5881580 \<or> y = 5881580 \<and> (m > 7 \<or> m = 7 \<and> d > 10) \<longleftrightarrow> ?n \<ge> date_infinity"
  proof (cases y "5881580 :: int" rule: linorder_cases)
    case less
    then show ?thesis using in_order[OF less n(2)] by (simp add: year_start_ends date_infinity_def)
  next
    case equal
    have "m > 7 \<or> m = 7 \<and> d > 10 \<longleftrightarrow> ?n \<ge> year_start y + 192"
    proof (cases m "7 :: int" rule: linorder_cases)
      case less
      then show ?thesis using month_starts_mono[of m 6 y] equal year_start_ends(4) month_length[OF assms(1,2), of y] assms(1,4)
        by (simp add: CUMULATIVE_LEAP_DAYS_def)
    next
      case greater
      then show ?thesis using month_starts_mono[of 7 "m - 1" y] equal year_start_ends(4) assms(2,3)
        by (simp add: CUMULATIVE_LEAP_DAYS_def)
    next
      case equal
      then show ?thesis using \<open>y = 5881580\<close> year_start_ends(4) by (simp add: CUMULATIVE_LEAP_DAYS_def) presburger
    qed
    then show ?thesis using equal by (simp add: year_start_ends date_infinity_def)
  next
    case greater
    then have "year_start (5881580 + 1) \<le> year_start y" by (intro year_start_mono) simp
    then show ?thesis using n greater year_start_step[of 5881580]
      by (simp add: year_start_ends date_infinity_def year_length_def)
  qed
  have "\<bar>?n\<bar> < date_infinity \<longleftrightarrow> \<not> ?n \<le> - date_infinity \<and> \<not> ?n \<ge> date_infinity" by linarith
  then show ?thesis unfolding low[symmetric] high[symmetric] Date_IsValid_def using assms by (simp only: not_less de_Morgan_disj simp_thms)
qed

text \<open>Every valid date survives the way to its number and back.\<close>

theorem date_roundtrip:
  assumes "FromDate y m d = Some n"
  shows "\<bar>n\<bar> < date_infinity" "Date_Convert n = Some (y, m, d)"
proof -
  have v: "Date_IsValid y m d" using assms by (auto simp: FromDate_def TryFromDate_def split: if_split_asm)
  then have md: "1 \<le> m" "m \<le> 12" "1 \<le> d" "d \<le> month_lengths y ! nat m" by (simp_all add: Date_IsValid_def)
  have "n = year_start y + month_starts y ! nat (m - 1) + (d - 1)"
    using assms TryFromDate_value[OF v] by (simp add: FromDate_def)
  then show "\<bar>n\<bar> < date_infinity" "Date_Convert n = Some (y, m, d)"
    using valid_date_range[OF md] v Date_Convert_value[OF md] by simp_all
qed

lemma Date_Convert_inverse:
  "\<exists>y m d. Date_Convert n = Some (y, m, d) \<and> 1 \<le> m \<and> m \<le> 12 \<and> 1 \<le> d \<and> d \<le> 31 \<and>
     (\<bar>n\<bar> < date_infinity \<longrightarrow> Date_IsValid y m d \<and> FromDate y m d = Some n)"
proof -
  obtain y m d where c: "Date_Convert n = Some (y, m, d)" and md: "1 \<le> m" "m \<le> 12" "1 \<le> d" "d \<le> month_lengths y ! nat m"
    and n: "n = year_start y + month_starts y ! nat (m - 1) + (d - 1)" by (rule Date_Convert_total)
  have "list_all (\<lambda>m. LEAP_DAYS ! nat m \<le> 31) [1..12]" "list_all (\<lambda>m. NORMAL_DAYS ! nat m \<le> 31) [1..12]"
    by code_simp+
  then have "LEAP_DAYS ! nat m \<le> 31" "NORMAL_DAYS ! nat m \<le> 31" using md(1,2) by (simp_all add: list_all_iff)
  then have "d \<le> 31" using md(4) by (simp split: if_split_asm)
  moreover have "\<bar>n\<bar> < date_infinity \<longrightarrow> Date_IsValid y m d \<and> FromDate y m d = Some n"
    using valid_date_range[OF md] TryFromDate_value[of y m d] n by (simp add: FromDate_def)
  ultimately show ?thesis using c md(1,2,3) by (intro exI conjI)
qed

text \<open>
  C36. \<^verbatim>\<open>Date::Convert\<close> ends for every number and never reads outside its tables; for a finite date the
  result is valid and gives the number back.
\<close>

theorem convert_from_date:
  "\<exists>y m d. Date_Convert n = Some (y, m, d) \<and> 1 \<le> m \<and> m \<le> 12 \<and> 1 \<le> d \<and> d \<le> 31 \<and>
     (\<bar>n\<bar> < date_infinity \<longrightarrow> Date_IsValid y m d \<and> FromDate y m d = Some n)"
  by (rule Date_Convert_inverse)

theorem convert_from_date_witness:
  "\<exists>y m d. Date_Convert 19782 = Some (y, m, d) \<and> Date_IsValid y m d \<and> FromDate y m d = Some 19782"
  using convert_from_date[of 19782] by (auto simp: date_infinity_def)

lemma leap_day: "Date_IsValid 2024 2 29" "\<not> Date_IsValid 2023 2 29" "FromDate 2024 2 29 = Some 19782"
proof -
  show v: "Date_IsValid 2024 2 29" by (simp add: Date_IsValid_def IsLeapYear_iff LEAP_DAYS_def)
  show "\<not> Date_IsValid 2023 2 29" by (simp add: Date_IsValid_def IsLeapYear_iff NORMAL_DAYS_def)
  have "year_start 2024 = 19723" by (simp add: year_start_def CUMULATIVE_YEAR_DAYS_def)
  then show "FromDate 2024 2 29 = Some 19782"
    using TryFromDate_value[OF v] by (simp add: FromDate_def IsLeapYear_iff CUMULATIVE_LEAP_DAYS_def)
qed

section \<open>The order of dates\<close>

text \<open>Dates in the order of year, month and day.\<close>

datatype civil = Civil (civil_year: int) (civil_month: int) (civil_day: int)

instantiation civil :: linorder
begin

definition less_eq_civil :: "civil \<Rightarrow> civil \<Rightarrow> bool" where
  "less_eq_civil a b \<longleftrightarrow> civil_year a < civil_year b \<or> civil_year a = civil_year b \<and>
     (civil_month a < civil_month b \<or> civil_month a = civil_month b \<and> civil_day a \<le> civil_day b)"

definition less_civil :: "civil \<Rightarrow> civil \<Rightarrow> bool" where
  "less_civil a b \<longleftrightarrow> a \<le> b \<and> \<not> b \<le> (a :: civil)"

instance
  by standard (auto simp: less_eq_civil_def less_civil_def intro: civil.expand)

end

definition civil_of_days :: "int \<Rightarrow> civil" where
  "civil_of_days n = (case Date_Convert n of Some (y, m, d) \<Rightarrow> Civil y m d | None \<Rightarrow> Civil 0 0 0)"

text \<open>Comparing the numbers of days is comparing the dates.\<close>

lemma year_start_strict: "y < z \<Longrightarrow> year_start y + year_length y \<le> year_start z"
  using year_start_mono[of "y + 1" z] year_start_step[of y] by simp

theorem civil_of_days_mono: "strict_mono civil_of_days"
proof (rule strict_monoI)
  fix n n' :: int assume less: "n < n'"
  obtain y m d where c: "Date_Convert n = Some (y, m, d)" "1 \<le> m" "m \<le> 12" "1 \<le> d" "d \<le> month_lengths y ! nat m"
    "n = year_start y + month_starts y ! nat (m - 1) + (d - 1)" by (rule Date_Convert_total)
  obtain y' m' d' where c': "Date_Convert n' = Some (y', m', d')" "1 \<le> m'" "m' \<le> 12" "1 \<le> d'" "d' \<le> month_lengths y' ! nat m'"
    "n' = year_start y' + month_starts y' ! nat (m' - 1) + (d' - 1)" by (rule Date_Convert_total)
  note n = day_in_year[OF c(2-5)] and n' = day_in_year[OF c'(2-5)]
  have "\<not> y' < y" using year_start_strict[of y' y] less c(6) c'(6) n(1) n'(2) by linarith
  moreover have "\<not> m' < m" if "y' = y"
  proof
    assume "m' < m"
    then have "month_starts y ! nat m' \<le> month_starts y ! nat (m - 1)" using month_starts_mono[of m' "m - 1" y] c(3) c'(2) by simp
    then show False using month_length[OF c'(2,3), of y'] c'(5,6) c(4,6) less that by simp
  qed
  moreover have "d < d'" if "y' = y" "m' = m" using less c(6) c'(6) that by simp
  ultimately show "civil_of_days n < civil_of_days n'"
    using c(1) c'(1) by (auto simp: civil_of_days_def less_civil_def less_eq_civil_def)
qed

section \<open>Round trips of times and timestamps\<close>

lemma time_in_day:
  assumes "IsValidTime h mi s us" "h < 24" "s < 60" "us < 1000000"
  shows "0 \<le> FromTime h mi s us" "FromTime h mi s us < MICROS_PER_DAY"
  using assms by (auto simp: IsValidTime_def FromTime_def split: if_split_asm)

text \<open>The time of a day without leap seconds survives; second 60 becomes the next minute.\<close>

lemma time_roundtrip:
  assumes "IsValidTime h mi s us" "h < 24" "s < 60" "us < 1000000"
  shows "Time_Convert (FromTime h mi s us) = (h, mi, s, us)"
proof -
  have b: "0 \<le> h" "h < 24" "0 \<le> mi" "mi < 60" "0 \<le> s" "s < 60" "0 \<le> us" "us < 1000000"
    using assms by (auto simp: IsValidTime_def split: if_split_asm)
  have q: "FromTime h mi s us div 3600000000 = h" "(FromTime h mi s us - h * 3600000000) div 60000000 = mi"
    "(FromTime h mi s us - h * 3600000000 - mi * 60000000) div 1000000 = s"
    "FromTime h mi s us - h * 3600000000 - mi * 60000000 - s * 1000000 = us"
    using b
      int_div_pos_eq[of "FromTime h mi s us" 3600000000 h "mi * 60000000 + s * 1000000 + us"]
      int_div_pos_eq[of "FromTime h mi s us - h * 3600000000" 60000000 mi "s * 1000000 + us"]
      int_div_pos_eq[of "FromTime h mi s us - h * 3600000000 - mi * 60000000" 1000000 s us]
    by (simp_all add: FromTime_def)
  have p: "0 \<le> FromTime h mi s us" "0 \<le> FromTime h mi s us - h * 3600000000"
    "0 \<le> FromTime h mi s us - h * 3600000000 - mi * 60000000" using b by (simp_all add: FromTime_def)
  have z: "FromTime h mi s us sdiv 3600000000 = h" "(FromTime h mi s us - h * 3600000000) sdiv 60000000 = mi"
    "(FromTime h mi s us - h * 3600000000 - mi * 60000000) sdiv 1000000 = s"
    using q signed_nonneg(1)[OF p(1), of 3600000000] signed_nonneg(1)[OF p(2), of 60000000]
      signed_nonneg(1)[OF p(3), of 1000000] by simp_all
  have w: "wrap_s 32 h = h" "wrap_s 32 mi = mi" "wrap_s 32 s = s" "wrap_s 32 us = us"
    using b by (simp_all add: wrap_s_id in_s_def)
  show ?thesis by (simp add: Time_Convert_def Let_def p(1) z q w)
qed

lemma GetDate_floor:
  assumes "in_s 64 t" "IsFinite t"
  shows "GetDate t = t div MICROS_PER_DAY"
proof -
  let ?neg = "if t < 0 then 1 else 0 :: int"
  have s: "(t + ?neg) sdiv MICROS_PER_DAY - ?neg = t div MICROS_PER_DAY"
  proof (cases "t < 0")
    case True
    have "(- (t + 1)) div 86400000000 = - (t div 86400000000) - 1" by linarith
    moreover have "(t + 1) sdiv 86400000000 = - ((- (t + 1)) div 86400000000)"
      using True by (cases "t + 1 = 0") (simp_all add: signed_divide_int_def sgn_if abs_if)
    ultimately show ?thesis using True by simp
  qed (simp add: signed_nonneg)
  have "in_s 32 (t div 86400000000)" using assms(1) by (simp add: in_s_def) linarith
  then show ?thesis using s assms(2) by (simp add: GetDate_def IsFinite_def wrap_s_id)
qed

text \<open>\<^verbatim>\<open>FromDatetime\<close> is inverted by \<^verbatim>\<open>GetDate\<close> and \<^verbatim>\<open>GetTime\<close>.\<close>

lemma datetime_roundtrip:
  assumes "TryFromDatetime d u = Some t" "0 \<le> u" "u < MICROS_PER_DAY"
  shows "IsFinite t" "GetDate t = d" "GetTime t = Some u"
proof -
  have t: "t = d * 86400000000 + u" "in_s 64 (d * 86400000000)" "in_s 64 t" "IsFinite t"
    using assms(1) by (auto simp: TryFromDatetime_def Let_def split: if_split_asm)
  have "t div 86400000000 = d" using t(1) assms(2,3) int_div_pos_eq[of t 86400000000 d u] by simp
  then show g: "GetDate t = d" using GetDate_floor[OF t(3,4)] by simp
  have "in_s 64 u" using assms(2,3) by (simp add: in_s_def)
  then show "GetTime t = Some u" using g t by (simp add: GetTime_def)
  show "IsFinite t" by (rule t(4))
qed
end
