(* ===== verification/Engine_Text.thy ===== *)
theory Engine_Text
  imports Engine_Calendar
begin

text \<open>
  Texts of dates and times in the engine: \<^verbatim>\<open>date.cpp\<close>, \<^verbatim>\<open>time.cpp\<close> and \<^verbatim>\<open>cast_helpers.hpp\<close> under
  \<^verbatim>\<open>src/duckdb\<close>. A parser takes the characters that are left and returns those it leaves; the position
  of the code is the length of what was taken. What the writers produce the parsers read back.
\<close>

section \<open>Characters and numbers\<close>

definition CharacterIsSpace :: "char \<Rightarrow> bool" where
  "CharacterIsSpace c \<longleftrightarrow> c = CHR '' '' \<or> (CHR 0x09 \<le> c \<and> c \<le> CHR 0x0D)"

definition CharacterIsDigit :: "char \<Rightarrow> bool" where
  "CharacterIsDigit c \<longleftrightarrow> c \<ge> CHR ''0'' \<and> c \<le> CHR ''9''"

definition CharacterToLower :: "char \<Rightarrow> char" where
  "CharacterToLower c = (if CHR ''A'' \<le> c \<and> c \<le> CHR ''Z'' then char_of (of_char c + 32 :: nat) else c)"

definition digit_value :: "char \<Rightarrow> int" where
  "digit_value c = int (of_char c) - 48"

definition digit_char :: "int \<Rightarrow> char" where
  "digit_char n = char_of (nat (n + 48))"

text \<open>Two digits at a time, written from the right.\<close>

function FormatUnsigned :: "int \<Rightarrow> string \<Rightarrow> string" where
  "FormatUnsigned value rest =
     (if value \<ge> 100 then
        FormatUnsigned (value div 100) (digit_char (value mod 100 div 10) # digit_char (value mod 100 mod 10) # rest)
      else if value < 10 then digit_char value # rest
      else digit_char (value div 10) # digit_char (value mod 10) # rest)"
  by pat_completeness auto
termination by (relation "measure (\<lambda>(v, _). nat v)") auto

declare FormatUnsigned.simps [simp del]

text \<open>A number at the end of a buffer of \<^verbatim>\<open>n\<close> characters, with zeros before it.\<close>

definition format_padded :: "nat \<Rightarrow> int \<Rightarrow> string" where
  "format_padded n value = (let s = FormatUnsigned value [] in replicate (n - length s) (CHR ''0'') @ s)"

definition FormatTwoDigits :: "int \<Rightarrow> string" where
  "FormatTwoDigits value =
     (if value < 10 then [CHR ''0'', digit_char value] else [digit_char (value div 10), digit_char (value mod 10)])"

section \<open>Dates\<close>

text \<open>A year that is not positive is written as a year before Christ.\<close>

definition YearLength :: "int \<Rightarrow> int \<times> nat \<times> bool" where
  "YearLength year =
     (let (year, add_bc) = (if year \<le> 0 then (- year + 1, True) else (year, False));
          width = 4 + of_bool (year \<ge> 10000) + of_bool (year \<ge> 100000) + of_bool (year \<ge> 1000000)
            + of_bool (year \<ge> 10000000)
      in (year, width, add_bc))"

definition FormatComponent :: "int \<Rightarrow> string" where
  "FormatComponent number = CHR ''-'' # FormatTwoDigits number"

definition Date_ToString :: "int \<Rightarrow> string option" where
  "Date_ToString date =
     (if date = date_infinity then Some ''infinity''
      else if date = - date_infinity then Some ''-infinity''
      else do {
        (year, month, day) \<leftarrow> Date_Convert date;
        let (year, width, add_bc) = YearLength year;
        Some (format_padded width year @ FormatComponent month @ FormatComponent day @
              (if add_bc then '' (BC)'' else []))
      })"

datatype DateCastResult = ERROR_INCORRECT_FORMAT | ERROR_RANGE

fun ParseDoubleDigit :: "string \<Rightarrow> (int \<times> string) option" where
  "ParseDoubleDigit [] = None"
| "ParseDoubleDigit [c] = (if CharacterIsDigit c then Some (digit_value c, []) else None)"
| "ParseDoubleDigit (c # d # buf) =
     (if CharacterIsDigit c then
        if CharacterIsDigit d then Some (digit_value d + digit_value c * 10, buf)
        else Some (digit_value c, d # buf)
      else None)"

text \<open>\<^verbatim>\<open>abbr\<close> is the length of the abbreviation the word has; a whole word may be followed by anything.\<close>

fun special_prefix :: "string \<Rightarrow> string \<Rightarrow> nat \<Rightarrow> (string \<times> string \<times> nat) option" where
  "special_prefix (c # buf) (s # special) n =
     (if CharacterToLower c \<noteq> s then None else special_prefix buf special (Suc n))"
| "special_prefix buf special n = Some (buf, special, n)"

definition TryConvertDateSpecial :: "string \<Rightarrow> string \<Rightarrow> nat \<Rightarrow> string option" where
  "TryConvertDateSpecial buf special abbr = do {
     (buf, special, n) \<leftarrow> special_prefix buf special 0;
     if special \<noteq> [] \<and> n \<noteq> abbr then None else Some buf
   }"

text \<open>The year, its length and the rest; None when it has too many digits.\<close>

fun parse_year :: "string \<Rightarrow> int \<Rightarrow> nat \<Rightarrow> (int \<times> nat \<times> string) option" where
  "parse_year [] year n = Some (year, n, [])"
| "parse_year (c # buf) year n =
     (if CharacterIsDigit c then
        if year \<ge> 100000000 then None else parse_year buf (digit_value c + year * 10) (Suc n)
      else Some (year, n, c # buf))"

definition bc_suffix :: "string \<Rightarrow> bool" where
  "bc_suffix buf \<longleftrightarrow> length buf \<ge> 5 \<and> CharacterIsSpace (buf ! 0) \<and> buf ! 1 = CHR ''('' \<and>
     CharacterToLower (buf ! 2) = CHR ''b'' \<and> CharacterToLower (buf ! 3) = CHR ''c'' \<and> buf ! 4 = CHR '')''"

type_synonym date_result = "DateCastResult + int \<times> bool \<times> string"

text \<open>What is done after the day; the result has the date, whether it is special, and what is left.\<close>

definition finish_date :: "bool \<Rightarrow> int \<Rightarrow> int \<Rightarrow> int \<Rightarrow> string \<Rightarrow> date_result option" where
  "finish_date strict year month day buf =
     (let buf = (if strict then dropWhile CharacterIsSpace buf else buf) in
      if (if strict then buf \<noteq> [] else buf \<noteq> [] \<and> CharacterIsDigit (hd buf)) then Some (Inl ERROR_INCORRECT_FORMAT)
      else do {
        result \<leftarrow> TryFromDate year month day;
        Some (case result of None \<Rightarrow> Inl ERROR_RANGE | Some date \<Rightarrow> Inr (date, False, buf))
      })"

definition month_and_day :: "string \<Rightarrow> (int \<times> int \<times> string) option" where
  "month_and_day buf =
     (case buf of [] \<Rightarrow> None
      | sep # buf \<Rightarrow>
        if sep \<notin> {CHR '' '', CHR ''-'', CHR ''/'', CHR 0x5C} then None
        else do {
          (month, buf) \<leftarrow> ParseDoubleDigit buf;
          case buf of [] \<Rightarrow> None
          | c # buf \<Rightarrow>
            if c \<noteq> sep \<or> buf = [] then None
            else do {
              (day, buf) \<leftarrow> ParseDoubleDigit buf;
              Some (month, day, buf)
            }
        })"

definition TryConvertDate :: "bool \<Rightarrow> string \<Rightarrow> date_result option" where
  "TryConvertDate strict buf =
     (let bad = Some (Inl ERROR_INCORRECT_FORMAT);
          buf = dropWhile CharacterIsSpace buf;
          yearneg = (buf \<noteq> [] \<and> hd buf = CHR ''-'');
          buf = (if yearneg then tl buf else buf)
      in
      if buf = [] then bad
      else if \<not> CharacterIsDigit (hd buf) then
        (case (case TryConvertDateSpecial buf ''infinity'' 3 of
                 Some buf \<Rightarrow> Some (if yearneg then - date_infinity else date_infinity, buf)
               | None \<Rightarrow> map_option (\<lambda>buf. (0, buf)) (TryConvertDateSpecial buf ''epoch'' 5)) of
           None \<Rightarrow> bad
         | Some (date, buf) \<Rightarrow>
             let buf = dropWhile CharacterIsSpace buf in if buf = [] then Some (Inr (date, True, [])) else bad)
      else
        (case parse_year buf 0 0 of
           None \<Rightarrow> Some (Inl ERROR_RANGE)
         | Some (year, width, buf) \<Rightarrow>
           if width < 2 \<and> strict then bad
           else
             let year = (if yearneg then - year else year) in
             (case month_and_day buf of
                None \<Rightarrow> bad
              | Some (month, day, buf) \<Rightarrow>
                if bc_suffix buf then
                  if yearneg \<or> year = 0 then bad else finish_date strict (- year + 1) month day (drop 5 buf)
                else finish_date strict year month day buf)))"

section \<open>Times\<close>

text \<open>Six digits, of which the zeros at the end but the first digit are left out.\<close>

definition FormatMicros :: "int \<Rightarrow> string" where
  "FormatMicros micros =
     (let buffer = format_padded 6 micros
      in take (6 - length (takeWhile (\<lambda>c. c = CHR ''0'') (rev (drop 1 buffer)))) buffer)"

definition Time_ToString :: "int \<Rightarrow> string" where
  "Time_ToString time =
     (case Time_Convert time of (hour, minute, second, micros) \<Rightarrow>
        FormatTwoDigits hour @ '':'' @ FormatTwoDigits minute @ '':'' @ FormatTwoDigits second @
        (if micros = 0 then [] else ''.'' @ FormatMicros micros))"

text \<open>Up to nine digits of hours, for intervals.\<close>

fun parse_hour :: "string \<Rightarrow> int \<Rightarrow> nat \<Rightarrow> (int \<times> string) option" where
  "parse_hour [] hour left = Some (hour, [])"
| "parse_hour (c # buf) hour left =
     (if CharacterIsDigit c then
        (case left of 0 \<Rightarrow> None | Suc left \<Rightarrow> parse_hour buf (hour * 10 + digit_value c) left)
      else Some (hour, c # buf))"

fun parse_micros :: "string \<Rightarrow> int \<Rightarrow> int \<Rightarrow> int \<times> string" where
  "parse_micros [] micros mult = (micros, [])"
| "parse_micros (c # buf) micros mult =
     (if CharacterIsDigit c then
        parse_micros buf (if mult > 0 then micros + digit_value c * mult else micros) (mult div 10)
      else (micros, c # buf))"

definition below_60 :: "(int \<times> string) option \<Rightarrow> (int \<times> string) option" where
  "below_60 r = (case r of Some (n, buf) \<Rightarrow> if n < 0 \<or> n \<ge> 60 then None else r | None \<Rightarrow> None)"

text \<open>
  The seconds and what follows; \<^verbatim>\<open>two\<close> says that the minutes have two digits. The outer None is the read
  behind the end of the text.
\<close>

definition parse_seconds :: "bool \<Rightarrow> bool \<Rightarrow> string \<Rightarrow> (int \<times> string) option option" where
  "parse_seconds strict two buf =
     (if buf = [] \<and> (\<not> strict \<or> two) then Some (Some (0, []))
      else case buf of [] \<Rightarrow> None
      | c # buf \<Rightarrow>
        if c \<noteq> CHR '':'' then Some None
        else if buf = [] \<and> \<not> strict then Some (Some (0, []))
        else Some (below_60 (ParseDoubleDigit buf)))"

definition TryConvertTimeInternal :: "bool \<Rightarrow> string \<Rightarrow> (int \<times> string) option option" where
  "TryConvertTimeInternal strict buf =
     (let buf = dropWhile CharacterIsSpace buf in
      if buf = [] \<or> \<not> CharacterIsDigit (hd buf) then Some None
      else case parse_hour buf 0 9 of None \<Rightarrow> Some None
      | Some (hour, []) \<Rightarrow> Some None
      | Some (hour, sep # buf) \<Rightarrow>
        if sep \<noteq> CHR '':'' then Some None
        else
        (case (if buf = [] \<and> \<not> strict then Some (0, []) else below_60 (ParseDoubleDigit buf)) of
           None \<Rightarrow> Some None
         | Some (minute, buf') \<Rightarrow>
           (case parse_seconds strict (length buf = length buf' + 2) buf' of
              None \<Rightarrow> None
            | Some None \<Rightarrow> Some None
            | Some (Some (sec, buf)) \<Rightarrow>
              (case (if buf \<noteq> [] \<and> hd buf = CHR ''.'' then parse_micros (tl buf) 0 100000 else (0, buf)) of
                 (micros, buf) \<Rightarrow>
                 let buf = (if strict then dropWhile CharacterIsSpace buf else buf) in
                 if strict \<and> buf \<noteq> [] then Some None
                 else Some (Some (FromTime hour minute sec micros, buf))))))"


section \<open>Timestamps\<close>

definition two_digits :: "string \<Rightarrow> (int \<times> string) option" where
  "two_digits str =
     (case str of c # d # rest \<Rightarrow>
        if CharacterIsDigit c \<and> CharacterIsDigit d then Some (digit_value c * 10 + digit_value d, rest) else None
      | _ \<Rightarrow> None)"

text \<open>+HH, +HHMM, +HH:MM and +HH:MM:SS; a colon that is not followed by digits is taken.\<close>

definition TryParseUTCOffset :: "string \<Rightarrow> (int \<times> int \<times> int \<times> string) option" where
  "TryParseUTCOffset str =
     (case str of [] \<Rightarrow> None
      | sign_char # str' \<Rightarrow>
        if length str < 3 \<or> sign_char \<notin> {CHR ''+'', CHR ''-''} then None
        else
          let signed = (\<lambda>n. if sign_char = CHR ''-'' then - n else n) in
          (case two_digits str' of
             None \<Rightarrow> None
           | Some (hh, str) \<Rightarrow>
             if str = [] then Some (signed hh, 0, 0, [])
             else
               let colons_used = (hd str = CHR '':''); str = (if colons_used then tl str else str) in
               (case two_digits str of
                  None \<Rightarrow> Some (signed hh, 0, 0, str)
                | Some (mm, str) \<Rightarrow>
                  if str = [] \<or> \<not> colons_used \<or> hd str \<noteq> CHR '':'' then Some (signed hh, signed mm, 0, str)
                  else (case two_digits (tl str) of
                          None \<Rightarrow> Some (signed hh, signed mm, 0, tl str)
                        | Some (ss, str) \<Rightarrow> Some (signed hh, signed mm, signed ss, str)))))"

datatype TimestampCastError = TS_INCORRECT_FORMAT | TS_NON_UTC_TIMEZONE | TS_RANGE | TS_STRICT_UTC

definition CharacterIsAlpha :: "char \<Rightarrow> bool" where
  "CharacterIsAlpha c \<longleftrightarrow> (c \<ge> CHR ''A'' \<and> c \<le> CHR ''Z'') \<or> (c \<ge> CHR ''a'' \<and> c \<le> CHR ''z'')"

definition CharacterIsTimeZone :: "char \<Rightarrow> bool" where
  "CharacterIsTimeZone c \<longleftrightarrow> CharacterIsAlpha c \<or> CharacterIsDigit c \<or> c \<in> set ''_/+-''"

text \<open>What may follow the time; the result is the timestamp, whether it had an offset, and the name of a zone.\<close>

definition parse_zone :: "bool \<Rightarrow> int \<Rightarrow> bool \<Rightarrow> string \<Rightarrow> TimestampCastError + int \<times> bool \<times> string" where
  "parse_zone use_offset timestamp has_offset str =
     (if str = [] then Inr (timestamp, has_offset, [])
      else
        let rest = (\<lambda>r str. if dropWhile CharacterIsSpace str = [] then Inr r else Inl TS_INCORRECT_FORMAT) in
        if hd str = CHR ''Z'' then rest (timestamp, True, []) (tl str)
        else (case TryParseUTCOffset str of
                Some (hh, mm, ss, str) \<Rightarrow>
                  let delta = hh * 3600000000 + mm * 60000000 + ss * 1000000 in
                  if use_offset \<and> \<not> in_s 64 (timestamp - delta) then Inl TS_RANGE
                  else rest (if use_offset then timestamp - delta else timestamp, True, []) str
              | None \<Rightarrow>
                  if hd str \<noteq> CHR '' '' then Inl TS_NON_UTC_TIMEZONE
                  else rest (timestamp, has_offset, takeWhile CharacterIsTimeZone (tl str))
                         (dropWhile CharacterIsTimeZone (tl str))))"

definition TryConvertTimestampTZ :: "string \<Rightarrow> bool \<Rightarrow> (TimestampCastError + int \<times> bool \<times> string) option" where
  "TryConvertTimestampTZ str use_offset =
     (case TryConvertDate False str of
        None \<Rightarrow> None
      | Some (Inl ERROR_INCORRECT_FORMAT) \<Rightarrow> Some (Inl TS_INCORRECT_FORMAT)
      | Some (Inl ERROR_RANGE) \<Rightarrow> Some (Inl TS_RANGE)
      | Some (Inr (date, has_offset, str)) \<Rightarrow>
        let timestamp = (\<lambda>time. case TryFromDatetime date time of None \<Rightarrow> Inl TS_RANGE | Some t \<Rightarrow> Inr t) in
        if str = [] then
          Some (if date = date_infinity then Inr (timestamp_infinity, has_offset, [])
                else if date = - date_infinity then Inr (- timestamp_infinity, has_offset, [])
                else bind_sum (timestamp 0) (\<lambda>t. Inr (t, has_offset, [])))
        else
          let str = (if hd str = CHR '' '' \<or> hd str = CHR ''T'' then tl str else str) in
          (case TryConvertTimeInternal False str of
             None \<Rightarrow> None
           | Some None \<Rightarrow> Some (Inl TS_INCORRECT_FORMAT)
           | Some (Some (time, str)) \<Rightarrow>
             Some (if time > 86400000000 then Inl TS_RANGE
                   else bind_sum (timestamp time) (\<lambda>t. parse_zone use_offset t has_offset str))))"

text \<open>Without the ICU extension only UTC is known by name.\<close>

definition TryConvertTimestamp :: "string \<Rightarrow> bool \<Rightarrow> bool \<Rightarrow> (TimestampCastError + int) option" where
  "TryConvertTimestamp str use_offset strict =
     map_option (\<lambda>r. bind_sum r (\<lambda>(t, has_offset, tz).
        if tz = [] \<or> length tz = 3 \<and> map CharacterToLower tz = ''utc'' then
          if strict \<and> has_offset then Inl TS_STRICT_UTC else Inr t
        else Inl TS_NON_UTC_TIMEZONE)) (TryConvertTimestampTZ str use_offset)"

definition Timestamp_ToString :: "int \<Rightarrow> string option" where
  "Timestamp_ToString timestamp =
     (if timestamp = timestamp_infinity then Some ''infinity''
      else if timestamp = - timestamp_infinity then Some ''-infinity''
      else do {
        let date = GetDate timestamp;
        let days_micros = date * 86400000000;
        if in_s 64 days_micros \<and> in_s 64 (timestamp - days_micros) then do {
          s \<leftarrow> Date_ToString date;
          Some (s @ '' '' @ Time_ToString (timestamp - days_micros))
        } else None
      })"

text \<open>A text that is no time may be a timestamp, whose time is taken.\<close>

definition TryConvertTime :: "bool \<Rightarrow> string \<Rightarrow> int option option" where
  "TryConvertTime strict str =
     (case TryConvertTimeInternal strict str of
        None \<Rightarrow> None
      | Some (Some (time, rest)) \<Rightarrow> Some (if time \<le> 86400000000 then Some time else None)
      | Some None \<Rightarrow>
          if strict then Some None
          else (case TryConvertTimestamp str False False of
                  None \<Rightarrow> None
                | Some (Inl error) \<Rightarrow> Some None
                | Some (Inr timestamp) \<Rightarrow>
                    if IsFinite timestamp then map_option Some (GetTime timestamp) else Some None))"

section \<open>Reading back what was written\<close>

abbreviation digit_list :: "string \<Rightarrow> bool" where "digit_list \<equiv> list_all CharacterIsDigit"

definition number_of_digits :: "string \<Rightarrow> int \<Rightarrow> int" where
  "number_of_digits ds n = fold (\<lambda>c n. digit_value c + n * 10) ds n"

lemma number_of_digits_simps [simp]:
  "number_of_digits [] n = n" "number_of_digits (c # ds) n = number_of_digits ds (digit_value c + n * 10)"
  "number_of_digits (ds @ es) n = number_of_digits es (number_of_digits ds n)"
  by (simp_all add: number_of_digits_def)

lemma digit_char:
  assumes "0 \<le> n" "n < 10"
  shows "CharacterIsDigit (digit_char n)" "digit_value (digit_char n) = n"
proof -
  have "of_char (digit_char n) = nat (n + 48)" using assms by (simp add: digit_char_def of_char_of_nat)
  then show "CharacterIsDigit (digit_char n)" "digit_value (digit_char n) = n"
    using assms by (simp_all add: CharacterIsDigit_def digit_value_def less_eq_char_def nat_le_iff le_nat_iff)
qed

lemma digit_char_0: "CHR ''0'' = digit_char 0"
  by code_simp

lemma CharacterIsDigit_value: "CharacterIsDigit c \<Longrightarrow> 0 \<le> digit_value c \<and> digit_value c < 10"
  by (simp add: CharacterIsDigit_def digit_value_def less_eq_char_def)

lemma digit_not_space: "CharacterIsDigit c \<Longrightarrow> \<not> CharacterIsSpace c \<and> c \<noteq> CHR ''-''"
  by (auto simp: CharacterIsDigit_def CharacterIsSpace_def less_eq_char_def)

lemma FormatUnsigned_digits:
  "0 \<le> v \<Longrightarrow> \<exists>ds. FormatUnsigned v rest = ds @ rest \<and> digit_list ds \<and> number_of_digits ds 0 = v \<and>
     v < 10 ^ length ds \<and> (v < 10 \<and> length ds = 1 \<or> 10 ^ (length ds - 1) \<le> v)"
proof (induction v rest rule: FormatUnsigned.induct)
  case (1 v rest)
  let ?lo = "[digit_char (v mod 100 div 10), digit_char (v mod 100 mod 10)]"
  show ?case
  proof (cases "v \<ge> 100")
    case True
    then have "0 \<le> v div 100" by linarith
    then obtain ds where ds: "FormatUnsigned (v div 100) (?lo @ rest) = ds @ ?lo @ rest" "digit_list ds"
      "number_of_digits ds 0 = v div 100" "v div 100 < 10 ^ length ds"
      "v div 100 < 10 \<and> length ds = 1 \<or> 10 ^ (length ds - 1) \<le> v div 100"
      using 1(1)[OF True] unfolding append.simps by blast
    have lo: "0 \<le> v mod 100 div 10" "v mod 100 div 10 < 10" "0 \<le> v mod 100 mod 10" "v mod 100 mod 10 < 10"
      using pos_mod_bound[of 100 v] pos_mod_sign[of 100 v] by linarith+
    have dec: "v mod 100 mod 10 + (v mod 100 div 10 + v div 100 * 10) * 10 = v"
    proof -
      have "x + (y + z * 10) * 10 = x + y * 10 + z * 100" for x y z :: int by simp
      then show ?thesis by (simp only: mod_div_mult_eq)
    qed
    have "\<not> v div 100 < 1" using True by linarith
    then have l: "length ds \<noteq> 0" using ds(4) by (metis power_0)
    have "10 ^ (length (ds @ ?lo) - 1) \<le> v"
    proof (cases "length ds = 1")
      case False
      then have "10 ^ (length ds - 1) \<le> v div 100" using ds(5) by simp
      then have "10 ^ (length ds - 1) * 100 \<le> v" by linarith
      moreover have "10 ^ (length (ds @ ?lo) - 1) = (10 :: int) ^ (length ds - 1) * 100"
        using l by (cases "length ds") simp_all
      ultimately show ?thesis by simp
    qed (use True in simp)
    moreover have "v < 10 ^ length (ds @ ?lo)"
    proof -
      have "r < 100 \<Longrightarrow> r + q * 100 = v \<Longrightarrow> v < (q + 1) * 100" for r q by simp
      from this[OF _ mod_div_mult_eq] have "v < (v div 100 + 1) * 100" by simp
      also have "\<dots> \<le> 10 ^ length ds * 100" using ds(4) by simp
      finally show ?thesis by simp
    qed
    moreover have "FormatUnsigned v rest = (ds @ ?lo) @ rest"
      using True ds(1) by (simp add: FormatUnsigned.simps[of v])
    moreover have "digit_list (ds @ ?lo)" "number_of_digits (ds @ ?lo) 0 = v"
      using ds(2,3) lo dec by (simp_all add: digit_char)
    ultimately show ?thesis by blast
  next
    case False
    show ?thesis
    proof (cases "v < 10")
      case True
      then show ?thesis using False 1(2)
        by (intro exI[of _ "[digit_char v]"]) (simp add: FormatUnsigned.simps[of v] digit_char)
    next
      case ge: False
      have "0 \<le> v div 10" "v div 10 < 10" using False ge by linarith+
      moreover have "v mod 10 + v div 10 * 10 = v" by (rule mod_div_mult_eq)
      ultimately show ?thesis using False ge 1(2)
        by (intro exI[of _ "[digit_char (v div 10), digit_char (v mod 10)]"])
          (simp add: FormatUnsigned.simps[of v] digit_char)
    qed
  qed
qed

lemma format_padded:
  assumes "0 \<le> v" "v < 10 ^ n" "0 < n"
  shows "length (format_padded n v) = n" "digit_list (format_padded n v)" "number_of_digits (format_padded n v) 0 = v"
proof -
  obtain ds where ds: "FormatUnsigned v [] = ds" "digit_list ds" "number_of_digits ds 0 = v"
    "v < 10 \<and> length ds = 1 \<or> 10 ^ (length ds - 1) \<le> v"
    using FormatUnsigned_digits[OF assms(1), of "[]"] by auto
  have "length ds \<le> n"
  proof (rule ccontr)
    assume "\<not> length ds \<le> n"
    then have "(10 :: int) ^ n \<le> 10 ^ (length ds - 1)" by (intro power_increasing) simp_all
    moreover have "length ds \<noteq> 1" using \<open>\<not> length ds \<le> n\<close> assms(3) by simp
    ultimately show False using ds(4) assms(2) by linarith
  qed
  moreover have zeros: "number_of_digits (replicate k (CHR ''0'')) 0 = 0" for k
    by (induction k) (simp_all add: digit_value_def)
  moreover have "digit_list (replicate k (CHR ''0''))" for k
    by (simp add: list_all_iff CharacterIsDigit_def)
  ultimately show "length (format_padded n v) = n" "digit_list (format_padded n v)"
    "number_of_digits (format_padded n v) 0 = v"
    using ds by (simp_all add: format_padded_def)
qed

lemma FormatTwoDigits_digits:
  "0 \<le> v \<Longrightarrow> v < 100 \<Longrightarrow> FormatTwoDigits v = [digit_char (v div 10), digit_char (v mod 10)]"
  by (simp add: FormatTwoDigits_def digit_char_0 div_pos_pos_trivial mod_pos_pos_trivial)

lemma ParseDoubleDigit_two_digits:
  assumes "0 \<le> v" "v < 100"
  shows "ParseDoubleDigit (FormatTwoDigits v @ rest) = Some (v, rest)"
proof -
  have "0 \<le> v div 10" "v div 10 < 10" using assms by linarith+
  moreover have "v mod 10 + v div 10 * 10 = v" by (rule mod_div_mult_eq)
  ultimately show ?thesis using assms by (simp add: FormatTwoDigits_digits digit_char)
qed

lemma parse_year_digits:
  "digit_list ds \<Longrightarrow> y < 10 ^ j \<Longrightarrow> j + length ds \<le> 9 \<Longrightarrow> rest = [] \<or> \<not> CharacterIsDigit (hd rest) \<Longrightarrow>
   parse_year (ds @ rest) y n = Some (number_of_digits ds y, n + length ds, rest)"
proof (induction ds arbitrary: y j n)
  case Nil
  then show ?case by (cases rest) simp_all
next
  case (Cons c ds)
  have "(10 :: int) ^ j \<le> 10 ^ 8" using Cons(4) by (intro power_increasing) simp_all
  then have "y < 100000000" using Cons(3) by simp
  moreover have "digit_value c + y * 10 < 10 ^ Suc j"
    using Cons(2,3) CharacterIsDigit_value[of c] by simp
  ultimately show ?case using Cons.IH[of "digit_value c + y * 10" "Suc j" "Suc n"] Cons(2,4,5) by simp
qed

lemma YearLength_bounds:
  assumes "YearLength y = (y', width, bc)" "\<bar>y\<bar> < 99999999"
  shows "1 \<le> y'" "y' < 10 ^ width" "4 \<le> width" "width \<le> 8" "bc = (y \<le> 0)" "y = (if bc then - y' + 1 else y')"
proof -
  have y': "y' = (if y \<le> 0 then - y + 1 else y)" "bc = (y \<le> 0)"
    and w: "width = 4 + of_bool (y' \<ge> 10000) + of_bool (y' \<ge> 100000) + of_bool (y' \<ge> 1000000) + of_bool (y' \<ge> 10000000)"
    using assms(1) by (auto simp: YearLength_def Let_def split: if_split_asm)
  show "1 \<le> y'" "bc = (y \<le> 0)" "y = (if bc then - y' + 1 else y')" using y' by auto
  show "4 \<le> width" "width \<le> 8" unfolding w by (simp_all add: of_bool_def)
  have "y' < 100000000" using y'(1) assms(2) by auto
  then show "y' < 10 ^ width" unfolding w by (auto simp: of_bool_def)
qed

lemma month_and_day_components:
  assumes "0 \<le> mo" "mo < 100" "0 \<le> d" "d < 100"
  shows "month_and_day (FormatComponent mo @ FormatComponent d @ rest) = Some (mo, d, rest)"
  using assms by (simp add: month_and_day_def FormatComponent_def ParseDoubleDigit_two_digits) (simp add: FormatTwoDigits_def)

lemma finish_date_end:
  assumes "FromDate y mo d = Some n" "rest = [] \<or> \<not> strict \<and> \<not> CharacterIsDigit (hd rest)"
  shows "finish_date strict y mo d rest = Some (Inr (n, False, rest))"
  using assms by (auto simp: finish_date_def FromDate_def bind_eq_Some_conv)

lemma lower_bc: "CharacterToLower CHR ''B'' = CHR ''b''" "CharacterToLower CHR ''C'' = CHR ''c''"
  by code_simp+

lemma digit_list_hd: "digit_list s \<Longrightarrow> s \<noteq> [] \<Longrightarrow> CharacterIsDigit (hd s)"
  by (cases s) simp_all

text \<open>The text of a finite date is read as that date, also when a time follows.\<close>

lemma date_text_read:
  assumes "\<bar>n\<bar> < date_infinity"
  obtains s where "Date_ToString n = Some s" "s \<noteq> []"
    "\<And>strict rest. rest = [] \<or> \<not> strict \<and> \<not> CharacterIsDigit (hd rest) \<and> \<not> bc_suffix rest \<Longrightarrow>
       TryConvertDate strict (s @ rest) = Some (Inr (n, False, rest))"
proof -
  obtain y mo d where c: "Date_Convert n = Some (y, mo, d)" "1 \<le> mo" "mo \<le> 12" "1 \<le> d" "d \<le> 31"
    "Date_IsValid y mo d" "FromDate y mo d = Some n"
    using Date_Convert_inverse[of n] assms by auto
  have y: "\<bar>y\<bar> < 99999999" using c(6) by (auto simp: Date_IsValid_def)
  obtain y' width bc where w: "YearLength y = (y', width, bc)" by (metis prod_cases3)
  note b = YearLength_bounds[OF w y]
  let ?year = "format_padded width y'"
  let ?suffix = "if bc then '' (BC)'' else []"
  let ?md = "FormatComponent mo @ FormatComponent d @ ?suffix"
  have yd: "length ?year = width" "digit_list ?year" "number_of_digits ?year 0 = y'"
    using format_padded[of y' width] b(1-3) by simp_all
  then have ne: "?year \<noteq> []" using b(3) by auto
  show thesis
  proof (rule that[of "?year @ ?md"])
    show "Date_ToString n = Some (?year @ ?md)" using c(1) w assms by (auto simp: Date_ToString_def date_infinity_def)
    show "?year @ ?md \<noteq> []" using ne by simp
    fix strict rest
    assume rest: "rest = [] \<or> \<not> strict \<and> \<not> CharacterIsDigit (hd rest) \<and> \<not> bc_suffix rest"
    let ?text = "?year @ FormatComponent mo @ FormatComponent d @ ?suffix @ rest"
    let ?after = "FormatComponent mo @ FormatComponent d @ ?suffix @ rest"
    have hd_year: "CharacterIsDigit (hd ?text)" using digit_list_hd[OF yd(2)] ne by simp
    have start: "dropWhile CharacterIsSpace ?text = ?text" "hd ?text \<noteq> CHR ''-''"
      using digit_not_space[OF hd_year] ne by (cases ?text; simp)+
    have sep: "?after = [] \<or> \<not> CharacterIsDigit (hd ?after)"
      by (simp add: FormatComponent_def CharacterIsDigit_def less_eq_char_def)
    have year: "parse_year ?text 0 0 = Some (y', width, ?after)"
      using parse_year_digits[OF yd(2) _ _ sep, of 0 0 0] yd(1,3) b(4) by simp
    have md: "month_and_day ?after = Some (mo, d, ?suffix @ rest)"
      using c(2-5) by (intro month_and_day_components) simp_all
    have "bc_suffix ('' (BC)'' @ rest)" by (simp add: bc_suffix_def CharacterIsSpace_def lower_bc)
    moreover have "\<not> bc_suffix rest" using rest by (auto simp: bc_suffix_def)
    ultimately have suffix: "bc_suffix (?suffix @ rest) = bc" by simp
    have finish: "finish_date strict y mo d rest = Some (Inr (n, False, rest))"
      using finish_date_end[OF c(7)] rest by blast
    have "TryConvertDate strict ?text = Some (Inr (n, False, rest))"
      using start hd_year ne year md suffix b(1,3,6) finish
      by (cases bc) (simp_all add: TryConvertDate_def Let_def)
    then show "TryConvertDate strict ((?year @ ?md) @ rest) = Some (Inr (n, False, rest))" by simp
  qed
qed

text \<open>The text of a date is read as that date, whether the parser is strict or not.\<close>

lemma date_text_roundtrip:
  assumes "\<bar>n\<bar> \<le> date_infinity"
  shows "\<exists>s. Date_ToString n = Some s \<and> TryConvertDate strict s = Some (Inr (n, \<bar>n\<bar> = date_infinity, []))"
proof (cases "\<bar>n\<bar> = date_infinity")
  case True
  then consider "n = date_infinity" | "n = - date_infinity" by linarith
  then show ?thesis
    by cases (simp_all add: Date_ToString_def TryConvertDate_def TryConvertDateSpecial_def CharacterIsSpace_def
        CharacterIsDigit_def CharacterToLower_def less_eq_char_def date_infinity_def)
next
  case False
  then obtain s where s: "Date_ToString n = Some s" "TryConvertDate strict (s @ []) = Some (Inr (n, False, []))"
    using date_text_read[of n] assms by force
  then show ?thesis using False by simp
qed


section \<open>Reading back times\<close>

lemma number_of_digits_split: "number_of_digits ds n = n * 10 ^ length ds + number_of_digits ds 0"
proof (induction ds arbitrary: n)
  case (Cons c ds)
  show ?case using Cons[of "digit_value c + n * 10"] Cons[of "digit_value c"] by (simp add: algebra_simps)
qed simp

lemma number_of_zeros: "number_of_digits (replicate k (CHR ''0'')) n = n * 10 ^ k"
  by (induction k arbitrary: n) (simp_all add: digit_value_def)

lemma parse_hour_digits:
  "digit_list ds \<Longrightarrow> length ds \<le> left \<Longrightarrow> rest = [] \<or> \<not> CharacterIsDigit (hd rest) \<Longrightarrow>
   parse_hour (ds @ rest) h left = Some (number_of_digits ds h, rest)"
proof (induction ds arbitrary: h left)
  case Nil
  then show ?case by (cases rest) simp_all
next
  case (Cons c ds)
  then obtain k where "left = Suc k" by (cases left) simp_all
  then show ?case using Cons by (simp add: add.commute)
qed

lemma parse_micros_digits:
  "digit_list ds \<Longrightarrow> length ds \<le> k \<Longrightarrow> mult = (if k = 0 then 0 else 10 ^ (k - 1)) \<Longrightarrow>
   parse_micros ds acc mult = (acc + number_of_digits ds 0 * 10 ^ (k - length ds), [])"
proof (induction ds arbitrary: k acc mult)
  case (Cons c ds)
  then obtain j where k: "k = Suc j" by (cases k) simp_all
  have m: "mult = 10 ^ j" "mult > 0" using Cons(4) k by simp_all
  have n: "mult div 10 = (if j = 0 then 0 else 10 ^ (j - 1))" using m(1) by (cases j) simp_all
  have "10 ^ j = (10 :: int) ^ length ds * 10 ^ (j - length ds)"
    using Cons(3) k by (simp flip: power_add)
  moreover have "number_of_digits (c # ds) 0 = digit_value c * 10 ^ length ds + number_of_digits ds 0"
    using number_of_digits_split[of ds "digit_value c"] by simp
  ultimately show ?case using Cons.IH[OF _ _ n, of "acc + digit_value c * mult"] Cons(2,3) k m
    by (simp add: algebra_simps)
qed simp

text \<open>The zeros at the end count for nothing.\<close>

lemma FormatMicros_digits:
  assumes "0 \<le> us" "us < 1000000"
  obtains k where "FormatMicros us \<noteq> []" "digit_list (FormatMicros us)" "length (FormatMicros us) \<le> 6"
    "number_of_digits (FormatMicros us) 0 * 10 ^ (6 - length (FormatMicros us)) = us"
proof -
  let ?buf = "format_padded 6 us"
  have f: "length ?buf = 6" "digit_list ?buf" "number_of_digits ?buf 0 = us"
    using format_padded[of us 6] assms by simp_all
  then obtain c t where buf: "?buf = c # t" "length t = 5" by (cases ?buf) simp_all
  define z where "z = length (takeWhile (\<lambda>c. c = CHR ''0'') (rev t))"
  define front where "front = rev (dropWhile (\<lambda>c. c = CHR ''0'') (rev t))"
  have "takeWhile (\<lambda>c. c = CHR ''0'') (rev t) = replicate z (CHR ''0'')"
    unfolding z_def by (rule replicate_eqI[OF refl]) (auto dest: set_takeWhileD)
  then have "rev t = replicate z (CHR ''0'') @ dropWhile (\<lambda>c. c = CHR ''0'') (rev t)"
    by (metis takeWhile_dropWhile_id)
  then have t: "t = front @ replicate z (CHR ''0'')" unfolding front_def by (metis rev_append rev_replicate rev_rev_ident)
  have z: "length front + z = 5" using buf(2) t by simp
  have m: "FormatMicros us = c # front"
  proof -
    have "FormatMicros us = take (6 - z) (c # t)" using buf(1) by (simp add: FormatMicros_def Let_def z_def)
    moreover have "6 - z = Suc (length front)" using z by simp
    ultimately show ?thesis using t by simp
  qed
  have len: "6 - length (FormatMicros us) = z" using m z by simp
  show thesis
  proof (rule that)
    show "digit_list (FormatMicros us)" using f(2) buf(1) t m by simp
    have "us = number_of_digits (c # front) 0 * 10 ^ z" using f(3) buf(1) t by (simp add: number_of_zeros)
    then show "number_of_digits (FormatMicros us) 0 * 10 ^ (6 - length (FormatMicros us)) = us"
      using m len by simp
  qed (use m z in simp_all)
qed

lemma FormatTwoDigits_number:
  assumes "0 \<le> v" "v < 100"
  shows "digit_list (FormatTwoDigits v)" "length (FormatTwoDigits v) = 2" "number_of_digits (FormatTwoDigits v) 0 = v"
    "CharacterIsDigit (hd (FormatTwoDigits v @ rest))"
proof -
  have "0 \<le> v div 10" "v div 10 < 10" using assms by linarith+
  moreover have "v mod 10 + v div 10 * 10 = v" by (rule mod_div_mult_eq)
  ultimately show "digit_list (FormatTwoDigits v)" "length (FormatTwoDigits v) = 2" "number_of_digits (FormatTwoDigits v) 0 = v"
    "CharacterIsDigit (hd (FormatTwoDigits v @ rest))"
    using assms by (simp_all add: FormatTwoDigits_digits digit_char)
qed

lemma time_internal:
  assumes "dropWhile CharacterIsSpace buf = buf" "buf \<noteq> []" "CharacterIsDigit (hd buf)"
    "parse_hour buf 0 9 = Some (h, '':'' @ minutes)" "minutes \<noteq> []" "below_60 (ParseDoubleDigit minutes) = Some (mi, seconds)"
    "parse_seconds strict (length minutes = length seconds + 2) seconds = Some (Some (s, fraction))"
    "(if fraction \<noteq> [] \<and> hd fraction = CHR ''.'' then parse_micros (tl fraction) 0 100000 else (0, fraction)) = (us, [])"
  shows "TryConvertTimeInternal strict buf = Some (Some (FromTime h mi s us, []))"
  using assms by (simp add: TryConvertTimeInternal_def Let_def)

text \<open>A time with any number of digits of hours, as intervals have it.\<close>

lemma time_parts_read:
  assumes "digit_list hs" "hs \<noteq> []" "length hs \<le> 9" "number_of_digits hs 0 = h"
    "0 \<le> mi" "mi < 60" "0 \<le> s" "s < 60" "0 \<le> us" "us < 1000000"
  shows "TryConvertTimeInternal strict (hs @ '':'' @ FormatTwoDigits mi @ '':'' @ FormatTwoDigits s @
      (if us = 0 then [] else ''.'' @ FormatMicros us)) = Some (Some (FromTime h mi s us, []))"
proof -
  let ?fraction = "if us = 0 then [] else ''.'' @ FormatMicros us"
  let ?seconds = "'':'' @ FormatTwoDigits s @ ?fraction"
  let ?minutes = "FormatTwoDigits mi @ ?seconds"
  let ?all = "hs @ '':'' @ ?minutes"
  have ne: "?all \<noteq> []" by simp
  have hd_digit: "CharacterIsDigit (hd ?all)" using digit_list_hd[OF assms(1,2)] assms(2) by simp
  have start: "dropWhile CharacterIsSpace ?all = ?all"
    using digit_not_space[OF hd_digit] by (cases ?all) simp_all
  have colon: "\<not> CharacterIsDigit CHR '':''" by (simp add: CharacterIsDigit_def less_eq_char_def)
  have hour: "parse_hour ?all 0 9 = Some (h, '':'' @ ?minutes)"
    using parse_hour_digits[of hs 9 "'':'' @ ?minutes" 0] assms(1,3,4) colon by simp
  have minute: "below_60 (ParseDoubleDigit ?minutes) = Some (mi, ?seconds)"
    using ParseDoubleDigit_two_digits[of mi ?seconds] assms(5,6) by (simp add: below_60_def)
  have len: "length ?minutes = length ?seconds + 2" using FormatTwoDigits_number(2)[of mi] assms(5,6) by simp
  have two: "FormatTwoDigits s \<noteq> []" using FormatTwoDigits_number(2)[of s] assms(7,8) by auto
  have second: "parse_seconds strict True ?seconds = Some (Some (s, ?fraction))"
    using ParseDoubleDigit_two_digits[of s ?fraction] assms(7,8) two by (simp add: parse_seconds_def below_60_def)
  have micros: "(if ?fraction \<noteq> [] \<and> hd ?fraction = CHR ''.'' then parse_micros (tl ?fraction) 0 100000 else (0, ?fraction)) =
      (us, [])"
  proof (cases "us = 0")
    case False
    obtain "digit_list (FormatMicros us)" "length (FormatMicros us) \<le> 6"
      "number_of_digits (FormatMicros us) 0 * 10 ^ (6 - length (FormatMicros us)) = us"
      using FormatMicros_digits[OF assms(9,10)] by metis
    then show ?thesis using False parse_micros_digits[of "FormatMicros us" 6 100000 0] by simp
  qed simp
  have "?minutes \<noteq> []" using len by auto
  then show ?thesis
    by (rule time_internal[OF start ne hd_digit hour _ minute _ micros]) (use second len in simp)
qed

lemma Time_Convert_parts:
  assumes "0 \<le> t" "t < 360000000000"
  obtains h mi s us where "Time_Convert t = (h, mi, s, us)" "FromTime h mi s us = t" "0 \<le> h" "h < 100" "0 \<le> mi" "mi < 60"
    "0 \<le> s" "s < 60" "0 \<le> us" "us < 1000000"
proof -
  define h where "h = t div 3600000000"
  define r where "r = t - h * 3600000000"
  define mi where "mi = r div 60000000"
  define r' where "r' = r - mi * 60000000"
  define s where "s = r' div 1000000"
  define us where "us = r' - s * 1000000"
  have h: "0 \<le> h" "h < 100" "0 \<le> r" "r < 3600000000" unfolding r_def h_def using assms by linarith+
  have mi: "0 \<le> mi" "mi < 60" "0 \<le> r'" "r' < 60000000" unfolding r'_def mi_def using h(3,4) by linarith+
  have s: "0 \<le> s" "s < 60" "0 \<le> us" "us < 1000000" unfolding us_def s_def using mi(3,4) by linarith+
  have w: "wrap_s 32 h = h" "wrap_s 32 mi = mi" "wrap_s 32 s = s" "wrap_s 32 us = us"
    using h mi s by (simp_all add: in_s_def)
  have q: "t sdiv 3600000000 = h" "r sdiv 60000000 = mi" "r' sdiv 1000000 = s"
    unfolding h_def mi_def s_def using assms(1) h(3) mi(3) by (simp_all add: signed_nonneg)
  have "Time_Convert t = (h, mi, s, us)"
    by (simp add: Time_Convert_def Let_def q w flip: r_def r'_def us_def)
  moreover have "FromTime h mi s us = t" by (simp add: FromTime_def us_def r'_def r_def)
  ultimately show thesis using that h mi s by metis
qed

lemma time_text_roundtrip:
  assumes "0 \<le> t" "t < 360000000000"
  shows "TryConvertTimeInternal strict (Time_ToString t) = Some (Some (t, []))"
proof -
  obtain h mi s us where c: "Time_Convert t = (h, mi, s, us)" "FromTime h mi s us = t" "0 \<le> h" "h < 100" "0 \<le> mi" "mi < 60"
    "0 \<le> s" "s < 60" "0 \<le> us" "us < 1000000" by (rule Time_Convert_parts[OF assms])
  show ?thesis using time_parts_read[OF FormatTwoDigits_number(1)[OF c(3,4)] _ _ FormatTwoDigits_number(3)[OF c(3,4)] c(5-10), of strict] c(1,2)
      FormatTwoDigits_number(2)[OF c(3,4)] by (fastforce simp: Time_ToString_def)
qed

lemma infinite_texts:
  "TryConvertDate False ''infinity'' = Some (Inr (date_infinity, True, []))"
  "TryConvertDate False ''-infinity'' = Some (Inr (- date_infinity, True, []))"
  by (simp_all add: TryConvertDate_def TryConvertDateSpecial_def CharacterIsSpace_def
      CharacterIsDigit_def CharacterToLower_def less_eq_char_def)

lemma Time_ToString_start:
  assumes "0 \<le> t" "t < 360000000000"
  obtains c rest where "Time_ToString t = c # rest" "CharacterIsDigit c"
proof -
  obtain h mi s us where c: "Time_Convert t = (h, mi, s, us)" "0 \<le> h" "h < 100" using Time_Convert_parts[OF assms] by metis
  have "FormatTwoDigits h \<noteq> []" "CharacterIsDigit (hd (FormatTwoDigits h))"
    using FormatTwoDigits_number(2)[OF c(2,3)] FormatTwoDigits_number(4)[OF c(2,3), of "[]"] by auto
  then show thesis using that by (cases "FormatTwoDigits h") (simp_all add: Time_ToString_def c(1))
qed

text \<open>The text of a timestamp is the text of its date and of its time.\<close>

lemma timestamp_text_read:
  assumes "in_s 64 t" "IsFinite t \<Longrightarrow> in_s 64 (GetDate t * 86400000000)"
  shows "\<exists>s. Timestamp_ToString t = Some s \<and> TryConvertTimestamp s use_offset False = Some (Inr t)"
proof (cases "IsFinite t")
  case False
  then consider "t = timestamp_infinity" | "t = - timestamp_infinity" by (auto simp: IsFinite_def)
  then show ?thesis
    using infinite_texts
    by cases (auto simp: Timestamp_ToString_def TryConvertTimestamp_def TryConvertTimestampTZ_def timestamp_infinity_def
        date_infinity_def)
next
  case True
  let ?d = "GetDate t"
  let ?u = "t - ?d * 86400000000"
  have d: "?d = t div 86400000000" by (rule GetDate_floor[OF assms(1) True])
  have "\<bar>?d\<bar> < date_infinity" using assms(1) unfolding d by (simp add: in_s_def date_infinity_def abs_less_iff) linarith
  from date_text_read[OF this] obtain ds where ds: "Date_ToString ?d = Some ds"
    "\<And>rest. \<not> CharacterIsDigit (hd rest) \<Longrightarrow> \<not> bc_suffix rest \<Longrightarrow>
       TryConvertDate False (ds @ rest) = Some (Inr (?d, False, rest))" by metis
  have u: "0 \<le> ?u" "?u < 86400000000" unfolding d by linarith+
  then obtain c ts where ts: "Time_ToString ?u = c # ts" "CharacterIsDigit c"
    using Time_ToString_start[of ?u] by auto
  let ?s = "ds @ '' '' @ Time_ToString ?u"
  have "\<not> bc_suffix ('' '' @ Time_ToString ?u)" "\<not> CharacterIsDigit CHR '' ''"
    using ts by (auto simp: bc_suffix_def CharacterIsDigit_def less_eq_char_def)
  then have date: "TryConvertDate False ?s = Some (Inr (?d, False, '' '' @ Time_ToString ?u))"
    by (intro ds(2)) simp
  have time: "TryConvertTimeInternal False (Time_ToString ?u) = Some (Some (?u, []))"
    using u by (intro time_text_roundtrip) simp_all
  have u64: "in_s 64 ?u" using u by (simp add: in_s_def)
  then have "Timestamp_ToString t = Some ?s"
    using True ds(1) assms(2) by (auto simp: Timestamp_ToString_def Let_def IsFinite_def)
  moreover have "TryFromDatetime ?d ?u = Some t" using assms True by (simp add: TryFromDatetime_def Let_def)
  then have "TryConvertTimestamp ?s use_offset False = Some (Inr t)" using date time u
    by (simp add: TryConvertTimestamp_def TryConvertTimestampTZ_def parse_zone_def)
  ultimately show ?thesis by blast
qed

section \<open>What a writer and its parser promise\<close>

text \<open>Every valid value has a text, which is read as that value.\<close>

locale text_codec =
  fixes to_text :: "'a \<Rightarrow> string option" and of_text :: "string \<Rightarrow> 'a option" and valid :: "'a \<Rightarrow> bool"
  assumes read_back: "valid x \<Longrightarrow> \<exists>s. to_text x = Some s \<and> of_text s = Some x"
begin

lemma of_to_text: "valid x \<Longrightarrow> to_text x = Some s \<Longrightarrow> of_text s = Some x"
  using read_back by fastforce

text \<open>Two values never share a text.\<close>

lemma text_inj: "inj_on to_text {x. valid x}"
proof (rule inj_onI)
  fix x y assume "x \<in> {x. valid x}" "y \<in> {x. valid x}" "to_text x = to_text y"
  then show "x = y" using read_back[of x] of_to_text[of y] by auto
qed

end

text \<open>What the parsers make of a text.\<close>

definition date_of_text :: "bool \<Rightarrow> string \<Rightarrow> int option" where
  "date_of_text strict s = (case TryConvertDate strict s of Some (Inr (date, special, rest)) \<Rightarrow> Some date | _ \<Rightarrow> None)"

definition time_of_text :: "bool \<Rightarrow> string \<Rightarrow> int option" where
  "time_of_text strict s = Option.bind (TryConvertTime strict s) id"

definition timestamp_of_text :: "string \<Rightarrow> int option" where
  "timestamp_of_text s = (case TryConvertTimestamp s False False of Some (Inr t) \<Rightarrow> Some t | _ \<Rightarrow> None)"

text \<open>The timestamps whose day fits in 64 bits, and the infinite ones.\<close>

definition timestamp_in_range :: "int \<Rightarrow> bool" where
  "timestamp_in_range t \<longleftrightarrow> in_s 64 t \<and> (IsFinite t \<longrightarrow> in_s 64 (GetDate t * 86400000000))"

interpretation date_codec: text_codec Date_ToString "date_of_text strict" "\<lambda>n. \<bar>n\<bar> \<le> date_infinity"
proof
  show "\<exists>s. Date_ToString n = Some s \<and> date_of_text strict s = Some n" if "\<bar>n\<bar> \<le> date_infinity" for n
    using date_text_roundtrip[OF that, of strict] by (auto simp: date_of_text_def)
qed

interpretation time_codec: text_codec "\<lambda>t. Some (Time_ToString t)" "time_of_text strict" "\<lambda>t. 0 \<le> t \<and> t \<le> 86400000000"
  by unfold_locales (simp add: time_of_text_def TryConvertTime_def time_text_roundtrip)

interpretation timestamp_codec: text_codec Timestamp_ToString timestamp_of_text timestamp_in_range
proof
  show "\<exists>s. Timestamp_ToString t = Some s \<and> timestamp_of_text s = Some t" if "timestamp_in_range t" for t
    using timestamp_text_read[of t False] that by (auto simp: timestamp_in_range_def timestamp_of_text_def)
qed

text \<open>
  C39. Every timestamp whose day fits in 64 bits has a text, the text of its date and of its time or the
  word for infinity, that is read as that timestamp.
\<close>

theorem timestamp_text_roundtrip:
  "timestamp_in_range t \<Longrightarrow> \<exists>s. Timestamp_ToString t = Some s \<and> timestamp_of_text s = Some t"
  by (rule timestamp_codec.read_back)

theorem timestamp_text_roundtrip_witness:
  "\<exists>s. Timestamp_ToString (-1) = Some s \<and> timestamp_of_text s = Some (-1)"
proof (rule timestamp_text_roundtrip)
  have "in_s 64 (-1)" "IsFinite (-1)" by (simp_all add: in_s_def IsFinite_def timestamp_infinity_def)
  then show "timestamp_in_range (-1)" by (simp add: timestamp_in_range_def GetDate_floor in_s_def)
qed

text \<open>Texts tell timestamps apart.\<close>

corollary timestamp_text_inj:
  "timestamp_in_range t \<Longrightarrow> timestamp_in_range u \<Longrightarrow> Timestamp_ToString t = Timestamp_ToString u \<Longrightarrow> t = u"
  using timestamp_codec.text_inj by (auto dest: inj_onD)

end
