(* ===== verification/Engine_Interval.thy ===== *)
theory Engine_Interval
  imports Engine_Text Odbc_Interval
begin

text \<open>
  Texts of intervals in the engine: \<^verbatim>\<open>interval.cpp\<close>, \<^verbatim>\<open>date_part_specifier.cpp\<close> and
  \<^verbatim>\<open>IntervalToStringCast\<close> of \<^verbatim>\<open>cast_helpers.hpp\<close> under \<^verbatim>\<open>src/duckdb\<close>. The parser of the code jumps between
  labels; here a label is a function of the characters that are left. The outer None is an exception or
  an overflow, the inner one the result false.
\<close>

section \<open>Parts of an interval\<close>

datatype DatePartSpecifier =
  YEAR | MONTH | DAY | DECADE | CENTURY | MILLENNIUM | MICROSECONDS | MILLISECONDS | SECOND | MINUTE | HOUR | DOW | ISODOW
  | WEEK | ISOYEAR | QUARTER | DOY | YEARWEEK | ERA | TIMEZONE | TIMEZONE_HOUR | TIMEZONE_MINUTE | EPOCH | JULIAN_DAY

definition date_part_names :: "(string list \<times> DatePartSpecifier) list" where
  "date_part_names =
     [([''year'', ''yr'', ''y'', ''years'', ''yrs''], YEAR),
      ([''month'', ''mon'', ''months'', ''mons''], MONTH),
      ([''day'', ''days'', ''d'', ''dayofmonth''], DAY),
      ([''decade'', ''dec'', ''decades'', ''decs''], DECADE),
      ([''century'', ''cent'', ''centuries'', ''c''], CENTURY),
      ([''millennium'', ''mil'', ''millenniums'', ''millennia'', ''mils'', ''millenium''], MILLENNIUM),
      ([''microseconds'', ''microsecond'', ''us'', ''usec'', ''usecs'', ''usecond'', ''useconds''], MICROSECONDS),
      ([''milliseconds'', ''millisecond'', ''ms'', ''msec'', ''msecs'', ''msecond'', ''mseconds''], MILLISECONDS),
      ([''second'', ''sec'', ''seconds'', ''secs'', ''s''], SECOND),
      ([''minute'', ''min'', ''minutes'', ''mins'', ''m''], MINUTE),
      ([''hour'', ''hr'', ''hours'', ''hrs'', ''h''], HOUR),
      ([''epoch''], EPOCH),
      ([''dow'', ''dayofweek'', ''weekday''], DOW),
      ([''isodow''], ISODOW),
      ([''week'', ''weeks'', ''w'', ''weekofyear''], WEEK),
      ([''doy'', ''dayofyear''], DOY),
      ([''quarter'', ''quarters''], QUARTER),
      ([''yearweek''], YEARWEEK),
      ([''isoyear''], ISOYEAR),
      ([''era''], ERA),
      ([''timezone''], TIMEZONE),
      ([''timezone_hour''], TIMEZONE_HOUR),
      ([''timezone_minute''], TIMEZONE_MINUTE),
      ([''julian'', ''jd''], JULIAN_DAY)]"

definition TryGetDatePartSpecifier :: "string \<Rightarrow> DatePartSpecifier option" where
  "TryGetDatePartSpecifier specifier =
     map_option snd (find (\<lambda>(names, part). map CharacterToLower specifier \<in> set names) date_part_names)"

text \<open>Addition at the width \<^verbatim>\<open>w\<close> of the target; None is the exception.\<close>

definition IntervalTryAddition :: "nat \<Rightarrow> int \<Rightarrow> int \<Rightarrow> int \<Rightarrow> int \<Rightarrow> int option" where
  "IntervalTryAddition w target input multiplier fraction =
     (let addition = input * multiplier; target = target + addition;
          part = fraction * multiplier sdiv 1000000 in
      if \<not> in_s 64 addition \<or> \<not> in_s w addition \<or> \<not> in_s w target then None
      else if fraction = 0 then Some target
      else if \<not> in_s w part \<or> \<not> in_s w (target + part) then None
      else Some (target + part))"

definition add_months :: "interval_t \<Rightarrow> int \<Rightarrow> int \<Rightarrow> int \<Rightarrow> interval_t option" where
  "add_months iv input multiplier fraction =
     map_option (\<lambda>x. iv\<lparr>iv_months := x\<rparr>) (IntervalTryAddition 32 (iv_months iv) input multiplier fraction)"

definition add_days :: "interval_t \<Rightarrow> int \<Rightarrow> int \<Rightarrow> int \<Rightarrow> interval_t option" where
  "add_days iv input multiplier fraction =
     map_option (\<lambda>x. iv\<lparr>iv_days := x\<rparr>) (IntervalTryAddition 32 (iv_days iv) input multiplier fraction)"

definition add_micros :: "interval_t \<Rightarrow> int \<Rightarrow> int \<Rightarrow> int \<Rightarrow> interval_t option" where
  "add_micros iv input multiplier fraction =
     map_option (\<lambda>x. iv\<lparr>iv_micros := x\<rparr>) (IntervalTryAddition 64 (iv_micros iv) input multiplier fraction)"

text \<open>The switch over the specifier: the inner None is a part that intervals do not have.\<close>

fun add_part :: "DatePartSpecifier \<Rightarrow> int \<Rightarrow> int \<Rightarrow> interval_t \<Rightarrow> interval_t option option" where
  "add_part MILLENNIUM number fraction iv = map_option Some (add_months iv number 12000 fraction)"
| "add_part CENTURY number fraction iv = map_option Some (add_months iv number 1200 fraction)"
| "add_part DECADE number fraction iv = map_option Some (add_months iv number 120 fraction)"
| "add_part YEAR number fraction iv = map_option Some (add_months iv number 12 fraction)"
| "add_part QUARTER number fraction iv =
     map_option Some (Option.bind (add_months iv number 3 fraction)
       (\<lambda>iv. add_days iv 0 30 (fraction * 3 smod 1000000)))"
| "add_part MONTH number fraction iv =
     map_option Some (Option.bind (add_months iv number 1 0) (\<lambda>iv. add_days iv 0 30 fraction))"
| "add_part DAY number fraction iv =
     map_option Some (Option.bind (add_days iv number 1 0) (\<lambda>iv. add_micros iv 0 86400000000 fraction))"
| "add_part WEEK number fraction iv =
     map_option Some (Option.bind (add_days iv number 7 fraction)
       (\<lambda>iv. add_micros iv 0 86400000000 (fraction * 7 smod 1000000)))"
| "add_part MICROSECONDS number fraction iv =
     (let number = number + fraction * 2 sdiv 1000000
      in if in_s 64 number then map_option Some (add_micros iv number 1 0) else None)"
| "add_part MILLISECONDS number fraction iv = map_option Some (add_micros iv number 1000 fraction)"
| "add_part SECOND number fraction iv = map_option Some (add_micros iv number 1000000 fraction)"
| "add_part MINUTE number fraction iv = map_option Some (add_micros iv number 60000000 fraction)"
| "add_part HOUR number fraction iv = map_option Some (add_micros iv number 3600000000 fraction)"
| "add_part _ number fraction iv = Some None"

section \<open>The parser\<close>

definition is_blank :: "char \<Rightarrow> bool" where
  "is_blank c \<longleftrightarrow> c = CHR '' '' \<or> c = CHR 0x09 \<or> c = CHR 0x0A"

definition end_of_string :: "bool \<Rightarrow> interval_t \<Rightarrow> interval_t option option" where
  "end_of_string found_any iv = Some (if found_any then Some iv else None)"

text \<open>A label either ends the parser or goes back to the start with what is left.\<close>

datatype interval_step = Return "interval_t option option" | Standard interval_t string

definition interval_parse_time :: "string \<Rightarrow> bool \<Rightarrow> interval_t \<Rightarrow> interval_t option option" where
  "interval_parse_time str negative iv =
     (case TryConvertTimeInternal False str of
        None \<Rightarrow> None
      | Some None \<Rightarrow> Some None
      | Some (Some (time, _)) \<Rightarrow>
          let micros = iv_micros iv + time in
          if \<not> in_s 64 micros \<or> negative \<and> \<not> in_s 64 (- micros) then None
          else Some (Some (iv\<lparr>iv_micros := (if negative then - micros else micros)\<rparr>)))"

definition interval_parse_identifier :: "int \<Rightarrow> int \<Rightarrow> string \<Rightarrow> bool \<Rightarrow> interval_t \<Rightarrow> interval_step" where
  "interval_parse_identifier number fraction str found_any iv =
     (let str = dropWhile is_blank str;
          specifier_str = takeWhile CharacterIsAlpha str; rest = dropWhile CharacterIsAlpha str
      in
      if specifier_str = [] \<and> \<not> found_any then
        Return (case Option.bind (add_micros iv number 1000000 0) (\<lambda>iv. add_micros iv fraction 1 0) of
                  None \<Rightarrow> None
                | Some iv \<Rightarrow> Some (if dropWhile is_blank rest = [] then Some iv else None))
      else
        (case TryGetDatePartSpecifier specifier_str of
           None \<Rightarrow> Return (Some None)
         | Some specifier \<Rightarrow>
             (case add_part specifier number fraction iv of
                None \<Rightarrow> Return None
              | Some None \<Rightarrow> Return (Some None)
              | Some (Some iv) \<Rightarrow> Standard iv rest)))"

text \<open>
  A number that ends the text is not looked at; one that is too big for 64 bits is an exception.
\<close>

definition interval_parse_number :: "string \<Rightarrow> bool \<Rightarrow> bool \<Rightarrow> interval_t \<Rightarrow> interval_step" where
  "interval_parse_number str negative found_any iv =
     (let nr_string = takeWhile CharacterIsDigit str in
      case dropWhile CharacterIsDigit str of
        [] \<Rightarrow> Return (end_of_string found_any iv)
      | c # rest \<Rightarrow>
        if c = CHR '':'' then Return (interval_parse_time str negative iv)
        else if nr_string = [] then Return (Some None)
        else
          let number = number_of_digits nr_string 0 in
          if \<not> in_s 64 number then Return None
          else
            (case (if c = CHR ''.'' then parse_micros rest 0 100000 else (0, c # rest)) of (fraction, rest) \<Rightarrow>
               interval_parse_identifier (if negative then - number else number)
                 (if negative then - fraction else fraction) rest found_any iv))"

definition interval_parse_ago :: "string \<Rightarrow> bool \<Rightarrow> interval_t \<Rightarrow> interval_t option option" where
  "interval_parse_ago str found_any iv =
     (if map CharacterToLower (take 3 str) = ''ago'' \<and> dropWhile is_blank (drop 3 str) = [] then
        if in_s 32 (- iv_months iv) \<and> in_s 32 (- iv_days iv) \<and> in_s 64 (- iv_micros iv) then
          end_of_string found_any
            (iv\<lparr>iv_months := - iv_months iv, iv_days := - iv_days iv, iv_micros := - iv_micros iv\<rparr>)
        else None
      else Some None)"

lemma parse_micros_shorter: "length (snd (parse_micros s acc mult)) \<le> length s"
  by (induction s acc mult rule: parse_micros.induct) (simp_all add: le_SucI)

lemma interval_parse_identifier_shorter:
  "interval_parse_identifier n f s found iv = Standard iv' rest \<Longrightarrow> length rest \<le> length s"
  using length_dropWhile_le[of is_blank s] length_dropWhile_le[of CharacterIsAlpha "dropWhile is_blank s"]
  by (auto simp: interval_parse_identifier_def Let_def split: if_split_asm option.splits)

lemma interval_parse_number_shorter:
  assumes "interval_parse_number s negative found iv = Standard iv' rest"
  shows "length rest < length s"
proof -
  obtain c tail where d: "dropWhile CharacterIsDigit s = c # tail" "takeWhile CharacterIsDigit s \<noteq> []"
    using assms by (auto simp: interval_parse_number_def Let_def split: list.splits if_split_asm)
  then have l: "Suc (length tail) < length s"
    by (metis append_is_Nil_conv length_Cons length_append length_greater_0_conv less_add_same_cancel2
        list.size(4) takeWhile_dropWhile_id add.right_neutral add_Suc_right)
  obtain f r where p: "(if c = CHR ''.'' then parse_micros tail 0 100000 else (0, c # tail)) = (f, r)" by fastforce
  have "length r \<le> Suc (length tail)" using p parse_micros_shorter[of tail 0 100000] by (auto split: if_split_asm)
  moreover have "\<exists>n f'. interval_parse_identifier n f' r found iv = Standard iv' rest"
    using assms d p by (auto simp: interval_parse_number_def Let_def split: if_split_asm)
  ultimately show ?thesis using interval_parse_identifier_shorter l by fastforce
qed

declare interval_step.case_cong [fundef_cong]

function standard_interval :: "string \<Rightarrow> bool \<Rightarrow> interval_t \<Rightarrow> interval_t option option" where
  "standard_interval [] found_any iv = end_of_string found_any iv"
| "standard_interval (c # str) found_any iv =
     (if is_blank c then standard_interval str found_any iv
      else if CharacterIsDigit c then
        (case interval_parse_number (c # str) False found_any iv of
           Return r \<Rightarrow> r | Standard iv rest \<Rightarrow> standard_interval rest True iv)
      else if c = CHR ''-'' then
        (case interval_parse_number str True found_any iv of
           Return r \<Rightarrow> r | Standard iv rest \<Rightarrow> standard_interval rest True iv)
      else if c = CHR ''a'' \<or> c = CHR ''A'' then interval_parse_ago (c # str) found_any iv
      else Some None)"
  by pat_completeness auto
termination
  by (relation "measure (\<lambda>(str, _). length str)") (auto dest: interval_parse_number_shorter)

definition Interval_FromCString :: "string \<Rightarrow> interval_t option option" where
  "Interval_FromCString str =
     (let iv = \<lparr>iv_months = 0, iv_days = 0, iv_micros = 0\<rparr> in
      case str of [] \<Rightarrow> Some None
      | c # rest \<Rightarrow>
        if c = CHR ''@'' then standard_interval rest False iv
        else if c = CHR ''P'' \<or> c = CHR ''p'' then Some None
        else standard_interval str False iv)"

section \<open>The writer\<close>

definition FormatSignedNumber :: "int \<Rightarrow> string" where
  "FormatSignedNumber value = (if value < 0 then ''-'' else []) @ FormatUnsigned \<bar>value\<bar> []"

definition separated :: "string \<Rightarrow> string" where
  "separated buffer = (if buffer \<noteq> [] then buffer @ '' '' else [])"

definition FormatIntervalValue :: "int \<Rightarrow> string \<Rightarrow> string \<Rightarrow> string" where
  "FormatIntervalValue value name buffer =
     (if value = 0 then buffer
      else separated buffer @ FormatSignedNumber value @ name @ (if value \<noteq> 1 \<and> value \<noteq> -1 then ''s'' else []))"

text \<open>The time is computed on the negative side, which has room for every number of 64 bits.\<close>

definition FormatIntervalTime :: "int \<Rightarrow> string" where
  "FormatIntervalTime micros0 =
     (let micros = (if micros0 < 0 then micros0 else - micros0);
          hour = - (micros sdiv 3600000000); micros = micros + hour * 3600000000;
          min = - (micros sdiv 60000000); micros = micros + min * 60000000;
          sec = - (micros sdiv 1000000); micros = micros + sec * 1000000;
          micros = - micros
      in (if micros0 < 0 then ''-'' else []) @ (if hour < 10 then ''0'' else []) @ FormatSignedNumber hour @ '':'' @
         FormatTwoDigits min @ '':'' @ FormatTwoDigits sec @ (if micros \<noteq> 0 then ''.'' @ FormatMicros micros else []))"

definition Interval_ToString :: "interval_t \<Rightarrow> string" where
  "Interval_ToString iv =
     (let years = iv_months iv sdiv 12; months = iv_months iv - years * 12;
          buffer = (if iv_months iv \<noteq> 0 then
            FormatIntervalValue months '' month'' (FormatIntervalValue years '' year'' []) else []);
          buffer = (if iv_days iv \<noteq> 0 then FormatIntervalValue (iv_days iv) '' day'' buffer else buffer)
      in if iv_micros iv \<noteq> 0 then separated buffer @ FormatIntervalTime (iv_micros iv)
         else if buffer = [] then ''00:00:00'' else buffer)"

section \<open>Reading back an interval\<close>

lemma digit_list_takeWhile:
  assumes "digit_list ds" "rest = [] \<or> \<not> CharacterIsDigit (hd rest)"
  shows "takeWhile CharacterIsDigit (ds @ rest) = ds" "dropWhile CharacterIsDigit (ds @ rest) = rest"
proof -
  have "takeWhile CharacterIsDigit rest = []" "dropWhile CharacterIsDigit rest = rest" using assms(2) by (cases rest; auto)+
  then show "takeWhile CharacterIsDigit (ds @ rest) = ds" "dropWhile CharacterIsDigit (ds @ rest) = rest"
    using assms(1) by (simp_all add: list_all_iff)
qed

lemma alpha_list_takeWhile:
  assumes "list_all CharacterIsAlpha w" "rest = [] \<or> \<not> CharacterIsAlpha (hd rest)"
  shows "takeWhile CharacterIsAlpha (w @ rest) = w" "dropWhile CharacterIsAlpha (w @ rest) = rest"
proof -
  have "takeWhile CharacterIsAlpha rest = []" "dropWhile CharacterIsAlpha rest = rest" using assms(2) by (cases rest; auto)+
  then show "takeWhile CharacterIsAlpha (w @ rest) = w" "dropWhile CharacterIsAlpha (w @ rest) = rest"
    using assms(1) by (simp_all add: list_all_iff)
qed

lemma char_classes:
  "\<not> CharacterIsDigit CHR '' ''" "\<not> CharacterIsDigit CHR '':''" "\<not> CharacterIsDigit CHR ''-''" "\<not> CharacterIsAlpha CHR '' ''"
  "is_blank CHR '' ''" "\<not> is_blank CHR ''-''"
  by (simp_all add: CharacterIsDigit_def CharacterIsAlpha_def is_blank_def less_eq_char_def)

lemma digit_not_blank: "CharacterIsDigit c \<Longrightarrow> \<not> is_blank c"
  by (auto simp: is_blank_def CharacterIsDigit_def less_eq_char_def)

lemma alpha_not_blank: "CharacterIsAlpha c \<Longrightarrow> \<not> is_blank c"
  by (auto simp: is_blank_def CharacterIsAlpha_def less_eq_char_def)

text \<open>A number and a word, and then the rest.\<close>

lemma number_and_unit:
  assumes "digit_list ds" "ds \<noteq> []" "in_s 64 (number_of_digits ds 0)" "list_all CharacterIsAlpha w" "w \<noteq> []"
    "rest = [] \<or> hd rest = CHR '' ''" "TryGetDatePartSpecifier w = Some part"
    "add_part part (if negative then - number_of_digits ds 0 else number_of_digits ds 0) 0 iv = Some (Some iv')"
  shows "interval_parse_number (ds @ '' '' @ w @ rest) negative found iv = Standard iv' rest"
proof -
  have d: "takeWhile CharacterIsDigit (ds @ CHR '' '' # w @ rest) = ds"
    "dropWhile CharacterIsDigit (ds @ CHR '' '' # w @ rest) = CHR '' '' # w @ rest"
    using digit_list_takeWhile[OF assms(1), of "CHR '' '' # w @ rest"] by (simp_all add: char_classes)
  have b: "dropWhile is_blank (w @ rest) = w @ rest"
    using assms(4,5) alpha_not_blank by (cases w) auto
  have r: "rest = [] \<or> \<not> CharacterIsAlpha (hd rest)" using assms(6) char_classes by auto
  let ?n = "if negative then - number_of_digits ds 0 else number_of_digits ds 0"
  have "interval_parse_identifier ?n 0 (CHR '' '' # w @ rest) found iv = Standard iv' rest"
    using assms(5,7,8) alpha_list_takeWhile[OF assms(4) r] b
    by (simp add: interval_parse_identifier_def Let_def char_classes)
  then show ?thesis
    using assms(2,3) by (cases negative) (simp_all add: interval_parse_number_def d Let_def)
qed

lemma FormatSignedNumber_cases:
  obtains ds where "FormatSignedNumber v = (if v < 0 then ''-'' else []) @ ds" "digit_list ds" "ds \<noteq> []"
    "number_of_digits ds 0 = \<bar>v\<bar>"
proof -
  obtain ds where "FormatUnsigned \<bar>v\<bar> [] = ds" "digit_list ds" "number_of_digits ds 0 = \<bar>v\<bar>" "\<bar>v\<bar> < 10 ^ length ds"
    "\<bar>v\<bar> < 10 \<and> length ds = 1 \<or> 10 ^ (length ds - 1) \<le> \<bar>v\<bar>"
    using FormatUnsigned_digits[of "\<bar>v\<bar>" "[]"] by auto
  moreover from this have "ds \<noteq> []" by (cases ds) auto
  ultimately show thesis using that by (simp add: FormatSignedNumber_def)
qed

lemma FormatSignedNumber_not_Nil: "FormatSignedNumber v \<noteq> []"
  using FormatSignedNumber_cases[of v] by (metis append_is_Nil_conv)

lemma standard_unit:
  assumes "\<bar>v\<bar> \<le> 2 ^ 31" "list_all CharacterIsAlpha w" "w \<noteq> []" "rest = [] \<or> hd rest = CHR '' ''"
    "TryGetDatePartSpecifier w = Some part" "add_part part v 0 iv = Some (Some iv')"
  shows "standard_interval (FormatSignedNumber v @ '' '' @ w @ rest) found iv = standard_interval rest True iv'"
proof -
  obtain ds where ds: "FormatSignedNumber v = (if v < 0 then ''-'' else []) @ ds" "digit_list ds" "ds \<noteq> []"
    "number_of_digits ds 0 = \<bar>v\<bar>" by (rule FormatSignedNumber_cases)
  have n: "in_s 64 (number_of_digits ds 0)" using assms(1) ds(4) by (simp add: in_s_def)
  obtain c cs where c: "ds = c # cs" "CharacterIsDigit c" using ds(2,3) by (cases ds) simp_all
  have step: "interval_parse_number (ds @ '' '' @ w @ rest) (v < 0) found iv = Standard iv' rest"
    by (rule number_and_unit[OF ds(2,3) n assms(2-5)]) (use assms(6) ds(4) in simp)
  show ?thesis
  proof (cases "v < 0")
    case True
    then show ?thesis using step ds(1) by (simp add: char_classes)
  next
    case False
    then show ?thesis using step ds(1) c digit_not_blank[OF c(2)] by simp
  qed
qed

text \<open>What the text of some parts does to the interval read so far.\<close>

definition reads :: "string \<Rightarrow> interval_t \<Rightarrow> interval_t \<Rightarrow> bool" where
  "reads buffer iv iv' \<longleftrightarrow> (\<forall>rest. rest = [] \<or> hd rest = CHR '' '' \<longrightarrow>
     standard_interval (buffer @ rest) False iv = standard_interval rest (buffer \<noteq> []) iv')"

lemma reads_Nil: "reads [] iv iv"
  by (simp add: reads_def)

lemma standard_blank: "standard_interval (CHR '' '' # s) found iv = standard_interval s found iv"
  by (simp add: char_classes)

lemma reads_separated:
  assumes "reads buffer iv iv'"
  shows "standard_interval (separated buffer @ s) False iv = standard_interval s (buffer \<noteq> []) iv'"
proof (cases "buffer = []")
  case False
  then have "separated buffer @ s = buffer @ (CHR '' '' # s)" by (simp add: separated_def)
  moreover have "standard_interval (buffer @ (CHR '' '' # s)) False iv = standard_interval (CHR '' '' # s) (buffer \<noteq> []) iv'"
    using assms unfolding reads_def by (metis list.sel(1))
  ultimately show ?thesis using standard_blank by simp
qed (use assms in \<open>simp add: separated_def reads_def\<close>, metis append_Nil standard_blank list.sel(1))

lemma reads_value:
  assumes "reads buffer iv iv'" "\<bar>v\<bar> \<le> 2 ^ 31" "list_all CharacterIsAlpha w" "w \<noteq> []"
    "TryGetDatePartSpecifier w = Some part" "TryGetDatePartSpecifier (w @ ''s'') = Some part"
    "v = 0 \<Longrightarrow> iv'' = iv'" "v \<noteq> 0 \<Longrightarrow> add_part part v 0 iv' = Some (Some iv'')"
  shows "reads (FormatIntervalValue v ('' '' @ w) buffer) iv iv''"
proof (cases "v = 0")
  case True
  then show ?thesis using assms(1,7) by (simp add: FormatIntervalValue_def)
next
  case False
  let ?w = "w @ (if v \<noteq> 1 \<and> v \<noteq> -1 then ''s'' else [])"
  have w: "list_all CharacterIsAlpha ?w" "?w \<noteq> []" "TryGetDatePartSpecifier ?w = Some part"
    using assms(3-6) by (simp_all add: CharacterIsAlpha_def less_eq_char_def)
  have ne: "FormatIntervalValue v ('' '' @ w) buffer \<noteq> []"
    using False by (simp add: FormatIntervalValue_def FormatSignedNumber_not_Nil)
  show ?thesis unfolding reads_def
  proof (intro allI impI)
    fix rest :: string
    assume rest: "rest = [] \<or> hd rest = CHR '' ''"
    have "FormatIntervalValue v ('' '' @ w) buffer @ rest = separated buffer @ (FormatSignedNumber v @ '' '' @ ?w @ rest)"
      using False by (simp add: FormatIntervalValue_def)
    then have "standard_interval (FormatIntervalValue v ('' '' @ w) buffer @ rest) False iv =
        standard_interval (FormatSignedNumber v @ '' '' @ ?w @ rest) (buffer \<noteq> []) iv'"
      using reads_separated[OF assms(1)] by metis
    also have "\<dots> = standard_interval rest True iv''"
      by (rule standard_unit[OF assms(2) w(1,2) rest w(3) assms(8)[OF False]])
    finally show "standard_interval (FormatIntervalValue v ('' '' @ w) buffer @ rest) False iv =
        standard_interval rest (FormatIntervalValue v ('' '' @ w) buffer \<noteq> []) iv''" using ne by simp
  qed
qed

text \<open>The time of an interval: up to 999999999 hours can be read back.\<close>

lemma neg_sdiv: "0 \<le> t \<Longrightarrow> 0 < b \<Longrightarrow> - ((- t) sdiv b) = t div (b :: int)"
  by (cases "t = 0") (simp_all add: signed_divide_int_def sgn_if)

lemma FormatIntervalTime_parts:
  assumes "u \<noteq> 0" "\<bar>u\<bar> < 3600000000000000000"
  obtains hs h mi s us where
    "FormatIntervalTime u = (if u < 0 then ''-'' else []) @ hs @ '':'' @ FormatTwoDigits mi @ '':'' @ FormatTwoDigits s @
       (if us = 0 then [] else ''.'' @ FormatMicros us)"
    "digit_list hs" "hs \<noteq> []" "length hs \<le> 9" "number_of_digits hs 0 = h" "0 \<le> mi" "mi < 60" "0 \<le> s" "s < 60" "0 \<le> us" "us < 1000000"
    "FromTime h mi s us = \<bar>u\<bar>"
proof -
  define h where "h = \<bar>u\<bar> div 3600000000"
  define r where "r = \<bar>u\<bar> - h * 3600000000"
  define mi where "mi = r div 60000000"
  define r' where "r' = r - mi * 60000000"
  define s where "s = r' div 1000000"
  define us where "us = r' - s * 1000000"
  have h: "0 \<le> h" "h < 1000000000" "0 \<le> r" "r < 3600000000" unfolding r_def h_def using assms(2) by linarith+
  have mi: "0 \<le> mi" "mi < 60" "0 \<le> r'" "r' < 60000000" unfolding r'_def mi_def using h(3,4) by linarith+
  have s: "0 \<le> s" "s < 60" "0 \<le> us" "us < 1000000" unfolding us_def s_def using mi(3,4) by linarith+
  let ?hs = "(if h < 10 then ''0'' else []) @ FormatUnsigned h []"
  obtain ds where ds: "FormatUnsigned h [] = ds" "digit_list ds" "number_of_digits ds 0 = h" "h < 10 ^ length ds"
    "h < 10 \<and> length ds = 1 \<or> 10 ^ (length ds - 1) \<le> h" using FormatUnsigned_digits[OF h(1), of "[]"] by auto
  have dne: "ds \<noteq> []" using ds(3-5) by (cases ds) auto
  have "length ds \<le> 9"
  proof (rule ccontr)
    assume "\<not> length ds \<le> 9"
    then have "(10 :: int) ^ 9 \<le> 10 ^ (length ds - 1)" by (intro power_increasing) simp_all
    then show False using ds(5) h(2) \<open>\<not> length ds \<le> 9\<close> by auto
  qed
  moreover have "length ds = 1" if "h < 10"
  proof (rule ccontr)
    assume "length ds \<noteq> 1"
    then have "2 \<le> length ds" using dne by (cases ds; cases "tl ds") auto
    then have "(10 :: int) ^ 1 \<le> 10 ^ (length ds - 1)" by (intro power_increasing) simp_all
    then show False using ds(5) that \<open>length ds \<noteq> 1\<close> by auto
  qed
  ultimately have len: "length ?hs \<le> 9" using ds(1) by auto
  have zero: "digit_list ''0''" "number_of_digits ''0'' 0 = 0" by (simp_all add: CharacterIsDigit_def digit_value_def)
  have hs: "digit_list ?hs" "number_of_digits ?hs 0 = h" using ds(1-3) zero by simp_all
  have ne: "?hs \<noteq> []" using ds(1) dne by simp
  have q: "- ((- \<bar>u\<bar>) sdiv 3600000000) = h" "- ((- r) sdiv 60000000) = mi" "- ((- r') sdiv 1000000) = s"
    using neg_sdiv[of "\<bar>u\<bar>"] neg_sdiv[OF h(3)] neg_sdiv[OF mi(3)] by (simp_all add: h_def mi_def s_def)
  have m: "(if u < 0 then u else - u) = - \<bar>u\<bar>" by simp
  have minus: "- \<bar>u\<bar> + h * 3600000000 = - r" "- r + mi * 60000000 = - r'" "- (- r' + s * 1000000) = us"
    by (simp_all add: r_def r'_def us_def)
  have "FormatIntervalTime u = (if u < 0 then ''-'' else []) @ (if h < 10 then ''0'' else []) @ FormatSignedNumber h @ '':'' @
      FormatTwoDigits mi @ '':'' @ FormatTwoDigits s @ (if us \<noteq> 0 then ''.'' @ FormatMicros us else [])"
    unfolding FormatIntervalTime_def Let_def m q minus ..
  moreover have "FormatSignedNumber h = FormatUnsigned h []" using h(1) by (simp add: FormatSignedNumber_def)
  moreover have "FromTime h mi s us = \<bar>u\<bar>" by (simp add: FromTime_def us_def r'_def r_def)
  ultimately show thesis using that[of ?hs mi s us h] hs ne len mi(1,2) s by (cases "us = 0") simp_all
qed

lemma standard_time:
  assumes "u \<noteq> 0" "\<bar>u\<bar> < 3600000000000000000" "iv_micros iv = 0"
  shows "standard_interval (FormatIntervalTime u) found iv = Some (Some (iv\<lparr>iv_micros := u\<rparr>))"
proof -
  obtain hs h mi s us where f: "FormatIntervalTime u = (if u < 0 then ''-'' else []) @ hs @ '':'' @ FormatTwoDigits mi @ '':'' @
       FormatTwoDigits s @ (if us = 0 then [] else ''.'' @ FormatMicros us)"
    "digit_list hs" "hs \<noteq> []" "length hs \<le> 9" "number_of_digits hs 0 = h" "0 \<le> mi" "mi < 60" "0 \<le> s" "s < 60" "0 \<le> us" "us < 1000000"
    "FromTime h mi s us = \<bar>u\<bar>" by (rule FormatIntervalTime_parts[OF assms(1,2)])
  let ?tail = "FormatTwoDigits mi @ '':'' @ FormatTwoDigits s @ (if us = 0 then [] else ''.'' @ FormatMicros us)"
  let ?text = "hs @ '':'' @ ?tail"
  have t: "TryConvertTimeInternal False ?text = Some (Some (\<bar>u\<bar>, []))"
    using time_parts_read[OF f(2-11), of False] f(12) by simp
  have d: "dropWhile CharacterIsDigit ?text = '':'' @ ?tail"
    using digit_list_takeWhile[OF f(2), of "'':'' @ ?tail"] by (simp add: char_classes)
  have "interval_parse_number ?text negative found iv = Return (interval_parse_time ?text negative iv)" for negative
    unfolding interval_parse_number_def Let_def d by simp
  moreover have "interval_parse_time ?text (u < 0) iv = Some (Some (iv\<lparr>iv_micros := u\<rparr>))"
    using assms unfolding interval_parse_time_def t by (auto simp: in_s_def abs_if)
  ultimately have n: "interval_parse_number ?text (u < 0) found iv = Return (Some (Some (iv\<lparr>iv_micros := u\<rparr>)))" by metis
  obtain c cs where c: "hs = c # cs" "CharacterIsDigit c" using f(2,3) by (cases hs) simp_all
  show ?thesis
  proof (cases "u < 0")
    case True
    then have "FormatIntervalTime u = CHR ''-'' # ?text" using f(1) by simp
    then show ?thesis using n True by (simp add: char_classes del: append.simps append_assoc)
  next
    case False
    then have e: "FormatIntervalTime u = c # cs @ '':'' @ ?tail" using f(1) c(1) by simp
    have "interval_parse_number (c # cs @ '':'' @ ?tail) False found iv = Return (Some (Some (iv\<lparr>iv_micros := u\<rparr>)))"
      using n False c(1) by simp
    then show ?thesis unfolding e using c(2) digit_not_blank[OF c(2)] by simp
  qed
qed

lemma part_names:
  "TryGetDatePartSpecifier ''year'' = Some YEAR" "TryGetDatePartSpecifier (''year'' @ ''s'') = Some YEAR"
  "TryGetDatePartSpecifier ''month'' = Some MONTH" "TryGetDatePartSpecifier (''month'' @ ''s'') = Some MONTH"
  "TryGetDatePartSpecifier ''day'' = Some DAY" "TryGetDatePartSpecifier (''day'' @ ''s'') = Some DAY"
  by code_simp+

lemma part_letters: "list_all CharacterIsAlpha ''year''" "list_all CharacterIsAlpha ''month''" "list_all CharacterIsAlpha ''day''"
  by code_simp+

text \<open>The intervals whose text can be read: fewer than a billion hours.\<close>

definition interval_in_range :: "interval_t \<Rightarrow> bool" where
  "interval_in_range iv \<longleftrightarrow>
     in_s 32 (iv_months iv) \<and> in_s 32 (iv_days iv) \<and> \<bar>iv_micros iv\<bar> < 3600000000000000000"

definition interval_of_text :: "string \<Rightarrow> interval_t option" where
  "interval_of_text s = Option.bind (Interval_FromCString s) id"

lemma interval_text_read:
  assumes "interval_in_range iv"
  shows "interval_of_text (Interval_ToString iv) = Some iv"
proof -
  let ?m = "iv_months iv" and ?d = "iv_days iv" and ?u = "iv_micros iv"
  have range: "in_s 32 ?m" "in_s 32 ?d" "\<bar>?u\<bar> < 3600000000000000000" using assms by (simp_all add: interval_in_range_def)
  define years where "years = ?m sdiv 12"
  define months where "months = ?m - years * 12"
  have y: "\<bar>years\<bar> * 12 \<le> \<bar>?m\<bar>" "\<bar>years\<bar> \<le> 2 ^ 31" "\<bar>months\<bar> \<le> 12"
  proof -
    have "\<bar>years\<bar> = \<bar>?m\<bar> div 12" unfolding years_def by (simp add: signed_divide_int_def abs_mult sgn_if)
    then show le: "\<bar>years\<bar> * 12 \<le> \<bar>?m\<bar>" by linarith
    show "\<bar>years\<bar> \<le> 2 ^ 31" using le range(1) by (simp add: in_s_def abs_le_iff) linarith
    have "months = ?m smod 12" unfolding months_def years_def by (simp add: minus_sdiv_mult_eq_smod)
    moreover have "?m smod 12 = sgn ?m * (\<bar>?m\<bar> mod 12)" by (simp add: signed_modulo_int_def)
    moreover have "0 \<le> \<bar>?m\<bar> mod 12" "\<bar>?m\<bar> mod 12 < 12" by simp_all
    ultimately show "\<bar>months\<bar> \<le> 12" by (auto simp: abs_mult sgn_if)
  qed
  have "\<bar>?m\<bar> \<le> 2147483648" using range(1) by (simp add: in_s_def abs_le_iff)
  then have "\<bar>years\<bar> \<le> 178956970" using y(1) by linarith
  then have yr: "in_s 64 (years * 12)" "in_s 32 (years * 12)" "in_s 64 months" "in_s 32 months"
    using y(3) by (simp_all add: in_s_def abs_le_iff)
  have y3: "\<bar>months\<bar> \<le> 2 ^ 31" using y(3) by simp
  let ?iv0 = "\<lparr>iv_months = 0, iv_days = 0, iv_micros = 0\<rparr>"
  let ?iv1 = "\<lparr>iv_months = years * 12, iv_days = 0, iv_micros = 0\<rparr>"
  let ?iv2 = "\<lparr>iv_months = ?m, iv_days = 0, iv_micros = 0\<rparr>"
  let ?iv3 = "\<lparr>iv_months = ?m, iv_days = ?d, iv_micros = 0\<rparr>"
  let ?b2 = "FormatIntervalValue months '' month'' (FormatIntervalValue years '' year'' [])"
  let ?b3 = "FormatIntervalValue ?d '' day'' ?b2"
  have r1: "reads (FormatIntervalValue years ('' '' @ ''year'') []) ?iv0 ?iv1"
    by (rule reads_value[OF reads_Nil y(2) part_letters(1) _ part_names(1,2)])
      (use yr in \<open>simp_all add: add_months_def IntervalTryAddition_def\<close>)
  have m: "years * 12 + months = ?m" by (simp add: months_def)
  have r2: "reads (FormatIntervalValue months ('' '' @ ''month'') (FormatIntervalValue years ('' '' @ ''year'') [])) ?iv0 ?iv2"
    by (rule reads_value[OF r1 y3 part_letters(2) _ part_names(3,4)])
      (use yr range m in \<open>simp_all add: add_months_def add_days_def IntervalTryAddition_def in_s_def\<close>)
  have dr: "\<bar>?d\<bar> \<le> 2 ^ 31" "in_s 64 ?d" using range(2) unfolding in_s_def by (auto simp: abs_if)
  have r3: "reads (FormatIntervalValue ?d ('' '' @ ''day'') (FormatIntervalValue months ('' '' @ ''month'')
      (FormatIntervalValue years ('' '' @ ''year'') []))) ?iv0 ?iv3"
    by (rule reads_value[OF r2 dr(1) part_letters(3) _ part_names(5,6)])
      (use dr range in \<open>simp_all add: add_micros_def add_days_def IntervalTryAddition_def in_s_def\<close>)
  then have r3: "reads ?b3 ?iv0 ?iv3" by simp
  have shown: "Interval_ToString iv = (if ?u \<noteq> 0 then separated ?b3 @ FormatIntervalTime ?u else if ?b3 = [] then ''00:00:00'' else ?b3)"
  proof -
    have "?m = 0 \<Longrightarrow> years = 0 \<and> months = 0" by (simp add: years_def months_def)
    then show ?thesis
      by (cases "?m = 0"; cases "?d = 0"; simp add: Interval_ToString_def Let_def FormatIntervalValue_def flip: years_def months_def)
  qed
  have std: "standard_interval (Interval_ToString iv) False ?iv0 = Some (Some iv)"
  proof (cases "?u = 0")
    case False
    have "standard_interval (Interval_ToString iv) False ?iv0 = standard_interval (FormatIntervalTime ?u) (?b3 \<noteq> []) ?iv3"
      unfolding shown using False reads_separated[OF r3] by simp
    also have "\<dots> = Some (Some (?iv3\<lparr>iv_micros := ?u\<rparr>))" by (rule standard_time[OF False range(3)]) simp
    finally show ?thesis by simp
  next
    case True
    show ?thesis
    proof (cases "?b3 = []")
      case False
      have "standard_interval (?b3 @ []) False ?iv0 = standard_interval [] True ?iv3" using r3 False unfolding reads_def by simp
      then show ?thesis unfolding shown using True False by (simp add: end_of_string_def)
    next
      case empty: True
      have "FormatIntervalValue v name buffer = [] \<Longrightarrow> v = 0 \<and> buffer = []" for v name buffer
        using FormatSignedNumber_not_Nil[of v] by (auto simp: FormatIntervalValue_def separated_def split: if_split_asm)
      note nil = this
      have b2: "?d = 0" "?b2 = []" using nil[OF empty] by blast+
      have b1: "months = 0" "FormatIntervalValue years '' year'' [] = []" using nil[OF b2(2)] by blast+
      have "years = 0" using nil[OF b1(2)] by blast
      then have "?m = 0" using m b1(1) by (simp only: mult_zero_left add_0)
      then have "iv = ?iv0" using True b2(1) by (cases iv) simp
      moreover have "standard_interval ''00:00:00'' False ?iv0 = Some (Some ?iv0)" by code_simp
      moreover have "Interval_ToString iv = ''00:00:00''" unfolding shown using True empty by (simp only: if_True not_True_eq_False if_False simp_thms)
      ultimately show ?thesis by (simp only:)
    qed
  qed
  have others: "standard_interval (c # cs) False ?iv0 = Some None" if "c \<in> {CHR ''@'', CHR ''P'', CHR ''p''}" for c cs
  proof -
    have "\<not> is_blank c" "\<not> CharacterIsDigit c" using that by (auto simp: is_blank_def CharacterIsDigit_def less_eq_char_def)
    moreover have "c \<noteq> CHR ''-''" "c \<noteq> CHR ''a''" "c \<noteq> CHR ''A''" using that by auto
    ultimately show ?thesis by simp
  qed
  have "Interval_FromCString (Interval_ToString iv) = Some (Some iv)"
  proof (cases "Interval_ToString iv")
    case Nil
    then show ?thesis using std by (simp add: end_of_string_def)
  next
    case (Cons c cs)
    then have "standard_interval (c # cs) False ?iv0 = Some (Some iv)" using std by metis
    then have "c \<notin> {CHR ''@'', CHR ''P'', CHR ''p''}" using others[of c cs] by force
    then show ?thesis using std unfolding Cons by (simp add: Interval_FromCString_def Let_def del: standard_interval.simps)
  qed
  then show ?thesis by (simp add: interval_of_text_def)
qed

interpretation interval_codec: text_codec "\<lambda>iv. Some (Interval_ToString iv)" interval_of_text interval_in_range
  by unfold_locales (simp add: interval_text_read)

text \<open>
  C40. The text the engine writes for an interval of fewer than a billion hours, its years, months, days
  and its time, is read as that interval: the parts and the sign of each of them come back.
\<close>

theorem interval_text_roundtrip:
  "interval_in_range iv \<Longrightarrow> interval_of_text (Interval_ToString iv) = Some iv"
  by (rule interval_codec.of_to_text) simp_all

theorem interval_text_roundtrip_witness:
  "interval_of_text (Interval_ToString \<lparr>iv_months = -13, iv_days = 5, iv_micros = -3661000500\<rparr>) =
     Some \<lparr>iv_months = -13, iv_days = 5, iv_micros = -3661000500\<rparr>"
  by (rule interval_text_roundtrip) (simp add: interval_in_range_def in_s_def)

text \<open>Texts the parser reads in its own way.\<close>

lemma number_at_the_end_ignored:
  "Interval_FromCString ''1 day 5'' = Some (Some \<lparr>iv_months = 0, iv_days = 1, iv_micros = 0\<rparr>)"
  "Interval_FromCString ''5'' = Some None"
  by code_simp+

lemma out_of_range_is_an_exception:
  "Interval_FromCString ''2147483648 days'' = None"
  "Interval_FromCString ''99999999999999999999 s'' = None"
  by code_simp+

text \<open>A billion hours are written with ten digits, of which the parser of times takes nine.\<close>

lemma billion_hours_not_read:
  "Interval_ToString \<lparr>iv_months = 0, iv_days = 0, iv_micros = 3600000000000000000\<rparr> = ''1000000000:00:00''"
  "Interval_FromCString ''1000000000:00:00'' = Some None"
  by code_simp+

end
