(* ===== verification/Calendar_Data.thy ===== *)
theory Calendar_Data
  imports Engine_Text Engine_Interval Statement_Data Parameter_Sets
begin

text \<open>
  Dates and times through the driver: the structures the client binds as parameters, the numbers the
  engine keeps for them (\<^verbatim>\<open>Value::DATE\<close>, \<^verbatim>\<open>TIME\<close> and \<^verbatim>\<open>TIMESTAMP\<close> of \<^verbatim>\<open>src/common/types/value.cpp\<close> under
  \<^verbatim>\<open>src/duckdb\<close>) and the structures the client fetches. The record of engine functions is filled with
  the modelled calendar.
\<close>

section \<open>The calendar as part of the engine\<close>

definition Value_TIMESTAMP :: "int \<Rightarrow> int \<Rightarrow> int \<Rightarrow> int \<Rightarrow> int \<Rightarrow> int \<Rightarrow> int \<Rightarrow> int option" where
  "Value_TIMESTAMP year month day hour minute sec micros = do {
     date \<leftarrow> FromDate year month day;
     TryFromDatetime date (FromTime hour minute sec micros)
   }"

text \<open>The number of a temporal parameter; None is the exception of the constructor.\<close>

fun temporal_number :: "ParamValue \<Rightarrow> int option" where
  "temporal_number (PTimestamp y mo d h mi s us) = Value_TIMESTAMP y mo d h mi s us"
| "temporal_number (PDate y mo d) = FromDate y mo d"
| "temporal_number (PTime h mi s us) = Some (FromTime h mi s us)"
| "temporal_number _ = None"

definition from_epoch :: "int \<Rightarrow> int \<Rightarrow> string + int" where
  "from_epoch type_id input =
     (let convert = (\<lambda>t unit. case t of Some t \<Rightarrow> Inr t
            | None \<Rightarrow> Inl (''Could not convert Timestamp('' @ unit @ '') to Timestamp(US)''))
      in
      if type_id = LogicalTypeId_TIMESTAMP_SEC then convert (FromEpochSeconds input) ''S''
      else if type_id = LogicalTypeId_TIMESTAMP_MS then convert (FromEpochMs input) ''MS''
      else if type_id = LogicalTypeId_TIMESTAMP_NS then Inr (FromEpochNanoSeconds input)
      else Inr (FromEpochMicroSeconds input))"

text \<open>The texts of the exceptions of the casts stay those of the engine at hand.\<close>

definition calendar_engine :: "'v engine \<Rightarrow> 'v engine" where
  "calendar_engine eng = eng
     \<lparr>eng_is_finite := IsFinite, eng_from_epoch := from_epoch,
      eng_ts_date := \<lambda>t. Inr (GetDate t),
      eng_ts_time := \<lambda>t. case GetTime t of Some u \<Rightarrow> Inr u | None \<Rightarrow> eng_ts_time eng t,
      eng_date_ts := date_to_timestamp,
      eng_str_date := date_of_text False, eng_str_time := time_of_text False, eng_str_ts := timestamp_of_text,
      eng_str_interval := Interval_FromCString,
      eng_date_parts := \<lambda>d. case Date_Convert d of Some parts \<Rightarrow> parts | None \<Rightarrow> (0, 0, 0),
      eng_time_parts := Time_Convert, eng_get_date := GetDate, eng_get_time := GetTime\<rparr>"

section \<open>Parameters come back as they were sent\<close>

lemma calendar_engine_fields [simp]:
  "eng_type (calendar_engine eng) = eng_type eng" "eng_int64 (calendar_engine eng) = eng_int64 eng"
  "eng_is_finite (calendar_engine eng) = IsFinite" "eng_from_epoch (calendar_engine eng) = from_epoch"
  "eng_time_parts (calendar_engine eng) = Time_Convert" "eng_get_date (calendar_engine eng) = GetDate"
  "eng_get_time (calendar_engine eng) = GetTime" "eng_string (calendar_engine eng) = eng_string eng"
  "eng_str_date (calendar_engine eng) = date_of_text False" "eng_str_time (calendar_engine eng) = time_of_text False"
  "eng_str_ts (calendar_engine eng) = timestamp_of_text" "eng_str_interval (calendar_engine eng) = Interval_FromCString"
  "eng_date_parts (calendar_engine eng) d = (case Date_Convert d of Some parts \<Rightarrow> parts | None \<Rightarrow> (0, 0, 0))"
  by (simp_all add: calendar_engine_def)

lemma load_s_signed: "0 < n \<Longrightarrow> in_s (8 * n) (load_s n a m)"
  by (simp add: load_s_def in_s_wrap_s)

lemma from_epoch_micros: "from_epoch LogicalTypeId_TIMESTAMP t = Inr t"
  by (simp add: from_epoch_def FromEpochMicroSeconds_def)

text \<open>The six fields of the date and the time and the fraction of SQL\_TIMESTAMP\_STRUCT.\<close>

definition load_timestamp :: "addr \<Rightarrow> mem \<Rightarrow> int \<times> int \<times> int \<times> int \<times> int \<times> int \<times> int" where
  "load_timestamp p m = (load_s 2 p m, load_u 2 (p + 2) m, load_u 2 (p + 4) m, load_u 2 (p + 6) m,
     load_u 2 (p + 8) m, load_u 2 (p + 10) m, load_u 4 (p + 12) m)"

lemma load_stored_timestamp:
  assumes "Date_Convert (GetDate t) = Some (y, mo, d)" "GetTime t = Some u" "Time_Convert u = (h, mi, s, us)"
    "in_s 16 y" "ind = nullptr \<or> ind + 8 \<le> q \<or> q + 16 \<le> ind"
  obtains m' where "store_timestamp (calendar_engine eng) t q m = Some m'"
    "load_timestamp q (store_opt 8 ind 16 m') =
       (y, mo mod 65536, d mod 65536, h mod 65536, mi mod 65536, s mod 65536, us mod 4294967296)"
proof -
  let ?m = "store_int 4 (q + 12) us (store_int 2 (q + 10) s (store_int 2 (q + 8) mi (store_int 2 (q + 6) h
    (store_int 2 (q + 4) d (store_int 2 (q + 2) mo (store_int 2 q y m))))))"
  have "store_timestamp (calendar_engine eng) t q m = Some ?m"
    using assms(1-3) by (simp add: store_timestamp_def store_time_def store_date_def add.assoc)
  moreover have "load_timestamp q (store_opt 8 ind 16 ?m) = load_timestamp q ?m"
    using assms(5) by (auto simp: load_timestamp_def store_opt_def load_store_int_disjoint)
  moreover have "load_timestamp q ?m =
      (y, mo mod 65536, d mod 65536, h mod 65536, mi mod 65536, s mod 65536, us mod 4294967296)"
    using assms(4) by (simp add: load_timestamp_def load_store_int_disjoint load_store_s load_store_u)
  ultimately show thesis using that by metis
qed

text \<open>
  C37. A timestamp the client binds and the engine stores is fetched again field by field; the fraction,
  which \<^verbatim>\<open>SetValue\<close> does not read, comes back as 0.
\<close>

theorem timestamp_parameter_roundtrip:
  assumes "fixed_value SQL_TYPE_TIMESTAMP c p m = Some v" "temporal_number v = Some t"
    "load_timestamp p m = (y, mo, d, h, mi, s, f)" "h < 24" "mi < 60" "s < 60"
    "lt_id (eng_type eng val) = LogicalTypeId_TIMESTAMP" "eng_int64 eng val = t"
    "ind = nullptr \<or> ind + 8 \<le> q \<or> q + 16 \<le> ind"
  shows "\<exists>m''. GetTimestamp (calendar_engine eng) dsn val q ind hs m' = Some (SQL_SUCCESS, hs, m'') \<and>
    load_timestamp q m'' = (y, mo, d, h, mi, s, 0)"
proof -
  have l: "y = load_s 2 p m" "mo = load_u 2 (p + 2) m" "d = load_u 2 (p + 4) m" "h = load_u 2 (p + 6) m"
    "mi = load_u 2 (p + 8) m" "s = load_u 2 (p + 10) m" using assms(3) by (simp_all add: load_timestamp_def)
  have v: "v = PTimestamp y mo d h mi s 0" using assms(1) unfolding l by (simp add: fixed_value_def)
  obtain n where n: "FromDate y mo d = Some n" "TryFromDatetime n (FromTime h mi s 0) = Some t"
    using assms(2) unfolding v by (auto simp: Value_TIMESTAMP_def bind_eq_Some_conv)
  have b: "0 \<le> h" "0 \<le> mi" "0 \<le> s" "0 \<le> mo" "mo < 65536" "0 \<le> d" "d < 65536"
    using load_u_bounds[of 2] unfolding l by simp_all
  have vt: "IsValidTime h mi s 0" using b assms(4-6) by (simp add: IsValidTime_def)
  note r = datetime_roundtrip[OF n(2) time_in_day[OF vt assms(4,6)]]
  have y: "in_s 16 y" using load_s_signed[of 2 p m] unfolding l by simp
  obtain m'' where m'': "store_timestamp (calendar_engine eng) t q m' = Some m''"
    "load_timestamp q (store_opt 8 ind 16 m'') = (y, mo mod 65536, d mod 65536, h mod 65536, mi mod 65536, s mod 65536,
       0 mod 4294967296)"
    by (rule load_stored_timestamp[of t y mo d "FromTime h mi s 0" h mi s 0, OF _ r(3) time_roundtrip[OF vt assms(4,6)] y assms(9)])
      (use r(2) date_roundtrip(2)[OF n(1)] in simp_all)
  have "GetTimestamp (calendar_engine eng) dsn val q ind hs m' = Some (SQL_SUCCESS, hs, store_opt 8 ind 16 m'')"
    using assms(7,8) m''(1) by (simp add: GetTimestamp_def Let_def timestamp_units_def from_epoch_micros)
  then show ?thesis using m''(2) b assms(4-6) by simp
qed

text \<open>An engine whose only value is the last but one second of a leap day.\<close>

definition leap_day_engine :: "string engine" where
  "leap_day_engine = sample_engine
     \<lparr>eng_type := \<lambda>_. \<lparr>lt_id = LogicalTypeId_TIMESTAMP, lt_width = 0, lt_scale = 0\<rparr>, eng_int64 := \<lambda>_. 1709251198000000\<rparr>"

definition leap_day_struct :: mem where
  "leap_day_struct = store_int 4 112 7 (store_int 2 110 58 (store_int 2 108 59 (store_int 2 106 23
     (store_int 2 104 29 (store_int 2 102 2 (store_int 2 100 2024 (\<lambda>_. CHR 0x00)))))))"

theorem timestamp_parameter_roundtrip_witness:
  "\<exists>m. GetTimestamp (calendar_engine leap_day_engine) [] [] 200 nullptr
      (sample_stmt (sample_fetch SQL_CURSOR_FORWARD_ONLY [] 0 True) []) leap_day_struct =
      Some (SQL_SUCCESS, sample_stmt (sample_fetch SQL_CURSOR_FORWARD_ONLY [] 0 True) [], m) \<and>
    load_timestamp 200 m = (2024, 2, 29, 23, 59, 58, 0)"
proof (rule timestamp_parameter_roundtrip)
  have s: "load_s 2 100 leap_day_struct = 2024"
    by (simp add: leap_day_struct_def load_store_int_disjoint load_store_s in_s_def)
  have u: "load_u 2 102 leap_day_struct = 2" "load_u 2 104 leap_day_struct = 29" "load_u 2 106 leap_day_struct = 23"
    "load_u 2 108 leap_day_struct = 59" "load_u 2 110 leap_day_struct = 58" "load_u 4 112 leap_day_struct = 7"
    by (simp_all add: leap_day_struct_def load_store_int_disjoint load_store_u)
  show "fixed_value SQL_TYPE_TIMESTAMP 0 100 leap_day_struct = Some (PTimestamp 2024 2 29 23 59 58 0)"
    by (simp add: fixed_value_def s u)
  show "load_timestamp 100 leap_day_struct = (2024, 2, 29, 23, 59, 58, 7)"
    by (simp add: load_timestamp_def s u)
  show "temporal_number (PTimestamp 2024 2 29 23 59 58 0) = Some 1709251198000000"
    by (simp add: Value_TIMESTAMP_def leap_day(3) TryFromDatetime_def FromTime_def in_s_def IsFinite_def timestamp_infinity_def)
qed (simp_all add: leap_day_engine_def)

section \<open>Dates and times alone\<close>

fun_cases temporal_numberE: "temporal_number v = Some t"

text \<open>A date or a time that is bound is fetched as it was sent.\<close>

lemma date_parameter_roundtrip:
  assumes "fixed_value SQL_TYPE_DATE c p m = Some v" "temporal_number v = Some n"
    "lt_id (eng_type eng val) = LogicalTypeId_DATE" "eng_int64 eng val = n" "ind = nullptr \<or> ind + 8 \<le> q \<or> q + 6 \<le> ind"
  shows "\<exists>m''. GetDateOrTime (calendar_engine eng) dsn LogicalTypeId_DATE tc sc (store_date (calendar_engine eng)) val q ind hs m' =
      Some (SQL_SUCCESS, hs, m'') \<and>
    load_s 2 q m'' = load_s 2 p m \<and> load_u 2 (q + 2) m'' = load_u 2 (p + 2) m \<and> load_u 2 (q + 4) m'' = load_u 2 (p + 4) m"
proof -
  have "v = PDate (load_s 2 p m) (load_u 2 (p + 2) m) (load_u 2 (p + 4) m)" using assms(1) by (simp add: fixed_value_def)
  with assms(2) have "FromDate (load_s 2 p m) (load_u 2 (p + 2) m) (load_u 2 (p + 4) m) = Some n"
    by (auto elim: temporal_numberE)
  note c = date_roundtrip(2)[OF this]
  have y: "in_s 16 (load_s 2 p m)" using load_s_signed[of 2 p m] by simp
  let ?m = "store_int 2 (q + 4) (load_u 2 (p + 4) m) (store_int 2 (q + 2) (load_u 2 (p + 2) m) (store_int 2 q (load_s 2 p m) m'))"
  have "GetDateOrTime (calendar_engine eng) dsn LogicalTypeId_DATE tc sc (store_date (calendar_engine eng)) val q ind hs m' =
      Some (SQL_SUCCESS, hs, store_opt 8 ind 6 ?m)"
    using assms(3,4) c by (simp add: GetDateOrTime_def Let_def store_date_def)
  moreover have "load_s 2 q ?m = load_s 2 p m" "load_u 2 (q + 2) ?m = load_u 2 (p + 2) m" "load_u 2 (q + 4) ?m = load_u 2 (p + 4) m"
    using y load_u_bounds(2)[of 2 _ m] by (simp_all add: load_store_int_disjoint load_store_s load_store_u)
  ultimately show ?thesis using assms(5) by (auto simp: store_opt_def load_store_int_disjoint)
qed

section \<open>Texts\<close>

text \<open>A column with the text of a date is fetched as that date, one with the text of a timestamp as that timestamp.\<close>

lemma date_text_delivered:
  assumes "\<bar>n\<bar> \<le> date_infinity" "Date_ToString n = Some s"
    "lt_id (eng_type eng val) = LogicalTypeId_VARCHAR" "eng_string eng val = s"
  shows "GetDateOrTime (calendar_engine eng) dsn LogicalTypeId_DATE tc (date_of_text False) (store_date (calendar_engine eng))
      val q ind h m =
    Some (SQL_SUCCESS, h, store_opt 8 ind 6 (store_date (calendar_engine eng) n q m))"
  using date_codec.of_to_text[OF assms(1,2), of False] assms(3,4)
  by (simp add: GetDateOrTime_def Let_def timestamp_units_def)

lemma time_text_delivered:
  assumes "0 \<le> t" "t \<le> 86400000000" "lt_id (eng_type eng val) = LogicalTypeId_VARCHAR" "eng_string eng val = Time_ToString t"
  shows "GetDateOrTime (calendar_engine eng) dsn LogicalTypeId_TIME tc (time_of_text False) (store_time (calendar_engine eng))
      val q ind h m =
    Some (SQL_SUCCESS, h, store_opt 8 ind 6 (store_time (calendar_engine eng) t q m))"
  using time_codec.of_to_text[of t _ False] assms by (simp add: GetDateOrTime_def Let_def timestamp_units_def)

lemma timestamp_text_delivered:
  assumes "timestamp_in_range t" "Timestamp_ToString t = Some s" "store_timestamp (calendar_engine eng) t q m = Some m'"
    "lt_id (eng_type eng val) = LogicalTypeId_VARCHAR" "eng_string eng val = s"
  shows "GetTimestamp (calendar_engine eng) dsn val q ind h m = Some (SQL_SUCCESS, h, store_opt 8 ind 16 m')"
  using timestamp_codec.of_to_text[OF assms(1,2)] assms(3-5) by (simp add: GetTimestamp_def Let_def timestamp_units_def)

text \<open>An interval as a text is delivered like the value it is the text of.\<close>

lemma interval_text_delivered:
  assumes "interval_in_range iv" "lt_id (eng_type eng val) = LogicalTypeId_VARCHAR" "eng_string eng val = Interval_ToString iv"
    "lt_id (eng_type eng val') = LogicalTypeId_INTERVAL" "eng_interval eng val' = iv"
  shows "GetIntervalData (calendar_engine eng) dsn setter val q ind h m = GetIntervalData (calendar_engine eng) dsn setter val' q ind h m"
proof -
  have "Interval_FromCString (Interval_ToString iv) = Some (Some iv)"
    using interval_codec.of_to_text[OF assms(1)] by (simp add: interval_of_text_def bind_eq_Some_conv)
  moreover have "eng_interval (calendar_engine eng) = eng_interval eng" by (simp add: calendar_engine_def)
  ultimately show ?thesis
    using assms(2-5) by (simp add: GetIntervalData_def GetInterval_def Let_def)
qed

text \<open>A text with a part that is out of range leaves the driver with the exception of the parser.\<close>

lemma interval_text_escapes:
  assumes "lt_id (eng_type eng val) = LogicalTypeId_VARCHAR" "Interval_FromCString (eng_string eng val) = None"
  shows "GetIntervalData (calendar_engine eng) dsn setter val q ind h m = None"
  using assms by (simp add: GetIntervalData_def GetInterval_def Let_def)

section \<open>Infinite values\<close>

text \<open>
  An infinite TIMESTAMP as SQL\_C\_TYPE\_TIMESTAMP leaves the driver with the exception of
  \<^verbatim>\<open>Timestamp::GetTime\<close>.
\<close>

lemma infinite_timestamp_escapes:
  assumes "lt_id (eng_type eng val) = LogicalTypeId_TIMESTAMP" "\<bar>eng_int64 eng val\<bar> = timestamp_infinity"
  shows "GetTimestamp (calendar_engine eng) dsn val q ind h m = None"
proof -
  have "\<not> IsFinite (eng_int64 eng val)" using assms(2) by (auto simp: IsFinite_def)
  then show ?thesis
    using assms(1) by (simp add: GetTimestamp_def Let_def timestamp_units_def from_epoch_micros store_timestamp_def GetTime_def)
qed

lemma infinite_date_parts: "Date_Convert date_infinity = Some (5881580, 7, 11)"
proof -
  have "Date_Convert (year_start 5881580 + month_starts 5881580 ! nat (7 - 1) + (11 - 1)) = Some (5881580, 7, 11)"
    by (rule Date_Convert_value) (simp_all add: year_start_ends LEAP_DAYS_def)
  then show ?thesis by (simp add: year_start_ends CUMULATIVE_LEAP_DAYS_def date_infinity_def)
qed

text \<open>An infinite DATE is delivered with success, as a day of a year that was cut to 16 bits.\<close>

lemma infinite_date_delivered:
  assumes "lt_id (eng_type eng val) = LogicalTypeId_DATE" "eng_int64 eng val = date_infinity"
  shows "\<exists>m'. GetDateOrTime (calendar_engine eng) dsn LogicalTypeId_DATE tc sc (store_date (calendar_engine eng)) val q nullptr h m =
      Some (SQL_SUCCESS, h, m') \<and> load_s 2 q m' = -16660 \<and> load_u 2 (q + 2) m' = 7 \<and> load_u 2 (q + 4) m' = 11"
proof -
  have "load_s 2 q (store_int 2 q 5881580 m) = -16660"
    by (simp add: load_s_def load_store_u wrap_s_def)
  then show ?thesis
    using assms by (simp add: GetDateOrTime_def Let_def store_date_def infinite_date_parts store_opt_def
        load_store_int_disjoint load_store_u)
qed

text \<open>The parts of a TIME parameter are not checked: hour 200 is accepted.\<close>

lemma time_parameter_unchecked:
  "\<not> IsValidTime h mi s us \<Longrightarrow> \<exists>t. temporal_number (PTime h mi s us) = Some t"
  by simp

end
