(* ===== verification/Time_Zone.thy ===== *)
theory Time_Zone
  imports Engine_Calendar Statement_Data
begin

text \<open>
  \<^verbatim>\<open>GetUTCOffsetMicrosFromOS\<close> of \<^verbatim>\<open>src/odbc_driver/common/odbc_utils.cpp\<close>, as it is built outside Windows:
  the offset of local time at an instant, from the C library. The functions of the library that know
  the zone are a parameter, \<^verbatim>\<open>os_time\<close>; None is a null result, and \<^verbatim>\<open>os_errno\<close> the text of \<^verbatim>\<open>errno\<close>.
\<close>

record tm =
  tm_year :: int
  tm_mon :: int
  tm_mday :: int
  tm_hour :: int
  tm_min :: int
  tm_sec :: int
  tm_isdst :: int

record os_time =
  gmtime_r :: "int \<Rightarrow> tm option"
  localtime_r :: "int \<Rightarrow> tm option"
  mktime :: "tm \<Rightarrow> int"
  os_errno :: string

text \<open>
  Inl is the message of the diagnostic record that goes with the result 0. \<^verbatim>\<open>difftime\<close> is exact for the
  differences of two local times.
\<close>

definition GetUTCOffsetMicrosFromOS :: "os_time \<Rightarrow> int \<Rightarrow> string + int" where
  "GetUTCOffsetMicrosFromOS os utc_micros =
     (let failed = (\<lambda>what. Inl (what @ '' failed, input value: '' @ to_string utc_micros @ '', error code: '' @ os_errno os));
          utc_seconds_since_epoch = utc_micros sdiv 1000000
      in
      case gmtime_r os utc_seconds_since_epoch of
        None \<Rightarrow> failed ''gmtime_r''
      | Some utc_time_struct \<Rightarrow>
      (case localtime_r os utc_seconds_since_epoch of
        None \<Rightarrow> failed ''localtime_r''
      | Some local_time_struct \<Rightarrow>
        let local_time = mktime os (local_time_struct\<lparr>tm_isdst := 0\<rparr>) in
        if local_time = -1 then failed ''mktime local''
        else
          let utc_time = mktime os utc_time_struct in
          if utc_time = -1 then failed ''mktime utc''
          else Inr ((local_time - utc_time) * 1000000)))"

definition os_engine :: "os_time \<Rightarrow> 'v engine \<Rightarrow> 'v engine" where
  "os_engine os eng = eng\<lparr>eng_utc_offset := GetUTCOffsetMicrosFromOS os\<rparr>"

section \<open>Zones\<close>

text \<open>The seconds a broken-down time stands for when it is read as UTC.\<close>

definition tm_seconds :: "tm \<Rightarrow> int option" where
  "tm_seconds t = map_option (\<lambda>days. ((days * 24 + tm_hour t) * 60 + tm_min t) * 60 + tm_sec t)
     (FromDate (1900 + tm_year t) (tm_mon t + 1) (tm_mday t))"

definition tm_of_seconds :: "int \<Rightarrow> tm option" where
  "tm_of_seconds s = map_option (\<lambda>(y, m, d).
       \<lparr>tm_year = y - 1900, tm_mon = m - 1, tm_mday = d, tm_hour = s mod 86400 div 3600, tm_min = s mod 3600 div 60,
        tm_sec = s mod 60, tm_isdst = 0\<rparr>) (Date_Convert (s div 86400))"

text \<open>A zone that is \<^verbatim>\<open>off\<close> seconds ahead of UTC at every instant.\<close>

definition fixed_zone :: "int \<Rightarrow> os_time" where
  "fixed_zone off =
     \<lparr>gmtime_r = tm_of_seconds, localtime_r = (\<lambda>s. tm_of_seconds (s + off)),
      mktime = (\<lambda>t. case tm_seconds t of None \<Rightarrow> -1 | Some s \<Rightarrow> s - off), os_errno = ''0''\<rparr>"

lemma place_value:
  "s = 86400 * a + b \<Longrightarrow> b = 3600 * c + d \<Longrightarrow> d = 60 * e + f \<Longrightarrow> ((a * 24 + c) * 60 + e) * 60 + f = (s :: int)"
  by simp

lemma tm_seconds_of_seconds:
  assumes "\<bar>s div 86400\<bar> < date_infinity"
  obtains t where "tm_of_seconds s = Some t" "tm_seconds t = Some s" "tm_isdst t = 0"
proof -
  obtain y m d where c: "Date_Convert (s div 86400) = Some (y, m, d)" "FromDate y m d = Some (s div 86400)"
    using Date_Convert_inverse[of "s div 86400"] assms by metis
  have "((s div 86400 * 24 + s mod 86400 div 3600) * 60 + s mod 3600 div 60) * 60 + s mod 60 = s"
  proof (rule place_value)
    show "s = 86400 * (s div 86400) + s mod 86400" by simp
    have "s mod 86400 mod 3600 = s mod 3600" by (simp add: mod_mod_cancel)
    then show "s mod 86400 = 3600 * (s mod 86400 div 3600) + s mod 3600" by (metis mult_div_mod_eq)
    have "s mod 3600 mod 60 = s mod 60" by (simp add: mod_mod_cancel)
    then show "s mod 3600 = 60 * (s mod 3600 div 60) + s mod 60" by (metis mult_div_mod_eq)
  qed
  then show thesis
    using c by (intro that[of "\<lparr>tm_year = y - 1900, tm_mon = m - 1, tm_mday = d, tm_hour = s mod 86400 div 3600,
        tm_min = s mod 3600 div 60, tm_sec = s mod 60, tm_isdst = 0\<rparr>"]) (simp_all add: tm_of_seconds_def tm_seconds_def)
qed

text \<open>
  C38. As it is built outside Windows, the offset comes from reading two broken-down times of the instant
  as standard time, that of UTC and that of the zone. When \<^verbatim>\<open>mktime\<close> takes away for each the standard
  offset that is in force at it, the result is the offset of local time, summer time included, less
  the difference of the two standard offsets: it is right exactly when they are the same. It fails
  where a \<^verbatim>\<open>mktime\<close> is -1, the value of an error.
\<close>

theorem utc_offset_of_zone:
  assumes "gmtime_r os (utc sdiv 1000000) = Some g" "tm_seconds g = Some (utc sdiv 1000000)" "tm_isdst g = 0"
    "localtime_r os (utc sdiv 1000000) = Some l" "tm_seconds l = Some (utc sdiv 1000000 + off)"
    "\<And>t s. tm_isdst t = 0 \<Longrightarrow> tm_seconds t = Some s \<Longrightarrow> mktime os t = s - std s"
    "std_utc = std (utc sdiv 1000000)" "std_local = std (utc sdiv 1000000 + off)"
  shows "if utc sdiv 1000000 \<in> {std_utc - 1, std_local - off - 1} then \<exists>msg. GetUTCOffsetMicrosFromOS os utc = Inl msg
     else \<exists>res. GetUTCOffsetMicrosFromOS os utc = Inr res \<and> res = (off - (std_local - std_utc)) * 1000000 \<and>
       (res = off * 1000000 \<longleftrightarrow> std_local = std_utc)"
proof -
  have "tm_seconds (l\<lparr>tm_isdst := 0\<rparr>) = Some (utc sdiv 1000000 + off)" using assms(5) by (simp add: tm_seconds_def)
  then have "mktime os (l\<lparr>tm_isdst := 0\<rparr>) = utc sdiv 1000000 + off - std_local" "mktime os g = utc sdiv 1000000 - std_utc"
    using assms(2,3,6-8) by simp_all
  then show ?thesis using assms(1,4) by (auto simp: GetUTCOffsetMicrosFromOS_def Let_def)
qed

text \<open>A zone one hour ahead that is in its summer time.\<close>

definition summer_zone :: os_time where
  "summer_zone = (fixed_zone 3600)\<lparr>localtime_r := (\<lambda>s. map_option (\<lambda>t. t\<lparr>tm_isdst := 1\<rparr>) (tm_of_seconds (s + 7200)))\<rparr>"

theorem utc_offset_of_zone_witness:
  "GetUTCOffsetMicrosFromOS summer_zone 86400000000 = Inr 7200000000"
proof -
  obtain g where g: "tm_of_seconds 86400 = Some g" "tm_seconds g = Some 86400" "tm_isdst g = 0"
    using tm_seconds_of_seconds[of 86400] by (auto simp: date_infinity_def)
  obtain l where l: "tm_of_seconds 93600 = Some l" "tm_seconds l = Some 93600"
    using tm_seconds_of_seconds[of 93600] by (auto simp: date_infinity_def)
  have zone: "mktime summer_zone t = s - 3600" if "tm_isdst t = 0" "tm_seconds t = Some s" for t s
    using that by (simp add: summer_zone_def fixed_zone_def)
  have u: "(86400000000 :: int) sdiv 1000000 = 86400" by (simp add: signed_nonneg)
  have i: "gmtime_r summer_zone 86400 = Some g" "localtime_r summer_zone 86400 = Some (l\<lparr>tm_isdst := 1\<rparr>)"
    using g(1) l(1) by (simp_all add: summer_zone_def fixed_zone_def)
  have sums: "tm_seconds (l\<lparr>tm_isdst := 1\<rparr>) = Some (86400 + 7200)" using l(2) by (simp add: tm_seconds_def)
  note offset = utc_offset_of_zone[where os = summer_zone and utc = 86400000000 and g = g and l = "l\<lparr>tm_isdst := 1\<rparr>"
      and off = 7200 and std = "\<lambda>_. 3600" and std_utc = 3600 and std_local = 3600, unfolded u,
      OF i(1) g(2,3) i(2) sums zone refl refl]
  show ?thesis using offset by simp
qed

text \<open>
  A zone whose standard offset goes from one hour to two at the local time \<^verbatim>\<open>at\<close>: in the two hours behind
  the change, the time of UTC is read with the old offset, and the result is one hour short.
\<close>

definition changing_zone :: "int \<Rightarrow> os_time" where
  "changing_zone at =
     \<lparr>gmtime_r = tm_of_seconds, localtime_r = (\<lambda>s. tm_of_seconds (s + (if s + 3600 < at then 3600 else 7200))),
      mktime = (\<lambda>t. case tm_seconds t of None \<Rightarrow> -1 | Some s \<Rightarrow> s - (if s < at then 3600 else 7200)), os_errno = ''0''\<rparr>"

lemma offset_wrong_behind_change:
  "GetUTCOffsetMicrosFromOS (changing_zone 86400) 82800000000 = Inr 3600000000"
  "localtime_r (changing_zone 86400) 82800 = tm_of_seconds (82800 + 7200)"
proof -
  obtain g where g: "tm_of_seconds 82800 = Some g" "tm_seconds g = Some 82800"
    using tm_seconds_of_seconds[of 82800] by (auto simp: date_infinity_def)
  obtain l where l: "tm_of_seconds 90000 = Some l" "tm_seconds l = Some 90000"
    using tm_seconds_of_seconds[of 90000] by (auto simp: date_infinity_def)
  have u: "(82800000000 :: int) sdiv 1000000 = 82800" by (simp add: signed_nonneg)
  have "tm_seconds (l\<lparr>tm_isdst := 0\<rparr>) = Some 90000" using l(2) by (simp add: tm_seconds_def)
  then show "GetUTCOffsetMicrosFromOS (changing_zone 86400) 82800000000 = Inr 3600000000"
    using g l by (simp add: GetUTCOffsetMicrosFromOS_def u changing_zone_def Let_def)
  show "localtime_r (changing_zone 86400) 82800 = tm_of_seconds (82800 + 7200)" by (simp add: changing_zone_def)
qed

text \<open>A zone two hours ahead; the last second of 1969 is not converted.\<close>

lemma last_second_of_1969:
  "\<exists>msg. GetUTCOffsetMicrosFromOS (fixed_zone 7200) (-1000000) = Inl msg"
proof -
  obtain g where g: "tm_of_seconds (-1) = Some g" using tm_seconds_of_seconds[of "-1"] by (auto simp: date_infinity_def)
  obtain l where l: "tm_of_seconds 7199 = Some l" "tm_seconds l = Some 7199" "tm_isdst l = 0"
    using tm_seconds_of_seconds[of 7199] by (auto simp: date_infinity_def)
  have "tm_seconds (l\<lparr>tm_isdst := 0\<rparr>) = Some 7199" using l(2) by (simp add: tm_seconds_def)
  then show ?thesis using g l(1)
    by (simp add: GetUTCOffsetMicrosFromOS_def fixed_zone_def Let_def signed_divide_int_def)
qed

end
